(* ===== verification/Prelude.thy ===== *)
theory Prelude
  imports Main "HOL-Library.State_Monad"
begin

text \<open>
  The ground every other theory stands on.

  A Go method that talks to the Kubernetes API server, to OpenBao, to a clock or to a
  mutex-protected field is a value of \<open>('s, 'a) state\<close> (\<^verbatim>\<open>HOL-Library.State_Monad\<close>):
  \<open>'s\<close> is everything outside the local variables of the method and \<open>'a\<close> is what the
  method returns.  The calls that leave the repository (an API request, an HTTP exchange)
  are themselves parameters of that type, so every theorem below holds for every behaviour
  of the environment unless a hypothesis restricts it.

  This theory holds the weakest-precondition predicate \<open>wp\<close> used to reason about such
  methods, the \<open>logged\<close> transformer that records which calls a method made, in which
  order and with which answer, and the trace predicate \<open>guarded\<close> (every event is
  justified by the events before it).
\<close>

section \<open>Fact collections\<close>

named_theorems wp_simps \<open>weakest preconditions of the statements of a method\<close>
named_theorems trace_simps \<open>guardedness of extended traces\<close>
named_theorems go_simps \<open>evaluation of the library functions\<close>

section \<open>Methods and their weakest preconditions\<close>

abbreviation ret :: "'a \<Rightarrow> ('s, 'a) state" where
  "ret \<equiv> State_Monad.return"

definition wp :: "('s, 'a) state \<Rightarrow> ('a \<Rightarrow> 's \<Rightarrow> bool) \<Rightarrow> 's \<Rightarrow> bool" where
  "wp m Q s = (case run_state m s of (a, s') \<Rightarrow> Q a s')"

lemma wp_ret [wp_simps]: "wp (ret a) Q s = Q a s"
  by (simp add: wp_def)

lemma wp_bind [wp_simps]: "wp (State_Monad.bind m f) Q s = wp m (\<lambda>a. wp (f a) Q) s"
  by (simp add: wp_def split: prod.splits)

lemma wp_if [wp_simps]: "wp (if b then m else n) Q s = (if b then wp m Q s else wp n Q s)"
  by simp

lemma wp_case_sum [wp_simps]:
  "wp (case r of Inl e \<Rightarrow> f e | Inr x \<Rightarrow> g x) Q s
     = (case r of Inl e \<Rightarrow> wp (f e) Q s | Inr x \<Rightarrow> wp (g x) Q s)"
  by (cases r) auto

lemma wp_case_option [wp_simps]:
  "wp (case r of None \<Rightarrow> f | Some x \<Rightarrow> g x) Q s
     = (case r of None \<Rightarrow> wp f Q s | Some x \<Rightarrow> wp (g x) Q s)"
  by (cases r) auto

lemma wp_case_prod [wp_simps]:
  "wp (case p of (x, y) \<Rightarrow> f x y) Q s = (case p of (x, y) \<Rightarrow> wp (f x y) Q s)"
  by (cases p) auto

lemma wp_Let [wp_simps]: "wp (let x = t in f x) Q s = (let x = t in wp (f x) Q s)"
  by (simp add: Let_def)

lemma wpI: "(\<And>a s'. run_state m s = (a, s') \<Longrightarrow> Q a s') \<Longrightarrow> wp m Q s"
  by (auto simp: wp_def split: prod.splits)

lemma wp_all: "(\<And>a s'. Q a s') \<Longrightarrow> wp m Q s"
  by (rule wpI)

lemma wp_mono: "wp m P s \<Longrightarrow> (\<And>a s'. P a s' \<Longrightarrow> Q a s') \<Longrightarrow> wp m Q s"
  by (auto simp: wp_def split: prod.splits)

lemma wp_conj: "wp m P s \<Longrightarrow> wp m Q s \<Longrightarrow> wp m (\<lambda>a s'. P a s' \<and> Q a s') s"
  by (auto simp: wp_def split: prod.splits)

lemma wp_run: "wp m Q s \<longleftrightarrow> Q (fst (run_state m s)) (snd (run_state m s))"
  by (simp add: wp_def split: prod.splits)

lemma wpD: "wp m Q s \<Longrightarrow> run_state m s = (a, s') \<Longrightarrow> Q a s'"
  by (simp add: wp_def)

section \<open>Recording the calls of a method\<close>

text \<open>
  \<open>logged ev m\<close> behaves like the call \<open>m\<close> and appends the event \<open>ev a\<close> (which call it
  was, with which arguments, answered by \<open>a\<close>) to the trace.  A controller is run over
  the logged version of its environment, so a theorem about its trace is a theorem about
  the requests the code issues; the definitions of the controllers themselves are untouched.
\<close>

definition logged :: "('a \<Rightarrow> 'e) \<Rightarrow> ('s, 'a) state \<Rightarrow> ('s \<times> 'e list, 'a) state" where
  "logged ev m = State (\<lambda>(s, tr). case run_state m s of (a, s') \<Rightarrow> (a, (s', tr @ [ev a])))"

definition silent :: "('s, 'a) state \<Rightarrow> ('s \<times> 'e list, 'a) state" where
  "silent m = State (\<lambda>(s, tr). case run_state m s of (a, s') \<Rightarrow> (a, (s', tr)))"

lemma run_logged [simp]:
  "run_state (logged ev m) (s, tr)
     = (case run_state m s of (a, s') \<Rightarrow> (a, (s', tr @ [ev a])))"
  by (simp add: logged_def)

lemma run_silent [simp]:
  "run_state (silent m) (s, tr) = (case run_state m s of (a, s') \<Rightarrow> (a, (s', tr)))"
  by (simp add: silent_def)

text \<open>
  What a logged call may return and what the environment does meanwhile is arbitrary:
  these two rules are all the trace proofs know about it.
\<close>

lemma wp_loggedI: "(\<And>a s'. Q a (s', tr @ [ev a])) \<Longrightarrow> wp (logged ev m) Q (s, tr)"
  by (auto simp: wp_def split: prod.splits)

lemma wp_silentI: "(\<And>a s'. Q a (s', tr)) \<Longrightarrow> wp (silent m) Q (s, tr)"
  by (auto simp: wp_def split: prod.splits)

section \<open>Guarded traces\<close>

fun guarded_from :: "('e list \<Rightarrow> 'e \<Rightarrow> bool) \<Rightarrow> 'e list \<Rightarrow> 'e list \<Rightarrow> bool" where
  "guarded_from P pre [] = True"
| "guarded_from P pre (e # es) = (P pre e \<and> guarded_from P (pre @ [e]) es)"

definition guarded :: "('e list \<Rightarrow> 'e \<Rightarrow> bool) \<Rightarrow> 'e list \<Rightarrow> bool" where
  "guarded P tr = guarded_from P [] tr"

lemma guarded_from_append:
  "guarded_from P pre (xs @ ys) \<longleftrightarrow> guarded_from P pre xs \<and> guarded_from P (pre @ xs) ys"
  by (induction xs arbitrary: pre) auto

lemma guarded_Nil [simp, trace_simps]: "guarded P []"
  by (simp add: guarded_def)

lemma guarded_append [trace_simps]:
  "guarded P (tr @ es) \<longleftrightarrow> guarded P tr \<and> guarded_from P tr es"
  by (simp add: guarded_def guarded_from_append)

lemma guarded_snoc: "guarded P (tr @ [e]) \<longleftrightarrow> guarded P tr \<and> P tr e"
  by (simp add: guarded_def guarded_from_append)

text \<open>The executable formulation means what it should: every prefix justifies its next event.\<close>

lemma guarded_from_iff:
  "guarded_from P pre tr \<longleftrightarrow> (\<forall>xs e ys. tr = xs @ e # ys \<longrightarrow> P (pre @ xs) e)"
proof (induction tr arbitrary: pre)
  case Nil
  then show ?case by simp
next
  case (Cons a tr)
  show ?case
    by (auto simp: Cons.IH Cons_eq_append_conv)
qed

lemma guarded_iff: "guarded P tr \<longleftrightarrow> (\<forall>xs e ys. tr = xs @ e # ys \<longrightarrow> P xs e)"
  by (simp add: guarded_def guarded_from_iff)

lemma guarded_mono: "guarded P tr \<Longrightarrow> (\<And>pre e. P pre e \<Longrightarrow> Q pre e) \<Longrightarrow> guarded Q tr"
  by (simp add: guarded_iff)

lemma guarded_mem: "guarded P tr \<Longrightarrow> e \<in> set tr \<Longrightarrow> \<exists>pre post. tr = pre @ e # post \<and> P pre e"
  by (metis guarded_iff split_list)

section \<open>Lists, options and sums\<close>

lemma sum_all_iff: "(\<forall>r. P r) \<longleftrightarrow> (\<forall>e. P (Inl e)) \<and> (\<forall>x. P (Inr x))"
  by (metis sum.exhaust_sel)

lemma map_snoc [simp]: "map f (xs @ [x]) = map f xs @ [f x]"
  by simp

lemma filter_snoc: "filter P (xs @ [x]) = filter P xs @ (if P x then [x] else [])"
  by simp

lemma set_minus_filter: "set (filter (\<lambda>x. x \<notin> set ys) xs) = set xs - set ys"
  by auto

end
