(* ===== verification/GoLib.thy ===== *)
theory GoLib
  imports Prelude "HOL-Library.Char_ord" "HOL-Library.List_Lexorder"
    "HOL-Library.Finite_Map" "HOL-Library.Word"
begin

text \<open>
  The parts of Go's standard library the program uses: \<^verbatim>\<open>strings\<close>,
  \<^verbatim>\<open>slices\<close>, \<^verbatim>\<open>maps\<close>, \<^verbatim>\<open>fmt\<close> verbs and \<^verbatim>\<open>time.Duration\<close>.

  A Go string is a sequence of bytes, here a \<open>char list\<close>.  Where the library works on
  Unicode code points (\<^verbatim>\<open>TrimSpace\<close>, \<^verbatim>\<open>ToLower\<close>, \<^verbatim>\<open>IsSpace\<close>) the
  definitions treat the ASCII range as Go does and leave bytes from 128 on alone.
  A slice or map that may be nil is an option (\<open>None\<close> is nil), because
  \<^verbatim>\<open>reflect.DeepEqual\<close> tells a nil slice from an empty one.  Durations are
  nanoseconds, kept in the range of \<^verbatim>\<open>int64\<close> where the code can leave it.
\<close>

section \<open>strings and unicode\<close>

definition IsSpace :: "char \<Rightarrow> bool" where
  "IsSpace c \<longleftrightarrow> (let n = (of_char c :: nat) in n = 32 \<or> 9 \<le> n \<and> n \<le> 13)"

definition TrimLeftFunc :: "(char \<Rightarrow> bool) \<Rightarrow> string \<Rightarrow> string" where
  "TrimLeftFunc p s = dropWhile p s"

definition TrimRightFunc :: "(char \<Rightarrow> bool) \<Rightarrow> string \<Rightarrow> string" where
  "TrimRightFunc p s = rev (dropWhile p (rev s))"

definition TrimSpace :: "string \<Rightarrow> string" where
  "TrimSpace s = TrimRightFunc IsSpace (TrimLeftFunc IsSpace s)"

definition TrimByte :: "char \<Rightarrow> string \<Rightarrow> string" where
  "TrimByte c s = TrimRightFunc (\<lambda>x. x = c) (TrimLeftFunc (\<lambda>x. x = c) s)"

definition TrimRightByte :: "char \<Rightarrow> string \<Rightarrow> string" where
  "TrimRightByte c s = TrimRightFunc (\<lambda>x. x = c) s"

fun SplitByte :: "char \<Rightarrow> string \<Rightarrow> string list" where
  "SplitByte c [] = [[]]"
| "SplitByte c (x # xs) =
     (if x = c then [] # SplitByte c xs
      else (case SplitByte c xs of [] \<Rightarrow> [[x]] | w # ws \<Rightarrow> (x # w) # ws))"

definition HasPrefix :: "string \<Rightarrow> string \<Rightarrow> bool" where
  "HasPrefix s p \<longleftrightarrow> take (length p) s = p"

definition HasSuffix :: "string \<Rightarrow> string \<Rightarrow> bool" where
  "HasSuffix s p \<longleftrightarrow> HasPrefix (rev s) (rev p)"

fun Contains :: "string \<Rightarrow> string \<Rightarrow> bool" where
  "Contains [] sub = (sub = [])"
| "Contains (c # cs) sub = (HasPrefix (c # cs) sub \<or> Contains cs sub)"

definition lower_char :: "char \<Rightarrow> char" where
  "lower_char c = (let n = (of_char c :: nat) in if 65 \<le> n \<and> n \<le> 90 then char_of (n + 32) else c)"

definition upper_char :: "char \<Rightarrow> char" where
  "upper_char c = (let n = (of_char c :: nat) in if 97 \<le> n \<and> n \<le> 122 then char_of (n - 32) else c)"

definition ToLower :: "string \<Rightarrow> string" where
  "ToLower s = map lower_char s"

definition ToUpper :: "string \<Rightarrow> string" where
  "ToUpper s = map upper_char s"

definition EqualFold :: "string \<Rightarrow> string \<Rightarrow> bool" where
  "EqualFold s t \<longleftrightarrow> ToLower s = ToLower t"

definition hasSpace :: "string \<Rightarrow> bool" where
  "hasSpace s \<longleftrightarrow> list_ex IsSpace s"

section \<open>fmt verbs\<close>

definition hex_digit :: "nat \<Rightarrow> char" where
  "hex_digit n = (if n < 10 then char_of (48 + n) else char_of (87 + n))"

definition quote_char :: "char \<Rightarrow> string" where
  "quote_char c = (let n = (of_char c :: nat) in
     if n = 34 \<or> n = 92 then [CHR 0x5C, c]
     else if n = 7 then [CHR 0x5C, CHR ''a'']
     else if n = 8 then [CHR 0x5C, CHR ''b'']
     else if n = 9 then [CHR 0x5C, CHR ''t'']
     else if n = 10 then [CHR 0x5C, CHR ''n'']
     else if n = 11 then [CHR 0x5C, CHR ''v'']
     else if n = 12 then [CHR 0x5C, CHR ''f'']
     else if n = 13 then [CHR 0x5C, CHR ''r'']
     else if n < 32 \<or> n = 127 then [CHR 0x5C, CHR ''x'', hex_digit (n div 16), hex_digit (n mod 16)]
     else [c])"

definition fmt_q :: "string \<Rightarrow> string" where
  "fmt_q s = [CHR 0x22] @ concat (map quote_char s) @ [CHR 0x22]"

fun dec_nat :: "nat \<Rightarrow> string" where
  "dec_nat n = (if n < 10 then [char_of (48 + n)] else dec_nat (n div 10) @ [char_of (48 + n mod 10)])"

declare dec_nat.simps [simp del]

definition fmt_d :: "int \<Rightarrow> string" where
  "fmt_d i = (if i < 0 then CHR ''-'' # dec_nat (nat (- i)) else dec_nat (nat i))"

section \<open>Slices and maps\<close>

type_synonym 'a slice = "'a list option"
type_synonym strmap = "(string, string) fmap option"

definition elems :: "'a slice \<Rightarrow> 'a list" where
  "elems s = (case s of None \<Rightarrow> [] | Some xs \<Rightarrow> xs)"

text \<open>\<^verbatim>\<open>append([]T(nil), xs...)\<close> stays nil when there is nothing to append.\<close>

definition append_nil :: "'a list \<Rightarrow> 'a slice" where
  "append_nil xs = (if xs = [] then None else Some xs)"

definition map_entries :: "strmap \<Rightarrow> (string, string) fmap" where
  "map_entries m = (case m of None \<Rightarrow> fmempty | Some f \<Rightarrow> f)"

definition maps_Equal :: "strmap \<Rightarrow> strmap \<Rightarrow> bool" where
  "maps_Equal a b \<longleftrightarrow> map_entries a = map_entries b"

definition Compact :: "'a list \<Rightarrow> 'a list" where
  "Compact xs = remdups_adj xs"

lemma elems_simps [simp]: "elems None = []" "elems (Some xs) = xs"
  by (simp_all add: elems_def)

lemma elems_append_nil [simp]: "elems (append_nil xs) = xs"
  by (simp add: append_nil_def)

section \<open>time.Duration\<close>

definition wrap64 :: "int \<Rightarrow> int" where
  "wrap64 n = sint (word_of_int n :: 64 word)"

definition Second :: int where
  "Second = 1000000000"

definition Minute :: int where
  "Minute = 60 * Second"

definition maxDuration :: int where
  "maxDuration = 2 ^ 63 - 1"

definition minDuration :: int where
  "minDuration = - (2 ^ 63)"

text \<open>Integer division of Go truncates towards zero.\<close>

definition go_div :: "int \<Rightarrow> int \<Rightarrow> int" where
  "go_div a b = sgn a * sgn b * (\<bar>a\<bar> div \<bar>b\<bar>)"

definition go_mod :: "int \<Rightarrow> int \<Rightarrow> int" where
  "go_mod a b = a - b * go_div a b"

text \<open>\<^verbatim>\<open>Time.Sub\<close> saturates at the bounds of a duration.\<close>

definition time_Sub :: "int \<Rightarrow> int \<Rightarrow> int" where
  "time_Sub t u = max minDuration (min maxDuration (t - u))"

lemma wrap64_id: "minDuration \<le> n \<Longrightarrow> n \<le> maxDuration \<Longrightarrow> wrap64 n = n"
  unfolding wrap64_def minDuration_def maxDuration_def
  by (simp add: sint_sbintrunc' signed_take_bit_int_eq_self)

section \<open>Lemmas\<close>

lemma TrimRightFunc_snoc:
  "TrimRightFunc p (xs @ [x]) = (if p x then TrimRightFunc p xs else xs @ [x])"
  by (simp add: TrimRightFunc_def)

lemma set_TrimSpace: "set (TrimSpace s) \<subseteq> set s"
  by (auto simp: TrimSpace_def TrimLeftFunc_def TrimRightFunc_def dest!: set_dropWhileD)

lemma dropWhile_idem: "dropWhile p (dropWhile p xs) = dropWhile p xs"
  by (induction xs) auto

lemma TrimRight_keeps_head:
  assumes "s \<noteq> [] \<longrightarrow> \<not> p (hd s)"
  shows "dropWhile p (rev (dropWhile p (rev s))) = rev (dropWhile p (rev s))"
proof (cases "rev (dropWhile p (rev s))")
  case Nil
  then have "dropWhile p (rev s) = []" by (simp only: rev_is_Nil_conv)
  then show ?thesis by (simp only: rev.simps dropWhile.simps)
next
  case (Cons a as)
  have "s = rev (dropWhile p (rev s)) @ rev (takeWhile p (rev s))"
    by (metis rev_append rev_rev_ident takeWhile_dropWhile_id)
  then have s_eq: "s = (a # as) @ rev (takeWhile p (rev s))"
    using Cons by simp
  have "s \<noteq> []" using s_eq by (metis Nil_is_append_conv list.distinct(1))
  moreover have "hd s = a" using s_eq by (metis append_Cons list.sel(1))
  ultimately have "\<not> p a" using assms by simp
  then show ?thesis by (simp add: Cons)
qed

lemma TrimSpace_idem [simp]: "TrimSpace (TrimSpace s) = TrimSpace s"
proof -
  let ?l = "dropWhile IsSpace s"
  have h: "?l \<noteq> [] \<longrightarrow> \<not> IsSpace (hd ?l)"
    using hd_dropWhile by blast
  show ?thesis
    by (simp add: TrimSpace_def TrimLeftFunc_def TrimRightFunc_def
        TrimRight_keeps_head [where s = ?l and p = IsSpace, OF h] dropWhile_idem)
qed

lemma SplitByte_ne [simp]: "SplitByte c s \<noteq> []"
  by (induction s) (auto split: list.splits)

lemma SplitByte_no_sep: "w \<in> set (SplitByte c s) \<Longrightarrow> c \<notin> set w"
proof (induction s arbitrary: w)
  case Nil
  then show ?case by simp
next
  case (Cons x xs)
  then show ?case
    by (cases "SplitByte c xs") (auto split: if_splits)
qed

lemma SplitByte_chars: "w \<in> set (SplitByte c s) \<Longrightarrow> set w \<subseteq> set s"
proof (induction s arbitrary: w)
  case Nil
  then show ?case by simp
next
  case (Cons x xs)
  then show ?case
    by (cases "SplitByte c xs") (fastforce split: if_splits)+
qed

lemma SplitByte_set: "c \<noteq> x \<Longrightarrow> (\<exists>w\<in>set (SplitByte c s). x \<in> set w) \<longleftrightarrow> x \<in> set s"
proof (induction s)
  case Nil
  then show ?case by simp
next
  case (Cons y s)
  then show ?case
    by (cases "SplitByte c s") (auto split: if_splits)
qed

text \<open>Joining the pieces with the separator gives the string back.\<close>

fun JoinByte :: "char \<Rightarrow> string list \<Rightarrow> string" where
  "JoinByte c [] = []"
| "JoinByte c [w] = w"
| "JoinByte c (w # v # ws) = w @ c # JoinByte c (v # ws)"

lemma JoinByte_Split: "JoinByte c (SplitByte c s) = s"
proof (induction s)
  case Nil
  then show ?case by simp
next
  case (Cons x xs)
  obtain w ws where "SplitByte c xs = w # ws"
    by (cases "SplitByte c xs") auto
  with Cons show ?case
    by (cases ws) auto
qed

lemma SplitByte_notin: "c \<notin> set s \<Longrightarrow> SplitByte c s = [s]"
  by (induction s) auto

lemma HasPrefix_append [simp]: "HasPrefix (p @ s) p"
  by (simp add: HasPrefix_def)

lemma Contains_append: "Contains (a @ sub @ b) sub"
proof (induction a)
  case Nil
  have "HasPrefix (sub @ b) sub" by simp
  then show ?case by (cases "sub @ b") (auto simp del: HasPrefix_append)
next
  case (Cons c a)
  then show ?case by simp
qed

lemma hasSpace_iff: "hasSpace s \<longleftrightarrow> (\<exists>c\<in>set s. IsSpace c)"
  by (simp add: hasSpace_def list_ex_iff)

lemma TrimSpace_no_space: "\<not> hasSpace s \<Longrightarrow> TrimSpace s = s"
  by (simp add: hasSpace_iff TrimSpace_def TrimLeftFunc_def TrimRightFunc_def dropWhile_eq_self_iff)
     (metis dropWhile_eq_self_iff hd_in_set rev_rev_ident set_rev)

end
