(* ===== verification/Api.thy ===== *)
theory Api
  imports GoLib
begin

text \<open>
  The custom resources of \<^verbatim>\<open>api/openbao/v1alpha1\<close> that the modelled controllers
  reconcile.  A Go struct is a record with one field per Go field, in the same order; the
  embedded \<^verbatim>\<open>metav1.ObjectMeta\<close> is the record the resource records extend, reduced to
  the fields the program reads or writes.  The prefixes distinguish the fields of different
  structs that share a name in Go (\<open>est_ID\<close> is \<^verbatim>\<open>OpenBaoEntityStatus.ID\<close>).
  A pointer field is an option, a nil-able slice or map an option too.
\<close>

section \<open>Metadata and conditions (k8s.io/apimachinery)\<close>

record ObjectMeta =
  om_Name :: string
  om_Namespace :: string
  om_Generation :: int
  om_Finalizers :: "string list"
  om_DeletionTimestamp :: "int option"

type_synonym NamespacedName = "string \<times> string"

definition ObjectKey :: "'a ObjectMeta_scheme \<Rightarrow> NamespacedName" where
  "ObjectKey o' = (om_Namespace o', om_Name o')"

text \<open>\<^verbatim>\<open>DeletionTimestamp.IsZero()\<close>: nil or the zero time.\<close>

definition notDeleted :: "'a ObjectMeta_scheme \<Rightarrow> bool" where
  "notDeleted o' \<longleftrightarrow> (case om_DeletionTimestamp o' of None \<Rightarrow> True | Some t \<Rightarrow> t = 0)"

datatype ConditionStatus = ConditionTrue | ConditionFalse | ConditionUnknown

record Condition =
  c_Type :: string
  c_Status :: ConditionStatus
  c_Reason :: string
  c_Message :: string
  c_ObservedGeneration :: int
  c_LastTransitionTime :: int

section \<open>common.go\<close>

type_synonym CreationPolicy = string

definition CreationPolicyCreate :: CreationPolicy where
  "CreationPolicyCreate = ''Create''"
definition CreationPolicyAdopt :: CreationPolicy where
  "CreationPolicyAdopt = ''Adopt''"
definition CreationPolicyCreateOrAdopt :: CreationPolicy where
  "CreationPolicyCreateOrAdopt = ''CreateOrAdopt''"

definition AllowsCreation :: "CreationPolicy \<Rightarrow> bool" where
  "AllowsCreation p \<longleftrightarrow> p = '''' \<or> p = CreationPolicyCreate \<or> p = CreationPolicyCreateOrAdopt"

definition AllowsAdoption :: "CreationPolicy \<Rightarrow> bool" where
  "AllowsAdoption p \<longleftrightarrow> p = CreationPolicyAdopt \<or> p = CreationPolicyCreateOrAdopt"

type_synonym DeletionPolicy = string

definition DeletionPolicyDelete :: DeletionPolicy where
  "DeletionPolicyDelete = ''Delete''"
definition DeletionPolicyOrphan :: DeletionPolicy where
  "DeletionPolicyOrphan = ''Orphan''"

definition IsDelete :: "DeletionPolicy \<Rightarrow> bool" where
  "IsDelete p \<longleftrightarrow> p = DeletionPolicyDelete"

record OpenBaoConnectionReference = connref_Name :: string
record OpenBaoEntityReference = entref_Name :: string
record OpenBaoGroupReference = grpref_Name :: string

record SecretKeyReference =
  skr_Name :: string
  skr_Key :: string

section \<open>openbaoconnection\_types.go\<close>

record KubernetesAuthSpec =
  kas_MountPath :: string
  kas_Role :: string

record AppRoleAuthSpec =
  aas_MountPath :: string
  aas_RoleIDSecretRef :: SecretKeyReference
  aas_SecretIDSecretRef :: SecretKeyReference

record OpenBaoConnectionSpec =
  cns_Address :: string
  cns_Namespace :: string
  cns_TokenSecretRef :: "SecretKeyReference option"
  cns_KubernetesAuth :: "KubernetesAuthSpec option"
  cns_AppRole :: "AppRoleAuthSpec option"
  cns_CABundleSecretRef :: "SecretKeyReference option"
  cns_RequestTimeout :: "int option"

record OpenBaoConnectionStatus =
  cnst_ObservedGeneration :: int
  cnst_Version :: string
  cnst_Initialized :: bool
  cnst_Sealed :: bool
  cnst_Standby :: bool
  cnst_Authenticated :: bool
  cnst_Conditions :: "Condition list"

record OpenBaoConnection = ObjectMeta +
  cn_Spec :: OpenBaoConnectionSpec
  cn_Status :: OpenBaoConnectionStatus

section \<open>openbaoentity\_types.go\<close>

record OpenBaoEntitySpec =
  ens_ConnectionRef :: OpenBaoConnectionReference
  ens_CreationPolicy :: CreationPolicy
  ens_DeletionPolicy :: DeletionPolicy
  ens_DriftDetectionInterval :: "int option"
  ens_Metadata :: strmap
  ens_Policies :: "string slice"
  ens_Disabled :: bool

record OpenBaoEntityStatus =
  est_ID :: string
  est_Name :: string
  est_Metadata :: strmap
  est_Policies :: "string slice"
  est_Disabled :: bool
  est_ObservedGeneration :: int
  est_Conditions :: "Condition list"

record OpenBaoEntity = ObjectMeta +
  en_Spec :: OpenBaoEntitySpec
  en_Status :: OpenBaoEntityStatus

section \<open>openbaopolicy\_types.go\<close>

record OpenBaoPolicySpec =
  pos_ConnectionRef :: OpenBaoConnectionReference
  pos_CreationPolicy :: CreationPolicy
  pos_DeletionPolicy :: DeletionPolicy
  pos_DriftDetectionInterval :: "int option"
  pos_Rules :: string

record OpenBaoPolicyStatus =
  pst_Name :: string
  pst_RulesHash :: string
  pst_Version :: int
  pst_ObservedGeneration :: int
  pst_Conditions :: "Condition list"

record OpenBaoPolicy = ObjectMeta +
  po_Spec :: OpenBaoPolicySpec
  po_Status :: OpenBaoPolicyStatus

section \<open>openbaoentityalias\_types.go\<close>

record OpenBaoEntityAliasSpec =
  als_ConnectionRef :: OpenBaoConnectionReference
  als_EntityRef :: OpenBaoEntityReference
  als_MountAccessor :: string
  als_Name :: string
  als_CreationPolicy :: CreationPolicy
  als_DeletionPolicy :: DeletionPolicy
  als_DriftDetectionInterval :: "int option"

record OpenBaoEntityAliasStatus =
  alst_ID :: string
  alst_CanonicalID :: string
  alst_Name :: string
  alst_MountAccessor :: string
  alst_ObservedGeneration :: int
  alst_Conditions :: "Condition list"

record OpenBaoEntityAlias = ObjectMeta +
  al_Spec :: OpenBaoEntityAliasSpec
  al_Status :: OpenBaoEntityAliasStatus

section \<open>openbaogroup\_types.go and openbaogroupmembership\_types.go\<close>

type_synonym OpenBaoGroupType = string

definition OpenBaoGroupTypeInternal :: OpenBaoGroupType where
  "OpenBaoGroupTypeInternal = ''Internal''"
definition OpenBaoGroupTypeExternal :: OpenBaoGroupType where
  "OpenBaoGroupTypeExternal = ''External''"

record OpenBaoGroupSpec =
  grs_ConnectionRef :: OpenBaoConnectionReference
  grs_Type :: OpenBaoGroupType
  grs_CreationPolicy :: CreationPolicy
  grs_DeletionPolicy :: DeletionPolicy
  grs_DriftDetectionInterval :: "int option"
  grs_Metadata :: strmap
  grs_Policies :: "string slice"

record OpenBaoGroupStatus =
  grst_ID :: string
  grst_Name :: string
  grst_Type :: OpenBaoGroupType
  grst_Metadata :: strmap
  grst_Policies :: "string slice"
  grst_MemberEntityIDs :: "string slice"
  grst_MemberGroupIDs :: "string slice"
  grst_ManagedMemberEntityIDs :: "string slice"
  grst_ManagedMemberGroupIDs :: "string slice"
  grst_ObservedGeneration :: int
  grst_Conditions :: "Condition list"

record OpenBaoGroup = ObjectMeta +
  gr_Spec :: OpenBaoGroupSpec
  gr_Status :: OpenBaoGroupStatus

record OpenBaoGroupMembershipSpec =
  gms_GroupRef :: OpenBaoGroupReference
  gms_EntityRef :: "OpenBaoEntityReference option"
  gms_MemberGroupRef :: "OpenBaoGroupReference option"

record OpenBaoGroupMembershipStatus =
  gmst_GroupID :: string
  gmst_MemberID :: string
  gmst_MemberType :: string
  gmst_ObservedGeneration :: int
  gmst_Conditions :: "Condition list"

record OpenBaoGroupMembership = ObjectMeta +
  gm_Spec :: OpenBaoGroupMembershipSpec
  gm_Status :: OpenBaoGroupMembershipStatus

lemmas policy_consts =
  CreationPolicyCreate_def CreationPolicyAdopt_def CreationPolicyCreateOrAdopt_def
  DeletionPolicyDelete_def DeletionPolicyOrphan_def

lemma creation_xor_adoption:
  "AllowsCreation p \<and> AllowsAdoption p \<longleftrightarrow> p = CreationPolicyCreateOrAdopt"
  by (auto simp: AllowsCreation_def AllowsAdoption_def policy_consts)

end
