(* ===== verification/GoErrors.thy ===== *)
theory GoErrors
  imports GoLib
begin

text \<open>
  Errors as values: the dynamic types an \<^verbatim>\<open>error\<close> of the program can have, their
  \<^verbatim>\<open>Error()\<close> text, and the classification helpers of
  \<^verbatim>\<open>internal/openbaoclient/client.go\<close> (\<^verbatim>\<open>IsNotFound\<close>,
  \<^verbatim>\<open>IsUnauthorized\<close>).

  \<open>Errorf\<close> is an error that carries only its text, \<open>Wrapf\<close> the result of
  \<^verbatim>\<open>fmt.Errorf("...: %w", err)\<close>, \<open>HTTPError\<close> the client's own error type,
  \<open>MembershipResolutionError\<close> the group controller's, and \<open>StatusError\<close> an error of the
  Kubernetes API machinery with its reason and message.  \<open>NilPanic\<close> is not an error value of
  the program: it stands for the run-time panic of dereferencing a nil pointer, which ends the
  method and which controller-runtime turns into an error of the reconciliation.
\<close>

datatype go_error =
    Errorf string
  | Wrapf string go_error
  | HTTPError int string
  | StatusError string string
  | MembershipResolutionError bool go_error
  | NilPanic

definition HTTPError_Error :: "int \<Rightarrow> string \<Rightarrow> string" where
  "HTTPError_Error code body =
     (if body = [] then ''OpenBao API returned HTTP '' @ fmt_d code
      else ''OpenBao API returned HTTP '' @ fmt_d code @ '': '' @ body)"

fun Error :: "go_error \<Rightarrow> string" where
  "Error (Errorf m) = m"
| "Error (Wrapf m e) = m @ '': '' @ Error e"
| "Error (HTTPError c b) = HTTPError_Error c b"
| "Error (StatusError r m) = m"
| "Error (MembershipResolutionError d e) = Error e"
| "Error NilPanic = ''runtime error: invalid memory address or nil pointer dereference''"

text \<open>\<^verbatim>\<open>errors.As(err, &httpErr)\<close>: the first \<open>HTTPError\<close> of the unwrap chain.\<close>

fun as_HTTPError :: "go_error \<Rightarrow> (int \<times> string) option" where
  "as_HTTPError (HTTPError c b) = Some (c, b)"
| "as_HTTPError (Wrapf m e) = as_HTTPError e"
| "as_HTTPError (MembershipResolutionError d e) = as_HTTPError e"
| "as_HTTPError (Errorf m) = None"
| "as_HTTPError (StatusError r m) = None"
| "as_HTTPError NilPanic = None"

text \<open>\<^verbatim>\<open>errors.As(err, &resolutionErr)\<close> for the group controller's error.\<close>

fun as_MembershipResolutionError :: "go_error \<Rightarrow> (bool \<times> go_error) option" where
  "as_MembershipResolutionError (MembershipResolutionError d e) = Some (d, e)"
| "as_MembershipResolutionError (Wrapf m e) = as_MembershipResolutionError e"
| "as_MembershipResolutionError (HTTPError c b) = None"
| "as_MembershipResolutionError (Errorf m) = None"
| "as_MembershipResolutionError (StatusError r m) = None"
| "as_MembershipResolutionError NilPanic = None"

definition StatusNotFound :: int where "StatusNotFound = 404"
definition StatusBadRequest :: int where "StatusBadRequest = 400"
definition StatusUnauthorized :: int where "StatusUnauthorized = 401"
definition StatusForbidden :: int where "StatusForbidden = 403"

definition IsNotFound :: "go_error \<Rightarrow> bool" where
  "IsNotFound err = (case as_HTTPError err of
       None \<Rightarrow> False
     | Some (code, body) \<Rightarrow>
         if code = StatusNotFound then True
         else if code \<noteq> StatusBadRequest then False
         else (let body = ToLower body in
           Contains body ''no auth method mount at'' \<or> Contains body ''no secret engine mount at''))"

definition IsUnauthorized :: "go_error \<Rightarrow> bool" where
  "IsUnauthorized err = (case as_HTTPError err of
       None \<Rightarrow> False
     | Some (code, body) \<Rightarrow> code = StatusUnauthorized \<or> code = StatusForbidden)"

lemmas status_codes = StatusNotFound_def StatusBadRequest_def StatusUnauthorized_def StatusForbidden_def

lemma IsNotFound_Wrapf [simp]: "IsNotFound (Wrapf m e) = IsNotFound e"
  by (simp add: IsNotFound_def)

lemma IsUnauthorized_Wrapf [simp]: "IsUnauthorized (Wrapf m e) = IsUnauthorized e"
  by (simp add: IsUnauthorized_def)

lemma IsNotFound_404 [simp]: "IsNotFound (HTTPError 404 b)"
  by (simp add: IsNotFound_def status_codes)

lemma IsNotFound_Errorf [simp]: "\<not> IsNotFound (Errorf m)"
  by (simp add: IsNotFound_def)

lemma IsNotFound_StatusError [simp]: "\<not> IsNotFound (StatusError r m)"
  by (simp add: IsNotFound_def)

text \<open>The two classifications exclude each other: a rejected token is never read as absence.\<close>

lemma IsUnauthorized_not_IsNotFound: "IsUnauthorized e \<Longrightarrow> \<not> IsNotFound e"
  by (auto simp: IsUnauthorized_def IsNotFound_def status_codes split: option.splits prod.splits)

text \<open>
  A 400 counts as absence only when the server said, in any letter case, that there is no
  auth method or no secret engine mounted.
\<close>

lemma IsNotFound_400:
  "IsNotFound (HTTPError 400 b) \<longleftrightarrow>
     Contains (ToLower b) ''no auth method mount at'' \<or> Contains (ToLower b) ''no secret engine mount at''"
  by (simp add: IsNotFound_def status_codes Let_def)

lemma IsNotFound_other: "c \<noteq> 404 \<Longrightarrow> c \<noteq> 400 \<Longrightarrow> \<not> IsNotFound (HTTPError c b)"
  by (simp add: IsNotFound_def status_codes)

end
