(* ===== verification/Conditions.thy ===== *)
theory Conditions
  imports Api GoErrors
begin

text \<open>
  The status conditions of \<^verbatim>\<open>internal/controller/openbao/common.go\<close>:
  \<^verbatim>\<open>setCondition\<close> and the four \<^verbatim>\<open>mark*\<close> helpers every controller calls.

  \<^verbatim>\<open>metav1.Now()\<close> is an argument (one per call the Go function makes), so that the
  helpers are functions of their inputs.  The interface the helpers rely on, a store keyed by
  condition type in which a write changes one key only, is the locale \<open>keyed_store\<close>; it is
  interpreted on \<open>setCondition\<close>, and the facts about the helpers come from there.
\<close>

section \<open>Constants\<close>

definition finalizerName :: string where
  "finalizerName = ''openbao.openbao-operator.io/finalizer''"
definition dependencyRetry :: int where
  "dependencyRetry = 15 * Second"
definition defaultDriftCheck :: int where
  "defaultDriftCheck = 2 * Minute"
definition conditionReady :: string where
  "conditionReady = ''Ready''"
definition conditionStalled :: string where
  "conditionStalled = ''Stalled''"
definition conditionCleanup :: string where
  "conditionCleanup = ''CleanupRequired''"
definition reasonReconciled :: string where
  "reasonReconciled = ''Reconciled''"
definition reasonCleanupDependencyUnavailable :: string where
  "reasonCleanupDependencyUnavailable = ''CleanupDependencyUnavailable''"

lemmas condition_names = conditionReady_def conditionStalled_def conditionCleanup_def

lemma condition_names_distinct [simp]:
  "conditionReady \<noteq> conditionStalled" "conditionStalled \<noteq> conditionReady"
  "conditionReady \<noteq> conditionCleanup" "conditionCleanup \<noteq> conditionReady"
  "conditionStalled \<noteq> conditionCleanup" "conditionCleanup \<noteq> conditionStalled"
  by (simp_all add: condition_names)

section \<open>setCondition and the mark helpers\<close>

text \<open>Everything but the transition time, which \<^verbatim>\<open>setCondition\<close> does not compare.\<close>

definition sameCondition :: "Condition \<Rightarrow> Condition \<Rightarrow> bool" where
  "sameCondition a b \<longleftrightarrow>
     c_Status a = c_Status b \<and> c_Reason a = c_Reason b \<and>
     c_Message a = c_Message b \<and> c_ObservedGeneration a = c_ObservedGeneration b"

fun setCondition :: "Condition list \<Rightarrow> Condition \<Rightarrow> Condition list" where
  "setCondition [] condition = [condition]"
| "setCondition (current # rest) condition =
     (if c_Type current \<noteq> c_Type condition then current # setCondition rest condition
      else if sameCondition current condition then current # rest
      else condition # rest)"

definition mkCondition ::
  "string \<Rightarrow> ConditionStatus \<Rightarrow> string \<Rightarrow> string \<Rightarrow> int \<Rightarrow> int \<Rightarrow> Condition" where
  "mkCondition ty st reason msg gen now =
     \<lparr>c_Type = ty, c_Status = st, c_Reason = reason, c_Message = msg,
      c_ObservedGeneration = gen, c_LastTransitionTime = now\<rparr>"

definition markReady :: "Condition list \<Rightarrow> int \<Rightarrow> string \<Rightarrow> int \<Rightarrow> int \<Rightarrow> Condition list" where
  "markReady conditions generation message now1 now2 =
     setCondition
       (setCondition conditions
         (mkCondition conditionReady ConditionTrue reasonReconciled message generation now1))
       (mkCondition conditionStalled ConditionFalse ''NotStalled''
         ''The resource is not stalled'' generation now2)"

definition markError :: "Condition list \<Rightarrow> int \<Rightarrow> string \<Rightarrow> go_error option \<Rightarrow> int \<Rightarrow> Condition list" where
  "markError conditions generation reason err now =
     (let message = (case err of None \<Rightarrow> ''OpenBao reconciliation failed'' | Some e \<Rightarrow> Error e)
      in setCondition conditions
           (mkCondition conditionReady ConditionFalse reason message generation now))"

definition markStalled ::
  "Condition list \<Rightarrow> int \<Rightarrow> string \<Rightarrow> go_error option \<Rightarrow> int \<Rightarrow> int \<Rightarrow> Condition list" where
  "markStalled conditions generation reason err now1 now2 =
     (let conditions = markError conditions generation reason err now1;
          message = (case err of
              None \<Rightarrow> ''The resource is blocked until its dependencies or configuration are fixed''
            | Some e \<Rightarrow> Error e)
      in setCondition conditions
           (mkCondition conditionStalled ConditionTrue reason message generation now2))"

definition markCleanupFailure ::
  "Condition list \<Rightarrow> int \<Rightarrow> string \<Rightarrow> go_error \<Rightarrow> int \<Rightarrow> int \<Rightarrow> int \<Rightarrow> Condition list" where
  "markCleanupFailure conditions generation reason err now1 now2 now3 =
     setCondition (markStalled conditions generation reason (Some err) now1 now2)
       (mkCondition conditionCleanup ConditionTrue reason (Error err) generation now3)"

definition findCondition :: "Condition list \<Rightarrow> string \<Rightarrow> Condition option" where
  "findCondition conditions ty = List.find (\<lambda>c. c_Type c = ty) conditions"

text \<open>The list is a map keyed by type (\<^verbatim>\<open>+listType=map\<close>, \<^verbatim>\<open>+listMapKey=type\<close>).\<close>

definition wf_conditions :: "Condition list \<Rightarrow> bool" where
  "wf_conditions conditions \<longleftrightarrow> distinct (map c_Type conditions)"

section \<open>The interface: a store keyed by condition type\<close>

locale keyed_store =
  fixes lookup :: "'m \<Rightarrow> 'k \<Rightarrow> 'v option"
    and put :: "'m \<Rightarrow> 'v \<Rightarrow> 'm"
    and key :: "'v \<Rightarrow> 'k"
    and sim :: "'v \<Rightarrow> 'v \<Rightarrow> bool"
    and wf :: "'m \<Rightarrow> bool"
  assumes put_same: "\<exists>v'. lookup (put m v) (key v) = Some v' \<and> sim v' v"
    and put_other: "k \<noteq> key v \<Longrightarrow> lookup (put m v) k = lookup m k"
    and put_wf: "wf m \<Longrightarrow> wf (put m v)"
    and put_stable: "lookup m (key v) = Some v' \<Longrightarrow> sim v' v \<Longrightarrow> put m v = m"
begin

lemma foldl_wf: "wf m \<Longrightarrow> wf (foldl put m vs)"
  by (induction vs arbitrary: m) (simp_all add: put_wf)

lemma foldl_other: "k \<notin> key ` set vs \<Longrightarrow> lookup (foldl put m vs) k = lookup m k"
  by (induction vs arbitrary: m) (simp_all add: put_other)

text \<open>Every key of a batch of writes with distinct keys holds its own value afterwards.\<close>

lemma foldl_same:
  assumes "distinct (map key vs)" and "v \<in> set vs"
  shows "\<exists>v'. lookup (foldl put m vs) (key v) = Some v' \<and> sim v' v"
  using assms
proof (induction vs arbitrary: m)
  case Nil
  then show ?case by simp
next
  case (Cons w vs)
  show ?case
  proof (cases "v = w")
    case True
    with Cons.prems have "key v \<notin> key ` set vs" by auto
    then have "lookup (foldl put (put m w) vs) (key v) = lookup (put m w) (key v)"
      by (rule foldl_other)
    with True put_same [of m w] show ?thesis by simp
  next
    case False
    with Cons.prems have "distinct (map key vs)" "v \<in> set vs" by simp_all
    then show ?thesis using Cons.IH [of "put m w"] by simp
  qed
qed

text \<open>Repeating a batch that the store already holds changes nothing.\<close>

lemma foldl_stable:
  "(\<And>v. v \<in> set vs \<Longrightarrow> \<exists>v'. lookup m (key v) = Some v' \<and> sim v' v) \<Longrightarrow> foldl put m vs = m"
proof (induction vs)
  case Nil
  then show ?case by simp
next
  case (Cons w vs)
  have "\<exists>v'. lookup m (key w) = Some v' \<and> sim v' w"
    by (rule Cons.prems) simp
  then obtain v' where "lookup m (key w) = Some v'" "sim v' w" by blast
  then have "put m w = m" by (rule put_stable)
  moreover have "foldl put m vs = m"
    by (rule Cons.IH) (rule Cons.prems, simp)
  ultimately show ?case by simp
qed

lemma foldl_idem:
  assumes "distinct (map key vs)" and "\<And>a b v. v \<in> set vs \<Longrightarrow> sim a v \<Longrightarrow> sim v b \<Longrightarrow> sim a b"
    and "list_all2 (\<lambda>v w. key w = key v \<and> sim v w) vs ws"
  shows "foldl put (foldl put m vs) ws = foldl put m vs"
proof (rule foldl_stable)
  fix w assume "w \<in> set ws"
  then obtain i where i: "i < length ws" "w = ws ! i" by (auto simp: in_set_conv_nth)
  with assms(3) have "i < length vs" "key w = key (vs ! i)" "sim (vs ! i) w"
    by (auto simp: list_all2_conv_all_nth)
  then obtain v where v: "v \<in> set vs" "key w = key v" "sim v w"
    using nth_mem by blast
  from foldl_same [OF assms(1) v(1)] obtain v' where
    "lookup (foldl put m vs) (key v) = Some v'" "sim v' v" by blast
  then show "\<exists>v'. lookup (foldl put m vs) (key w) = Some v' \<and> sim v' w"
    using assms(2) [OF v(1) _ v(3)] v(2) by auto
qed

end

lemma findCondition_Cons:
  "findCondition (c # cs) ty = (if c_Type c = ty then Some c else findCondition cs ty)"
  by (simp add: findCondition_def)

lemma findCondition_Nil [simp]: "findCondition [] ty = None"
  by (simp add: findCondition_def)

lemma sameCondition_refl [simp]: "sameCondition c c"
  by (simp add: sameCondition_def)

lemma sameCondition_trans: "sameCondition a b \<Longrightarrow> sameCondition b c \<Longrightarrow> sameCondition a c"
  by (simp add: sameCondition_def)

lemma types_setCondition:
  "c_Type ` set (setCondition cs c) = insert (c_Type c) (c_Type ` set cs)"
  by (induction cs) auto

lemma setCondition_same:
  "\<exists>c'. findCondition (setCondition cs c) (c_Type c) = Some c' \<and> sameCondition c' c"
  by (induction cs) (auto simp: findCondition_Cons)

lemma setCondition_other:
  "ty \<noteq> c_Type c \<Longrightarrow> findCondition (setCondition cs c) ty = findCondition cs ty"
  by (induction cs) (auto simp: findCondition_Cons)

lemma setCondition_wf: "wf_conditions cs \<Longrightarrow> wf_conditions (setCondition cs c)"
proof (induction cs)
  case Nil
  then show ?case by (simp add: wf_conditions_def)
next
  case (Cons a cs)
  then show ?case
    using types_setCondition [of cs c] by (auto simp: wf_conditions_def)
qed

lemma setCondition_stable:
  "findCondition cs (c_Type c) = Some c' \<Longrightarrow> sameCondition c' c \<Longrightarrow> setCondition cs c = cs"
  by (induction cs) (auto simp: findCondition_Cons split: if_splits)

interpretation cond: keyed_store findCondition setCondition c_Type sameCondition wf_conditions
  by unfold_locales
     (simp_all add: setCondition_same setCondition_other setCondition_wf setCondition_stable)

section \<open>What the helpers write\<close>

lemma mkCondition_sel [simp]:
  "c_Type (mkCondition ty st r m g n) = ty" "c_Status (mkCondition ty st r m g n) = st"
  "c_Reason (mkCondition ty st r m g n) = r" "c_Message (mkCondition ty st r m g n) = m"
  "c_ObservedGeneration (mkCondition ty st r m g n) = g"
  by (simp_all add: mkCondition_def)

text \<open>Each helper is a batch of writes; the batches are what the interface's lemmas are about.\<close>

definition readyBatch :: "int \<Rightarrow> string \<Rightarrow> int \<Rightarrow> int \<Rightarrow> Condition list" where
  "readyBatch generation message now1 now2 =
     [mkCondition conditionReady ConditionTrue reasonReconciled message generation now1,
      mkCondition conditionStalled ConditionFalse ''NotStalled''
        ''The resource is not stalled'' generation now2]"

definition stalledBatch :: "int \<Rightarrow> string \<Rightarrow> go_error \<Rightarrow> int \<Rightarrow> int \<Rightarrow> Condition list" where
  "stalledBatch generation reason err now1 now2 =
     [mkCondition conditionReady ConditionFalse reason (Error err) generation now1,
      mkCondition conditionStalled ConditionTrue reason (Error err) generation now2]"

definition cleanupBatch :: "int \<Rightarrow> string \<Rightarrow> go_error \<Rightarrow> int \<Rightarrow> int \<Rightarrow> int \<Rightarrow> Condition list" where
  "cleanupBatch generation reason err now1 now2 now3 =
     stalledBatch generation reason err now1 now2 @
     [mkCondition conditionCleanup ConditionTrue reason (Error err) generation now3]"

lemma markReady_batch: "markReady cs g msg n1 n2 = foldl setCondition cs (readyBatch g msg n1 n2)"
  by (simp add: markReady_def readyBatch_def)

lemma markError_batch:
  "markError cs g r (Some e) n
     = foldl setCondition cs [mkCondition conditionReady ConditionFalse r (Error e) g n]"
  by (simp add: markError_def)

lemma markStalled_batch:
  "markStalled cs g r (Some e) n1 n2 = foldl setCondition cs (stalledBatch g r e n1 n2)"
  by (simp add: markStalled_def markError_def stalledBatch_def Let_def)

lemma markCleanupFailure_batch:
  "markCleanupFailure cs g r e n1 n2 n3 = foldl setCondition cs (cleanupBatch g r e n1 n2 n3)"
  by (simp add: markCleanupFailure_def markStalled_batch cleanupBatch_def)

lemma batches_distinct [simp]:
  "distinct (map c_Type (readyBatch g m n1 n2))"
  "distinct (map c_Type (stalledBatch g r e n1 n2))"
  "distinct (map c_Type (cleanupBatch g r e n1 n2 n3))"
  by (simp_all add: readyBatch_def stalledBatch_def cleanupBatch_def)

lemmas mark_batches = markReady_batch markError_batch markStalled_batch markCleanupFailure_batch

lemma mark_wf:
  assumes "wf_conditions cs"
  shows "wf_conditions (markReady cs g m n1 n2)" "wf_conditions (markError cs g r (Some e) n1)"
    "wf_conditions (markStalled cs g r (Some e) n1 n2)"
    "wf_conditions (markCleanupFailure cs g r e n1 n2 n3)"
  using assms by (simp_all only: mark_batches cond.foldl_wf)

text \<open>A condition with the given status, reason, message and generation is on record.\<close>

definition has_condition ::
  "Condition list \<Rightarrow> string \<Rightarrow> ConditionStatus \<Rightarrow> string \<Rightarrow> string \<Rightarrow> int \<Rightarrow> bool" where
  "has_condition cs ty st reason msg gen \<longleftrightarrow>
     (\<exists>c. findCondition cs ty = Some c \<and> sameCondition c (mkCondition ty st reason msg gen 0))"

lemma has_condition_batch:
  assumes "distinct (map c_Type vs)" "mkCondition ty st reason msg gen n \<in> set vs"
  shows "has_condition (foldl setCondition cs vs) ty st reason msg gen"
proof -
  from cond.foldl_same [OF assms, of cs] obtain c' where
    "findCondition (foldl setCondition cs vs) ty = Some c'"
    "sameCondition c' (mkCondition ty st reason msg gen n)" by auto
  then show ?thesis
    by (auto simp: has_condition_def sameCondition_def)
qed

lemma markReady_Ready: "has_condition (markReady cs g m n1 n2) conditionReady ConditionTrue reasonReconciled m g"
  unfolding markReady_batch
  by (rule has_condition_batch [where n = n1]) (simp_all add: readyBatch_def)

lemma markReady_Stalled:
  "has_condition (markReady cs g m n1 n2) conditionStalled ConditionFalse ''NotStalled''
     ''The resource is not stalled'' g"
  unfolding markReady_batch
  by (rule has_condition_batch [where n = n2]) (simp_all add: readyBatch_def)

lemma markError_Ready:
  "has_condition (markError cs g r (Some e) n) conditionReady ConditionFalse r (Error e) g"
  unfolding markError_batch by (rule has_condition_batch [where n = n]) simp_all

lemma markStalled_both:
  "has_condition (markStalled cs g r (Some e) n1 n2) conditionReady ConditionFalse r (Error e) g"
  "has_condition (markStalled cs g r (Some e) n1 n2) conditionStalled ConditionTrue r (Error e) g"
proof -
  let ?b = "stalledBatch g r e n1 n2"
  have "\<exists>n. mkCondition conditionReady ConditionFalse r (Error e) g n \<in> set ?b"
    "\<exists>n. mkCondition conditionStalled ConditionTrue r (Error e) g n \<in> set ?b"
    by (auto simp: stalledBatch_def)
  then show "has_condition (markStalled cs g r (Some e) n1 n2) conditionReady ConditionFalse r (Error e) g"
    "has_condition (markStalled cs g r (Some e) n1 n2) conditionStalled ConditionTrue r (Error e) g"
    unfolding markStalled_batch by (blast intro: has_condition_batch batches_distinct)+
qed

lemma markCleanupFailure_all:
  "has_condition (markCleanupFailure cs g r e n1 n2 n3) conditionReady ConditionFalse r (Error e) g"
  "has_condition (markCleanupFailure cs g r e n1 n2 n3) conditionStalled ConditionTrue r (Error e) g"
  "has_condition (markCleanupFailure cs g r e n1 n2 n3) conditionCleanup ConditionTrue r (Error e) g"
proof -
  let ?b = "cleanupBatch g r e n1 n2 n3"
  have "\<exists>n. mkCondition conditionReady ConditionFalse r (Error e) g n \<in> set ?b"
    "\<exists>n. mkCondition conditionStalled ConditionTrue r (Error e) g n \<in> set ?b"
    "\<exists>n. mkCondition conditionCleanup ConditionTrue r (Error e) g n \<in> set ?b"
    by (auto simp: cleanupBatch_def stalledBatch_def)
  then show "has_condition (markCleanupFailure cs g r e n1 n2 n3) conditionReady ConditionFalse r (Error e) g"
    "has_condition (markCleanupFailure cs g r e n1 n2 n3) conditionStalled ConditionTrue r (Error e) g"
    "has_condition (markCleanupFailure cs g r e n1 n2 n3) conditionCleanup ConditionTrue r (Error e) g"
    unfolding markCleanupFailure_batch by (blast intro: has_condition_batch batches_distinct)+
qed

text \<open>
  A failure that is already on record leaves the list as it is, transition times included:
  this is what makes \<^verbatim>\<open>updateStatusIfChanged\<close> skip the write.
\<close>

lemma markError_stable:
  assumes "has_condition cs conditionReady ConditionFalse r (Error e) g"
  shows "markError cs g r (Some e) n = cs"
  using assms unfolding markError_batch
  by (intro cond.foldl_stable) (auto simp: has_condition_def sameCondition_def)

lemma markError_other:
  "ty \<noteq> conditionReady \<Longrightarrow> findCondition (markError cs g r (Some e) n) ty = findCondition cs ty"
  unfolding markError_batch by (rule cond.foldl_other) simp

lemma markReady_other:
  "ty \<noteq> conditionReady \<Longrightarrow> ty \<noteq> conditionStalled
     \<Longrightarrow> findCondition (markReady cs g m n1 n2) ty = findCondition cs ty"
  unfolding markReady_batch by (rule cond.foldl_other) (simp add: readyBatch_def)

lemma markReady_idem: "markReady (markReady cs g m n1 n2) g m n3 n4 = markReady cs g m n1 n2"
  unfolding markReady_batch
  by (rule cond.foldl_idem)
     (auto simp: readyBatch_def sameCondition_def)

lemma has_condition_findCondition:
  "has_condition cs ty st r m g \<Longrightarrow> \<exists>c. findCondition cs ty = Some c \<and> c_Status c = st \<and> c_Reason c = r
     \<and> c_Message c = m \<and> c_ObservedGeneration c = g"
  by (auto simp: has_condition_def sameCondition_def)

end
