(* ===== verification/KubeObjects.thy ===== *)
theory KubeObjects
  imports Conditions
begin

text \<open>
  What the controllers ask of the Kubernetes API machinery, and the helpers of
  \<^verbatim>\<open>internal/controller/openbao/common.go\<close> built on it: finalizers, status writes and
  the recording of a failed cleanup.

  The API server and the \<^verbatim>\<open>k8s.io\<close> and \<^verbatim>\<open>sigs.k8s.io\<close> packages are not
  part of the repository.  They are parameters: \<open>KubeAPI\<close> holds the calls of
  \<^verbatim>\<open>client.Client\<close> for one kind of object (every call may fail, may return anything and
  may change the outside state), \<open>KubeLib\<close> the pure helper functions.  \<open>kube_lib_ok\<close> states
  the documented behaviour of the latter, for the theorems that need it.

  The text of \<^verbatim>\<open>fail\<close>, \<^verbatim>\<open>dependencyFailure\<close> and
  \<^verbatim>\<open>recordCleanupFailure\<close> takes pointers into the object; here the object's status is
  reached through a \<open>StatusAccess\<close>.  The laws of such an access are the locale
  \<open>status_object\<close>, interpreted for every resource where it is defined.
\<close>

section \<open>The API machinery as parameters\<close>

record KubeLib =
  IsStatusConditionTrue :: "Condition list \<Rightarrow> string \<Rightarrow> bool"
  ContainsFinalizer :: "string list \<Rightarrow> string \<Rightarrow> bool"
  AddFinalizer :: "string list \<Rightarrow> string \<Rightarrow> string list"
  RemoveFinalizer :: "string list \<Rightarrow> string \<Rightarrow> string list"
  apierrors_IsNotFound :: "go_error \<Rightarrow> bool"

record ('s, 'o) KubeAPI =
  k_Get :: "NamespacedName \<Rightarrow> ('s, go_error + 'o) state"
  k_Update :: "'o \<Rightarrow> ('s, go_error + 'o) state"
  k_StatusUpdate :: "'o \<Rightarrow> ('s, go_error + 'o) state"
  k_List :: "string \<Rightarrow> ('s, go_error + 'o list) state"

fun as_StatusError :: "go_error \<Rightarrow> (string \<times> string) option" where
  "as_StatusError (StatusError r m) = Some (r, m)"
| "as_StatusError (Wrapf m e) = as_StatusError e"
| "as_StatusError (MembershipResolutionError d e) = as_StatusError e"
| "as_StatusError (HTTPError c b) = None"
| "as_StatusError (Errorf m) = None"
| "as_StatusError NilPanic = None"

definition kube_lib_ok :: "KubeLib \<Rightarrow> bool" where
  "kube_lib_ok L \<longleftrightarrow>
     (\<forall>cs ty. IsStatusConditionTrue L cs ty
        = (case findCondition cs ty of None \<Rightarrow> False | Some c \<Rightarrow> c_Status c = ConditionTrue)) \<and>
     (\<forall>fs n. ContainsFinalizer L fs n \<longleftrightarrow> n \<in> set fs) \<and>
     (\<forall>fs n. set (AddFinalizer L fs n) = insert n (set fs)) \<and>
     (\<forall>fs n. set (RemoveFinalizer L fs n) = set fs - {n}) \<and>
     (\<forall>e. apierrors_IsNotFound L e
        = (case as_StatusError e of None \<Rightarrow> False | Some (r, m) \<Rightarrow> r = ''NotFound''))"

text \<open>One library that behaves as documented; the witnesses use it.\<close>

definition stdLib :: KubeLib where
  "stdLib =
     \<lparr>IsStatusConditionTrue = (\<lambda>cs ty. case findCondition cs ty of
          None \<Rightarrow> False | Some c \<Rightarrow> c_Status c = ConditionTrue),
      ContainsFinalizer = (\<lambda>fs n. n \<in> set fs),
      AddFinalizer = (\<lambda>fs n. if n \<in> set fs then fs else fs @ [n]),
      RemoveFinalizer = (\<lambda>fs n. filter (\<lambda>f. f \<noteq> n) fs),
      apierrors_IsNotFound = (\<lambda>e. case as_StatusError e of
          None \<Rightarrow> False | Some (r, m) \<Rightarrow> r = ''NotFound'')\<rparr>"

lemma stdLib_ok: "kube_lib_ok stdLib"
  by (auto simp: kube_lib_ok_def stdLib_def)

text \<open>The kinds of calls a controller makes on one kind of object, as trace events.\<close>

datatype 'o KubeEvent =
    GotObject NamespacedName "go_error + 'o"
  | UpdatedObject 'o "go_error + 'o"
  | UpdatedStatus 'o "go_error + 'o"
  | ListedObjects string "go_error + 'o list"

definition logKube :: "('o KubeEvent \<Rightarrow> 'e) \<Rightarrow> ('s, 'o) KubeAPI \<Rightarrow> ('s \<times> 'e list, 'o) KubeAPI" where
  "logKube ev K =
     \<lparr>k_Get = (\<lambda>nn. logged (\<lambda>r. ev (GotObject nn r)) (k_Get K nn)),
      k_Update = (\<lambda>o'. logged (\<lambda>r. ev (UpdatedObject o' r)) (k_Update K o')),
      k_StatusUpdate = (\<lambda>o'. logged (\<lambda>r. ev (UpdatedStatus o' r)) (k_StatusUpdate K o')),
      k_List = (\<lambda>ns. logged (\<lambda>r. ev (ListedObjects ns r)) (k_List K ns))\<rparr>"

lemma logKube_sel [simp]:
  "k_Get (logKube ev K) nn = logged (\<lambda>r. ev (GotObject nn r)) (k_Get K nn)"
  "k_List (logKube ev K) ns = logged (\<lambda>r. ev (ListedObjects ns r)) (k_List K ns)"
  by (simp_all add: logKube_def)

text \<open>Writes stay folded: the rules for the helpers below match on them.\<close>

lemma logKube_write:
  "k_Update (logKube ev K) ob = logged (\<lambda>r. ev (UpdatedObject ob r)) (k_Update K ob)"
  "k_StatusUpdate (logKube ev K) ob = logged (\<lambda>r. ev (UpdatedStatus ob r)) (k_StatusUpdate K ob)"
  by (simp_all add: logKube_def)

section \<open>Results and errors\<close>

record Result = RequeueAfter :: int

type_synonym outcome = "Result \<times> go_error option"

definition noRequeue :: Result where
  "noRequeue = \<lparr>RequeueAfter = 0\<rparr>"

definition requeueIn :: "int \<Rightarrow> Result" where
  "requeueIn d = \<lparr>RequeueAfter = d\<rparr>"

definition isNotFound :: "KubeLib \<Rightarrow> go_error \<Rightarrow> bool" where
  "isNotFound L err \<longleftrightarrow> apierrors_IsNotFound L err \<or> IsNotFound err"

definition fmt_nn :: "NamespacedName \<Rightarrow> string" where
  "fmt_nn nn = fst nn @ ''/'' @ snd nn"

definition dependencyMessage :: "string \<Rightarrow> NamespacedName \<Rightarrow> go_error option \<Rightarrow> go_error" where
  "dependencyMessage resource name err = (case err of
      None \<Rightarrow> Errorf (resource @ '' '' @ fmt_nn name @ '' is not ready'')
    | Some e \<Rightarrow> Wrapf (resource @ '' '' @ fmt_nn name @ '' is not ready'') e)"

definition cleanupDependencyError :: "string \<Rightarrow> go_error \<Rightarrow> go_error" where
  "cleanupDependencyError dependency err =
     Wrapf (''external cleanup is blocked because '' @ dependency @ '' is unavailable'') err"

text \<open>A nil dereference ends the reconciliation.\<close>

definition nilPanic :: "('s, outcome) state" where
  "nilPanic = ret (noRequeue, Some NilPanic)"

definition resolveConnection ::
  "('s, 'o) KubeAPI \<Rightarrow> string \<Rightarrow> OpenBaoConnectionReference \<Rightarrow> ('s, go_error + 'o) state" where
  "resolveConnection K namespace ref = k_Get K (namespace, connref_Name ref)"

definition resolveEntity ::
  "('s, 'o) KubeAPI \<Rightarrow> string \<Rightarrow> OpenBaoEntityReference \<Rightarrow> ('s, go_error + 'o) state" where
  "resolveEntity K namespace ref = k_Get K (namespace, entref_Name ref)"

definition resolveGroup ::
  "('s, 'o) KubeAPI \<Rightarrow> string \<Rightarrow> OpenBaoGroupReference \<Rightarrow> ('s, go_error + 'o) state" where
  "resolveGroup K namespace ref = k_Get K (namespace, grpref_Name ref)"

section \<open>Finalizers and status writes\<close>

definition ensureFinalizer ::
  "KubeLib \<Rightarrow> ('a ObjectMeta_scheme \<Rightarrow> ('s, go_error + 'a ObjectMeta_scheme) state)
     \<Rightarrow> 'a ObjectMeta_scheme \<Rightarrow> ('s, go_error + 'a ObjectMeta_scheme) state" where
  "ensureFinalizer L update obj =
     (if ContainsFinalizer L (om_Finalizers obj) finalizerName then ret (Inr obj)
      else update (obj\<lparr>om_Finalizers := AddFinalizer L (om_Finalizers obj) finalizerName\<rparr>))"

definition removeFinalizer ::
  "KubeLib \<Rightarrow> ('a ObjectMeta_scheme \<Rightarrow> ('s, go_error + 'a ObjectMeta_scheme) state)
     \<Rightarrow> 'a ObjectMeta_scheme \<Rightarrow> ('s, go_error option) state" where
  "removeFinalizer L update obj =
     (if \<not> ContainsFinalizer L (om_Finalizers obj) finalizerName then ret None
      else do {
        r \<leftarrow> update (obj\<lparr>om_Finalizers := RemoveFinalizer L (om_Finalizers obj) finalizerName\<rparr>);
        ret (case r of Inl e \<Rightarrow> Some e | Inr _ \<Rightarrow> None)
      })"

text \<open>\<^verbatim>\<open>obj\<close> already holds the new status; the answer is the object afterwards.\<close>

definition updateStatusIfChanged ::
  "('o \<Rightarrow> ('s, go_error + 'o) state) \<Rightarrow> 'o \<Rightarrow> 'st \<Rightarrow> 'st \<Rightarrow> ('s, go_error + 'o) state" where
  "updateStatusIfChanged statusUpdate obj before after =
     (if before = after then ret (Inr obj) else statusUpdate obj)"

text \<open>
  How every reconciliation ends: write the status, report the write's error if it fails, else
  return \<open>out\<close>.
\<close>

definition endWithStatus ::
  "('o \<Rightarrow> ('s, go_error + 'o) state) \<Rightarrow> 'o \<Rightarrow> 'st \<Rightarrow> 'st \<Rightarrow> outcome \<Rightarrow> ('s, outcome) state" where
  "endWithStatus statusUpdate obj before after out = do {
     r \<leftarrow> updateStatusIfChanged statusUpdate obj before after;
     case r of
       Inl statusErr \<Rightarrow> ret (noRequeue, Some statusErr)
     | Inr _ \<Rightarrow> ret out
   }"

record ('o, 'st) StatusAccess =
  sa_Status :: "'o \<Rightarrow> 'st"
  sa_setStatus :: "'st \<Rightarrow> 'o \<Rightarrow> 'o"
  sa_Conditions :: "'st \<Rightarrow> Condition list"
  sa_setConditions :: "Condition list \<Rightarrow> 'st \<Rightarrow> 'st"
  sa_ObservedGeneration :: "'st \<Rightarrow> int"
  sa_setObservedGeneration :: "int \<Rightarrow> 'st \<Rightarrow> 'st"

text \<open>
  The status each failure path writes.  \<^verbatim>\<open>fail\<close> and \<^verbatim>\<open>dependencyFailure\<close>
  take their own copy of the status (\<^verbatim>\<open>before := obj.Status.DeepCopy()\<close>) before they
  change it, and the write is skipped when nothing changed with respect to that copy.
\<close>

definition failedStatus ::
  "('o, 'st) StatusAccess \<Rightarrow> int \<Rightarrow> string \<Rightarrow> go_error \<Rightarrow> int \<Rightarrow> 'st \<Rightarrow> 'st" where
  "failedStatus acc gen reason err now st =
     (let st = sa_setObservedGeneration acc gen st
      in sa_setConditions acc (markError (sa_Conditions acc st) gen reason (Some err) now) st)"

definition stalledStatus ::
  "('o, 'st) StatusAccess \<Rightarrow> int \<Rightarrow> string \<Rightarrow> go_error \<Rightarrow> int \<Rightarrow> int \<Rightarrow> 'st \<Rightarrow> 'st" where
  "stalledStatus acc gen reason err now1 now2 st =
     (let st = sa_setObservedGeneration acc gen st
      in sa_setConditions acc (markStalled (sa_Conditions acc st) gen reason (Some err) now1 now2) st)"

definition failWith ::
  "('a ObjectMeta_scheme, 'st) StatusAccess \<Rightarrow> ('s, int) state
     \<Rightarrow> ('a ObjectMeta_scheme \<Rightarrow> ('s, go_error + 'a ObjectMeta_scheme) state)
     \<Rightarrow> 'a ObjectMeta_scheme \<Rightarrow> string \<Rightarrow> go_error \<Rightarrow> ('s, outcome) state" where
  "failWith acc now statusUpdate obj reason err = do {
     let before = sa_Status acc obj;
     t \<leftarrow> now;
     let after = failedStatus acc (om_Generation obj) reason err t before;
     endWithStatus statusUpdate (sa_setStatus acc after obj) before after (noRequeue, Some err)
   }"

definition dependencyFailureWith ::
  "('a ObjectMeta_scheme, 'st) StatusAccess \<Rightarrow> ('s, int) state
     \<Rightarrow> ('a ObjectMeta_scheme \<Rightarrow> ('s, go_error + 'a ObjectMeta_scheme) state)
     \<Rightarrow> 'a ObjectMeta_scheme \<Rightarrow> go_error \<Rightarrow> ('s, outcome) state" where
  "dependencyFailureWith acc now statusUpdate obj err = do {
     let before = sa_Status acc obj;
     t1 \<leftarrow> now;
     t2 \<leftarrow> now;
     let after = stalledStatus acc (om_Generation obj) ''DependencyNotReady'' err t1 t2 before;
     endWithStatus statusUpdate (sa_setStatus acc after obj) before after (requeueIn dependencyRetry, None)
   }"

text \<open>
  \<^verbatim>\<open>recordCleanupFailure\<close> compares against the copy its caller took before setting the
  observed generation.
\<close>

definition recordCleanupFailure ::
  "('a ObjectMeta_scheme, 'st) StatusAccess \<Rightarrow> ('s, int) state
     \<Rightarrow> ('a ObjectMeta_scheme \<Rightarrow> ('s, go_error + 'a ObjectMeta_scheme) state)
     \<Rightarrow> 'a ObjectMeta_scheme \<Rightarrow> 'st \<Rightarrow> string \<Rightarrow> go_error \<Rightarrow> ('s, outcome) state" where
  "recordCleanupFailure acc now statusUpdate obj before reason err = do {
     t1 \<leftarrow> now;
     t2 \<leftarrow> now;
     t3 \<leftarrow> now;
     let st = sa_Status acc obj;
     let after = sa_setConditions acc
           (markCleanupFailure (sa_Conditions acc st) (om_Generation obj) reason err t1 t2 t3) st;
     endWithStatus statusUpdate (sa_setStatus acc after obj) before after (requeueIn dependencyRetry, None)
   }"

text \<open>
  \<^verbatim>\<open>clientFor\<close>, the same in every controller: the injected constructor when there is
  one, else the cache when there is one, else a fresh client.
\<close>

definition clientForWith ::
  "('c \<Rightarrow> ('s, go_error + 'k) state) option \<Rightarrow> ('c \<Rightarrow> ('s, go_error + 'k) state) option
     \<Rightarrow> ('c \<Rightarrow> ('s, go_error + 'k) state) \<Rightarrow> 'c \<Rightarrow> ('s, go_error + 'k) state" where
  "clientForWith newClient cacheClientFor connectionClientFor connection =
     (case newClient of
        Some f \<Rightarrow> f connection
      | None \<Rightarrow> (case cacheClientFor of
            Some f \<Rightarrow> f connection
          | None \<Rightarrow> connectionClientFor connection))"

section \<open>The interface of an object with a status\<close>

locale status_object =
  fixes acc :: "('a ObjectMeta_scheme, 'st) StatusAccess"
  assumes get_set: "sa_Status acc (sa_setStatus acc st ob) = st"
    and set_get: "sa_setStatus acc (sa_Status acc ob) ob = ob"
    and set_meta: "ObjectMeta.truncate (sa_setStatus acc st ob) = ObjectMeta.truncate ob"
    and conds_set: "sa_Conditions acc (sa_setConditions acc cs st) = cs"
    and conds_id: "sa_setConditions acc (sa_Conditions acc st) st = st"
    and gen_set: "sa_ObservedGeneration acc (sa_setObservedGeneration acc g st) = g"
    and gen_id: "sa_setObservedGeneration acc (sa_ObservedGeneration acc st) st = st"
    and conds_gen: "sa_Conditions acc (sa_setObservedGeneration acc g st) = sa_Conditions acc st"
    and gen_conds: "sa_ObservedGeneration acc (sa_setConditions acc cs st) = sa_ObservedGeneration acc st"
begin

lemma set_meta_fields [simp]:
  "om_Name (sa_setStatus acc st ob) = om_Name ob"
  "om_Namespace (sa_setStatus acc st ob) = om_Namespace ob"
  "om_Generation (sa_setStatus acc st ob) = om_Generation ob"
  "om_Finalizers (sa_setStatus acc st ob) = om_Finalizers ob"
  "om_DeletionTimestamp (sa_setStatus acc st ob) = om_DeletionTimestamp ob"
  using set_meta [of st ob] by (simp_all add: ObjectMeta.truncate_def)

lemma failed_conditions:
  "has_condition (sa_Conditions acc (failedStatus acc g r e t st)) conditionReady ConditionFalse r (Error e) g"
  by (simp add: failedStatus_def Let_def conds_set markError_Ready)

lemma failed_generation: "sa_ObservedGeneration acc (failedStatus acc g r e t st) = g"
  by (simp add: failedStatus_def Let_def gen_conds gen_set)

text \<open>Exactly the failures already on record leave the status as it is.\<close>

lemma failed_unchanged_iff:
  "failedStatus acc g r e t st = st \<longleftrightarrow>
     sa_ObservedGeneration acc st = g \<and>
     has_condition (sa_Conditions acc st) conditionReady ConditionFalse r (Error e) g"
proof
  assume "failedStatus acc g r e t st = st"
  then show "sa_ObservedGeneration acc st = g \<and>
     has_condition (sa_Conditions acc st) conditionReady ConditionFalse r (Error e) g"
    using failed_conditions [of g r e t st] failed_generation [of g r e t st] by simp
next
  assume a: "sa_ObservedGeneration acc st = g \<and>
     has_condition (sa_Conditions acc st) conditionReady ConditionFalse r (Error e) g"
  then have "sa_setObservedGeneration acc g st = st" using gen_id by metis
  with a show "failedStatus acc g r e t st = st"
    by (simp add: failedStatus_def Let_def markError_stable conds_id)
qed

lemma stalled_conditions:
  "has_condition (sa_Conditions acc (stalledStatus acc g r e t1 t2 st)) conditionReady ConditionFalse r (Error e) g"
  "has_condition (sa_Conditions acc (stalledStatus acc g r e t1 t2 st)) conditionStalled ConditionTrue r (Error e) g"
  by (simp_all add: stalledStatus_def Let_def conds_set markStalled_both)

lemma stalled_generation: "sa_ObservedGeneration acc (stalledStatus acc g r e t1 t2 st) = g"
  by (simp add: stalledStatus_def Let_def gen_conds gen_set)

end

section \<open>Rules for the helpers\<close>

text \<open>
  Over a logged environment each helper makes at most one call, whose argument and outcome
  are known; the rules say what must hold afterwards, whatever the answer.
\<close>

lemma wp_ensureFinalizerI:
  assumes "ContainsFinalizer L (om_Finalizers obj) finalizerName \<Longrightarrow> Q (Inr obj) (s, tr)"
    and "\<And>r s'. \<not> ContainsFinalizer L (om_Finalizers obj) finalizerName \<Longrightarrow>
       Q r (s', tr @ [ev (UpdatedObject
         (obj\<lparr>om_Finalizers := AddFinalizer L (om_Finalizers obj) finalizerName\<rparr>) r)])"
  shows "wp (ensureFinalizer L (k_Update (logKube ev K)) obj) Q (s, tr)"
  using assms by (auto simp: ensureFinalizer_def wp_simps logKube_write intro: wp_loggedI)

lemma wp_removeFinalizerI:
  assumes "\<not> ContainsFinalizer L (om_Finalizers obj) finalizerName \<Longrightarrow> Q None (s, tr)"
    and "\<And>r s'. ContainsFinalizer L (om_Finalizers obj) finalizerName \<Longrightarrow>
       Q (case r of Inl e \<Rightarrow> Some e | Inr _ \<Rightarrow> None) (s', tr @ [ev (UpdatedObject
         (obj\<lparr>om_Finalizers := RemoveFinalizer L (om_Finalizers obj) finalizerName\<rparr>) r)])"
  shows "wp (removeFinalizer L (k_Update (logKube ev K)) obj) Q (s, tr)"
  using assms by (auto simp: removeFinalizer_def wp_simps logKube_write intro: wp_loggedI)

lemma wp_updateStatusI:
  assumes "before = after \<Longrightarrow> Q (Inr obj) (s, tr)"
    and "\<And>r s'. before \<noteq> after \<Longrightarrow> Q r (s', tr @ [ev (UpdatedStatus obj r)])"
  shows "wp (updateStatusIfChanged (k_StatusUpdate (logKube ev K)) obj before after) Q (s, tr)"
  using assms by (auto simp: updateStatusIfChanged_def wp_simps logKube_write intro: wp_loggedI)

text \<open>The outcome of a call that ends a reconciliation with a status write.\<close>

definition statusOutcome :: "(go_error + 'o) \<Rightarrow> outcome \<Rightarrow> outcome" where
  "statusOutcome r out = (case r of Inl e \<Rightarrow> (noRequeue, Some e) | Inr _ \<Rightarrow> out)"

lemma statusOutcome_simps [simp]:
  "statusOutcome (Inl e) out = (noRequeue, Some e)" "statusOutcome (Inr x) out = out"
  by (simp_all add: statusOutcome_def)

lemma statusOutcome_fold:
  "(case r of Inl e \<Rightarrow> Q (noRequeue, Some e) s' | Inr x \<Rightarrow> Q out s') = Q (statusOutcome r out) s'"
  by (cases r) simp_all

lemma wp_endWithStatusI:
  assumes "before = after \<Longrightarrow> Q out (s, tr)"
    and "\<And>r s'. before \<noteq> after \<Longrightarrow> Q (statusOutcome r out) (s', tr @ [ev (UpdatedStatus obj r)])"
  shows "wp (endWithStatus (k_StatusUpdate (logKube ev K)) obj before after out) Q (s, tr)"
  unfolding endWithStatus_def wp_simps
  using assms by (intro wp_updateStatusI) (simp_all add: statusOutcome_fold)

lemma wp_failWithI:
  assumes "\<And>t s'. sa_Status acc obj = failedStatus acc (om_Generation obj) reason err t (sa_Status acc obj)
      \<Longrightarrow> Q (noRequeue, Some err) (s', tr)"
    and "\<And>t r s'. sa_Status acc obj \<noteq> failedStatus acc (om_Generation obj) reason err t (sa_Status acc obj)
      \<Longrightarrow> Q (statusOutcome r (noRequeue, Some err)) (s', tr @ [ev (UpdatedStatus
             (sa_setStatus acc (failedStatus acc (om_Generation obj) reason err t (sa_Status acc obj)) obj) r)])"
  shows "wp (failWith acc (silent now) (k_StatusUpdate (logKube ev K)) obj reason err) Q (s, tr)"
  unfolding failWith_def Let_def wp_simps
  by (intro wp_silentI wp_endWithStatusI) (rule assms, assumption)+

lemma wp_dependencyFailureWithI:
  assumes "\<And>t1 t2 s'. sa_Status acc obj
        = stalledStatus acc (om_Generation obj) ''DependencyNotReady'' err t1 t2 (sa_Status acc obj)
      \<Longrightarrow> Q (requeueIn dependencyRetry, None) (s', tr)"
    and "\<And>t1 t2 r s'. sa_Status acc obj
        \<noteq> stalledStatus acc (om_Generation obj) ''DependencyNotReady'' err t1 t2 (sa_Status acc obj)
      \<Longrightarrow> Q (statusOutcome r (requeueIn dependencyRetry, None)) (s', tr @ [ev (UpdatedStatus
             (sa_setStatus acc (stalledStatus acc (om_Generation obj) ''DependencyNotReady'' err t1 t2
               (sa_Status acc obj)) obj) r)])"
  shows "wp (dependencyFailureWith acc (silent now) (k_StatusUpdate (logKube ev K)) obj err) Q (s, tr)"
  unfolding dependencyFailureWith_def Let_def wp_simps
  by (intro wp_silentI wp_endWithStatusI) (rule assms, assumption)+

definition cleanupStatus ::
  "('a ObjectMeta_scheme, 'st) StatusAccess \<Rightarrow> 'a ObjectMeta_scheme \<Rightarrow> string \<Rightarrow> go_error
     \<Rightarrow> int \<Rightarrow> int \<Rightarrow> int \<Rightarrow> 'st" where
  "cleanupStatus acc obj reason err t1 t2 t3 =
     sa_setConditions acc (markCleanupFailure (sa_Conditions acc (sa_Status acc obj))
        (om_Generation obj) reason err t1 t2 t3) (sa_Status acc obj)"

lemma wp_recordCleanupFailureI:
  assumes "\<And>t1 t2 t3 s'. before = cleanupStatus acc obj reason err t1 t2 t3
      \<Longrightarrow> Q (requeueIn dependencyRetry, None) (s', tr)"
    and "\<And>t1 t2 t3 r s'. before \<noteq> cleanupStatus acc obj reason err t1 t2 t3
      \<Longrightarrow> Q (statusOutcome r (requeueIn dependencyRetry, None)) (s', tr @ [ev (UpdatedStatus
             (sa_setStatus acc (cleanupStatus acc obj reason err t1 t2 t3) obj) r)])"
  shows "wp (recordCleanupFailure acc (silent now) (k_StatusUpdate (logKube ev K)) obj before reason err) Q (s, tr)"
  unfolding recordCleanupFailure_def Let_def wp_simps cleanupStatus_def [symmetric]
  by (intro wp_silentI wp_endWithStatusI) (rule assms, assumption)+

lemmas helper_rules = wp_ensureFinalizerI wp_removeFinalizerI wp_updateStatusI wp_endWithStatusI
  wp_failWithI wp_dependencyFailureWithI wp_recordCleanupFailureI

end
