(* ===== verification/Observing.thy ===== *)
theory Observing
  imports KubeObjects
begin

text \<open>
  What the trace theorems of the controllers share.  Every controller has its own type of
  events; the functions \<open>kobj\<close> and \<open>kconn\<close> embed into it the calls on the reconciled kind and on
  connections.  \<open>live\<close> says when the external counterpart of an object may be written,
  \<open>finalizerWrite\<close> which writes of the object itself are legitimate.
\<close>

definition errorOf :: "go_error + 'a \<Rightarrow> go_error option" where
  "errorOf r = (case r of Inl e \<Rightarrow> Some e | Inr _ \<Rightarrow> None)"

text \<open>A constructor of OpenBao clients whose clients record their calls.\<close>

definition logClientFor ::
  "(OpenBaoConnection \<Rightarrow> go_error option \<Rightarrow> 'e) \<Rightarrow> ('k \<Rightarrow> 'l)
     \<Rightarrow> (OpenBaoConnection \<Rightarrow> ('s, go_error + 'k) state)
     \<Rightarrow> OpenBaoConnection \<Rightarrow> ('s \<times> 'e list, go_error + 'l) state" where
  "logClientFor made logClient f connection = do {
     r \<leftarrow> logged (\<lambda>r. made connection (errorOf r)) (f connection);
     ret (map_sum id logClient r)
   }"

lemma wp_logClientForI:
  assumes "\<And>e s'. Q (Inl e) (s', tr @ [made connection (Some e)])"
    and "\<And>c s'. Q (Inr (logClient c)) (s', tr @ [made connection None])"
  shows "wp (logClientFor made logClient f connection) Q (s, tr)"
  unfolding logClientFor_def wp_simps
proof (rule wp_loggedI)
  fix r s'
  show "Q (map_sum id logClient r) (s', tr @ [made connection (errorOf r)])"
    using assms by (cases r) (simp_all add: errorOf_def)
qed

lemma wp_clientForWithI:
  assumes "\<And>e s'. Q (Inl e) (s', tr @ [made connection (Some e)])"
    and "\<And>c s'. Q (Inr (logClient c)) (s', tr @ [made connection None])"
  shows "wp (clientForWith (map_option (logClientFor made logClient) f)
      (map_option (logClientFor made logClient) g) (logClientFor made logClient h) connection) Q (s, tr)"
  unfolding clientForWith_def using assms
  by (auto intro!: wp_logClientForI split: option.splits)

definition seen :: "('o KubeEvent \<Rightarrow> 'e) \<Rightarrow> 'e list \<Rightarrow> 'o \<Rightarrow> bool" where
  "seen kobj pre ob \<longleftrightarrow>
     (\<exists>nn. kobj (GotObject nn (Inr ob)) \<in> set pre) \<or> (\<exists>arg. kobj (UpdatedObject arg (Inr ob)) \<in> set pre)"

text \<open>The object carries the finalizer, as read or as just written.\<close>

definition held ::
  "KubeLib \<Rightarrow> ('a ObjectMeta_scheme KubeEvent \<Rightarrow> 'e) \<Rightarrow> 'e list \<Rightarrow> 'a ObjectMeta_scheme \<Rightarrow> bool" where
  "held L kobj pre ob \<longleftrightarrow>
     ContainsFinalizer L (om_Finalizers ob) finalizerName \<or>
     (\<exists>orig. kobj (UpdatedObject
        (orig\<lparr>om_Finalizers := AddFinalizer L (om_Finalizers orig) finalizerName\<rparr>) (Inr ob)) \<in> set pre)"

definition connReady :: "KubeLib \<Rightarrow> (OpenBaoConnection KubeEvent \<Rightarrow> 'e) \<Rightarrow> 'e list \<Rightarrow> bool" where
  "connReady L kconn pre \<longleftrightarrow> (\<exists>nn conn. kconn (GotObject nn (Inr conn)) \<in> set pre \<and>
     IsStatusConditionTrue L (cnst_Conditions (cn_Status conn)) conditionReady)"

definition live ::
  "KubeLib \<Rightarrow> ('a ObjectMeta_scheme KubeEvent \<Rightarrow> 'e) \<Rightarrow> (OpenBaoConnection KubeEvent \<Rightarrow> 'e)
     \<Rightarrow> ('a ObjectMeta_scheme \<Rightarrow> bool) \<Rightarrow> 'e list \<Rightarrow> 'a ObjectMeta_scheme \<Rightarrow> bool" where
  "live L kobj kconn wantsDelete pre ob \<longleftrightarrow>
     seen kobj pre ob \<and> notDeleted ob \<and> connReady L kconn pre \<and> (wantsDelete ob \<longrightarrow> held L kobj pre ob)"

text \<open>
  A write of the object adds the finalizer to a live object that asks for deletion, or removes
  it from a deleted object whose external counterpart is \<open>cleared\<close>.
\<close>

definition finalizerWrite ::
  "KubeLib \<Rightarrow> ('a ObjectMeta_scheme KubeEvent \<Rightarrow> 'e) \<Rightarrow> ('a ObjectMeta_scheme \<Rightarrow> bool)
     \<Rightarrow> ('a ObjectMeta_scheme \<Rightarrow> bool) \<Rightarrow> 'e list \<Rightarrow> 'a ObjectMeta_scheme \<Rightarrow> bool" where
  "finalizerWrite L kobj wantsDelete cleared pre ob \<longleftrightarrow>
     (\<exists>orig. seen kobj pre orig \<and>
        (if notDeleted orig then
           wantsDelete orig \<and> ob = orig\<lparr>om_Finalizers := AddFinalizer L (om_Finalizers orig) finalizerName\<rparr>
         else
           om_Finalizers ob = RemoveFinalizer L (om_Finalizers orig) finalizerName \<and> cleared orig))"

definition confirmedGone :: "KubeLib \<Rightarrow> go_error option \<Rightarrow> bool" where
  "confirmedGone L d = (case d of None \<Rightarrow> True | Some e \<Rightarrow> isNotFound L e)"

lemma confirmedGone_simps [simp]:
  "confirmedGone L None" "confirmedGone L (Some e) = isNotFound L e"
  by (simp_all add: confirmedGone_def)

definition readyTrue :: "Condition list \<Rightarrow> bool" where
  "readyTrue cs \<longleftrightarrow> (\<exists>c. findCondition cs conditionReady = Some c \<and> c_Status c = ConditionTrue)"

lemma has_condition_notReady:
  "has_condition cs conditionReady ConditionFalse r m g \<Longrightarrow> \<not> readyTrue cs"
  by (auto simp: has_condition_def readyTrue_def sameCondition_def)

lemma markReady_readyTrue: "readyTrue (markReady cs g m n1 n2)"
  using has_condition_findCondition [OF markReady_Ready] unfolding readyTrue_def by blast

section \<open>Facts about the past survive later calls\<close>

lemma seen_mono [simp]: "seen kobj pre ob \<Longrightarrow> seen kobj (pre @ es) ob"
  by (auto simp: seen_def)

lemma held_mono [simp]: "held L kobj pre ob \<Longrightarrow> held L kobj (pre @ es) ob"
  by (auto simp: held_def)

lemma connReady_mono [simp]: "connReady L kconn pre \<Longrightarrow> connReady L kconn (pre @ es)"
  by (auto simp: connReady_def)

lemma live_mono [simp]: "live L kobj kconn w pre ob \<Longrightarrow> live L kobj kconn w (pre @ es) ob"
  by (simp add: live_def)

lemma seen_got: "seen kobj (kobj (GotObject nn (Inr ob)) # es) ob"
  unfolding seen_def by (intro disjI1 exI [where x = nn]) simp

lemma seen_updated: "kobj (UpdatedObject arg (Inr ob)) \<in> set tr \<Longrightarrow> seen kobj tr ob"
  by (auto simp: seen_def)

lemma held_contains: "ContainsFinalizer L (om_Finalizers ob) finalizerName \<Longrightarrow> held L kobj tr ob"
  by (simp add: held_def)

lemma held_added:
  "kobj (UpdatedObject (e\<lparr>om_Finalizers := AddFinalizer L (om_Finalizers e) finalizerName\<rparr>) (Inr ob)) \<in> set tr
     \<Longrightarrow> held L kobj tr ob"
  by (auto simp: held_def)

lemma connReady_got:
  "kconn (GotObject nn (Inr conn)) \<in> set tr
     \<Longrightarrow> IsStatusConditionTrue L (cnst_Conditions (cn_Status conn)) conditionReady \<Longrightarrow> connReady L kconn tr"
  unfolding connReady_def by blast

lemma finalizerWrite_add:
  "seen kobj pre ob \<Longrightarrow> notDeleted ob \<Longrightarrow> wantsDelete ob
     \<Longrightarrow> finalizerWrite L kobj wantsDelete cleared pre
           (ob\<lparr>om_Finalizers := AddFinalizer L (om_Finalizers ob) finalizerName\<rparr>)"
  unfolding finalizerWrite_def by (intro exI [where x = ob]) simp

lemma finalizerWrite_remove:
  "seen kobj pre orig \<Longrightarrow> \<not> notDeleted orig \<Longrightarrow> fs = om_Finalizers orig \<Longrightarrow> cleared orig
     \<Longrightarrow> finalizerWrite L kobj wantsDelete cleared pre
           (ob\<lparr>om_Finalizers := RemoveFinalizer L fs finalizerName\<rparr>)"
  unfolding finalizerWrite_def by (intro exI [where x = orig]) simp

context status_object
begin

lemma failed_notReady: "\<not> readyTrue (sa_Conditions acc (failedStatus acc g r e t st))"
  using failed_conditions has_condition_notReady by blast

lemma stalled_notReady: "\<not> readyTrue (sa_Conditions acc (stalledStatus acc g r e t1 t2 st))"
  using stalled_conditions(1) has_condition_notReady by blast

lemma cleanup_notReady: "\<not> readyTrue (sa_Conditions acc (cleanupStatus acc ob r e t1 t2 t3))"
  unfolding cleanupStatus_def conds_set
  using markCleanupFailure_all(1) has_condition_notReady by blast

text \<open>
  A run that has only written justified events so far may end in any of the three failure
  paths, provided a status that is not ready needs no justification.
\<close>

lemma wp_fail_guarded:
  assumes "guarded J tr" "\<And>ob r. \<not> readyTrue (sa_Conditions acc (sa_Status acc ob)) \<Longrightarrow> J tr (ev (UpdatedStatus ob r))"
  shows "wp (failWith acc (silent now) (k_StatusUpdate (logKube ev K)) obj reason err)
           (\<lambda>_ (s', tr'). guarded J tr') (s, tr)"
  using assms failed_notReady
  by (intro wp_failWithI) (simp_all add: guarded_snoc get_set)

lemma wp_dependencyFailure_guarded:
  assumes "guarded J tr" "\<And>ob r. \<not> readyTrue (sa_Conditions acc (sa_Status acc ob)) \<Longrightarrow> J tr (ev (UpdatedStatus ob r))"
  shows "wp (dependencyFailureWith acc (silent now) (k_StatusUpdate (logKube ev K)) obj err)
           (\<lambda>_ (s', tr'). guarded J tr') (s, tr)"
  using assms stalled_notReady
  by (intro wp_dependencyFailureWithI) (simp_all add: guarded_snoc get_set)

lemma wp_cleanupFailure_guarded:
  assumes "guarded J tr" "\<And>ob r. \<not> readyTrue (sa_Conditions acc (sa_Status acc ob)) \<Longrightarrow> J tr (ev (UpdatedStatus ob r))"
  shows "wp (recordCleanupFailure acc (silent now) (k_StatusUpdate (logKube ev K)) obj before reason err)
           (\<lambda>_ (s', tr'). guarded J tr') (s, tr)"
  using assms cleanup_notReady
  by (intro wp_recordCleanupFailureI) (simp_all add: guarded_snoc get_set)

end

end
