(* ===== verification/BaoTypes.thy ===== *)
theory BaoTypes
  imports GoErrors "HOL-Library.State_Monad"
begin

text \<open>
  The data of \<^verbatim>\<open>internal/openbaoclient\<close> and the client interfaces the controllers
  declare (\<^verbatim>\<open>EntityClient\<close>, \<^verbatim>\<open>PolicyClient\<close>, ...).  A Go interface is a
  record of its methods; a method that returns a pointer and an error returns
  \<open>go_error + 'a option\<close>, because the Go value can be a nil pointer without an error.
\<close>

section \<open>entities.go\<close>

record Entity =
  e_ID :: string
  e_Name :: string
  e_Metadata :: strmap
  e_Policies :: "string slice"
  e_Disabled :: bool

record EntityRequest =
  er_Name :: string
  er_Metadata :: strmap
  er_Policies :: "string slice"
  er_Disabled :: bool

definition firstNonEmpty :: "string \<Rightarrow> string \<Rightarrow> string" where
  "firstNonEmpty value fallback = (if value \<noteq> '''' then value else fallback)"

record 's EntityClient =
  GetEntityByID :: "string \<Rightarrow> ('s, go_error + Entity option) state"
  GetEntityByName :: "string \<Rightarrow> ('s, go_error + Entity option) state"
  CreateEntity :: "EntityRequest \<Rightarrow> ('s, go_error + string) state"
  UpdateEntity :: "string \<Rightarrow> EntityRequest \<Rightarrow> ('s, go_error + Entity option) state"
  DeleteEntity :: "string \<Rightarrow> ('s, go_error option) state"

section \<open>policies.go\<close>

record Policy =
  p_Name :: string
  p_Rules :: string
  p_Version :: int

record PolicyRequest =
  pr_Rules :: string

record 's PolicyClient =
  GetPolicy :: "string \<Rightarrow> ('s, go_error + Policy option) state"
  WritePolicy :: "string \<Rightarrow> PolicyRequest \<Rightarrow> ('s, go_error option) state"
  DeletePolicy :: "string \<Rightarrow> ('s, go_error option) state"

section \<open>aliases.go\<close>

record EntityAlias =
  ea_ID :: string
  ea_Name :: string
  ea_MountAccessor :: string
  ea_CanonicalID :: string
  ea_EntityID :: string

record EntityAliasRequest =
  ear_Name :: string
  ear_MountAccessor :: string
  ear_CanonicalID :: string

record 's AliasClient =
  ListEntityAliasIDs :: "('s, go_error + string list) state"
  GetEntityAliasByID :: "string \<Rightarrow> ('s, go_error + EntityAlias option) state"
  CreateEntityAlias :: "EntityAliasRequest \<Rightarrow> ('s, go_error + string) state"
  UpdateEntityAlias :: "string \<Rightarrow> EntityAliasRequest \<Rightarrow> ('s, go_error + EntityAlias option) state"
  DeleteEntityAlias :: "string \<Rightarrow> ('s, go_error option) state"

section \<open>groups.go\<close>

record Group =
  g_ID :: string
  g_Name :: string
  g_Type :: string
  g_Metadata :: strmap
  g_Policies :: "string slice"
  g_MemberEntityIDs :: "string slice"
  g_MemberGroupIDs :: "string slice"

record GroupRequest =
  gq_Name :: string
  gq_Type :: string
  gq_Metadata :: strmap
  gq_Policies :: "string slice"
  gq_MemberEntityIDs :: "string slice"
  gq_MemberGroupIDs :: "string slice"

record 's GroupClient =
  GetGroupByID :: "string \<Rightarrow> ('s, go_error + Group option) state"
  GetGroupByName :: "string \<Rightarrow> ('s, go_error + Group option) state"
  CreateGroup :: "GroupRequest \<Rightarrow> ('s, go_error + string) state"
  UpdateGroup :: "string \<Rightarrow> GroupRequest \<Rightarrow> ('s, go_error + Group option) state"
  DeleteGroup :: "string \<Rightarrow> ('s, go_error option) state"

section \<open>system.go\<close>

record Health =
  h_Version :: string
  h_Initialized :: bool
  h_Sealed :: bool
  h_Standby :: bool

record 's ConnectionClient =
  CheckHealth :: "('s, go_error + Health option) state"
  LookupSelf :: "('s, go_error option) state"

end
