(* ===== verification/Normalize.thy ===== *)
theory Normalize
  imports GoLib "HOL-Library.Multiset"
begin

text \<open>
  The interface of the functions that bring a list of names into a canonical form before it is
  compared or recorded (\<^verbatim>\<open>normalizedPolicies\<close>, \<^verbatim>\<open>normalizedIDs\<close>):
  a normalizer keeps a view of the list (its multiset, its set) and depends on nothing else.
  The component theories interpret it.
\<close>

locale normalizer =
  fixes norm :: "'a slice \<Rightarrow> 'a slice"
    and view :: "'a list \<Rightarrow> 'v"
  assumes view_norm: "view (elems (norm s)) = view (elems s)"
    and canonical: "view (elems s) = view (elems t) \<Longrightarrow> norm s = norm t"
begin

lemma norm_eq_iff: "norm s = norm t \<longleftrightarrow> view (elems s) = view (elems t)"
  using canonical view_norm by metis

lemma norm_idem: "norm (norm s) = norm s"
  by (simp add: norm_eq_iff view_norm)

text \<open>Comparing a normalized observation with a normalized request compares the views.\<close>

lemma norm_elems_eq_iff: "elems (norm s) = elems (norm t) \<longleftrightarrow> view (elems s) = view (elems t)"
  using canonical view_norm by metis

end

lemma set_elems_append_nil: "set (elems (append_nil xs)) = set xs"
  by simp

lemma distinct_remdups_adj_sorted: "sorted xs \<Longrightarrow> distinct (remdups_adj xs)"
  for xs :: "'a::linorder list"
proof (induction xs rule: remdups_adj.induct)
  case (3 x y xs)
  then show ?case by auto
qed simp_all

lemma Compact_sort: "Compact (sort xs) = sorted_list_of_set (set xs)"
  for xs :: "'a::linorder list"
  unfolding Compact_def
  by (rule sorted_distinct_set_unique) (simp_all add: distinct_remdups_adj_sorted)

end
