(* ===== verification/Examples.thy ===== *)
theory Examples
  imports Observing
begin

text \<open>
  Concrete environments for the runs that the development evaluates: an API server that always
  answers with the same object, and a connection that is ready.
\<close>

definition boom :: go_error where
  "boom = Errorf ''connection reset''"

definition readyConn :: OpenBaoConnection where
  "readyConn = \<lparr>om_Name = ''bao'', om_Namespace = ''ns'', om_Generation = 1, om_Finalizers = [],
     om_DeletionTimestamp = None,
     cn_Spec = \<lparr>cns_Address = ''http://bao:8200'', cns_Namespace = '''', cns_TokenSecretRef = None,
       cns_KubernetesAuth = None, cns_AppRole = None, cns_CABundleSecretRef = None,
       cns_RequestTimeout = None\<rparr>,
     cn_Status = \<lparr>cnst_ObservedGeneration = 1, cnst_Version = ''2.4'', cnst_Initialized = True,
       cnst_Sealed = False, cnst_Standby = False, cnst_Authenticated = True,
       cnst_Conditions = [mkCondition conditionReady ConditionTrue reasonReconciled '''' 1 5]\<rparr>\<rparr>"

definition constKube :: "'o \<Rightarrow> (unit, 'o) KubeAPI" where
  "constKube ob =
     \<lparr>k_Get = (\<lambda>nn. ret (Inr ob)), k_Update = (\<lambda>o'. ret (Inr o')),
      k_StatusUpdate = (\<lambda>o'. ret (Inr o')), k_List = (\<lambda>ns. ret (Inr [ob]))\<rparr>"

end
