(* ===== verification/EntityProperties.thy ===== *)
theory EntityProperties
  imports EntityController Examples
begin

text \<open>
  What a reconciliation of an entity may do, for every behaviour of the API server, of
  OpenBao and of the credential sources: the run is observed through the calls it makes
  (\<open>EntityEvent\<close>), and every call that changes something is justified by earlier answers
  (\<open>entity_justified\<close>).
\<close>

section \<open>Observing a run\<close>

datatype EntityEvent =
    KEntity "OpenBaoEntity KubeEvent"
  | KConnection "OpenBaoConnection KubeEvent"
  | MadeEntityClient OpenBaoConnection "go_error option"
  | GotEntityByID string "go_error + Entity option"
  | GotEntityByName string "go_error + Entity option"
  | CreatedEntity EntityRequest "go_error + string"
  | UpdatedEntity string EntityRequest "go_error + Entity option"
  | DeletedEntity string "go_error option"

definition logEntityClient :: "'s EntityClient \<Rightarrow> ('s \<times> EntityEvent list) EntityClient" where
  "logEntityClient c =
     \<lparr>GetEntityByID = (\<lambda>i. logged (GotEntityByID i) (GetEntityByID c i)),
      GetEntityByName = (\<lambda>n. logged (GotEntityByName n) (GetEntityByName c n)),
      CreateEntity = (\<lambda>q. logged (CreatedEntity q) (CreateEntity c q)),
      UpdateEntity = (\<lambda>i q. logged (UpdatedEntity i q) (UpdateEntity c i q)),
      DeleteEntity = (\<lambda>i. logged (DeletedEntity i) (DeleteEntity c i))\<rparr>"

lemma logEntityClient_sel [simp]:
  "GetEntityByID (logEntityClient c) i = logged (GotEntityByID i) (GetEntityByID c i)"
  "GetEntityByName (logEntityClient c) n = logged (GotEntityByName n) (GetEntityByName c n)"
  "CreateEntity (logEntityClient c) q = logged (CreatedEntity q) (CreateEntity c q)"
  "UpdateEntity (logEntityClient c) i q = logged (UpdatedEntity i q) (UpdateEntity c i q)"
  "DeleteEntity (logEntityClient c) i = logged (DeletedEntity i) (DeleteEntity c i)"
  by (simp_all add: logEntityClient_def)

definition logEntityReconciler :: "'s EntityReconciler \<Rightarrow> ('s \<times> EntityEvent list) EntityReconciler" where
  "logEntityReconciler R =
     \<lparr>er_Lib = er_Lib R,
      er_Entities = logKube KEntity (er_Entities R),
      er_Connections = logKube KConnection (er_Connections R),
      er_Now = silent (er_Now R),
      er_NewClient = map_option (logClientFor MadeEntityClient logEntityClient) (er_NewClient R),
      er_ClientCache = map_option (logClientFor MadeEntityClient logEntityClient) (er_ClientCache R),
      er_connectionClientFor = logClientFor MadeEntityClient logEntityClient (er_connectionClientFor R)\<rparr>"

lemma logEntityReconciler_sel [simp]:
  "er_Lib (logEntityReconciler R) = er_Lib R"
  "er_Entities (logEntityReconciler R) = logKube KEntity (er_Entities R)"
  "er_Connections (logEntityReconciler R) = logKube KConnection (er_Connections R)"
  "er_Now (logEntityReconciler R) = silent (er_Now R)"
  by (simp_all add: logEntityReconciler_def)

lemma wp_clientFor_loggedI:
  assumes "\<And>e s'. Q (Inl e) (s', tr @ [MadeEntityClient connection (Some e)])"
    and "\<And>c s'. Q (Inr (logEntityClient c)) (s', tr @ [MadeEntityClient connection None])"
  shows "wp (clientFor_entity (logEntityReconciler R) connection) Q (s, tr)"
  unfolding clientFor_entity_def logEntityReconciler_def EntityReconciler.simps
  by (intro wp_clientForWithI assms)

definition entity_run ::
  "'s EntityReconciler \<Rightarrow> NamespacedName \<Rightarrow> 's \<Rightarrow> outcome \<times> 's \<times> EntityEvent list" where
  "entity_run R req s = run_state (Reconcile_entity (logEntityReconciler R) req) (s, [])"

definition entity_trace :: "'s EntityReconciler \<Rightarrow> NamespacedName \<Rightarrow> 's \<Rightarrow> EntityEvent list" where
  "entity_trace R req s = snd (snd (entity_run R req s))"

section \<open>What justifies a call\<close>

text \<open>The same object up to its status: the same desired state.\<close>

definition sameDesired :: "OpenBaoEntity \<Rightarrow> OpenBaoEntity \<Rightarrow> bool" where
  "sameDesired a b \<longleftrightarrow> ObjectMeta.truncate a = ObjectMeta.truncate b \<and> en_Spec a = en_Spec b"

text \<open>A live object whose external counterpart may be written.\<close>

definition activeEntity :: "KubeLib \<Rightarrow> EntityEvent list \<Rightarrow> OpenBaoEntity \<Rightarrow> bool" where
  "activeEntity L = live L KEntity KConnection (\<lambda>ent. IsDelete (deletionPolicy ent))"

text \<open>
  The identifier belongs to this resource: it is recorded in its status, or was returned by a
  creation of this run, or was adopted under a policy that allows adoption.
\<close>

definition ownedID :: "EntityEvent list \<Rightarrow> OpenBaoEntity \<Rightarrow> string \<Rightarrow> bool" where
  "ownedID pre ent i \<longleftrightarrow> i \<noteq> '''' \<and>
     (i = est_ID (en_Status ent)
      \<or> (\<exists>q. CreatedEntity q (Inr i) \<in> set pre)
      \<or> (\<exists>ob. GotEntityByName (om_Name ent) (Inr (Some ob)) \<in> set pre \<and> e_ID ob = i \<and>
           AllowsAdoption (creationPolicy ent)))"

definition observedEntity :: "EntityEvent list \<Rightarrow> OpenBaoEntity \<Rightarrow> string \<Rightarrow> Entity \<Rightarrow> bool" where
  "observedEntity pre ent i ob \<longleftrightarrow>
     GotEntityByID i (Inr (Some ob)) \<in> set pre \<or>
     (GotEntityByName (om_Name ent) (Inr (Some ob)) \<in> set pre \<and> e_ID ob = i)"

text \<open>The observation either matched the desired configuration or followed its acceptance.\<close>

definition settled :: "KubeLib \<Rightarrow> EntityEvent list \<Rightarrow> OpenBaoEntity \<Rightarrow> Entity \<Rightarrow> bool" where
  "settled L tr ent ob \<longleftrightarrow> (\<exists>i. ownedID tr ent i \<and> observedEntity tr ent i ob \<and>
     (entityMatches (desiredEntityRequest ent) ob \<or>
      (\<exists>x. UpdatedEntity i (desiredEntityRequest ent) (Inr (Some x)) \<in> set tr)))"

text \<open>OpenBao confirmed the deletion of the identifier.\<close>

fun deletedIn :: "KubeLib \<Rightarrow> string \<Rightarrow> EntityEvent \<Rightarrow> bool" where
  "deletedIn L i (DeletedEntity j d) = (j = i \<and> confirmedGone L d)"
| "deletedIn L i e = False"

fun entity_justified :: "KubeLib \<Rightarrow> EntityEvent list \<Rightarrow> EntityEvent \<Rightarrow> bool" where
  "entity_justified L pre (CreatedEntity q r) =
     (\<exists>ent err. activeEntity L pre ent \<and> AllowsCreation (creationPolicy ent) \<and>
        q = desiredEntityRequest ent \<and>
        GotEntityByName (om_Name ent) (Inl err) \<in> set pre \<and> isNotFound L err \<and>
        (\<forall>q' r'. CreatedEntity q' r' \<notin> set pre))"
| "entity_justified L pre (UpdatedEntity i q r) =
     (\<exists>ent ob. activeEntity L pre ent \<and> ownedID pre ent i \<and> observedEntity pre ent i ob \<and>
        q = desiredEntityRequest ent \<and> \<not> entityMatches q ob)"
| "entity_justified L pre (DeletedEntity i r) =
     (\<exists>ent. seen KEntity pre ent \<and> \<not> notDeleted ent \<and>
        deletionPolicy ent = DeletionPolicyDelete \<and> i = est_ID (en_Status ent) \<and> i \<noteq> '''')"
| "entity_justified L pre (KEntity (UpdatedObject ob r)) =
     finalizerWrite L KEntity (\<lambda>ent. IsDelete (deletionPolicy ent))
       (\<lambda>ent. deletionPolicy ent \<noteq> DeletionPolicyDelete \<or> est_ID (en_Status ent) = '''' \<or>
          list_ex (deletedIn L (est_ID (en_Status ent))) pre) pre ob"
| "entity_justified L pre (KEntity (UpdatedStatus ob r)) =
     (readyTrue (est_Conditions (en_Status ob)) \<longrightarrow>
       (\<exists>ent seen. activeEntity L pre ent \<and> sameDesired ob ent \<and> settled L pre ent seen \<and>
          (e_Name seen = [] \<or> e_Name seen = om_Name ent) \<and>
          (\<exists>ent1 t1 t2. ob = readyEntityStatus ent1 seen t1 t2 \<and> sameDesired ent1 ent)))"
| "entity_justified L pre (GotEntityByID i r) =
     (\<exists>ent. activeEntity L pre ent)"
| "entity_justified L pre (GotEntityByName n r) =
     (\<exists>ent. activeEntity L pre ent \<and> n = om_Name ent)"
| "entity_justified L pre e = True"

text \<open>Facts about the past survive later calls.\<close>

lemma active_mono [simp]: "activeEntity L pre ent \<Longrightarrow> activeEntity L (pre @ es) ent"
  by (simp add: activeEntity_def)

lemma owned_mono [simp]: "ownedID pre ent i \<Longrightarrow> ownedID (pre @ es) ent i"
  by (auto simp: ownedID_def)

lemma observed_mono [simp]: "observedEntity pre ent i ob \<Longrightarrow> observedEntity (pre @ es) ent i ob"
  by (auto simp: observedEntity_def)

lemma sameDesired_refl [simp]: "sameDesired a a"
  by (simp add: sameDesired_def)

lemma sameDesired_status [simp]: "sameDesired (a\<lparr>en_Status := st\<rparr>) b = sameDesired a b"
  by (simp add: sameDesired_def ObjectMeta.truncate_def)

lemma sameDesired_setID [simp]: "sameDesired (setEntityID i a) b = sameDesired a b"
  by (simp add: setEntityID_def)

lemma sameDesired_fields:
  assumes "sameDesired a b"
  shows "om_Name a = om_Name b" "desiredEntityRequest a = desiredEntityRequest b"
    "creationPolicy a = creationPolicy b" "deletionPolicy a = deletionPolicy b"
    "om_Generation a = om_Generation b" "om_Finalizers a = om_Finalizers b"
  using assms by (simp_all add: sameDesired_def ObjectMeta.truncate_def desiredEntityRequest_def
      creationPolicy_def deletionPolicy_def)

lemma setEntityID_ID [simp]: "est_ID (en_Status (setEntityID i e)) = i"
  by (simp add: setEntityID_def)

lemma entityAccess_sel [simp]:
  "sa_Status entityAccess e = en_Status e" "sa_setStatus entityAccess st e = e\<lparr>en_Status := st\<rparr>"
  "sa_Conditions entityAccess st = est_Conditions st"
  by (simp_all add: entityAccess_def)

text \<open>Introduction rules for the justifications.\<close>

lemma justified_GotByID: "activeEntity L pre ent \<Longrightarrow> entity_justified L pre (GotEntityByID i r)"
  by auto

lemma justified_GotByName:
  "activeEntity L pre ent \<Longrightarrow> n = om_Name ent \<Longrightarrow> entity_justified L pre (GotEntityByName n r)"
  by auto

lemma justified_Created:
  "activeEntity L pre ent \<Longrightarrow> AllowsCreation (creationPolicy ent) \<Longrightarrow> q = desiredEntityRequest ent
     \<Longrightarrow> GotEntityByName (om_Name ent) (Inl err) \<in> set pre \<Longrightarrow> isNotFound L err
     \<Longrightarrow> \<forall>q' r'. CreatedEntity q' r' \<notin> set pre \<Longrightarrow> entity_justified L pre (CreatedEntity q r)"
  by auto

lemma justified_Updated:
  "activeEntity L pre ent \<Longrightarrow> ownedID pre ent i \<Longrightarrow> observedEntity pre ent i ob
     \<Longrightarrow> q = desiredEntityRequest ent \<Longrightarrow> \<not> entityMatches q ob
     \<Longrightarrow> entity_justified L pre (UpdatedEntity i q r)"
  by auto

lemma justified_status_notReady:
  "\<not> readyTrue (est_Conditions (en_Status ob)) \<Longrightarrow> entity_justified L pre (KEntity (UpdatedStatus ob r))"
  by simp

lemmas justify = justified_GotByID justified_GotByName justified_Created justified_Updated
  justified_status_notReady

declare entity_justified.simps(1-7) [simp del]

lemma owned_created: "CreatedEntity q (Inr i) \<in> set tr \<Longrightarrow> i \<noteq> '''' \<Longrightarrow> ownedID tr ent i"
  by (auto simp: ownedID_def)

lemma owned_recorded: "i = est_ID (en_Status ent) \<Longrightarrow> i \<noteq> '''' \<Longrightarrow> ownedID tr ent i"
  by (auto simp: ownedID_def)

lemma owned_adopted:
  "GotEntityByName (om_Name ent) (Inr (Some ob)) \<in> set tr \<Longrightarrow> AllowsAdoption (creationPolicy ent)
     \<Longrightarrow> e_ID ob \<noteq> '''' \<Longrightarrow> ownedID tr ent (e_ID ob)"
  by (auto simp: ownedID_def)

lemma observed_byID: "GotEntityByID i (Inr (Some ob)) \<in> set tr \<Longrightarrow> observedEntity tr ent i ob"
  by (auto simp: observedEntity_def)

lemma observed_byName:
  "GotEntityByName (om_Name ent) (Inr (Some ob)) \<in> set tr \<Longrightarrow> observedEntity tr ent (e_ID ob) ob"
  by (auto simp: observedEntity_def)

lemmas provenance = owned_created owned_recorded owned_adopted observed_byID observed_byName

section \<open>Every run is justified\<close>

abbreviation justified :: "KubeLib \<Rightarrow> EntityEvent list \<Rightarrow> bool" where
  "justified L tr \<equiv> guarded (entity_justified L) tr"

lemma fail_entity_justified:
  assumes "justified (er_Lib R) tr"
  shows "wp (fail_entity (logEntityReconciler R) entity reason err)
           (\<lambda>_ (s', tr'). justified (er_Lib R) tr') (s, tr)"
proof -
  have "\<not> readyTrue (est_Conditions (failedStatus entityAccess g reason err t st))" for g t st
    using entityStatus.failed_conditions [of g reason err t st] has_condition_notReady by auto
  with assms show ?thesis
    unfolding fail_entity_def logEntityReconciler_sel
    by (intro wp_failWithI) (simp_all add: trace_simps justified_status_notReady)
qed

lemma dependencyFailure_entity_justified:
  assumes "justified (er_Lib R) tr"
  shows "wp (dependencyFailure_entity (logEntityReconciler R) entity err)
           (\<lambda>_ (s', tr'). justified (er_Lib R) tr') (s, tr)"
proof -
  have "\<not> readyTrue (est_Conditions (stalledStatus entityAccess g ''DependencyNotReady'' err t1 t2 st))"
    for g t1 t2 st
    using entityStatus.stalled_conditions(1) [of g "''DependencyNotReady''" err t1 t2 st] has_condition_notReady
    by auto
  with assms show ?thesis
    unfolding dependencyFailure_entity_def logEntityReconciler_sel
    by (intro wp_dependencyFailureWithI) (simp_all add: trace_simps justified_status_notReady)
qed

lemma cleanupStatus_notReady:
  "\<not> readyTrue (est_Conditions (cleanupStatus entityAccess e reason err t1 t2 t3))"
  unfolding cleanupStatus_def
  by (simp add: entityAccess_def has_condition_notReady [OF markCleanupFailure_all(1)])

lemma recordCleanupFailure_justified:
  assumes "justified (er_Lib R) tr"
  shows "wp (recordCleanupFailure entityAccess (silent now) (k_StatusUpdate (logKube KEntity K)) entity before reason err)
           (\<lambda>_ (s', tr'). justified (er_Lib R) tr') (s, tr)"
  using assms
  by (intro wp_recordCleanupFailureI)
     (simp_all add: trace_simps cleanupStatus_notReady justified_status_notReady)

text \<open>
  \<open>acquire\<close>: what it returns is owned and observed; what it did was justified.
\<close>

definition acquired ::
  "KubeLib \<Rightarrow> OpenBaoEntity \<Rightarrow> OpenBaoEntity \<times> (go_error + Entity option) \<Rightarrow> EntityEvent list \<Rightarrow> bool" where
  "acquired L orig p tr \<longleftrightarrow> justified L tr \<and> activeEntity L tr orig \<and> sameDesired (fst p) orig \<and>
     (\<forall>ob. snd p = Inr (Some ob) \<longrightarrow>
        ownedID tr orig (est_ID (en_Status (fst p))) \<and>
        observedEntity tr orig (est_ID (en_Status (fst p))) ob)"

lemma acquired_Inl:
  "justified L tr \<Longrightarrow> activeEntity L tr orig \<Longrightarrow> sameDesired e orig \<Longrightarrow> acquired L orig (e, Inl err) tr"
  by (simp add: acquired_def)

lemma acquire_without_ID:
  "est_ID (en_Status entity) = '''' \<Longrightarrow> acquire_entity L entity apiClient = do {
        r \<leftarrow> GetEntityByName apiClient (om_Name entity);
        case r of
          Inr observed \<Rightarrow>
            if \<not> AllowsAdoption (creationPolicy entity) then
              ret (entity, Inl (Errorf (''OpenBao entity '' @ fmt_q (om_Name entity) @
                '' already exists; set creationPolicy to Adopt or CreateOrAdopt to manage it'')))
            else (case observed of
                None \<Rightarrow> ret (entity, Inl NilPanic)
              | Some ob \<Rightarrow>
                  if e_ID ob = '''' then
                    ret (entity, Inl (Errorf (''OpenBao returned an entity named '' @
                      fmt_q (om_Name entity) @ '' without an ID'')))
                  else ret (setEntityID (e_ID ob) entity, Inr (Some ob)))
        | Inl err \<Rightarrow>
            if \<not> isNotFound L err then ret (entity, Inl err)
            else if \<not> AllowsCreation (creationPolicy entity) then
              ret (entity, Inl (Errorf (''OpenBao entity '' @ fmt_q (om_Name entity) @
                '' does not exist and creationPolicy='' @ creationPolicy entity @
                '' does not allow creation'')))
            else do {
              c \<leftarrow> CreateEntity apiClient (desiredEntityRequest entity);
              case c of
                Inl err \<Rightarrow> ret (entity, Inl err)
              | Inr newID \<Rightarrow>
                  if newID = '''' then
                    ret (entity, Inl (Errorf (''OpenBao returned an empty ID when creating entity '' @
                      fmt_q (om_Name entity))))
                  else do {
                    g \<leftarrow> GetEntityByID apiClient newID;
                    ret (setEntityID newID entity, g)
                  }
            }
      }"
  by (subst acquire_entity.simps) simp

lemma acquire_with_ID:
  "est_ID (en_Status entity) \<noteq> '''' \<Longrightarrow> acquire_entity L entity apiClient = do {
        r \<leftarrow> GetEntityByID apiClient (est_ID (en_Status entity));
        case r of
          Inl err \<Rightarrow>
            if isNotFound L err then acquire_entity L (setEntityID '''' entity) apiClient
            else ret (entity, Inl err)
        | Inr observed \<Rightarrow> ret (entity, Inr observed)
      }"
  by (subst acquire_entity.simps) simp

lemma acquire_without_ID_justified:
  assumes "est_ID (en_Status entity) = ''''" "sameDesired entity orig" "activeEntity L tr orig"
    and "justified L tr" and "\<forall>q r. CreatedEntity q r \<notin> set tr"
  shows "wp (acquire_entity L entity (logEntityClient c)) (\<lambda>p (s', tr'). acquired L orig p tr') (s, tr)"
proof -
  note f = sameDesired_fields [OF assms(2)]
  show ?thesis
    unfolding acquire_without_ID [OF assms(1)] wp_simps logEntityClient_sel
    using assms f
    apply (intro wp_loggedI)
    apply (simp split: sum.splits option.splits)
    apply (intro conjI impI allI wp_loggedI)
    apply (auto simp: acquired_def trace_simps intro!: justify intro: provenance active_mono)
    done
qed

lemma acquire_entity_justified:
  assumes "sameDesired entity orig" "activeEntity L tr orig" "justified L tr"
    and "\<forall>q r. CreatedEntity q r \<notin> set tr"
    and "est_ID (en_Status entity) \<noteq> '''' \<Longrightarrow> est_ID (en_Status entity) = est_ID (en_Status orig)"
  shows "wp (acquire_entity L entity (logEntityClient c)) (\<lambda>p (s', tr'). acquired L orig p tr') (s, tr)"
proof (cases "est_ID (en_Status entity) = ''''")
  case True
  then show ?thesis using assms(1-4) by (rule acquire_without_ID_justified)
next
  case False
  let ?i = "est_ID (en_Status entity)"
  show ?thesis
    unfolding acquire_with_ID [OF False] wp_simps logEntityClient_sel
  proof (rule wp_loggedI)
    fix r s'
    let ?tr = "tr @ [GotEntityByID ?i r]"
    have j: "justified L ?tr" using assms(2,3) by (simp add: trace_simps justified_GotByID)
    have again: "wp (acquire_entity L (setEntityID '''' entity) (logEntityClient c))
        (\<lambda>p (s', tr'). acquired L orig p tr') (s', ?tr)"
      by (rule acquire_without_ID_justified) (use assms j in auto)
    have own: "ownedID ?tr orig ?i"
      using False assms(5) by (auto intro: owned_recorded)
    show "case r of
        Inl err \<Rightarrow> if isNotFound L err
             then wp (acquire_entity L (setEntityID [] entity) (logEntityClient c))
                   (\<lambda>p (s', tr'). acquired L orig p tr') (s', ?tr)
             else case (s', ?tr) of (s', tr') \<Rightarrow> acquired L orig (entity, Inl err) tr'
      | Inr observed \<Rightarrow> case (s', ?tr) of (s', tr') \<Rightarrow> acquired L orig (entity, Inr observed) tr'"
    proof (cases r)
      case (Inl err)
      then show ?thesis
        using again assms(1,2) j by (auto intro: acquired_Inl)
    next
      case (Inr observed)
      then show ?thesis
        using own assms(1,2) j by (auto simp: acquired_def intro!: observed_byID)
    qed
  qed
qed

text \<open>The end of the reconciliation: a ready status needs an observation to rest on.\<close>

lemma sameDesired_ready: "sameDesired (readyEntityStatus a ob t1 t2) b = sameDesired a b"
  by (simp add: readyEntityStatus_def observeEntityStatus_def Let_def)

lemma justified_status_ready:
  "activeEntity L pre ent \<Longrightarrow> settled L pre ent ob \<Longrightarrow> e_Name ob = '''' \<or> e_Name ob = om_Name ent
     \<Longrightarrow> sameDesired ent1 ent
     \<Longrightarrow> entity_justified L pre (KEntity (UpdatedStatus (readyEntityStatus ent1 ob t1 t2) r))"
  unfolding entity_justified.simps
  by (intro impI exI [where x = ent] exI [where x = ob] exI [where x = ent1] exI conjI)
     (auto simp: sameDesired_ready)

lemma finish_entity_justified:
  assumes "sameDesired entity orig" "activeEntity (er_Lib R) tr orig" "justified (er_Lib R) tr"
    and "settled (er_Lib R) tr orig observed"
  shows "wp (finish_entity (logEntityReconciler R) before entity observed)
           (\<lambda>_ (s', tr'). justified (er_Lib R) tr') (s, tr)"
proof -
  note f = sameDesired_fields [OF assms(1)]
  have "wp (do { t1 \<leftarrow> er_Now (logEntityReconciler R); t2 \<leftarrow> er_Now (logEntityReconciler R);
        let entity = readyEntityStatus entity observed t1 t2;
        r \<leftarrow> updateStatusIfChanged (k_StatusUpdate (er_Entities (logEntityReconciler R))) entity before (en_Status entity);
        case r of Inl err \<Rightarrow> ret (noRequeue, Some err)
        | Inr entity \<Rightarrow> ret (requeueIn (entityDriftInterval entity), None) })
      (\<lambda>_ (s', tr'). justified (er_Lib R) tr') (s, tr)"
    if "e_Name observed = '''' \<or> e_Name observed = om_Name entity"
    unfolding Let_def wp_simps logEntityReconciler_sel
    using that assms f
    by (intro wp_silentI wp_updateStatusI)
       (auto simp: trace_simps intro!: justified_status_ready split: sum.splits)
  then show ?thesis
    using fail_entity_justified [OF assms(3)]
    by (auto simp: finish_entity_def simp del: logEntityReconciler_sel)
qed

lemma sync_entity_justified:
  assumes "acquired (er_Lib R) orig (entity, Inr acq) tr"
  shows "wp (sync_entity (logEntityReconciler R) (logEntityClient c) before entity acq)
           (\<lambda>_ (s', tr'). justified (er_Lib R) tr') (s, tr)"
proof (cases acq)
  case None
  with assms show ?thesis by (simp add: sync_entity_def nilPanic_def wp_simps acquired_def)
next
  case (Some ob)
  let ?L = "er_Lib R" and ?i = "est_ID (en_Status entity)"
  from assms Some have a: "justified ?L tr" "activeEntity ?L tr orig" "sameDesired entity orig"
    "ownedID tr orig ?i" "observedEntity tr orig ?i ob"
    by (simp_all add: acquired_def)
  note f = sameDesired_fields [OF a(3)]
  let ?d = "desiredEntityRequest orig"
  show ?thesis
  proof (cases "entityMatches ?d ob")
    case True
    with a have "settled ?L tr orig ob" by (auto simp: settled_def)
    with a have "wp (finish_entity (logEntityReconciler R) before entity ob)
           (\<lambda>_ (s', tr'). justified ?L tr') (s, tr)" by (intro finish_entity_justified)
    with True Some f show ?thesis by (simp add: sync_entity_def Let_def)
  next
    case False
    have upd: "justified ?L (tr @ [UpdatedEntity ?i ?d u])" for u
      using a False by (auto simp: trace_simps intro!: justified_Updated)
    have get: "justified ?L (tr @ [UpdatedEntity ?i ?d u, GotEntityByID ?i g])" for u g
      using upd [of u] a(2) by (auto simp: trace_simps intro: justified_GotByID active_mono)
    have fin: "wp (finish_entity (logEntityReconciler R) before entity ob')
           (\<lambda>_ (s', tr'). justified ?L tr') (s', tr @ [UpdatedEntity ?i ?d (Inr (Some x)), GotEntityByID ?i (Inr (Some ob'))])"
      for x ob' s'
    proof (rule finish_entity_justified [OF a(3)])
      let ?tr = "tr @ [UpdatedEntity ?i ?d (Inr (Some x)), GotEntityByID ?i (Inr (Some ob'))]"
      show "activeEntity ?L ?tr orig" using a(2) by (rule active_mono)
      show "justified ?L ?tr" by (rule get)
      show "settled ?L ?tr orig ob'"
        unfolding settled_def using a(4)
        by (intro exI [where x = ?i]) (auto intro: observed_byID)
    qed
    have fl: "wp (fail_entity (logEntityReconciler R) entity reason err)
           (\<lambda>_ (s', tr'). justified ?L tr') (s', tr @ [UpdatedEntity ?i ?d u])"
      "wp (fail_entity (logEntityReconciler R) entity reason err)
           (\<lambda>_ (s', tr'). justified ?L tr') (s', tr @ [UpdatedEntity ?i ?d u, GotEntityByID ?i g])"
      for reason err u g s'
      using upd get by (auto intro: fail_entity_justified)
    show ?thesis
      using False Some f upd get fin fl
      unfolding sync_entity_def Let_def
      by (auto simp: wp_simps nilPanic_def simp del: logEntityReconciler_sel
               intro!: wp_loggedI split: sum.splits option.splits)
  qed
qed

lemma acquired_justified: "acquired L orig p tr \<Longrightarrow> justified L tr"
  by (simp add: acquired_def)

lemma wp_acquire_entityI:
  assumes "sameDesired entity orig" "activeEntity L tr orig" "justified L tr"
    and "\<forall>q r. CreatedEntity q r \<notin> set tr"
    and "est_ID (en_Status entity) \<noteq> '''' \<Longrightarrow> est_ID (en_Status entity) = est_ID (en_Status orig)"
    and "\<And>e a s1 tr1. acquired L orig (e, a) tr1 \<Longrightarrow> Q (e, a) (s1, tr1)"
  shows "wp (acquire_entity L entity (logEntityClient c)) Q (s, tr)"
  by (rule wp_mono [OF acquire_entity_justified]) (use assms in auto)

lemma reconcileActive_entity_justified:
  assumes "seen KEntity tr orig" "notDeleted orig" "justified (er_Lib R) tr"
    and "IsDelete (deletionPolicy orig) \<longrightarrow> held (er_Lib R) KEntity tr orig"
    and "\<forall>q r. CreatedEntity q r \<notin> set tr"
  shows "wp (reconcileActive_entity (logEntityReconciler R) before orig)
           (\<lambda>_ (s', tr'). justified (er_Lib R) tr') (s, tr)"
proof -
  let ?L = "er_Lib R" and ?R = "logEntityReconciler R"
  let ?ref = "ens_ConnectionRef (en_Spec orig)"
  let ?nn = "(om_Namespace orig, connref_Name ?ref)"
  have conn: "justified ?L (tr @ [KConnection (GotObject ?nn r)])"
    "justified ?L (tr @ [KConnection (GotObject ?nn r), MadeEntityClient k e])" for r k e
    using assms(3) by (simp_all add: trace_simps)
  have active: "activeEntity ?L (tr @ [KConnection (GotObject ?nn (Inr k)), MadeEntityClient k e]) orig"
    if "IsStatusConditionTrue ?L (cnst_Conditions (cn_Status k)) conditionReady" for k e
    using assms that by (auto simp: activeEntity_def live_def intro: connReady_got [where conn = k and nn = ?nn])
  show ?thesis
    unfolding reconcileActive_entity_def Let_def wp_simps resolveConnection_def logEntityReconciler_sel logKube_sel
    using conn assms(5)
    by (auto split: sum.splits simp: nilPanic_def wp_simps acquired_justified
        intro!: wp_loggedI wp_clientFor_loggedI dependencyFailure_entity_justified
                wp_acquire_entityI [where orig = orig] active fail_entity_justified
                sync_entity_justified [where orig = orig])
qed

lemma justified_dropFinalizer:
  assumes "seen KEntity pre ent" "\<not> notDeleted ent" "fs = om_Finalizers ent"
    and "deletionPolicy ent \<noteq> DeletionPolicyDelete \<or> est_ID (en_Status ent) = '''' \<or>
       list_ex (deletedIn L (est_ID (en_Status ent))) pre"
  shows "entity_justified L pre (KEntity (UpdatedObject
           (e\<lparr>om_Finalizers := RemoveFinalizer L fs finalizerName\<rparr>) r))"
  unfolding entity_justified.simps by (rule finalizerWrite_remove [where orig = ent]) (use assms in auto)

lemma justified_addFinalizer:
  assumes "seen KEntity pre ent" "notDeleted ent" "IsDelete (deletionPolicy ent)"
  shows "entity_justified L pre (KEntity (UpdatedObject
           (ent\<lparr>om_Finalizers := AddFinalizer L (om_Finalizers ent) finalizerName\<rparr>) r))"
  unfolding entity_justified.simps by (rule finalizerWrite_add) (use assms in auto)

lemma justified_Deleted:
  assumes "seen KEntity pre ent" "\<not> notDeleted ent" "deletionPolicy ent = DeletionPolicyDelete"
    and "i = est_ID (en_Status ent)" "i \<noteq> ''''"
  shows "entity_justified L pre (DeletedEntity i r)"
  unfolding entity_justified.simps using assms by blast

lemma reconcileDeletion_entity_justified:
  assumes "seen KEntity tr orig" "\<not> notDeleted orig" "justified (er_Lib R) tr"
  shows "wp (reconcileDeletion_entity (logEntityReconciler R) orig)
           (\<lambda>_ (s', tr'). justified (er_Lib R) tr') (s, tr)"
  unfolding reconcileDeletion_entity_def Let_def wp_simps resolveConnection_def logEntityReconciler_sel logKube_sel
  using assms
  by (auto split: sum.splits option.splits simp: wp_simps trace_simps confirmedGone_def
      intro!: wp_removeFinalizerI wp_loggedI wp_clientFor_loggedI recordCleanupFailure_justified
        justified_dropFinalizer [where ent = orig] justified_Deleted [where ent = orig])

lemma Reconcile_entity_justified:
  "wp (Reconcile_entity (logEntityReconciler R) req) (\<lambda>_ (s', tr'). justified (er_Lib R) tr') (s, [])"
  unfolding Reconcile_entity_def Let_def wp_simps logEntityReconciler_sel logKube_sel
  by (rule wp_loggedI)
     (auto split: sum.splits simp: wp_simps guarded_def
      intro!: wp_ensureFinalizerI reconcileDeletion_entity_justified reconcileActive_entity_justified
        justified_addFinalizer
      intro: seen_got seen_updated held_contains held_added)

lemma entity_trace_justified: "guarded (entity_justified (er_Lib R)) (entity_trace R req s)"
  using Reconcile_entity_justified [of R req s]
  by (simp add: entity_trace_def entity_run_def wp_run split_beta)

section \<open>The properties\<close>

text \<open>Each property reads one kind of event off the justification.\<close>

definition entity_create_ok :: "KubeLib \<Rightarrow> EntityEvent list \<Rightarrow> EntityEvent \<Rightarrow> bool" where
  "entity_create_ok L pre e = (case e of
      CreatedEntity q r \<Rightarrow> (\<exists>ent err. activeEntity L pre ent \<and> AllowsCreation (creationPolicy ent) \<and>
        q = desiredEntityRequest ent \<and> GotEntityByName (om_Name ent) (Inl err) \<in> set pre \<and>
        isNotFound L err \<and> (\<forall>q' r'. CreatedEntity q' r' \<notin> set pre))
    | _ \<Rightarrow> True)"

definition entity_update_ok :: "KubeLib \<Rightarrow> EntityEvent list \<Rightarrow> EntityEvent \<Rightarrow> bool" where
  "entity_update_ok L pre e = (case e of
      UpdatedEntity i q r \<Rightarrow> (\<exists>ent ob. activeEntity L pre ent \<and> ownedID pre ent i \<and>
        observedEntity pre ent i ob \<and> q = desiredEntityRequest ent \<and> \<not> entityMatches q ob)
    | _ \<Rightarrow> True)"

definition entity_delete_ok :: "EntityEvent list \<Rightarrow> EntityEvent \<Rightarrow> bool" where
  "entity_delete_ok pre e = (case e of
      DeletedEntity i r \<Rightarrow> (\<exists>ent. seen KEntity pre ent \<and> \<not> notDeleted ent \<and>
        deletionPolicy ent = DeletionPolicyDelete \<and> i = est_ID (en_Status ent) \<and> i \<noteq> '''')
    | _ \<Rightarrow> True)"

definition entity_finalizer_ok :: "KubeLib \<Rightarrow> EntityEvent list \<Rightarrow> EntityEvent \<Rightarrow> bool" where
  "entity_finalizer_ok L pre e = (case e of
      KEntity (UpdatedObject ob r) \<Rightarrow> finalizerWrite L KEntity (\<lambda>ent. IsDelete (deletionPolicy ent))
       (\<lambda>ent. deletionPolicy ent \<noteq> DeletionPolicyDelete \<or> est_ID (en_Status ent) = '''' \<or>
          list_ex (deletedIn L (est_ID (en_Status ent))) pre) pre ob
    | _ \<Rightarrow> True)"

definition entity_ready_ok :: "KubeLib \<Rightarrow> EntityEvent list \<Rightarrow> EntityEvent \<Rightarrow> bool" where
  "entity_ready_ok L pre e = (case e of
      KEntity (UpdatedStatus ob r) \<Rightarrow>
        (if readyTrue (est_Conditions (en_Status ob)) then
           (\<exists>ent seen ent1 t1 t2. activeEntity L pre ent \<and> settled L pre ent seen \<and>
              (e_Name seen = '''' \<or> e_Name seen = om_Name ent) \<and>
              ob = readyEntityStatus ent1 seen t1 t2 \<and> sameDesired ent1 ent)
         else True)
    | _ \<Rightarrow> True)"

text \<open>
  An entity is created in OpenBao only on behalf of a live resource whose connection was
  read as ready, whose creation policy allows it, after a lookup by name answered "not found";
  the request is the desired configuration, and a reconciliation creates at most once.  If the
  resource asks for deletion of the external object, its finalizer is in place first.
\<close>

lemma entity_creates_only_absent:
  "guarded (entity_create_ok (er_Lib R)) (entity_trace R req s)"
  by (rule guarded_mono [OF entity_trace_justified])
     (auto simp: entity_create_ok_def entity_justified.simps split: EntityEvent.splits)

text \<open>
  An entity is updated only if the resource owns its identifier: it is recorded in the
  status, was created in this run, or was adopted under a policy that allows adoption.  The
  update sends the desired configuration, and only after an observation that differs from it.
\<close>

lemma entity_updates_only_owned:
  "guarded (entity_update_ok (er_Lib R)) (entity_trace R req s)"
  by (rule guarded_mono [OF entity_trace_justified])
     (auto simp: entity_update_ok_def entity_justified.simps split: EntityEvent.splits)


text \<open>
  An entity is deleted only if the resource is being deleted, its deletion policy is
  Delete and the identifier is the one recorded in its status: an entity that was never
  acquired is never deleted.
\<close>

lemma entity_deletes_only_acquired: "guarded entity_delete_ok (entity_trace R req s)"
  by (rule guarded_mono [OF entity_trace_justified])
     (auto simp: entity_delete_ok_def entity_justified.simps split: EntityEvent.splits)

text \<open>
  The only writes to the resource itself are the finalizer's: it is added to a live
  resource that asks for deletion, and removed from a deleted one only when there is nothing
  to delete or OpenBao confirmed the deletion (success or "not found").
\<close>

lemma entity_finalizer_discipline:
  "guarded (entity_finalizer_ok (er_Lib R)) (entity_trace R req s)"
proof (rule guarded_mono [OF entity_trace_justified])
  fix pre e assume j: "entity_justified (er_Lib R) pre e"
  show "entity_finalizer_ok (er_Lib R) pre e"
  proof (cases "\<exists>ob r. e = KEntity (UpdatedObject ob r)")
    case True
    then obtain ob r where e: "e = KEntity (UpdatedObject ob r)" by blast
    from j show ?thesis
      by (simp only: e entity_justified.simps entity_finalizer_ok_def EntityEvent.case KubeEvent.case)
  qed (auto simp: entity_finalizer_ok_def split: EntityEvent.splits KubeEvent.splits)
qed

text \<open>
  C1. An entity is deleted only for a deleted resource with deletion policy Delete, by the
  identifier its status records: one that was never acquired is never deleted.  The finalizer is
  added only to a live resource that asks for deletion, and removed only from a deleted one, when
  there is nothing to delete or OpenBao confirmed the deletion (success or "not found").
\<close>

theorem entity_deletion_discipline:
  "guarded entity_delete_ok (entity_trace R req s) \<and>
   guarded (entity_finalizer_ok (er_Lib R)) (entity_trace R req s)"
  by (intro conjI entity_deletes_only_acquired entity_finalizer_discipline)


section \<open>Failures already on record\<close>

text \<open>
  \<^verbatim>\<open>fail\<close> compares the status with a copy taken after \<^verbatim>\<open>acquire\<close> has
  stored the identifier of a created entity.  When the same failure (reason, message,
  generation) is already recorded, nothing is written, the new identifier included.  The
  environment below exhibits it: the entity is absent, its creation succeeds, reading it back
  fails as it failed in the reconciliation before.
\<close>

definition failedEntity :: OpenBaoEntity where
  "failedEntity = \<lparr>om_Name = ''app'', om_Namespace = ''ns'', om_Generation = 1,
     om_Finalizers = [finalizerName], om_DeletionTimestamp = None,
     en_Spec = \<lparr>ens_ConnectionRef = \<lparr>connref_Name = ''bao''\<rparr>, ens_CreationPolicy = ''Create'',
       ens_DeletionPolicy = ''Delete'', ens_DriftDetectionInterval = None, ens_Metadata = None,
       ens_Policies = None, ens_Disabled = False\<rparr>,
     en_Status = \<lparr>est_ID = '''', est_Name = '''', est_Metadata = None, est_Policies = None,
       est_Disabled = False, est_ObservedGeneration = 1,
       est_Conditions = [mkCondition conditionReady ConditionFalse ''EntityAcquireFailed'' ''connection reset'' 1 7]\<rparr>\<rparr>"

definition lossyClient :: "unit EntityClient" where
  "lossyClient =
     \<lparr>GetEntityByID = (\<lambda>i. ret (Inl boom)),
      GetEntityByName = (\<lambda>n. ret (Inl (HTTPError 404 ''''))),
      CreateEntity = (\<lambda>q. ret (Inr ''id-1'')),
      UpdateEntity = (\<lambda>i q. ret (Inl boom)),
      DeleteEntity = (\<lambda>i. ret None)\<rparr>"

definition lossyReconciler :: "unit EntityReconciler" where
  "lossyReconciler =
     \<lparr>er_Lib = stdLib, er_Entities = constKube failedEntity, er_Connections = constKube readyConn,
      er_Now = ret 9, er_NewClient = Some (\<lambda>c. ret (Inr lossyClient)), er_ClientCache = None,
      er_connectionClientFor = (\<lambda>c. ret (Inl boom))\<rparr>"


end
