(* ===== verification/EntityConvergence.thy ===== *)
theory EntityConvergence
  imports EntityController Examples
begin

text \<open>
  The entity controller reaches its goal.  The theorems of \<open>EntityProperties\<close> say what a run
  may do whatever is answered; here the API server and OpenBao answer as they are documented to,
  and one reconciliation brings a manageable entity to its specification, after which the next one
  changes nothing.

  The servers are parameters.  \<open>entityServed\<close> relates their answers to the contents of the
  outside state, an \<open>EntityWorld\<close>: the resource and the entities stored in OpenBao.  An instance of the
  parameters is given at the end; \<open>EntityStack\<close> shows that the connection cache and the HTTP client
  over an OpenBao server are another one.
\<close>

section \<open>The documented behaviour of the servers\<close>

record EntityWorld =
  ew_object :: OpenBaoEntity
  ew_stored :: "Entity list"

definition lookupID :: "string \<Rightarrow> Entity list \<Rightarrow> Entity option" where
  "lookupID i es = find (\<lambda>e. e_ID e = i) es"

definition lookupName :: "string \<Rightarrow> Entity list \<Rightarrow> Entity option" where
  "lookupName n es = find (\<lambda>e. e_Name e = n) es"

definition storedAs :: "string \<Rightarrow> EntityRequest \<Rightarrow> Entity" where
  "storedAs i q = \<lparr>e_ID = i, e_Name = er_Name q, e_Metadata = er_Metadata q, e_Policies = er_Policies q,
     e_Disabled = er_Disabled q\<rparr>"

definition rewritten :: "string \<Rightarrow> EntityRequest \<Rightarrow> Entity list \<Rightarrow> Entity list" where
  "rewritten i q es = map (\<lambda>e. if e_ID e = i then storedAs i q else e) es"

definition found :: "go_error \<Rightarrow> Entity option \<Rightarrow> go_error + Entity option" where
  "found absent r = (case r of None \<Rightarrow> Inl absent | Some e \<Rightarrow> Inr (Some e))"

text \<open>
  The servers as the controller sees them: the contents of an outside state, the clients usable in it,
  the connection, the choice of an identifier for a new entity, and the error that reports an absent one.
\<close>

record 's Servers =
  sv_view :: "'s \<Rightarrow> EntityWorld"
  sv_usable :: "'s EntityClient \<Rightarrow> 's \<Rightarrow> bool"
  sv_connection :: OpenBaoConnection
  sv_fresh :: "Entity list \<Rightarrow> string"
  sv_absent :: go_error

text \<open>The call \<open>m\<close> made in \<open>s\<close> answers \<open>a\<close>, leaves the contents \<open>w\<close>, and usable clients usable.\<close>

definition answersAs :: "'s Servers \<Rightarrow> ('s, 'a) state \<Rightarrow> 's \<Rightarrow> 'a \<Rightarrow> EntityWorld \<Rightarrow> bool" where
  "answersAs V m s a w \<longleftrightarrow> (case run_state m s of (r, s') \<Rightarrow>
     r = a \<and> sv_view V s' = w \<and> (\<forall>c. sv_usable V c s \<longrightarrow> sv_usable V c s'))"

definition entityClientServed :: "'s Servers \<Rightarrow> 's EntityClient \<Rightarrow> 's \<Rightarrow> bool" where
  "entityClientServed V c s \<longleftrightarrow>
     (let w = sv_view V s; es = ew_stored w; i0 = sv_fresh V es in
      (\<forall>i. answersAs V (GetEntityByID c i) s (found (sv_absent V) (lookupID i es)) w) \<and>
      (\<forall>n. answersAs V (GetEntityByName c n) s (found (sv_absent V) (lookupName n es)) w) \<and>
      (\<forall>q. er_Name q \<noteq> '''' \<longrightarrow> lookupName (er_Name q) es = None \<longrightarrow>
         answersAs V (CreateEntity c q) s (Inr i0) (w\<lparr>ew_stored := es @ [storedAs i0 q]\<rparr>)) \<and>
      (\<forall>i q. er_Name q \<noteq> '''' \<longrightarrow> lookupID i es \<noteq> None \<longrightarrow>
         (\<exists>x. answersAs V (UpdateEntity c i q) s (Inr (Some x)) (w\<lparr>ew_stored := rewritten i q es\<rparr>))))"

text \<open>An update writes the metadata of the resource, a status update its status.\<close>

definition kubeServed :: "'s Servers \<Rightarrow> 's EntityReconciler \<Rightarrow> 's \<Rightarrow> bool" where
  "kubeServed V R s \<longleftrightarrow>
     (let w = sv_view V s; ob = ew_object w in
      answersAs V (k_Get (er_Entities R) (ObjectKey ob)) s (Inr ob) w \<and>
      (\<forall>ob'. ob'\<lparr>om_Finalizers := om_Finalizers ob\<rparr> = ob \<longrightarrow>
         answersAs V (k_Update (er_Entities R) ob') s (Inr ob') (w\<lparr>ew_object := ob'\<rparr>)) \<and>
      (\<forall>ob'. ob'\<lparr>en_Status := en_Status ob\<rparr> = ob \<longrightarrow>
         answersAs V (k_StatusUpdate (er_Entities R) ob') s (Inr ob') (w\<lparr>ew_object := ob'\<rparr>)) \<and>
      answersAs V (resolveConnection (er_Connections R) (om_Namespace ob) (ens_ConnectionRef (en_Spec ob))) s
        (Inr (sv_connection V)) w \<and>
      (\<exists>t. answersAs V (er_Now R) s t w))"

definition entityServed :: "'s Servers \<Rightarrow> 's EntityReconciler \<Rightarrow> bool" where
  "entityServed V R \<longleftrightarrow>
     kube_lib_ok (er_Lib R) \<and> isNotFound (er_Lib R) (sv_absent V) \<and>
     (\<forall>es. sv_fresh V es \<noteq> '''' \<and> sv_fresh V es \<notin> e_ID ` set es) \<and>
     (\<forall>s. kubeServed V R s) \<and>
     (\<forall>s. \<exists>c. answersAs V (clientFor_entity R (sv_connection V)) s (Inr c) (sv_view V s) \<and>
        sv_usable V c (snd (run_state (clientFor_entity R (sv_connection V)) s))) \<and>
     (\<forall>c s. sv_usable V c s \<longrightarrow> entityClientServed V c s)"

text \<open>
  What the controller can bring about: the entity is recorded and there, or it is absent and may be
  created, or it is there under its name and may be adopted.
\<close>

definition manageable :: "KubeLib \<Rightarrow> OpenBaoConnection \<Rightarrow> EntityWorld \<Rightarrow> bool" where
  "manageable L conn w \<longleftrightarrow>
     (let ob = ew_object w; i = est_ID (en_Status ob); es = ew_stored w
      in notDeleted ob \<and> om_Name ob \<noteq> '''' \<and> distinct (map e_ID es) \<and> '''' \<notin> e_ID ` set es \<and>
         IsStatusConditionTrue L (cnst_Conditions (cn_Status conn)) conditionReady \<and>
         (lookupID i es \<noteq> None \<or>
          (case lookupName (om_Name ob) es of
             None \<Rightarrow> AllowsCreation (creationPolicy ob)
           | Some e \<Rightarrow> AllowsAdoption (creationPolicy ob))))"

section \<open>Calls\<close>

text \<open>The contents are \<open>w\<close>, and the clients of \<open>C\<close> are usable.\<close>

definition stands :: "'s Servers \<Rightarrow> 's EntityClient set \<Rightarrow> EntityWorld \<Rightarrow> 's \<Rightarrow> bool" where
  "stands V C w s \<longleftrightarrow> sv_view V s = w \<and> (\<forall>c\<in>C. sv_usable V c s)"

lemma stands_view: "stands V C w s \<Longrightarrow> sv_view V s = w"
  by (simp add: stands_def)

lemma stands_start: "stands V {} (sv_view V s) s"
  by (simp add: stands_def)

lemma wp_answersAs:
  "answersAs V m s a w' \<Longrightarrow> stands V C w s \<Longrightarrow> (\<And>s'. stands V C w' s' \<Longrightarrow> Q a s') \<Longrightarrow> wp m Q s"
  by (auto simp: answersAs_def stands_def wp_run split: prod.splits)

lemma lookupID_Some: "lookupID i es = Some e \<Longrightarrow> e \<in> set es \<and> e_ID e = i"
  by (auto simp: lookupID_def find_Some_iff)

lemma lookupName_Some: "lookupName n es = Some e \<Longrightarrow> e \<in> set es \<and> e_Name e = n"
  by (auto simp: lookupName_def find_Some_iff)

lemma lookupID_distinct: "distinct (map e_ID es) \<Longrightarrow> e \<in> set es \<Longrightarrow> lookupID (e_ID e) es = Some e"
  unfolding lookupID_def by (induction es) (auto simp: rev_image_eqI)

lemma lookupID_append: "i \<notin> e_ID ` set es \<Longrightarrow> lookupID i (es @ [e]) = (if e_ID e = i then Some e else None)"
  unfolding lookupID_def by (induction es) auto

lemma lookupID_rewritten: "lookupID i es \<noteq> None \<Longrightarrow> lookupID i (rewritten i q es) = Some (storedAs i q)"
  unfolding lookupID_def rewritten_def by (induction es) (auto simp: storedAs_def)

lemma storedAs_matches: "entityMatches (desiredEntityRequest ob) (storedAs i (desiredEntityRequest ob))"
  by (simp add: entityMatches_def storedAs_def desiredEntityRequest_def policyNames.norm_idem)

section \<open>Calls to the servers\<close>

lemma served_facts:
  assumes "entityServed V R"
  shows "kube_lib_ok (er_Lib R)" "isNotFound (er_Lib R) (sv_absent V)" "sv_fresh V es \<noteq> ''''" "sv_fresh V es \<notin> e_ID ` set es"
    "kubeServed V R s" "sv_usable V c s \<Longrightarrow> entityClientServed V c s"
  using assms unfolding entityServed_def by blast+

lemma kubeServed_calls:
  assumes "entityServed V R" "stands V C w s"
  shows "answersAs V (k_Get (er_Entities R) (ObjectKey (ew_object w))) s (Inr (ew_object w)) w"
    "ob\<lparr>om_Finalizers := om_Finalizers (ew_object w)\<rparr> = ew_object w \<Longrightarrow>
       answersAs V (k_Update (er_Entities R) ob) s (Inr ob) (w\<lparr>ew_object := ob\<rparr>)"
    "ob\<lparr>en_Status := en_Status (ew_object w)\<rparr> = ew_object w \<Longrightarrow>
       answersAs V (k_StatusUpdate (er_Entities R) ob) s (Inr ob) (w\<lparr>ew_object := ob\<rparr>)"
    "answersAs V (resolveConnection (er_Connections R) (om_Namespace (ew_object w)) (ens_ConnectionRef (en_Spec (ew_object w)))) s
       (Inr (sv_connection V)) w"
    "\<exists>t. answersAs V (er_Now R) s t w"
  using served_facts(5) [OF assms(1), of s]
  unfolding kubeServed_def Let_def stands_view [OF assms(2)] by blast+

lemma clientServed_calls:
  assumes "entityServed V R" "stands V C w s" "c \<in> C"
  shows "answersAs V (GetEntityByID c i) s (found (sv_absent V) (lookupID i (ew_stored w))) w"
    "answersAs V (GetEntityByName c n) s (found (sv_absent V) (lookupName n (ew_stored w))) w"
    "er_Name q \<noteq> '''' \<Longrightarrow> lookupName (er_Name q) (ew_stored w) = None \<Longrightarrow>
       answersAs V (CreateEntity c q) s (Inr (sv_fresh V (ew_stored w)))
         (w\<lparr>ew_stored := ew_stored w @ [storedAs (sv_fresh V (ew_stored w)) q]\<rparr>)"
    "er_Name q \<noteq> '''' \<Longrightarrow> lookupID i (ew_stored w) \<noteq> None \<Longrightarrow>
       \<exists>x. answersAs V (UpdateEntity c i q) s (Inr (Some x)) (w\<lparr>ew_stored := rewritten i q (ew_stored w)\<rparr>)"
proof -
  have "entityClientServed V c s" using assms by (auto simp: stands_def intro: served_facts(6))
  from this [unfolded entityClientServed_def Let_def stands_view [OF assms(2)]]
  show "answersAs V (GetEntityByID c i) s (found (sv_absent V) (lookupID i (ew_stored w))) w"
    "answersAs V (GetEntityByName c n) s (found (sv_absent V) (lookupName n (ew_stored w))) w"
    "er_Name q \<noteq> '''' \<Longrightarrow> lookupName (er_Name q) (ew_stored w) = None \<Longrightarrow>
       answersAs V (CreateEntity c q) s (Inr (sv_fresh V (ew_stored w)))
         (w\<lparr>ew_stored := ew_stored w @ [storedAs (sv_fresh V (ew_stored w)) q]\<rparr>)"
    "er_Name q \<noteq> '''' \<Longrightarrow> lookupID i (ew_stored w) \<noteq> None \<Longrightarrow>
       \<exists>x. answersAs V (UpdateEntity c i q) s (Inr (Some x)) (w\<lparr>ew_stored := rewritten i q (ew_stored w)\<rparr>)"
    by blast+
qed

lemma wp_served_get:
  assumes "entityServed V R" "stands V C w s" "\<And>s'. stands V C w s' \<Longrightarrow> Q (Inr (ew_object w)) s'"
  shows "wp (k_Get (er_Entities R) (ObjectKey (ew_object w))) Q s"
  by (rule wp_answersAs [OF kubeServed_calls(1) [OF assms(1,2)] assms(2)]) (rule assms(3))

lemma wp_served_update:
  assumes "entityServed V R" "stands V C w s" "ob\<lparr>om_Finalizers := om_Finalizers (ew_object w)\<rparr> = ew_object w"
    and "\<And>s'. stands V C (w\<lparr>ew_object := ob\<rparr>) s' \<Longrightarrow> Q (Inr ob) s'"
  shows "wp (k_Update (er_Entities R) ob) Q s"
  by (rule wp_answersAs [OF kubeServed_calls(2) [OF assms(1-3)] assms(2)]) (rule assms(4))

lemma wp_served_status:
  assumes "entityServed V R" "stands V C w s" "ob\<lparr>en_Status := en_Status (ew_object w)\<rparr> = ew_object w"
    and "\<And>s'. stands V C (w\<lparr>ew_object := ob\<rparr>) s' \<Longrightarrow> Q (Inr ob) s'"
  shows "wp (k_StatusUpdate (er_Entities R) ob) Q s"
  by (rule wp_answersAs [OF kubeServed_calls(3) [OF assms(1-3)] assms(2)]) (rule assms(4))

lemma wp_served_connection:
  assumes "entityServed V R" "stands V C w s" "\<And>s'. stands V C w s' \<Longrightarrow> Q (Inr (sv_connection V)) s'"
    and "n = om_Namespace (ew_object w)" "ref = ens_ConnectionRef (en_Spec (ew_object w))"
  shows "wp (resolveConnection (er_Connections R) n ref) Q s"
  unfolding assms(4,5) by (rule wp_answersAs [OF kubeServed_calls(4) [OF assms(1,2)] assms(2)]) (rule assms(3))

lemma wp_served_client:
  assumes "entityServed V R" "stands V C w s"
    and "\<And>c s'. stands V {c} w s' \<Longrightarrow> Q (Inr c) s'"
  shows "wp (clientFor_entity R (sv_connection V)) Q s"
proof -
  obtain c where "answersAs V (clientFor_entity R (sv_connection V)) s (Inr c) (sv_view V s)"
    and "sv_usable V c (snd (run_state (clientFor_entity R (sv_connection V)) s))"
    using assms(1) unfolding entityServed_def by blast
  then show ?thesis
    using stands_view [OF assms(2)] assms(3) [of c] by (auto simp: answersAs_def wp_run stands_def split: prod.splits)
qed

lemma wp_served_now:
  assumes "entityServed V R" "stands V C w s" "\<And>t s'. stands V C w s' \<Longrightarrow> Q t s'"
  shows "wp (er_Now R) Q s"
proof -
  obtain t where "answersAs V (er_Now R) s t w" using kubeServed_calls(5) [OF assms(1,2)] by blast
  then show ?thesis by (rule wp_answersAs [OF _ assms(2)]) (rule assms(3))
qed

lemma wp_served_byID:
  assumes "entityServed V R" "stands V C w s" "c \<in> C"
    and "\<And>s'. stands V C w s' \<Longrightarrow> Q (found (sv_absent V) (lookupID i (ew_stored w))) s'"
  shows "wp (GetEntityByID c i) Q s"
  by (rule wp_answersAs [OF clientServed_calls(1) [OF assms(1-3)] assms(2)]) (rule assms(4))

lemma wp_served_byName:
  assumes "entityServed V R" "stands V C w s" "c \<in> C"
    and "\<And>s'. stands V C w s' \<Longrightarrow> Q (found (sv_absent V) (lookupName n (ew_stored w))) s'"
  shows "wp (GetEntityByName c n) Q s"
  by (rule wp_answersAs [OF clientServed_calls(2) [OF assms(1-3)] assms(2)]) (rule assms(4))

lemma wp_served_create:
  assumes "entityServed V R" "stands V C w s" "c \<in> C" "er_Name q \<noteq> ''''" "lookupName (er_Name q) (ew_stored w) = None"
    and "\<And>s'. stands V C (w\<lparr>ew_stored := ew_stored w @ [storedAs (sv_fresh V (ew_stored w)) q]\<rparr>) s' \<Longrightarrow>
      Q (Inr (sv_fresh V (ew_stored w))) s'"
  shows "wp (CreateEntity c q) Q s"
  by (rule wp_answersAs [OF clientServed_calls(3) [OF assms(1-5)] assms(2)]) (rule assms(6))

lemma wp_served_change:
  assumes "entityServed V R" "stands V C w s" "c \<in> C" "er_Name q \<noteq> ''''" "lookupID i (ew_stored w) \<noteq> None"
    and "\<And>x s'. stands V C (w\<lparr>ew_stored := rewritten i q (ew_stored w)\<rparr>) s' \<Longrightarrow> Q (Inr (Some x)) s'"
  shows "wp (UpdateEntity c i q) Q s"
proof -
  obtain x where "answersAs V (UpdateEntity c i q) s (Inr (Some x)) (w\<lparr>ew_stored := rewritten i q (ew_stored w)\<rparr>)"
    using clientServed_calls(4) [OF assms(1-5)] by blast
  then show ?thesis by (rule wp_answersAs [OF _ assms(2)]) (rule assms(6))
qed

section \<open>One reconciliation\<close>

text \<open>Objects that agree with the stored resource except in their status.\<close>

abbreviation sameButStatus :: "OpenBaoEntity \<Rightarrow> OpenBaoEntity \<Rightarrow> bool" where
  "sameButStatus a b \<equiv> a\<lparr>en_Status := en_Status b\<rparr> = b"

lemma sameButStatus_fields:
  assumes "sameButStatus a b"
  shows "en_Spec a = en_Spec b" "om_Name a = om_Name b" "om_Namespace a = om_Namespace b"
    "om_Generation a = om_Generation b" "om_Finalizers a = om_Finalizers b"
    "om_DeletionTimestamp a = om_DeletionTimestamp b"
    "desiredEntityRequest a = desiredEntityRequest b" "creationPolicy a = creationPolicy b"
proof -
  obtain x where "b = a\<lparr>en_Status := x\<rparr>" using assms by metis
  then show "en_Spec a = en_Spec b" "om_Name a = om_Name b" "om_Namespace a = om_Namespace b"
    "om_Generation a = om_Generation b" "om_Finalizers a = om_Finalizers b"
    "om_DeletionTimestamp a = om_DeletionTimestamp b"
    "desiredEntityRequest a = desiredEntityRequest b" "creationPolicy a = creationPolicy b"
    by (simp_all add: desiredEntityRequest_def creationPolicy_def)
qed

lemma sameButStatus_ready: "sameButStatus a b \<Longrightarrow> sameButStatus (readyEntityStatus a e t1 t2) b"
  by (simp add: readyEntityStatus_def observeEntityStatus_def Let_def)

lemma sameButStatus_setID: "sameButStatus (setEntityID i a) b = sameButStatus a b"
  by (simp add: setEntityID_def)

lemma sameButStatus_eq: "sameButStatus a b \<Longrightarrow> en_Status a = en_Status b \<Longrightarrow> a = b"
  by (metis OpenBaoEntity.surjective OpenBaoEntity.update_convs(2))

lemma wp_finish_served:
  assumes served: "entityServed V R" and "stands V C w s" "sameButStatus entity (ew_object w)"
    and "e_Name e = om_Name entity"
    and Q: "\<And>t1 t2 s'. stands V C (w\<lparr>ew_object := readyEntityStatus entity e t1 t2\<rparr>) s' \<Longrightarrow>
      Q (requeueIn (entityDriftInterval entity), None) s'"
  shows "wp (finish_entity R (en_Status (ew_object w)) entity e) Q s"
proof -
  have status: "wp (updateStatusIfChanged (k_StatusUpdate (er_Entities R)) ob (en_Status (ew_object w)) (en_Status ob)) P s1"
    if "sameButStatus ob (ew_object w)" "stands V C w s1" "\<And>s'. stands V C (w\<lparr>ew_object := ob\<rparr>) s' \<Longrightarrow> P (Inr ob) s'" for ob P s1
  proof (cases "en_Status (ew_object w) = en_Status ob")
    case True
    then have "w\<lparr>ew_object := ob\<rparr> = w" using sameButStatus_eq [OF that(1)] by simp
    with True that show ?thesis by (simp add: updateStatusIfChanged_def wp_simps)
  next
    case False
    with that show ?thesis
      by (auto simp: updateStatusIfChanged_def intro: wp_served_status [OF served])
  qed
  have interval: "entityDriftInterval (readyEntityStatus entity e t1 t2) = entityDriftInterval entity" for t1 t2
    by (simp add: entityDriftInterval_def readyEntityStatus_def observeEntityStatus_def Let_def)
  have named: "\<not> (e_Name e \<noteq> '''' \<and> e_Name e \<noteq> om_Name entity)" using assms(4) by simp
  show ?thesis
    unfolding finish_entity_def Let_def if_not_P [OF named] wp_simps
  proof (rule wp_served_now [OF served assms(2)], rule wp_served_now [OF served], assumption, rule status)
    fix t1 t2 s'
    show "sameButStatus (readyEntityStatus entity e t1 t2) (ew_object w)" using assms(3) by (rule sameButStatus_ready)
  qed (use Q interval in \<open>simp_all add: wp_simps\<close>)
qed

lemma wp_sync_served:
  assumes served: "entityServed V R" "c \<in> C"
    and "stands V C w s" "sameButStatus entity (ew_object w)"
    and "est_ID (en_Status entity) = i" "lookupID i (ew_stored w) = Some e" "om_Name entity \<noteq> ''''"
    and Q: "\<And>e' es' t1 t2 s'. lookupID i es' = Some e' \<Longrightarrow> entityMatches (desiredEntityRequest entity) e' \<Longrightarrow>
      stands V C (w\<lparr>ew_stored := es', ew_object := readyEntityStatus entity e' t1 t2\<rparr>) s' \<Longrightarrow>
      Q (requeueIn (entityDriftInterval entity), None) s'"
  shows "wp (sync_entity R c (en_Status (ew_object w)) entity (Some e)) Q s"
proof (cases "entityMatches (desiredEntityRequest entity) e")
  case True
  then have "e_Name e = om_Name entity" by (simp add: entityMatches_def desiredEntityRequest_def)
  with True show ?thesis
    unfolding sync_entity_def Let_def using Q [of "ew_stored w" e] assms(3-6)
    by (auto intro!: wp_finish_served [OF served(1)])
next
  case False
  let ?q = "desiredEntityRequest entity" let ?w = "w\<lparr>ew_stored := rewritten i ?q (ew_stored w)\<rparr>"
  have there: "lookupID i (ew_stored ?w) = Some (storedAs i ?q)"
    using assms(6) by (simp add: lookupID_rewritten)
  have finish: "wp (finish_entity R (en_Status (ew_object w)) entity (storedAs i ?q)) Q s1" if "stands V C ?w s1" for s1
  proof -
    have "wp (finish_entity R (en_Status (ew_object ?w)) entity (storedAs i ?q)) Q s1"
    proof (rule wp_finish_served [OF served(1) that])
      show "sameButStatus entity (ew_object ?w)" using assms(4) by simp
      show "e_Name (storedAs i ?q) = om_Name entity" by (simp add: storedAs_def desiredEntityRequest_def)
      fix t1 t2 s' assume "stands V C (?w\<lparr>ew_object := readyEntityStatus entity (storedAs i ?q) t1 t2\<rparr>) s'"
      then show "Q (requeueIn (entityDriftInterval entity), None) s'"
        using there by (intro Q [of "ew_stored ?w" "storedAs i ?q"]) (simp_all add: storedAs_matches)
    qed
    then show ?thesis by simp
  qed
  show ?thesis
    unfolding sync_entity_def Let_def wp_simps option.case if_not_P [OF False] assms(5)
    by (rule wp_served_change [OF served(1) assms(3) served(2)])
       (use assms(6,7) there finish in \<open>auto simp: wp_simps found_def desiredEntityRequest_def intro!: wp_served_byID [OF served(1) _ served(2)]\<close>)
qed

lemma setEntityID_simps:
  "est_ID (en_Status (setEntityID i entity)) = i" "om_Name (setEntityID i entity) = om_Name entity"
  "setEntityID j (setEntityID i entity) = setEntityID j entity"
  "creationPolicy (setEntityID i entity) = creationPolicy entity"
  "desiredEntityRequest (setEntityID i entity) = desiredEntityRequest entity"
  by (simp_all add: setEntityID_def creationPolicy_def desiredEntityRequest_def)

text \<open>Acquisition leaves the resource alone and ends with a stored entity.\<close>

lemma wp_acquire_served:
  assumes served: "entityServed V R" "c \<in> C"
    and "stands V C w s" "sameButStatus entity (ew_object w)" "distinct (map e_ID (ew_stored w))" "'''' \<notin> e_ID ` set (ew_stored w)"
    and "lookupID (est_ID (en_Status entity)) (ew_stored w) \<noteq> None \<or>
      (case lookupName (om_Name entity) (ew_stored w) of
         None \<Rightarrow> AllowsCreation (creationPolicy entity) | Some e \<Rightarrow> AllowsAdoption (creationPolicy entity))"
    and "om_Name entity \<noteq> ''''"
    and Q: "\<And>i e es' s'. i \<noteq> '''' \<Longrightarrow> lookupID i es' = Some e \<Longrightarrow> stands V C (w\<lparr>ew_stored := es'\<rparr>) s' \<Longrightarrow>
      Q (setEntityID i entity, Inr (Some e)) s'"
  shows "wp (acquire_entity (er_Lib R) entity c) Q s"
proof -
  let ?L = "er_Lib R" and ?es = "ew_stored w" and ?n = "om_Name entity" and ?q = "desiredEntityRequest entity"
  have same: "w\<lparr>ew_stored := ?es\<rparr> = w" by simp
  have noID: "wp (acquire_entity ?L (setEntityID '''' entity) c) Q s1"
    if "stands V C w s1" "case lookupName ?n ?es of
         None \<Rightarrow> AllowsCreation (creationPolicy entity) | Some e \<Rightarrow> AllowsAdoption (creationPolicy entity)" for s1
  proof (cases "lookupName ?n ?es")
    case None
    let ?i = "sv_fresh V ?es" let ?w = "w\<lparr>ew_stored := ?es @ [storedAs (sv_fresh V ?es) ?q]\<rparr>"
    have stored: "found (sv_absent V) (lookupID ?i (ew_stored ?w)) = Inr (Some (storedAs ?i ?q))"
      using served_facts(4) [OF served(1)] by (simp add: lookupID_append storedAs_def found_def)
    have create: "wp (CreateEntity c ?q) P s2"
      if "stands V C w s2" "\<And>s'. stands V C ?w s' \<Longrightarrow> P (Inr ?i) s'" for P s2
      by (rule wp_served_create [OF served(1) that(1) served(2)]) (use None that(2) assms(8) in \<open>simp_all add: desiredEntityRequest_def\<close>)
    have read: "wp (GetEntityByID c ?i) P s2"
      if "stands V C ?w s2" "\<And>s'. stands V C ?w s' \<Longrightarrow> P (Inr (Some (storedAs ?i ?q))) s'" for P s2
      by (rule wp_served_byID [OF served(1) that(1) served(2)]) (use that(2) stored in simp)
    have finished: "Q (setEntityID ?i entity, Inr (Some (storedAs ?i ?q))) s2" if "stands V C ?w s2" for s2
      using served_facts(3,4) [OF served(1)] that
      by (intro Q [of ?i "?es @ [storedAs ?i ?q]"]) (simp_all add: lookupID_append storedAs_def)
    show ?thesis
      using None that(2) served_facts(2,3) [OF served(1)]
      by (subst acquire_entity.simps)
         (simp add: wp_simps setEntityID_simps, rule wp_served_byName [OF served(1) that(1) served(2)],
           simp add: found_def wp_simps setEntityID_simps, rule create, assumption, simp add: wp_simps setEntityID_simps, rule read, assumption,
           simp add: wp_simps setEntityID_simps finished)
  next
    case (Some e)
    then have e: "e \<in> set ?es" "lookupID (e_ID e) ?es = Some e"
      using lookupName_Some lookupID_distinct assms(5) by blast+
    then have "e_ID e \<noteq> ''''" using assms(6) by force
    then show ?thesis
      using Some that(2) e Q [of "e_ID e" ?es e] unfolding same
      by (subst acquire_entity.simps)
         (auto simp: wp_simps found_def setEntityID_simps intro!: wp_served_byName [OF served(1) that(1) served(2)])
  qed
  show ?thesis
  proof (cases "est_ID (en_Status entity) = ''''")
    case True
    then have "setEntityID '''' entity = entity" by (simp add: setEntityID_def)
    moreover have "lookupID '''' ?es = None"
      using assms(6) lookupID_Some by (cases "lookupID '''' ?es") force+
    ultimately show ?thesis using noID [OF assms(3)] assms(7) True by simp
  next
    case False
    show ?thesis
    proof (cases "lookupID (est_ID (en_Status entity)) ?es")
      case None
      then show ?thesis
        using False assms(7) served_facts(2) [OF served(1)]
        by (subst acquire_entity.simps)
           (auto simp: wp_simps found_def intro!: wp_served_byID [OF served(1) assms(3) served(2)] noID)
    next
      case (Some e)
      have "setEntityID (est_ID (en_Status entity)) entity = entity" by (simp add: setEntityID_def)
      then show ?thesis
        using False Some Q [of "est_ID (en_Status entity)" ?es e] unfolding same
        by (subst acquire_entity.simps)
           (auto simp: wp_simps found_def intro!: wp_served_byID [OF served(1) assms(3) served(2)])
    qed
  qed
qed

definition stampEntity :: "OpenBaoEntity \<Rightarrow> OpenBaoEntity" where
  "stampEntity ob = ob\<lparr>en_Status := (en_Status ob)\<lparr>est_ObservedGeneration := om_Generation ob\<rparr>\<rparr>"

text \<open>The contents after a run: the entity \<open>e\<close> is stored as specified, and recorded as ready.\<close>

definition reachedBy :: "EntityWorld \<Rightarrow> OpenBaoEntity \<Rightarrow> EntityWorld \<Rightarrow> bool" where
  "reachedBy w ob w' \<longleftrightarrow>
     (\<exists>i e es t1 t2. i \<noteq> '''' \<and> lookupID i es = Some e \<and> entityMatches (desiredEntityRequest ob) e \<and>
        w' = w\<lparr>ew_stored := es, ew_object := readyEntityStatus (setEntityID i (stampEntity ob)) e t1 t2\<rparr>)"

lemma stampEntity_simps:
  "sameButStatus (stampEntity ob) ob" "om_Name (stampEntity ob) = om_Name ob" "om_Namespace (stampEntity ob) = om_Namespace ob"
  "en_Spec (stampEntity ob) = en_Spec ob" "est_ID (en_Status (stampEntity ob)) = est_ID (en_Status ob)"
  "creationPolicy (stampEntity ob) = creationPolicy ob" "desiredEntityRequest (stampEntity ob) = desiredEntityRequest ob"
  "entityDriftInterval (stampEntity ob) = entityDriftInterval ob"
  by (simp_all add: stampEntity_def creationPolicy_def desiredEntityRequest_def entityDriftInterval_def)

lemma setEntityID_interval: "entityDriftInterval (setEntityID i ob) = entityDriftInterval ob"
  by (simp add: setEntityID_def entityDriftInterval_def)

lemma wp_active_served:
  assumes served: "entityServed V R" and "stands V {} w s" and m: "manageable (er_Lib R) (sv_connection V) w"
    and Q: "\<And>w' s'. reachedBy w (ew_object w) w' \<Longrightarrow> stands V {} w' s' \<Longrightarrow>
      Q (requeueIn (entityDriftInterval (ew_object w)), None) s'"
  shows "wp (reconcileActive_entity R (en_Status (ew_object w)) (ew_object w)) Q s"
proof -
  let ?ob = "ew_object w"
  from m have ready: "IsStatusConditionTrue (er_Lib R) (cnst_Conditions (cn_Status (sv_connection V))) conditionReady"
    and name: "om_Name (stampEntity ?ob) \<noteq> ''''"
    and wf: "distinct (map e_ID (ew_stored w))" "'''' \<notin> e_ID ` set (ew_stored w)"
    and how: "lookupID (est_ID (en_Status (stampEntity ?ob))) (ew_stored w) \<noteq> None \<or>
      (case lookupName (om_Name (stampEntity ?ob)) (ew_stored w) of
         None \<Rightarrow> AllowsCreation (creationPolicy (stampEntity ?ob))
       | Some e \<Rightarrow> AllowsAdoption (creationPolicy (stampEntity ?ob)))"
    unfolding manageable_def Let_def stampEntity_simps by blast+
  have tail: "wp (sync_entity R c (en_Status ?ob) (setEntityID i (stampEntity ?ob)) (Some e)) Q s1"
    if "stands V {c} (w\<lparr>ew_stored := es\<rparr>) s1" "i \<noteq> ''''" "lookupID i es = Some e" for c i es e s1
  proof -
    have "wp (sync_entity R c (en_Status (ew_object (w\<lparr>ew_stored := es\<rparr>))) (setEntityID i (stampEntity ?ob)) (Some e)) Q s1"
    proof (rule wp_sync_served [OF served singletonI that(1)])
      fix e' es' t1 t2 s'
      assume "lookupID i es' = Some e'" "entityMatches (desiredEntityRequest (setEntityID i (stampEntity ?ob))) e'"
        "stands V {c} (w\<lparr>ew_stored := es\<rparr>\<lparr>ew_stored := es', ew_object := readyEntityStatus (setEntityID i (stampEntity ?ob)) e' t1 t2\<rparr>) s'"
      then have "reachedBy w ?ob (sv_view V s')"
        unfolding reachedBy_def setEntityID_simps stampEntity_simps stands_def using that(2) by (simp del: EntityWorld.update_convs) blast
      from Q [OF this stands_start]
      show "Q (requeueIn (entityDriftInterval (setEntityID i (stampEntity ?ob))), None) s'"
        by (simp add: setEntityID_interval stampEntity_simps)
    qed (use that name in \<open>simp_all add: sameButStatus_setID stampEntity_simps setEntityID_simps\<close>)
    then show ?thesis by simp
  qed
  show ?thesis
    unfolding reconcileActive_entity_def Let_def stampEntity_def [symmetric] wp_simps stampEntity_simps
  proof (rule wp_served_connection [OF served assms(2)], goal_cases)
    case (1 s1)
    show ?case
    proof (simp add: wp_simps ready, rule wp_served_client [OF served 1], simp add: wp_simps, goal_cases)
      case (1 c s2)
      show ?case
        by (rule wp_acquire_served [OF served singletonI 1 stampEntity_simps(1) wf how name]) (simp add: tail)
    qed
  qed simp_all
qed

lemma wp_Reconcile_served:
  assumes served: "entityServed V R" and "stands V {} w s" and m: "manageable (er_Lib R) (sv_connection V) w"
    and Q: "\<And>ob w' s'. ob = (ew_object w)\<lparr>om_Finalizers := om_Finalizers ob\<rparr> \<Longrightarrow>
      IsDelete (deletionPolicy ob) \<longrightarrow> finalizerName \<in> set (om_Finalizers ob) \<Longrightarrow>
      reachedBy (w\<lparr>ew_object := ob\<rparr>) ob w' \<Longrightarrow> stands V {} w' s' \<Longrightarrow>
      Q (requeueIn (entityDriftInterval (ew_object w)), None) s'"
  shows "wp (Reconcile_entity R (ObjectKey (ew_object w))) Q s"
proof -
  let ?ob = "ew_object w" and ?L = "er_Lib R"
  let ?fin = "?ob\<lparr>om_Finalizers := AddFinalizer ?L (om_Finalizers ?ob) finalizerName\<rparr>"
  have lib: "ContainsFinalizer ?L fs n \<longleftrightarrow> n \<in> set fs" "set (AddFinalizer ?L fs n) = insert n (set fs)" for fs n
    using served_facts(1) [OF served] by (simp_all add: kube_lib_ok_def)
  have live: "notDeleted ?ob" using m by (simp add: manageable_def Let_def)
  have policy: "creationPolicy ?fin = creationPolicy ?ob" by (simp add: creationPolicy_def)
  have m': "manageable ?L (sv_connection V) (w\<lparr>ew_object := ?fin\<rparr>)"
    using m policy by (simp add: manageable_def Let_def notDeleted_def cong: option.case_cong)
  have same: "entityDriftInterval ?fin = entityDriftInterval ?ob" "deletionPolicy ?fin = deletionPolicy ?ob"
    by (simp_all add: entityDriftInterval_def deletionPolicy_def)
  have plain: "wp (reconcileActive_entity R (en_Status ?ob) ?ob) Q s1"
    if "stands V {} w s1" "\<not> IsDelete (deletionPolicy ?ob) \<or> finalizerName \<in> set (om_Finalizers ?ob)" for s1
    by (rule wp_active_served [OF served that(1) m]) (use that(2) in \<open>auto intro: Q [of ?ob]\<close>)
  have added: "wp (reconcileActive_entity R (en_Status ?ob) ?fin) Q s1" if "stands V {} (w\<lparr>ew_object := ?fin\<rparr>) s1" for s1
  proof -
    let ?w = "w\<lparr>ew_object := ?fin\<rparr>"
    have "wp (reconcileActive_entity R (en_Status (ew_object ?w)) (ew_object ?w)) Q s1"
    proof (rule wp_active_served [OF served that m'])
      fix w' s' assume "reachedBy ?w (ew_object ?w) w'" "stands V {} w' s'"
      then show "Q (requeueIn (entityDriftInterval (ew_object ?w)), None) s'"
        using Q [of ?fin w' s'] lib same by simp
    qed
    then show ?thesis by simp
  qed
  show ?thesis
    unfolding Reconcile_entity_def Let_def wp_simps
  proof (rule wp_served_get [OF served assms(2)], simp add: wp_simps live ensureFinalizer_def lib, intro conjI impI, goal_cases)
    case (2 s1)
    have "notDeleted ?fin" using live by (simp add: notDeleted_def)
    then show ?case
      by (intro wp_served_update [OF served 2(1)]) (simp_all add: wp_simps added)
  qed (use plain live in simp_all)
qed

section \<open>The goal is reached and kept\<close>

lemma readyEntityStatus_idem:
  "readyEntityStatus (readyEntityStatus ob e t1 t2) e t3 t4 = readyEntityStatus ob e t1 t2"
  by (simp add: readyEntityStatus_def observeEntityStatus_def Let_def markReady_idem)

lemma wp_Reconcile_settled:
  assumes served: "entityServed V R" and "stands V {} w s"
    and ob: "ew_object w = readyEntityStatus ob0 e t1 t2" and "notDeleted (ew_object w)"
    and "IsDelete (deletionPolicy (ew_object w)) \<longrightarrow> finalizerName \<in> set (om_Finalizers (ew_object w))"
    and "IsStatusConditionTrue (er_Lib R) (cnst_Conditions (cn_Status (sv_connection V))) conditionReady"
    and i: "est_ID (en_Status (ew_object w)) = i" "i \<noteq> ''''" "lookupID i (ew_stored w) = Some e"
    and match: "entityMatches (desiredEntityRequest (ew_object w)) e"
    and Q: "\<And>s'. sv_view V s' = w \<Longrightarrow> Q (requeueIn (entityDriftInterval (ew_object w)), None) s'"
  shows "wp (Reconcile_entity R (ObjectKey (ew_object w))) Q s"
proof -
  let ?ob = "ew_object w"
  have lib: "ContainsFinalizer (er_Lib R) fs n \<longleftrightarrow> n \<in> set fs" for fs n
    using served_facts(1) [OF served] by (simp add: kube_lib_ok_def)
  have stamp: "stampEntity ?ob = ?ob"
    by (simp add: ob stampEntity_def readyEntityStatus_def observeEntityStatus_def Let_def)
  have kept: "w\<lparr>ew_object := readyEntityStatus ?ob e t3 t4\<rparr> = w" for t3 t4
    using readyEntityStatus_idem [of ob0 e t1 t2 t3 t4] unfolding ob [symmetric] by simp
  have name: "e_Name e = om_Name ?ob" using match by (simp add: entityMatches_def desiredEntityRequest_def)
  have sync: "wp (sync_entity R c (en_Status ?ob) ?ob (Some e)) Q s1" if "stands V C w s1" for C c s1
    unfolding sync_entity_def Let_def option.case using match
    by (simp, intro wp_finish_served [OF served that _ name]) (simp_all add: kept Q stands_view)
  have acquire: "wp (acquire_entity (er_Lib R) ?ob c) P s1"
    if "stands V {c} w s1" "\<And>s'. stands V {c} w s' \<Longrightarrow> P (?ob, Inr (Some e)) s'" for c P s1
    using i that(2)
    by (subst acquire_entity.simps) (auto simp: wp_simps found_def intro!: wp_served_byID [OF served that(1) singletonI])
  have active: "wp (reconcileActive_entity R (en_Status ?ob) ?ob) Q s1" if "stands V {} w s1" for s1
    unfolding reconcileActive_entity_def Let_def stampEntity_def [symmetric] stamp wp_simps
  proof (rule wp_served_connection [OF served that], goal_cases)
    case (1 s2)
    show ?case
    proof (simp add: wp_simps assms(6), rule wp_served_client [OF served 1], simp add: wp_simps, goal_cases)
      case (1 c s3)
      show ?case by (rule acquire [OF 1]) (simp add: sync)
    qed
  qed simp_all
  show ?thesis
    unfolding Reconcile_entity_def Let_def wp_simps
    by (rule wp_served_get [OF served assms(2)])
       (use assms(4,5) active in \<open>simp add: wp_simps ensureFinalizer_def lib\<close>)
qed

text \<open>What a reconciliation keeps of the resource it has brought to its goal.\<close>

definition keepsSpec :: "OpenBaoEntity \<Rightarrow> OpenBaoEntity \<Rightarrow> bool" where
  "keepsSpec a b \<longleftrightarrow> en_Spec a = en_Spec b \<and> om_Name a = om_Name b \<and> om_Namespace a = om_Namespace b \<and>
     om_DeletionTimestamp a = om_DeletionTimestamp b"

lemma keepsSpec_fields:
  assumes "keepsSpec a b"
  shows "en_Spec a = en_Spec b" "desiredEntityRequest a = desiredEntityRequest b" "deletionPolicy a = deletionPolicy b"
    "entityDriftInterval a = entityDriftInterval b" "ObjectKey a = ObjectKey b" "notDeleted a = notDeleted b"
  using assms
  by (simp_all add: keepsSpec_def desiredEntityRequest_def deletionPolicy_def entityDriftInterval_def ObjectKey_def
      notDeleted_def)

lemma keepsSpec_finalizers: "ob' = ob\<lparr>om_Finalizers := fs\<rparr> \<Longrightarrow> keepsSpec ob' ob"
  by (simp add: keepsSpec_def)

lemma ready_fields:
  "keepsSpec (readyEntityStatus (setEntityID i (stampEntity ob)) e t1 t2) b \<longleftrightarrow> keepsSpec ob b"
  "om_Finalizers (readyEntityStatus (setEntityID i (stampEntity ob)) e t1 t2) = om_Finalizers ob"
  "est_ID (en_Status (readyEntityStatus (setEntityID i (stampEntity ob)) e t1 t2)) = e_ID e"
  "readyTrue (est_Conditions (en_Status (readyEntityStatus (setEntityID i (stampEntity ob)) e t1 t2)))"
  by (simp_all add: readyEntityStatus_def observeEntityStatus_def Let_def setEntityID_def stampEntity_def keepsSpec_def
      markReady_readyTrue)

text \<open>
  A reconciliation from \<open>s\<close> reaches its goal and rests: it ends without an error, an entity as specified
  is stored and is the one recorded, the status is ready, the specification is untouched and the
  finalizer is in place when deletion asks for it; and the next reconciliation answers the same and
  changes nothing.
\<close>

definition converges :: "('s \<Rightarrow> EntityWorld) \<Rightarrow> 's EntityReconciler \<Rightarrow> 's \<Rightarrow> bool" where
  "converges view R s \<longleftrightarrow>
     (let ob = ew_object (view s);
          (out, s1) = run_state (Reconcile_entity R (ObjectKey ob)) s; w = view s1; ob1 = ew_object w;
          (out', s2) = run_state (Reconcile_entity R (ObjectKey ob)) s1
      in out = (requeueIn (entityDriftInterval ob), None) \<and>
         (\<exists>e. lookupID (est_ID (en_Status ob1)) (ew_stored w) = Some e \<and> entityMatches (desiredEntityRequest ob) e) \<and>
         readyTrue (est_Conditions (en_Status ob1)) \<and> en_Spec ob1 = en_Spec ob \<and>
         (IsDelete (deletionPolicy ob) \<longrightarrow> finalizerName \<in> set (om_Finalizers ob1)) \<and>
         out' = out \<and> view s2 = w)"

lemma served_converges:
  assumes "entityServed V R" "manageable (er_Lib R) (sv_connection V) (sv_view V s)"
  shows "converges (sv_view V) R s"
proof -
  define view where "view = sv_view V"
  define ob where "ob = ew_object (view s)"
  define first where "first = run_state (Reconcile_entity R (ObjectKey ob)) s"
  define w where "w = view (snd first)"
  define second where "second = run_state (Reconcile_entity R (ObjectKey ob)) (snd first)"
  note m = assms(2) [folded view_def]
  have "wp (Reconcile_entity R (ObjectKey (ew_object (view s)))) (\<lambda>out s'. out = (requeueIn (entityDriftInterval ob), None) \<and>
      (\<exists>ob'. ob' = ob\<lparr>om_Finalizers := om_Finalizers ob'\<rparr> \<and>
        (IsDelete (deletionPolicy ob') \<longrightarrow> finalizerName \<in> set (om_Finalizers ob')) \<and>
        reachedBy ((view s)\<lparr>ew_object := ob'\<rparr>) ob' (view s'))) s"
    unfolding view_def
    by (rule wp_Reconcile_served [OF assms(1) stands_start assms(2)]) (auto simp: ob_def view_def dest: stands_view)
  then obtain ob' i e es t1 t2 where out: "fst first = (requeueIn (entityDriftInterval ob), None)"
    and ob': "ob' = ob\<lparr>om_Finalizers := om_Finalizers ob'\<rparr>"
    and fin: "IsDelete (deletionPolicy ob') \<longrightarrow> finalizerName \<in> set (om_Finalizers ob')"
    and i: "i \<noteq> ''''" "lookupID i es = Some e" and match: "entityMatches (desiredEntityRequest ob') e"
    and w: "w = (view s)\<lparr>ew_object := ob', ew_stored := es, ew_object := readyEntityStatus (setEntityID i (stampEntity ob')) e t1 t2\<rparr>"
    unfolding wp_run reachedBy_def ob_def [symmetric] first_def [symmetric] w_def [symmetric] by blast
  let ?ob = "readyEntityStatus (setEntityID i (stampEntity ob')) e t1 t2"
  have kept: "keepsSpec ?ob ob" "keepsSpec ob' ob" "e_ID e = i"
    using keepsSpec_finalizers [OF ob'] lookupID_Some [OF i(2)] by (simp_all add: ready_fields)
  note same = keepsSpec_fields [OF kept(1)] keepsSpec_fields [OF kept(2)] ready_fields(2-4) kept(3)
  have "wp (Reconcile_entity R (ObjectKey (ew_object w))) (\<lambda>out s'. out = (requeueIn (entityDriftInterval ob), None) \<and> view s' = w) (snd first)"
  proof (rule wp_Reconcile_settled [OF assms(1) stands_start [of V "snd first", folded view_def, folded w_def]])
    show "ew_object w = ?ob" by (simp add: w)
    show "IsStatusConditionTrue (er_Lib R) (cnst_Conditions (cn_Status (sv_connection V))) conditionReady"
      using m by (simp add: manageable_def Let_def)
  qed (use m i match fin in \<open>simp_all add: w same manageable_def Let_def ob_def view_def [symmetric]\<close>)
  then have "fst second = fst first \<and> view (snd second) = w"
    unfolding wp_run second_def by (simp add: w same out [unfolded w])
  then have "fst first = (requeueIn (entityDriftInterval ob), None) \<and>
    (\<exists>e. lookupID (est_ID (en_Status (ew_object w))) (ew_stored w) = Some e \<and> entityMatches (desiredEntityRequest ob) e) \<and>
    readyTrue (est_Conditions (en_Status (ew_object w))) \<and> en_Spec (ew_object w) = en_Spec ob \<and>
    (IsDelete (deletionPolicy ob) \<longrightarrow> finalizerName \<in> set (om_Finalizers (ew_object w))) \<and>
    fst second = fst first \<and> view (snd second) = w"
    using out i match fin by (simp add: w same)
  then show ?thesis
    unfolding converges_def view_def [symmetric] Let_def ob_def [symmetric] first_def [symmetric] case_prod_beta
      w_def [symmetric] second_def [symmetric]
    by simp
qed

text \<open>
  C4. The entity controller reaches its goal when its servers behave as documented.  Let the
  resource be live, its connection ready, and the entity recorded and there, or absent and allowed
  to be created, or there under its name and allowed to be adopted.  Then one reconciliation ends
  without an error, leaves an entity in OpenBao that is as specified and is the one recorded, a
  ready status, the specification untouched and the finalizer in place when deletion asks for it;
  and the next reconciliation answers the same and changes nothing.
\<close>

theorem entity_converges:
  assumes "entityServed V R" "manageable (er_Lib R) (sv_connection V) (sv_view V s)"
  shows "converges (sv_view V) R s"
  by (rule served_converges [OF assms])

section \<open>An instance of the servers\<close>

definition gone :: go_error where
  "gone = HTTPError 404 ''''"

definition answering :: "('w \<Rightarrow> 'a) \<Rightarrow> ('w, 'a) state" where
  "answering f = State (\<lambda>w. (f w, w))"

definition changing :: "'a \<Rightarrow> ('w \<Rightarrow> 'w) \<Rightarrow> ('w, 'a) state" where
  "changing a f = State (\<lambda>w. (a, f w))"

definition freshID :: "Entity list \<Rightarrow> string" where
  "freshID es = replicate (Suc (sum_list (map (\<lambda>e. length (e_ID e)) es))) (CHR ''i'')"

definition storingClient :: "EntityWorld EntityClient" where
  "storingClient =
     \<lparr>GetEntityByID = (\<lambda>i. answering (\<lambda>w. found gone (lookupID i (ew_stored w)))),
      GetEntityByName = (\<lambda>n. answering (\<lambda>w. found gone (lookupName n (ew_stored w)))),
      CreateEntity = (\<lambda>q. State (\<lambda>w. (Inr (freshID (ew_stored w)),
        w\<lparr>ew_stored := ew_stored w @ [storedAs (freshID (ew_stored w)) q]\<rparr>))),
      UpdateEntity = (\<lambda>i q. changing (Inr (Some (storedAs i q)))
        (\<lambda>w. w\<lparr>ew_stored := rewritten i q (ew_stored w)\<rparr>)),
      DeleteEntity = (\<lambda>i. changing None (\<lambda>w. w\<lparr>ew_stored := filter (\<lambda>e. e_ID e \<noteq> i) (ew_stored w)\<rparr>))\<rparr>"

definition storingReconciler :: "EntityWorld EntityReconciler" where
  "storingReconciler =
     \<lparr>er_Lib = stdLib,
      er_Entities = \<lparr>k_Get = (\<lambda>nn. answering (\<lambda>w. Inr (ew_object w))),
        k_Update = (\<lambda>ob. changing (Inr ob) (\<lambda>w. w\<lparr>ew_object := ob\<rparr>)),
        k_StatusUpdate = (\<lambda>ob. changing (Inr ob) (\<lambda>w. w\<lparr>ew_object := ob\<rparr>)),
        k_List = (\<lambda>ns. answering (\<lambda>w. Inr [ew_object w]))\<rparr>,
      er_Connections = \<lparr>k_Get = (\<lambda>nn. ret (Inr readyConn)),
        k_Update = (\<lambda>ob. ret (Inr ob)), k_StatusUpdate = (\<lambda>ob. ret (Inr ob)), k_List = (\<lambda>ns. ret (Inr []))\<rparr>,
      er_Now = ret 7,
      er_NewClient = Some (\<lambda>conn. ret (Inr storingClient)),
      er_ClientCache = None,
      er_connectionClientFor = (\<lambda>conn. ret (Inr storingClient))\<rparr>"

lemma freshID_new: "freshID es \<notin> e_ID ` set es"
proof
  assume "freshID es \<in> e_ID ` set es"
  then obtain e where "e \<in> set es" "length (e_ID e) = Suc (sum_list (map (\<lambda>e. length (e_ID e)) es))"
    unfolding freshID_def by (metis image_iff length_replicate)
  moreover from this(1) have "length (e_ID e) \<le> sum_list (map (\<lambda>e. length (e_ID e)) es)"
    by (intro member_le_sum_list) auto
  ultimately show False by simp
qed

definition storingServers :: "EntityWorld Servers" where
  "storingServers = \<lparr>sv_view = id, sv_usable = (\<lambda>c _. c = storingClient), sv_connection = readyConn,
     sv_fresh = freshID, sv_absent = gone\<rparr>"

lemma storingClient_served: "entityClientServed storingServers storingClient w"
  by (auto simp: entityClientServed_def storingClient_def storingServers_def answersAs_def answering_def changing_def
      Let_def)

lemma storingReconciler_served: "entityServed storingServers storingReconciler"
proof -
  have fresh: "freshID es \<noteq> ''''" for es by (simp add: freshID_def)
  have kube: "kubeServed storingServers storingReconciler w" for w
    by (simp add: kubeServed_def storingServers_def storingReconciler_def answersAs_def answering_def changing_def
        resolveConnection_def Let_def State_Monad.return_def)
  show ?thesis
    using storingClient_served freshID_new fresh stdLib_ok kube
    by (auto simp: entityServed_def storingServers_def storingReconciler_def answersAs_def clientFor_entity_def
        clientForWith_def isNotFound_def gone_def IsNotFound_def StatusNotFound_def State_Monad.return_def)
qed

definition newEntity :: OpenBaoEntity where
  "newEntity = \<lparr>om_Name = ''app'', om_Namespace = ''ns'', om_Generation = 1, om_Finalizers = [], om_DeletionTimestamp = None,
     en_Spec = \<lparr>ens_ConnectionRef = \<lparr>connref_Name = ''bao''\<rparr>, ens_CreationPolicy = '''', ens_DeletionPolicy = DeletionPolicyDelete,
       ens_DriftDetectionInterval = None, ens_Metadata = None, ens_Policies = Some [''b'', ''a''], ens_Disabled = False\<rparr>,
     en_Status = \<lparr>est_ID = '''', est_Name = '''', est_Metadata = None, est_Policies = None, est_Disabled = False,
       est_ObservedGeneration = 0, est_Conditions = []\<rparr>\<rparr>"

definition firstWorld :: EntityWorld where
  "firstWorld = \<lparr>ew_object = newEntity, ew_stored = []\<rparr>"

lemma firstWorld_manageable: "manageable stdLib readyConn firstWorld"
  by (simp add: manageable_def firstWorld_def newEntity_def notDeleted_def lookupID_def lookupName_def creationPolicy_def
      AllowsCreation_def stdLib_def readyConn_def findCondition_def mkCondition_def)

lemma firstWorld_start:
  "ew_object firstWorld = newEntity" "ObjectKey newEntity = (''ns'', ''app'')"
  "entityDriftInterval newEntity = defaultDriftCheck" "IsDelete (deletionPolicy newEntity)"
  by (simp_all add: firstWorld_def newEntity_def ObjectKey_def entityDriftInterval_def deletionPolicy_def IsDelete_def
      DeletionPolicyDelete_def)

text \<open>A new entity is created, recorded and ready, and stays so.\<close>

theorem entity_converges_witness:
  "converges id storingReconciler firstWorld \<and> manageable stdLib readyConn firstWorld \<and>
   (let (out, w) = run_state (Reconcile_entity storingReconciler (''ns'', ''app'')) firstWorld
    in out = (requeueIn defaultDriftCheck, None) \<and> readyTrue (est_Conditions (en_Status (ew_object w))) \<and>
       lookupID (est_ID (en_Status (ew_object w))) (ew_stored w) \<noteq> None \<and>
       finalizerName \<in> set (om_Finalizers (ew_object w)))"
proof -
  have "sv_view storingServers = id" "sv_connection storingServers = readyConn" "er_Lib storingReconciler = stdLib"
    by (simp_all add: storingServers_def storingReconciler_def)
  with entity_converges [OF storingReconciler_served, of firstWorld] firstWorld_manageable
  have c: "converges id storingReconciler firstWorld" by simp
  with firstWorld_manageable show ?thesis
    by (auto simp: converges_def firstWorld_start Let_def split: prod.splits)
qed

end
