(* ===== verification/Json.thy ===== *)
theory Json
  imports GoLib
begin

text \<open>
  What the client uses of \<^verbatim>\<open>encoding/json\<close>.  A document is a value of \<open>Json\<close>;
  reading and writing its text is left to the library.  \<open>JNum\<close> is a number literal that is an
  integer, \<open>JFloat\<close> one with a fraction or an exponent, which no field of the program accepts.

  A decoder takes the value its target holds so far, as \<^verbatim>\<open>Decode\<close> does: null and
  absent fields leave it, a name matches a struct field in any letter case, and when a name
  occurs more than once the later value is decoded over the earlier one.  A value of the wrong
  kind is an error; of several the one reported here is the first in the order of the struct's
  fields (the callers drop the target on any error).  The errors of the library are texts.
\<close>

datatype Json =
    JNull
  | JBool bool
  | JNum int
  | JFloat string
  | JString string
  | JArr "Json list"
  | JObj "(string \<times> Json) list"

type_synonym 'a decoder = "Json \<Rightarrow> 'a \<Rightarrow> string + 'a"

definition typeMismatch :: "string \<Rightarrow> string" where
  "typeMismatch goType = ''json: cannot unmarshal value into Go value of type '' @ goType"

text \<open>Sequencing of steps that can fail.\<close>

definition andThen :: "'e + 'a \<Rightarrow> ('a \<Rightarrow> 'e + 'b) \<Rightarrow> 'e + 'b" where
  "andThen r f = (case r of Inl e \<Rightarrow> Inl e | Inr x \<Rightarrow> f x)"

lemma andThen_simps [simp]: "andThen (Inl e) f = Inl e" "andThen (Inr x) f = f x"
  by (simp_all add: andThen_def)

section \<open>Decoding\<close>

fun decodeOver :: "'a decoder \<Rightarrow> Json list \<Rightarrow> 'a \<Rightarrow> string + 'a" where
  "decodeOver d [] x = Inr x"
| "decodeOver d (v # vs) x = andThen (d v x) (decodeOver d vs)"

definition fieldValues :: "(string \<times> Json) list \<Rightarrow> string \<Rightarrow> Json list" where
  "fieldValues fs k = map snd (filter (\<lambda>(name, v). EqualFold name k) fs)"

definition field :: "(string \<times> Json) list \<Rightarrow> string \<Rightarrow> 'a decoder \<Rightarrow> 'a \<Rightarrow> string + 'a" where
  "field fs k d = decodeOver d (fieldValues fs k)"

definition decString :: "string decoder" where
  "decString v x = (case v of JNull \<Rightarrow> Inr x | JString s \<Rightarrow> Inr s | _ \<Rightarrow> Inl (typeMismatch ''string''))"

definition decBool :: "bool decoder" where
  "decBool v x = (case v of JNull \<Rightarrow> Inr x | JBool b \<Rightarrow> Inr b | _ \<Rightarrow> Inl (typeMismatch ''bool''))"

definition decInt64 :: "int decoder" where
  "decInt64 v x = (case v of JNull \<Rightarrow> Inr x
     | JNum n \<Rightarrow> if minDuration \<le> n \<and> n \<le> maxDuration then Inr n else Inl (typeMismatch ''int64'')
     | _ \<Rightarrow> Inl (typeMismatch ''int64''))"

fun decStringList :: "Json list \<Rightarrow> string + string list" where
  "decStringList [] = Inr []"
| "decStringList (v # vs) =
     andThen (decString v '''') (\<lambda>s. andThen (decStringList vs) (\<lambda>ss. Inr (s # ss)))"

definition decStrings :: "string slice decoder" where
  "decStrings v x = (case v of JNull \<Rightarrow> Inr None
     | JArr vs \<Rightarrow> andThen (decStringList vs) (\<lambda>ss. Inr (Some ss))
     | _ \<Rightarrow> Inl (typeMismatch ''[]string''))"

fun decStringPairs ::
  "(string \<times> Json) list \<Rightarrow> (string, string) fmap \<Rightarrow> string + (string, string) fmap" where
  "decStringPairs [] m = Inr m"
| "decStringPairs ((k, v) # fs) m = andThen (decString v '''') (\<lambda>s. decStringPairs fs (fmupd k s m))"

definition decStringMap :: "strmap decoder" where
  "decStringMap v x = (case v of JNull \<Rightarrow> Inr None
     | JObj fs \<Rightarrow> andThen (decStringPairs fs (map_entries x)) (\<lambda>m. Inr (Some m))
     | _ \<Rightarrow> Inl (typeMismatch ''map[string]string''))"

text \<open>A struct: null leaves it, an object is handed to the decoder of its fields.\<close>

definition decStruct :: "string \<Rightarrow> ((string \<times> Json) list \<Rightarrow> 'a \<Rightarrow> string + 'a) \<Rightarrow> 'a decoder" where
  "decStruct goType d v x = (case v of JNull \<Rightarrow> Inr x | JObj fs \<Rightarrow> d fs x | _ \<Rightarrow> Inl (typeMismatch goType))"

section \<open>Encoding\<close>

definition encStrings :: "string slice \<Rightarrow> Json" where
  "encStrings s = (case s of None \<Rightarrow> JNull | Some xs \<Rightarrow> JArr (map JString xs))"

text \<open>The keys of a map are written in ascending order.\<close>

definition encStringMap :: "strmap \<Rightarrow> Json" where
  "encStringMap m = (case m of None \<Rightarrow> JNull
     | Some f \<Rightarrow> JObj (map (\<lambda>(k, v). (k, JString v)) (sorted_list_of_fmap f)))"

definition omitempty :: "string \<Rightarrow> string \<Rightarrow> (string \<times> Json) list" where
  "omitempty k s = (if s = '''' then [] else [(k, JString s)])"

section \<open>Round trips\<close>

lemma decString_JString [simp]: "decString (JString s) x = Inr s"
  by (simp add: decString_def)

lemma decBool_JBool [simp]: "decBool (JBool b) x = Inr b"
  by (simp add: decBool_def)

lemma decStringList_encode [simp]: "decStringList (map JString xs) = Inr xs"
  by (induction xs) simp_all

lemma decStrings_encStrings [simp]: "decStrings (encStrings s) x = Inr s"
  by (cases s) (simp_all add: decStrings_def encStrings_def)

lemma decStringPairs_encode:
  "decStringPairs (map (\<lambda>(k, v). (k, JString v)) kvs) m = Inr (m ++\<^sub>f fmap_of_list (rev kvs))"
proof (induction kvs arbitrary: m)
  case Nil
  show ?case by simp
next
  case (Cons kv kvs)
  obtain k v where [simp]: "kv = (k, v)" by (cases kv)
  have "fmupd k v m ++\<^sub>f fmap_of_list (rev kvs) = m ++\<^sub>f fmap_of_list (rev kvs @ [(k, v)])"
    by (rule fmap_ext) (auto simp: fmlookup_of_list map_of_append map_add_def split: option.splits)
  then show ?case using Cons by simp
qed

lemma fmap_of_list_rev_distinct:
  assumes "distinct (map fst kvs)"
  shows "fmap_of_list (rev kvs) = fmap_of_list kvs"
proof (rule fmap_ext)
  fix k
  have "map_of (rev kvs) k = map_of kvs k"
    using assms by (metis distinct_rev map_of_inject_set rev_map set_rev)
  then show "fmlookup (fmap_of_list (rev kvs)) k = fmlookup (fmap_of_list kvs) k"
    by (simp add: fmlookup_of_list)
qed

lemma fmap_of_list_sorted: "fmap_of_list (sorted_list_of_fmap f) = f"
  by (rule fmap_ext) (simp add: fmlookup_of_list)

lemma decStringMap_encStringMap [simp]: "decStringMap (encStringMap m) None = Inr m"
proof (cases m)
  case (Some f)
  have "distinct (map fst (sorted_list_of_fmap f))"
    by (simp add: sorted_list_of_fmap_def comp_def sorted_list_of_fset.rep_eq)
  then show ?thesis
    using Some by (simp add: decStringMap_def encStringMap_def decStringPairs_encode map_entries_def
        fmap_of_list_rev_distinct fmap_of_list_sorted)
qed (simp add: decStringMap_def encStringMap_def)

end
