(* ===== verification/HttpClient.thy ===== *)
theory HttpClient
  imports Json BaoTypes
begin

text \<open>
  \<^verbatim>\<open>internal/openbaoclient/client.go\<close> and the token part of
  \<^verbatim>\<open>system.go\<close>: construction and validation of a client, the request every endpoint
  goes through, and the life of the token of a client that logs in by itself.

  \<^verbatim>\<open>net/http\<close> (the exchange), \<^verbatim>\<open>net/url\<close> (parsing an address),
  \<^verbatim>\<open>crypto/x509\<close> (reading a CA bundle) and the clock are the parameter record
  \<open>Transport\<close>.  The mutable fields of a client (token and lease) are the \<open>TokenState\<close> that its
  methods thread next to the outside state; the mutex that guards them makes
  \<^verbatim>\<open>ensureToken\<close> one step of that state.  An instant is an \<open>int\<close> in nanoseconds, 0 for
  the zero time (so nanoseconds since January 1 of year 1).  JSON bodies are values of \<open>Json\<close>.
\<close>

section \<open>Addresses and requests\<close>

record URL =
  u_Scheme :: string
  u_Host :: string
  u_Path :: string
  u_EscapedPath :: string
  u_RawQuery :: string
  u_Fragment :: string

text \<open>
  A request as it goes out: \<open>rq_Path\<close> is the escaped path, \<open>rq_Query\<close> the pairs of the query before
  encoding.  A response carries the bytes its body delivers and, when reading them ends in an error, that
  error, and next to them the result of reading the body as one JSON document.
\<close>

record HttpRequest =
  rq_Method :: string
  rq_Scheme :: string
  rq_Host :: string
  rq_Path :: string
  rq_Query :: "(string \<times> string) list"
  rq_Headers :: "(string \<times> string) list"
  rq_Body :: "Json option"

record HttpResponse =
  rs_Status :: int
  rs_Bytes :: string
  rs_ReadError :: "string option"
  rs_JSON :: "string + Json"

text \<open>
  \<open>httpDo caBundle timeout request\<close> is the exchange of an \<^verbatim>\<open>http.Client\<close> with that
  timeout whose transport trusts, besides the system's roots, the given CA bundle.  The errors of these
  libraries are used only for their text, which is what stands for them.
\<close>

record 's Transport =
  httpDo :: "string \<Rightarrow> int \<Rightarrow> HttpRequest \<Rightarrow> ('s, string + HttpResponse) state"
  newRequestError :: "HttpRequest \<Rightarrow> string option"
  url_Parse :: "string \<Rightarrow> string + URL"
  validCertificates :: "string \<Rightarrow> bool"
  clockNow :: "('s, int) state"

text \<open>\<^verbatim>\<open>url.PathEscape\<close>: letters, digits and a few marks stay, other bytes become \<^verbatim>\<open>%XX\<close>.\<close>

definition unescapedInPath :: "char \<Rightarrow> bool" where
  "unescapedInPath c \<longleftrightarrow> (let n = (of_char c :: nat) in
     (97 \<le> n \<and> n \<le> 122) \<or> (65 \<le> n \<and> n \<le> 90) \<or> (48 \<le> n \<and> n \<le> 57) \<or>
     c \<in> set ''-_.~$&+=:@'')"

definition upperHex :: "nat \<Rightarrow> char" where
  "upperHex n = (if n < 10 then char_of (48 + n) else char_of (55 + n))"

definition escapeByte :: "char \<Rightarrow> string" where
  "escapeByte c = (if unescapedInPath c then [c]
     else (let n = (of_char c :: nat) in [CHR ''%'', upperHex (n div 16), upperHex (n mod 16)]))"

definition PathEscape :: "string \<Rightarrow> string" where
  "PathEscape s = concat (map escapeByte s)"

section \<open>Constants and options\<close>

definition maxErrorBodySize :: nat where
  "maxErrorBodySize = 2 ^ 20"
definition authPathSegment :: string where
  "authPathSegment = ''auth''"
definition defaultKubernetesMount :: string where
  "defaultKubernetesMount = ''kubernetes''"
definition defaultAppRoleMount :: string where
  "defaultAppRoleMount = ''approle''"
definition listQuery :: "(string \<times> string) list" where
  "listQuery = [(''list'', ''true'')]"
definition identityPathSegment :: string where
  "identityPathSegment = ''identity''"
definition auditPathSegment :: string where
  "auditPathSegment = ''audit''"

type_synonym 's CredentialSource = "('s, go_error + string) state"

record 's KubernetesAuthOptions =
  ka_MountPath :: string
  ka_Role :: string
  ka_JWTSource :: "'s CredentialSource option"

record 's AppRoleAuthOptions =
  ra_MountPath :: string
  ra_RoleID :: "'s CredentialSource option"
  ra_SecretID :: "'s CredentialSource option"

record tokenLease =
  tl_expiresAt :: int
  tl_duration :: int
  tl_renewable :: bool

definition zeroLease :: tokenLease where
  "zeroLease = \<lparr>tl_expiresAt = 0, tl_duration = 0, tl_renewable = False\<rparr>"

record TokenState =
  ts_token :: string
  ts_lease :: tokenLease

record 's Client =
  hc_baseURL :: URL
  hc_timeout :: int
  hc_caBundle :: string
  hc_namespace :: string
  hc_kubernetesAuth :: "'s KubernetesAuthOptions option"
  hc_appRoleAuth :: "'s AppRoleAuthOptions option"
  hc_transport :: "'s Transport"

section \<open>Validation and construction\<close>

definition reservedSegments :: "string list" where
  "reservedSegments = [''.'', ''..'', ''root'', ''sys'', auditPathSegment, ''auth'', ''cubbyhole'', identityPathSegment]"

fun namespaceSegments :: "string list \<Rightarrow> go_error option" where
  "namespaceSegments [] = None"
| "namespaceSegments (segment # rest) =
     (if segment = '''' then Some (Errorf ''OpenBao namespace must not contain empty path segments'')
      else if segment \<in> set reservedSegments then
        Some (Errorf (''OpenBao namespace segment '' @ fmt_q segment @ '' is reserved''))
      else if hasSpace segment then Some (Errorf ''OpenBao namespace must not contain whitespace'')
      else namespaceSegments rest)"

definition validateNamespace :: "string \<Rightarrow> go_error option" where
  "validateNamespace namespace =
     (if namespace = '''' then None
      else if TrimSpace namespace \<noteq> namespace then
        Some (Errorf ''OpenBao namespace must not start or end with whitespace'')
      else namespaceSegments (SplitByte (CHR ''/'') namespace))"

definition badMountSegment :: "string \<Rightarrow> bool" where
  "badMountSegment segment \<longleftrightarrow> segment = '''' \<or> segment = ''.'' \<or> segment = ''..'' \<or> hasSpace segment"

definition validateAuthMountPath :: "string \<Rightarrow> string \<Rightarrow> go_error option" where
  "validateAuthMountPath mountPath authName =
     (if TrimSpace mountPath \<noteq> mountPath \<or> mountPath = '''' then
        Some (Errorf (''OpenBao '' @ authName @
          '' mount path must be non-empty and contain no surrounding whitespace''))
      else if HasPrefix mountPath ''auth/'' then
        Some (Errorf (''OpenBao '' @ authName @ '' mount path must omit the auth/ prefix''))
      else if list_ex badMountSegment (SplitByte (CHR ''/'') mountPath) then
        Some (Errorf (''invalid OpenBao '' @ authName @ '' mount path '' @ fmt_q mountPath))
      else None)"

definition newClient ::
  "'s Transport \<Rightarrow> string \<Rightarrow> int \<Rightarrow> string \<Rightarrow> string \<Rightarrow> go_error + 's Client" where
  "newClient T baseURL timeout caBundle namespace = (case validateNamespace namespace of
      Some err \<Rightarrow> Inl err
    | None \<Rightarrow> (case url_Parse T (TrimRightByte (CHR ''/'') (TrimSpace baseURL)) of
        Inl err \<Rightarrow> Inl (Wrapf ''parse OpenBao address'' (Errorf err))
      | Inr parsed \<Rightarrow>
          if u_Scheme parsed \<noteq> ''http'' \<and> u_Scheme parsed \<noteq> ''https'' then
            Inl (Errorf (''OpenBao address must use http or https, got '' @ fmt_q (u_Scheme parsed)))
          else if u_Host parsed = '''' then Inl (Errorf ''OpenBao address has no host'')
          else if u_RawQuery parsed \<noteq> '''' \<or> u_Fragment parsed \<noteq> '''' then
            Inl (Errorf ''OpenBao address must not contain a query or fragment'')
          else if HasSuffix (u_Path parsed) ''/v1'' then
            Inl (Errorf ''OpenBao address must not include the /v1 API prefix'')
          else if caBundle \<noteq> '''' \<and> \<not> validCertificates T caBundle then
            Inl (Errorf ''OpenBao CA bundle contains no valid certificates'')
          else Inr \<lparr>hc_baseURL = parsed, hc_timeout = (if timeout \<le> 0 then 30 * Second else timeout),
                    hc_caBundle = caBundle, hc_namespace = namespace,
                    hc_kubernetesAuth = None, hc_appRoleAuth = None, hc_transport = T\<rparr>))"

definition initialToken :: "string \<Rightarrow> TokenState" where
  "initialToken token = \<lparr>ts_token = token, ts_lease = zeroLease\<rparr>"

text \<open>The constructors return the client with the initial state of its token.\<close>

definition NewWithNamespace ::
  "'s Transport \<Rightarrow> string \<Rightarrow> string \<Rightarrow> int \<Rightarrow> string \<Rightarrow> string \<Rightarrow> go_error + 's Client \<times> TokenState" where
  "NewWithNamespace T baseURL token timeout caBundle namespace =
     (if TrimSpace token = '''' then Inl (Errorf ''OpenBao token is empty'')
      else (case newClient T baseURL timeout caBundle namespace of
          Inl err \<Rightarrow> Inl err
        | Inr client \<Rightarrow> Inr (client, initialToken token)))"

definition NewClient ::
  "'s Transport \<Rightarrow> string \<Rightarrow> string \<Rightarrow> int \<Rightarrow> string \<Rightarrow> go_error + 's Client \<times> TokenState" where
  "NewClient T baseURL token timeout caBundle = NewWithNamespace T baseURL token timeout caBundle ''''"

definition NewWithKubernetesAuth ::
  "'s Transport \<Rightarrow> string \<Rightarrow> 's KubernetesAuthOptions \<Rightarrow> int \<Rightarrow> string \<Rightarrow> string
     \<Rightarrow> go_error + 's Client \<times> TokenState" where
  "NewWithKubernetesAuth T baseURL options timeout caBundle namespace =
     (if TrimSpace (ka_Role options) = '''' then Inl (Errorf ''OpenBao Kubernetes auth role is empty'')
      else if hasSpace (ka_Role options) then
        Inl (Errorf ''OpenBao Kubernetes auth role must not contain whitespace'')
      else if ka_JWTSource options = None then Inl (Errorf ''OpenBao Kubernetes auth JWT source is nil'')
      else (let mountPath = (if ka_MountPath options = '''' then defaultKubernetesMount else ka_MountPath options)
        in case validateAuthMountPath mountPath ''Kubernetes auth'' of
             Some err \<Rightarrow> Inl err
           | None \<Rightarrow> (case newClient T baseURL timeout caBundle namespace of
                Inl err \<Rightarrow> Inl err
              | Inr client \<Rightarrow> Inr (client\<lparr>hc_kubernetesAuth := Some (options\<lparr>ka_MountPath := mountPath\<rparr>)\<rparr>,
                  initialToken ''''))))"

definition NewWithAppRole ::
  "'s Transport \<Rightarrow> string \<Rightarrow> 's AppRoleAuthOptions \<Rightarrow> int \<Rightarrow> string \<Rightarrow> string
     \<Rightarrow> go_error + 's Client \<times> TokenState" where
  "NewWithAppRole T baseURL options timeout caBundle namespace =
     (if ra_RoleID options = None then Inl (Errorf ''OpenBao AppRole role ID source is nil'')
      else if ra_SecretID options = None then Inl (Errorf ''OpenBao AppRole Secret ID source is nil'')
      else (let mountPath = (if ra_MountPath options = '''' then defaultAppRoleMount else ra_MountPath options)
        in case validateAuthMountPath mountPath ''AppRole auth'' of
             Some err \<Rightarrow> Inl err
           | None \<Rightarrow> (case newClient T baseURL timeout caBundle namespace of
                Inl err \<Rightarrow> Inl err
              | Inr client \<Rightarrow> Inr (client\<lparr>hc_appRoleAuth := Some (options\<lparr>ra_MountPath := mountPath\<rparr>)\<rparr>,
                  initialToken ''''))))"

text \<open>\<^verbatim>\<open>readServiceAccountToken\<close>; reading the projected file is the argument.\<close>

definition readServiceAccountToken :: "('s, go_error + string) state \<Rightarrow> 's CredentialSource" where
  "readServiceAccountToken readFile = do {
     r \<leftarrow> readFile;
     ret (case r of
       Inl err \<Rightarrow> Inl (Wrapf ''read projected ServiceAccount token'' err)
     | Inr data \<Rightarrow> if TrimSpace data = '''' then Inl (Errorf ''projected ServiceAccount token is empty'')
         else Inr (TrimSpace data))
   }"

section \<open>One request\<close>

text \<open>
  The target of a call is the variable the response is decoded into: its zero value and the decoder of
  its type.  A call with a nil target returns the value of \<open>NilTarget\<close> when it succeeds.
\<close>

datatype 'a target = NilTarget 'a | Target 'a "'a decoder"

definition isAllowedStatus :: "int \<Rightarrow> int list \<Rightarrow> bool" where
  "isAllowedStatus status allowed \<longleftrightarrow> (200 \<le> status \<and> status < 300) \<or> status \<in> set allowed"

definition StatusNoContent :: int where "StatusNoContent = 204"

definition onOutside :: "('s, 'a) state \<Rightarrow> ('t \<times> 's, 'a) state" where
  "onOutside m = State (\<lambda>(t, s). case run_state m s of (a, s') \<Rightarrow> (a, (t, s')))"

definition currentState :: "('t \<times> 's, 't) state" where
  "currentState = State (\<lambda>(t, s). (t, (t, s)))"

definition setState :: "'t \<Rightarrow> ('t \<times> 's, unit) state" where
  "setState t = State (\<lambda>(_, s). ((), (t, s)))"

definition requestPath :: "URL \<Rightarrow> string list \<Rightarrow> string" where
  "requestPath baseURL segments =
     TrimRightByte (CHR ''/'') (u_EscapedPath baseURL) @ ''/v1'' @
     concat (map (\<lambda>segment. ''/'' @ PathEscape segment) segments)"

definition requestHeaders :: "string \<Rightarrow> string \<Rightarrow> bool \<Rightarrow> (string \<times> string) list" where
  "requestHeaders token namespace hasBody =
     [(''Accept'', ''application/json''), (''X-Vault-Token'', token), (''X-Vault-Request'', ''true'')]
     @ (if namespace \<noteq> '''' then [(''X-Vault-Namespace'', namespace)] else [])
     @ (if hasBody then [(''Content-Type'', ''application/json'')] else [])"

definition makeRequest ::
  "'s Client \<Rightarrow> string \<Rightarrow> string list \<Rightarrow> (string \<times> string) list \<Rightarrow> Json option \<Rightarrow> string \<Rightarrow> HttpRequest" where
  "makeRequest c verb segments query body token =
     \<lparr>rq_Method = verb, rq_Scheme = u_Scheme (hc_baseURL c), rq_Host = u_Host (hc_baseURL c),
      rq_Path = requestPath (hc_baseURL c) segments, rq_Query = query,
      rq_Headers = requestHeaders token (hc_namespace c) (body \<noteq> None), rq_Body = body\<rparr>"

text \<open>\<^verbatim>\<open>io.ReadAll(io.LimitReader(resp.Body, maxErrorBodySize))\<close>\<close>

definition readErrorBody :: "HttpResponse \<Rightarrow> string + string" where
  "readErrorBody resp =
     (if length (rs_Bytes resp) < maxErrorBodySize then
        (case rs_ReadError resp of None \<Rightarrow> Inr (rs_Bytes resp) | Some err \<Rightarrow> Inl err)
      else Inr (take maxErrorBodySize (rs_Bytes resp)))"

definition readResponse :: "HttpResponse \<Rightarrow> 'a target \<Rightarrow> int list \<Rightarrow> go_error + 'a" where
  "readResponse resp target allowedStatuses =
     (if \<not> isAllowedStatus (rs_Status resp) allowedStatuses then
        (case readErrorBody resp of
           Inl readErr \<Rightarrow> Inl (Wrapf ''read OpenBao API error response'' (Errorf readErr))
         | Inr bytes \<Rightarrow> Inl (HTTPError (rs_Status resp) (TrimSpace bytes)))
      else (case target of
          NilTarget v \<Rightarrow> Inr v
        | Target zero decode \<Rightarrow>
            if rs_Status resp = StatusNoContent then Inr zero
            else (case andThen (rs_JSON resp) (\<lambda>j. decode j zero) of
                Inl err \<Rightarrow> Inl (Wrapf ''decode OpenBao API response'' (Errorf err))
              | Inr v \<Rightarrow> Inr v)))"

definition doSegmentsQueryWithToken ::
  "'s Client \<Rightarrow> string \<Rightarrow> string list \<Rightarrow> (string \<times> string) list \<Rightarrow> Json option \<Rightarrow> 'a target
     \<Rightarrow> string \<Rightarrow> int list \<Rightarrow> (TokenState \<times> 's, go_error + 'a) state" where
  "doSegmentsQueryWithToken c verb segments query body target token allowedStatuses =
     (let request = makeRequest c verb segments query body token
      in case newRequestError (hc_transport c) request of
           Some err \<Rightarrow> ret (Inl (Wrapf ''create OpenBao API request'' (Errorf err)))
         | None \<Rightarrow> do {
             r \<leftarrow> onOutside (httpDo (hc_transport c) (hc_caBundle c) (hc_timeout c) request);
             ret (case r of
               Inl err \<Rightarrow> Inl (Wrapf ''call OpenBao API'' (Errorf err))
             | Inr resp \<Rightarrow> readResponse resp target allowedStatuses)
           })"

section \<open>Tokens\<close>

record tokenAuth =
  ta_ClientToken :: string
  ta_LeaseDuration :: int
  ta_Renewable :: bool

definition zeroTokenAuth :: tokenAuth where
  "zeroTokenAuth = \<lparr>ta_ClientToken = '''', ta_LeaseDuration = 0, ta_Renewable = False\<rparr>"

definition decTokenAuth :: "tokenAuth decoder" where
  "decTokenAuth = decStruct ''tokenAuth'' (\<lambda>fs x.
     andThen (field fs ''client_token'' decString (ta_ClientToken x)) (\<lambda>tok.
     andThen (field fs ''lease_duration'' decInt64 (ta_LeaseDuration x)) (\<lambda>dur.
     andThen (field fs ''renewable'' decBool (ta_Renewable x)) (\<lambda>ren.
     Inr \<lparr>ta_ClientToken = tok, ta_LeaseDuration = dur, ta_Renewable = ren\<rparr>))))"

text \<open>\<^verbatim>\<open>tokenAuthResponse\<close>, a struct with the one field \<^verbatim>\<open>auth\<close>\<close>

definition tokenAuthResponse :: "tokenAuth target" where
  "tokenAuthResponse = Target zeroTokenAuth
     (decStruct ''tokenAuthResponse'' (\<lambda>fs x. field fs ''auth'' decTokenAuth x))"

definition usesDynamicAuth :: "'s Client \<Rightarrow> bool" where
  "usesDynamicAuth c \<longleftrightarrow> hc_kubernetesAuth c \<noteq> None \<or> hc_appRoleAuth c \<noteq> None"

definition tokenNeedsRefresh :: "tokenLease \<Rightarrow> int \<Rightarrow> bool" where
  "tokenNeedsRefresh lease now =
     (if tl_expiresAt lease = 0 then False
      else if \<not> tl_renewable lease then \<not> now < tl_expiresAt lease
      else (let refreshBefore = min (go_div (tl_duration lease) 3) Minute;
                remaining = time_Sub (tl_expiresAt lease) now
            in remaining \<le> refreshBefore))"

definition newTokenLease :: "tokenAuth \<Rightarrow> int \<Rightarrow> tokenLease" where
  "newTokenLease auth now =
     (if ta_LeaseDuration auth > 0 then
        (let duration = wrap64 (ta_LeaseDuration auth * Second)
         in \<lparr>tl_expiresAt = now + duration, tl_duration = duration, tl_renewable = ta_Renewable auth\<rparr>)
      else \<lparr>tl_expiresAt = 0, tl_duration = 0, tl_renewable = ta_Renewable auth\<rparr>)"

definition currentToken :: "(TokenState \<times> 's, string) state" where
  "currentToken = do { t \<leftarrow> currentState; ret (ts_token t) }"

definition invalidateToken :: "(TokenState \<times> 's, unit) state" where
  "invalidateToken = setState \<lparr>ts_token = '''', ts_lease = zeroLease\<rparr>"

text \<open>What a login makes of the response: the new token with its lease, from the clock's reading then.\<close>

definition finishLogin ::
  "'s Client \<Rightarrow> string \<Rightarrow> go_error + tokenAuth \<Rightarrow> (TokenState \<times> 's, go_error + string \<times> tokenLease) state" where
  "finishLogin c authName r = (case r of
      Inl err \<Rightarrow> ret (Inl err)
    | Inr auth \<Rightarrow>
        if TrimSpace (ta_ClientToken auth) = '''' then
          ret (Inl (Errorf (''OpenBao '' @ authName @ '' auth response did not include a client token'')))
        else do {
          now \<leftarrow> onOutside (clockNow (hc_transport c));
          ret (Inr (ta_ClientToken auth, newTokenLease auth now))
        })"

definition loginKubernetes ::
  "'s Client \<Rightarrow> 's KubernetesAuthOptions \<Rightarrow> string \<Rightarrow> (TokenState \<times> 's, go_error + string \<times> tokenLease) state" where
  "loginKubernetes c auth jwt = do {
     r \<leftarrow> doSegmentsQueryWithToken c ''POST''
            (authPathSegment # SplitByte (CHR ''/'') (ka_MountPath auth) @ [''login'']) []
            (Some (JObj [(''jwt'', JString jwt), (''role'', JString (ka_Role auth))])) tokenAuthResponse '''' [];
     finishLogin c ''Kubernetes'' r
   }"

definition loginAppRole ::
  "'s Client \<Rightarrow> 's AppRoleAuthOptions \<Rightarrow> string \<Rightarrow> string \<Rightarrow> (TokenState \<times> 's, go_error + string \<times> tokenLease) state" where
  "loginAppRole c auth roleID secretID = do {
     r \<leftarrow> doSegmentsQueryWithToken c ''POST''
            (authPathSegment # SplitByte (CHR ''/'') (ra_MountPath auth) @ [''login'']) []
            (Some (JObj [(''role_id'', JString roleID), (''secret_id'', JString secretID)]))
            tokenAuthResponse '''' [];
     finishLogin c ''AppRole'' r
   }"

definition renewToken :: "'s Client \<Rightarrow> string \<Rightarrow> (TokenState \<times> 's, go_error + tokenLease) state" where
  "renewToken c token = do {
     r \<leftarrow> doSegmentsQueryWithToken c ''POST'' [authPathSegment, ''token'', ''renew-self''] []
            (Some (JObj [(''increment'', JString '''')])) tokenAuthResponse token [];
     (case r of
        Inl err \<Rightarrow> ret (Inl err)
      | Inr auth \<Rightarrow> do {
          now \<leftarrow> onOutside (clockNow (hc_transport c));
          ret (Inr (newTokenLease auth now))
        })
   }"

text \<open>Calling a source that is nil panics; the constructors exclude it.\<close>

definition callSource :: "'s CredentialSource option \<Rightarrow> (TokenState \<times> 's, go_error + string) state" where
  "callSource source = (case source of None \<Rightarrow> ret (Inl NilPanic) | Some f \<Rightarrow> onOutside f)"

definition credential ::
  "'s CredentialSource option \<Rightarrow> string \<Rightarrow> string \<Rightarrow> (TokenState \<times> 's, go_error + string) state" where
  "credential source readError emptyError = do {
     r \<leftarrow> callSource source;
     ret (case r of
       Inl sourceErr \<Rightarrow> Inl (if source = None then sourceErr else Wrapf readError sourceErr)
     | Inr value \<Rightarrow> if TrimSpace value = '''' then Inl (Errorf emptyError) else Inr value)
   }"

definition login :: "'s Client \<Rightarrow> (TokenState \<times> 's, go_error + string \<times> tokenLease) state" where
  "login c = (case hc_kubernetesAuth c of
      Some auth \<Rightarrow> do {
        r \<leftarrow> credential (ka_JWTSource auth) ''read Kubernetes auth JWT'' ''kubernetes auth JWT is empty'';
        (case r of Inl err \<Rightarrow> ret (Inl err) | Inr jwt \<Rightarrow> loginKubernetes c auth jwt)
      }
    | None \<Rightarrow> (case hc_appRoleAuth c of
        Some auth \<Rightarrow> do {
          r \<leftarrow> credential (ra_RoleID auth) ''read AppRole role ID'' ''AppRole role ID is empty'';
          (case r of
             Inl err \<Rightarrow> ret (Inl err)
           | Inr roleID \<Rightarrow> do {
               r \<leftarrow> credential (ra_SecretID auth) ''read AppRole Secret ID'' ''AppRole Secret ID is empty'';
               (case r of Inl err \<Rightarrow> ret (Inl err) | Inr secretID \<Rightarrow> loginAppRole c auth roleID secretID)
             })
        }
      | None \<Rightarrow> ret (Inr ('''', zeroLease))))"

text \<open>
  \<^verbatim>\<open>ensureToken\<close> holds the client's mutex throughout; a failed renewal is not reported but
  followed by a login.
\<close>

definition tokenIsFresh :: "'s Client \<Rightarrow> TokenState \<Rightarrow> (TokenState \<times> 's, bool) state" where
  "tokenIsFresh c t = (if ts_token t = '''' then ret False else do {
     now \<leftarrow> onOutside (clockNow (hc_transport c));
     ret (\<not> tokenNeedsRefresh (ts_lease t) now)
   })"

definition tryRenew :: "'s Client \<Rightarrow> TokenState \<Rightarrow> (TokenState \<times> 's, tokenLease option) state" where
  "tryRenew c t = (if ts_token t \<noteq> '''' \<and> tl_renewable (ts_lease t) then do {
     r \<leftarrow> renewToken c (ts_token t);
     ret (case r of Inl err \<Rightarrow> None | Inr lease \<Rightarrow> Some lease)
   } else ret None)"

definition ensureToken :: "'s Client \<Rightarrow> (TokenState \<times> 's, go_error option) state" where
  "ensureToken c = (if \<not> usesDynamicAuth c then ret None else do {
     t \<leftarrow> currentState;
     fresh \<leftarrow> tokenIsFresh c t;
     if fresh then ret None else do {
       renewed \<leftarrow> tryRenew c t;
       (case renewed of
          Some lease \<Rightarrow> do { setState (t\<lparr>ts_lease := lease\<rparr>); ret None }
        | None \<Rightarrow> do {
            r \<leftarrow> login c;
            (case r of
               Inl err \<Rightarrow> ret (Some err)
             | Inr (clientToken, lease) \<Rightarrow> do {
                 setState \<lparr>ts_token = clientToken, ts_lease = lease\<rparr>;
                 ret None
               })
          })
     }
   })"

section \<open>A call with its token\<close>

definition doSegmentsQuery ::
  "'s Client \<Rightarrow> string \<Rightarrow> string list \<Rightarrow> (string \<times> string) list \<Rightarrow> Json option \<Rightarrow> 'a target \<Rightarrow> int list
     \<Rightarrow> (TokenState \<times> 's, go_error + 'a) state" where
  "doSegmentsQuery c verb segments query body target allowedStatuses = do {
     e \<leftarrow> ensureToken c;
     (case e of
        Some err \<Rightarrow> ret (Inl err)
      | None \<Rightarrow> do {
          token \<leftarrow> currentToken;
          r \<leftarrow> doSegmentsQueryWithToken c verb segments query body target token allowedStatuses;
          (case r of
             Inr v \<Rightarrow> ret (Inr v)
           | Inl err \<Rightarrow>
               if \<not> IsUnauthorized err \<or> \<not> usesDynamicAuth c then ret (Inl err)
               else do {
                 invalidateToken;
                 e \<leftarrow> ensureToken c;
                 (case e of
                    Some err \<Rightarrow> ret (Inl err)
                  | None \<Rightarrow> do {
                      token \<leftarrow> currentToken;
                      doSegmentsQueryWithToken c verb segments query body target token allowedStatuses
                    })
               })
        })
   }"

definition doSegments ::
  "'s Client \<Rightarrow> string \<Rightarrow> string list \<Rightarrow> Json option \<Rightarrow> 'a target \<Rightarrow> int list
     \<Rightarrow> (TokenState \<times> 's, go_error + 'a) state" where
  "doSegments c verb segments body target allowedStatuses =
     doSegmentsQuery c verb segments [] body target allowedStatuses"

text \<open>\<^verbatim>\<open>Client.do\<close>, whose name is a keyword of the logic\<close>

definition doPath ::
  "'s Client \<Rightarrow> string \<Rightarrow> string \<Rightarrow> Json option \<Rightarrow> 'a target \<Rightarrow> int list
     \<Rightarrow> (TokenState \<times> 's, go_error + 'a) state" where
  "doPath c verb path body target allowedStatuses =
     doSegments c verb (SplitByte (CHR ''/'') (TrimByte (CHR ''/'') path)) body target allowedStatuses"

end
