(* ===== verification/Sha256.thy ===== *)
theory Sha256
  imports GoLib
begin

unbundle bit_operations_syntax

text \<open>
  \<^verbatim>\<open>crypto/sha256\<close> and \<^verbatim>\<open>encoding/hex\<close> of the standard library, which
  \<^verbatim>\<open>policyRulesHash\<close> uses: the digest of a byte string as FIPS 180-4 defines it, on
  32-bit words whose addition wraps.
\<close>

type_synonym w32 = "32 word"

text \<open>
  The 64 round constants, eight to a row: the first 32 bits of the fractional parts of the cube roots of
  the first 64 primes.
\<close>

definition sha_K_rows :: "nat list" where
  "sha_K_rows =
    [0x428a2f9871374491b5c0fbcfe9b5dba53956c25b59f111f1923f82a4ab1c5ed5,
     0xd807aa9812835b01243185be550c7dc372be5d7480deb1fe9bdc06a7c19bf174,
     0xe49b69c1efbe47860fc19dc6240ca1cc2de92c6f4a7484aa5cb0a9dc76f988da,
     0x983e5152a831c66db00327c8bf597fc7c6e00bf3d5a7914706ca635114292967,
     0x27b70a852e1b21384d2c6dfc53380d13650a7354766a0abb81c2c92e92722c85,
     0xa2bfe8a1a81a664bc24b8b70c76c51a3d192e819d6990624f40e3585106aa070,
     0x19a4c1161e376c082748774c34b0bcb5391c0cb34ed8aa4a5b9cca4f682e6ff3,
     0x748f82ee78a5636f84c878148cc7020890befffaa4506cebbef9a3f7c67178f2]"

text \<open>The \<open>k\<close> words of 32 bits a number is made of, the most significant first.\<close>

fun words_of :: "nat \<Rightarrow> nat \<Rightarrow> w32 list" where
  "words_of 0 n = []"
| "words_of (Suc k) n = words_of k (n div 2 ^ 32) @ [of_nat (n mod 2 ^ 32)]"

definition sha_K :: "w32 list" where
  "sha_K = concat (map (words_of 8) sha_K_rows)"

definition rotr :: "nat \<Rightarrow> w32 \<Rightarrow> w32" where
  "rotr n x = drop_bit n x OR push_bit (32 - n) x"

definition bytes_of :: "string \<Rightarrow> nat list" where
  "bytes_of s = map of_char s"

text \<open>Padding: the byte 0x80, zeros up to 56 modulo 64, the bit length in 8 big-endian bytes.\<close>

fun be_bytes :: "nat \<Rightarrow> nat \<Rightarrow> nat list" where
  "be_bytes 0 n = []"
| "be_bytes (Suc k) n = be_bytes k (n div 256) @ [n mod 256]"

definition sha_pad :: "nat list \<Rightarrow> nat list" where
  "sha_pad bs = bs @ [128] @ replicate ((119 - length bs mod 64) mod 64) 0 @ be_bytes 8 (8 * length bs)"

fun be_words :: "nat list \<Rightarrow> w32 list" where
  "be_words (a # b # c # d # bs) = (((of_nat a * 256 + of_nat b) * 256 + of_nat c) * 256 + of_nat d) # be_words bs"
| "be_words _ = []"

fun sha_blocks :: "nat \<Rightarrow> w32 list \<Rightarrow> w32 list list" where
  "sha_blocks 0 ws = []"
| "sha_blocks (Suc n) ws = take 16 ws # sha_blocks n (drop 16 ws)"

text \<open>The message schedule, newest word first.\<close>

fun sha_schedule :: "nat \<Rightarrow> w32 list \<Rightarrow> w32 list" where
  "sha_schedule 0 w = w"
| "sha_schedule (Suc n) w =
     (let a = w ! 14; b = w ! 1;
          s0 = rotr 7 a XOR rotr 18 a XOR drop_bit 3 a;
          s1 = rotr 17 b XOR rotr 19 b XOR drop_bit 10 b
      in sha_schedule n ((w ! 15 + s0 + w ! 6 + s1) # w))"

type_synonym sha_state = "w32 \<times> w32 \<times> w32 \<times> w32 \<times> w32 \<times> w32 \<times> w32 \<times> w32"

definition sha_H0 :: sha_state where
  "sha_H0 = (0x6a09e667, 0xbb67ae85, 0x3c6ef372, 0xa54ff53a, 0x510e527f, 0x9b05688c, 0x1f83d9ab, 0x5be0cd19)"

definition sha_round :: "sha_state \<Rightarrow> w32 \<times> w32 \<Rightarrow> sha_state" where
  "sha_round st kw = (case st of (a, b, c, d, e, f, g, h) \<Rightarrow>
     (let s1 = rotr 6 e XOR rotr 11 e XOR rotr 25 e;
          ch = (e AND f) XOR (NOT e AND g);
          t1 = h + s1 + ch + fst kw + snd kw;
          s0 = rotr 2 a XOR rotr 13 a XOR rotr 22 a;
          maj = (a AND b) XOR (a AND c) XOR (b AND c)
      in (t1 + s0 + maj, a, b, c, d + t1, e, f, g)))"

definition sha_add :: "sha_state \<Rightarrow> sha_state \<Rightarrow> sha_state" where
  "sha_add x y = (case (x, y) of
     ((a, b, c, d, e, f, g, h), (a', b', c', d', e', f', g', h')) \<Rightarrow>
       (a + a', b + b', c + c', d + d', e + e', f + f', g + g', h + h'))"

definition sha_block :: "sha_state \<Rightarrow> w32 list \<Rightarrow> sha_state" where
  "sha_block hs blk = sha_add hs (foldl sha_round hs (zip sha_K (rev (sha_schedule 48 (rev blk)))))"

definition sha256_words :: "string \<Rightarrow> w32 list" where
  "sha256_words s =
     (let bs = sha_pad (bytes_of s)
      in case foldl sha_block sha_H0 (sha_blocks (length bs div 64) (be_words bs)) of
           (a, b, c, d, e, f, g, h) \<Rightarrow> [a, b, c, d, e, f, g, h])"

definition hex_word :: "w32 \<Rightarrow> string" where
  "hex_word w = map (\<lambda>i. hex_digit (unat (drop_bit (4 * i) w AND 15))) (rev [0..<8])"

definition sha256_hex :: "string \<Rightarrow> string" where
  "sha256_hex s = concat (map hex_word (sha256_words s))"

text \<open>The hash is always 64 hexadecimal digits.\<close>

lemma length_sha256_hex: "length (sha256_hex s) = 64"
proof -
  have w: "length (sha256_words s) = 8"
    by (simp add: sha256_words_def Let_def split: prod.split)
  have "length (concat (map hex_word ws)) = 8 * length ws" for ws
    by (induction ws) (simp_all add: hex_word_def)
  with w show ?thesis by (simp add: sha256_hex_def)
qed

end
