(* ===== verification/ClientCache.thy ===== *)
theory ClientCache
  imports HttpClient Api Sha256
begin

text \<open>
  The clients of connections, from \<^verbatim>\<open>internal/controller/openbao/common.go\<close>:
  \<^verbatim>\<open>connectionClientFor\<close> builds a client from the specification of a connection and the
  Secrets it refers to, and \<^verbatim>\<open>ConnectionClientCache.ClientFor\<close> keeps the clients that log
  in by themselves, with their token leases, for the next reconciliation.

  A client is a pointer whose token changes under its methods.  \<open>ClientStore\<close> is the memory the
  pointers lead to (an address is an index of \<open>cs_objects\<close>) together with the cache's map;
  \<open>onClient\<close> runs a method of the client at an address.  The cache's mutex makes \<open>ClientFor\<close>
  one step.  \<open>ClientEnv\<close> holds what is outside: reading Secrets and the token file, and the
  HTTP library.
\<close>

section \<open>Secrets\<close>

record Secret = ObjectMeta +
  sec_Data :: "(string, string) fmap"

text \<open>A missing key of the data reads as no bytes.\<close>

definition secretData :: "Secret \<Rightarrow> string \<Rightarrow> string" where
  "secretData secret key = (case fmlookup (sec_Data secret) key of None \<Rightarrow> '''' | Some v \<Rightarrow> v)"

record 's ClientEnv =
  ce_GetSecret :: "NamespacedName \<Rightarrow> ('s, go_error + Secret) state"
  ce_ReadTokenFile :: "('s, go_error + string) state"
  ce_Transport :: "'s Transport"

definition slashed :: "string \<Rightarrow> string \<Rightarrow> string" where
  "slashed namespace name = namespace @ ''/'' @ name"

definition secretValueSource ::
  "'s ClientEnv \<Rightarrow> string \<Rightarrow> SecretKeyReference \<Rightarrow> string \<Rightarrow> string \<Rightarrow> 's CredentialSource" where
  "secretValueSource E namespace ref defaultKey description = do {
     r \<leftarrow> ce_GetSecret E (namespace, skr_Name ref);
     ret (case r of
       Inl err \<Rightarrow> Inl (Wrapf (''read '' @ description @ '' Secret '' @ slashed namespace (skr_Name ref)) err)
     | Inr secret \<Rightarrow>
         (let key = (if skr_Key ref = '''' then defaultKey else skr_Key ref);
              v = TrimSpace (secretData secret key)
          in if v = '''' then
               Inl (Errorf (description @ '' Secret '' @ slashed namespace (skr_Name ref)
                 @ '' has no non-empty '' @ fmt_q key @ '' key''))
             else Inr v))
   }"

section \<open>What a connection asks for\<close>

definition connectionRequestTimeout :: "OpenBaoConnection \<Rightarrow> int" where
  "connectionRequestTimeout connection = (case cns_RequestTimeout (cn_Spec connection) of
      Some d \<Rightarrow> if d > 0 then d else 30 * Second
    | None \<Rightarrow> 30 * Second)"

text \<open>A nil bundle and one of no bytes are the same to the client.\<close>

definition connectionCABundle :: "'s ClientEnv \<Rightarrow> OpenBaoConnection \<Rightarrow> ('s, go_error + string) state" where
  "connectionCABundle E connection = (case cns_CABundleSecretRef (cn_Spec connection) of
      None \<Rightarrow> ret (Inr '''')
    | Some ref \<Rightarrow> do {
        r \<leftarrow> ce_GetSecret E (om_Namespace connection, skr_Name ref);
        ret (case r of
          Inl err \<Rightarrow> Inl (Wrapf (''read CA bundle Secret ''
             @ slashed (om_Namespace connection) (skr_Name ref)) err)
        | Inr caSecret \<Rightarrow>
            (let caKey = (if skr_Key ref = '''' then ''ca.crt'' else skr_Key ref);
                 caBundle = secretData caSecret caKey
             in if caBundle = '''' then
                  Inl (Errorf (''CA bundle Secret '' @ slashed (om_Namespace connection) (skr_Name ref)
                    @ '' has no '' @ fmt_q caKey @ '' key''))
                else Inr caBundle))
      })"

text \<open>The two ways to log in, as both \<^verbatim>\<open>connectionClientFor\<close> and the cache build them.\<close>

definition kubernetesClient ::
  "'s ClientEnv \<Rightarrow> OpenBaoConnection \<Rightarrow> KubernetesAuthSpec \<Rightarrow> int \<Rightarrow> string \<Rightarrow> go_error + 's Client \<times> TokenState" where
  "kubernetesClient E connection auth timeout caBundle =
     NewWithKubernetesAuth (ce_Transport E) (cns_Address (cn_Spec connection))
       \<lparr>ka_MountPath = kas_MountPath auth, ka_Role = kas_Role auth,
        ka_JWTSource = Some (readServiceAccountToken (ce_ReadTokenFile E))\<rparr>
       timeout caBundle (cns_Namespace (cn_Spec connection))"

definition appRoleClient ::
  "'s ClientEnv \<Rightarrow> OpenBaoConnection \<Rightarrow> AppRoleAuthSpec \<Rightarrow> int \<Rightarrow> string \<Rightarrow> go_error + 's Client \<times> TokenState" where
  "appRoleClient E connection auth timeout caBundle =
     NewWithAppRole (ce_Transport E) (cns_Address (cn_Spec connection))
       \<lparr>ra_MountPath = aas_MountPath auth,
        ra_RoleID = Some (secretValueSource E (om_Namespace connection) (aas_RoleIDSecretRef auth)
          ''role-id'' ''AppRole role ID''),
        ra_SecretID = Some (secretValueSource E (om_Namespace connection) (aas_SecretIDSecretRef auth)
          ''secret-id'' ''AppRole Secret ID'')\<rparr>
       timeout caBundle (cns_Namespace (cn_Spec connection))"

definition staticTokenClient ::
  "'s ClientEnv \<Rightarrow> OpenBaoConnection \<Rightarrow> SecretKeyReference \<Rightarrow> int \<Rightarrow> string
     \<Rightarrow> ('s, go_error + 's Client \<times> TokenState) state" where
  "staticTokenClient E connection ref timeout caBundle = do {
     r \<leftarrow> ce_GetSecret E (om_Namespace connection, skr_Name ref);
     ret (case r of
       Inl err \<Rightarrow> Inl (Wrapf (''read token Secret '' @ slashed (om_Namespace connection) (skr_Name ref)) err)
     | Inr secret \<Rightarrow>
         (let tokenKey = (if skr_Key ref = '''' then ''token'' else skr_Key ref);
              token = TrimSpace (secretData secret tokenKey)
          in if token = '''' then
               Inl (Errorf (''token Secret '' @ slashed (om_Namespace connection) (skr_Name ref)
                 @ '' has no non-empty '' @ fmt_q tokenKey @ '' key''))
             else NewWithNamespace (ce_Transport E) (cns_Address (cn_Spec connection)) token timeout caBundle
               (cns_Namespace (cn_Spec connection))))
   }"

definition noAuthConfigured :: go_error where
  "noAuthConfigured = Errorf ''OpenBaoConnection must configure tokenSecretRef, kubernetesAuth, or appRole''"

definition connectionClientFor ::
  "'s ClientEnv \<Rightarrow> OpenBaoConnection \<Rightarrow> ('s, go_error + 's Client \<times> TokenState) state" where
  "connectionClientFor E connection = do {
     let timeout = connectionRequestTimeout connection;
     ca \<leftarrow> connectionCABundle E connection;
     (case ca of
        Inl err \<Rightarrow> ret (Inl err)
      | Inr caBundle \<Rightarrow> (case cns_KubernetesAuth (cn_Spec connection) of
          Some auth \<Rightarrow> ret (kubernetesClient E connection auth timeout caBundle)
        | None \<Rightarrow> (case cns_AppRole (cn_Spec connection) of
            Some auth \<Rightarrow> ret (appRoleClient E connection auth timeout caBundle)
          | None \<Rightarrow> (case cns_TokenSecretRef (cn_Spec connection) of
              None \<Rightarrow> ret (Inl noAuthConfigured)
            | Some ref \<Rightarrow> staticTokenClient E connection ref timeout caBundle))))
   }"

section \<open>The cache\<close>

text \<open>The digest of the CA bundle is the field's 32 bytes, here in hexadecimal.\<close>

record authClientKey =
  ak_connection :: NamespacedName
  ak_authMethod :: string
  ak_address :: string
  ak_namespace :: string
  ak_mountPath :: string
  ak_role :: string
  ak_roleIDSecret :: string
  ak_secretIDSecret :: string
  ak_timeout :: int
  ak_caDigest :: string

record cachedConnectionClient =
  cc_key :: authClientKey
  cc_client :: nat

record 's ClientStore =
  cs_objects :: "('s Client \<times> TokenState) list"
  cs_clients :: "NamespacedName \<rightharpoonup> cachedConnectionClient"

definition NewConnectionClientCache :: "'s ClientStore" where
  "NewConnectionClientCache = \<lparr>cs_objects = [], cs_clients = Map.empty\<rparr>"

definition allocate :: "'s Client \<times> TokenState \<Rightarrow> ('s ClientStore \<times> 's, nat) state" where
  "allocate object = do {
     st \<leftarrow> currentState;
     setState (st\<lparr>cs_objects := cs_objects st @ [object]\<rparr>);
     ret (length (cs_objects st))
   }"

definition onClient ::
  "nat \<Rightarrow> ('s Client \<Rightarrow> (TokenState \<times> 's, 'a) state) \<Rightarrow> ('s ClientStore \<times> 's, 'a) state" where
  "onClient i m = State (\<lambda>(st, s). case cs_objects st ! i of (c, t) \<Rightarrow>
     (case run_state (m c) (t, s) of (a, (t', s')) \<Rightarrow>
       (a, (st\<lparr>cs_objects := (cs_objects st)[i := (c, t')]\<rparr>, s'))))"

definition secretKeyText :: "SecretKeyReference \<Rightarrow> string" where
  "secretKeyText ref = skr_Name ref @ ''#'' @ skr_Key ref"

definition baseKey :: "OpenBaoConnection \<Rightarrow> string \<Rightarrow> authClientKey" where
  "baseKey connection caBundle =
     \<lparr>ak_connection = (om_Namespace connection, om_Name connection), ak_authMethod = '''',
      ak_address = cns_Address (cn_Spec connection), ak_namespace = cns_Namespace (cn_Spec connection),
      ak_mountPath = '''', ak_role = '''', ak_roleIDSecret = '''', ak_secretIDSecret = '''',
      ak_timeout = connectionRequestTimeout connection, ak_caDigest = sha256_hex caBundle\<rparr>"

definition kubernetesKey :: "OpenBaoConnection \<Rightarrow> KubernetesAuthSpec \<Rightarrow> string \<Rightarrow> authClientKey" where
  "kubernetesKey connection auth caBundle = (baseKey connection caBundle)
     \<lparr>ak_authMethod := ''kubernetes'', ak_mountPath := kas_MountPath auth, ak_role := kas_Role auth\<rparr>"

definition appRoleKey :: "OpenBaoConnection \<Rightarrow> AppRoleAuthSpec \<Rightarrow> string \<Rightarrow> authClientKey" where
  "appRoleKey connection auth caBundle = (baseKey connection caBundle)
     \<lparr>ak_authMethod := ''approle'', ak_mountPath := aas_MountPath auth,
      ak_roleIDSecret := secretKeyText (aas_RoleIDSecretRef auth),
      ak_secretIDSecret := secretKeyText (aas_SecretIDSecretRef auth)\<rparr>"

text \<open>The part of \<^verbatim>\<open>ClientFor\<close> under the mutex.\<close>

definition createClient ::
  "authClientKey \<Rightarrow> (go_error + 's Client \<times> TokenState) \<Rightarrow> ('s ClientStore \<times> 's, go_error + nat) state" where
  "createClient key built = (case built of
      Inl err \<Rightarrow> ret (Inl err)
    | Inr apiClient \<Rightarrow> do {
        i \<leftarrow> allocate apiClient;
        st \<leftarrow> currentState;
        setState (st\<lparr>cs_clients := (cs_clients st)(ak_connection key \<mapsto> \<lparr>cc_key = key, cc_client = i\<rparr>)\<rparr>);
        ret (Inr i)
      })"

definition lookupOrCreate ::
  "authClientKey \<Rightarrow> (go_error + 's Client \<times> TokenState) \<Rightarrow> ('s ClientStore \<times> 's, go_error + nat) state" where
  "lookupOrCreate key built = do {
     st \<leftarrow> currentState;
     (case cs_clients st (ak_connection key) of
        Some cached \<Rightarrow>
          if cc_key cached = key then ret (Inr (cc_client cached)) else createClient key built
      | None \<Rightarrow> createClient key built)
   }"

definition ClientFor ::
  "'s ClientEnv \<Rightarrow> OpenBaoConnection \<Rightarrow> ('s ClientStore \<times> 's, go_error + nat) state" where
  "ClientFor E connection =
     (if cns_KubernetesAuth (cn_Spec connection) = None \<and> cns_AppRole (cn_Spec connection) = None then do {
        r \<leftarrow> onOutside (connectionClientFor E connection);
        (case r of
           Inl err \<Rightarrow> ret (Inl err)
         | Inr apiClient \<Rightarrow> do { i \<leftarrow> allocate apiClient; ret (Inr i) })
      }
      else do {
        ca \<leftarrow> onOutside (connectionCABundle E connection);
        (case ca of
           Inl err \<Rightarrow> ret (Inl err)
         | Inr caBundle \<Rightarrow> (case cns_KubernetesAuth (cn_Spec connection) of
             Some auth \<Rightarrow> (let key = kubernetesKey connection auth caBundle
               in lookupOrCreate key (kubernetesClient E connection auth (ak_timeout key) caBundle))
           | None \<Rightarrow> (case cns_AppRole (cn_Spec connection) of
               Some auth \<Rightarrow> (let key = appRoleKey connection auth caBundle
                 in lookupOrCreate key (appRoleClient E connection auth (ak_timeout key) caBundle))
             | None \<Rightarrow> ret (Inl noAuthConfigured))))
      })"

end
