(* ===== verification/Endpoints.thy ===== *)
theory Endpoints
  imports HttpClient
begin

text \<open>
  The endpoints of \<^verbatim>\<open>internal/openbaoclient\<close> (\<^verbatim>\<open>system.go\<close>,
  \<^verbatim>\<open>entities.go\<close>, \<^verbatim>\<open>policies.go\<close>,
  \<^verbatim>\<open>aliases.go\<close>, \<^verbatim>\<open>groups.go\<close>): which request each
  method makes and how it reads the response.  The methods of one client are gathered in the
  records the controllers take (\<open>entityClient c\<close>, \<open>policyClient c\<close>, ...), so a controller
  can be run over the HTTP client.  A request type is encoded by the names of its JSON tags.
\<close>

section \<open>Shared\<close>

definition errOnly :: "go_error + 'a \<Rightarrow> go_error option" where
  "errOnly r = (case r of Inl err \<Rightarrow> Some err | Inr _ \<Rightarrow> None)"

text \<open>\<^verbatim>\<open>apiResponse[T]\<close>: the value is in the field \<^verbatim>\<open>data\<close>.\<close>

definition apiResponse :: "'a \<Rightarrow> 'a decoder \<Rightarrow> 'a target" where
  "apiResponse zero d = Target zero (decStruct ''apiResponse'' (\<lambda>fs x. field fs ''data'' d x))"

definition decID :: "string decoder" where
  "decID = decStruct ''struct { ID string }'' (\<lambda>fs x. field fs ''id'' decString x)"

definition nilTarget :: "unit target" where "nilTarget = NilTarget ()"

section \<open>system.go\<close>

definition zeroHealth :: Health where
  "zeroHealth = \<lparr>h_Version = '''', h_Initialized = False, h_Sealed = False, h_Standby = False\<rparr>"

definition decHealth :: "Health decoder" where
  "decHealth = decStruct ''Health'' (\<lambda>fs x.
     andThen (field fs ''version'' decString (h_Version x)) (\<lambda>v.
     andThen (field fs ''initialized'' decBool (h_Initialized x)) (\<lambda>i.
     andThen (field fs ''sealed'' decBool (h_Sealed x)) (\<lambda>se.
     andThen (field fs ''standby'' decBool (h_Standby x)) (\<lambda>st.
     Inr \<lparr>h_Version = v, h_Initialized = i, h_Sealed = se, h_Standby = st\<rparr>)))))"

definition Client_CheckHealth :: "'s Client \<Rightarrow> (TokenState \<times> 's, go_error + Health option) state" where
  "Client_CheckHealth c = do {
     r \<leftarrow> doPath c ''GET'' ''sys/health'' None (Target zeroHealth decHealth) [429, 472, 473, 501, 503];
     ret (map_sum id Some r)
   }"

definition Client_LookupSelf :: "'s Client \<Rightarrow> (TokenState \<times> 's, go_error option) state" where
  "Client_LookupSelf c = do {
     r \<leftarrow> doPath c ''GET'' ''auth/token/lookup-self'' None nilTarget [];
     ret (errOnly r)
   }"

definition connectionClient :: "'s Client \<Rightarrow> (TokenState \<times> 's) ConnectionClient" where
  "connectionClient c = \<lparr>CheckHealth = Client_CheckHealth c, LookupSelf = Client_LookupSelf c\<rparr>"

section \<open>entities.go\<close>

definition entityPathSegment :: string where "entityPathSegment = ''entity''"

definition zeroEntity :: Entity where
  "zeroEntity = \<lparr>e_ID = '''', e_Name = '''', e_Metadata = None, e_Policies = None, e_Disabled = False\<rparr>"

definition decEntity :: "Entity decoder" where
  "decEntity = decStruct ''Entity'' (\<lambda>fs x.
     andThen (field fs ''id'' decString (e_ID x)) (\<lambda>i.
     andThen (field fs ''name'' decString (e_Name x)) (\<lambda>n.
     andThen (field fs ''metadata'' decStringMap (e_Metadata x)) (\<lambda>m.
     andThen (field fs ''policies'' decStrings (e_Policies x)) (\<lambda>p.
     andThen (field fs ''disabled'' decBool (e_Disabled x)) (\<lambda>d.
     Inr \<lparr>e_ID = i, e_Name = n, e_Metadata = m, e_Policies = p, e_Disabled = d\<rparr>))))))"

definition encEntityRequest :: "EntityRequest \<Rightarrow> Json" where
  "encEntityRequest r = JObj (omitempty ''name'' (er_Name r) @
     [(''metadata'', encStringMap (er_Metadata r)), (''policies'', encStrings (er_Policies r)),
      (''disabled'', JBool (er_Disabled r))])"

definition Client_CreateEntity ::
  "'s Client \<Rightarrow> EntityRequest \<Rightarrow> (TokenState \<times> 's, go_error + string) state" where
  "Client_CreateEntity c request =
     doPath c ''POST'' (identityPathSegment @ ''/'' @ entityPathSegment) (Some (encEntityRequest request))
       (apiResponse '''' decID) []"

definition Client_GetEntityByID ::
  "'s Client \<Rightarrow> string \<Rightarrow> (TokenState \<times> 's, go_error + Entity option) state" where
  "Client_GetEntityByID c i = do {
     r \<leftarrow> doSegments c ''GET'' [identityPathSegment, entityPathSegment, ''id'', i] None
            (apiResponse zeroEntity decEntity) [];
     ret (map_sum id (\<lambda>e. Some (e\<lparr>e_ID := firstNonEmpty (e_ID e) i\<rparr>)) r)
   }"

definition Client_GetEntityByName ::
  "'s Client \<Rightarrow> string \<Rightarrow> (TokenState \<times> 's, go_error + Entity option) state" where
  "Client_GetEntityByName c name = do {
     r \<leftarrow> doSegments c ''GET'' [identityPathSegment, entityPathSegment, ''name'', name] None
            (apiResponse zeroEntity decEntity) [];
     ret (map_sum id Some r)
   }"

definition Client_UpdateEntity ::
  "'s Client \<Rightarrow> string \<Rightarrow> EntityRequest \<Rightarrow> (TokenState \<times> 's, go_error + Entity option) state" where
  "Client_UpdateEntity c i request = do {
     r \<leftarrow> doSegments c ''POST'' [identityPathSegment, entityPathSegment, ''id'', i]
            (Some (encEntityRequest request)) (apiResponse zeroEntity decEntity) [];
     ret (map_sum id (\<lambda>e. Some (e\<lparr>e_ID := firstNonEmpty (e_ID e) i\<rparr>)) r)
   }"

definition Client_DeleteEntity :: "'s Client \<Rightarrow> string \<Rightarrow> (TokenState \<times> 's, go_error option) state" where
  "Client_DeleteEntity c i = do {
     r \<leftarrow> doSegments c ''DELETE'' [identityPathSegment, entityPathSegment, ''id'', i] None nilTarget [];
     ret (errOnly r)
   }"

definition entityClient :: "'s Client \<Rightarrow> (TokenState \<times> 's) EntityClient" where
  "entityClient c = \<lparr>GetEntityByID = Client_GetEntityByID c, GetEntityByName = Client_GetEntityByName c,
     CreateEntity = Client_CreateEntity c, UpdateEntity = Client_UpdateEntity c,
     DeleteEntity = Client_DeleteEntity c\<rparr>"

section \<open>policies.go\<close>

definition policyPath :: "string \<Rightarrow> string list" where
  "policyPath name = [''sys'', ''policies'', ''acl'', name]"

definition zeroPolicy :: Policy where
  "zeroPolicy = \<lparr>p_Name = '''', p_Rules = '''', p_Version = 0\<rparr>"

definition decPolicy :: "Policy decoder" where
  "decPolicy = decStruct ''Policy'' (\<lambda>fs x.
     andThen (field fs ''name'' decString (p_Name x)) (\<lambda>n.
     andThen (field fs ''policy'' decString (p_Rules x)) (\<lambda>r.
     andThen (field fs ''version'' decInt64 (p_Version x)) (\<lambda>v.
     Inr \<lparr>p_Name = n, p_Rules = r, p_Version = v\<rparr>))))"

definition encPolicyRequest :: "PolicyRequest \<Rightarrow> Json" where
  "encPolicyRequest r = JObj [(''policy'', JString (pr_Rules r))]"

definition Client_GetPolicy ::
  "'s Client \<Rightarrow> string \<Rightarrow> (TokenState \<times> 's, go_error + Policy option) state" where
  "Client_GetPolicy c name = do {
     r \<leftarrow> doSegments c ''GET'' (policyPath name) None (apiResponse zeroPolicy decPolicy) [];
     ret (map_sum id (\<lambda>p. Some (p\<lparr>p_Name := firstNonEmpty (p_Name p) name\<rparr>)) r)
   }"

definition Client_WritePolicy ::
  "'s Client \<Rightarrow> string \<Rightarrow> PolicyRequest \<Rightarrow> (TokenState \<times> 's, go_error option) state" where
  "Client_WritePolicy c name request = do {
     r \<leftarrow> doSegments c ''POST'' (policyPath name) (Some (encPolicyRequest request)) nilTarget [];
     ret (errOnly r)
   }"

definition Client_DeletePolicy :: "'s Client \<Rightarrow> string \<Rightarrow> (TokenState \<times> 's, go_error option) state" where
  "Client_DeletePolicy c name = do {
     r \<leftarrow> doSegments c ''DELETE'' (policyPath name) None nilTarget [];
     ret (errOnly r)
   }"

definition policyClient :: "'s Client \<Rightarrow> (TokenState \<times> 's) PolicyClient" where
  "policyClient c = \<lparr>GetPolicy = Client_GetPolicy c, WritePolicy = Client_WritePolicy c,
     DeletePolicy = Client_DeletePolicy c\<rparr>"

section \<open>aliases.go\<close>

definition entityAliasPathSegment :: string where "entityAliasPathSegment = ''entity-alias''"

definition zeroAlias :: EntityAlias where
  "zeroAlias = \<lparr>ea_ID = '''', ea_Name = '''', ea_MountAccessor = '''', ea_CanonicalID = '''', ea_EntityID = ''''\<rparr>"

definition decAlias :: "EntityAlias decoder" where
  "decAlias = decStruct ''EntityAlias'' (\<lambda>fs x.
     andThen (field fs ''id'' decString (ea_ID x)) (\<lambda>i.
     andThen (field fs ''name'' decString (ea_Name x)) (\<lambda>n.
     andThen (field fs ''mount_accessor'' decString (ea_MountAccessor x)) (\<lambda>m.
     andThen (field fs ''canonical_id'' decString (ea_CanonicalID x)) (\<lambda>ca.
     andThen (field fs ''entity_id'' decString (ea_EntityID x)) (\<lambda>en.
     Inr \<lparr>ea_ID = i, ea_Name = n, ea_MountAccessor = m, ea_CanonicalID = ca, ea_EntityID = en\<rparr>))))))"

definition encAliasRequest :: "EntityAliasRequest \<Rightarrow> Json" where
  "encAliasRequest r = JObj (omitempty ''name'' (ear_Name r) @
     omitempty ''mount_accessor'' (ear_MountAccessor r) @ omitempty ''canonical_id'' (ear_CanonicalID r))"

definition Client_CreateEntityAlias ::
  "'s Client \<Rightarrow> EntityAliasRequest \<Rightarrow> (TokenState \<times> 's, go_error + string) state" where
  "Client_CreateEntityAlias c request =
     doPath c ''POST'' (identityPathSegment @ ''/'' @ entityAliasPathSegment) (Some (encAliasRequest request))
       (apiResponse '''' decID) []"

text \<open>A nil list of keys and an empty one are the same to the caller, which ranges over it.\<close>

definition decKeys :: "string slice decoder" where
  "decKeys = decStruct ''struct { Keys []string }'' (\<lambda>fs x. field fs ''keys'' decStrings x)"

definition Client_ListEntityAliasIDs :: "'s Client \<Rightarrow> (TokenState \<times> 's, go_error + string list) state" where
  "Client_ListEntityAliasIDs c = do {
     r \<leftarrow> doSegmentsQuery c ''GET'' [identityPathSegment, entityAliasPathSegment, ''id''] listQuery None
            (apiResponse None decKeys) [];
     ret (map_sum id elems r)
   }"

definition completeAlias :: "string \<Rightarrow> EntityAlias \<Rightarrow> EntityAlias" where
  "completeAlias i a = a\<lparr>ea_ID := firstNonEmpty (ea_ID a) i,
     ea_CanonicalID := firstNonEmpty (ea_CanonicalID a) (ea_EntityID a)\<rparr>"

definition Client_GetEntityAliasByID ::
  "'s Client \<Rightarrow> string \<Rightarrow> (TokenState \<times> 's, go_error + EntityAlias option) state" where
  "Client_GetEntityAliasByID c i = do {
     r \<leftarrow> doSegments c ''GET'' [identityPathSegment, entityAliasPathSegment, ''id'', i] None
            (apiResponse zeroAlias decAlias) [];
     ret (map_sum id (\<lambda>a. Some (completeAlias i a)) r)
   }"

definition Client_UpdateEntityAlias ::
  "'s Client \<Rightarrow> string \<Rightarrow> EntityAliasRequest \<Rightarrow> (TokenState \<times> 's, go_error + EntityAlias option) state" where
  "Client_UpdateEntityAlias c i request = do {
     r \<leftarrow> doSegments c ''POST'' [identityPathSegment, entityAliasPathSegment, ''id'', i]
            (Some (encAliasRequest request)) (apiResponse zeroAlias decAlias) [];
     ret (map_sum id (\<lambda>a. Some (completeAlias i a)) r)
   }"

definition Client_DeleteEntityAlias :: "'s Client \<Rightarrow> string \<Rightarrow> (TokenState \<times> 's, go_error option) state" where
  "Client_DeleteEntityAlias c i = do {
     r \<leftarrow> doSegments c ''DELETE'' [identityPathSegment, entityAliasPathSegment, ''id'', i] None nilTarget [];
     ret (errOnly r)
   }"

definition aliasClient :: "'s Client \<Rightarrow> (TokenState \<times> 's) AliasClient" where
  "aliasClient c = \<lparr>ListEntityAliasIDs = Client_ListEntityAliasIDs c,
     GetEntityAliasByID = Client_GetEntityAliasByID c, CreateEntityAlias = Client_CreateEntityAlias c,
     UpdateEntityAlias = Client_UpdateEntityAlias c, DeleteEntityAlias = Client_DeleteEntityAlias c\<rparr>"

section \<open>groups.go\<close>

definition groupPathSegment :: string where "groupPathSegment = ''group''"

definition zeroGroup :: Group where
  "zeroGroup = \<lparr>g_ID = '''', g_Name = '''', g_Type = '''', g_Metadata = None, g_Policies = None,
     g_MemberEntityIDs = None, g_MemberGroupIDs = None\<rparr>"

definition decGroup :: "Group decoder" where
  "decGroup = decStruct ''Group'' (\<lambda>fs x.
     andThen (field fs ''id'' decString (g_ID x)) (\<lambda>i.
     andThen (field fs ''name'' decString (g_Name x)) (\<lambda>n.
     andThen (field fs ''type'' decString (g_Type x)) (\<lambda>ty.
     andThen (field fs ''metadata'' decStringMap (g_Metadata x)) (\<lambda>m.
     andThen (field fs ''policies'' decStrings (g_Policies x)) (\<lambda>p.
     andThen (field fs ''member_entity_ids'' decStrings (g_MemberEntityIDs x)) (\<lambda>me.
     andThen (field fs ''member_group_ids'' decStrings (g_MemberGroupIDs x)) (\<lambda>mg.
     Inr \<lparr>g_ID = i, g_Name = n, g_Type = ty, g_Metadata = m, g_Policies = p,
          g_MemberEntityIDs = me, g_MemberGroupIDs = mg\<rparr>))))))))"

definition encGroupRequest :: "GroupRequest \<Rightarrow> Json" where
  "encGroupRequest r = JObj (omitempty ''name'' (gq_Name r) @ omitempty ''type'' (gq_Type r) @
     [(''metadata'', encStringMap (gq_Metadata r)), (''policies'', encStrings (gq_Policies r)),
      (''member_entity_ids'', encStrings (gq_MemberEntityIDs r)),
      (''member_group_ids'', encStrings (gq_MemberGroupIDs r))])"

definition Client_CreateGroup ::
  "'s Client \<Rightarrow> GroupRequest \<Rightarrow> (TokenState \<times> 's, go_error + string) state" where
  "Client_CreateGroup c request =
     doPath c ''POST'' (identityPathSegment @ ''/'' @ groupPathSegment) (Some (encGroupRequest request))
       (apiResponse '''' decID) []"

definition Client_GetGroupByID ::
  "'s Client \<Rightarrow> string \<Rightarrow> (TokenState \<times> 's, go_error + Group option) state" where
  "Client_GetGroupByID c i = do {
     r \<leftarrow> doSegments c ''GET'' [identityPathSegment, groupPathSegment, ''id'', i] None
            (apiResponse zeroGroup decGroup) [];
     ret (map_sum id (\<lambda>g. Some (g\<lparr>g_ID := firstNonEmpty (g_ID g) i\<rparr>)) r)
   }"

definition Client_GetGroupByName ::
  "'s Client \<Rightarrow> string \<Rightarrow> (TokenState \<times> 's, go_error + Group option) state" where
  "Client_GetGroupByName c name = do {
     r \<leftarrow> doSegments c ''GET'' [identityPathSegment, groupPathSegment, ''name'', name] None
            (apiResponse zeroGroup decGroup) [];
     ret (map_sum id Some r)
   }"

definition Client_UpdateGroup ::
  "'s Client \<Rightarrow> string \<Rightarrow> GroupRequest \<Rightarrow> (TokenState \<times> 's, go_error + Group option) state" where
  "Client_UpdateGroup c i request = do {
     r \<leftarrow> doSegments c ''POST'' [identityPathSegment, groupPathSegment, ''id'', i]
            (Some (encGroupRequest request)) (apiResponse zeroGroup decGroup) [];
     ret (map_sum id (\<lambda>g. Some (g\<lparr>g_ID := firstNonEmpty (g_ID g) i\<rparr>)) r)
   }"

definition Client_DeleteGroup :: "'s Client \<Rightarrow> string \<Rightarrow> (TokenState \<times> 's, go_error option) state" where
  "Client_DeleteGroup c i = do {
     r \<leftarrow> doSegments c ''DELETE'' [identityPathSegment, groupPathSegment, ''id'', i] None nilTarget [];
     ret (errOnly r)
   }"

definition groupClient :: "'s Client \<Rightarrow> (TokenState \<times> 's) GroupClient" where
  "groupClient c = \<lparr>GetGroupByID = Client_GetGroupByID c, GetGroupByName = Client_GetGroupByName c,
     CreateGroup = Client_CreateGroup c, UpdateGroup = Client_UpdateGroup c,
     DeleteGroup = Client_DeleteGroup c\<rparr>"

end
