(* ===== verification/HttpProperties.thy ===== *)
theory HttpProperties
  imports Endpoints
begin

text \<open>
  What the HTTP client guarantees: which requests a call makes and with which token, how long a
  token is used, which addresses and namespaces are accepted, that a name cannot leave its
  endpoint, and that requests are read back as they were written.
\<close>

section \<open>Rules for the state of a client\<close>

lemma wp_onOutside [wp_simps]: "wp (onOutside m) Q (t, s) = wp m (\<lambda>a s'. Q a (t, s')) s"
  by (simp add: wp_def onOutside_def split: prod.splits)

lemma wp_currentState [wp_simps]: "wp currentState Q (t, s) = Q t (t, s)"
  by (simp add: wp_def currentState_def)

lemma wp_setState [wp_simps]: "wp (setState t') Q (t, s) = Q () (t', s)"
  by (simp add: wp_def setState_def)

section \<open>Clients whose exchanges are recorded\<close>

datatype HttpEvent = Exchanged HttpRequest "string + HttpResponse"

definition logTransport :: "'s Transport \<Rightarrow> ('s \<times> HttpEvent list) Transport" where
  "logTransport T =
     \<lparr>httpDo = (\<lambda>ca timeout request. logged (Exchanged request) (httpDo T ca timeout request)),
      newRequestError = newRequestError T, url_Parse = url_Parse T,
      validCertificates = validCertificates T, clockNow = silent (clockNow T)\<rparr>"

definition logClient :: "'s Client \<Rightarrow> ('s \<times> HttpEvent list) Client" where
  "logClient c =
     \<lparr>hc_baseURL = hc_baseURL c, hc_timeout = hc_timeout c, hc_caBundle = hc_caBundle c,
      hc_namespace = hc_namespace c,
      hc_kubernetesAuth = map_option (\<lambda>a. \<lparr>ka_MountPath = ka_MountPath a, ka_Role = ka_Role a,
        ka_JWTSource = map_option silent (ka_JWTSource a)\<rparr>) (hc_kubernetesAuth c),
      hc_appRoleAuth = map_option (\<lambda>a. \<lparr>ra_MountPath = ra_MountPath a,
        ra_RoleID = map_option silent (ra_RoleID a),
        ra_SecretID = map_option silent (ra_SecretID a)\<rparr>) (hc_appRoleAuth c),
      hc_transport = logTransport (hc_transport c)\<rparr>"

lemma logTransport_sel [simp]:
  "httpDo (logTransport T) ca timeout request = logged (Exchanged request) (httpDo T ca timeout request)"
  "newRequestError (logTransport T) = newRequestError T"
  "clockNow (logTransport T) = silent (clockNow T)"
  by (simp_all add: logTransport_def)

lemma logClient_sel [simp]:
  "hc_transport (logClient c) = logTransport (hc_transport c)"
  "hc_caBundle (logClient c) = hc_caBundle c" "hc_timeout (logClient c) = hc_timeout c"
  "hc_namespace (logClient c) = hc_namespace c" "hc_baseURL (logClient c) = hc_baseURL c"
  by (simp_all add: logClient_def)

lemma usesDynamicAuth_logClient [simp]: "usesDynamicAuth (logClient c) = usesDynamicAuth c"
  by (simp add: usesDynamicAuth_def logClient_def)

lemma makeRequest_logClient [simp]: "makeRequest (logClient c) = makeRequest c"
  by (intro ext) (simp add: makeRequest_def)

text \<open>One request makes at most one exchange, of the request its arguments describe.\<close>

lemma wp_requestI:
  assumes "\<And>err. Q (Inl (Wrapf ''create OpenBao API request'' (Errorf err))) (t, s, tr)"
    and "\<And>r s'. Q (case r of Inl err \<Rightarrow> Inl (Wrapf ''call OpenBao API'' (Errorf err))
              | Inr resp \<Rightarrow> readResponse resp target allowed)
            (t, s', tr @ [Exchanged (makeRequest c verb segments query body token) r])"
  shows "wp (doSegmentsQueryWithToken (logClient c) verb segments query body target token allowed) Q (t, s, tr)"
  unfolding doSegmentsQueryWithToken_def Let_def makeRequest_logClient logClient_sel logTransport_sel wp_simps
  using assms by (auto intro!: wp_loggedI split: option.splits)

section \<open>Logging in\<close>

text \<open>The requests that obtain a token carry none, those that renew it carry the one they renew.\<close>

definition isLogin :: "'s Client \<Rightarrow> HttpEvent \<Rightarrow> bool" where
  "isLogin c e \<longleftrightarrow> (case e of Exchanged rq r \<Rightarrow>
     (case hc_kubernetesAuth c of
        Some a \<Rightarrow> (\<exists>jwt. TrimSpace jwt \<noteq> '''' \<and> rq = makeRequest c ''POST''
          (''auth'' # SplitByte (CHR ''/'') (ka_MountPath a) @ [''login'']) []
          (Some (JObj [(''jwt'', JString jwt), (''role'', JString (ka_Role a))])) '''')
      | None \<Rightarrow> (case hc_appRoleAuth c of
          Some a \<Rightarrow> (\<exists>roleID secretID. TrimSpace roleID \<noteq> '''' \<and> TrimSpace secretID \<noteq> '''' \<and>
            rq = makeRequest c ''POST''
              (''auth'' # SplitByte (CHR ''/'') (ra_MountPath a) @ [''login'']) []
              (Some (JObj [(''role_id'', JString roleID), (''secret_id'', JString secretID)])) '''')
        | None \<Rightarrow> False)))"

definition isRenewal :: "'s Client \<Rightarrow> string \<Rightarrow> HttpEvent \<Rightarrow> bool" where
  "isRenewal c token e \<longleftrightarrow> (case e of Exchanged rq r \<Rightarrow>
     token \<noteq> '''' \<and> rq = makeRequest c ''POST'' [''auth'', ''token'', ''renew-self''] []
       (Some (JObj [(''increment'', JString '''')])) token)"

text \<open>The exchanges of one \<^verbatim>\<open>ensureToken\<close>: a renewal, a login, or one after the other.\<close>

fun authExchanges :: "'s Client \<Rightarrow> string \<Rightarrow> HttpEvent list \<Rightarrow> bool" where
  "authExchanges c token [] = True"
| "authExchanges c token [e] = (isRenewal c token e \<or> isLogin c e)"
| "authExchanges c token [e1, e2] = (isRenewal c token e1 \<and> isLogin c e2)"
| "authExchanges c token _ = False"

lemma authExchanges_login: "authExchanges c '''' es \<Longrightarrow> length es \<le> 1 \<and> list_all (isLogin c) es"
  by (cases "(c, '''' :: string, es)" rule: authExchanges.cases)
    (auto simp: isRenewal_def split: HttpEvent.splits)

lemma wp_credentialI:
  assumes "\<And>err s'. Q (Inl err) (t, s', tr)"
    and "\<And>v s'. TrimSpace v \<noteq> '''' \<Longrightarrow> Q (Inr v) (t, s', tr)"
  shows "wp (credential (map_option silent source) m e) Q (t, s, tr)"
  unfolding credential_def callSource_def wp_simps
  using assms by (auto simp: wp_simps intro!: wp_silentI split: option.splits sum.splits)

lemma wp_finishLoginI:
  assumes "\<And>err s'. Q (Inl err) (t, s', tr)"
    and "\<And>auth tok lease s'. r = Inr auth \<Longrightarrow> TrimSpace tok \<noteq> '''' \<Longrightarrow> Q (Inr (tok, lease)) (t, s', tr)"
  shows "wp (finishLogin (logClient c) m r) Q (t, s, tr)"
  unfolding finishLogin_def wp_simps logClient_sel logTransport_sel
  using assms by (auto intro!: wp_silentI split: sum.splits)

lemma isLogin_kubernetes:
  assumes "hc_kubernetesAuth c = Some a" "TrimSpace jwt \<noteq> ''''"
  shows "isLogin c (Exchanged (makeRequest c ''POST''
    (authPathSegment # SplitByte (CHR ''/'') (ka_MountPath a) @ [''login'']) []
    (Some (JObj [(''jwt'', JString jwt), (''role'', JString (ka_Role a))])) '''') r)"
  using assms by (auto simp: isLogin_def authPathSegment_def)

lemma isLogin_appRole:
  assumes "hc_kubernetesAuth c = None" "hc_appRoleAuth c = Some a"
    and "TrimSpace roleID \<noteq> ''''" "TrimSpace secretID \<noteq> ''''"
  shows "isLogin c (Exchanged (makeRequest c ''POST''
    (authPathSegment # SplitByte (CHR ''/'') (ra_MountPath a) @ [''login'']) []
    (Some (JObj [(''role_id'', JString roleID), (''secret_id'', JString secretID)])) '''') r)"
  using assms by (auto simp: isLogin_def authPathSegment_def)

lemma wp_loginI:
  assumes dyn: "usesDynamicAuth c"
    and none: "\<And>err s'. Q (Inl err) (t, s', tr)"
    and err: "\<And>err s' e. isLogin c e \<Longrightarrow> Q (Inl err) (t, s', tr @ [e])"
    and ok: "\<And>tok lease s' e. isLogin c e \<Longrightarrow> TrimSpace tok \<noteq> '''' \<Longrightarrow> Q (Inr (tok, lease)) (t, s', tr @ [e])"
  shows "wp (login (logClient c)) Q (t, s, tr)"
proof (cases "hc_kubernetesAuth c")
  case (Some a)
  then have a: "hc_kubernetesAuth (logClient c) = Some \<lparr>ka_MountPath = ka_MountPath a, ka_Role = ka_Role a,
      ka_JWTSource = map_option silent (ka_JWTSource a)\<rparr>" by (simp add: logClient_def)
  note login = isLogin_kubernetes [OF Some]
  show ?thesis
    unfolding login_def a option.case KubernetesAuthOptions.select_convs loginKubernetes_def wp_simps
    by (rule wp_credentialI; simp add: none wp_simps)
      (rule wp_requestI; rule wp_finishLoginI; auto intro: none err ok login)
next
  case None
  with dyn obtain a where some: "hc_appRoleAuth c = Some a" by (auto simp: usesDynamicAuth_def)
  from None have n: "hc_kubernetesAuth (logClient c) = None" by (simp add: logClient_def)
  from some have a: "hc_appRoleAuth (logClient c) = Some \<lparr>ra_MountPath = ra_MountPath a,
      ra_RoleID = map_option silent (ra_RoleID a), ra_SecretID = map_option silent (ra_SecretID a)\<rparr>"
    by (simp add: logClient_def)
  note login = isLogin_appRole [OF None some]
  show ?thesis
    unfolding login_def n a option.case AppRoleAuthOptions.select_convs loginAppRole_def wp_simps
    by (rule wp_credentialI; simp add: none wp_simps; rule wp_credentialI; simp add: none wp_simps)
      (rule wp_requestI; rule wp_finishLoginI; auto intro: none err ok login)
qed

lemma wp_tryRenewI:
  assumes "\<And>s'. Q None (t, s', tr)"
    and "\<And>s' e. isRenewal c (ts_token t) e \<Longrightarrow> Q None (t, s', tr @ [e])"
    and "\<And>lease s' e. isRenewal c (ts_token t) e \<Longrightarrow> Q (Some lease) (t, s', tr @ [e])"
  shows "wp (tryRenew (logClient c) t) Q (t, s, tr)"
proof (cases "ts_token t \<noteq> '''' \<and> tl_renewable (ts_lease t)")
  case True
  then have r: "isRenewal c (ts_token t) (Exchanged (makeRequest c ''POST''
      [authPathSegment, ''token'', ''renew-self''] [] (Some (JObj [(''increment'', JString '''')])) (ts_token t)) x)" for x
    by (simp add: isRenewal_def authPathSegment_def)
  show ?thesis
    using True unfolding tryRenew_def renewToken_def wp_simps logClient_sel logTransport_sel
    by (simp add: wp_simps)
      (rule wp_requestI; auto simp: wp_simps intro!: wp_silentI assms r split: sum.splits)
qed (use assms(1) in \<open>auto simp: tryRenew_def wp_simps\<close>)

lemma wp_ensureTokenI:
  assumes static: "\<not> usesDynamicAuth c \<Longrightarrow> Q None (t, s, tr)"
    and ok: "\<And>t' s' es. usesDynamicAuth c \<Longrightarrow> authExchanges c (ts_token t) es \<Longrightarrow> ts_token t' \<noteq> ''''
      \<Longrightarrow> Q None (t', s', tr @ es)"
    and err: "\<And>e s' es. usesDynamicAuth c \<Longrightarrow> authExchanges c (ts_token t) es \<Longrightarrow> Q (Some e) (t, s', tr @ es)"
  shows "wp (ensureToken (logClient c)) Q (t, s, tr)"
proof (cases "usesDynamicAuth c")
  case True
  note ok = ok [OF True] and err = err [OF True]
  have blank: "tok \<noteq> ''''" if "TrimSpace tok \<noteq> ''''" for tok :: string
    using that by (auto simp: TrimSpace_def TrimRightFunc_def TrimLeftFunc_def)
  let ?store = "\<lambda>r (s :: TokenState \<times> _). case r of Inl e \<Rightarrow> Q (Some e) s
        | Inr (clientToken, lease) \<Rightarrow> wp (setState \<lparr>ts_token = clientToken, ts_lease = lease\<rparr>) (\<lambda>_. Q None) s"
  have fresh: "wp (login (logClient c)) ?store (t, s', tr @ es)" if "es = [] \<or> (\<exists>e. es = [e] \<and> isRenewal c (ts_token t) e)" for s' es
    by (rule wp_loginI [OF True]; simp add: wp_simps)
      (use that err [of es] err [of "es @ [e]" for e] ok [of "es @ [e]" for e] blank in \<open>auto\<close>)
  have kept: "Q None (t\<lparr>ts_lease := lease\<rparr>, s', tr @ [e])" if "isRenewal c (ts_token t) e" for lease s' e
    using that by (intro ok) (auto simp: isRenewal_def split: HttpEvent.splits)
  have rest: "wp (tryRenew (logClient c) t) (\<lambda>renewed s. case renewed of
          None \<Rightarrow> wp (login (logClient c)) ?store s
        | Some lease \<Rightarrow> wp (setState (t\<lparr>ts_lease := lease\<rparr>)) (\<lambda>_. Q None) s) (t, s', tr)" for s'
    by (rule wp_tryRenewI) (use fresh [of "[]"] fresh [of "[e]" for e] kept in \<open>auto simp: wp_simps\<close>)
  show ?thesis
    unfolding ensureToken_def usesDynamicAuth_logClient tokenIsFresh_def wp_simps logClient_sel logTransport_sel
    using True ok [of "[]"] rest by (auto intro!: wp_silentI)
qed (use static in \<open>simp add: ensureToken_def wp_ret\<close>)

section \<open>The exchanges of one call\<close>

text \<open>What comes back as an authentication error was one: a 401 or a 403.\<close>

definition rejectedToken :: "string + HttpResponse \<Rightarrow> bool" where
  "rejectedToken r \<longleftrightarrow> (case r of Inl e \<Rightarrow> False
     | Inr resp \<Rightarrow> rs_Status resp = StatusUnauthorized \<or> rs_Status resp = StatusForbidden)"

lemma IsUnauthorized_Errorf [simp]: "\<not> IsUnauthorized (Errorf m)"
  by (simp add: IsUnauthorized_def)

lemma unauthorized_result:
  assumes "(case r of Inl e \<Rightarrow> Inl (Wrapf ''call OpenBao API'' (Errorf e))
       | Inr resp \<Rightarrow> readResponse resp target allowed) = Inl err"
    and "IsUnauthorized err"
  shows "rejectedToken r"
  using assms
  by (auto simp: readResponse_def rejectedToken_def IsUnauthorized_def Let_def
      split: sum.splits if_splits target.splits)

definition mainExchange ::
  "'s Client \<Rightarrow> string \<Rightarrow> string list \<Rightarrow> (string \<times> string) list \<Rightarrow> Json option \<Rightarrow> string
     \<Rightarrow> HttpEvent \<Rightarrow> bool" where
  "mainExchange c verb segments query body token e \<longleftrightarrow>
     (case e of Exchanged rq r \<Rightarrow> rq = makeRequest c verb segments query body token)"

text \<open>
  The exchanges of a call: those that make the token current, the request itself, and, only for a
  client that logs in by itself and only after the request was answered by 401 or 403, a login and
  the request again, once.
\<close>

definition oneRequest ::
  "'s Client \<Rightarrow> string \<Rightarrow> string list \<Rightarrow> (string \<times> string) list \<Rightarrow> Json option \<Rightarrow> TokenState
     \<Rightarrow> HttpEvent list \<Rightarrow> bool" where
  "oneRequest c verb segments query body t es \<longleftrightarrow> es = [] \<or>
     (\<exists>token e. es = [e] \<and> mainExchange c verb segments query body token e \<and>
        (if usesDynamicAuth c then token \<noteq> '''' else token = ts_token t))"

definition attempts ::
  "'s Client \<Rightarrow> string \<Rightarrow> string list \<Rightarrow> (string \<times> string) list \<Rightarrow> Json option \<Rightarrow> TokenState
     \<Rightarrow> HttpEvent list \<Rightarrow> bool" where
  "attempts c verb segments query body t es \<longleftrightarrow>
     (\<exists>auth main retry. es = auth @ main @ retry \<and>
        (if usesDynamicAuth c then authExchanges c (ts_token t) auth else auth = []) \<and>
        oneRequest c verb segments query body t main \<and>
        (retry \<noteq> [] \<longrightarrow> usesDynamicAuth c \<and> (\<exists>rq r. main = [Exchanged rq r] \<and> rejectedToken r) \<and>
           (\<exists>auth2 main2. retry = auth2 @ main2 \<and> authExchanges c '''' auth2 \<and>
              oneRequest c verb segments query body t main2)))"

lemma attemptsI:
  assumes "if usesDynamicAuth c then authExchanges c (ts_token t) auth else auth = []"
    and "oneRequest c verb segments query body t main"
  shows "attempts c verb segments query body t (auth @ main)"
  unfolding attempts_def using assms by (intro exI [of _ auth] exI [of _ main] exI [of _ "[]"]) simp

lemma attempts_retryI:
  assumes "authExchanges c (ts_token t) auth" "usesDynamicAuth c"
    and "oneRequest c verb segments query body t [Exchanged rq r]" "rejectedToken r"
    and "authExchanges c '''' auth2" "oneRequest c verb segments query body t main2"
  shows "attempts c verb segments query body t (auth @ Exchanged rq r # auth2 @ main2)"
  unfolding attempts_def using assms
  by (intro exI [of _ auth] exI [of _ "[Exchanged rq r]"] exI [of _ "auth2 @ main2"]) auto

lemma oneRequest_Nil [simp]: "oneRequest c verb segments query body t []"
  by (simp add: oneRequest_def)

lemma oneRequest_one:
  assumes "if usesDynamicAuth c then token \<noteq> '''' else token = ts_token t"
  shows "oneRequest c verb segments query body t [Exchanged (makeRequest c verb segments query body token) r]"
  unfolding oneRequest_def using assms by (auto simp: mainExchange_def)

lemma wp_retry:
  assumes "usesDynamicAuth c" "authExchanges c (ts_token t) auth"
    and "oneRequest c verb segments query body t [Exchanged rq r]" "rejectedToken r"
  shows "wp (ensureToken (logClient c)) (\<lambda>e. wp (case e of
         Some err \<Rightarrow> ret (Inl err)
       | None \<Rightarrow> do {
           token \<leftarrow> currentToken;
           doSegmentsQueryWithToken (logClient c) verb segments query body target token allowed
         }) (\<lambda>_ (_, _, tr). attempts c verb segments query body t tr))
       (\<lparr>ts_token = '''', ts_lease = zeroLease\<rparr>, s, auth @ [Exchanged rq r])"
proof (rule wp_ensureTokenI; simp add: wp_simps currentToken_def)
  fix t' :: TokenState and s' es
  assume tok: "ts_token t' \<noteq> ''''" and es: "authExchanges c '''' es"
  note again = attempts_retryI [OF assms(2,1,3,4) es]
  show "wp (doSegmentsQueryWithToken (logClient c) verb segments query body target (ts_token t') allowed)
     (\<lambda>_ (_, _, tr). attempts c verb segments query body t tr) (t', s', auth @ Exchanged rq r # es)"
    using again [of "[]"] again [OF oneRequest_one [of c "ts_token t'"]] tok assms(1)
    by (intro wp_requestI) simp_all
next
  fix es assume es: "authExchanges c '''' es"
  show "attempts c verb segments query body t (auth @ Exchanged rq r # es)"
    using attempts_retryI [OF assms(2,1,3,4) es, of "[]"] by simp
qed (use assms(1) in simp)

text \<open>What \<^verbatim>\<open>doSegmentsQuery\<close> does with the answer to its first request.\<close>

definition afterAnswer ::
  "'s Client \<Rightarrow> string \<Rightarrow> string list \<Rightarrow> (string \<times> string) list \<Rightarrow> Json option \<Rightarrow> 'a target \<Rightarrow> int list
     \<Rightarrow> go_error + 'a \<Rightarrow> (TokenState \<times> 's, go_error + 'a) state" where
  "afterAnswer c verb segments query body target allowed r = (case r of
      Inr v \<Rightarrow> ret (Inr v)
    | Inl err \<Rightarrow> if \<not> IsUnauthorized err \<or> \<not> usesDynamicAuth c then ret (Inl err)
        else do {
          invalidateToken;
          e \<leftarrow> ensureToken c;
          (case e of
             Some err \<Rightarrow> ret (Inl err)
           | None \<Rightarrow> do {
               token \<leftarrow> currentToken;
               doSegmentsQueryWithToken c verb segments query body target token allowed
             })
        })"

lemma wp_afterAnswer:
  assumes auth: "if usesDynamicAuth c then authExchanges c (ts_token t) auth else auth = []"
    and one: "oneRequest c verb segments query body t [Exchanged rq r]"
    and res: "res = (case r of Inl e \<Rightarrow> Inl (Wrapf ''call OpenBao API'' (Errorf e))
       | Inr resp \<Rightarrow> readResponse resp target allowed)"
  shows "wp (afterAnswer (logClient c) verb segments query body target allowed res)
     (\<lambda>_ (_, _, tr). attempts c verb segments query body t tr) (t', s, auth @ [Exchanged rq r])"
proof (cases "\<exists>err. res = Inl err \<and> IsUnauthorized err \<and> usesDynamicAuth c")
  case True
  then obtain err where r: "res = Inl err" "IsUnauthorized err" "usesDynamicAuth c" by blast
  with unauthorized_result [OF res [symmetric, unfolded r(1)] r(2)] have "rejectedToken r" by simp
  then show ?thesis
    using wp_retry [OF r(3) _ one, of auth target allowed s] auth r
    by (simp add: afterAnswer_def invalidateToken_def wp_bind wp_setState)
next
  case False
  then show ?thesis
    using attemptsI [OF auth one] by (auto simp: afterAnswer_def wp_simps split: sum.splits)
qed

lemma wp_doSegmentsQuery:
  "wp (doSegmentsQuery (logClient c) verb segments query body target allowed)
     (\<lambda>_ (_, _, tr). attempts c verb segments query body t tr) (t, s, [])"
proof -
  have main: "wp (doSegmentsQueryWithToken (logClient c) verb segments query body target token allowed)
      (\<lambda>r. wp (afterAnswer (logClient c) verb segments query body target allowed r)
        (\<lambda>_ (_, _, tr). attempts c verb segments query body t tr)) (t', s', auth)"
    if auth: "if usesDynamicAuth c then authExchanges c (ts_token t) auth else auth = []"
      and tok: "if usesDynamicAuth c then token \<noteq> '''' else token = ts_token t" for token t' s' auth
    using wp_afterAnswer [OF auth oneRequest_one [OF tok] refl] attemptsI [OF auth oneRequest_Nil]
    by (intro wp_requestI) (simp_all add: afterAnswer_def wp_ret)
  have early: "attempts c verb segments query body t es"
    if "usesDynamicAuth c" "authExchanges c (ts_token t) es" for es
    using attemptsI [of c t es, OF _ oneRequest_Nil] that by simp
  show ?thesis
    unfolding doSegmentsQuery_def afterAnswer_def [symmetric] wp_bind
    by (rule wp_ensureTokenI; simp add: wp_simps currentToken_def)
      (use main early in \<open>auto\<close>)
qed

section \<open>Escaped paths\<close>

lemma upperHex_inj: "a < 16 \<Longrightarrow> b < 16 \<Longrightarrow> upperHex a = upperHex b \<Longrightarrow> a = b"
  by (auto simp: upperHex_def take_bit_eq_mod split: if_splits dest!: arg_cong [where f = "of_char :: char \<Rightarrow> nat"])

lemma escapeByte_percent: "unescapedInPath c \<Longrightarrow> c \<noteq> CHR ''%''"
  by (auto simp: unescapedInPath_def)

lemma escapeByte_cases:
  obtains "unescapedInPath c" "escapeByte c = [c]"
  | "escapeByte c = [CHR ''%'', upperHex (of_char c div 16), upperHex (of_char c mod 16)]" "\<not> unescapedInPath c"
  by (cases "unescapedInPath c") (auto simp: escapeByte_def Let_def)

lemma hexPair_inj:
  assumes "upperHex (of_char c div 16) = upperHex (of_char d div 16)"
    and "upperHex (of_char c mod 16) = upperHex (of_char d mod 16)"
  shows "c = d"
proof -
  have lt: "(of_char c :: nat) < 256" for c :: char by (rule nat_of_char_less_256)
  have "(of_char c :: nat) div 16 = of_char d div 16"
    using assms(1) lt [of c] lt [of d] by (intro upperHex_inj) (simp_all add: div_less_iff_less_mult)
  moreover have "(of_char c :: nat) mod 16 = of_char d mod 16"
    using assms(2) by (intro upperHex_inj) simp_all
  ultimately have "(of_char c :: nat) = of_char d" by (metis div_mult_mod_eq)
  then show ?thesis by (metis char_of_char)
qed

lemma PathEscape_Cons: "PathEscape (c # s) = escapeByte c @ PathEscape s"
  by (simp add: PathEscape_def)

lemma PathEscape_Nil [simp]: "PathEscape [] = []"
  by (simp add: PathEscape_def)

lemma escapeByte_ne [simp]: "escapeByte c \<noteq> []"
  by (cases c rule: escapeByte_cases) auto

lemma escapeByte_append_inject:
  assumes "escapeByte c @ x = escapeByte d @ y"
  shows "c = d \<and> x = y"
proof (cases c rule: escapeByte_cases)
  case 1
  then show ?thesis
    using assms escapeByte_percent [of c] by (cases d rule: escapeByte_cases) simp_all
next
  case 2
  then show ?thesis
    using assms escapeByte_percent [of d] hexPair_inj [of c d] by (cases d rule: escapeByte_cases) auto
qed

lemma PathEscape_inject: "PathEscape s = PathEscape s' \<Longrightarrow> s = s'"
proof (induction s arbitrary: s')
  case Nil
  then show ?case by (cases s') (auto simp: PathEscape_Cons)
next
  case (Cons c s)
  then obtain d r where s': "s' = d # r" by (cases s') (auto simp: PathEscape_Cons)
  with Cons.prems have eq: "escapeByte c @ PathEscape s = escapeByte d @ PathEscape r"
    by (simp add: PathEscape_Cons)
  have "c = d \<and> PathEscape s = PathEscape r"
    using escapeByte_append_inject [OF eq] .
  with Cons.IH s' show ?case by simp
qed

lemma slash_notin_PathEscape: "CHR ''/'' \<notin> set (PathEscape s)"
proof -
  have hex: "upperHex n \<noteq> CHR ''/''" if "n < 16" for n
    using that by (auto simp: upperHex_def take_bit_eq_mod dest!: arg_cong [where f = "of_char :: char \<Rightarrow> nat"])
  have "CHR ''/'' \<notin> set (escapeByte c)" for c
  proof (cases c rule: escapeByte_cases)
    case 1
    then show ?thesis by (auto simp: unescapedInPath_def)
  next
    case 2
    have "(of_char c :: nat) div 16 < 16" by (simp add: div_less_iff_less_mult)
    then show ?thesis using hex [of "of_char c div 16"] hex [of "of_char c mod 16"] 2 by auto
  qed
  then show ?thesis by (auto simp: PathEscape_def)
qed

lemma SplitByte_append: "c \<notin> set w \<Longrightarrow> SplitByte c (w @ c # s) = w # SplitByte c s"
  by (induction w) auto

lemma SplitByte_segments:
  "SplitByte (CHR ''/'') (concat (map (\<lambda>segment. ''/'' @ PathEscape segment) segments)) = [] # map PathEscape segments"
proof (induction segments)
  case (Cons segment segments)
  have "SplitByte (CHR ''/'') (PathEscape segment @ concat (map (\<lambda>segment. ''/'' @ PathEscape segment) segments))
      = map PathEscape (segment # segments)"
    using Cons slash_notin_PathEscape [of segment]
    by (cases segments) (simp_all add: SplitByte_append SplitByte_notin)
  then show ?case by simp
qed simp

section \<open>Properties\<close>

definition callTrace ::
  "'s Client \<Rightarrow> string \<Rightarrow> string list \<Rightarrow> (string \<times> string) list \<Rightarrow> Json option \<Rightarrow> 'a target \<Rightarrow> int list
     \<Rightarrow> TokenState \<Rightarrow> 's \<Rightarrow> HttpEvent list" where
  "callTrace c verb segments query body target allowed t s =
     snd (snd (snd (run_state (doSegmentsQuery (logClient c) verb segments query body target allowed) (t, s, []))))"


lemma wrap64_le: "0 \<le> n \<Longrightarrow> wrap64 n \<le> n"
  unfolding wrap64_def
  by (simp add: sint_sbintrunc' signed_take_bit_int_less_eq_self_iff signed_take_bit_int_eq_self_iff)

lemma wrap64_ge: "minDuration \<le> wrap64 n"
  using sint_ge [of "word_of_int n :: 64 word"] by (simp add: wrap64_def minDuration_def)

lemma wrap64_upper_half:
  assumes "2 ^ 63 \<le> n" "n < 2 ^ 64"
  shows "wrap64 n = n - 2 ^ 64"
proof -
  have eq: "(word_of_int n :: 64 word) = word_of_int (n - 2 ^ 64)"
    by (simp add: word_of_int_eq_iff take_bit_eq_mod mod_diff_eq [of n _ "2 ^ 64", symmetric])
  have "wrap64 n = wrap64 (n - 2 ^ 64)"
    unfolding wrap64_def by (rule arg_cong [where f = sint, OF eq])
  also have "\<dots> = n - 2 ^ 64"
    using assms by (intro wrap64_id) (simp_all add: minDuration_def maxDuration_def)
  finally show ?thesis .
qed

lemma negative_lease_refreshed:
  assumes "tl_duration lease < 0" "minDuration \<le> tl_duration lease" "t0 \<le> now"
    and "tl_expiresAt lease = t0 + tl_duration lease" "tl_expiresAt lease \<noteq> 0"
  shows "tokenNeedsRefresh lease now"
proof -
  have "tl_duration lease \<le> go_div (tl_duration lease) 3" "go_div (tl_duration lease) 3 \<le> Minute"
    using assms(1) by (simp_all add: go_div_def Minute_def Second_def sgn_if)
  moreover have "time_Sub (t0 + tl_duration lease) now \<le> tl_duration lease"
    using assms(2,3) by (simp add: time_Sub_def)
  ultimately show ?thesis
    using assms by (simp add: tokenNeedsRefresh_def Let_def)
qed

text \<open>
  C17. A token whose lease has ended is never used: whatever lease duration (in seconds, an
  \<^verbatim>\<open>int64\<close>) the server granted at \<open>t0\<close>, the overflow of its conversion to nanoseconds
  included, a lease that asks for no refresh at \<open>now\<close> has not ended at \<open>now\<close>.  The clock is past
  \<open>2 ^ 63\<close> nanoseconds, that is, past the year 293.
\<close>

theorem lease_not_used_expired:
  assumes "0 < ta_LeaseDuration auth" "2 ^ 63 < t0" "t0 \<le> now"
    and "\<not> tokenNeedsRefresh (newTokenLease auth t0) now"
  shows "now < t0 + ta_LeaseDuration auth * Second"
proof -
  let ?d = "wrap64 (ta_LeaseDuration auth * Second)"
  have d: "?d \<le> ta_LeaseDuration auth * Second"
    using assms(1) by (intro wrap64_le) (simp add: Second_def)
  have nz: "t0 + ?d \<noteq> 0"
    using assms(2) wrap64_ge [of "ta_LeaseDuration auth * Second"] by (simp add: minDuration_def)
  have lease: "newTokenLease auth t0 = \<lparr>tl_expiresAt = t0 + ?d, tl_duration = ?d, tl_renewable = ta_Renewable auth\<rparr>"
    using assms(1) by (simp add: newTokenLease_def Let_def)
  have pos: "0 \<le> ?d"
    using negative_lease_refreshed [of "newTokenLease auth t0" t0 now] assms(3,4) nz wrap64_ge
    by (fastforce simp: lease)
  have "now < t0 + ?d"
  proof (cases "ta_Renewable auth")
    case False
    then show ?thesis using assms(4) nz by (simp add: lease tokenNeedsRefresh_def)
  next
    case True
    then have "min (go_div ?d 3) Minute < time_Sub (t0 + ?d) now"
      using assms(4) nz by (auto simp: lease tokenNeedsRefresh_def Let_def not_le min_less_iff_disj)
    moreover have "0 \<le> min (go_div ?d 3) Minute"
      using pos by (simp add: go_div_def Minute_def Second_def sgn_if)
    ultimately have "0 < time_Sub (t0 + ?d) now" by linarith
    then show ?thesis by (simp add: time_Sub_def minDuration_def split: if_splits)
  qed
  with d show ?thesis by linarith
qed

lemma wrap64_small: "0 \<le> n \<Longrightarrow> n < 2 ^ 63 \<Longrightarrow> wrap64 n = n"
  by (rule wrap64_id) (simp_all add: minDuration_def maxDuration_def)

theorem lease_not_used_expired_witness:
  "\<not> tokenNeedsRefresh (newTokenLease \<lparr>ta_ClientToken = ''t'', ta_LeaseDuration = 3600, ta_Renewable = True\<rparr>
      (2 ^ 65)) (2 ^ 65 + 600 * Second) \<and>
   2 ^ 65 + 600 * Second < 2 ^ 65 + 3600 * Second"
proof
  show n: "\<not> tokenNeedsRefresh (newTokenLease \<lparr>ta_ClientToken = ''t'', ta_LeaseDuration = 3600, ta_Renewable = True\<rparr>
      (2 ^ 65)) (2 ^ 65 + 600 * Second)"
    by (simp add: newTokenLease_def tokenNeedsRefresh_def Let_def Second_def Minute_def wrap64_small
        go_div_def time_Sub_def minDuration_def maxDuration_def)
  show "2 ^ 65 + 600 * Second < 2 ^ 65 + 3600 * Second"
    using lease_not_used_expired [OF _ _ _ n] by (simp add: Second_def)
qed

text \<open>
  The conversion to nanoseconds overflows from 9223372037 seconds on (about 292 years): such a
  lease, for instance of a token that practically never expires, is taken as over at once, so every
  call renews it or logs in again.
\<close>

theorem lease_overflow_relogin:
  assumes "9223372036 < ta_LeaseDuration auth" "ta_LeaseDuration auth \<le> 18446744073"
    and "2 ^ 63 < t0" "t0 \<le> now"
  shows "tokenNeedsRefresh (newTokenLease auth t0) now"
proof -
  let ?n = "ta_LeaseDuration auth * Second"
  have w: "wrap64 ?n = ?n - 2 ^ 64"
    using assms(1,2) by (intro wrap64_upper_half) (simp_all add: Second_def)
  have lease: "newTokenLease auth t0 =
      \<lparr>tl_expiresAt = t0 + wrap64 ?n, tl_duration = wrap64 ?n, tl_renewable = ta_Renewable auth\<rparr>"
    using assms(1) by (simp add: newTokenLease_def Let_def)
  have "wrap64 ?n < 0" using assms(2) unfolding w by (simp add: Second_def)
  moreover have "t0 + wrap64 ?n \<noteq> 0" using assms(3) wrap64_ge [of ?n] by (simp add: minDuration_def)
  ultimately show ?thesis
    using assms(4) wrap64_ge [of ?n] by (intro negative_lease_refreshed [of _ t0]) (simp_all add: lease)
qed

theorem lease_overflow_relogin_witness:
  "tokenNeedsRefresh (newTokenLease \<lparr>ta_ClientToken = ''t'', ta_LeaseDuration = 9223372037, ta_Renewable = True\<rparr>
      (2 ^ 65)) (2 ^ 65)"
  by (rule lease_overflow_relogin) simp_all

lemma requestPath_eq_iff:
  "requestPath baseURL segments = requestPath baseURL segments' \<longleftrightarrow> segments = segments'"
proof
  assume "requestPath baseURL segments = requestPath baseURL segments'"
  then have "[] # map PathEscape segments = [] # map PathEscape segments'"
    unfolding requestPath_def SplitByte_segments [symmetric] by simp
  then show "segments = segments'"
    by (simp add: inj_map_eq_map [OF injI, OF PathEscape_inject])
qed simp


lemma namespaceSegments_None:
  "namespaceSegments ss = None \<longleftrightarrow> list_all (\<lambda>w. w \<noteq> '''' \<and> w \<notin> set reservedSegments \<and> \<not> hasSpace w) ss"
  by (induction ss) auto

text \<open>
  The namespaces a client accepts: none, or segments separated by slashes that are non-empty, free
  of white space and not reserved by OpenBao.
\<close>

theorem validateNamespace_accepts:
  "validateNamespace namespace = None \<longleftrightarrow> namespace = '''' \<or>
     list_all (\<lambda>segment. segment \<noteq> '''' \<and> segment \<notin> set reservedSegments \<and> \<not> hasSpace segment)
       (SplitByte (CHR ''/'') namespace)"
proof -
  have "\<not> hasSpace namespace" if "\<forall>segment \<in> set (SplitByte (CHR ''/'') namespace). \<not> hasSpace segment"
  proof -
    have "\<not> IsSpace (CHR ''/'')" by (simp add: IsSpace_def)
    then show ?thesis
      using that SplitByte_set [of "CHR ''/''" _ namespace] unfolding hasSpace_iff by metis
  qed
  then show ?thesis
    using TrimSpace_no_space [of namespace]
    by (auto simp: validateNamespace_def namespaceSegments_None list_all_iff)
qed

text \<open>A transport that answers every request alike and parses every address to the same URL.\<close>

definition constTransport :: "URL \<Rightarrow> HttpResponse \<Rightarrow> 's Transport" where
  "constTransport u resp = \<lparr>httpDo = (\<lambda>ca timeout request. ret (Inr resp)), newRequestError = (\<lambda>_. None),
     url_Parse = (\<lambda>_. Inr u), validCertificates = (\<lambda>_. True), clockNow = ret (2 ^ 65)\<rparr>"

definition localURL :: URL where
  "localURL = \<lparr>u_Scheme = ''https'', u_Host = ''bao:8200'', u_Path = ''/base'', u_EscapedPath = ''/base'',
     u_RawQuery = '''', u_Fragment = ''''\<rparr>"

definition emptyResponse :: HttpResponse where
  "emptyResponse = \<lparr>rs_Status = 204, rs_Bytes = '''', rs_ReadError = None, rs_JSON = Inr JNull\<rparr>"

text \<open>
  C19. What every client the constructors return satisfies: it speaks http or https to a non-empty host
  without query, fragment or the API prefix in its address, its timeout is positive, its namespace is
  acceptable and its CA bundle, if any, holds a certificate.
\<close>

theorem newClient_accepts:
  assumes "newClient T baseURL timeout caBundle namespace = Inr c"
  shows "u_Scheme (hc_baseURL c) \<in> {''http'', ''https''} \<and> u_Host (hc_baseURL c) \<noteq> '''' \<and>
     u_RawQuery (hc_baseURL c) = '''' \<and> u_Fragment (hc_baseURL c) = '''' \<and>
     \<not> HasSuffix (u_Path (hc_baseURL c)) ''/v1'' \<and>
     hc_timeout c > 0 \<and> validateNamespace (hc_namespace c) = None \<and> hc_namespace c = namespace \<and>
     hc_caBundle c = caBundle \<and> (caBundle = '''' \<or> validCertificates T caBundle) \<and> \<not> usesDynamicAuth c"
  using assms by (auto simp: newClient_def usesDynamicAuth_def Second_def split: option.splits sum.splits if_splits)

theorem newClient_accepts_witness:
  "\<exists>c. newClient (constTransport localURL emptyResponse :: unit Transport) ''https://bao:8200/base/'' 0 ''pem'' ''team/a'' = Inr c \<and>
     0 < hc_timeout c \<and> validateNamespace (hc_namespace c) = None"
proof -
  obtain c where c: "newClient (constTransport localURL emptyResponse :: unit Transport)
      ''https://bao:8200/base/'' 0 ''pem'' ''team/a'' = Inr c"
    by (simp add: newClient_def validateNamespace_def TrimSpace_def TrimLeftFunc_def TrimRightFunc_def
        IsSpace_def hasSpace_def constTransport_def localURL_def HasSuffix_def HasPrefix_def
        reservedSegments_def auditPathSegment_def identityPathSegment_def)
  with newClient_accepts [OF c] show ?thesis by blast
qed

text \<open>
  A server that returns an entity as it was written is read back exactly: every field of the request,
  nil and empty metadata and policies told apart, survives the encoding.
\<close>

theorem entity_request_roundtrip:
  "decEntity (encEntityRequest r) zeroEntity = Inr \<lparr>e_ID = '''', e_Name = er_Name r, e_Metadata = er_Metadata r,
     e_Policies = er_Policies r, e_Disabled = er_Disabled r\<rparr>"
  by (simp add: decEntity_def encEntityRequest_def decStruct_def field_def fieldValues_def EqualFold_def
      ToLower_def lower_char_def omitempty_def zeroEntity_def)

text \<open>
  The same for groups, their type and both lists of members included.
\<close>

theorem group_request_roundtrip:
  "decGroup (encGroupRequest r) zeroGroup = Inr \<lparr>g_ID = '''', g_Name = gq_Name r, g_Type = gq_Type r,
     g_Metadata = gq_Metadata r, g_Policies = gq_Policies r, g_MemberEntityIDs = gq_MemberEntityIDs r,
     g_MemberGroupIDs = gq_MemberGroupIDs r\<rparr>"
  by (simp add: decGroup_def encGroupRequest_def decStruct_def field_def fieldValues_def EqualFold_def
      ToLower_def lower_char_def omitempty_def zeroGroup_def)

text \<open>The answer of a method, in any state of the client and whatever the server does.\<close>

definition answer :: "('s, 'a) state \<Rightarrow> 's \<Rightarrow> 'a" where
  "answer m s = fst (run_state m s)"

lemma answer_map: "answer (do { r \<leftarrow> m; ret (f r) }) s = f (answer m s)"
  by (simp add: answer_def split_beta)

text \<open>The value read, when there is one, and \<open>P\<close> holds of it; no nil pointer without an error.\<close>

definition readsBack :: "('a \<Rightarrow> bool) \<Rightarrow> go_error + 'a option \<Rightarrow> bool" where
  "readsBack P r = (case r of Inl e \<Rightarrow> True | Inr None \<Rightarrow> False | Inr (Some x) \<Rightarrow> P x)"

lemma readsBack_map: "(\<And>x. P (f x)) \<Longrightarrow> readsBack P (map_sum id (\<lambda>x. Some (f x)) r)"
  by (cases r) (simp_all add: readsBack_def)

lemma firstNonEmpty_idem: "firstNonEmpty (firstNonEmpty a b) b = firstNonEmpty a b"
  by (simp add: firstNonEmpty_def)


end
