(* ===== verification/CacheProperties.thy ===== *)
theory CacheProperties
  imports ClientCache HttpProperties
begin

text \<open>
  What the cache of clients guarantees: the client it returns is always one built for what the
  connection asks for now, token leases survive from one reconciliation to the next, connections do
  not share clients, and clients with a static token are built anew every time.
\<close>

section \<open>Rules for the steps\<close>

lemma wp_allocate: "wp (allocate ob) Q (st, s) = Q (length (cs_objects st)) (st\<lparr>cs_objects := cs_objects st @ [ob]\<rparr>, s)"
  by (simp add: allocate_def wp_simps)

definition stored :: "'s ClientStore \<Rightarrow> authClientKey \<Rightarrow> 's Client \<times> TokenState \<Rightarrow> 's ClientStore" where
  "stored st key ob = st\<lparr>cs_objects := cs_objects st @ [ob],
     cs_clients := (cs_clients st)(ak_connection key \<mapsto> \<lparr>cc_key = key, cc_client = length (cs_objects st)\<rparr>)\<rparr>"

lemma stored_sel [simp]:
  "cs_objects (stored st key ob) = cs_objects st @ [ob]"
  "cs_clients (stored st key ob) =
     (cs_clients st)(ak_connection key \<mapsto> \<lparr>cc_key = key, cc_client = length (cs_objects st)\<rparr>)"
  by (simp_all add: stored_def)

lemma wp_createClient:
  "wp (createClient key b) Q (st, s) = (case b of Inl err \<Rightarrow> Q (Inl err) (st, s)
     | Inr ob \<Rightarrow> Q (Inr (length (cs_objects st))) (stored st key ob, s))"
  by (cases b) (simp_all add: createClient_def wp_simps wp_allocate stored_def)

text \<open>The entry that answers a request for \<open>key\<close>, when there is one.\<close>

definition hit :: "'s ClientStore \<Rightarrow> authClientKey \<Rightarrow> nat option" where
  "hit st key = (case cs_clients st (ak_connection key) of
      Some cached \<Rightarrow> if cc_key cached = key then Some (cc_client cached) else None
    | None \<Rightarrow> None)"

lemma wp_lookupOrCreate:
  "wp (lookupOrCreate key b) Q (st, s) = (case hit st key of
      Some i \<Rightarrow> Q (Inr i) (st, s)
    | None \<Rightarrow> (case b of Inl err \<Rightarrow> Q (Inl err) (st, s)
        | Inr ob \<Rightarrow> Q (Inr (length (cs_objects st))) (stored st key ob, s)))"
  by (simp add: lookupOrCreate_def wp_simps wp_createClient hit_def split: option.splits)

section \<open>The key and the client of a connection\<close>

definition isDynamic :: "OpenBaoConnection \<Rightarrow> bool" where
  "isDynamic connection \<longleftrightarrow> cns_KubernetesAuth (cn_Spec connection) \<noteq> None \<or> cns_AppRole (cn_Spec connection) \<noteq> None"

definition dynamicKey :: "OpenBaoConnection \<Rightarrow> string \<Rightarrow> authClientKey" where
  "dynamicKey connection caBundle = (case cns_KubernetesAuth (cn_Spec connection) of
      Some auth \<Rightarrow> kubernetesKey connection auth caBundle
    | None \<Rightarrow> (case cns_AppRole (cn_Spec connection) of
        Some auth \<Rightarrow> appRoleKey connection auth caBundle
      | None \<Rightarrow> baseKey connection caBundle))"

definition dynamicClient ::
  "'s ClientEnv \<Rightarrow> OpenBaoConnection \<Rightarrow> string \<Rightarrow> go_error + 's Client \<times> TokenState" where
  "dynamicClient E connection caBundle = (case cns_KubernetesAuth (cn_Spec connection) of
      Some auth \<Rightarrow> kubernetesClient E connection auth (connectionRequestTimeout connection) caBundle
    | None \<Rightarrow> (case cns_AppRole (cn_Spec connection) of
        Some auth \<Rightarrow> appRoleClient E connection auth (connectionRequestTimeout connection) caBundle
      | None \<Rightarrow> Inl noAuthConfigured))"

lemma key_timeout [simp]:
  "ak_timeout (kubernetesKey connection auth ca) = connectionRequestTimeout connection"
  "ak_timeout (appRoleKey connection auth' ca) = connectionRequestTimeout connection"
  by (simp_all add: kubernetesKey_def appRoleKey_def baseKey_def)

lemma ClientFor_dynamic:
  assumes "isDynamic connection"
  shows "ClientFor E connection = do {
     ca \<leftarrow> onOutside (connectionCABundle E connection);
     (case ca of
        Inl err \<Rightarrow> ret (Inl err)
      | Inr caBundle \<Rightarrow> lookupOrCreate (dynamicKey connection caBundle) (dynamicClient E connection caBundle))
   }"
proof -
  have "(\<lambda>ca. case ca of Inl err \<Rightarrow> ret (Inl err)
       | Inr caBundle \<Rightarrow> (case cns_KubernetesAuth (cn_Spec connection) of
             Some auth \<Rightarrow> (let key = kubernetesKey connection auth caBundle
               in lookupOrCreate key (kubernetesClient E connection auth (ak_timeout key) caBundle))
           | None \<Rightarrow> (case cns_AppRole (cn_Spec connection) of
               Some auth \<Rightarrow> (let key = appRoleKey connection auth caBundle
                 in lookupOrCreate key (appRoleClient E connection auth (ak_timeout key) caBundle))
             | None \<Rightarrow> ret (Inl noAuthConfigured))))
     = (\<lambda>ca. case ca of Inl err \<Rightarrow> ret (Inl err)
        | Inr caBundle \<Rightarrow> lookupOrCreate (dynamicKey connection caBundle) (dynamicClient E connection caBundle))"
    using assms by (intro ext)
      (auto simp: isDynamic_def dynamicKey_def dynamicClient_def Let_def split: sum.splits option.splits)
  then show ?thesis using assms by (auto simp: ClientFor_def isDynamic_def)
qed

lemma ClientFor_static:
  assumes "\<not> isDynamic connection"
  shows "ClientFor E connection = do {
     r \<leftarrow> onOutside (connectionClientFor E connection);
     (case r of
        Inl err \<Rightarrow> ret (Inl err)
      | Inr apiClient \<Rightarrow> do { i \<leftarrow> allocate apiClient; ret (Inr i) })
   }"
  using assms by (simp add: ClientFor_def isDynamic_def)

text \<open>
  Names of Secrets are DNS names and hold no \<^verbatim>\<open>#\<close>, so a reference can be read off its
  text in the key.
\<close>

definition plainRefs :: "OpenBaoConnection \<Rightarrow> bool" where
  "plainRefs connection \<longleftrightarrow> (case cns_AppRole (cn_Spec connection) of None \<Rightarrow> True
     | Some a \<Rightarrow> CHR ''#'' \<notin> set (skr_Name (aas_RoleIDSecretRef a)) \<and>
                 CHR ''#'' \<notin> set (skr_Name (aas_SecretIDSecretRef a)))"

lemma secretKeyText_inject:
  assumes "CHR ''#'' \<notin> set (skr_Name ref)" "CHR ''#'' \<notin> set (skr_Name ref')"
    and "secretKeyText ref = secretKeyText ref'"
  shows "ref = ref'"
proof -
  have "SplitByte (CHR ''#'') (secretKeyText r) = skr_Name r # SplitByte (CHR ''#'') (skr_Key r)"
    if "CHR ''#'' \<notin> set (skr_Name r)" for r
    using that by (simp add: secretKeyText_def SplitByte_append)
  with assms have "skr_Name ref = skr_Name ref'" by (metis list.inject)
  with assms(3) show ?thesis by (simp add: secretKeyText_def)
qed

text \<open>
  The key determines the client: connections with equal keys are given the same client for equal CA
  bundles, and their bundles have the same digest.
\<close>

lemma dynamicKey_digest: "ak_caDigest (dynamicKey connection ca) = sha256_hex ca"
  by (simp add: dynamicKey_def kubernetesKey_def appRoleKey_def baseKey_def split: option.splits)

lemma dynamicKey_connection: "ak_connection (dynamicKey connection ca) = (om_Namespace connection, om_Name connection)"
  by (simp add: dynamicKey_def kubernetesKey_def appRoleKey_def baseKey_def split: option.splits)

lemma dynamicKey_method:
  "isDynamic connection \<Longrightarrow> ak_authMethod (dynamicKey connection ca) =
     (if cns_KubernetesAuth (cn_Spec connection) = None then ''approle'' else ''kubernetes'')"
  by (auto simp: isDynamic_def dynamicKey_def kubernetesKey_def appRoleKey_def baseKey_def split: option.splits)

lemma dynamicKey_covers:
  assumes key: "dynamicKey connection ca = dynamicKey connection' ca'"
    and dyn: "isDynamic connection" "isDynamic connection'"
    and plain: "plainRefs connection" "plainRefs connection'"
  shows "dynamicClient E connection x = dynamicClient E connection' x"
proof (cases "cns_KubernetesAuth (cn_Spec connection)")
  case (Some auth)
  with key dyn dynamicKey_method [of connection ca] dynamicKey_method [of connection' ca']
  obtain auth' where some': "cns_KubernetesAuth (cn_Spec connection') = Some auth'" by fastforce
  with Some key have "kas_MountPath auth = kas_MountPath auth' \<and> kas_Role auth = kas_Role auth' \<and>
      cns_Address (cn_Spec connection) = cns_Address (cn_Spec connection') \<and>
      cns_Namespace (cn_Spec connection) = cns_Namespace (cn_Spec connection') \<and>
      connectionRequestTimeout connection = connectionRequestTimeout connection'"
    by (simp add: dynamicKey_def kubernetesKey_def baseKey_def)
  with Some some' show ?thesis by (simp add: dynamicClient_def kubernetesClient_def)
next
  case None
  with key dyn dynamicKey_method [of connection ca] dynamicKey_method [of connection' ca']
  have none': "cns_KubernetesAuth (cn_Spec connection') = None" by (auto split: if_splits)
  with None dyn obtain auth auth' where some: "cns_AppRole (cn_Spec connection) = Some auth"
      "cns_AppRole (cn_Spec connection') = Some auth'" by (auto simp: isDynamic_def)
  with None none' key have eq: "aas_MountPath auth = aas_MountPath auth' \<and>
      secretKeyText (aas_RoleIDSecretRef auth) = secretKeyText (aas_RoleIDSecretRef auth') \<and>
      secretKeyText (aas_SecretIDSecretRef auth) = secretKeyText (aas_SecretIDSecretRef auth') \<and>
      om_Namespace connection = om_Namespace connection' \<and>
      cns_Address (cn_Spec connection) = cns_Address (cn_Spec connection') \<and>
      cns_Namespace (cn_Spec connection) = cns_Namespace (cn_Spec connection') \<and>
      connectionRequestTimeout connection = connectionRequestTimeout connection'"
    by (simp add: dynamicKey_def appRoleKey_def baseKey_def)
  with plain some have "aas_RoleIDSecretRef auth = aas_RoleIDSecretRef auth'"
      "aas_SecretIDSecretRef auth = aas_SecretIDSecretRef auth'"
    by (auto simp: plainRefs_def intro: secretKeyText_inject)
  with eq None none' some show ?thesis by (simp add: dynamicClient_def appRoleClient_def)
qed

section \<open>The stores a cache can reach\<close>

text \<open>
  A store changes by \<open>ClientFor\<close>, for any connection in any state of the outside, and by the methods
  of its clients, which change the token and lease of one of them.
\<close>

inductive reachableStore :: "'s ClientEnv \<Rightarrow> 's ClientStore \<Rightarrow> bool" for E where
  start: "reachableStore E NewConnectionClientCache"
| clientFor: "reachableStore E st \<Longrightarrow> plainRefs connection \<Longrightarrow>
    run_state (ClientFor E connection) (st, s) = (r, st', s') \<Longrightarrow> reachableStore E st'"
| token: "reachableStore E st \<Longrightarrow> cs_objects st ! i = (c, t) \<Longrightarrow>
    reachableStore E (st\<lparr>cs_objects := (cs_objects st)[i := (c, t')]\<rparr>)"

lemma reachable_onClient:
  assumes "reachableStore E st" "run_state (onClient i m) (st, s) = (a, st', s')"
  shows "reachableStore E st'"
proof -
  obtain c t where ct: "cs_objects st ! i = (c, t)" by (cases "cs_objects st ! i")
  obtain x t' s'' where "run_state (m c) (t, s) = (x, t', s'')" by (cases "run_state (m c) (t, s)") auto
  with assms(2) ct have "st' = st\<lparr>cs_objects := (cs_objects st)[i := (c, t')]\<rparr>" by (simp add: onClient_def)
  with reachableStore.token [OF assms(1) ct] show ?thesis by simp
qed

text \<open>A cached client was built for a connection with its key.\<close>

definition builtFor :: "'s ClientEnv \<Rightarrow> authClientKey \<Rightarrow> 's Client \<Rightarrow> bool" where
  "builtFor E key c \<longleftrightarrow> (\<exists>connection ca t. isDynamic connection \<and> plainRefs connection \<and>
     key = dynamicKey connection ca \<and> dynamicClient E connection ca = Inr (c, t))"

definition cacheOK :: "'s ClientEnv \<Rightarrow> 's ClientStore \<Rightarrow> bool" where
  "cacheOK E st \<longleftrightarrow>
     (\<forall>nn e. cs_clients st nn = Some e \<longrightarrow> ak_connection (cc_key e) = nn \<and>
        cc_client e < length (cs_objects st) \<and> builtFor E (cc_key e) (fst (cs_objects st ! cc_client e))) \<and>
     (\<forall>nn nn' e e'. cs_clients st nn = Some e \<longrightarrow> cs_clients st nn' = Some e' \<longrightarrow>
        cc_client e = cc_client e' \<longrightarrow> nn = nn')"

lemma cacheOKI:
  assumes "\<And>nn e. cs_clients st nn = Some e \<Longrightarrow> ak_connection (cc_key e) = nn \<and>
        cc_client e < length (cs_objects st) \<and> builtFor E (cc_key e) (fst (cs_objects st ! cc_client e))"
    and "\<And>nn nn' e e'. cs_clients st nn = Some e \<Longrightarrow> cs_clients st nn' = Some e' \<Longrightarrow>
        cc_client e = cc_client e' \<Longrightarrow> nn = nn'"
  shows "cacheOK E st"
  unfolding cacheOK_def using assms by blast

lemma cacheOK_entry:
  assumes "cacheOK E st" "cs_clients st nn = Some e"
  shows "ak_connection (cc_key e) = nn" "cc_client e < length (cs_objects st)"
    "builtFor E (cc_key e) (fst (cs_objects st ! cc_client e))"
  using assms unfolding cacheOK_def by blast+

lemma cacheOK_separate:
  assumes "cacheOK E st" "cs_clients st nn = Some e" "cs_clients st nn' = Some e'" "cc_client e = cc_client e'"
  shows "nn = nn'"
  using assms unfolding cacheOK_def by blast

lemma cacheOK_start: "cacheOK E NewConnectionClientCache"
  by (rule cacheOKI) (simp_all add: NewConnectionClientCache_def)

lemma cacheOK_append:
  assumes "cacheOK E st"
  shows "cacheOK E (st\<lparr>cs_objects := cs_objects st @ [ob]\<rparr>)"
  by (rule cacheOKI)
    (use cacheOK_entry [OF assms] cacheOK_separate [OF assms] in \<open>auto simp: nth_append less_SucI\<close>)

lemma cacheOK_stored:
  assumes ok: "cacheOK E st" and b: "builtFor E key (fst ob)"
  shows "cacheOK E (stored st key ob)"
proof (rule cacheOKI)
  fix nn e assume e: "cs_clients (stored st key ob) nn = Some e"
  show "ak_connection (cc_key e) = nn \<and> cc_client e < length (cs_objects (stored st key ob)) \<and>
      builtFor E (cc_key e) (fst (cs_objects (stored st key ob) ! cc_client e))"
    using e b cacheOK_entry [OF ok, of nn e] by (cases "nn = ak_connection key") (auto simp: nth_append less_SucI)
next
  fix nn nn' e e'
  assume "cs_clients (stored st key ob) nn = Some e" "cs_clients (stored st key ob) nn' = Some e'"
    "cc_client e = cc_client e'"
  then show "nn = nn'"
    using cacheOK_entry(2) [OF ok, of nn e] cacheOK_entry(2) [OF ok, of nn' e'] cacheOK_separate [OF ok, of nn e nn' e']
    by (cases "nn = ak_connection key"; cases "nn' = ak_connection key") auto
qed

lemma cacheOK_token:
  assumes ok: "cacheOK E st" and "cs_objects st ! i = (c, t)"
  shows "cacheOK E (st\<lparr>cs_objects := (cs_objects st)[i := (c, t')]\<rparr>)"
proof -
  have "fst ((cs_objects st)[i := (c, t')] ! j) = fst (cs_objects st ! j)" if "j < length (cs_objects st)" for j
    using assms(2) that by (cases "i = j") simp_all
  then show ?thesis
    by (intro cacheOKI) (use cacheOK_entry [OF ok] cacheOK_separate [OF ok] in auto)
qed

text \<open>What \<open>ClientFor\<close> does to the store, and which address it returns.\<close>

definition served :: "OpenBaoConnection \<Rightarrow> 's ClientStore \<Rightarrow> go_error + nat \<Rightarrow> 's ClientStore \<Rightarrow> bool" where
  "served connection st r st' \<longleftrightarrow>
     (let own = (om_Namespace connection, om_Name connection) in
      length (cs_objects st) \<le> length (cs_objects st') \<and>
      (\<forall>nn. nn = own \<or> cs_clients st' nn = cs_clients st nn) \<and>
      (case r of
         Inl err \<Rightarrow> st' = st
       | Inr i \<Rightarrow> i < length (cs_objects st') \<and>
           (i = length (cs_objects st) \<or> (\<exists>e. cs_clients st own = Some e \<and> cc_client e = i)) \<and>
           (if isDynamic connection then (\<exists>e. cs_clients st' own = Some e \<and> cc_client e = i)
            else i = length (cs_objects st) \<and> cs_clients st' = cs_clients st)))"

lemma wp_ClientFor:
  assumes ok: "cacheOK E st" and plain: "plainRefs connection"
  shows "wp (ClientFor E connection) (\<lambda>r (st', s'). cacheOK E st' \<and> served connection st r st') (st, s)"
proof (cases "isDynamic connection")
  case True
  have built: "builtFor E (dynamicKey connection ca) c" if "dynamicClient E connection ca = Inr (c, t)" for c t ca
    using that True plain by (auto simp: builtFor_def)
  show ?thesis
    unfolding ClientFor_dynamic [OF True] wp_simps wp_lookupOrCreate
    by (rule wp_all) (use ok built True in \<open>auto simp: hit_def dynamicKey_connection served_def Let_def
        intro: cacheOK_stored cacheOK_entry(2) [OF ok] split: sum.splits option.splits if_splits prod.splits\<close>)
next
  case False
  show ?thesis
    unfolding ClientFor_static [OF False] wp_simps wp_allocate
    by (rule wp_all) (use ok False cacheOK_append in \<open>auto simp: served_def Let_def split: sum.splits\<close>)
qed

lemma reachable_cacheOK: "reachableStore E st \<Longrightarrow> cacheOK E st"
proof (induction rule: reachableStore.induct)
  case (clientFor st connection s r st' s')
  then show ?case using wpD [OF wp_ClientFor [of E st connection s] clientFor.hyps(3)] by simp
qed (simp_all add: cacheOK_start cacheOK_token)

lemma ClientFor_served:
  assumes "reachableStore E st" "plainRefs connection" "run_state (ClientFor E connection) (st, s) = (r, st', s')"
  shows "cacheOK E st' \<and> served connection st r st'"
  using wpD [OF wp_ClientFor [OF reachable_cacheOK [OF assms(1)] assms(2)] assms(3)] by simp

section \<open>Properties\<close>

text \<open>The environment of the witnesses: every Secret reads as the given data.\<close>

definition constEnv :: "(string, string) fmap \<Rightarrow> 's ClientEnv" where
  "constEnv data = \<lparr>ce_GetSecret = (\<lambda>nn. ret (Inr \<lparr>om_Name = snd nn, om_Namespace = fst nn, om_Generation = 1,
       om_Finalizers = [], om_DeletionTimestamp = None, sec_Data = data\<rparr>)),
     ce_ReadTokenFile = ret (Inr ''jwt''), ce_Transport = constTransport localURL emptyResponse\<rparr>"

definition connectionNamed ::
  "string \<Rightarrow> KubernetesAuthSpec option \<Rightarrow> SecretKeyReference option \<Rightarrow> OpenBaoConnection" where
  "connectionNamed name auth ref =
     \<lparr>om_Name = name, om_Namespace = ''ns'', om_Generation = 1, om_Finalizers = [], om_DeletionTimestamp = None,
      cn_Spec = \<lparr>cns_Address = ''https://bao:8200'', cns_Namespace = '''', cns_TokenSecretRef = ref,
        cns_KubernetesAuth = auth, cns_AppRole = None, cns_CABundleSecretRef = None, cns_RequestTimeout = None\<rparr>,
      cn_Status = \<lparr>cnst_ObservedGeneration = 0, cnst_Version = '''', cnst_Initialized = False, cnst_Sealed = False,
        cnst_Standby = False, cnst_Authenticated = False, cnst_Conditions = []\<rparr>\<rparr>"

definition kubeConnection :: "string \<Rightarrow> OpenBaoConnection" where
  "kubeConnection name = connectionNamed name (Some \<lparr>kas_MountPath = '''', kas_Role = ''operator''\<rparr>) None"

definition unitEnv :: "unit ClientEnv" where
  "unitEnv = constEnv (fmap_of_list [(''token'', '' s.1 '')])"

lemmas connection_eval = kubeConnection_def unitEnv_def connectionNamed_def isDynamic_def plainRefs_def
  connectionCABundle_def constEnv_def
  dynamicKey_def dynamicClient_def kubernetesKey_def baseKey_def kubernetesClient_def
  NewWithKubernetesAuth_def connectionRequestTimeout_def newClient_def validateNamespace_def
  defaultKubernetesMount_def validateAuthMountPath_def badMountSegment_def constTransport_def localURL_def
  HasSuffix_def HasPrefix_def TrimSpace_def TrimLeftFunc_def TrimRightFunc_def TrimRightByte_def
  hasSpace_def IsSpace_def

lemma kubeConnection_simps [simp]:
  "isDynamic (kubeConnection name)" "plainRefs (kubeConnection name)"
  "run_state (connectionCABundle unitEnv (kubeConnection name)) s = (Inr '''', s)"
  by (simp_all add: connection_eval)

text \<open>The client these connections get.\<close>

definition operatorClient :: "unit Client" where
  "operatorClient = \<lparr>hc_baseURL = localURL, hc_timeout = 30 * Second, hc_caBundle = '''', hc_namespace = '''',
     hc_kubernetesAuth = Some \<lparr>ka_MountPath = ''kubernetes'', ka_Role = ''operator'',
       ka_JWTSource = Some (readServiceAccountToken (ret (Inr ''jwt'')))\<rparr>,
     hc_appRoleAuth = None, hc_transport = constTransport localURL emptyResponse\<rparr>"

lemma kubeConnection_client: "dynamicClient unitEnv (kubeConnection name) '''' = Inr (operatorClient, initialToken '''')"
  by (simp add: connection_eval operatorClient_def)

lemma kubeConnection_run:
  "run_state (ClientFor unitEnv (kubeConnection name)) (st, s) =
     (case hit st (dynamicKey (kubeConnection name) '''') of
        Some i \<Rightarrow> (Inr i, st, s)
      | None \<Rightarrow> (Inr (length (cs_objects st)),
          stored st (dynamicKey (kubeConnection name) '''') (operatorClient, initialToken ''''), s))"
proof -
  have "wp (lookupOrCreate (dynamicKey (kubeConnection name) '''') (dynamicClient unitEnv (kubeConnection name) ''''))
     (\<lambda>a b. (a, b) = run_state (lookupOrCreate (dynamicKey (kubeConnection name) '''')
        (dynamicClient unitEnv (kubeConnection name) '''')) (st, s)) (st, s)"
    by (simp add: wp_run)
  then show ?thesis
    unfolding wp_lookupOrCreate kubeConnection_client
    by (simp add: ClientFor_dynamic onOutside_def kubeConnection_client split: option.splits)
qed

text \<open>
  C21. The client of a connection with dynamic authentication is never stale: in every store that calls
  of \<open>ClientFor\<close> and of the clients' methods can lead to, the client \<open>ClientFor\<close> returns is the one the
  connection's present specification gives, with a CA bundle of the same digest as the one just read.
\<close>

theorem ClientFor_current:
  assumes reach: "reachableStore E st" and plain: "plainRefs connection" and dyn: "isDynamic connection"
    and ca: "run_state (connectionCABundle E connection) s = (Inr ca, s')"
    and run: "run_state (ClientFor E connection) (st, s) = (Inr i, st', s'')"
  shows "\<exists>ca' t. sha256_hex ca' = sha256_hex ca \<and>
     dynamicClient E connection ca' = Inr (fst (cs_objects st' ! i), t)"
proof -
  let ?key = "dynamicKey connection ca"
  have "run_state (lookupOrCreate ?key (dynamicClient E connection ca)) (st, s') = (Inr i, st', s'')"
    using run ca by (simp add: ClientFor_dynamic [OF dyn] onOutside_def)
  then have w: "wp (lookupOrCreate ?key (dynamicClient E connection ca))
      (\<lambda>r x. r = Inr i \<and> x = (st', s'')) (st, s')" by (simp add: wp_def)
  consider e where "cs_clients st (ak_connection ?key) = Some e" "cc_key e = ?key" "cc_client e = i" "st' = st"
    | ob where "dynamicClient E connection ca = Inr ob" "cs_objects st' ! i = ob"
  proof (cases "hit st ?key")
    case None
    with w obtain ob where "dynamicClient E connection ca = Inr ob"
        "i = length (cs_objects st)" "st' = stored st ?key ob"
      by (cases "dynamicClient E connection ca") (simp_all add: wp_lookupOrCreate)
    then show ?thesis using that(2) by simp
  next
    case (Some j)
    with w have "j = i" "st' = st" by (simp_all add: wp_lookupOrCreate)
    with Some show ?thesis using that(1) by (simp add: hit_def split: option.splits if_splits)
  qed
  then show ?thesis
  proof cases
    case 1
    with cacheOK_entry(3) [OF reachable_cacheOK [OF reach] 1(1)]
    obtain connection' ca' t where b: "isDynamic connection'" "plainRefs connection'"
        "?key = dynamicKey connection' ca'" "dynamicClient E connection' ca' = Inr (fst (cs_objects st' ! i), t)"
      by (auto simp: builtFor_def)
    have "sha256_hex ca' = sha256_hex ca"
      using b(3) dynamicKey_digest [of connection ca] dynamicKey_digest [of connection' ca'] by simp
    with dynamicKey_covers [OF b(3) dyn b(1) plain b(2), of E ca'] b(4) show ?thesis by auto
  next
    case 2
    then show ?thesis by (cases ob) auto
  qed
qed

theorem ClientFor_current_witness:
  "\<exists>ca' t. sha256_hex ca' = sha256_hex '''' \<and>
     dynamicClient unitEnv (kubeConnection ''main'') ca' = Inr (fst (cs_objects
       (stored NewConnectionClientCache (dynamicKey (kubeConnection ''main'') '''')
         (operatorClient, initialToken '''')) ! 0), t)"
  by (rule ClientFor_current [OF reachableStore.start, where s = "()" and s' = "()" and s'' = "()"])
    (simp_all add: kubeConnection_run hit_def NewConnectionClientCache_def)

text \<open>
  C22. Connections do not share clients: calls for connections that differ in namespace or name return
  different addresses, whatever their authentication, so the token of one is never used for another.
\<close>

theorem ClientFor_separates:
  assumes "reachableStore E st" "plainRefs connection1" "plainRefs connection2"
    and run1: "run_state (ClientFor E connection1) (st, s) = (Inr i, st1, s1)"
    and run2: "run_state (ClientFor E connection2) (st1, s2) = (Inr j, st2, s3)"
    and ne: "ObjectKey connection1 \<noteq> ObjectKey connection2"
  shows "i \<noteq> j"
proof
  assume ij: "i = j"
  have ok1: "cacheOK E st1" and s1: "served connection1 st (Inr i) st1"
    using ClientFor_served [OF assms(1,2) run1] by simp_all
  have r1: "reachableStore E st1" by (rule reachableStore.clientFor [OF assms(1,2) run1])
  have ok2: "cacheOK E st2" and s2: "served connection2 st1 (Inr j) st2"
    using ClientFor_served [OF r1 assms(3) run2] by simp_all
  let ?n1 = "(om_Namespace connection1, om_Name connection1)"
  let ?n2 = "(om_Namespace connection2, om_Name connection2)"
  have ne: "?n1 \<noteq> ?n2" using ne by (simp add: ObjectKey_def)
  have lt: "i < length (cs_objects st1)" using s1 by (simp add: served_def Let_def)
  with s2 ij obtain e2 where e2: "cs_clients st1 ?n2 = Some e2" "cc_client e2 = i"
    by (auto simp: served_def Let_def)
  show False
  proof (cases "isDynamic connection1")
    case True
    with s1 obtain e1 where "cs_clients st1 ?n1 = Some e1" "cc_client e1 = i"
      by (auto simp: served_def Let_def)
    with cacheOK_separate [OF ok1 _ e2(1)] e2(2) ne show False by blast
  next
    case False
    with s1 have "i = length (cs_objects st)" "cs_clients st ?n2 = Some e2"
      using e2(1) by (simp_all add: served_def Let_def)
    with cacheOK_entry(2) [OF reachable_cacheOK [OF assms(1)]] e2(2) show False by fastforce
  qed
qed

theorem ClientFor_separates_witness:
  "\<exists>i j st1 st2. run_state (ClientFor unitEnv (kubeConnection ''a'')) (NewConnectionClientCache, ()) = (Inr i, st1, ()) \<and>
     run_state (ClientFor unitEnv (kubeConnection ''b'')) (st1, ()) = (Inr j, st2, ()) \<and> i \<noteq> j"
proof -
  let ?st1 = "stored NewConnectionClientCache (dynamicKey (kubeConnection ''a'') '''')
      (operatorClient, initialToken '''')"
  have run1: "run_state (ClientFor unitEnv (kubeConnection ''a'')) (NewConnectionClientCache, ()) = (Inr 0, ?st1, ())"
    unfolding kubeConnection_run by (simp add: hit_def NewConnectionClientCache_def)
  have ne: "ObjectKey (kubeConnection ''a'') \<noteq> ObjectKey (kubeConnection ''b'')"
    by (simp add: kubeConnection_def connectionNamed_def ObjectKey_def)
  then have "hit ?st1 (dynamicKey (kubeConnection ''b'') '''') = None"
    by (auto simp: hit_def dynamicKey_connection ObjectKey_def NewConnectionClientCache_def)
  then obtain j st2 where run2: "run_state (ClientFor unitEnv (kubeConnection ''b'')) (?st1, ()) = (Inr j, st2, ())"
    unfolding kubeConnection_run by simp
  have "0 \<noteq> j"
    by (rule ClientFor_separates [OF reachableStore.start _ _ run1 run2 ne]) simp_all
  with run1 run2 show ?thesis by blast
qed

text \<open>
  Leases survive: once \<open>ClientFor\<close> has returned a client for a connection with dynamic
  authentication, it returns the same one, with whatever token it has obtained or renewed meanwhile,
  as long as the connection and the digest of its CA bundle are the same; nothing is built again.
\<close>

theorem ClientFor_keeps_lease:
  assumes dyn: "isDynamic connection"
    and run: "run_state (ClientFor E connection) (st, s) = (Inr i, st1, s1)"
    and ca: "run_state (connectionCABundle E connection) s = (Inr ca, s0)"
    and ca': "run_state (connectionCABundle E connection) s2 = (Inr ca', s3)"
    and digest: "sha256_hex ca' = sha256_hex ca"
    and later: "st2 = st1\<lparr>cs_objects := (cs_objects st1)[i := (c, t)]\<rparr>"
  shows "run_state (ClientFor E connection) (st2, s2) = (Inr i, st2, s3)"
proof -
  have key: "dynamicKey connection ca' = dynamicKey connection ca"
    using digest by (simp add: dynamicKey_def kubernetesKey_def appRoleKey_def baseKey_def split: option.splits)
  have "run_state (lookupOrCreate (dynamicKey connection ca) (dynamicClient E connection ca)) (st, s0) = (Inr i, st1, s1)"
    using run ca by (simp add: ClientFor_dynamic [OF dyn] onOutside_def)
  then have w: "wp (lookupOrCreate (dynamicKey connection ca) (dynamicClient E connection ca))
      (\<lambda>r x. r = Inr i \<and> x = (st1, s1)) (st, s0)" by (simp add: wp_def)
  have "hit st1 (dynamicKey connection ca) = Some i"
  proof (cases "hit st (dynamicKey connection ca)")
    case None
    with w show ?thesis
      by (cases "dynamicClient E connection ca") (auto simp: wp_lookupOrCreate hit_def)
  qed (use w in \<open>simp add: wp_lookupOrCreate\<close>)
  then have "hit st2 (dynamicKey connection ca') = Some i" by (simp add: later key hit_def)
  then have "wp (lookupOrCreate (dynamicKey connection ca') (dynamicClient E connection ca'))
      (\<lambda>r x. r = Inr i \<and> x = (st2, s3)) (st2, s3)" by (simp add: wp_lookupOrCreate)
  then show ?thesis using ca' by (auto simp: ClientFor_dynamic [OF dyn] onOutside_def wp_def split: prod.splits)
qed

theorem ClientFor_keeps_lease_witness:
  "run_state (ClientFor unitEnv (kubeConnection ''a''))
     (stored NewConnectionClientCache (dynamicKey (kubeConnection ''a'') '''')
        (operatorClient, initialToken ''renewed''), ()) =
   (Inr 0, stored NewConnectionClientCache (dynamicKey (kubeConnection ''a'') '''')
        (operatorClient, initialToken ''renewed''), ())"
  by (rule ClientFor_keeps_lease [where s = "()" and ?s0.0 = "()" and ?s1.0 = "()" and c = operatorClient
        and t = "initialToken ''renewed''" and st = NewConnectionClientCache
        and ?st1.0 = "stored NewConnectionClientCache (dynamicKey (kubeConnection ''a'') '''')
          (operatorClient, initialToken '''')" and ca = "''''" and ca' = "''''"])
    (simp_all add: kubeConnection_run hit_def NewConnectionClientCache_def stored_def)

text \<open>
  A connection with a static token is given a new client on every call, never entered into the
  cache, and the token of that client is the (trimmed) one its Secret held when it was read in this very
  call: a rotated Secret is used at once.
\<close>

theorem static_token_current:
  assumes static: "\<not> isDynamic connection" and ref: "cns_TokenSecretRef (cn_Spec connection) = Some ref"
    and ca: "run_state (connectionCABundle E connection) s = (Inr ca, s1)"
    and secret: "run_state (ce_GetSecret E (om_Namespace connection, skr_Name ref)) s1 = (Inr sec, s2)"
    and run: "run_state (ClientFor E connection) (st, s) = (Inr i, st', s')"
  shows "i = length (cs_objects st) \<and> cs_clients st' = cs_clients st \<and>
     snd (cs_objects st' ! i) =
       initialToken (TrimSpace (secretData sec (if skr_Key ref = '''' then ''token'' else skr_Key ref)))"
proof -
  let ?tok = "TrimSpace (secretData sec (if skr_Key ref = '''' then ''token'' else skr_Key ref))"
  obtain r s3 where r: "run_state (connectionClientFor E connection) s = (r, s3)" by (cases "run_state (connectionClientFor E connection) s")
  have "\<forall>ob. r = Inr ob \<longrightarrow> snd ob = initialToken ?tok"
    using static ref ca secret r
    by (auto simp: connectionClientFor_def isDynamic_def staticTokenClient_def Let_def NewWithNamespace_def
        split: if_splits sum.splits)
  with run r show ?thesis
    by (auto simp: ClientFor_static [OF static] onOutside_def allocate_def currentState_def setState_def split: sum.splits)
qed

theorem static_token_current_witness:
  "\<exists>i st'. run_state (ClientFor unitEnv (connectionNamed ''a'' None (Some \<lparr>skr_Name = ''tok'', skr_Key = ''''\<rparr>)))
       (NewConnectionClientCache, ()) = (Inr i, st', ()) \<and>
     snd (cs_objects st' ! i) = initialToken ''s.1''"
proof -
  let ?c = "connectionNamed ''a'' None (Some \<lparr>skr_Name = ''tok'', skr_Key = ''''\<rparr>)"
  let ?s = "\<lparr>om_Name = ''tok'', om_Namespace = ''ns'', om_Generation = 1, om_Finalizers = [],
      om_DeletionTimestamp = None, sec_Data = fmap_of_list [(''token'', '' s.1 '')]\<rparr> :: Secret"
  have st: "\<not> isDynamic ?c" and ref: "cns_TokenSecretRef (cn_Spec ?c) = Some \<lparr>skr_Name = ''tok'', skr_Key = ''''\<rparr>"
    and ca: "run_state (connectionCABundle unitEnv ?c) () = (Inr '''', ())"
    and sec: "run_state (ce_GetSecret unitEnv (om_Namespace ?c, ''tok'')) () = (Inr ?s, ())"
    by (simp_all add: connection_eval)
  obtain c where "run_state (connectionClientFor unitEnv ?c) () = (Inr c, ())"
    by (simp add: connectionClientFor_def staticTokenClient_def NewWithNamespace_def secretData_def connection_eval)
  then have "\<exists>st'. run_state (ClientFor unitEnv ?c) (NewConnectionClientCache, ()) = (Inr 0, st', ())"
    by (simp add: ClientFor_static [OF st] onOutside_def allocate_def currentState_def setState_def NewConnectionClientCache_def)
  then obtain st' where run: "run_state (ClientFor unitEnv ?c) (NewConnectionClientCache, ()) = (Inr 0, st', ())" ..
  from static_token_current [OF st ref ca _ run, of ?s "()"] sec
  have "snd (cs_objects st' ! 0) = initialToken ''s.1''"
    by (simp add: secretData_def TrimSpace_def TrimLeftFunc_def TrimRightFunc_def IsSpace_def)
  with run show ?thesis by blast
qed
end
