(* ===== verification/EntityStack.thy ===== *)
theory EntityStack
  imports EntityConvergence CacheProperties
begin

text \<open>
  The entity controller as \<^verbatim>\<open>cmd/main.go\<close> puts it together: over the connection cache, whose
  clients speak HTTP to an OpenBao server.  The state of this stack is the store of clients next to the
  outside state.

  What is outside is the server and the API server.  \<open>openbaoServes\<close> says what the server's documented
  HTTP interface answers to requests that carry a valid token: it is stated over paths, headers and JSON
  documents, and a response may hold more fields than the client reads.  The stack is then an instance of
  the servers of \<open>EntityConvergence\<close>, so a reconciliation through all of these layers reaches its goal.
\<close>

section \<open>The controller over the connection cache\<close>

text \<open>A client of the store, as the controller uses it.\<close>

definition entityClientAt :: "nat \<Rightarrow> ('s ClientStore \<times> 's) EntityClient" where
  "entityClientAt a = \<lparr>GetEntityByID = (\<lambda>i. onClient a (\<lambda>c. Client_GetEntityByID c i)),
     GetEntityByName = (\<lambda>n. onClient a (\<lambda>c. Client_GetEntityByName c n)),
     CreateEntity = (\<lambda>q. onClient a (\<lambda>c. Client_CreateEntity c q)),
     UpdateEntity = (\<lambda>i q. onClient a (\<lambda>c. Client_UpdateEntity c i q)),
     DeleteEntity = (\<lambda>i. onClient a (\<lambda>c. Client_DeleteEntity c i))\<rparr>"

definition cachedEntityClient ::
  "'s ClientEnv \<Rightarrow> OpenBaoConnection \<Rightarrow> ('s ClientStore \<times> 's, go_error + ('s ClientStore \<times> 's) EntityClient) state" where
  "cachedEntityClient E connection = do {
     r \<leftarrow> ClientFor E connection;
     ret (map_sum id entityClientAt r)
   }"

definition newEntityClient ::
  "'s ClientEnv \<Rightarrow> OpenBaoConnection \<Rightarrow> ('s ClientStore \<times> 's, go_error + ('s ClientStore \<times> 's) EntityClient) state" where
  "newEntityClient E connection = do {
     r \<leftarrow> onOutside (connectionClientFor E connection);
     (case r of
        Inl err \<Rightarrow> ret (Inl err)
      | Inr apiClient \<Rightarrow> do { i \<leftarrow> allocate apiClient; ret (Inr (entityClientAt i)) })
   }"

definition outsideKube :: "('s, 'o) KubeAPI \<Rightarrow> ('t \<times> 's, 'o) KubeAPI" where
  "outsideKube K = \<lparr>k_Get = (\<lambda>n. onOutside (k_Get K n)), k_Update = (\<lambda>ob. onOutside (k_Update K ob)),
     k_StatusUpdate = (\<lambda>ob. onOutside (k_StatusUpdate K ob)), k_List = (\<lambda>n. onOutside (k_List K n))\<rparr>"

text \<open>The reconciler that \<^verbatim>\<open>main\<close> registers: \<^verbatim>\<open>NewClient\<close> is nil, the cache is given.\<close>

definition registeredEntityReconciler ::
  "KubeLib \<Rightarrow> ('s, OpenBaoEntity) KubeAPI \<Rightarrow> ('s, OpenBaoConnection) KubeAPI \<Rightarrow> ('s, int) state
     \<Rightarrow> 's ClientEnv \<Rightarrow> ('s ClientStore \<times> 's) EntityReconciler" where
  "registeredEntityReconciler L entities connections now E =
     \<lparr>er_Lib = L, er_Entities = outsideKube entities, er_Connections = outsideKube connections,
      er_Now = onOutside now, er_NewClient = None, er_ClientCache = Some (cachedEntityClient E),
      er_connectionClientFor = newEntityClient E\<rparr>"

section \<open>The documented HTTP interface\<close>

text \<open>A document that holds an entity, among other fields.\<close>

definition holdsEntity :: "(string \<times> Json) list \<Rightarrow> Entity \<Rightarrow> bool" where
  "holdsEntity fs e \<longleftrightarrow>
     fieldValues fs ''id'' = [JString (e_ID e)] \<and> fieldValues fs ''name'' = [JString (e_Name e)] \<and>
     fieldValues fs ''metadata'' = [encStringMap (e_Metadata e)] \<and>
     fieldValues fs ''policies'' = [encStrings (e_Policies e)] \<and>
     fieldValues fs ''disabled'' = [JBool (e_Disabled e)]"

definition dataIs :: "HttpResponse \<Rightarrow> ((string \<times> Json) list \<Rightarrow> bool) \<Rightarrow> bool" where
  "dataIs r P \<longleftrightarrow> rs_Status r = 200 \<and>
     (\<exists>env fs. rs_JSON r = Inr (JObj env) \<and> fieldValues env ''data'' = [JObj fs] \<and> P fs)"

definition lookupAnswer :: "string \<Rightarrow> Entity option \<Rightarrow> HttpResponse \<Rightarrow> bool" where
  "lookupAnswer body en r \<longleftrightarrow> (case en of
      Some e \<Rightarrow> dataIs r (\<lambda>fs. holdsEntity fs e)
    | None \<Rightarrow> rs_Status r = 404 \<and> rs_Bytes r = body \<and> length body < maxErrorBodySize \<and> rs_ReadError r = None)"

text \<open>The document a request carries for an entity.\<close>

definition entityDocument :: "EntityRequest \<Rightarrow> Json" where
  "entityDocument q = JObj [(''name'', JString (er_Name q)), (''metadata'', encStringMap (er_Metadata q)),
     (''policies'', encStrings (er_Policies q)), (''disabled'', JBool (er_Disabled q))]"

text \<open>A server: its address, the namespace and the token of the caller, and the body of its 404 answers.\<close>

record Site =
  si_URL :: URL
  si_Namespace :: string
  si_Token :: string
  si_NotFoundBody :: string

definition callOf :: "Site \<Rightarrow> string \<Rightarrow> string list \<Rightarrow> Json option \<Rightarrow> HttpRequest \<Rightarrow> bool" where
  "callOf si verb segments body req \<longleftrightarrow>
     rq_Method req = verb \<and> rq_Scheme req = u_Scheme (si_URL si) \<and> rq_Host req = u_Host (si_URL si) \<and>
     rq_Path req = requestPath (si_URL si) segments \<and> rq_Query req = [] \<and> rq_Body req = body \<and>
     map_of (rq_Headers req) ''X-Vault-Token'' = Some (si_Token si) \<and>
     map_of (rq_Headers req) ''X-Vault-Namespace'' = (if si_Namespace si = '''' then None else Some (si_Namespace si))"

definition exchanges ::
  "'s Transport \<Rightarrow> ('s \<Rightarrow> EntityWorld) \<Rightarrow> HttpRequest \<Rightarrow> 's \<Rightarrow> (HttpResponse \<Rightarrow> bool) \<Rightarrow> EntityWorld \<Rightarrow> bool" where
  "exchanges T view req s reply w \<longleftrightarrow> newRequestError T req = None \<and>
     (\<forall>ca timeout. \<exists>r s'. run_state (httpDo T ca timeout req) s = (Inr r, s') \<and> reply r \<and> view s' = w)"

definition openbaoServes ::
  "Site \<Rightarrow> ('s \<Rightarrow> EntityWorld) \<Rightarrow> (Entity list \<Rightarrow> string) \<Rightarrow> 's Transport \<Rightarrow> bool" where
  "openbaoServes si view fresh T \<longleftrightarrow> (\<forall>es. fresh es \<noteq> '''' \<and> fresh es \<notin> e_ID ` set es) \<and> (\<forall>s req.
     let w = view s; es = ew_stored w; i0 = fresh es; lookup = lookupAnswer (si_NotFoundBody si) in
     (\<forall>i. callOf si ''GET'' [''identity'', ''entity'', ''id'', i] None req \<longrightarrow>
        exchanges T view req s (lookup (lookupID i es)) w) \<and>
     (\<forall>n. callOf si ''GET'' [''identity'', ''entity'', ''name'', n] None req \<longrightarrow>
        exchanges T view req s (lookup (lookupName n es)) w) \<and>
     (\<forall>q. callOf si ''POST'' [''identity'', ''entity''] (Some (entityDocument q)) req \<longrightarrow>
        er_Name q \<noteq> '''' \<longrightarrow> lookupName (er_Name q) es = None \<longrightarrow>
        exchanges T view req s (\<lambda>r. dataIs r (\<lambda>fs. fieldValues fs ''id'' = [JString i0]))
          (w\<lparr>ew_stored := es @ [storedAs i0 q]\<rparr>)) \<and>
     (\<forall>i q. callOf si ''POST'' [''identity'', ''entity'', ''id'', i] (Some (entityDocument q)) req \<longrightarrow>
        er_Name q \<noteq> '''' \<longrightarrow> lookupID i es \<noteq> None \<longrightarrow>
        exchanges T view req s (\<lambda>r. rs_Status r = 204) (w\<lparr>ew_stored := rewritten i q es\<rparr>)))"
section \<open>The client at such a server\<close>

definition siteClient :: "Site \<Rightarrow> 's Transport \<Rightarrow> 's Client \<Rightarrow> bool" where
  "siteClient si T c \<longleftrightarrow> \<not> usesDynamicAuth c \<and> hc_transport c = T \<and> hc_baseURL c = si_URL si \<and>
     hc_namespace c = si_Namespace si"

lemma callOf_makeRequest:
  "siteClient si T c \<Longrightarrow> callOf si verb segments body (makeRequest c verb segments [] body (si_Token si))"
  by (simp add: callOf_def siteClient_def makeRequest_def requestHeaders_def)

text \<open>A call makes one exchange and keeps the token.\<close>

lemma wp_siteCall:
  assumes "siteClient si T c" "exchanges T view (makeRequest c verb segments [] body (si_Token si)) s reply w"
    and "\<And>r s'. reply r \<Longrightarrow> view s' = w \<Longrightarrow> Q (readResponse r target allowed) (initialToken (si_Token si), s')"
  shows "wp (doSegments c verb segments body target allowed) Q (initialToken (si_Token si), s)"
proof -
  let ?rq = "makeRequest c verb segments [] body (si_Token si)"
  have new: "newRequestError T ?rq = None" using assms(2) by (simp add: exchanges_def)
  obtain r s' where "run_state (httpDo T (hc_caBundle c) (hc_timeout c) ?rq) s = (Inr r, s')" and r: "reply r" "view s' = w"
    using assms(2) unfolding exchanges_def by blast
  then have run: "wp (httpDo T (hc_caBundle c) (hc_timeout c) ?rq) P s = P (Inr r) s'" for P
    by (simp add: wp_run)
  have site: "\<not> usesDynamicAuth c" "hc_transport c = T" using assms(1) by (simp_all add: siteClient_def)
  show ?thesis
    using assms(3) [OF r] new site
    by (cases "readResponse r target allowed")
       (simp_all add: doSegments_def doSegmentsQuery_def ensureToken_def wp_simps currentToken_def initialToken_def
          doSegmentsQueryWithToken_def Let_def run)
qed

lemma dataIs_mono: "dataIs r P \<Longrightarrow> (\<And>fs. P fs \<Longrightarrow> P' fs) \<Longrightarrow> dataIs r P'"
  by (auto simp: dataIs_def)

lemma readResponse_data:
  assumes "dataIs r (\<lambda>fs. d fs zero = Inr v)"
  shows "readResponse r (apiResponse zero (decStruct n d)) [] = Inr v"
  using assms
  by (auto simp: dataIs_def readResponse_def isAllowedStatus_def apiResponse_def StatusNoContent_def decStruct_def field_def)

lemma decEntity_holds:
  "holdsEntity fs e \<Longrightarrow> decEntity (JObj fs) zeroEntity = Inr e"
  by (simp add: holdsEntity_def decEntity_def decStruct_def field_def zeroEntity_def)

lemma readResponse_lookup:
  assumes "lookupAnswer body en r"
  shows "readResponse r (apiResponse zeroEntity decEntity) [] =
    (case en of Some e \<Rightarrow> Inr e | None \<Rightarrow> Inl (HTTPError 404 (TrimSpace body)))"
  using assms decEntity_holds
  by (auto simp: lookupAnswer_def dataIs_def readResponse_def isAllowedStatus_def apiResponse_def StatusNoContent_def
      decStruct_def field_def readErrorBody_def split: option.splits)

lemma encEntityRequest_document: "er_Name q \<noteq> '''' \<Longrightarrow> encEntityRequest q = entityDocument q"
  by (simp add: encEntityRequest_def entityDocument_def omitempty_def)
section \<open>The endpoints at such a server\<close>

lemmas entitySegments = identityPathSegment_def entityPathSegment_def

definition absentError :: "Site \<Rightarrow> go_error" where
  "absentError si = HTTPError 404 (TrimSpace (si_NotFoundBody si))"

lemma openbaoServesD:
  assumes "openbaoServes si view fresh T" "siteClient si T c" "view s = w"
  shows "exchanges T view (makeRequest c ''GET'' [''identity'', ''entity'', ''id'', i] [] None (si_Token si)) s
      (lookupAnswer (si_NotFoundBody si) (lookupID i (ew_stored w))) w"
    "exchanges T view (makeRequest c ''GET'' [''identity'', ''entity'', ''name'', n] [] None (si_Token si)) s
      (lookupAnswer (si_NotFoundBody si) (lookupName n (ew_stored w))) w"
    "er_Name q \<noteq> '''' \<Longrightarrow> lookupName (er_Name q) (ew_stored w) = None \<Longrightarrow>
      exchanges T view (makeRequest c ''POST'' [''identity'', ''entity''] [] (Some (entityDocument q)) (si_Token si)) s
       (\<lambda>r. dataIs r (\<lambda>fs. fieldValues fs ''id'' = [JString (fresh (ew_stored w))]))
       (w\<lparr>ew_stored := ew_stored w @ [storedAs (fresh (ew_stored w)) q]\<rparr>)"
    "er_Name q \<noteq> '''' \<Longrightarrow> lookupID i (ew_stored w) \<noteq> None \<Longrightarrow>
      exchanges T view (makeRequest c ''POST'' [''identity'', ''entity'', ''id'', i] [] (Some (entityDocument q)) (si_Token si)) s
       (\<lambda>r. rs_Status r = 204) (w\<lparr>ew_stored := rewritten i q (ew_stored w)\<rparr>)"
  using assms(1) callOf_makeRequest [OF assms(2)] unfolding openbaoServes_def assms(3) [symmetric] Let_def by blast+

lemma named_already: "lookupID i es = Some e \<Longrightarrow> e\<lparr>e_ID := firstNonEmpty (e_ID e) i\<rparr> = e"
  using lookupID_Some by (fastforce simp: firstNonEmpty_def)

lemma wp_siteGetByID:
  assumes "openbaoServes si view fresh T" "siteClient si T c" "view s = w"
    and "\<And>s'. view s' = w \<Longrightarrow> Q (found (absentError si) (lookupID i (ew_stored w))) (initialToken (si_Token si), s')"
  shows "wp (Client_GetEntityByID c i) Q (initialToken (si_Token si), s)"
  unfolding Client_GetEntityByID_def entitySegments wp_simps
  by (rule wp_siteCall [OF assms(2) openbaoServesD(1) [OF assms(1-3)]])
     (use assms(4) in \<open>auto simp: readResponse_lookup found_def absentError_def named_already wp_simps
        split: option.splits\<close>)

lemma wp_siteGetByName:
  assumes "openbaoServes si view fresh T" "siteClient si T c" "view s = w"
    and "\<And>s'. view s' = w \<Longrightarrow> Q (found (absentError si) (lookupName n (ew_stored w))) (initialToken (si_Token si), s')"
  shows "wp (Client_GetEntityByName c n) Q (initialToken (si_Token si), s)"
  unfolding Client_GetEntityByName_def entitySegments wp_simps
  by (rule wp_siteCall [OF assms(2) openbaoServesD(2) [OF assms(1-3)]])
     (use assms(4) in \<open>auto simp: readResponse_lookup found_def absentError_def wp_simps split: option.splits\<close>)

lemma createSegments: "SplitByte (CHR ''/'') (TrimByte (CHR ''/'') ''identity/entity'') = [''identity'', ''entity'']"
  by (simp add: TrimByte_def TrimRightFunc_def TrimLeftFunc_def)

lemma wp_siteCreate:
  assumes "openbaoServes si view fresh T" "siteClient si T c" "view s = w"
    and "er_Name q \<noteq> ''''" "lookupName (er_Name q) (ew_stored w) = None"
    and "\<And>s'. view s' = w\<lparr>ew_stored := ew_stored w @ [storedAs (fresh (ew_stored w)) q]\<rparr> \<Longrightarrow>
      Q (Inr (fresh (ew_stored w))) (initialToken (si_Token si), s')"
  shows "wp (Client_CreateEntity c q) Q (initialToken (si_Token si), s)"
proof -
  have "readResponse r (apiResponse '''' decID) [] = Inr i" if "dataIs r (\<lambda>fs. fieldValues fs ''id'' = [JString i])" for r i
    unfolding decID_def by (rule readResponse_data) (rule dataIs_mono [OF that], simp add: field_def)
  then show ?thesis
    unfolding Client_CreateEntity_def entitySegments encEntityRequest_document [OF assms(4)] doPath_def
    using createSegments
    by (auto intro!: wp_siteCall [OF assms(2) openbaoServesD(3) [OF assms(1-5)]] assms(6))
qed

lemma wp_siteUpdate:
  assumes "openbaoServes si view fresh T" "siteClient si T c" "view s = w"
    and "er_Name q \<noteq> ''''" "lookupID i (ew_stored w) \<noteq> None"
    and "\<And>s'. view s' = w\<lparr>ew_stored := rewritten i q (ew_stored w)\<rparr> \<Longrightarrow>
      Q (Inr (Some (zeroEntity\<lparr>e_ID := i\<rparr>))) (initialToken (si_Token si), s')"
  shows "wp (Client_UpdateEntity c i q) Q (initialToken (si_Token si), s)"
  unfolding Client_UpdateEntity_def entitySegments encEntityRequest_document [OF assms(4)] wp_simps
  by (rule wp_siteCall [OF assms(2) openbaoServesD(4) [OF assms(1-5)]])
     (use assms(6) in \<open>auto simp: readResponse_def isAllowedStatus_def StatusNoContent_def apiResponse_def wp_simps
        firstNonEmpty_def zeroEntity_def\<close>)
section \<open>The stack\<close>

text \<open>
  A connection that holds a static token for the site: its Secrets read as they are, and its address,
  namespace and CA bundle make a client.
\<close>

definition siteConnection :: "Site \<Rightarrow> 's ClientEnv \<Rightarrow> ('s \<Rightarrow> EntityWorld) \<Rightarrow> OpenBaoConnection \<Rightarrow> bool" where
  "siteConnection si E view conn \<longleftrightarrow> \<not> isDynamic conn \<and> si_Token si \<noteq> '''' \<and>
     cns_Namespace (cn_Spec conn) = si_Namespace si \<and>
     (\<exists>ref ca c. cns_TokenSecretRef (cn_Spec conn) = Some ref \<and>
        (\<forall>s. \<exists>s'. run_state (connectionCABundle E conn) s = (Inr ca, s') \<and> view s' = view s) \<and>
        (\<forall>s. \<exists>secret s'. run_state (ce_GetSecret E (om_Namespace conn, skr_Name ref)) s = (Inr secret, s') \<and>
           view s' = view s \<and>
           TrimSpace (secretData secret (if skr_Key ref = '''' then ''token'' else skr_Key ref)) = si_Token si) \<and>
        newClient (ce_Transport E) (cns_Address (cn_Spec conn)) (connectionRequestTimeout conn) ca (si_Namespace si) = Inr c \<and>
        hc_baseURL c = si_URL si)"

definition siteClientAt :: "Site \<Rightarrow> 's Transport \<Rightarrow> nat \<Rightarrow> 's ClientStore \<Rightarrow> bool" where
  "siteClientAt si T a st \<longleftrightarrow> a < length (cs_objects st) \<and>
     (\<exists>c. siteClient si T c \<and> cs_objects st ! a = (c, initialToken (si_Token si)))"

definition stackServers ::
  "Site \<Rightarrow> 's ClientEnv \<Rightarrow> ('s \<Rightarrow> EntityWorld) \<Rightarrow> OpenBaoConnection \<Rightarrow> (Entity list \<Rightarrow> string)
     \<Rightarrow> ('s ClientStore \<times> 's) Servers" where
  "stackServers si E view conn fresh =
     \<lparr>sv_view = (\<lambda>(st, s). view s),
      sv_usable = (\<lambda>c (st, s). \<exists>a. c = entityClientAt a \<and> siteClientAt si (ce_Transport E) a st),
      sv_connection = conn, sv_fresh = fresh, sv_absent = absentError si\<rparr>"

lemma stackServers_sel [simp]:
  "sv_view (stackServers si E view conn fresh) (st, s) = view s"
  "sv_usable (stackServers si E view conn fresh) c (st, s) \<longleftrightarrow> (\<exists>a. c = entityClientAt a \<and> siteClientAt si (ce_Transport E) a st)"
  "sv_connection (stackServers si E view conn fresh) = conn" "sv_fresh (stackServers si E view conn fresh) = fresh"
  "sv_absent (stackServers si E view conn fresh) = absentError si"
  by (simp_all add: stackServers_def)

lemma entityClientAt_sel [simp]:
  "GetEntityByID (entityClientAt a) i = onClient a (\<lambda>c. Client_GetEntityByID c i)"
  "GetEntityByName (entityClientAt a) n = onClient a (\<lambda>c. Client_GetEntityByName c n)"
  "CreateEntity (entityClientAt a) q = onClient a (\<lambda>c. Client_CreateEntity c q)"
  "UpdateEntity (entityClientAt a) i q = onClient a (\<lambda>c. Client_UpdateEntity c i q)"
  by (simp_all add: entityClientAt_def)

lemma answersAs_onOutside:
  assumes "\<exists>s'. run_state m s = (v, s') \<and> view s' = w"
  shows "answersAs (stackServers si E view conn fresh) (onOutside m) (st, s) v w"
  using assms by (auto simp: answersAs_def onOutside_def)

lemma siteClientAt_append: "siteClientAt si T a st \<Longrightarrow> siteClientAt si T a (st\<lparr>cs_objects := cs_objects st @ [ob]\<rparr>)"
  by (auto simp: siteClientAt_def nth_append)

lemma siteClientAt_update:
  assumes "siteClientAt si T b st" "siteClient si T c"
  shows "siteClientAt si T b (st\<lparr>cs_objects := (cs_objects st)[a := (c, initialToken (si_Token si))]\<rparr>)"
  using assms by (cases "a = b") (auto simp: siteClientAt_def)

text \<open>A method of a client of the store that answers and keeps the token.\<close>

lemma answersAs_onClient:
  assumes a: "siteClientAt si (ce_Transport E) a st"
    and m: "\<And>c. siteClient si (ce_Transport E) c \<Longrightarrow>
      wp (m c) (\<lambda>r (t', s'). r = v \<and> t' = initialToken (si_Token si) \<and> view s' = w) (initialToken (si_Token si), s)"
  shows "answersAs (stackServers si E view conn fresh) (onClient a m) (st, s) v w"
proof -
  obtain c where c: "siteClient si (ce_Transport E) c" "cs_objects st ! a = (c, initialToken (si_Token si))"
    using a by (auto simp: siteClientAt_def)
  obtain s' where s': "run_state (m c) (initialToken (si_Token si), s) = (v, (initialToken (si_Token si), s'))" "view s' = w"
    using m [OF c(1)] by (auto simp: wp_def split: prod.splits)
  show ?thesis
    using c s' siteClientAt_update by (fastforce simp: answersAs_def onClient_def)
qed

lemma newClient_made:
  assumes "newClient T addr timeout ca ns = Inr c"
  shows "\<not> usesDynamicAuth c" "hc_transport c = T" "hc_namespace c = ns"
  using assms by (auto simp: newClient_def usesDynamicAuth_def Let_def split: option.splits sum.splits if_splits)

lemma ClientFor_site:
  assumes "siteConnection si E view conn"
  shows "\<exists>c s'. siteClient si (ce_Transport E) c \<and> view s' = view s \<and>
    run_state (ClientFor E conn) (st, s) =
      (Inr (length (cs_objects st)), (st\<lparr>cs_objects := cs_objects st @ [(c, initialToken (si_Token si))]\<rparr>, s'))"
proof -
  obtain ref ca c where static: "\<not> isDynamic conn" "si_Token si \<noteq> ''''" and ref: "cns_TokenSecretRef (cn_Spec conn) = Some ref"
    and ca: "\<And>s. \<exists>s'. run_state (connectionCABundle E conn) s = (Inr ca, s') \<and> view s' = view s"
    and secret: "\<And>s. \<exists>secret s'. run_state (ce_GetSecret E (om_Namespace conn, skr_Name ref)) s = (Inr secret, s') \<and>
      view s' = view s \<and> TrimSpace (secretData secret (if skr_Key ref = '''' then ''token'' else skr_Key ref)) = si_Token si"
    and c: "newClient (ce_Transport E) (cns_Address (cn_Spec conn)) (connectionRequestTimeout conn) ca (cns_Namespace (cn_Spec conn)) = Inr c"
      "hc_baseURL c = si_URL si" "cns_Namespace (cn_Spec conn) = si_Namespace si"
    using assms unfolding siteConnection_def by (metis (no_types, lifting))
  obtain s1 where s1: "run_state (connectionCABundle E conn) s = (Inr ca, s1)" "view s1 = view s" using ca by blast
  obtain sec s2 where s2: "run_state (ce_GetSecret E (om_Namespace conn, skr_Name ref)) s1 = (Inr sec, s2)" "view s2 = view s1"
    "TrimSpace (secretData sec (if skr_Key ref = '''' then ''token'' else skr_Key ref)) = si_Token si"
    using secret [of s1] by blast
  have trim: "TrimSpace (si_Token si) = si_Token si" using s2(3) TrimSpace_idem by metis
  have none: "cns_KubernetesAuth (cn_Spec conn) = None" "cns_AppRole (cn_Spec conn) = None"
    using static(1) by (simp_all add: isDynamic_def)
  have "run_state (connectionClientFor E conn) s = (Inr (c, initialToken (si_Token si)), s2)"
    using s1 s2 static(2) trim c(1) ref none
    by (simp add: connectionClientFor_def staticTokenClient_def NewWithNamespace_def Let_def)
  then have "run_state (ClientFor E conn) (st, s) =
      (Inr (length (cs_objects st)), (st\<lparr>cs_objects := cs_objects st @ [(c, initialToken (si_Token si))]\<rparr>, s2))"
    by (simp add: ClientFor_static [OF static(1)] onOutside_def allocate_def currentState_def setState_def)
  moreover have "siteClient si (ce_Transport E) c" using newClient_made [OF c(1)] c(2,3) by (simp add: siteClient_def)
  ultimately show ?thesis
    using s1(2) s2(2) by (intro exI [of _ c] exI [of _ s2]) simp
qed
text \<open>The API server, which knows nothing of the clients.\<close>

definition apiServerServes ::
  "('s \<Rightarrow> EntityWorld) \<Rightarrow> OpenBaoConnection \<Rightarrow> ('s, OpenBaoEntity) KubeAPI \<Rightarrow> ('s, OpenBaoConnection) KubeAPI
     \<Rightarrow> ('s, int) state \<Rightarrow> bool" where
  "apiServerServes view conn entities connections now \<longleftrightarrow>
     (\<forall>s. let w = view s; ob = ew_object w; gives = (\<lambda>m v w'. \<exists>s'. run_state m s = (Inr v, s') \<and> view s' = w') in
        gives (k_Get entities (ObjectKey ob)) ob w \<and>
        (\<forall>ob'. ob'\<lparr>om_Finalizers := om_Finalizers ob\<rparr> = ob \<longrightarrow> gives (k_Update entities ob') ob' (w\<lparr>ew_object := ob'\<rparr>)) \<and>
        (\<forall>ob'. ob'\<lparr>en_Status := en_Status ob\<rparr> = ob \<longrightarrow> gives (k_StatusUpdate entities ob') ob' (w\<lparr>ew_object := ob'\<rparr>)) \<and>
        (\<exists>s'. run_state (k_Get connections (om_Namespace ob, connref_Name (ens_ConnectionRef (en_Spec ob)))) s = (Inr conn, s') \<and>
           view s' = w) \<and>
        view (snd (run_state now s)) = w)"

lemma siteClientAt_served:
  assumes serves: "openbaoServes si view fresh (ce_Transport E)" and a: "siteClientAt si (ce_Transport E) a st"
  shows "entityClientServed (stackServers si E view conn fresh) (entityClientAt a) (st, s)"
proof -
  let ?V = "stackServers si E view conn fresh" and ?w = "view s" and ?es = "ew_stored (view s)"
  have byID: "answersAs ?V (onClient a (\<lambda>c. Client_GetEntityByID c i)) (st, s) (found (absentError si) (lookupID i ?es)) ?w" for i
    by (rule answersAs_onClient [OF a]) (auto intro: wp_siteGetByID [OF serves _ refl])
  have byName: "answersAs ?V (onClient a (\<lambda>c. Client_GetEntityByName c n)) (st, s) (found (absentError si) (lookupName n ?es)) ?w" for n
    by (rule answersAs_onClient [OF a]) (auto intro: wp_siteGetByName [OF serves _ refl])
  have create: "answersAs ?V (onClient a (\<lambda>c. Client_CreateEntity c q)) (st, s) (Inr (fresh ?es))
      (?w\<lparr>ew_stored := ?es @ [storedAs (fresh ?es) q]\<rparr>)" if "er_Name q \<noteq> ''''" "lookupName (er_Name q) ?es = None" for q
    by (rule answersAs_onClient [OF a]) (use that in \<open>auto intro: wp_siteCreate [OF serves _ refl]\<close>)
  have update: "answersAs ?V (onClient a (\<lambda>c. Client_UpdateEntity c i q)) (st, s) (Inr (Some (zeroEntity\<lparr>e_ID := i\<rparr>)))
      (?w\<lparr>ew_stored := rewritten i q ?es\<rparr>)" if "er_Name q \<noteq> ''''" "lookupID i ?es \<noteq> None" for i q
    by (rule answersAs_onClient [OF a]) (use that in \<open>auto intro: wp_siteUpdate [OF serves _ refl]\<close>)
  show ?thesis
    unfolding entityClientServed_def Let_def entityClientAt_sel stackServers_sel using byID byName create update by blast
qed

lemma stack_served:
  assumes "kube_lib_ok L" "apiServerServes view conn entities connections now" "siteConnection si E view conn"
    and "openbaoServes si view fresh (ce_Transport E)"
  shows "entityServed (stackServers si E view conn fresh) (registeredEntityReconciler L entities connections now E)"
proof -
  let ?V = "stackServers si E view conn fresh" and ?R = "registeredEntityReconciler L entities connections now E"
  have api: "\<exists>s'. run_state (k_Get entities (ObjectKey (ew_object (view s)))) s = (Inr (ew_object (view s)), s') \<and> view s' = view s"
    "ob\<lparr>om_Finalizers := om_Finalizers (ew_object (view s))\<rparr> = ew_object (view s) \<Longrightarrow>
       \<exists>s'. run_state (k_Update entities ob) s = (Inr ob, s') \<and> view s' = (view s)\<lparr>ew_object := ob\<rparr>"
    "ob\<lparr>en_Status := en_Status (ew_object (view s))\<rparr> = ew_object (view s) \<Longrightarrow>
       \<exists>s'. run_state (k_StatusUpdate entities ob) s = (Inr ob, s') \<and> view s' = (view s)\<lparr>ew_object := ob\<rparr>"
    "\<exists>s'. run_state (resolveConnection connections (om_Namespace (ew_object (view s))) (ens_ConnectionRef (en_Spec (ew_object (view s))))) s
       = (Inr conn, s') \<and> view s' = view s"
    "view (snd (run_state now s)) = view s" for s ob
    using assms(2) unfolding apiServerServes_def Let_def resolveConnection_def by blast+
  have reconciler: "er_Entities ?R = outsideKube entities" "er_Connections ?R = outsideKube connections" "er_Now ?R = onOutside now"
    "k_Get (outsideKube K) nn = onOutside (k_Get K nn)" "k_Update (outsideKube K) x = onOutside (k_Update K x)"
    "k_StatusUpdate (outsideKube K) x = onOutside (k_StatusUpdate K x)" for nn x and K :: "('s, 'o) KubeAPI"
    by (simp_all add: registeredEntityReconciler_def outsideKube_def)
  have clock: "\<exists>t. answersAs ?V (onOutside now) (st, s) t (view s)" for st s
    by (rule exI [of _ "fst (run_state now s)"], rule answersAs_onOutside, rule exI [of _ "snd (run_state now s)"])
       (simp add: api(5))
  have kube: "kubeServed ?V ?R (st, s)" for st s
    unfolding kubeServed_def Let_def stackServers_sel
    using clock by (auto simp: reconciler resolveConnection_def intro!: answersAs_onOutside api(1-3) api(4) [unfolded resolveConnection_def])
  have client: "clientFor_entity ?R = cachedEntityClient E"
    by (rule ext) (simp add: clientFor_entity_def clientForWith_def registeredEntityReconciler_def)
  have obtained: "\<exists>c. answersAs ?V (clientFor_entity ?R conn) (st, s) (Inr c) (view s) \<and>
      sv_usable ?V c (snd (run_state (clientFor_entity ?R conn) (st, s)))" for st s
  proof -
    let ?a = "length (cs_objects st)"
    obtain c s' where c: "siteClient si (ce_Transport E) c" "view s' = view s" and
      run: "run_state (ClientFor E conn) (st, s) =
        (Inr ?a, (st\<lparr>cs_objects := cs_objects st @ [(c, initialToken (si_Token si))]\<rparr>, s'))"
      using ClientFor_site [OF assms(3)] by blast
    have "siteClientAt si (ce_Transport E) ?a (st\<lparr>cs_objects := cs_objects st @ [(c, initialToken (si_Token si))]\<rparr>)"
      using c(1) by (auto simp: siteClientAt_def)
    then show ?thesis
      using c(2) run unfolding client
      by (intro exI [of _ "entityClientAt ?a"])
         (auto simp: answersAs_def cachedEntityClient_def intro: siteClientAt_append)
  qed
  have "isNotFound L (absentError si)" by (simp add: isNotFound_def absentError_def)
  moreover have "\<forall>es. fresh es \<noteq> '''' \<and> fresh es \<notin> e_ID ` set es" using assms(4) by (simp add: openbaoServes_def)
  ultimately show ?thesis
    using assms(1) kube obtained siteClientAt_served [OF assms(4)]
    unfolding entityServed_def by (auto simp: registeredEntityReconciler_def)
qed
text \<open>
  C5. The entity controller reaches its goal through all of its layers.  Let the API server and the
  OpenBao server answer as documented, the connection hold a static token the server accepts, and the
  resource be live, its connection ready, and the entity recorded and there, absent and allowed to be
  created, or there under its name and allowed to be adopted.  Then a reconciliation, by the reconciler
  \<^verbatim>\<open>main\<close> registers, over the connection cache with whatever clients it holds, and over HTTP,
  ends without an error, leaves the entity as specified and recorded and the status ready; and the next
  reconciliation changes nothing.
\<close>

theorem entity_stack_converges:
  assumes "kube_lib_ok L" "apiServerServes view conn entities connections now" "siteConnection si E view conn"
    and "openbaoServes si view fresh (ce_Transport E)" "manageable L conn (view s)"
  shows "converges (\<lambda>(st, s). view s) (registeredEntityReconciler L entities connections now E) (st, s)"
proof -
  have "sv_view (stackServers si E view conn fresh) = (\<lambda>(st, s). view s)" by (simp add: stackServers_def)
  then show ?thesis
    using served_converges [OF stack_served [OF assms(1-4)], of "(st, s)"] assms(5)
    by (simp add: registeredEntityReconciler_def)
qed

section \<open>An instance of the servers\<close>

definition localSite :: Site where
  "localSite = \<lparr>si_URL = localURL, si_Namespace = '''', si_Token = ''s.1'', si_NotFoundBody = ''{}''\<rparr>"

definition jsonResponse :: "(string \<times> Json) list \<Rightarrow> HttpResponse" where
  "jsonResponse fs = \<lparr>rs_Status = 200, rs_Bytes = '''', rs_ReadError = None,
     rs_JSON = Inr (JObj [(''request_id'', JString ''r''), (''data'', JObj fs)])\<rparr>"

definition statusResponse :: "int \<Rightarrow> HttpResponse" where
  "statusResponse n = \<lparr>rs_Status = n, rs_Bytes = ''{}'', rs_ReadError = None, rs_JSON = Inr JNull\<rparr>"

definition storedResponse :: "Entity option \<Rightarrow> HttpResponse" where
  "storedResponse en = (case en of None \<Rightarrow> statusResponse 404
     | Some e \<Rightarrow> jsonResponse [(''id'', JString (e_ID e)), (''name'', JString (e_Name e)),
         (''metadata'', encStringMap (e_Metadata e)), (''policies'', encStrings (e_Policies e)),
         (''disabled'', JBool (e_Disabled e)), (''creation_time'', JString ''now'')])"

definition bodyRequest :: "HttpRequest \<Rightarrow> EntityRequest" where
  "bodyRequest req = (case decEntity (case rq_Body req of None \<Rightarrow> JNull | Some j \<Rightarrow> j) zeroEntity of
      Inl _ \<Rightarrow> \<lparr>er_Name = '''', er_Metadata = None, er_Policies = None, er_Disabled = False\<rparr>
    | Inr e \<Rightarrow> \<lparr>er_Name = e_Name e, er_Metadata = e_Metadata e, er_Policies = e_Policies e, er_Disabled = e_Disabled e\<rparr>)"

definition pathByID :: "Entity \<Rightarrow> string" where
  "pathByID e = requestPath localURL [''identity'', ''entity'', ''id'', e_ID e]"

definition pathByName :: "Entity \<Rightarrow> string" where
  "pathByName e = requestPath localURL [''identity'', ''entity'', ''name'', e_Name e]"

definition localServer :: "HttpRequest \<Rightarrow> EntityWorld \<Rightarrow> HttpResponse \<times> EntityWorld" where
  "localServer req w =
     (let es = ew_stored w; p = rq_Path req; byID = find (\<lambda>e. pathByID e = p) es; q = bodyRequest req in
      if rq_Method req = ''GET'' then
        (storedResponse (case byID of Some e \<Rightarrow> Some e | None \<Rightarrow> find (\<lambda>e. pathByName e = p) es), w)
      else (case byID of
          Some e \<Rightarrow> (statusResponse 204, w\<lparr>ew_stored := rewritten (e_ID e) q es\<rparr>)
        | None \<Rightarrow> (jsonResponse [(''id'', JString (freshID es))], w\<lparr>ew_stored := es @ [storedAs (freshID es) q]\<rparr>)))"

definition localEnv :: "EntityWorld ClientEnv" where
  "localEnv = (constEnv (fmap_of_list [(''token'', '' s.1 '')]))\<lparr>ce_Transport :=
     \<lparr>httpDo = (\<lambda>ca timeout req. State (\<lambda>w. case localServer req w of (r, w') \<Rightarrow> (Inr r, w'))),
      newRequestError = (\<lambda>_. None), url_Parse = (\<lambda>_. Inr localURL), validCertificates = (\<lambda>_. True), clockNow = ret 7\<rparr>\<rparr>"

definition localConnection :: OpenBaoConnection where
  "localConnection = readyConn\<lparr>cn_Spec := (cn_Spec readyConn)\<lparr>cns_TokenSecretRef := Some \<lparr>skr_Name = ''tok'', skr_Key = ''''\<rparr>\<rparr>\<rparr>"

lemma localSite_sel [simp]:
  "si_URL localSite = localURL" "si_Namespace localSite = ''''" "si_Token localSite = ''s.1''" "si_NotFoundBody localSite = ''{}''"
  by (simp_all add: localSite_def)

lemma bodyRequest_document:
  assumes "rq_Body req = Some (entityDocument q)" "er_Name q \<noteq> ''''"
  shows "bodyRequest req = q"
proof -
  have "decEntity (entityDocument q) zeroEntity = Inr \<lparr>e_ID = '''', e_Name = er_Name q, e_Metadata = er_Metadata q,
      e_Policies = er_Policies q, e_Disabled = er_Disabled q\<rparr>"
    using entity_request_roundtrip [of q] encEntityRequest_document [OF assms(2)] by simp
  then show ?thesis using assms(1) by (simp add: bodyRequest_def)
qed

lemma find_path:
  "find (\<lambda>e. pathByID e = requestPath localURL [''identity'', ''entity'', ''id'', i]) es = lookupID i es"
  "find (\<lambda>e. pathByName e = requestPath localURL [''identity'', ''entity'', ''name'', n]) es = lookupName n es"
  "find (\<lambda>e. pathByID e = requestPath localURL [''identity'', ''entity'', ''name'', n]) es = None"
  "find (\<lambda>e. pathByName e = requestPath localURL [''identity'', ''entity'', ''id'', i]) es = None"
  "find (\<lambda>e. pathByID e = requestPath localURL [''identity'', ''entity'']) es = None"
  by (simp_all add: pathByID_def pathByName_def requestPath_eq_iff lookupID_def lookupName_def find_None_iff)

lemma storedResponse_answers: "lookupAnswer ''{}'' en (storedResponse en)"
  by (simp add: lookupAnswer_def storedResponse_def statusResponse_def maxErrorBodySize_def dataIs_def jsonResponse_def
      holdsEntity_def fieldValues_def EqualFold_def ToLower_def lower_char_def split: option.split)

lemma exchanges_local:
  "case localServer req w of (r, w') \<Rightarrow> reply r \<and> w' = v \<Longrightarrow> exchanges (ce_Transport localEnv) id req w reply v"
  by (auto simp: exchanges_def localEnv_def split: prod.splits)

lemma localServer_serves: "openbaoServes localSite id freshID (ce_Transport localEnv)"
proof -
  have id: "dataIs (jsonResponse [(''id'', JString i)]) (\<lambda>fs. fieldValues fs ''id'' = [JString i])" for i
    by (simp add: dataIs_def jsonResponse_def fieldValues_def EqualFold_def ToLower_def lower_char_def)
  have "freshID es \<noteq> ''''" for es by (simp add: freshID_def)
  then show ?thesis
    unfolding openbaoServes_def Let_def localSite_sel
    using id lookupID_Some freshID_new
    by (auto simp: callOf_def localServer_def find_path storedResponse_answers bodyRequest_document statusResponse_def
        Let_def intro!: exchanges_local split: option.split)
qed
definition localConnections :: "(EntityWorld, OpenBaoConnection) KubeAPI" where
  "localConnections = \<lparr>k_Get = (\<lambda>nn. ret (Inr localConnection)), k_Update = (\<lambda>ob. ret (Inr ob)),
     k_StatusUpdate = (\<lambda>ob. ret (Inr ob)), k_List = (\<lambda>ns. ret (Inr [localConnection]))\<rparr>"

definition localReconciler :: "(EntityWorld ClientStore \<times> EntityWorld) EntityReconciler" where
  "localReconciler = registeredEntityReconciler stdLib (er_Entities storingReconciler) localConnections (ret 7) localEnv"

lemma localKube_serves: "apiServerServes id localConnection (er_Entities storingReconciler) localConnections (ret 7)"
  by (simp add: apiServerServes_def storingReconciler_def localConnections_def answering_def changing_def Let_def
      State_Monad.return_def)

lemma localConnection_site: "siteConnection localSite localEnv id localConnection"
  by (simp add: siteConnection_def localConnection_def readyConn_def isDynamic_def localEnv_def constEnv_def
      connectionCABundle_def secretData_def newClient_def validateNamespace_def connectionRequestTimeout_def
      localURL_def HasSuffix_def HasPrefix_def TrimSpace_def TrimRightByte_def TrimRightFunc_def TrimLeftFunc_def
      IsSpace_def State_Monad.return_def)

text \<open>A new entity is created over HTTP with a client the cache makes, and rests.\<close>

theorem entity_stack_converges_witness:
  "converges (\<lambda>(st, w). w) localReconciler (NewConnectionClientCache, firstWorld) \<and>
   (let (out, st, w) = run_state (Reconcile_entity localReconciler (''ns'', ''app'')) (NewConnectionClientCache, firstWorld)
    in out = (requeueIn defaultDriftCheck, None) \<and> readyTrue (est_Conditions (en_Status (ew_object w))) \<and>
       lookupID (est_ID (en_Status (ew_object w))) (ew_stored w) \<noteq> None)"
proof -
  have "manageable stdLib localConnection firstWorld"
    using firstWorld_manageable by (simp add: manageable_def localConnection_def)
  then have c: "converges (\<lambda>(st, w). w) localReconciler (NewConnectionClientCache, firstWorld)"
    unfolding localReconciler_def
    using entity_stack_converges [OF stdLib_ok localKube_serves localConnection_site localServer_serves, of firstWorld]
    by simp
  then show ?thesis
    by (auto simp: converges_def firstWorld_start Let_def split: prod.splits)
qed

end
