(* ===== verification/PolicyController.thy ===== *)
theory PolicyController
  imports Observing BaoTypes Sha256
begin

text \<open>
  \<^verbatim>\<open>internal/controller/openbao/openbaopolicy_controller.go\<close>: the reconciliation of an
  ACL policy.  A policy has no identifier of its own in OpenBao: its name is its path, and the
  status field \<^verbatim>\<open>Name\<close> (\<open>pst_Name\<close>) is what records that it was acquired.
\<close>

section \<open>The reconciler and its environment\<close>

record 's PolicyReconciler =
  pl_Lib :: KubeLib
  pl_Policies :: "('s, OpenBaoPolicy) KubeAPI"
  pl_Connections :: "('s, OpenBaoConnection) KubeAPI"
  pl_Now :: "('s, int) state"
  pl_NewClient :: "(OpenBaoConnection \<Rightarrow> ('s, go_error + 's PolicyClient) state) option"
  pl_ClientCache :: "(OpenBaoConnection \<Rightarrow> ('s, go_error + 's PolicyClient) state) option"
  pl_connectionClientFor :: "OpenBaoConnection \<Rightarrow> ('s, go_error + 's PolicyClient) state"

definition policyAccess :: "(OpenBaoPolicy, OpenBaoPolicyStatus) StatusAccess" where
  "policyAccess =
     \<lparr>sa_Status = po_Status,
      sa_setStatus = (\<lambda>st p. p\<lparr>po_Status := st\<rparr>),
      sa_Conditions = pst_Conditions,
      sa_setConditions = (\<lambda>cs st. st\<lparr>pst_Conditions := cs\<rparr>),
      sa_ObservedGeneration = pst_ObservedGeneration,
      sa_setObservedGeneration = (\<lambda>g st. st\<lparr>pst_ObservedGeneration := g\<rparr>)\<rparr>"

interpretation policyStatus: status_object policyAccess
  by unfold_locales (simp_all add: policyAccess_def ObjectMeta.truncate_def)

section \<open>Helpers\<close>

definition policyRulesHash :: "string \<Rightarrow> string" where
  "policyRulesHash rules = sha256_hex rules"

definition observePolicyStatus :: "OpenBaoPolicy \<Rightarrow> Policy \<Rightarrow> OpenBaoPolicy" where
  "observePolicyStatus policy observed =
     (let name = (if p_Name observed = '''' then om_Name policy else p_Name observed)
      in policy\<lparr>po_Status := (po_Status policy)
           \<lparr>pst_Name := name,
            pst_RulesHash := policyRulesHash (p_Rules observed),
            pst_Version := p_Version observed,
            pst_ObservedGeneration := om_Generation policy\<rparr>\<rparr>)"

definition policyDriftInterval :: "OpenBaoPolicy \<Rightarrow> int" where
  "policyDriftInterval policy = (case pos_DriftDetectionInterval (po_Spec policy) of
      None \<Rightarrow> defaultDriftCheck | Some d \<Rightarrow> d)"

definition policyCreationPolicy :: "OpenBaoPolicy \<Rightarrow> CreationPolicy" where
  "policyCreationPolicy policy =
     (if pos_CreationPolicy (po_Spec policy) = '''' then CreationPolicyCreate
      else pos_CreationPolicy (po_Spec policy))"

definition policyDeletionPolicy :: "OpenBaoPolicy \<Rightarrow> DeletionPolicy" where
  "policyDeletionPolicy policy =
     (if pos_DeletionPolicy (po_Spec policy) = '''' then DeletionPolicyOrphan
      else pos_DeletionPolicy (po_Spec policy))"

definition desiredPolicyRequest :: "OpenBaoPolicy \<Rightarrow> PolicyRequest" where
  "desiredPolicyRequest policy = \<lparr>pr_Rules = pos_Rules (po_Spec policy)\<rparr>"

section \<open>The controller\<close>

definition clientFor_policy ::
  "'s PolicyReconciler \<Rightarrow> OpenBaoConnection \<Rightarrow> ('s, go_error + 's PolicyClient) state" where
  "clientFor_policy R connection =
     clientForWith (pl_NewClient R) (pl_ClientCache R) (pl_connectionClientFor R) connection"

definition dependencyFailure_policy ::
  "'s PolicyReconciler \<Rightarrow> OpenBaoPolicy \<Rightarrow> go_error \<Rightarrow> ('s, outcome) state" where
  "dependencyFailure_policy R policy err =
     dependencyFailureWith policyAccess (pl_Now R) (k_StatusUpdate (pl_Policies R)) policy err"

definition fail_policy ::
  "'s PolicyReconciler \<Rightarrow> OpenBaoPolicy \<Rightarrow> string \<Rightarrow> go_error \<Rightarrow> ('s, outcome) state" where
  "fail_policy R policy reason err =
     failWith policyAccess (pl_Now R) (k_StatusUpdate (pl_Policies R)) policy reason err"

definition acquire_policy ::
  "KubeLib \<Rightarrow> OpenBaoPolicy \<Rightarrow> 's PolicyClient \<Rightarrow> ('s, go_error + Policy option) state" where
  "acquire_policy L policy apiClient = do {
     r \<leftarrow> GetPolicy apiClient (om_Name policy);
     case r of
       Inr observed \<Rightarrow>
         if pst_Name (po_Status policy) = '''' \<and> \<not> AllowsAdoption (policyCreationPolicy policy) then
           ret (Inl (Errorf (''OpenBao policy '' @ fmt_q (om_Name policy) @
             '' already exists; set creationPolicy to Adopt or CreateOrAdopt to manage it'')))
         else ret (Inr observed)
     | Inl err \<Rightarrow>
         if \<not> isNotFound L err then ret (Inl err)
         else if \<not> AllowsCreation (policyCreationPolicy policy) then
           ret (Inl (Errorf (''OpenBao policy '' @ fmt_q (om_Name policy) @
             '' does not exist and creationPolicy='' @ policyCreationPolicy policy @
             '' does not allow creation'')))
         else do {
           w \<leftarrow> WritePolicy apiClient (om_Name policy) (desiredPolicyRequest policy);
           case w of
             Some err \<Rightarrow> ret (Inl err)
           | None \<Rightarrow> GetPolicy apiClient (om_Name policy)
         }
   }"

definition reconcileDeletion_policy ::
  "'s PolicyReconciler \<Rightarrow> OpenBaoPolicy \<Rightarrow> ('s, outcome) state" where
  "reconcileDeletion_policy R policy =
     (if policyDeletionPolicy policy \<noteq> DeletionPolicyDelete then do {
        e \<leftarrow> removeFinalizer (pl_Lib R) (k_Update (pl_Policies R)) policy;
        ret (noRequeue, e)
      } else do {
        let before = po_Status policy;
        let policy = policy\<lparr>po_Status := (po_Status policy)\<lparr>pst_ObservedGeneration := om_Generation policy\<rparr>\<rparr>;
        r \<leftarrow> resolveConnection (pl_Connections R) (om_Namespace policy) (pos_ConnectionRef (po_Spec policy));
        case r of
          Inl err \<Rightarrow>
            recordCleanupFailure policyAccess (pl_Now R) (k_StatusUpdate (pl_Policies R)) policy before
              reasonCleanupDependencyUnavailable (cleanupDependencyError ''OpenBaoConnection'' err)
        | Inr connection \<Rightarrow> do {
            c \<leftarrow> clientFor_policy R connection;
            case c of
              Inl err \<Rightarrow>
                recordCleanupFailure policyAccess (pl_Now R) (k_StatusUpdate (pl_Policies R)) policy before
                  reasonCleanupDependencyUnavailable
                  (cleanupDependencyError ''OpenBaoConnection credentials'' err)
            | Inr apiClient \<Rightarrow> do {
                d \<leftarrow> DeletePolicy apiClient (om_Name policy);
                case d of
                  Some err \<Rightarrow>
                    if \<not> isNotFound (pl_Lib R) err then
                      recordCleanupFailure policyAccess (pl_Now R) (k_StatusUpdate (pl_Policies R)) policy before
                        ''CleanupFailed'' err
                    else do {
                      e \<leftarrow> removeFinalizer (pl_Lib R) (k_Update (pl_Policies R)) policy;
                      ret (noRequeue, e)
                    }
                | None \<Rightarrow> do {
                    e \<leftarrow> removeFinalizer (pl_Lib R) (k_Update (pl_Policies R)) policy;
                    ret (noRequeue, e)
                  }
              }
          }
      })"

definition readyPolicyStatus :: "OpenBaoPolicy \<Rightarrow> Policy \<Rightarrow> int \<Rightarrow> int \<Rightarrow> OpenBaoPolicy" where
  "readyPolicyStatus policy observed now1 now2 =
     (let policy = observePolicyStatus policy observed
      in policy\<lparr>po_Status := (po_Status policy)\<lparr>pst_Conditions :=
           markReady (pst_Conditions (po_Status policy)) (om_Generation policy)
             ''OpenBao policy is reconciled'' now1 now2\<rparr>\<rparr>)"

definition finish_policy ::
  "'s PolicyReconciler \<Rightarrow> OpenBaoPolicyStatus \<Rightarrow> OpenBaoPolicy \<Rightarrow> Policy \<Rightarrow> ('s, outcome) state" where
  "finish_policy R before policy observed = do {
     t1 \<leftarrow> pl_Now R;
     t2 \<leftarrow> pl_Now R;
     let policy = readyPolicyStatus policy observed t1 t2;
     r \<leftarrow> updateStatusIfChanged (k_StatusUpdate (pl_Policies R)) policy before (po_Status policy);
     case r of
       Inl err \<Rightarrow> ret (noRequeue, Some err)
     | Inr policy \<Rightarrow> ret (requeueIn (policyDriftInterval policy), None)
   }"

definition sync_policy ::
  "'s PolicyReconciler \<Rightarrow> 's PolicyClient \<Rightarrow> OpenBaoPolicyStatus \<Rightarrow> OpenBaoPolicy \<Rightarrow> Policy option
     \<Rightarrow> ('s, outcome) state" where
  "sync_policy R apiClient before policy acquired = (case acquired of
      None \<Rightarrow> fail_policy R policy ''InvalidOpenBaoResponse''
        (Errorf (''OpenBao returned no policy for '' @ fmt_q (om_Name policy)))
    | Some observed \<Rightarrow>
        if p_Name observed \<noteq> '''' \<and> p_Name observed \<noteq> om_Name policy then
          fail_policy R policy ''PolicyIdentityMismatch''
            (Errorf (''OpenBao policy is named '' @ fmt_q (p_Name observed) @ '', expected '' @
               fmt_q (om_Name policy)))
        else if p_Rules observed = pos_Rules (po_Spec policy) then finish_policy R before policy observed
        else do {
          w \<leftarrow> WritePolicy apiClient (om_Name policy) (desiredPolicyRequest policy);
          case w of
            Some err \<Rightarrow> fail_policy R policy ''PolicyWriteFailed'' err
          | None \<Rightarrow> do {
              g \<leftarrow> GetPolicy apiClient (om_Name policy);
              case g of
                Inl err \<Rightarrow> fail_policy R policy ''PolicyReadFailed'' err
              | Inr None \<Rightarrow> fail_policy R policy ''InvalidOpenBaoResponse''
                  (Errorf (''OpenBao returned no policy after writing '' @ fmt_q (om_Name policy)))
              | Inr (Some observed) \<Rightarrow> finish_policy R before policy observed
            }
        })"

definition reconcileActive_policy :: "'s PolicyReconciler \<Rightarrow> OpenBaoPolicy \<Rightarrow> ('s, outcome) state" where
  "reconcileActive_policy R policy = do {
     let before = po_Status policy;
     let policy = policy\<lparr>po_Status := (po_Status policy)\<lparr>pst_ObservedGeneration := om_Generation policy\<rparr>\<rparr>;
     let ref = pos_ConnectionRef (po_Spec policy);
     r \<leftarrow> resolveConnection (pl_Connections R) (om_Namespace policy) ref;
     case r of
       Inl err \<Rightarrow> dependencyFailure_policy R policy
         (Wrapf (''read OpenBaoConnection '' @ om_Namespace policy @ ''/'' @ connref_Name ref) err)
     | Inr connection \<Rightarrow>
         if \<not> IsStatusConditionTrue (pl_Lib R) (cnst_Conditions (cn_Status connection)) conditionReady then
           dependencyFailure_policy R policy
             (dependencyMessage ''OpenBaoConnection'' (ObjectKey connection) None)
         else do {
           c \<leftarrow> clientFor_policy R connection;
           case c of
             Inl err \<Rightarrow> dependencyFailure_policy R policy err
           | Inr apiClient \<Rightarrow> do {
               a \<leftarrow> acquire_policy (pl_Lib R) policy apiClient;
               case a of
                 Inl err \<Rightarrow> fail_policy R policy ''PolicyAcquireFailed'' err
               | Inr observed \<Rightarrow> sync_policy R apiClient before policy observed
             }
         }
   }"

definition Reconcile_policy :: "'s PolicyReconciler \<Rightarrow> NamespacedName \<Rightarrow> ('s, outcome) state" where
  "Reconcile_policy R req = do {
     r \<leftarrow> k_Get (pl_Policies R) req;
     case r of
       Inl err \<Rightarrow>
         if apierrors_IsNotFound (pl_Lib R) err then ret (noRequeue, None)
         else ret (noRequeue, Some err)
     | Inr policy \<Rightarrow> do {
         f \<leftarrow> (if notDeleted policy \<and> IsDelete (policyDeletionPolicy policy)
              then ensureFinalizer (pl_Lib R) (k_Update (pl_Policies R)) policy
              else ret (Inr policy));
         case f of
           Inl err \<Rightarrow> ret (noRequeue, Some err)
         | Inr policy \<Rightarrow>
             if \<not> notDeleted policy then reconcileDeletion_policy R policy
             else reconcileActive_policy R policy
       }
   }"

definition mapConnectionToPolicies ::
  "'s PolicyReconciler \<Rightarrow> 'a ObjectMeta_scheme \<Rightarrow> ('s, NamespacedName list) state" where
  "mapConnectionToPolicies R obj = do {
     r \<leftarrow> k_List (pl_Policies R) (om_Namespace obj);
     case r of
       Inl _ \<Rightarrow> ret []
     | Inr items \<Rightarrow> ret (map ObjectKey
         (filter (\<lambda>policy. connref_Name (pos_ConnectionRef (po_Spec policy)) = om_Name obj) items))
   }"

end
