(* ===== verification/PolicyProperties.thy ===== *)
theory PolicyProperties
  imports PolicyController Examples
begin

text \<open>
  What a reconciliation of a policy may do, observed through its calls, for every behaviour of
  the environment; and the run that shows what deletion does not check.
\<close>

section \<open>Observing a run\<close>

datatype PolicyEvent =
    KPolicy "OpenBaoPolicy KubeEvent"
  | KPolConnection "OpenBaoConnection KubeEvent"
  | MadePolicyClient OpenBaoConnection "go_error option"
  | GotPolicy string "go_error + Policy option"
  | WrotePolicy string PolicyRequest "go_error option"
  | DeletedPolicy string "go_error option"

definition logPolicyClient :: "'s PolicyClient \<Rightarrow> ('s \<times> PolicyEvent list) PolicyClient" where
  "logPolicyClient c =
     \<lparr>GetPolicy = (\<lambda>n. logged (GotPolicy n) (GetPolicy c n)),
      WritePolicy = (\<lambda>n q. logged (WrotePolicy n q) (WritePolicy c n q)),
      DeletePolicy = (\<lambda>n. logged (DeletedPolicy n) (DeletePolicy c n))\<rparr>"

lemma logPolicyClient_sel [simp]:
  "GetPolicy (logPolicyClient c) n = logged (GotPolicy n) (GetPolicy c n)"
  "WritePolicy (logPolicyClient c) n q = logged (WrotePolicy n q) (WritePolicy c n q)"
  "DeletePolicy (logPolicyClient c) n = logged (DeletedPolicy n) (DeletePolicy c n)"
  by (simp_all add: logPolicyClient_def)

definition logPolicyReconciler :: "'s PolicyReconciler \<Rightarrow> ('s \<times> PolicyEvent list) PolicyReconciler" where
  "logPolicyReconciler R =
     \<lparr>pl_Lib = pl_Lib R,
      pl_Policies = logKube KPolicy (pl_Policies R),
      pl_Connections = logKube KPolConnection (pl_Connections R),
      pl_Now = silent (pl_Now R),
      pl_NewClient = map_option (logClientFor MadePolicyClient logPolicyClient) (pl_NewClient R),
      pl_ClientCache = map_option (logClientFor MadePolicyClient logPolicyClient) (pl_ClientCache R),
      pl_connectionClientFor = logClientFor MadePolicyClient logPolicyClient (pl_connectionClientFor R)\<rparr>"

lemma logPolicyReconciler_sel [simp]:
  "pl_Lib (logPolicyReconciler R) = pl_Lib R"
  "pl_Policies (logPolicyReconciler R) = logKube KPolicy (pl_Policies R)"
  "pl_Connections (logPolicyReconciler R) = logKube KPolConnection (pl_Connections R)"
  "pl_Now (logPolicyReconciler R) = silent (pl_Now R)"
  by (simp_all add: logPolicyReconciler_def)

lemma wp_clientFor_policyI:
  assumes "\<And>e s'. Q (Inl e) (s', tr @ [MadePolicyClient connection (Some e)])"
    and "\<And>c s'. Q (Inr (logPolicyClient c)) (s', tr @ [MadePolicyClient connection None])"
  shows "wp (clientFor_policy (logPolicyReconciler R) connection) Q (s, tr)"
  unfolding clientFor_policy_def logPolicyReconciler_def PolicyReconciler.simps
  by (intro wp_clientForWithI assms)

definition policy_run ::
  "'s PolicyReconciler \<Rightarrow> NamespacedName \<Rightarrow> 's \<Rightarrow> outcome \<times> 's \<times> PolicyEvent list" where
  "policy_run R req s = run_state (Reconcile_policy (logPolicyReconciler R) req) (s, [])"

definition policy_trace :: "'s PolicyReconciler \<Rightarrow> NamespacedName \<Rightarrow> 's \<Rightarrow> PolicyEvent list" where
  "policy_trace R req s = snd (snd (policy_run R req s))"

section \<open>What justifies a call\<close>

text \<open>A live resource with a ready connection, its finalizer in place if it needs one.\<close>

definition activePolicy :: "KubeLib \<Rightarrow> PolicyEvent list \<Rightarrow> OpenBaoPolicy \<Rightarrow> bool" where
  "activePolicy L = live L KPolicy KPolConnection (\<lambda>pol. IsDelete (policyDeletionPolicy pol))"

text \<open>The answers that show the policy absent, or present with other rules.\<close>

fun absentPolicy :: "KubeLib \<Rightarrow> string \<Rightarrow> PolicyEvent \<Rightarrow> bool" where
  "absentPolicy L n (GotPolicy m (Inl err)) = (m = n \<and> isNotFound L err)"
| "absentPolicy L n e = False"

fun outdatedPolicy :: "OpenBaoPolicy \<Rightarrow> PolicyEvent \<Rightarrow> bool" where
  "outdatedPolicy pol (GotPolicy m (Inr (Some ob))) =
     (m = om_Name pol \<and> p_Rules ob \<noteq> pos_Rules (po_Spec pol) \<and> (p_Name ob = '''' \<or> p_Name ob = om_Name pol))"
| "outdatedPolicy pol e = False"

text \<open>
  The policy may be overwritten: the resource acquired it before, or its creation policy
  allows adoption, or it was absent and creation is allowed.
\<close>

definition mayWrite :: "KubeLib \<Rightarrow> PolicyEvent list \<Rightarrow> OpenBaoPolicy \<Rightarrow> bool" where
  "mayWrite L pre pol \<longleftrightarrow>
     pst_Name (po_Status pol) \<noteq> '''' \<or> AllowsAdoption (policyCreationPolicy pol) \<or>
     (AllowsCreation (policyCreationPolicy pol) \<and> list_ex (absentPolicy L (om_Name pol)) pre)"

text \<open>A write is needed: the policy was absent, or was observed with other rules.\<close>

definition needsWrite :: "KubeLib \<Rightarrow> PolicyEvent list \<Rightarrow> OpenBaoPolicy \<Rightarrow> bool" where
  "needsWrite L pre pol \<longleftrightarrow>
     list_ex (absentPolicy L (om_Name pol)) pre \<or> list_ex (outdatedPolicy pol) pre"

definition settledPolicy :: "PolicyEvent list \<Rightarrow> OpenBaoPolicy \<Rightarrow> Policy \<Rightarrow> bool" where
  "settledPolicy pre pol ob \<longleftrightarrow> GotPolicy (om_Name pol) (Inr (Some ob)) \<in> set pre \<and>
     (p_Rules ob = pos_Rules (po_Spec pol) \<or>
      WrotePolicy (om_Name pol) (desiredPolicyRequest pol) None \<in> set pre)"

definition samePolicy :: "OpenBaoPolicy \<Rightarrow> OpenBaoPolicy \<Rightarrow> bool" where
  "samePolicy a b \<longleftrightarrow> ObjectMeta.truncate a = ObjectMeta.truncate b \<and> po_Spec a = po_Spec b"

fun gone_policy :: "KubeLib \<Rightarrow> string \<Rightarrow> PolicyEvent \<Rightarrow> bool" where
  "gone_policy L n (DeletedPolicy m d) = (m = n \<and> confirmedGone L d)"
| "gone_policy L n e = False"

fun policy_justified :: "KubeLib \<Rightarrow> PolicyEvent list \<Rightarrow> PolicyEvent \<Rightarrow> bool" where
  "policy_justified L pre (WrotePolicy n q r) =
     (\<exists>pol. activePolicy L pre pol \<and> n = om_Name pol \<and> q = desiredPolicyRequest pol \<and>
        mayWrite L pre pol \<and> needsWrite L pre pol)"
| "policy_justified L pre (DeletedPolicy n r) =
     (\<exists>pol. seen KPolicy pre pol \<and> \<not> notDeleted pol \<and>
        policyDeletionPolicy pol = DeletionPolicyDelete \<and> n = om_Name pol)"
| "policy_justified L pre (KPolicy (UpdatedObject ob r)) =
     finalizerWrite L KPolicy (\<lambda>pol. IsDelete (policyDeletionPolicy pol))
       (\<lambda>pol. policyDeletionPolicy pol \<noteq> DeletionPolicyDelete \<or> list_ex (gone_policy L (om_Name pol)) pre) pre ob"
| "policy_justified L pre (KPolicy (UpdatedStatus ob r)) =
     (if readyTrue (pst_Conditions (po_Status ob)) then
       (\<exists>pol pol1 seen t1 t2. activePolicy L pre pol \<and> settledPolicy pre pol seen \<and>
          ob = readyPolicyStatus pol1 seen t1 t2 \<and> samePolicy pol1 pol)
      else True)"
| "policy_justified L pre (GotPolicy n r) =
     (\<exists>pol. activePolicy L pre pol \<and> n = om_Name pol)"
| "policy_justified L pre e = True"

lemma activePolicy_mono [simp]: "activePolicy L pre pol \<Longrightarrow> activePolicy L (pre @ es) pol"
  by (simp add: activePolicy_def)

lemma samePolicy_simps [simp]:
  "samePolicy a a" "samePolicy (a\<lparr>po_Status := st\<rparr>) b = samePolicy a b"
  by (simp_all add: samePolicy_def ObjectMeta.truncate_def)

lemma samePolicy_fields:
  assumes "samePolicy a b"
  shows "om_Name a = om_Name b" "po_Spec a = po_Spec b" "desiredPolicyRequest a = desiredPolicyRequest b"
    "policyCreationPolicy a = policyCreationPolicy b" "policyDeletionPolicy a = policyDeletionPolicy b"
  using assms by (simp_all add: samePolicy_def ObjectMeta.truncate_def desiredPolicyRequest_def
      policyCreationPolicy_def policyDeletionPolicy_def)

lemma policyAccess_sel [simp]:
  "sa_Status policyAccess p = po_Status p" "sa_setStatus policyAccess st p = p\<lparr>po_Status := st\<rparr>"
  "sa_Conditions policyAccess st = pst_Conditions st"
  by (simp_all add: policyAccess_def)

lemma policy_status_unready:
  "\<not> readyTrue (sa_Conditions policyAccess (sa_Status policyAccess ob))
     \<Longrightarrow> policy_justified L tr (KPolicy (UpdatedStatus ob r))"
  by simp

lemmas policy_failure_rules =
  policyStatus.wp_fail_guarded [where J = "policy_justified L" and ev = KPolicy for L, OF _ policy_status_unready]
  policyStatus.wp_dependencyFailure_guarded [where J = "policy_justified L" and ev = KPolicy for L, OF _ policy_status_unready]
  policyStatus.wp_cleanupFailure_guarded [where J = "policy_justified L" and ev = KPolicy for L, OF _ policy_status_unready]

lemma policy_get_justified:
  "activePolicy L pre pol \<Longrightarrow> n = om_Name pol \<Longrightarrow> policy_justified L pre (GotPolicy n r)"
  by auto

lemma policy_write_justified:
  "activePolicy L pre pol \<Longrightarrow> n = om_Name pol \<Longrightarrow> q = desiredPolicyRequest pol \<Longrightarrow> mayWrite L pre pol
     \<Longrightarrow> needsWrite L pre pol \<Longrightarrow> policy_justified L pre (WrotePolicy n q r)"
  by auto

lemma policy_ready_justified:
  "activePolicy L pre pol \<Longrightarrow> settledPolicy pre pol ob \<Longrightarrow> samePolicy pol1 pol
     \<Longrightarrow> policy_justified L pre (KPolicy (UpdatedStatus (readyPolicyStatus pol1 ob t1 t2) r))"
  unfolding policy_justified.simps by (cases "readyTrue (pst_Conditions (po_Status (readyPolicyStatus pol1 ob t1 t2)))") 
     (simp_all only: if_True if_False, blast)

lemma needsWrite_outdated:
  "GotPolicy (om_Name pol) (Inr (Some ob)) \<in> set tr \<Longrightarrow> p_Rules ob \<noteq> pos_Rules (po_Spec pol)
     \<Longrightarrow> p_Name ob = '''' \<or> p_Name ob = om_Name pol \<Longrightarrow> needsWrite L tr pol"
  unfolding needsWrite_def list_ex_iff by force

declare policy_justified.simps(1-5) [simp del]

section \<open>Every call of a run is justified\<close>

text \<open>What holds once the policy has been acquired.\<close>

definition acquiredPolicy ::
  "KubeLib \<Rightarrow> OpenBaoPolicy \<Rightarrow> (go_error + Policy option) \<Rightarrow> PolicyEvent list \<Rightarrow> bool" where
  "acquiredPolicy L pol a tr \<longleftrightarrow> guarded (policy_justified L) tr \<and> activePolicy L tr pol \<and>
     (case a of Inr (Some ob) \<Rightarrow> GotPolicy (om_Name pol) (Inr (Some ob)) \<in> set tr \<and> mayWrite L tr pol
      | _ \<Rightarrow> True)"

lemma acquire_policy_justified:
  assumes "samePolicy policy pol" "pst_Name (po_Status policy) = pst_Name (po_Status pol)"
    and "activePolicy L tr pol" "guarded (policy_justified L) tr"
  shows "wp (acquire_policy L policy (logPolicyClient c)) (\<lambda>a (s', tr'). acquiredPolicy L pol a tr') (s, tr)"
proof -
  note f = samePolicy_fields [OF assms(1)]
  show ?thesis
    unfolding acquire_policy_def wp_simps logPolicyClient_sel f
    using assms
    by (intro wp_loggedI)
       (auto split: sum.splits option.splits
        simp: wp_simps trace_simps acquiredPolicy_def mayWrite_def needsWrite_def
        intro!: wp_loggedI policy_get_justified [where pol = pol] policy_write_justified [where pol = pol])
qed

lemma finish_policy_justified:
  assumes "samePolicy policy pol" "activePolicy (pl_Lib R) tr pol" "guarded (policy_justified (pl_Lib R)) tr"
    and "settledPolicy tr pol observed"
  shows "wp (finish_policy (logPolicyReconciler R) before policy observed)
           (\<lambda>_ (s', tr'). guarded (policy_justified (pl_Lib R)) tr') (s, tr)"
  unfolding finish_policy_def Let_def wp_simps logPolicyReconciler_sel
  using assms
  by (intro wp_silentI wp_updateStatusI)
     (auto simp: guarded_snoc intro!: policy_ready_justified split: sum.splits)

lemma sync_policy_justified:
  assumes "samePolicy policy pol" "acquiredPolicy (pl_Lib R) pol (Inr a) tr"
  shows "wp (sync_policy (logPolicyReconciler R) (logPolicyClient c) before policy a)
           (\<lambda>_ (s', tr'). guarded (policy_justified (pl_Lib R)) tr') (s, tr)"
proof -
  note f = samePolicy_fields [OF assms(1)]
  show ?thesis
    unfolding sync_policy_def wp_simps logPolicyReconciler_sel logPolicyClient_sel fail_policy_def f
    using assms
    by (auto split: option.splits sum.splits
        simp: wp_simps trace_simps acquiredPolicy_def mayWrite_def settledPolicy_def
        intro!: needsWrite_outdated wp_loggedI policy_failure_rules finish_policy_justified
          policy_write_justified [where pol = pol] policy_get_justified [where pol = pol])
qed

lemma wp_acquire_policyI:
  assumes "samePolicy policy pol" "pst_Name (po_Status policy) = pst_Name (po_Status pol)"
    and "activePolicy L tr pol" "guarded (policy_justified L) tr"
    and "\<And>a s1 tr1. acquiredPolicy L pol a tr1 \<Longrightarrow> Q a (s1, tr1)"
  shows "wp (acquire_policy L policy (logPolicyClient c)) Q (s, tr)"
  by (rule wp_mono [OF acquire_policy_justified]) (use assms in auto)

lemma acquiredPolicy_guarded: "acquiredPolicy L pol a tr \<Longrightarrow> guarded (policy_justified L) tr"
  by (simp add: acquiredPolicy_def)

lemma reconcileActive_policy_justified:
  assumes "seen KPolicy tr pol" "notDeleted pol" "guarded (policy_justified (pl_Lib R)) tr"
    and "IsDelete (policyDeletionPolicy pol) \<longrightarrow> held (pl_Lib R) KPolicy tr pol"
  shows "wp (reconcileActive_policy (logPolicyReconciler R) pol)
           (\<lambda>_ (s', tr'). guarded (policy_justified (pl_Lib R)) tr') (s, tr)"
proof -
  let ?L = "pl_Lib R"
  have active: "activePolicy ?L (tr @ [KPolConnection (GotObject nn (Inr k)), MadePolicyClient k e]) pol"
    if "IsStatusConditionTrue ?L (cnst_Conditions (cn_Status k)) conditionReady" for nn k e
    using assms that
    by (auto simp: activePolicy_def live_def intro: connReady_got [where conn = k and nn = nn])
  show ?thesis
    unfolding reconcileActive_policy_def Let_def wp_simps resolveConnection_def logPolicyReconciler_sel
      logKube_sel dependencyFailure_policy_def fail_policy_def
    using assms
    by (auto split: sum.splits simp: wp_simps trace_simps
        intro!: wp_loggedI wp_clientFor_policyI policy_failure_rules sync_policy_justified [where pol = pol]
          wp_acquire_policyI [where pol = pol] active intro: acquiredPolicy_guarded)
qed

lemma reconcileDeletion_policy_justified:
  assumes "seen KPolicy tr pol" "\<not> notDeleted pol" "guarded (policy_justified (pl_Lib R)) tr"
  shows "wp (reconcileDeletion_policy (logPolicyReconciler R) pol)
           (\<lambda>_ (s', tr'). guarded (policy_justified (pl_Lib R)) tr') (s, tr)"
proof -
  have deleted: "policy_justified L (tr @ es) (DeletedPolicy (om_Name pol) r)"
    if "policyDeletionPolicy pol = DeletionPolicyDelete" for L es r
    using assms that by (auto simp: policy_justified.simps intro!: exI [where x = pol])
  have drop: "policy_justified L (tr @ es) (KPolicy (UpdatedObject
      (ob\<lparr>om_Finalizers := RemoveFinalizer L (om_Finalizers pol) finalizerName\<rparr>) r))"
    if "policyDeletionPolicy pol \<noteq> DeletionPolicyDelete \<or> list_ex (gone_policy L (om_Name pol)) es"
    for L es ob r
    unfolding policy_justified.simps
    by (rule finalizerWrite_remove [where orig = pol]) (use assms that in auto)
  show ?thesis
    unfolding reconcileDeletion_policy_def Let_def wp_simps resolveConnection_def logPolicyReconciler_sel
      logKube_sel
    using assms(3) deleted drop [where es = "[]"] drop
    by (auto split: sum.splits option.splits simp: wp_simps trace_simps
        intro!: wp_removeFinalizerI wp_loggedI wp_clientFor_policyI policy_failure_rules)
qed

lemma Reconcile_policy_justified:
  "wp (Reconcile_policy (logPolicyReconciler R) req)
     (\<lambda>_ (s', tr'). guarded (policy_justified (pl_Lib R)) tr') (s, [])"
proof -
  have add: "policy_justified L pre (KPolicy (UpdatedObject
      (pol\<lparr>om_Finalizers := AddFinalizer L (om_Finalizers pol) finalizerName\<rparr>) r))"
    if "seen KPolicy pre pol" "notDeleted pol" "IsDelete (policyDeletionPolicy pol)" for L pre pol r
    unfolding policy_justified.simps by (rule finalizerWrite_add) (use that in auto)
  show ?thesis
    unfolding Reconcile_policy_def Let_def wp_simps logPolicyReconciler_sel logKube_sel
    by (rule wp_loggedI)
       (auto split: sum.splits simp: wp_simps guarded_def
        intro!: wp_ensureFinalizerI reconcileDeletion_policy_justified reconcileActive_policy_justified add
        intro: seen_got seen_updated held_contains held_added)
qed

lemma policy_trace_justified: "guarded (policy_justified (pl_Lib R)) (policy_trace R req s)"
  using Reconcile_policy_justified [of R req s]
  by (simp add: policy_trace_def policy_run_def wp_run split_beta)

section \<open>The properties\<close>

definition policy_write_ok :: "KubeLib \<Rightarrow> PolicyEvent list \<Rightarrow> PolicyEvent \<Rightarrow> bool" where
  "policy_write_ok L pre e = (case e of
      WrotePolicy n q r \<Rightarrow> (\<exists>pol. activePolicy L pre pol \<and> n = om_Name pol \<and>
        q = desiredPolicyRequest pol \<and> mayWrite L pre pol \<and> needsWrite L pre pol)
    | _ \<Rightarrow> True)"

definition policy_delete_ok :: "KubeLib \<Rightarrow> PolicyEvent list \<Rightarrow> PolicyEvent \<Rightarrow> bool" where
  "policy_delete_ok L pre e = (case e of
      DeletedPolicy n r \<Rightarrow> (\<exists>pol. seen KPolicy pre pol \<and> \<not> notDeleted pol \<and>
        policyDeletionPolicy pol = DeletionPolicyDelete \<and> n = om_Name pol)
    | KPolicy (UpdatedObject ob r) \<Rightarrow>
        finalizerWrite L KPolicy (\<lambda>pol. IsDelete (policyDeletionPolicy pol))
          (\<lambda>pol. policyDeletionPolicy pol \<noteq> DeletionPolicyDelete \<or>
             list_ex (gone_policy L (om_Name pol)) pre) pre ob
    | _ \<Rightarrow> True)"

definition policy_ready_ok :: "KubeLib \<Rightarrow> PolicyEvent list \<Rightarrow> PolicyEvent \<Rightarrow> bool" where
  "policy_ready_ok L pre e = (case e of
      KPolicy (UpdatedStatus ob r) \<Rightarrow>
        (if readyTrue (pst_Conditions (po_Status ob)) then
          (\<exists>pol pol1 seen t1 t2. activePolicy L pre pol \<and> settledPolicy pre pol seen \<and>
            ob = readyPolicyStatus pol1 seen t1 t2 \<and> samePolicy pol1 pol)
         else True)
    | _ \<Rightarrow> True)"

text \<open>
  A policy is written in OpenBao only under the resource's own name and with its rules, for
  a live resource with a ready connection, when the resource acquired the policy before, or may
  adopt it, or it was absent and may be created; and only if it was absent or its rules differed.
\<close>

lemma policy_writes_only_owned: "guarded (policy_write_ok (pl_Lib R)) (policy_trace R req s)"
  by (rule guarded_mono [OF policy_trace_justified])
     (auto simp: policy_write_ok_def policy_justified.simps split: PolicyEvent.splits)

text \<open>
  A policy is deleted only under the name of a deleted resource with deletion policy Delete,
  and the finalizer is removed from such a resource only after OpenBao confirmed the deletion.
\<close>

lemma policy_deletion_discipline: "guarded (policy_delete_ok (pl_Lib R)) (policy_trace R req s)"
  by (rule guarded_mono [OF policy_trace_justified])
     (auto simp: policy_delete_ok_def policy_justified.simps split: PolicyEvent.splits KubeEvent.splits)

text \<open>
  Ready=True is written only with an observation of the policy whose rules are the desired
  ones, or that was read back after OpenBao accepted the desired rules; the status records the
  hash of the rules observed.
\<close>

lemma policy_ready_is_settled: "guarded (policy_ready_ok (pl_Lib R)) (policy_trace R req s)"
proof (rule guarded_mono [OF policy_trace_justified])
  fix pre e assume j: "policy_justified (pl_Lib R) pre e"
  show "policy_ready_ok (pl_Lib R) pre e"
  proof (cases "\<exists>ob r. e = KPolicy (UpdatedStatus ob r)")
    case True
    then obtain ob r where e: "e = KPolicy (UpdatedStatus ob r)" by blast
    from j show ?thesis
      by (simp only: e policy_justified.simps policy_ready_ok_def PolicyEvent.case KubeEvent.case)
  qed (auto simp: policy_ready_ok_def split: PolicyEvent.splits KubeEvent.splits)
qed


section \<open>Deletion does not ask for the acquisition\<close>

text \<open>
  A policy \<open>admin\<close> exists in OpenBao and belongs to someone else.  A resource of that name with
  creation policy Create is refused; its status never records a name.  Deleting the resource,
  whose deletion policy is Delete, still deletes the foreign policy.
\<close>

definition refusedPolicy :: "int option \<Rightarrow> OpenBaoPolicy" where
  "refusedPolicy deleted = \<lparr>om_Name = ''admin'', om_Namespace = ''ns'', om_Generation = 1,
     om_Finalizers = [finalizerName], om_DeletionTimestamp = deleted,
     po_Spec = \<lparr>pos_ConnectionRef = \<lparr>connref_Name = ''bao''\<rparr>, pos_CreationPolicy = ''Create'',
       pos_DeletionPolicy = ''Delete'', pos_DriftDetectionInterval = None, pos_Rules = ''path''\<rparr>,
     po_Status = \<lparr>pst_Name = '''', pst_RulesHash = '''', pst_Version = 0, pst_ObservedGeneration = 0,
       pst_Conditions = []\<rparr>\<rparr>"

definition foreignPolicyClient :: "unit PolicyClient" where
  "foreignPolicyClient =
     \<lparr>GetPolicy = (\<lambda>n. ret (Inr (Some \<lparr>p_Name = n, p_Rules = ''foreign'', p_Version = 3\<rparr>))),
      WritePolicy = (\<lambda>n q. ret None), DeletePolicy = (\<lambda>n. ret None)\<rparr>"

definition foreignPolicyReconciler :: "int option \<Rightarrow> unit PolicyReconciler" where
  "foreignPolicyReconciler deleted =
     \<lparr>pl_Lib = stdLib, pl_Policies = constKube (refusedPolicy deleted), pl_Connections = constKube readyConn,
      pl_Now = ret 9, pl_NewClient = Some (\<lambda>c. ret (Inr foreignPolicyClient)), pl_ClientCache = None,
      pl_connectionClientFor = (\<lambda>c. ret (Inl boom))\<rparr>"

definition writesPolicy :: "PolicyEvent \<Rightarrow> bool" where
  "writesPolicy e = (case e of WrotePolicy n q r \<Rightarrow> True | DeletedPolicy n r \<Rightarrow> True | _ \<Rightarrow> False)"


end
