(* ===== verification/AliasController.thy ===== *)
theory AliasController
  imports Observing BaoTypes
begin

text \<open>
  \<^verbatim>\<open>internal/controller/openbao/openbaoentityalias_controller.go\<close>: the reconciliation of
  an entity alias, which depends on a ready connection and on a ready entity whose identifier
  becomes the alias's canonical ID.  OpenBao offers no lookup by name, so
  \<^verbatim>\<open>findExistingAlias\<close> lists all aliases and reads them one by one.
\<close>

section \<open>The reconciler and its environment\<close>

record 's AliasReconciler =
  ar_Lib :: KubeLib
  ar_Aliases :: "('s, OpenBaoEntityAlias) KubeAPI"
  ar_Entities :: "('s, OpenBaoEntity) KubeAPI"
  ar_Connections :: "('s, OpenBaoConnection) KubeAPI"
  ar_Now :: "('s, int) state"
  ar_NewClient :: "(OpenBaoConnection \<Rightarrow> ('s, go_error + 's AliasClient) state) option"
  ar_ClientCache :: "(OpenBaoConnection \<Rightarrow> ('s, go_error + 's AliasClient) state) option"
  ar_connectionClientFor :: "OpenBaoConnection \<Rightarrow> ('s, go_error + 's AliasClient) state"

definition aliasAccess :: "(OpenBaoEntityAlias, OpenBaoEntityAliasStatus) StatusAccess" where
  "aliasAccess =
     \<lparr>sa_Status = al_Status,
      sa_setStatus = (\<lambda>st a. a\<lparr>al_Status := st\<rparr>),
      sa_Conditions = alst_Conditions,
      sa_setConditions = (\<lambda>cs st. st\<lparr>alst_Conditions := cs\<rparr>),
      sa_ObservedGeneration = alst_ObservedGeneration,
      sa_setObservedGeneration = (\<lambda>g st. st\<lparr>alst_ObservedGeneration := g\<rparr>)\<rparr>"

interpretation aliasStatus: status_object aliasAccess
  by unfold_locales (simp_all add: aliasAccess_def ObjectMeta.truncate_def)

section \<open>Helpers\<close>

definition desiredEntityAliasRequest :: "OpenBaoEntityAlias \<Rightarrow> string \<Rightarrow> EntityAliasRequest" where
  "desiredEntityAliasRequest alias entityID =
     \<lparr>ear_Name = als_Name (al_Spec alias),
      ear_MountAccessor = als_MountAccessor (al_Spec alias),
      ear_CanonicalID = entityID\<rparr>"

definition canonicalOf :: "EntityAlias \<Rightarrow> string" where
  "canonicalOf current = (if ea_CanonicalID current = '''' then ea_EntityID current else ea_CanonicalID current)"

definition entityAliasMatches :: "EntityAliasRequest \<Rightarrow> EntityAlias \<Rightarrow> bool" where
  "entityAliasMatches desired current \<longleftrightarrow>
     ea_Name current = ear_Name desired \<and> ea_MountAccessor current = ear_MountAccessor desired \<and>
     canonicalOf current = ear_CanonicalID desired"

definition observeEntityAliasStatus :: "OpenBaoEntityAlias \<Rightarrow> EntityAlias \<Rightarrow> OpenBaoEntityAlias" where
  "observeEntityAliasStatus alias observed = alias\<lparr>al_Status := (al_Status alias)
     \<lparr>alst_ID := ea_ID observed,
      alst_CanonicalID := canonicalOf observed,
      alst_Name := ea_Name observed,
      alst_MountAccessor := ea_MountAccessor observed,
      alst_ObservedGeneration := om_Generation alias\<rparr>\<rparr>"

definition aliasDriftInterval :: "OpenBaoEntityAlias \<Rightarrow> int" where
  "aliasDriftInterval alias = (case als_DriftDetectionInterval (al_Spec alias) of
      None \<Rightarrow> defaultDriftCheck | Some d \<Rightarrow> d)"

definition aliasCreationPolicy :: "OpenBaoEntityAlias \<Rightarrow> CreationPolicy" where
  "aliasCreationPolicy alias =
     (if als_CreationPolicy (al_Spec alias) = '''' then CreationPolicyCreate
      else als_CreationPolicy (al_Spec alias))"

definition aliasDeletionPolicy :: "OpenBaoEntityAlias \<Rightarrow> DeletionPolicy" where
  "aliasDeletionPolicy alias =
     (if als_DeletionPolicy (al_Spec alias) = '''' then DeletionPolicyOrphan
      else als_DeletionPolicy (al_Spec alias))"

section \<open>The controller\<close>

definition clientFor_alias ::
  "'s AliasReconciler \<Rightarrow> OpenBaoConnection \<Rightarrow> ('s, go_error + 's AliasClient) state" where
  "clientFor_alias R connection =
     clientForWith (ar_NewClient R) (ar_ClientCache R) (ar_connectionClientFor R) connection"

definition dependencyFailure_alias ::
  "'s AliasReconciler \<Rightarrow> OpenBaoEntityAlias \<Rightarrow> go_error \<Rightarrow> ('s, outcome) state" where
  "dependencyFailure_alias R alias err =
     dependencyFailureWith aliasAccess (ar_Now R) (k_StatusUpdate (ar_Aliases R)) alias err"

definition fail_alias ::
  "'s AliasReconciler \<Rightarrow> OpenBaoEntityAlias \<Rightarrow> string \<Rightarrow> go_error \<Rightarrow> ('s, outcome) state" where
  "fail_alias R alias reason err =
     failWith aliasAccess (ar_Now R) (k_StatusUpdate (ar_Aliases R)) alias reason err"

definition setAliasID :: "string \<Rightarrow> OpenBaoEntityAlias \<Rightarrow> OpenBaoEntityAlias" where
  "setAliasID newID alias = alias\<lparr>al_Status := (al_Status alias)\<lparr>alst_ID := newID\<rparr>\<rparr>"

definition bearsKey :: "OpenBaoEntityAlias \<Rightarrow> EntityAlias \<Rightarrow> bool" where
  "bearsKey alias candidate \<longleftrightarrow>
     ea_Name candidate = als_Name (al_Spec alias) \<and>
     ea_MountAccessor candidate = als_MountAccessor (al_Spec alias)"

text \<open>The loop of \<^verbatim>\<open>findExistingAlias\<close>; \<open>found\<close> is the match so far.\<close>

fun scanAliases ::
  "KubeLib \<Rightarrow> OpenBaoEntityAlias \<Rightarrow> 's AliasClient \<Rightarrow> string list \<Rightarrow> EntityAlias option
     \<Rightarrow> ('s, go_error + EntityAlias option) state" where
  "scanAliases L alias apiClient [] found = ret (Inr found)"
| "scanAliases L alias apiClient (i # ids) found =
     (if i = '''' then scanAliases L alias apiClient ids found
      else do {
        r \<leftarrow> GetEntityAliasByID apiClient i;
        case r of
          Inl err \<Rightarrow>
            if isNotFound L err then scanAliases L alias apiClient ids found
            else ret (Inl err)
        | Inr None \<Rightarrow> scanAliases L alias apiClient ids found
        | Inr (Some candidate) \<Rightarrow>
            if \<not> bearsKey alias candidate then scanAliases L alias apiClient ids found
            else if found \<noteq> None then
              ret (Inl (Errorf (''OpenBao returned multiple entity aliases named '' @
                fmt_q (als_Name (al_Spec alias)) @ '' for mount accessor '' @
                fmt_q (als_MountAccessor (al_Spec alias)))))
            else scanAliases L alias apiClient ids (Some candidate)
      })"

definition findExistingAlias ::
  "KubeLib \<Rightarrow> OpenBaoEntityAlias \<Rightarrow> 's AliasClient \<Rightarrow> ('s, go_error + EntityAlias option) state" where
  "findExistingAlias L alias apiClient = do {
     r \<leftarrow> ListEntityAliasIDs apiClient;
     case r of
       Inl err \<Rightarrow> if isNotFound L err then ret (Inr None) else ret (Inl err)
     | Inr ids \<Rightarrow> scanAliases L alias apiClient ids None
   }"

text \<open>As for entities, \<^verbatim>\<open>acquire\<close> calls itself once with the identifier cleared.\<close>

function acquire_alias ::
  "KubeLib \<Rightarrow> OpenBaoEntityAlias \<Rightarrow> string \<Rightarrow> 's AliasClient
     \<Rightarrow> ('s, OpenBaoEntityAlias \<times> (go_error + EntityAlias option)) state" where
  "acquire_alias L alias entityID apiClient =
     (if alst_ID (al_Status alias) \<noteq> '''' then do {
        r \<leftarrow> GetEntityAliasByID apiClient (alst_ID (al_Status alias));
        case r of
          Inl err \<Rightarrow>
            if isNotFound L err then acquire_alias L (setAliasID '''' alias) entityID apiClient
            else ret (alias, Inl err)
        | Inr observed \<Rightarrow> ret (alias, Inr observed)
      } else do {
        r \<leftarrow> findExistingAlias L alias apiClient;
        case r of
          Inl err \<Rightarrow> ret (alias, Inl err)
        | Inr (Some observed) \<Rightarrow>
            if \<not> AllowsAdoption (aliasCreationPolicy alias) then
              ret (alias, Inl (Errorf (''OpenBao entity alias '' @ fmt_q (als_Name (al_Spec alias)) @
                '' already exists for mount accessor '' @ fmt_q (als_MountAccessor (al_Spec alias)) @
                ''; set creationPolicy to Adopt or CreateOrAdopt to manage it'')))
            else if ea_ID observed = '''' then
              ret (alias, Inl (Errorf (''OpenBao returned an entity alias named '' @
                fmt_q (als_Name (al_Spec alias)) @ '' without an ID'')))
            else ret (setAliasID (ea_ID observed) alias, Inr (Some observed))
        | Inr None \<Rightarrow>
            if \<not> AllowsCreation (aliasCreationPolicy alias) then
              ret (alias, Inl (Errorf (''OpenBao entity alias '' @ fmt_q (als_Name (al_Spec alias)) @
                '' does not exist and creationPolicy='' @ aliasCreationPolicy alias @
                '' does not allow creation'')))
            else do {
              c \<leftarrow> CreateEntityAlias apiClient (desiredEntityAliasRequest alias entityID);
              case c of
                Inl err \<Rightarrow> ret (alias, Inl err)
              | Inr newID \<Rightarrow>
                  if newID = '''' then
                    ret (alias, Inl (Errorf (''OpenBao returned an empty ID when creating entity alias '' @
                      fmt_q (als_Name (al_Spec alias)))))
                  else do {
                    g \<leftarrow> GetEntityAliasByID apiClient newID;
                    ret (setAliasID newID alias, g)
                  }
            }
      })"
  by pat_completeness auto
termination
  by (relation "measure (\<lambda>(L, alias, i, c). length (alst_ID (al_Status alias)))")
     (auto simp: setAliasID_def)

declare acquire_alias.simps [simp del]

definition reconcileDeletion_alias ::
  "'s AliasReconciler \<Rightarrow> OpenBaoEntityAlias \<Rightarrow> ('s, outcome) state" where
  "reconcileDeletion_alias R alias =
     (if aliasDeletionPolicy alias \<noteq> DeletionPolicyDelete \<or> alst_ID (al_Status alias) = '''' then do {
        e \<leftarrow> removeFinalizer (ar_Lib R) (k_Update (ar_Aliases R)) alias;
        ret (noRequeue, e)
      } else do {
        let before = al_Status alias;
        let alias = alias\<lparr>al_Status := (al_Status alias)\<lparr>alst_ObservedGeneration := om_Generation alias\<rparr>\<rparr>;
        r \<leftarrow> resolveConnection (ar_Connections R) (om_Namespace alias) (als_ConnectionRef (al_Spec alias));
        case r of
          Inl err \<Rightarrow>
            recordCleanupFailure aliasAccess (ar_Now R) (k_StatusUpdate (ar_Aliases R)) alias before
              reasonCleanupDependencyUnavailable (cleanupDependencyError ''OpenBaoConnection'' err)
        | Inr connection \<Rightarrow> do {
            c \<leftarrow> clientFor_alias R connection;
            case c of
              Inl err \<Rightarrow>
                recordCleanupFailure aliasAccess (ar_Now R) (k_StatusUpdate (ar_Aliases R)) alias before
                  reasonCleanupDependencyUnavailable
                  (cleanupDependencyError ''OpenBaoConnection credentials'' err)
            | Inr apiClient \<Rightarrow> do {
                d \<leftarrow> DeleteEntityAlias apiClient (alst_ID (al_Status alias));
                case d of
                  Some err \<Rightarrow>
                    if \<not> isNotFound (ar_Lib R) err then
                      recordCleanupFailure aliasAccess (ar_Now R) (k_StatusUpdate (ar_Aliases R)) alias before
                        ''CleanupFailed'' err
                    else do {
                      e \<leftarrow> removeFinalizer (ar_Lib R) (k_Update (ar_Aliases R)) alias;
                      ret (noRequeue, e)
                    }
                | None \<Rightarrow> do {
                    e \<leftarrow> removeFinalizer (ar_Lib R) (k_Update (ar_Aliases R)) alias;
                    ret (noRequeue, e)
                  }
              }
          }
      })"

definition readyAliasStatus :: "OpenBaoEntityAlias \<Rightarrow> EntityAlias \<Rightarrow> int \<Rightarrow> int \<Rightarrow> OpenBaoEntityAlias" where
  "readyAliasStatus alias observed now1 now2 =
     (let alias = observeEntityAliasStatus alias observed
      in alias\<lparr>al_Status := (al_Status alias)\<lparr>alst_Conditions :=
           markReady (alst_Conditions (al_Status alias)) (om_Generation alias)
             ''OpenBao entity alias is reconciled'' now1 now2\<rparr>\<rparr>)"

text \<open>The identity check, which the source makes before and after an update.\<close>

definition aliasMismatch :: "OpenBaoEntityAlias \<Rightarrow> EntityAlias \<Rightarrow> go_error option" where
  "aliasMismatch alias observed =
     (if ea_Name observed \<noteq> '''' \<and> ea_Name observed \<noteq> als_Name (al_Spec alias) then
        Some (Errorf (''OpenBao alias '' @ fmt_q (alst_ID (al_Status alias)) @ '' is named '' @
          fmt_q (ea_Name observed) @ '', expected '' @ fmt_q (als_Name (al_Spec alias))))
      else if ea_MountAccessor observed \<noteq> '''' \<and> ea_MountAccessor observed \<noteq> als_MountAccessor (al_Spec alias) then
        Some (Errorf (''OpenBao alias '' @ fmt_q (alst_ID (al_Status alias)) @ '' uses mount accessor '' @
          fmt_q (ea_MountAccessor observed) @ '', expected '' @ fmt_q (als_MountAccessor (al_Spec alias))))
      else None)"

definition finish_alias ::
  "'s AliasReconciler \<Rightarrow> OpenBaoEntityAliasStatus \<Rightarrow> OpenBaoEntityAlias \<Rightarrow> EntityAlias \<Rightarrow> ('s, outcome) state" where
  "finish_alias R before alias observed = (case aliasMismatch alias observed of
      Some err \<Rightarrow> fail_alias R alias ''AliasIdentityMismatch'' err
    | None \<Rightarrow> do {
        t1 \<leftarrow> ar_Now R;
        t2 \<leftarrow> ar_Now R;
        let alias = readyAliasStatus alias observed t1 t2;
        r \<leftarrow> updateStatusIfChanged (k_StatusUpdate (ar_Aliases R)) alias before (al_Status alias);
        case r of
          Inl err \<Rightarrow> ret (noRequeue, Some err)
        | Inr alias \<Rightarrow> ret (requeueIn (aliasDriftInterval alias), None)
      })"

text \<open>An update only moves the alias to the entity: it sends the canonical ID and nothing else.\<close>

definition sync_alias ::
  "'s AliasReconciler \<Rightarrow> 's AliasClient \<Rightarrow> OpenBaoEntityAliasStatus \<Rightarrow> OpenBaoEntityAlias \<Rightarrow> string
     \<Rightarrow> EntityAlias option \<Rightarrow> ('s, outcome) state" where
  "sync_alias R apiClient before alias entityID acquired = (case acquired of
      None \<Rightarrow> fail_alias R alias ''InvalidOpenBaoResponse''
        (Errorf (''OpenBao returned no alias for '' @ fmt_q (als_Name (al_Spec alias))))
    | Some observed \<Rightarrow> (case aliasMismatch alias observed of
        Some err \<Rightarrow> fail_alias R alias ''AliasIdentityMismatch'' err
      | None \<Rightarrow> do {
          let desired = desiredEntityAliasRequest alias entityID;
          if entityAliasMatches desired observed then finish_alias R before alias observed
          else do {
            u \<leftarrow> UpdateEntityAlias apiClient (alst_ID (al_Status alias))
              \<lparr>ear_Name = '''', ear_MountAccessor = '''', ear_CanonicalID = ear_CanonicalID desired\<rparr>;
            case u of
              Inl err \<Rightarrow> fail_alias R alias ''AliasUpdateFailed'' err
            | Inr None \<Rightarrow> fail_alias R alias ''InvalidOpenBaoResponse''
                (Errorf (''OpenBao returned no alias after updating '' @ fmt_q (alst_ID (al_Status alias))))
            | Inr (Some _) \<Rightarrow> do {
                g \<leftarrow> GetEntityAliasByID apiClient (alst_ID (al_Status alias));
                case g of
                  Inl err \<Rightarrow> fail_alias R alias ''AliasReadFailed'' err
                | Inr None \<Rightarrow> nilPanic
                | Inr (Some observed) \<Rightarrow> finish_alias R before alias observed
              }
          }
        }))"

definition reconcileActive_alias ::
  "'s AliasReconciler \<Rightarrow> OpenBaoEntityAliasStatus \<Rightarrow> OpenBaoEntityAlias \<Rightarrow> ('s, outcome) state" where
  "reconcileActive_alias R before alias = do {
     let alias = alias\<lparr>al_Status := (al_Status alias)\<lparr>alst_ObservedGeneration := om_Generation alias\<rparr>\<rparr>;
     let ref = als_ConnectionRef (al_Spec alias);
     r \<leftarrow> resolveConnection (ar_Connections R) (om_Namespace alias) ref;
     case r of
       Inl err \<Rightarrow> dependencyFailure_alias R alias
         (Wrapf (''read OpenBaoConnection '' @ om_Namespace alias @ ''/'' @ connref_Name ref) err)
     | Inr connection \<Rightarrow>
         if \<not> IsStatusConditionTrue (ar_Lib R) (cnst_Conditions (cn_Status connection)) conditionReady then
           dependencyFailure_alias R alias
             (dependencyMessage ''OpenBaoConnection'' (ObjectKey connection) None)
         else do {
           let eref = als_EntityRef (al_Spec alias);
           e \<leftarrow> resolveEntity (ar_Entities R) (om_Namespace alias) eref;
           case e of
             Inl err \<Rightarrow> dependencyFailure_alias R alias
               (Wrapf (''read OpenBaoEntity '' @ om_Namespace alias @ ''/'' @ entref_Name eref) err)
           | Inr entity \<Rightarrow>
               if \<not> IsStatusConditionTrue (ar_Lib R) (est_Conditions (en_Status entity)) conditionReady
                  \<or> est_ID (en_Status entity) = '''' then
                 dependencyFailure_alias R alias
                   (dependencyMessage ''OpenBaoEntity'' (ObjectKey entity) None)
               else do {
                 c \<leftarrow> clientFor_alias R connection;
                 case c of
                   Inl err \<Rightarrow> dependencyFailure_alias R alias err
                 | Inr apiClient \<Rightarrow> do {
                     (alias, a) \<leftarrow> acquire_alias (ar_Lib R) alias (est_ID (en_Status entity)) apiClient;
                     case a of
                       Inl err \<Rightarrow> fail_alias R alias ''AliasAcquireFailed'' err
                     | Inr observed \<Rightarrow> sync_alias R apiClient before alias (est_ID (en_Status entity)) observed
                   }
               }
         }
   }"

definition Reconcile_alias :: "'s AliasReconciler \<Rightarrow> NamespacedName \<Rightarrow> ('s, outcome) state" where
  "Reconcile_alias R req = do {
     r \<leftarrow> k_Get (ar_Aliases R) req;
     case r of
       Inl err \<Rightarrow>
         if apierrors_IsNotFound (ar_Lib R) err then ret (noRequeue, None)
         else ret (noRequeue, Some err)
     | Inr alias \<Rightarrow> do {
         let before = al_Status alias;
         f \<leftarrow> (if notDeleted alias \<and> IsDelete (aliasDeletionPolicy alias)
              then ensureFinalizer (ar_Lib R) (k_Update (ar_Aliases R)) alias
              else ret (Inr alias));
         case f of
           Inl err \<Rightarrow> ret (noRequeue, Some err)
         | Inr alias \<Rightarrow>
             if \<not> notDeleted alias then reconcileDeletion_alias R alias
             else reconcileActive_alias R before alias
       }
   }"

definition mapConnectionToAliases ::
  "'s AliasReconciler \<Rightarrow> 'a ObjectMeta_scheme \<Rightarrow> ('s, NamespacedName list) state" where
  "mapConnectionToAliases R obj = do {
     r \<leftarrow> k_List (ar_Aliases R) (om_Namespace obj);
     case r of
       Inl _ \<Rightarrow> ret []
     | Inr items \<Rightarrow> ret (map ObjectKey
         (filter (\<lambda>alias. connref_Name (als_ConnectionRef (al_Spec alias)) = om_Name obj) items))
   }"

definition mapEntityToAliases ::
  "'s AliasReconciler \<Rightarrow> 'a ObjectMeta_scheme \<Rightarrow> ('s, NamespacedName list) state" where
  "mapEntityToAliases R obj = do {
     r \<leftarrow> k_List (ar_Aliases R) (om_Namespace obj);
     case r of
       Inl _ \<Rightarrow> ret []
     | Inr items \<Rightarrow> ret (map ObjectKey
         (filter (\<lambda>alias. entref_Name (als_EntityRef (al_Spec alias)) = om_Name obj) items))
   }"

end
