(* ===== verification/AliasProperties.thy ===== *)
theory AliasProperties
  imports AliasController Examples
begin

text \<open>
  What a reconciliation of an entity alias may do, observed through its calls, for every
  behaviour of the environment: the search for an existing alias is exhaustive before one is
  created, adoption takes the only alias that bears the key, and the guards of updates,
  deletions and the finalizer are those of the entity controller.
\<close>

section \<open>Observing a run\<close>

datatype AliasEvent =
    KAlias "OpenBaoEntityAlias KubeEvent"
  | KAliEntity "OpenBaoEntity KubeEvent"
  | KAliConnection "OpenBaoConnection KubeEvent"
  | MadeAliasClient OpenBaoConnection "go_error option"
  | ListedAliases "go_error + string list"
  | GotAlias string "go_error + EntityAlias option"
  | CreatedAlias EntityAliasRequest "go_error + string"
  | UpdatedAlias string EntityAliasRequest "go_error + EntityAlias option"
  | DeletedAlias string "go_error option"

definition logAliasClient :: "'s AliasClient \<Rightarrow> ('s \<times> AliasEvent list) AliasClient" where
  "logAliasClient c =
     \<lparr>ListEntityAliasIDs = logged ListedAliases (ListEntityAliasIDs c),
      GetEntityAliasByID = (\<lambda>i. logged (GotAlias i) (GetEntityAliasByID c i)),
      CreateEntityAlias = (\<lambda>q. logged (CreatedAlias q) (CreateEntityAlias c q)),
      UpdateEntityAlias = (\<lambda>i q. logged (UpdatedAlias i q) (UpdateEntityAlias c i q)),
      DeleteEntityAlias = (\<lambda>i. logged (DeletedAlias i) (DeleteEntityAlias c i))\<rparr>"

lemma logAliasClient_sel [simp]:
  "ListEntityAliasIDs (logAliasClient c) = logged ListedAliases (ListEntityAliasIDs c)"
  "GetEntityAliasByID (logAliasClient c) i = logged (GotAlias i) (GetEntityAliasByID c i)"
  "CreateEntityAlias (logAliasClient c) q = logged (CreatedAlias q) (CreateEntityAlias c q)"
  "UpdateEntityAlias (logAliasClient c) i q = logged (UpdatedAlias i q) (UpdateEntityAlias c i q)"
  "DeleteEntityAlias (logAliasClient c) i = logged (DeletedAlias i) (DeleteEntityAlias c i)"
  by (simp_all add: logAliasClient_def)

definition logAliasReconciler :: "'s AliasReconciler \<Rightarrow> ('s \<times> AliasEvent list) AliasReconciler" where
  "logAliasReconciler R =
     \<lparr>ar_Lib = ar_Lib R,
      ar_Aliases = logKube KAlias (ar_Aliases R),
      ar_Entities = logKube KAliEntity (ar_Entities R),
      ar_Connections = logKube KAliConnection (ar_Connections R),
      ar_Now = silent (ar_Now R),
      ar_NewClient = map_option (logClientFor MadeAliasClient logAliasClient) (ar_NewClient R),
      ar_ClientCache = map_option (logClientFor MadeAliasClient logAliasClient) (ar_ClientCache R),
      ar_connectionClientFor = logClientFor MadeAliasClient logAliasClient (ar_connectionClientFor R)\<rparr>"

lemma logAliasReconciler_sel [simp]:
  "ar_Lib (logAliasReconciler R) = ar_Lib R"
  "ar_Aliases (logAliasReconciler R) = logKube KAlias (ar_Aliases R)"
  "ar_Entities (logAliasReconciler R) = logKube KAliEntity (ar_Entities R)"
  "ar_Connections (logAliasReconciler R) = logKube KAliConnection (ar_Connections R)"
  "ar_Now (logAliasReconciler R) = silent (ar_Now R)"
  by (simp_all add: logAliasReconciler_def)

lemma wp_clientFor_aliasI:
  assumes "\<And>e s'. Q (Inl e) (s', tr @ [MadeAliasClient connection (Some e)])"
    and "\<And>c s'. Q (Inr (logAliasClient c)) (s', tr @ [MadeAliasClient connection None])"
  shows "wp (clientFor_alias (logAliasReconciler R) connection) Q (s, tr)"
  unfolding clientFor_alias_def logAliasReconciler_def AliasReconciler.simps
  by (intro wp_clientForWithI assms)

definition alias_run ::
  "'s AliasReconciler \<Rightarrow> NamespacedName \<Rightarrow> 's \<Rightarrow> outcome \<times> 's \<times> AliasEvent list" where
  "alias_run R req s = run_state (Reconcile_alias (logAliasReconciler R) req) (s, [])"

definition alias_trace :: "'s AliasReconciler \<Rightarrow> NamespacedName \<Rightarrow> 's \<Rightarrow> AliasEvent list" where
  "alias_trace R req s = snd (snd (alias_run R req s))"

section \<open>What justifies a call\<close>

fun readyEntityIn :: "KubeLib \<Rightarrow> string \<Rightarrow> AliasEvent \<Rightarrow> bool" where
  "readyEntityIn L cid (KAliEntity (GotObject nn (Inr ent))) =
     (IsStatusConditionTrue L (est_Conditions (en_Status ent)) conditionReady \<and>
      est_ID (en_Status ent) = cid \<and> cid \<noteq> '''')"
| "readyEntityIn L cid e = False"

text \<open>A live resource whose connection is ready and whose entity is ready with the identifier \<open>cid\<close>.\<close>

definition activeAlias :: "KubeLib \<Rightarrow> AliasEvent list \<Rightarrow> OpenBaoEntityAlias \<Rightarrow> string \<Rightarrow> bool" where
  "activeAlias L pre al cid \<longleftrightarrow>
     live L KAlias KAliConnection (\<lambda>al. IsDelete (aliasDeletionPolicy al)) pre al \<and>
     list_ex (readyEntityIn L cid) pre"

text \<open>An answer that shows an identifier not to belong to an alias with the resource's key.\<close>

fun otherAlias :: "KubeLib \<Rightarrow> OpenBaoEntityAlias \<Rightarrow> string \<Rightarrow> AliasEvent \<Rightarrow> bool" where
  "otherAlias L al i (GotAlias j (Inl err)) = (j = i \<and> isNotFound L err)"
| "otherAlias L al i (GotAlias j (Inr None)) = (j = i)"
| "otherAlias L al i (GotAlias j (Inr (Some ob))) = (j = i \<and> \<not> bearsKey al ob)"
| "otherAlias L al i e = False"

text \<open>The search was exhaustive: every identifier listed was read and is another alias.\<close>

definition searched :: "KubeLib \<Rightarrow> AliasEvent list \<Rightarrow> OpenBaoEntityAlias \<Rightarrow> bool" where
  "searched L pre al \<longleftrightarrow>
     (\<exists>err. ListedAliases (Inl err) \<in> set pre \<and> isNotFound L err) \<or>
     (\<exists>ids. ListedAliases (Inr ids) \<in> set pre \<and>
        (\<forall>i. i \<in> set ids \<and> i \<noteq> '''' \<longrightarrow> list_ex (otherAlias L al i) pre))"

definition ownedAlias :: "AliasEvent list \<Rightarrow> OpenBaoEntityAlias \<Rightarrow> string \<Rightarrow> bool" where
  "ownedAlias pre al i \<longleftrightarrow> i \<noteq> '''' \<and>
     (i = alst_ID (al_Status al)
      \<or> (\<exists>q. CreatedAlias q (Inr i) \<in> set pre)
      \<or> (\<exists>j ob. GotAlias j (Inr (Some ob)) \<in> set pre \<and> bearsKey al ob \<and> ea_ID ob = i \<and>
           AllowsAdoption (aliasCreationPolicy al)))"

definition observedAlias :: "AliasEvent list \<Rightarrow> string \<Rightarrow> EntityAlias \<Rightarrow> bool" where
  "observedAlias pre i ob \<longleftrightarrow> GotAlias i (Inr (Some ob)) \<in> set pre \<or>
     (ea_ID ob = i \<and> (\<exists>j. GotAlias j (Inr (Some ob)) \<in> set pre))"

text \<open>The update request: the canonical ID alone.\<close>

definition moveTo :: "string \<Rightarrow> EntityAliasRequest" where
  "moveTo cid = \<lparr>ear_Name = '''', ear_MountAccessor = '''', ear_CanonicalID = cid\<rparr>"

definition keyCompatible :: "OpenBaoEntityAlias \<Rightarrow> EntityAlias \<Rightarrow> bool" where
  "keyCompatible al ob \<longleftrightarrow>
     (ea_Name ob = '''' \<or> ea_Name ob = als_Name (al_Spec al)) \<and>
     (ea_MountAccessor ob = '''' \<or> ea_MountAccessor ob = als_MountAccessor (al_Spec al))"

definition settledAlias :: "AliasEvent list \<Rightarrow> OpenBaoEntityAlias \<Rightarrow> string \<Rightarrow> EntityAlias \<Rightarrow> bool" where
  "settledAlias tr al cid ob \<longleftrightarrow> keyCompatible al ob \<and> (\<exists>i. ownedAlias tr al i \<and> observedAlias tr i ob \<and>
     (entityAliasMatches (desiredEntityAliasRequest al cid) ob \<or>
      (\<exists>x. UpdatedAlias i (moveTo cid) (Inr (Some x)) \<in> set tr)))"

definition sameAlias :: "OpenBaoEntityAlias \<Rightarrow> OpenBaoEntityAlias \<Rightarrow> bool" where
  "sameAlias a b \<longleftrightarrow> ObjectMeta.truncate a = ObjectMeta.truncate b \<and> al_Spec a = al_Spec b"

fun goneAlias :: "KubeLib \<Rightarrow> string \<Rightarrow> AliasEvent \<Rightarrow> bool" where
  "goneAlias L i (DeletedAlias j d) = (j = i \<and> confirmedGone L d)"
| "goneAlias L i e = False"

fun createsAlias :: "AliasEvent \<Rightarrow> bool" where
  "createsAlias (CreatedAlias q r) = True"
| "createsAlias e = False"

fun alias_justified :: "KubeLib \<Rightarrow> AliasEvent list \<Rightarrow> AliasEvent \<Rightarrow> bool" where
  "alias_justified L pre (CreatedAlias q r) =
     (\<exists>al cid. activeAlias L pre al cid \<and> AllowsCreation (aliasCreationPolicy al) \<and>
        q = desiredEntityAliasRequest al cid \<and> searched L pre al \<and> \<not> list_ex createsAlias pre)"
| "alias_justified L pre (UpdatedAlias i q r) =
     (\<exists>al cid ob. activeAlias L pre al cid \<and> ownedAlias pre al i \<and> observedAlias pre i ob \<and>
        keyCompatible al ob \<and> \<not> entityAliasMatches (desiredEntityAliasRequest al cid) ob \<and> q = moveTo cid)"
| "alias_justified L pre (DeletedAlias i r) =
     (\<exists>al. seen KAlias pre al \<and> \<not> notDeleted al \<and>
        aliasDeletionPolicy al = DeletionPolicyDelete \<and> i = alst_ID (al_Status al) \<and> i \<noteq> '''')"
| "alias_justified L pre (KAlias (UpdatedObject ob r)) =
     finalizerWrite L KAlias (\<lambda>al. IsDelete (aliasDeletionPolicy al))
       (\<lambda>al. aliasDeletionPolicy al \<noteq> DeletionPolicyDelete \<or> alst_ID (al_Status al) = '''' \<or>
          list_ex (goneAlias L (alst_ID (al_Status al))) pre) pre ob"
| "alias_justified L pre (KAlias (UpdatedStatus ob r)) =
     (if readyTrue (alst_Conditions (al_Status ob)) then
       (\<exists>al al1 cid obs t1 t2. activeAlias L pre al cid \<and> settledAlias pre al cid obs \<and>
          ob = readyAliasStatus al1 obs t1 t2 \<and> sameAlias al1 al)
      else True)"
| "alias_justified L pre (GotAlias i r) = (\<exists>al cid. activeAlias L pre al cid)"
| "alias_justified L pre (ListedAliases r) = (\<exists>al cid. activeAlias L pre al cid)"
| "alias_justified L pre e = True"

lemma activeAlias_mono [simp]: "activeAlias L pre al cid \<Longrightarrow> activeAlias L (pre @ es) al cid"
  by (simp add: activeAlias_def)

lemma ownedAlias_mono [simp]: "ownedAlias pre al i \<Longrightarrow> ownedAlias (pre @ es) al i"
  by (auto simp: ownedAlias_def)

lemma observedAlias_mono [simp]: "observedAlias pre i ob \<Longrightarrow> observedAlias (pre @ es) i ob"
  by (auto simp: observedAlias_def)

lemma sameAlias_simps [simp]:
  "sameAlias a a" "sameAlias (a\<lparr>al_Status := st\<rparr>) b = sameAlias a b"
  "sameAlias (setAliasID i a) b = sameAlias a b" "alst_ID (al_Status (setAliasID i a)) = i"
  by (simp_all add: sameAlias_def ObjectMeta.truncate_def setAliasID_def)

lemma sameAlias_fields:
  assumes "sameAlias a b"
  shows "al_Spec a = al_Spec b" "desiredEntityAliasRequest a = desiredEntityAliasRequest b"
    "aliasCreationPolicy a = aliasCreationPolicy b" "aliasDeletionPolicy a = aliasDeletionPolicy b"
    "bearsKey a = bearsKey b"
  using assms by (simp_all add: sameAlias_def ObjectMeta.truncate_def desiredEntityAliasRequest_def
      aliasCreationPolicy_def aliasDeletionPolicy_def fun_eq_iff bearsKey_def)

lemma aliasAccess_sel [simp]:
  "sa_Status aliasAccess a = al_Status a" "sa_setStatus aliasAccess st a = a\<lparr>al_Status := st\<rparr>"
  "sa_Conditions aliasAccess st = alst_Conditions st"
  by (simp_all add: aliasAccess_def)

lemma aliasMismatch_None: "aliasMismatch a ob = None \<longleftrightarrow> keyCompatible a ob"
  by (auto simp: aliasMismatch_def keyCompatible_def)

lemma keyCompatible_same: "sameAlias a b \<Longrightarrow> keyCompatible a = keyCompatible b"
  by (simp add: keyCompatible_def fun_eq_iff sameAlias_fields)

text \<open>Introduction rules for the justifications.\<close>

lemma alias_status_unready:
  "\<not> readyTrue (sa_Conditions aliasAccess (sa_Status aliasAccess ob))
     \<Longrightarrow> alias_justified L tr (KAlias (UpdatedStatus ob r))"
  by simp

lemmas alias_failure_rules =
  aliasStatus.wp_fail_guarded [where J = "alias_justified L" and ev = KAlias for L, OF _ alias_status_unready]
  aliasStatus.wp_dependencyFailure_guarded [where J = "alias_justified L" and ev = KAlias for L, OF _ alias_status_unready]
  aliasStatus.wp_cleanupFailure_guarded [where J = "alias_justified L" and ev = KAlias for L, OF _ alias_status_unready]

lemma alias_read_justified:
  "activeAlias L pre al cid \<Longrightarrow> alias_justified L pre (GotAlias i r)"
  "activeAlias L pre al cid \<Longrightarrow> alias_justified L pre (ListedAliases l)"
  by auto

lemma alias_create_justified:
  "activeAlias L pre al cid \<Longrightarrow> AllowsCreation (aliasCreationPolicy al)
     \<Longrightarrow> q = desiredEntityAliasRequest al cid \<Longrightarrow> searched L pre al \<Longrightarrow> \<not> list_ex createsAlias pre
     \<Longrightarrow> alias_justified L pre (CreatedAlias q r)"
  by auto

lemma alias_update_justified:
  "activeAlias L pre al cid \<Longrightarrow> ownedAlias pre al i \<Longrightarrow> observedAlias pre i ob \<Longrightarrow> keyCompatible al ob
     \<Longrightarrow> \<not> entityAliasMatches (desiredEntityAliasRequest al cid) ob \<Longrightarrow> q = moveTo cid
     \<Longrightarrow> alias_justified L pre (UpdatedAlias i q r)"
  by auto

lemma alias_ready_justified:
  "activeAlias L pre al cid \<Longrightarrow> settledAlias pre al cid ob \<Longrightarrow> sameAlias al1 al
     \<Longrightarrow> alias_justified L pre (KAlias (UpdatedStatus (readyAliasStatus al1 ob t1 t2) r))"
  unfolding alias_justified.simps
  by (cases "readyTrue (alst_Conditions (al_Status (readyAliasStatus al1 ob t1 t2)))")
     (simp_all only: if_True if_False, blast)

declare alias_justified.simps(1-7) [simp del]

section \<open>The search for an existing alias\<close>

fun isRead :: "AliasEvent \<Rightarrow> bool" where
  "isRead (GotAlias i r) = True"
| "isRead e = False"

text \<open>
  What \<open>scanAliases\<close> has established when it returns: it only read, and with no match every
  non-empty identifier is known to be another alias.
\<close>

definition scanned ::
  "KubeLib \<Rightarrow> OpenBaoEntityAlias \<Rightarrow> string list \<Rightarrow> EntityAlias option \<Rightarrow> (go_error + EntityAlias option)
     \<Rightarrow> AliasEvent list \<Rightarrow> AliasEvent list \<Rightarrow> bool" where
  "scanned L al ids found r tr tr' \<longleftrightarrow> guarded (alias_justified L) tr' \<and>
     (\<exists>es. tr' = tr @ es \<and> list_all isRead es \<and>
       (case r of
          Inl e \<Rightarrow> True
        | Inr None \<Rightarrow> found = None \<and> (\<forall>i. i \<in> set ids \<and> i \<noteq> '''' \<longrightarrow> list_ex (otherAlias L al i) es)
        | Inr (Some ob) \<Rightarrow> found = Some ob \<or> (\<exists>j. GotAlias j (Inr (Some ob)) \<in> set es \<and> bearsKey al ob)))"

lemma scanned_step:
  assumes "scanned L al ids found' r (tr @ [GotAlias i a]) tr'"
    and "found' = found \<or> (\<exists>ob. found' = Some ob \<and> a = Inr (Some ob) \<and> bearsKey al ob)"
    and "found' = None \<Longrightarrow> otherAlias L al i (GotAlias i a)"
  shows "scanned L al (i # ids) found r tr tr'"
proof -
  from assms(1) obtain es where es: "guarded (alias_justified L) tr'" "tr' = (tr @ [GotAlias i a]) @ es"
    "list_all isRead es" and r: "case r of
          Inl e \<Rightarrow> True
        | Inr None \<Rightarrow> found' = None \<and> (\<forall>i. i \<in> set ids \<and> i \<noteq> '''' \<longrightarrow> list_ex (otherAlias L al i) es)
        | Inr (Some ob) \<Rightarrow> found' = Some ob \<or> (\<exists>j. GotAlias j (Inr (Some ob)) \<in> set es \<and> bearsKey al ob)"
    unfolding scanned_def by blast
  let ?es = "GotAlias i a # es"
  have "case r of
          Inl e \<Rightarrow> True
        | Inr None \<Rightarrow> found = None \<and> (\<forall>k. k \<in> set (i # ids) \<and> k \<noteq> '''' \<longrightarrow> list_ex (otherAlias L al k) ?es)
        | Inr (Some ob) \<Rightarrow> found = Some ob \<or> (\<exists>j. GotAlias j (Inr (Some ob)) \<in> set ?es \<and> bearsKey al ob)"
    using r assms(2,3) by (auto split: sum.splits option.splits)
  with es show ?thesis
    unfolding scanned_def by (intro conjI exI [where x = ?es]) simp_all
qed

lemma scanAliases_justified:
  assumes "activeAlias L tr al cid" "guarded (alias_justified L) tr" "sameAlias alias al"
  shows "wp (scanAliases L alias (logAliasClient c) ids found)
           (\<lambda>r (s', tr'). scanned L al ids found r tr tr') (s, tr)"
  using assms
proof (induction ids arbitrary: found s tr)
  case Nil
  then show ?case
    by (simp add: wp_simps scanned_def list_all_iff split: option.split) 
next
  case (Cons i ids)
  note f = sameAlias_fields [OF Cons.prems(3)]
  show ?case
  proof (cases "i = ''''")
    case True
    have "scanned L al (i # ids) found r tr tr'" if "scanned L al ids found r tr tr'" for r tr'
      using that True by (cases r; cases "projr r") (auto simp: scanned_def)
    then have "wp (scanAliases L alias (logAliasClient c) ids found)
           (\<lambda>r (s', tr'). scanned L al (i # ids) found r tr tr') (s, tr)"
      by (intro wp_mono [OF Cons.IH [OF Cons.prems]]) auto
    with True show ?thesis by simp
  next
    case False
    let ?Q = "\<lambda>r (s', tr'). scanned L al (i # ids) found r tr tr'"
    have j: "guarded (alias_justified L) (tr @ [GotAlias i a])" "activeAlias L (tr @ [GotAlias i a]) al cid" for a
      using Cons.prems by (simp_all add: guarded_snoc alias_read_justified)
    have go: "wp (scanAliases L alias (logAliasClient c) ids found') ?Q (s', tr @ [GotAlias i a])"
      if "found' = found \<or> (\<exists>ob. found' = Some ob \<and> a = Inr (Some ob) \<and> bearsKey al ob)"
        "found' = None \<Longrightarrow> otherAlias L al i (GotAlias i a)" for found' a s'
    proof -
      have "scanned L al (i # ids) found r tr tr'"
        if "scanned L al ids found' r (tr @ [GotAlias i a]) tr'" for r tr'
        using scanned_step that \<open>found' = found \<or> _\<close> \<open>found' = None \<Longrightarrow> _\<close> by blast
      then show ?thesis
        by (intro wp_mono [OF Cons.IH [OF j(2,1) Cons.prems(3)]]) auto
    qed
    have stop: "scanned L al (i # ids) found (Inl e) tr (tr @ [GotAlias i a])" for e a
      using j unfolding scanned_def by (intro conjI exI [where x = "[GotAlias i a]"]) simp_all
    have "wp (case a of
            Inl err \<Rightarrow> if isNotFound L err then scanAliases L alias (logAliasClient c) ids found
                       else ret (Inl err)
          | Inr None \<Rightarrow> scanAliases L alias (logAliasClient c) ids found
          | Inr (Some candidate) \<Rightarrow>
              if \<not> bearsKey alias candidate then scanAliases L alias (logAliasClient c) ids found
              else if found \<noteq> None then ret (Inl (Errorf m))
              else scanAliases L alias (logAliasClient c) ids (Some candidate)) ?Q (s', tr @ [GotAlias i a])"
      for a s' m
    proof -
      have skip: "otherAlias L al i (GotAlias i a) \<Longrightarrow>
          wp (scanAliases L alias (logAliasClient c) ids found) ?Q (s', tr @ [GotAlias i a])" for a
        by (rule go) simp_all
      have take: "bearsKey al ob \<Longrightarrow> found = None \<Longrightarrow>
          wp (scanAliases L alias (logAliasClient c) ids (Some ob)) ?Q (s', tr @ [GotAlias i (Inr (Some ob))])" for ob
        by (rule go) simp_all
      show ?thesis
        using skip take stop by (auto simp: wp_simps f split: sum.split option.split)
    qed
    with False show ?thesis
      unfolding scanAliases.simps wp_simps logAliasClient_sel if_False
      by (simp only: wp_bind if_False) (intro wp_loggedI, simp only: f)
  qed
qed

lemma wp_findExistingAliasI:
  assumes "activeAlias L tr al cid" "guarded (alias_justified L) tr" "sameAlias alias al"
    and "\<And>r es s'. guarded (alias_justified L) (tr @ es) \<Longrightarrow> \<not> list_ex createsAlias es \<Longrightarrow>
       (case r of Inl e \<Rightarrow> True
        | Inr None \<Rightarrow> searched L (tr @ es) al
        | Inr (Some ob) \<Rightarrow> \<exists>j. GotAlias j (Inr (Some ob)) \<in> set es \<and> bearsKey al ob) \<Longrightarrow> Q r (s', tr @ es)"
  shows "wp (findExistingAlias L alias (logAliasClient c)) Q (s, tr)"
proof -
  have reads: "\<not> list_ex createsAlias es" if "list_all isRead es" for es
  proof -
    have "isRead e \<Longrightarrow> \<not> createsAlias e" for e by (cases e) simp_all
    with that show ?thesis by (auto simp: list_ex_iff list_all_iff)
  qed
  have j: "guarded (alias_justified L) (tr @ [ListedAliases r])" "activeAlias L (tr @ [ListedAliases r]) al cid" for r
    using assms(1,2) by (simp_all add: guarded_snoc alias_read_justified)
  have listed: "Q r (s', tr')"
    if "scanned L al ids None r (tr @ [ListedAliases (Inr ids)]) tr'" for r ids s' tr'
  proof -
    from that obtain es where es: "tr' = tr @ ListedAliases (Inr ids) # es" "list_all isRead es"
      "guarded (alias_justified L) tr'"
      and r: "case r of Inl e \<Rightarrow> True
        | Inr None \<Rightarrow> \<forall>i. i \<in> set ids \<and> i \<noteq> '''' \<longrightarrow> list_ex (otherAlias L al i) es
        | Inr (Some ob) \<Rightarrow> \<exists>j. GotAlias j (Inr (Some ob)) \<in> set es \<and> bearsKey al ob"
      by (cases r; cases "projr r") (auto simp: scanned_def)
    have "searched L tr' al" if "\<forall>i. i \<in> set ids \<and> i \<noteq> '''' \<longrightarrow> list_ex (otherAlias L al i) es"
      unfolding searched_def es(1) using that by (intro disjI2 exI [where x = ids]) auto
    with r es reads show ?thesis
      using assms(4) [of "ListedAliases (Inr ids) # es" r s'] by (auto split: sum.splits option.splits)
  qed
  have absent: "Q (Inr None) (s', tr @ [ListedAliases (Inl err)])" if "isNotFound L err" for err s'
    using that j by (intro assms(4)) (auto simp: searched_def)
  have failed: "Q (Inl err) (s', tr @ [ListedAliases (Inl err)])" for err s'
    using j by (intro assms(4)) simp_all
  have scan: "wp (scanAliases L alias (logAliasClient c) ids None) Q (s', tr @ [ListedAliases (Inr ids)])" for ids s'
    by (rule wp_mono [OF scanAliases_justified [OF j(2,1) assms(3)]]) (auto intro: listed)
  show ?thesis
    unfolding findExistingAlias_def wp_simps logAliasClient_sel
    by (rule wp_loggedI) (auto simp: wp_simps absent failed scan split: sum.split)
qed

section \<open>Every call of a run is justified\<close>

definition acquiredAlias ::
  "KubeLib \<Rightarrow> OpenBaoEntityAlias \<Rightarrow> string \<Rightarrow> OpenBaoEntityAlias \<times> (go_error + EntityAlias option)
     \<Rightarrow> AliasEvent list \<Rightarrow> bool" where
  "acquiredAlias L al cid p tr \<longleftrightarrow> guarded (alias_justified L) tr \<and> activeAlias L tr al cid \<and>
     sameAlias (fst p) al \<and>
     (case snd p of
        Inr (Some ob) \<Rightarrow> ownedAlias tr al (alst_ID (al_Status (fst p))) \<and>
          observedAlias tr (alst_ID (al_Status (fst p))) ob
      | _ \<Rightarrow> True)"

lemma acquiredAliasI:
  "guarded (alias_justified L) tr \<Longrightarrow> activeAlias L tr al cid \<Longrightarrow> sameAlias (fst p) al
     \<Longrightarrow> (\<And>ob. snd p = Inr (Some ob) \<Longrightarrow> ownedAlias tr al (alst_ID (al_Status (fst p))) \<and>
            observedAlias tr (alst_ID (al_Status (fst p))) ob) \<Longrightarrow> acquiredAlias L al cid p tr"
  by (auto simp: acquiredAlias_def split: sum.split option.split)

lemma acquire_alias_noID:
  "alst_ID (al_Status alias) = '''' \<Longrightarrow> acquire_alias L alias entityID apiClient = do {
        r \<leftarrow> findExistingAlias L alias apiClient;
        case r of
          Inl err \<Rightarrow> ret (alias, Inl err)
        | Inr (Some observed) \<Rightarrow>
            if \<not> AllowsAdoption (aliasCreationPolicy alias) then
              ret (alias, Inl (Errorf (''OpenBao entity alias '' @ fmt_q (als_Name (al_Spec alias)) @
                '' already exists for mount accessor '' @ fmt_q (als_MountAccessor (al_Spec alias)) @
                ''; set creationPolicy to Adopt or CreateOrAdopt to manage it'')))
            else if ea_ID observed = '''' then
              ret (alias, Inl (Errorf (''OpenBao returned an entity alias named '' @
                fmt_q (als_Name (al_Spec alias)) @ '' without an ID'')))
            else ret (setAliasID (ea_ID observed) alias, Inr (Some observed))
        | Inr None \<Rightarrow>
            if \<not> AllowsCreation (aliasCreationPolicy alias) then
              ret (alias, Inl (Errorf (''OpenBao entity alias '' @ fmt_q (als_Name (al_Spec alias)) @
                '' does not exist and creationPolicy='' @ aliasCreationPolicy alias @
                '' does not allow creation'')))
            else do {
              c \<leftarrow> CreateEntityAlias apiClient (desiredEntityAliasRequest alias entityID);
              case c of
                Inl err \<Rightarrow> ret (alias, Inl err)
              | Inr newID \<Rightarrow>
                  if newID = '''' then
                    ret (alias, Inl (Errorf (''OpenBao returned an empty ID when creating entity alias '' @
                      fmt_q (als_Name (al_Spec alias)))))
                  else do {
                    g \<leftarrow> GetEntityAliasByID apiClient newID;
                    ret (setAliasID newID alias, g)
                  }
            }
      }"
  by (subst acquire_alias.simps) simp

lemma acquire_alias_withID:
  "alst_ID (al_Status alias) \<noteq> '''' \<Longrightarrow> acquire_alias L alias entityID apiClient = do {
        r \<leftarrow> GetEntityAliasByID apiClient (alst_ID (al_Status alias));
        case r of
          Inl err \<Rightarrow>
            if isNotFound L err then acquire_alias L (setAliasID '''' alias) entityID apiClient
            else ret (alias, Inl err)
        | Inr observed \<Rightarrow> ret (alias, Inr observed)
      }"
  by (subst acquire_alias.simps) simp

lemma acquire_alias_noID_justified:
  assumes "alst_ID (al_Status alias) = ''''" "sameAlias alias al" "activeAlias L tr al cid"
    and "guarded (alias_justified L) tr" "\<not> list_ex createsAlias tr"
  shows "wp (acquire_alias L alias cid (logAliasClient c)) (\<lambda>p (s', tr'). acquiredAlias L al cid p tr') (s, tr)"
proof -
  note f = sameAlias_fields [OF assms(2)]
  have created: "ownedAlias (tr @ es @ [CreatedAlias q (Inr i), e]) al i" if "i \<noteq> ''''" for es q i e
    using that by (auto simp: ownedAlias_def)
  have adopted: "ownedAlias (tr @ es) al (ea_ID ob)"
    if "GotAlias j (Inr (Some ob)) \<in> set es" "bearsKey al ob" "ea_ID ob \<noteq> ''''"
      "AllowsAdoption (aliasCreationPolicy al)" for es j ob
    using that by (auto simp: ownedAlias_def)
  show ?thesis
    unfolding acquire_alias_noID [OF assms(1)] wp_simps logAliasClient_sel f
    by (rule wp_findExistingAliasI [OF assms(3,4,2)])
       (use assms in \<open>auto simp: wp_simps trace_simps guarded_from_append acquiredAlias_def adopted created observedAlias_def
          split: sum.splits option.splits
          intro!: wp_loggedI alias_create_justified [where al = al and cid = cid]
            alias_read_justified [where al = al and cid = cid]\<close>)
qed

lemma acquire_alias_justified:
  assumes "sameAlias alias al" "activeAlias L tr al cid" "guarded (alias_justified L) tr"
    and "\<not> list_ex createsAlias tr" "alst_ID (al_Status alias) = alst_ID (al_Status al)"
  shows "wp (acquire_alias L alias cid (logAliasClient c)) (\<lambda>p (s', tr'). acquiredAlias L al cid p tr') (s, tr)"
proof (cases "alst_ID (al_Status alias) = ''''")
  case True
  then show ?thesis using assms(1-4) by (rule acquire_alias_noID_justified)
next
  case False
  let ?i = "alst_ID (al_Status alias)"
  have j: "guarded (alias_justified L) (tr @ [GotAlias ?i r])" for r
    using assms(2,3) by (simp add: guarded_snoc alias_read_justified)
  have again: "wp (acquire_alias L (setAliasID '''' alias) cid (logAliasClient c))
      (\<lambda>p (s', tr'). acquiredAlias L al cid p tr') (s', tr @ [GotAlias ?i r])" for r s'
    by (rule acquire_alias_noID_justified) (use assms j in auto)
  have own: "ownedAlias tr' al ?i" for tr'
    using False assms(5) by (simp add: ownedAlias_def)
  show ?thesis
    unfolding acquire_alias_withID [OF False] wp_simps logAliasClient_sel
    by (rule wp_loggedI)
       (use assms(1,2) in \<open>auto simp: j own observedAlias_def split: sum.split option.split
          intro!: again acquiredAliasI\<close>)
qed

lemma settledAlias_updated:
  "keyCompatible al ob \<Longrightarrow> ownedAlias tr al i \<Longrightarrow> observedAlias tr i ob
     \<Longrightarrow> UpdatedAlias i (moveTo cid) (Inr (Some x)) \<in> set tr \<Longrightarrow> settledAlias tr al cid ob"
  unfolding settledAlias_def by blast

lemma finish_alias_justified:
  assumes "sameAlias alias al" "activeAlias (ar_Lib R) tr al cid" "guarded (alias_justified (ar_Lib R)) tr"
    and "keyCompatible al observed \<Longrightarrow> settledAlias tr al cid observed"
  shows "wp (finish_alias (logAliasReconciler R) before alias observed)
           (\<lambda>_ (s', tr'). guarded (alias_justified (ar_Lib R)) tr') (s, tr)"
proof (cases "aliasMismatch alias observed")
  case None
  then have "settledAlias tr al cid observed"
    using assms(1,4) by (simp add: aliasMismatch_None keyCompatible_same)
  then show ?thesis
    unfolding finish_alias_def Let_def None option.case wp_simps logAliasReconciler_sel
    using assms
    by (intro wp_silentI wp_updateStatusI)
       (auto simp: guarded_snoc intro!: alias_ready_justified split: sum.splits)
next
  case (Some err)
  then show ?thesis
    using assms(3) by (auto simp: finish_alias_def fail_alias_def intro!: alias_failure_rules)
qed

lemma sync_alias_justified:
  assumes "acquiredAlias (ar_Lib R) al cid (alias, Inr a) tr"
  shows "wp (sync_alias (logAliasReconciler R) (logAliasClient c) before alias cid a)
           (\<lambda>_ (s', tr'). guarded (alias_justified (ar_Lib R)) tr') (s, tr)"
proof -
  let ?L = "ar_Lib R" and ?i = "alst_ID (al_Status alias)"
  from assms have a: "guarded (alias_justified ?L) tr" "activeAlias ?L tr al cid" "sameAlias alias al"
    by (simp_all add: acquiredAlias_def)
  note f = sameAlias_fields [OF a(3)]
  show ?thesis
  proof (cases a)
    case None
    with a show ?thesis by (auto simp: sync_alias_def fail_alias_def intro!: alias_failure_rules)
  next
    case (Some ob)
    with assms have own: "ownedAlias tr al ?i" "observedAlias tr ?i ob"
      by (simp_all add: acquiredAlias_def)
    show ?thesis
    proof (cases "aliasMismatch alias ob")
      case (Some err)
      with a \<open>a = Some ob\<close> show ?thesis by (auto simp: sync_alias_def fail_alias_def intro!: alias_failure_rules)
    next
      case None
      then have k: "keyCompatible al ob" using a(3) by (simp add: aliasMismatch_None keyCompatible_same)
      let ?d = "desiredEntityAliasRequest al cid"
      have direct: "wp (finish_alias (logAliasReconciler R) before alias ob)
          (\<lambda>_ (s', tr'). guarded (alias_justified ?L) tr') (s, tr)" if "entityAliasMatches ?d ob"
        using that a own by (intro finish_alias_justified) (auto simp: settledAlias_def)
      have upd: "guarded (alias_justified ?L) (tr @ [UpdatedAlias ?i (moveTo cid) u])"
        if "\<not> entityAliasMatches ?d ob" for u
        using a own k that by (auto simp: guarded_snoc intro!: alias_update_justified [where al = al and ob = ob])
      then have get: "guarded (alias_justified ?L) (tr @ [UpdatedAlias ?i (moveTo cid) u, GotAlias ?i g])"
        if "\<not> entityAliasMatches ?d ob" for u g
        using that a(1,2) by (auto simp: trace_simps intro!: alias_read_justified [where al = al and cid = cid])
      have after: "wp (finish_alias (logAliasReconciler R) before alias ob')
          (\<lambda>_ (s', tr'). guarded (alias_justified ?L) tr')
          (s', tr @ [UpdatedAlias ?i (moveTo cid) (Inr (Some x)), GotAlias ?i (Inr (Some ob'))])"
        if "\<not> entityAliasMatches ?d ob" for x ob' s'
        using that a get own
        by (intro finish_alias_justified [where al = al and cid = cid]
              settledAlias_updated [where i = ?i and x = x]) (simp_all add: observedAlias_def)
      have m: "\<lparr>ear_Name = '''', ear_MountAccessor = '''', ear_CanonicalID = ear_CanonicalID ?d\<rparr> = moveTo cid"
        by (simp add: moveTo_def desiredEntityAliasRequest_def)
      show ?thesis
        unfolding sync_alias_def Let_def \<open>a = Some ob\<close> None option.case wp_simps f m logAliasClient_sel
          logAliasReconciler_sel fail_alias_def
        using direct upd get after
        by (auto simp: wp_simps nilPanic_def split: sum.splits option.splits
            intro!: wp_loggedI alias_failure_rules)
    qed
  qed
qed

lemma wp_acquire_aliasI:
  assumes "sameAlias alias al" "activeAlias L tr al cid" "guarded (alias_justified L) tr"
    and "\<not> list_ex createsAlias tr" "alst_ID (al_Status alias) = alst_ID (al_Status al)"
    and "\<And>e a s1 tr1. acquiredAlias L al cid (e, a) tr1 \<Longrightarrow> Q (e, a) (s1, tr1)"
  shows "wp (acquire_alias L alias cid (logAliasClient c)) Q (s, tr)"
  by (rule wp_mono [OF acquire_alias_justified]) (use assms in auto)

lemma acquiredAlias_guarded: "acquiredAlias L al cid p tr \<Longrightarrow> guarded (alias_justified L) tr"
  by (simp add: acquiredAlias_def)

lemma reconcileActive_alias_justified:
  assumes "seen KAlias tr al" "notDeleted al" "guarded (alias_justified (ar_Lib R)) tr"
    and "IsDelete (aliasDeletionPolicy al) \<longrightarrow> held (ar_Lib R) KAlias tr al" "\<not> list_ex createsAlias tr"
  shows "wp (reconcileActive_alias (logAliasReconciler R) before al)
           (\<lambda>_ (s', tr'). guarded (alias_justified (ar_Lib R)) tr') (s, tr)"
proof -
  let ?L = "ar_Lib R"
  have active: "activeAlias ?L (tr @ [KAliConnection (GotObject nn (Inr k)), KAliEntity (GotObject mm (Inr ent)),
      MadeAliasClient k e]) al (est_ID (en_Status ent))"
    if "IsStatusConditionTrue ?L (cnst_Conditions (cn_Status k)) conditionReady"
      "IsStatusConditionTrue ?L (est_Conditions (en_Status ent)) conditionReady"
      "est_ID (en_Status ent) \<noteq> ''''" for nn mm k e ent
    using assms that
    by (auto simp: activeAlias_def live_def intro: connReady_got [where conn = k and nn = nn])
  show ?thesis
    unfolding reconcileActive_alias_def Let_def wp_simps resolveConnection_def resolveEntity_def
      logAliasReconciler_sel logKube_sel dependencyFailure_alias_def fail_alias_def
    using assms
    by (auto split: sum.splits simp: wp_simps trace_simps
        intro!: wp_loggedI wp_clientFor_aliasI alias_failure_rules sync_alias_justified [where al = al]
          wp_acquire_aliasI [where al = al] active intro: acquiredAlias_guarded)
qed

lemma reconcileDeletion_alias_justified:
  assumes "seen KAlias tr al" "\<not> notDeleted al" "guarded (alias_justified (ar_Lib R)) tr"
  shows "wp (reconcileDeletion_alias (logAliasReconciler R) al)
           (\<lambda>_ (s', tr'). guarded (alias_justified (ar_Lib R)) tr') (s, tr)"
proof -
  have deleted: "alias_justified L (tr @ es) (DeletedAlias (alst_ID (al_Status al)) r)"
    if "aliasDeletionPolicy al = DeletionPolicyDelete" "alst_ID (al_Status al) \<noteq> ''''" for L es r
    using assms that by (auto simp: alias_justified.simps intro!: exI [where x = al])
  have drop: "alias_justified L (tr @ es) (KAlias (UpdatedObject
      (ob\<lparr>om_Finalizers := RemoveFinalizer L (om_Finalizers al) finalizerName\<rparr>) r))"
    if "aliasDeletionPolicy al \<noteq> DeletionPolicyDelete \<or> alst_ID (al_Status al) = '''' \<or>
      list_ex (goneAlias L (alst_ID (al_Status al))) es" for L es ob r
    unfolding alias_justified.simps
    by (rule finalizerWrite_remove [where orig = al]) (use assms that in auto)
  show ?thesis
    unfolding reconcileDeletion_alias_def Let_def wp_simps resolveConnection_def logAliasReconciler_sel
      logKube_sel
    using assms(3) deleted drop [where es = "[]"] drop
    by (auto split: sum.splits option.splits simp: wp_simps trace_simps
        intro!: wp_removeFinalizerI wp_loggedI wp_clientFor_aliasI alias_failure_rules)
qed

lemma Reconcile_alias_justified:
  "wp (Reconcile_alias (logAliasReconciler R) req)
     (\<lambda>_ (s', tr'). guarded (alias_justified (ar_Lib R)) tr') (s, [])"
proof -
  have add: "alias_justified L pre (KAlias (UpdatedObject
      (al\<lparr>om_Finalizers := AddFinalizer L (om_Finalizers al) finalizerName\<rparr>) r))"
    if "seen KAlias pre al" "notDeleted al" "IsDelete (aliasDeletionPolicy al)" for L pre al r
    unfolding alias_justified.simps by (rule finalizerWrite_add) (use that in auto)
  show ?thesis
    unfolding Reconcile_alias_def Let_def wp_simps logAliasReconciler_sel logKube_sel
    by (rule wp_loggedI)
       (auto split: sum.splits simp: wp_simps guarded_def
        intro!: wp_ensureFinalizerI reconcileDeletion_alias_justified reconcileActive_alias_justified add
        intro: seen_got seen_updated held_contains held_added)
qed

lemma alias_trace_justified: "guarded (alias_justified (ar_Lib R)) (alias_trace R req s)"
  using Reconcile_alias_justified [of R req s]
  by (simp add: alias_trace_def alias_run_def wp_run split_beta)

section \<open>The properties\<close>

definition alias_create_ok :: "KubeLib \<Rightarrow> AliasEvent list \<Rightarrow> AliasEvent \<Rightarrow> bool" where
  "alias_create_ok L pre e = (case e of
      CreatedAlias q r \<Rightarrow> (\<exists>al cid. activeAlias L pre al cid \<and> AllowsCreation (aliasCreationPolicy al) \<and>
        q = desiredEntityAliasRequest al cid \<and> searched L pre al \<and> \<not> list_ex createsAlias pre)
    | _ \<Rightarrow> True)"

definition alias_update_ok :: "KubeLib \<Rightarrow> AliasEvent list \<Rightarrow> AliasEvent \<Rightarrow> bool" where
  "alias_update_ok L pre e = (case e of
      UpdatedAlias i q r \<Rightarrow> (\<exists>al cid ob. activeAlias L pre al cid \<and> ownedAlias pre al i \<and>
        observedAlias pre i ob \<and> keyCompatible al ob \<and>
        \<not> entityAliasMatches (desiredEntityAliasRequest al cid) ob \<and> q = moveTo cid)
    | _ \<Rightarrow> True)"

definition alias_delete_ok :: "KubeLib \<Rightarrow> AliasEvent list \<Rightarrow> AliasEvent \<Rightarrow> bool" where
  "alias_delete_ok L pre e = (case e of
      DeletedAlias i r \<Rightarrow> (\<exists>al. seen KAlias pre al \<and> \<not> notDeleted al \<and>
        aliasDeletionPolicy al = DeletionPolicyDelete \<and> i = alst_ID (al_Status al) \<and> i \<noteq> '''')
    | KAlias (UpdatedObject ob r) \<Rightarrow>
        finalizerWrite L KAlias (\<lambda>al. IsDelete (aliasDeletionPolicy al))
          (\<lambda>al. aliasDeletionPolicy al \<noteq> DeletionPolicyDelete \<or> alst_ID (al_Status al) = '''' \<or>
             list_ex (goneAlias L (alst_ID (al_Status al))) pre) pre ob
    | _ \<Rightarrow> True)"

definition alias_ready_ok :: "KubeLib \<Rightarrow> AliasEvent list \<Rightarrow> AliasEvent \<Rightarrow> bool" where
  "alias_ready_ok L pre e = (case e of
      KAlias (UpdatedStatus ob r) \<Rightarrow>
        (if readyTrue (alst_Conditions (al_Status ob)) then
          (\<exists>al al1 cid obs t1 t2. activeAlias L pre al cid \<and> settledAlias pre al cid obs \<and>
            ob = readyAliasStatus al1 obs t1 t2 \<and> sameAlias al1 al)
         else True)
    | _ \<Rightarrow> True)"

text \<open>
  An entity alias is created only for a live resource whose connection and entity are
  ready, when creation is allowed and after an exhaustive search: every identifier OpenBao
  listed was read and turned out to be another alias (or to be gone).  The request names the
  entity's identifier, and a reconciliation creates at most once.
\<close>

lemma alias_creates_after_search: "guarded (alias_create_ok (ar_Lib R)) (alias_trace R req s)"
  by (rule guarded_mono [OF alias_trace_justified])
     (auto simp: alias_create_ok_def alias_justified.simps split: AliasEvent.splits)

text \<open>
  An alias is updated only if the resource owns it (recorded, created in this run, or
  adopted as an alias that bears the resource's name and mount accessor), its identity was not
  contradicted, and it differs from the desired alias; the update sends the canonical ID alone.
\<close>

lemma alias_updates_only_owned: "guarded (alias_update_ok (ar_Lib R)) (alias_trace R req s)"
  by (rule guarded_mono [OF alias_trace_justified])
     (auto simp: alias_update_ok_def alias_justified.simps split: AliasEvent.splits)

text \<open>
  An alias is created only when allowed, for a live resource whose connection and entity are
  ready, once, and after every identifier OpenBao listed was read and turned out to be another
  alias or to be gone.  It is updated only if it is owned (recorded, created in this run, or
  adopted as an alias of the resource's name and mount accessor) and differs from the desired
  alias, with the canonical ID alone.
\<close>

lemma alias_writes_only_owned:
  "guarded (alias_create_ok (ar_Lib R)) (alias_trace R req s) \<and>
   guarded (alias_update_ok (ar_Lib R)) (alias_trace R req s)"
  by (intro conjI alias_creates_after_search alias_updates_only_owned)

text \<open>
  An alias is deleted only for a deleted resource with deletion policy Delete and only by
  the identifier its status records; the finalizer goes only when that deletion is confirmed or
  there is nothing to delete.
\<close>

lemma alias_deletion_discipline: "guarded (alias_delete_ok (ar_Lib R)) (alias_trace R req s)"
  by (rule guarded_mono [OF alias_trace_justified])
     (auto simp: alias_delete_ok_def alias_justified.simps split: AliasEvent.splits KubeEvent.splits)

text \<open>
  Ready=True is written only with an observation of an owned alias whose name and mount
  accessor are the resource's, and that matches the desired alias or was read back after OpenBao
  accepted the move to the entity.
\<close>

lemma alias_ready_is_settled: "guarded (alias_ready_ok (ar_Lib R)) (alias_trace R req s)"
proof (rule guarded_mono [OF alias_trace_justified])
  fix pre e assume j: "alias_justified (ar_Lib R) pre e"
  show "alias_ready_ok (ar_Lib R) pre e"
  proof (cases "\<exists>ob r. e = KAlias (UpdatedStatus ob r)")
    case True
    then obtain ob r where e: "e = KAlias (UpdatedStatus ob r)" by blast
    from j show ?thesis
      by (simp only: e alias_justified.simps alias_ready_ok_def AliasEvent.case KubeEvent.case)
  qed (auto simp: alias_ready_ok_def split: AliasEvent.splits KubeEvent.splits)
qed


section \<open>The result of the search\<close>

text \<open>A client that answers from a table of aliases.\<close>

definition tableClient :: "string list \<Rightarrow> (string \<Rightarrow> go_error + EntityAlias option) \<Rightarrow> 's AliasClient" where
  "tableClient ids table =
     \<lparr>ListEntityAliasIDs = ret (Inr ids), GetEntityAliasByID = (\<lambda>i. ret (table i)),
      CreateEntityAlias = (\<lambda>q. ret (Inl (Errorf ''read only''))),
      UpdateEntityAlias = (\<lambda>i q. ret (Inl (Errorf ''read only''))),
      DeleteEntityAlias = (\<lambda>i. ret (Some (Errorf ''read only'')))\<rparr>"

text \<open>The aliases of the table that bear the resource's key, in the order listed.\<close>

definition bearers :: "OpenBaoEntityAlias \<Rightarrow> string list \<Rightarrow> (string \<Rightarrow> go_error + EntityAlias option)
    \<Rightarrow> EntityAlias list" where
  "bearers al ids table = concat (map (\<lambda>i. if i = '''' then [] else
     (case table i of Inr (Some ob) \<Rightarrow> if bearsKey al ob then [ob] else [] | _ \<Rightarrow> [])) ids)"

definition onlyResult :: "OpenBaoEntityAlias \<Rightarrow> EntityAlias list \<Rightarrow> go_error + EntityAlias option" where
  "onlyResult al obs = (case obs of
      [] \<Rightarrow> Inr None
    | [ob] \<Rightarrow> Inr (Some ob)
    | _ \<Rightarrow> Inl (Errorf (''OpenBao returned multiple entity aliases named '' @ fmt_q (als_Name (al_Spec al)) @
        '' for mount accessor '' @ fmt_q (als_MountAccessor (al_Spec al)))))"

lemma wp_scan_table:
  assumes "\<forall>i\<in>set ids. \<forall>e. table i = Inl e \<longrightarrow> isNotFound L e"
  shows "wp (scanAliases L al (tableClient all table) ids found)
     (\<lambda>r s'. s' = s \<and> r = onlyResult al ((case found of None \<Rightarrow> [] | Some ob \<Rightarrow> [ob]) @ bearers al ids table)) s"
  using assms
proof (induction ids arbitrary: found)
  case Nil
  then show ?case
    by (cases found) (simp_all add: wp_simps bearers_def onlyResult_def)
next
  case (Cons i ids)
  have IH: "wp (scanAliases L al (tableClient all table) ids found)
     (\<lambda>r s'. s' = s \<and> r = onlyResult al ((case found of None \<Rightarrow> [] | Some ob \<Rightarrow> [ob]) @ bearers al ids table)) s" for found
    using Cons by simp
  note IH = IH [of None, simplified] IH [of "Some a" for a, simplified]
  have err: "table i = Inl e \<Longrightarrow> isNotFound L e" for e using Cons.prems by simp
  show ?case
    using IH err
    by (cases "i = ''''"; cases "table i"; cases "projr (table i)"; cases found)
       (auto simp: wp_simps tableClient_def bearers_def onlyResult_def)
qed

text \<open>
  C10. Over a table of aliases that reads without hard errors, the search returns the only
  alias that bears the resource's name and mount accessor, nothing if there is none, and an
  error if there are several; it changes nothing.
\<close>

theorem findExistingAlias_only:
  assumes "\<forall>i\<in>set ids. \<forall>e. table i = Inl e \<longrightarrow> isNotFound L e"
  shows "run_state (findExistingAlias L al (tableClient ids table)) s = (onlyResult al (bearers al ids table), s)"
proof -
  have "wp (findExistingAlias L al (tableClient ids table))
      (\<lambda>r s'. s' = s \<and> r = onlyResult al (bearers al ids table)) s"
    using wp_scan_table [OF assms, where found = None]
    by (simp add: findExistingAlias_def wp_simps) (simp add: tableClient_def wp_simps)
  then show ?thesis by (simp add: wp_run prod_eq_iff)
qed

definition demoAlias :: OpenBaoEntityAlias where
  "demoAlias = \<lparr>om_Name = ''a'', om_Namespace = ''ns'', om_Generation = 1, om_Finalizers = [],
     om_DeletionTimestamp = None,
     al_Spec = \<lparr>als_ConnectionRef = \<lparr>connref_Name = ''bao''\<rparr>, als_EntityRef = \<lparr>entref_Name = ''app''\<rparr>,
       als_MountAccessor = ''acc'', als_Name = ''user'', als_CreationPolicy = ''Adopt'',
       als_DeletionPolicy = ''Orphan'', als_DriftDetectionInterval = None\<rparr>,
     al_Status = \<lparr>alst_ID = '''', alst_CanonicalID = '''', alst_Name = '''', alst_MountAccessor = '''',
       alst_ObservedGeneration = 0, alst_Conditions = []\<rparr>\<rparr>"

definition demoHit :: EntityAlias where
  "demoHit = \<lparr>ea_ID = ''x2'', ea_Name = ''user'', ea_MountAccessor = ''acc'', ea_CanonicalID = ''e1'', ea_EntityID = ''''\<rparr>"

definition demoTable :: "string \<Rightarrow> go_error + EntityAlias option" where
  "demoTable i = (if i = ''x1'' then Inl (HTTPError 404 '''')
     else if i = ''x2'' then Inr (Some demoHit)
     else Inr (Some (demoHit\<lparr>ea_ID := i, ea_Name := ''other''\<rparr>)))"

lemma findExistingAlias_only_witness:
  "run_state (findExistingAlias stdLib demoAlias (tableClient [''x1'', ''x2'', ''x3''] demoTable)) (0::nat)
     = (Inr (Some demoHit), 0)"
proof -
  have ok: "\<forall>i\<in>set [''x1'', ''x2'', ''x3'']. \<forall>e. demoTable i = Inl e \<longrightarrow> isNotFound stdLib e"
    by (simp add: demoTable_def isNotFound_def)
  have "bearers demoAlias [''x1'', ''x2'', ''x3''] demoTable = [demoHit]"
    by (simp add: bearers_def demoTable_def bearsKey_def demoAlias_def demoHit_def)
  with findExistingAlias_only [OF ok, of demoAlias 0] show ?thesis by (simp add: onlyResult_def)
qed

end
