(* ===== verification/GroupController.thy ===== *)
theory GroupController
  imports Observing BaoTypes Normalize
begin

text \<open>
  \<^verbatim>\<open>internal/controller/openbao/openbaogroup_controller.go\<close>: the reconciliation of a
  group and of the membership claims that point to it.  The members the operator manages are the
  union of the claims; members it does not manage are kept as observed, and the status remembers
  which members it put there, so that a claim that disappears takes its member with it.

  \<^verbatim>\<open>slices.SortFunc\<close> by name is \<open>sort_key\<close>: the names of the memberships of a
  namespace are distinct, so its stability does not matter.
\<close>

section \<open>The reconciler and its environment\<close>

text \<open>
  \<open>gp_Groups\<close> and \<open>gp_MemberGroups\<close> are the same client in the code; reads of member groups get a
  field of their own so that a trace tells them from reads of the group being reconciled.
\<close>

record 's GroupReconciler =
  gp_Lib :: KubeLib
  gp_Groups :: "('s, OpenBaoGroup) KubeAPI"
  gp_MemberGroups :: "('s, OpenBaoGroup) KubeAPI"
  gp_Memberships :: "('s, OpenBaoGroupMembership) KubeAPI"
  gp_Entities :: "('s, OpenBaoEntity) KubeAPI"
  gp_Connections :: "('s, OpenBaoConnection) KubeAPI"
  gp_Now :: "('s, int) state"
  gp_NewClient :: "(OpenBaoConnection \<Rightarrow> ('s, go_error + 's GroupClient) state) option"
  gp_ClientCache :: "(OpenBaoConnection \<Rightarrow> ('s, go_error + 's GroupClient) state) option"
  gp_connectionClientFor :: "OpenBaoConnection \<Rightarrow> ('s, go_error + 's GroupClient) state"

record groupMembershipClaim =
  gc_object :: OpenBaoGroupMembership
  gc_memberID :: string
  gc_memberType :: string

definition groupMemberTypeEntity :: string where
  "groupMemberTypeEntity = ''Entity''"
definition groupMemberTypeGroup :: string where
  "groupMemberTypeGroup = ''Group''"

definition groupAccess :: "(OpenBaoGroup, OpenBaoGroupStatus) StatusAccess" where
  "groupAccess =
     \<lparr>sa_Status = gr_Status,
      sa_setStatus = (\<lambda>st g. g\<lparr>gr_Status := st\<rparr>),
      sa_Conditions = grst_Conditions,
      sa_setConditions = (\<lambda>cs st. st\<lparr>grst_Conditions := cs\<rparr>),
      sa_ObservedGeneration = grst_ObservedGeneration,
      sa_setObservedGeneration = (\<lambda>g st. st\<lparr>grst_ObservedGeneration := g\<rparr>)\<rparr>"

interpretation groupStatus: status_object groupAccess
  by unfold_locales (simp_all add: groupAccess_def ObjectMeta.truncate_def)

definition membershipAccess :: "(OpenBaoGroupMembership, OpenBaoGroupMembershipStatus) StatusAccess" where
  "membershipAccess =
     \<lparr>sa_Status = gm_Status,
      sa_setStatus = (\<lambda>st m. m\<lparr>gm_Status := st\<rparr>),
      sa_Conditions = gmst_Conditions,
      sa_setConditions = (\<lambda>cs st. st\<lparr>gmst_Conditions := cs\<rparr>),
      sa_ObservedGeneration = gmst_ObservedGeneration,
      sa_setObservedGeneration = (\<lambda>g st. st\<lparr>gmst_ObservedGeneration := g\<rparr>)\<rparr>"

interpretation membershipStatus: status_object membershipAccess
  by unfold_locales (simp_all add: membershipAccess_def ObjectMeta.truncate_def)

section \<open>Members\<close>

definition normalizedIDs :: "string slice \<Rightarrow> string slice" where
  "normalizedIDs values = Some (Compact (sort (elems values)))"

interpretation memberIDs: normalizer normalizedIDs set
  by unfold_locales (simp_all add: normalizedIDs_def Compact_sort)

definition subtractIDs :: "string slice \<Rightarrow> string slice \<Rightarrow> string list" where
  "subtractIDs source values = filter (\<lambda>candidate. candidate \<notin> set (elems values)) (elems source)"

definition observedMemberIDs :: "Group option \<Rightarrow> string \<Rightarrow> string slice" where
  "observedMemberIDs grp memberType = (case grp of
      None \<Rightarrow> None
    | Some g \<Rightarrow> if memberType = groupMemberTypeEntity then g_MemberEntityIDs g else g_MemberGroupIDs g)"

definition containsMember :: "Group option \<Rightarrow> string \<Rightarrow> string \<Rightarrow> bool" where
  "containsMember grp memberType memberID \<longleftrightarrow> memberID \<in> set (elems (observedMemberIDs grp memberType))"

definition slices_Equal :: "'a slice \<Rightarrow> 'a slice \<Rightarrow> bool" where
  "slices_Equal a b \<longleftrightarrow> elems a = elems b"

definition titleCaseGroupType :: "string \<Rightarrow> string" where
  "titleCaseGroupType value =
     (if value = '''' then OpenBaoGroupTypeInternal
      else ToUpper (take 1 value) @ ToLower (drop 1 value))"

definition groupType :: "OpenBaoGroup \<Rightarrow> OpenBaoGroupType" where
  "groupType grp =
     (if grs_Type (gr_Spec grp) = '''' then OpenBaoGroupTypeInternal else grs_Type (gr_Spec grp))"

definition groupCreationPolicy :: "OpenBaoGroup \<Rightarrow> CreationPolicy" where
  "groupCreationPolicy grp =
     (if grs_CreationPolicy (gr_Spec grp) = '''' then CreationPolicyCreate
      else grs_CreationPolicy (gr_Spec grp))"

definition groupDeletionPolicy :: "OpenBaoGroup \<Rightarrow> DeletionPolicy" where
  "groupDeletionPolicy grp =
     (if grs_DeletionPolicy (gr_Spec grp) = '''' then DeletionPolicyOrphan
      else grs_DeletionPolicy (gr_Spec grp))"

definition groupDriftInterval :: "OpenBaoGroup \<Rightarrow> int" where
  "groupDriftInterval grp = (case grs_DriftDetectionInterval (gr_Spec grp) of
      None \<Rightarrow> defaultDriftCheck | Some d \<Rightarrow> d)"

text \<open>The members claimed of each type, in the order of the claims (\<^verbatim>\<open>managed[0]\<close>, \<^verbatim>\<open>managed[1]\<close>).\<close>

definition claimedEntities :: "groupMembershipClaim list \<Rightarrow> string list" where
  "claimedEntities claims =
     map gc_memberID (filter (\<lambda>c. gc_memberType c = groupMemberTypeEntity) claims)"

definition claimedGroups :: "groupMembershipClaim list \<Rightarrow> string list" where
  "claimedGroups claims =
     map gc_memberID (filter (\<lambda>c. gc_memberType c \<noteq> groupMemberTypeEntity) claims)"

definition managedMemberIDs :: "groupMembershipClaim list \<Rightarrow> string slice \<times> string slice" where
  "managedMemberIDs claims = (append_nil (claimedEntities claims), append_nil (claimedGroups claims))"

definition desiredGroupRequest ::
  "OpenBaoGroup \<Rightarrow> Group option \<Rightarrow> groupMembershipClaim list \<Rightarrow> GroupRequest" where
  "desiredGroupRequest grp observed claims =
     (let entityIDs = subtractIDs (observedMemberIDs observed ''Entity'')
            (grst_ManagedMemberEntityIDs (gr_Status grp)) @ claimedEntities claims;
          groupIDs = subtractIDs (observedMemberIDs observed ''Group'')
            (grst_ManagedMemberGroupIDs (gr_Status grp)) @ claimedGroups claims
      in \<lparr>gq_Name = om_Name grp,
          gq_Type = ToLower (groupType grp),
          gq_Metadata = grs_Metadata (gr_Spec grp),
          gq_Policies = normalizedIDs (grs_Policies (gr_Spec grp)),
          gq_MemberEntityIDs = normalizedIDs (Some entityIDs),
          gq_MemberGroupIDs = normalizedIDs (Some groupIDs)\<rparr>)"

definition groupMatches :: "GroupRequest \<Rightarrow> Group \<Rightarrow> bool" where
  "groupMatches desired current \<longleftrightarrow>
     g_Name current = gq_Name desired \<and> EqualFold (g_Type current) (gq_Type desired) \<and>
     maps_Equal (g_Metadata current) (gq_Metadata desired) \<and>
     slices_Equal (normalizedIDs (g_Policies current)) (gq_Policies desired) \<and>
     slices_Equal (normalizedIDs (g_MemberEntityIDs current)) (gq_MemberEntityIDs desired) \<and>
     slices_Equal (normalizedIDs (g_MemberGroupIDs current)) (gq_MemberGroupIDs desired)"

definition observeGroupStatus :: "OpenBaoGroup \<Rightarrow> Group \<Rightarrow> string slice \<times> string slice \<Rightarrow> OpenBaoGroup" where
  "observeGroupStatus grp observed managed = grp\<lparr>gr_Status := (gr_Status grp)
     \<lparr>grst_ID := g_ID observed,
      grst_Name := g_Name observed,
      grst_Type := titleCaseGroupType (g_Type observed),
      grst_Metadata := g_Metadata observed,
      grst_Policies := normalizedIDs (g_Policies observed),
      grst_MemberEntityIDs := normalizedIDs (g_MemberEntityIDs observed),
      grst_MemberGroupIDs := normalizedIDs (g_MemberGroupIDs observed),
      grst_ManagedMemberEntityIDs := normalizedIDs (fst managed),
      grst_ManagedMemberGroupIDs := normalizedIDs (snd managed),
      grst_ObservedGeneration := om_Generation grp\<rparr>\<rparr>"

section \<open>Acquisition and deletion\<close>

definition clientFor_group ::
  "'s GroupReconciler \<Rightarrow> OpenBaoConnection \<Rightarrow> ('s, go_error + 's GroupClient) state" where
  "clientFor_group R connection =
     clientForWith (gp_NewClient R) (gp_ClientCache R) (gp_connectionClientFor R) connection"

definition dependencyFailure_group ::
  "'s GroupReconciler \<Rightarrow> OpenBaoGroup \<Rightarrow> go_error \<Rightarrow> ('s, outcome) state" where
  "dependencyFailure_group R grp err =
     dependencyFailureWith groupAccess (gp_Now R) (k_StatusUpdate (gp_Groups R)) grp err"

definition fail_group ::
  "'s GroupReconciler \<Rightarrow> OpenBaoGroup \<Rightarrow> string \<Rightarrow> go_error \<Rightarrow> ('s, outcome) state" where
  "fail_group R grp reason err =
     failWith groupAccess (gp_Now R) (k_StatusUpdate (gp_Groups R)) grp reason err"

definition setGroupID :: "string \<Rightarrow> OpenBaoGroup \<Rightarrow> OpenBaoGroup" where
  "setGroupID newID grp = grp\<lparr>gr_Status := (gr_Status grp)\<lparr>grst_ID := newID\<rparr>\<rparr>"

function acquire_group ::
  "KubeLib \<Rightarrow> OpenBaoGroup \<Rightarrow> 's GroupClient \<Rightarrow> ('s, OpenBaoGroup \<times> (go_error + Group option)) state" where
  "acquire_group L grp apiClient =
     (if grst_ID (gr_Status grp) \<noteq> '''' then do {
        r \<leftarrow> GetGroupByID apiClient (grst_ID (gr_Status grp));
        case r of
          Inl err \<Rightarrow>
            if isNotFound L err then acquire_group L (setGroupID '''' grp) apiClient
            else ret (grp, Inl err)
        | Inr observed \<Rightarrow> ret (grp, Inr observed)
      } else do {
        r \<leftarrow> GetGroupByName apiClient (om_Name grp);
        case r of
          Inr observed \<Rightarrow>
            if \<not> AllowsAdoption (groupCreationPolicy grp) then
              ret (grp, Inl (Errorf (''OpenBao group '' @ fmt_q (om_Name grp) @
                '' already exists; set creationPolicy to Adopt or CreateOrAdopt to manage it'')))
            else (case observed of
                None \<Rightarrow> ret (grp, Inl NilPanic)
              | Some ob \<Rightarrow>
                  if g_ID ob = '''' then
                    ret (grp, Inl (Errorf (''OpenBao returned a group named '' @
                      fmt_q (om_Name grp) @ '' without an ID'')))
                  else ret (setGroupID (g_ID ob) grp, Inr (Some ob)))
        | Inl err \<Rightarrow>
            if \<not> isNotFound L err then ret (grp, Inl err)
            else if \<not> AllowsCreation (groupCreationPolicy grp) then
              ret (grp, Inl (Errorf (''OpenBao group '' @ fmt_q (om_Name grp) @
                '' does not exist and creationPolicy='' @ groupCreationPolicy grp @
                '' does not allow creation'')))
            else do {
              c \<leftarrow> CreateGroup apiClient (desiredGroupRequest grp None []);
              case c of
                Inl err \<Rightarrow> ret (grp, Inl err)
              | Inr newID \<Rightarrow>
                  if newID = '''' then
                    ret (grp, Inl (Errorf (''OpenBao returned an empty ID when creating group '' @
                      fmt_q (om_Name grp))))
                  else do {
                    g \<leftarrow> GetGroupByID apiClient newID;
                    ret (setGroupID newID grp, g)
                  }
            }
      })"
  by pat_completeness auto
termination
  by (relation "measure (\<lambda>(L, grp, c). length (grst_ID (gr_Status grp)))")
     (auto simp: setGroupID_def)

declare acquire_group.simps [simp del]

definition reconcileDeletion_group :: "'s GroupReconciler \<Rightarrow> OpenBaoGroup \<Rightarrow> ('s, outcome) state" where
  "reconcileDeletion_group R grp =
     (if groupDeletionPolicy grp \<noteq> DeletionPolicyDelete \<or> grst_ID (gr_Status grp) = '''' then do {
        e \<leftarrow> removeFinalizer (gp_Lib R) (k_Update (gp_Groups R)) grp;
        ret (noRequeue, e)
      } else do {
        let before = gr_Status grp;
        let grp = grp\<lparr>gr_Status := (gr_Status grp)\<lparr>grst_ObservedGeneration := om_Generation grp\<rparr>\<rparr>;
        r \<leftarrow> resolveConnection (gp_Connections R) (om_Namespace grp) (grs_ConnectionRef (gr_Spec grp));
        case r of
          Inl err \<Rightarrow>
            recordCleanupFailure groupAccess (gp_Now R) (k_StatusUpdate (gp_Groups R)) grp before
              reasonCleanupDependencyUnavailable (cleanupDependencyError ''OpenBaoConnection'' err)
        | Inr connection \<Rightarrow> do {
            c \<leftarrow> clientFor_group R connection;
            case c of
              Inl err \<Rightarrow>
                recordCleanupFailure groupAccess (gp_Now R) (k_StatusUpdate (gp_Groups R)) grp before
                  reasonCleanupDependencyUnavailable
                  (cleanupDependencyError ''OpenBaoConnection credentials'' err)
            | Inr apiClient \<Rightarrow> do {
                d \<leftarrow> DeleteGroup apiClient (grst_ID (gr_Status grp));
                case d of
                  Some err \<Rightarrow>
                    if \<not> isNotFound (gp_Lib R) err then
                      recordCleanupFailure groupAccess (gp_Now R) (k_StatusUpdate (gp_Groups R)) grp before
                        ''CleanupFailed'' err
                    else do {
                      e \<leftarrow> removeFinalizer (gp_Lib R) (k_Update (gp_Groups R)) grp;
                      ret (noRequeue, e)
                    }
                | None \<Rightarrow> do {
                    e \<leftarrow> removeFinalizer (gp_Lib R) (k_Update (gp_Groups R)) grp;
                    ret (noRequeue, e)
                  }
              }
          }
      })"

section \<open>Membership claims\<close>

definition membershipsForGroup ::
  "'s GroupReconciler \<Rightarrow> OpenBaoGroup \<Rightarrow> ('s, go_error + OpenBaoGroupMembership list) state" where
  "membershipsForGroup R grp = do {
     r \<leftarrow> k_List (gp_Memberships R) (om_Namespace grp);
     ret (case r of
       Inl err \<Rightarrow> Inl err
     | Inr items \<Rightarrow> Inr (sort_key om_Name
         (filter (\<lambda>m. grpref_Name (gms_GroupRef (gm_Spec m)) = om_Name grp) items)))
   }"

text \<open>Both return the error of the status write, if any.\<close>

definition markMembershipError ::
  "'s GroupReconciler \<Rightarrow> OpenBaoGroupMembership \<Rightarrow> string \<Rightarrow> go_error \<Rightarrow> ('s, go_error option) state" where
  "markMembershipError R membership reason err = do {
     let before = gm_Status membership;
     t \<leftarrow> gp_Now R;
     let after = failedStatus membershipAccess (om_Generation membership) reason err t before;
     r \<leftarrow> updateStatusIfChanged (k_StatusUpdate (gp_Memberships R)) (membership\<lparr>gm_Status := after\<rparr>) before after;
     ret (errorOf r)
   }"

definition markMembershipStalled ::
  "'s GroupReconciler \<Rightarrow> OpenBaoGroupMembership \<Rightarrow> go_error \<Rightarrow> ('s, go_error option) state" where
  "markMembershipStalled R membership err = do {
     let before = gm_Status membership;
     t1 \<leftarrow> gp_Now R;
     t2 \<leftarrow> gp_Now R;
     let after = stalledStatus membershipAccess (om_Generation membership) ''DependencyNotReady'' err t1 t2 before;
     r \<leftarrow> updateStatusIfChanged (k_StatusUpdate (gp_Memberships R)) (membership\<lparr>gm_Status := after\<rparr>) before after;
     ret (errorOf r)
   }"

text \<open>Report a membership and stop: \<^verbatim>\<open>statusErr\<close> when the report fails, else the resolution error.\<close>

definition rejectMembership ::
  "'s GroupReconciler \<Rightarrow> OpenBaoGroupMembership \<Rightarrow> go_error \<Rightarrow> ('s, go_error + groupMembershipClaim list) state" where
  "rejectMembership R membership err = do {
     e \<leftarrow> markMembershipError R membership ''InvalidMembership'' err;
     ret (Inl (case e of Some statusErr \<Rightarrow> statusErr | None \<Rightarrow> MembershipResolutionError False err))
   }"

definition stallMembership ::
  "'s GroupReconciler \<Rightarrow> OpenBaoGroupMembership \<Rightarrow> go_error \<Rightarrow> go_error
     \<Rightarrow> ('s, go_error + groupMembershipClaim list) state" where
  "stallMembership R membership reported err = do {
     e \<leftarrow> markMembershipStalled R membership reported;
     ret (Inl (case e of Some statusErr \<Rightarrow> statusErr | None \<Rightarrow> MembershipResolutionError True err))
   }"

fun rejectExternal ::
  "'s GroupReconciler \<Rightarrow> OpenBaoGroup \<Rightarrow> OpenBaoGroupMembership list
     \<Rightarrow> ('s, go_error + groupMembershipClaim list) state" where
  "rejectExternal R grp [] = ret (Inl (MembershipResolutionError False
     (Errorf (''OpenBao external group '' @ fmt_q (om_Name grp) @
       '' cannot be managed with OpenBaoGroupMembership resources''))))"
| "rejectExternal R grp (m # ms) = do {
     e \<leftarrow> markMembershipError R m ''ExternalGroupMembershipUnsupported''
       (Errorf (''OpenBao external group '' @ fmt_q (om_Name grp) @
         '' manages membership through its external alias''));
     case e of Some err \<Rightarrow> ret (Inl err) | None \<Rightarrow> rejectExternal R grp ms
   }"

text \<open>The loop of \<^verbatim>\<open>resolveMemberships\<close>; \<open>claims\<close> is what it has collected.\<close>

fun resolveLoop ::
  "'s GroupReconciler \<Rightarrow> OpenBaoGroup \<Rightarrow> OpenBaoGroupMembership list \<Rightarrow> groupMembershipClaim list
     \<Rightarrow> ('s, go_error + groupMembershipClaim list) state" where
  "resolveLoop R grp [] claims = ret (Inr claims)"
| "resolveLoop R grp (m # ms) claims =
     (case (gms_EntityRef (gm_Spec m), gms_MemberGroupRef (gm_Spec m)) of
        (Some ref, None) \<Rightarrow> do {
          r \<leftarrow> resolveEntity (gp_Entities R) (om_Namespace grp) ref;
          case r of
            Inl err \<Rightarrow> stallMembership R m
              (dependencyMessage ''OpenBaoEntity'' (om_Namespace grp, entref_Name ref) (Some err)) err
          | Inr entity \<Rightarrow>
              if \<not> IsStatusConditionTrue (gp_Lib R) (est_Conditions (en_Status entity)) conditionReady
                 \<or> est_ID (en_Status entity) = '''' then
                (let err = dependencyMessage ''OpenBaoEntity'' (ObjectKey entity) None
                 in stallMembership R m err err)
              else resolveLoop R grp ms (claims @
                [\<lparr>gc_object = m, gc_memberID = est_ID (en_Status entity), gc_memberType = groupMemberTypeEntity\<rparr>])
        }
      | (None, Some ref) \<Rightarrow>
          if grpref_Name ref = om_Name grp then
            rejectMembership R m (Errorf (''OpenBaoGroupMembership '' @ om_Namespace m @ ''/'' @ om_Name m @
              '' cannot make group '' @ fmt_q (om_Name grp) @ '' a member of itself''))
          else do {
            r \<leftarrow> resolveGroup (gp_MemberGroups R) (om_Namespace grp) ref;
            case r of
              Inl err \<Rightarrow> stallMembership R m
                (dependencyMessage ''OpenBaoGroup'' (om_Namespace grp, grpref_Name ref) (Some err)) err
            | Inr child \<Rightarrow>
                if \<not> IsStatusConditionTrue (gp_Lib R) (grst_Conditions (gr_Status child)) conditionReady
                   \<or> grst_ID (gr_Status child) = '''' then
                  (let err = dependencyMessage ''OpenBaoGroup'' (ObjectKey child) None
                   in stallMembership R m err err)
                else resolveLoop R grp ms (claims @
                  [\<lparr>gc_object = m, gc_memberID = grst_ID (gr_Status child), gc_memberType = groupMemberTypeGroup\<rparr>])
          }
      | _ \<Rightarrow> rejectMembership R m (Errorf ''exactly one of entityRef or memberGroupRef must be set''))"

definition resolveMemberships ::
  "'s GroupReconciler \<Rightarrow> OpenBaoGroup \<Rightarrow> OpenBaoGroupMembership list
     \<Rightarrow> ('s, go_error + groupMembershipClaim list) state" where
  "resolveMemberships R grp memberships =
     (if memberships = [] then ret (Inr [])
      else if groupType grp = OpenBaoGroupTypeExternal then rejectExternal R grp memberships
      else resolveLoop R grp memberships [])"

text \<open>The status of a claim once the group is reconciled.\<close>

definition appliedMembership ::
  "OpenBaoGroup \<Rightarrow> groupMembershipClaim \<Rightarrow> Group \<Rightarrow> int \<Rightarrow> int \<Rightarrow> OpenBaoGroupMembershipStatus" where
  "appliedMembership grp claim observed t1 t2 =
     (let m = gc_object claim;
          st = (gm_Status m)\<lparr>gmst_GroupID := grst_ID (gr_Status grp), gmst_MemberID := gc_memberID claim,
                 gmst_MemberType := gc_memberType claim, gmst_ObservedGeneration := om_Generation m\<rparr>
      in st\<lparr>gmst_Conditions :=
           (if \<not> containsMember (Some observed) (gc_memberType claim) (gc_memberID claim) then
              markError (gmst_Conditions st) (om_Generation m) ''MembershipNotApplied''
                (Some (Errorf (''OpenBao group '' @ fmt_q (om_Name grp) @ '' does not contain '' @
                  ToLower (gc_memberType claim) @ '' '' @ fmt_q (gc_memberID claim)))) t1
            else markReady (gmst_Conditions st) (om_Generation m)
              ''OpenBao group membership is reconciled'' t1 t2)\<rparr>)"

fun updateMembershipStatuses ::
  "'s GroupReconciler \<Rightarrow> OpenBaoGroup \<Rightarrow> groupMembershipClaim list \<Rightarrow> Group \<Rightarrow> ('s, go_error option) state" where
  "updateMembershipStatuses R grp [] observed = ret None"
| "updateMembershipStatuses R grp (claim # claims) observed = do {
     t1 \<leftarrow> gp_Now R;
     t2 \<leftarrow> gp_Now R;
     let membership = gc_object claim;
     let after = appliedMembership grp claim observed t1 t2;
     r \<leftarrow> updateStatusIfChanged (k_StatusUpdate (gp_Memberships R)) (membership\<lparr>gm_Status := after\<rparr>)
       (gm_Status membership) after;
     case r of
       Inl err \<Rightarrow> ret (Some err)
     | Inr _ \<Rightarrow> updateMembershipStatuses R grp claims observed
   }"

section \<open>Reconcile\<close>

definition readyGroupStatus ::
  "OpenBaoGroup \<Rightarrow> Group \<Rightarrow> groupMembershipClaim list \<Rightarrow> int \<Rightarrow> int \<Rightarrow> OpenBaoGroup" where
  "readyGroupStatus grp observed claims now1 now2 =
     (let grp = observeGroupStatus grp observed (managedMemberIDs claims)
      in grp\<lparr>gr_Status := (gr_Status grp)\<lparr>grst_Conditions :=
           markReady (grst_Conditions (gr_Status grp)) (om_Generation grp)
             ''OpenBao group is reconciled'' now1 now2\<rparr>\<rparr>)"

definition finish_group ::
  "'s GroupReconciler \<Rightarrow> OpenBaoGroupStatus \<Rightarrow> OpenBaoGroup \<Rightarrow> groupMembershipClaim list \<Rightarrow> Group
     \<Rightarrow> ('s, outcome) state" where
  "finish_group R before grp claims observed = do {
     t1 \<leftarrow> gp_Now R;
     t2 \<leftarrow> gp_Now R;
     let grp = readyGroupStatus grp observed claims t1 t2;
     r \<leftarrow> updateStatusIfChanged (k_StatusUpdate (gp_Groups R)) grp before (gr_Status grp);
     case r of
       Inl err \<Rightarrow> ret (noRequeue, Some err)
     | Inr grp \<Rightarrow> do {
         e \<leftarrow> updateMembershipStatuses R grp claims observed;
         ret (case e of Some err \<Rightarrow> (noRequeue, Some err)
              | None \<Rightarrow> (requeueIn (groupDriftInterval grp), None))
       }
   }"

definition apply_group ::
  "'s GroupReconciler \<Rightarrow> 's GroupClient \<Rightarrow> OpenBaoGroupStatus \<Rightarrow> OpenBaoGroup \<Rightarrow> groupMembershipClaim list
     \<Rightarrow> Group \<Rightarrow> ('s, outcome) state" where
  "apply_group R apiClient before grp claims observed = do {
     let desired = desiredGroupRequest grp (Some observed) claims;
     if groupMatches desired observed then finish_group R before grp claims observed
     else do {
       u \<leftarrow> UpdateGroup apiClient (grst_ID (gr_Status grp)) desired;
       case u of
         Inl err \<Rightarrow> fail_group R grp ''GroupUpdateFailed'' err
       | Inr _ \<Rightarrow> do {
           g \<leftarrow> GetGroupByID apiClient (grst_ID (gr_Status grp));
           case g of
             Inl err \<Rightarrow> fail_group R grp ''GroupReadFailed'' err
           | Inr None \<Rightarrow> fail_group R grp ''InvalidOpenBaoResponse''
               (Errorf (''OpenBao returned no group after updating '' @ fmt_q (grst_ID (gr_Status grp))))
           | Inr (Some observed) \<Rightarrow> finish_group R before grp claims observed
         }
     }
   }"

definition sync_group ::
  "'s GroupReconciler \<Rightarrow> 's GroupClient \<Rightarrow> OpenBaoGroupStatus \<Rightarrow> OpenBaoGroup \<Rightarrow> Group option
     \<Rightarrow> ('s, outcome) state" where
  "sync_group R apiClient before grp acquired = (case acquired of
      None \<Rightarrow> fail_group R grp ''InvalidOpenBaoResponse''
        (Errorf (''OpenBao returned no group for '' @ fmt_q (om_Name grp)))
    | Some observed \<Rightarrow>
        if g_Name observed \<noteq> '''' \<and> g_Name observed \<noteq> om_Name grp then
          fail_group R grp ''GroupIdentityMismatch''
            (Errorf (''OpenBao group '' @ fmt_q (grst_ID (gr_Status grp)) @ '' is named '' @
               fmt_q (g_Name observed) @ '', expected '' @ fmt_q (om_Name grp)))
        else do {
          m \<leftarrow> membershipsForGroup R grp;
          case m of
            Inl err \<Rightarrow> fail_group R grp ''GroupMembershipReadFailed'' err
          | Inr memberships \<Rightarrow> do {
              c \<leftarrow> resolveMemberships R grp memberships;
              case c of
                Inl err \<Rightarrow> (case as_MembershipResolutionError err of
                    Some (dependency, e) \<Rightarrow>
                      if dependency then dependencyFailure_group R grp (MembershipResolutionError dependency e)
                      else fail_group R grp ''GroupMembershipResolutionFailed'' err
                  | None \<Rightarrow> fail_group R grp ''GroupMembershipResolutionFailed'' err)
              | Inr claims \<Rightarrow> apply_group R apiClient before grp claims observed
            }
        })"

definition reconcileActive_group ::
  "'s GroupReconciler \<Rightarrow> OpenBaoGroupStatus \<Rightarrow> OpenBaoGroup \<Rightarrow> ('s, outcome) state" where
  "reconcileActive_group R before grp = do {
     let grp = grp\<lparr>gr_Status := (gr_Status grp)\<lparr>grst_ObservedGeneration := om_Generation grp\<rparr>\<rparr>;
     let ref = grs_ConnectionRef (gr_Spec grp);
     r \<leftarrow> resolveConnection (gp_Connections R) (om_Namespace grp) ref;
     case r of
       Inl err \<Rightarrow> dependencyFailure_group R grp
         (Wrapf (''read OpenBaoConnection '' @ om_Namespace grp @ ''/'' @ connref_Name ref) err)
     | Inr connection \<Rightarrow>
         if \<not> IsStatusConditionTrue (gp_Lib R) (cnst_Conditions (cn_Status connection)) conditionReady then
           dependencyFailure_group R grp
             (dependencyMessage ''OpenBaoConnection'' (ObjectKey connection) None)
         else do {
           c \<leftarrow> clientFor_group R connection;
           case c of
             Inl err \<Rightarrow> dependencyFailure_group R grp err
           | Inr apiClient \<Rightarrow> do {
               (grp, a) \<leftarrow> acquire_group (gp_Lib R) grp apiClient;
               case a of
                 Inl err \<Rightarrow>
                   if err = NilPanic then nilPanic
                   else fail_group R grp ''GroupAcquireFailed'' err
               | Inr observed \<Rightarrow> sync_group R apiClient before grp observed
             }
         }
   }"

definition Reconcile_group :: "'s GroupReconciler \<Rightarrow> NamespacedName \<Rightarrow> ('s, outcome) state" where
  "Reconcile_group R req = do {
     r \<leftarrow> k_Get (gp_Groups R) req;
     case r of
       Inl err \<Rightarrow>
         if apierrors_IsNotFound (gp_Lib R) err then ret (noRequeue, None)
         else ret (noRequeue, Some err)
     | Inr grp \<Rightarrow> do {
         let before = gr_Status grp;
         f \<leftarrow> (if notDeleted grp \<and> IsDelete (groupDeletionPolicy grp)
              then ensureFinalizer (gp_Lib R) (k_Update (gp_Groups R)) grp
              else ret (Inr grp));
         case f of
           Inl err \<Rightarrow> ret (noRequeue, Some err)
         | Inr grp \<Rightarrow>
             if \<not> notDeleted grp then reconcileDeletion_group R grp
             else reconcileActive_group R before grp
       }
   }"

section \<open>Which groups an event requeues\<close>

definition mapConnectionToGroups ::
  "'s GroupReconciler \<Rightarrow> 'a ObjectMeta_scheme \<Rightarrow> ('s, NamespacedName list) state" where
  "mapConnectionToGroups R obj = do {
     r \<leftarrow> k_List (gp_Groups R) (om_Namespace obj);
     ret (case r of
       Inl _ \<Rightarrow> []
     | Inr items \<Rightarrow> map ObjectKey
         (filter (\<lambda>g. connref_Name (grs_ConnectionRef (gr_Spec g)) = om_Name obj) items))
   }"

definition mapMembershipToGroup :: "OpenBaoGroupMembership \<Rightarrow> NamespacedName list" where
  "mapMembershipToGroup m =
     (if grpref_Name (gms_GroupRef (gm_Spec m)) = '''' then []
      else [(om_Namespace m, grpref_Name (gms_GroupRef (gm_Spec m)))])"

definition mapEntityToGroups ::
  "'s GroupReconciler \<Rightarrow> 'a ObjectMeta_scheme \<Rightarrow> ('s, NamespacedName list) state" where
  "mapEntityToGroups R obj = do {
     r \<leftarrow> k_List (gp_Memberships R) (om_Namespace obj);
     ret (case r of
       Inl _ \<Rightarrow> []
     | Inr items \<Rightarrow> map (\<lambda>m. (om_Namespace m, grpref_Name (gms_GroupRef (gm_Spec m))))
         (filter (\<lambda>m. case gms_EntityRef (gm_Spec m) of None \<Rightarrow> False | Some ref \<Rightarrow> entref_Name ref = om_Name obj) items))
   }"

definition mapGroupToParentGroups ::
  "'s GroupReconciler \<Rightarrow> 'a ObjectMeta_scheme \<Rightarrow> ('s, NamespacedName list) state" where
  "mapGroupToParentGroups R obj = do {
     r \<leftarrow> k_List (gp_Memberships R) (om_Namespace obj);
     ret (case r of
       Inl _ \<Rightarrow> []
     | Inr items \<Rightarrow> map (\<lambda>m. (om_Namespace m, grpref_Name (gms_GroupRef (gm_Spec m))))
         (filter (\<lambda>m. case gms_MemberGroupRef (gm_Spec m) of None \<Rightarrow> False | Some ref \<Rightarrow> grpref_Name ref = om_Name obj) items))
   }"

end
