(* ===== verification/GroupProperties.thy ===== *)
theory GroupProperties
  imports GroupController Examples
begin

text \<open>
  What a reconciliation of a group may do, observed through its calls, for every behaviour of
  the environment; what the requested members are; and that an applied request is stable.
\<close>

section \<open>Observing a run\<close>

datatype GroupEvent =
    KGroup "OpenBaoGroup KubeEvent"
  | KMemberGroup "OpenBaoGroup KubeEvent"
  | KMembership "OpenBaoGroupMembership KubeEvent"
  | KGrpEntity "OpenBaoEntity KubeEvent"
  | KGrpConnection "OpenBaoConnection KubeEvent"
  | MadeGroupClient OpenBaoConnection "go_error option"
  | GotGroup string "go_error + Group option"
  | GotGroupNamed string "go_error + Group option"
  | CreatedGroup GroupRequest "go_error + string"
  | UpdatedGroup string GroupRequest "go_error + Group option"
  | DeletedGroup string "go_error option"

definition logGroupClient :: "'s GroupClient \<Rightarrow> ('s \<times> GroupEvent list) GroupClient" where
  "logGroupClient c =
     \<lparr>GetGroupByID = (\<lambda>i. logged (GotGroup i) (GetGroupByID c i)),
      GetGroupByName = (\<lambda>n. logged (GotGroupNamed n) (GetGroupByName c n)),
      CreateGroup = (\<lambda>q. logged (CreatedGroup q) (CreateGroup c q)),
      UpdateGroup = (\<lambda>i q. logged (UpdatedGroup i q) (UpdateGroup c i q)),
      DeleteGroup = (\<lambda>i. logged (DeletedGroup i) (DeleteGroup c i))\<rparr>"

lemma logGroupClient_sel [simp]:
  "GetGroupByID (logGroupClient c) i = logged (GotGroup i) (GetGroupByID c i)"
  "GetGroupByName (logGroupClient c) n = logged (GotGroupNamed n) (GetGroupByName c n)"
  "CreateGroup (logGroupClient c) q = logged (CreatedGroup q) (CreateGroup c q)"
  "UpdateGroup (logGroupClient c) i q = logged (UpdatedGroup i q) (UpdateGroup c i q)"
  "DeleteGroup (logGroupClient c) i = logged (DeletedGroup i) (DeleteGroup c i)"
  by (simp_all add: logGroupClient_def)

definition logGroupReconciler :: "'s GroupReconciler \<Rightarrow> ('s \<times> GroupEvent list) GroupReconciler" where
  "logGroupReconciler R =
     \<lparr>gp_Lib = gp_Lib R,
      gp_Groups = logKube KGroup (gp_Groups R),
      gp_MemberGroups = logKube KMemberGroup (gp_MemberGroups R),
      gp_Memberships = logKube KMembership (gp_Memberships R),
      gp_Entities = logKube KGrpEntity (gp_Entities R),
      gp_Connections = logKube KGrpConnection (gp_Connections R),
      gp_Now = silent (gp_Now R),
      gp_NewClient = map_option (logClientFor MadeGroupClient logGroupClient) (gp_NewClient R),
      gp_ClientCache = map_option (logClientFor MadeGroupClient logGroupClient) (gp_ClientCache R),
      gp_connectionClientFor = logClientFor MadeGroupClient logGroupClient (gp_connectionClientFor R)\<rparr>"

lemma logGroupReconciler_sel [simp]:
  "gp_Lib (logGroupReconciler R) = gp_Lib R"
  "gp_Groups (logGroupReconciler R) = logKube KGroup (gp_Groups R)"
  "gp_MemberGroups (logGroupReconciler R) = logKube KMemberGroup (gp_MemberGroups R)"
  "gp_Memberships (logGroupReconciler R) = logKube KMembership (gp_Memberships R)"
  "gp_Entities (logGroupReconciler R) = logKube KGrpEntity (gp_Entities R)"
  "gp_Connections (logGroupReconciler R) = logKube KGrpConnection (gp_Connections R)"
  "gp_Now (logGroupReconciler R) = silent (gp_Now R)"
  by (simp_all add: logGroupReconciler_def)

lemma wp_clientFor_groupI:
  assumes "\<And>e s'. Q (Inl e) (s', tr @ [MadeGroupClient connection (Some e)])"
    and "\<And>c s'. Q (Inr (logGroupClient c)) (s', tr @ [MadeGroupClient connection None])"
  shows "wp (clientFor_group (logGroupReconciler R) connection) Q (s, tr)"
  unfolding clientFor_group_def logGroupReconciler_def GroupReconciler.simps
  by (intro wp_clientForWithI assms)

definition group_run ::
  "'s GroupReconciler \<Rightarrow> NamespacedName \<Rightarrow> 's \<Rightarrow> outcome \<times> 's \<times> GroupEvent list" where
  "group_run R req s = run_state (Reconcile_group (logGroupReconciler R) req) (s, [])"

definition group_trace :: "'s GroupReconciler \<Rightarrow> NamespacedName \<Rightarrow> 's \<Rightarrow> GroupEvent list" where
  "group_trace R req s = snd (snd (group_run R req s))"

section \<open>What justifies a call\<close>

definition activeGroup :: "KubeLib \<Rightarrow> GroupEvent list \<Rightarrow> OpenBaoGroup \<Rightarrow> bool" where
  "activeGroup L = live L KGroup KGrpConnection (\<lambda>g. IsDelete (groupDeletionPolicy g))"

text \<open>The same desired state, and the same record of managed members.\<close>

definition sameGroup :: "OpenBaoGroup \<Rightarrow> OpenBaoGroup \<Rightarrow> bool" where
  "sameGroup a b \<longleftrightarrow> ObjectMeta.truncate a = ObjectMeta.truncate b \<and> gr_Spec a = gr_Spec b \<and>
     grst_ManagedMemberEntityIDs (gr_Status a) = grst_ManagedMemberEntityIDs (gr_Status b) \<and>
     grst_ManagedMemberGroupIDs (gr_Status a) = grst_ManagedMemberGroupIDs (gr_Status b)"

definition ownedGroup :: "GroupEvent list \<Rightarrow> OpenBaoGroup \<Rightarrow> string \<Rightarrow> bool" where
  "ownedGroup pre g i \<longleftrightarrow> i \<noteq> '''' \<and>
     (i = grst_ID (gr_Status g)
      \<or> (\<exists>q. CreatedGroup q (Inr i) \<in> set pre)
      \<or> (\<exists>ob. GotGroupNamed (om_Name g) (Inr (Some ob)) \<in> set pre \<and> g_ID ob = i \<and>
           AllowsAdoption (groupCreationPolicy g)))"

definition observedGroup :: "GroupEvent list \<Rightarrow> OpenBaoGroup \<Rightarrow> string \<Rightarrow> Group \<Rightarrow> bool" where
  "observedGroup pre g i ob \<longleftrightarrow>
     GotGroup i (Inr (Some ob)) \<in> set pre \<or>
     (GotGroupNamed (om_Name g) (Inr (Some ob)) \<in> set pre \<and> g_ID ob = i)"

text \<open>
  The answer that supports a claim: the entity or group its membership refers to was read, is
  ready, and has the claimed identifier; a group never supports a claim on itself.
\<close>

fun provesClaim :: "KubeLib \<Rightarrow> OpenBaoGroup \<Rightarrow> groupMembershipClaim \<Rightarrow> GroupEvent \<Rightarrow> bool" where
  "provesClaim L g c (KGrpEntity (GotObject nn (Inr ent))) =
     (gc_memberType c = groupMemberTypeEntity \<and> gms_MemberGroupRef (gm_Spec (gc_object c)) = None \<and>
      map_option entref_Name (gms_EntityRef (gm_Spec (gc_object c))) = Some (snd nn) \<and>
      fst nn = om_Namespace g \<and>
      IsStatusConditionTrue L (est_Conditions (en_Status ent)) conditionReady \<and>
      est_ID (en_Status ent) = gc_memberID c \<and> gc_memberID c \<noteq> '''')"
| "provesClaim L g c (KMemberGroup (GotObject nn (Inr child))) =
     (gc_memberType c = groupMemberTypeGroup \<and> gms_EntityRef (gm_Spec (gc_object c)) = None \<and>
      map_option grpref_Name (gms_MemberGroupRef (gm_Spec (gc_object c))) = Some (snd nn) \<and>
      fst nn = om_Namespace g \<and> snd nn \<noteq> om_Name g \<and>
      IsStatusConditionTrue L (grst_Conditions (gr_Status child)) conditionReady \<and>
      grst_ID (gr_Status child) = gc_memberID c \<and> gc_memberID c \<noteq> '''')"
| "provesClaim L g c e = False"

definition listedFor :: "GroupEvent list \<Rightarrow> OpenBaoGroup \<Rightarrow> OpenBaoGroupMembership \<Rightarrow> bool" where
  "listedFor pre g m \<longleftrightarrow> grpref_Name (gms_GroupRef (gm_Spec m)) = om_Name g \<and>
     (\<exists>items. KMembership (ListedObjects (om_Namespace g) (Inr items)) \<in> set pre \<and> m \<in> set items)"

definition claimsOK :: "KubeLib \<Rightarrow> GroupEvent list \<Rightarrow> OpenBaoGroup \<Rightarrow> groupMembershipClaim list \<Rightarrow> bool" where
  "claimsOK L pre g claims \<longleftrightarrow>
     (claims = [] \<or> groupType g \<noteq> OpenBaoGroupTypeExternal) \<and>
     list_all (\<lambda>c. listedFor pre g (gc_object c) \<and> list_ex (provesClaim L g c) pre) claims"

definition nameFits :: "OpenBaoGroup \<Rightarrow> Group \<Rightarrow> bool" where
  "nameFits g ob \<longleftrightarrow> g_Name ob = '''' \<or> g_Name ob = om_Name g"

definition settledGroup ::
  "KubeLib \<Rightarrow> GroupEvent list \<Rightarrow> OpenBaoGroup \<Rightarrow> groupMembershipClaim list \<Rightarrow> Group \<Rightarrow> bool" where
  "settledGroup L tr g claims ob \<longleftrightarrow> claimsOK L tr g claims \<and>
     (\<exists>i. ownedGroup tr g i \<and> observedGroup tr g i ob \<and>
       (groupMatches (desiredGroupRequest g (Some ob) claims) ob \<or>
        (\<exists>prev x. observedGroup tr g i prev \<and>
           UpdatedGroup i (desiredGroupRequest g (Some prev) claims) (Inr x) \<in> set tr)))"

fun goneGroup :: "KubeLib \<Rightarrow> string \<Rightarrow> GroupEvent \<Rightarrow> bool" where
  "goneGroup L i (DeletedGroup j d) = (j = i \<and> confirmedGone L d)"
| "goneGroup L i e = False"

fun absentGroup :: "KubeLib \<Rightarrow> string \<Rightarrow> GroupEvent \<Rightarrow> bool" where
  "absentGroup L n (GotGroupNamed m (Inl err)) = (m = n \<and> isNotFound L err)"
| "absentGroup L n e = False"

fun createsGroup :: "GroupEvent \<Rightarrow> bool" where
  "createsGroup (CreatedGroup q r) = True"
| "createsGroup e = False"

fun group_justified :: "KubeLib \<Rightarrow> GroupEvent list \<Rightarrow> GroupEvent \<Rightarrow> bool" where
  "group_justified L pre (CreatedGroup q r) =
     (\<exists>g. activeGroup L pre g \<and> AllowsCreation (groupCreationPolicy g) \<and>
        q = desiredGroupRequest g None [] \<and> list_ex (absentGroup L (om_Name g)) pre \<and>
        \<not> list_ex createsGroup pre)"
| "group_justified L pre (UpdatedGroup i q r) =
     (\<exists>g ob claims. activeGroup L pre g \<and> ownedGroup pre g i \<and> observedGroup pre g i ob \<and>
        nameFits g ob \<and> claimsOK L pre g claims \<and> q = desiredGroupRequest g (Some ob) claims \<and>
        \<not> groupMatches q ob)"
| "group_justified L pre (DeletedGroup i r) =
     (\<exists>g. seen KGroup pre g \<and> \<not> notDeleted g \<and>
        groupDeletionPolicy g = DeletionPolicyDelete \<and> i = grst_ID (gr_Status g) \<and> i \<noteq> '''')"
| "group_justified L pre (KGroup (UpdatedObject ob r)) =
     finalizerWrite L KGroup (\<lambda>g. IsDelete (groupDeletionPolicy g))
       (\<lambda>g. groupDeletionPolicy g \<noteq> DeletionPolicyDelete \<or> grst_ID (gr_Status g) = '''' \<or>
          list_ex (goneGroup L (grst_ID (gr_Status g))) pre) pre ob"
| "group_justified L pre (KGroup (UpdatedStatus ob r)) =
     (if readyTrue (grst_Conditions (gr_Status ob)) then
       (\<exists>g g1 claims obs t1 t2. activeGroup L pre g \<and> settledGroup L pre g claims obs \<and>
          ob = readyGroupStatus g1 obs claims t1 t2 \<and> sameGroup g1 g)
      else True)"
| "group_justified L pre (KMembership (UpdatedStatus m r)) =
     (if readyTrue (gmst_Conditions (gm_Status m)) then
       (\<exists>g claims claim obs. activeGroup L pre g \<and> settledGroup L pre g claims obs \<and>
          claim \<in> set claims \<and> containsMember (Some obs) (gc_memberType claim) (gc_memberID claim) \<and>
          ObjectMeta.truncate m = ObjectMeta.truncate (gc_object claim) \<and>
          gmst_MemberID (gm_Status m) = gc_memberID claim \<and>
          gmst_MemberType (gm_Status m) = gc_memberType claim)
      else True)"
| "group_justified L pre (GotGroup i r) = (\<exists>g. activeGroup L pre g)"
| "group_justified L pre (GotGroupNamed n r) = (\<exists>g. activeGroup L pre g \<and> n = om_Name g)"
| "group_justified L pre (KMemberGroup (UpdatedObject ob r)) = False"
| "group_justified L pre (KMemberGroup (UpdatedStatus ob r)) = False"
| "group_justified L pre (KMembership (UpdatedObject m r)) = False"
| "group_justified L pre e = True"

text \<open>Facts about the past survive later calls.\<close>

lemma activeGroup_mono [simp]: "activeGroup L pre g \<Longrightarrow> activeGroup L (pre @ es) g"
  by (simp add: activeGroup_def)

lemma ownedGroup_mono [simp]: "ownedGroup pre g i \<Longrightarrow> ownedGroup (pre @ es) g i"
  by (auto simp: ownedGroup_def)

lemma observedGroup_mono [simp]: "observedGroup pre g i ob \<Longrightarrow> observedGroup (pre @ es) g i ob"
  by (auto simp: observedGroup_def)

lemma listedFor_mono [simp]: "listedFor pre g m \<Longrightarrow> listedFor (pre @ es) g m"
  by (auto simp: listedFor_def)

lemma claimsOK_mono [simp]: "claimsOK L pre g claims \<Longrightarrow> claimsOK L (pre @ es) g claims"
  by (auto simp: claimsOK_def list_all_iff)

lemma settledGroup_mono [simp]: "settledGroup L pre g claims ob \<Longrightarrow> settledGroup L (pre @ es) g claims ob"
  unfolding settledGroup_def by auto (meson ownedGroup_mono observedGroup_mono)+

lemma sameGroup_simps [simp]:
  "sameGroup a a" "sameGroup (setGroupID i a) b = sameGroup a b"
  "sameGroup (a\<lparr>gr_Status := (gr_Status a)\<lparr>grst_ObservedGeneration := n\<rparr>\<rparr>) b = sameGroup a b"
  "grst_ID (gr_Status (setGroupID i a)) = i"
  by (simp_all add: sameGroup_def ObjectMeta.truncate_def setGroupID_def)

lemma sameGroup_fields:
  assumes "sameGroup a b"
  shows "om_Name a = om_Name b" "om_Namespace a = om_Namespace b" "gr_Spec a = gr_Spec b"
    "groupType a = groupType b" "desiredGroupRequest a = desiredGroupRequest b"
    "groupCreationPolicy a = groupCreationPolicy b" "groupDeletionPolicy a = groupDeletionPolicy b"
  using assms by (simp_all add: sameGroup_def ObjectMeta.truncate_def desiredGroupRequest_def
      groupCreationPolicy_def groupDeletionPolicy_def groupType_def fun_eq_iff)

lemma groupAccess_sel [simp]:
  "sa_Status groupAccess g = gr_Status g" "sa_setStatus groupAccess st g = g\<lparr>gr_Status := st\<rparr>"
  "sa_Conditions groupAccess st = grst_Conditions st"
  "sa_Status membershipAccess m = gm_Status m" "sa_setStatus membershipAccess mst m = m\<lparr>gm_Status := mst\<rparr>"
  "sa_Conditions membershipAccess mst = gmst_Conditions mst"
  by (simp_all add: groupAccess_def membershipAccess_def)

text \<open>Introduction rules for the justifications.\<close>

lemma group_status_unready:
  "\<not> readyTrue (sa_Conditions groupAccess (sa_Status groupAccess ob))
     \<Longrightarrow> group_justified L tr (KGroup (UpdatedStatus ob r))"
  by simp

lemma membership_status_unready:
  "\<not> readyTrue (gmst_Conditions (gm_Status m)) \<Longrightarrow> group_justified L tr (KMembership (UpdatedStatus m r))"
  by simp

lemmas group_failure_rules =
  groupStatus.wp_fail_guarded [where J = "group_justified L" and ev = KGroup for L, OF _ group_status_unready]
  groupStatus.wp_dependencyFailure_guarded [where J = "group_justified L" and ev = KGroup for L, OF _ group_status_unready]
  groupStatus.wp_cleanupFailure_guarded [where J = "group_justified L" and ev = KGroup for L, OF _ group_status_unready]

lemma group_read_justified:
  "activeGroup L pre g \<Longrightarrow> group_justified L pre (GotGroup i r)"
  "activeGroup L pre g \<Longrightarrow> n = om_Name g \<Longrightarrow> group_justified L pre (GotGroupNamed n r)"
  by auto

lemma group_create_justified:
  "activeGroup L pre g \<Longrightarrow> AllowsCreation (groupCreationPolicy g) \<Longrightarrow> q = desiredGroupRequest g None []
     \<Longrightarrow> list_ex (absentGroup L (om_Name g)) pre \<Longrightarrow> \<not> list_ex createsGroup pre
     \<Longrightarrow> group_justified L pre (CreatedGroup q r)"
  by auto

lemma group_update_justified:
  "activeGroup L pre g \<Longrightarrow> ownedGroup pre g i \<Longrightarrow> observedGroup pre g i ob \<Longrightarrow> nameFits g ob
     \<Longrightarrow> claimsOK L pre g claims \<Longrightarrow> q = desiredGroupRequest g (Some ob) claims \<Longrightarrow> \<not> groupMatches q ob
     \<Longrightarrow> group_justified L pre (UpdatedGroup i q r)"
  by auto

lemma group_ready_justified:
  "activeGroup L pre g \<Longrightarrow> settledGroup L pre g claims ob \<Longrightarrow> sameGroup g1 g
     \<Longrightarrow> group_justified L pre (KGroup (UpdatedStatus (readyGroupStatus g1 ob claims t1 t2) r))"
  unfolding group_justified.simps
  by (cases "readyTrue (grst_Conditions (gr_Status (readyGroupStatus g1 ob claims t1 t2)))")
     (simp_all only: if_True if_False, blast)

declare group_justified.simps(1-8) [simp del]

section \<open>Reading the memberships\<close>

lemma wp_markMembershipErrorI:
  assumes "guarded (group_justified (gp_Lib R)) tr"
    and "\<And>e es s'. guarded (group_justified (gp_Lib R)) (tr @ es) \<Longrightarrow> Q e (s', tr @ es)"
  shows "wp (markMembershipError (logGroupReconciler R) m reason err) Q (s, tr)"
proof -
  have notReady: "\<not> readyTrue (gmst_Conditions (failedStatus membershipAccess g reason err t st))" for g t st
    using membershipStatus.failed_notReady [of g reason err t st] by simp
  show ?thesis
    unfolding markMembershipError_def Let_def wp_simps logGroupReconciler_sel
    using assms(1) assms(2) [where es = "[]"] assms(2) [where es = "[_]"] notReady
    by (intro wp_silentI wp_updateStatusI) (simp_all add: guarded_snoc membership_status_unready)
qed

lemma wp_markMembershipStalledI:
  assumes "guarded (group_justified (gp_Lib R)) tr"
    and "\<And>e es s'. guarded (group_justified (gp_Lib R)) (tr @ es) \<Longrightarrow> Q e (s', tr @ es)"
  shows "wp (markMembershipStalled (logGroupReconciler R) m err) Q (s, tr)"
proof -
  have notReady: "\<not> readyTrue (gmst_Conditions (stalledStatus membershipAccess g reason err t1 t2 st))"
    for g reason t1 t2 st
    using membershipStatus.stalled_notReady [of g reason err t1 t2 st] by simp
  show ?thesis
    unfolding markMembershipStalled_def Let_def wp_simps logGroupReconciler_sel
    using assms(1) assms(2) [where es = "[]"] assms(2) [where es = "[_]"] notReady
    by (intro wp_silentI wp_updateStatusI) (simp_all add: guarded_snoc membership_status_unready)
qed

lemma wp_rejectMembershipI:
  assumes "guarded (group_justified (gp_Lib R)) tr"
    and "\<And>e es s'. guarded (group_justified (gp_Lib R)) (tr @ es) \<Longrightarrow> Q (Inl e) (s', tr @ es)"
  shows "wp (rejectMembership (logGroupReconciler R) m err) Q (s, tr)"
    and "wp (stallMembership (logGroupReconciler R) m err' err) Q (s, tr)"
  unfolding rejectMembership_def stallMembership_def wp_simps
  using assms by (auto intro: wp_markMembershipErrorI wp_markMembershipStalledI)

lemma wp_rejectExternalI:
  assumes "guarded (group_justified (gp_Lib R)) tr"
    and "\<And>e es s'. guarded (group_justified (gp_Lib R)) (tr @ es) \<Longrightarrow> Q (Inl e) (s', tr @ es)"
  shows "wp (rejectExternal (logGroupReconciler R) g ms) Q (s, tr)"
  using assms
proof (induction ms arbitrary: s tr)
  case Nil
  then show ?case using Nil(2) [where es = "[]"] by (simp add: wp_simps)
next
  case (Cons m ms)
  have again: "wp (rejectExternal (logGroupReconciler R) g ms) Q (s', tr @ es)"
    if "guarded (group_justified (gp_Lib R)) (tr @ es)" for s' es
    by (rule Cons.IH [OF that]) (use Cons.prems(2) [where es = "es @ _"] in simp)
  show ?case
    unfolding rejectExternal.simps wp_simps
    by (rule wp_markMembershipErrorI [OF Cons.prems(1)])
       (auto simp: wp_simps again Cons.prems(2) split: option.split)
qed

text \<open>The claims collected so far are proved by what was read.\<close>

definition proved ::
  "KubeLib \<Rightarrow> GroupEvent list \<Rightarrow> OpenBaoGroup \<Rightarrow> OpenBaoGroupMembership set \<Rightarrow> groupMembershipClaim list \<Rightarrow> bool" where
  "proved L pre g ms claims \<longleftrightarrow> list_all (\<lambda>c. gc_object c \<in> ms \<and> list_ex (provesClaim L g c) pre) claims"

lemma proved_simps [simp]:
  "proved L pre g ms []"
  "proved L pre g ms (cs @ [c]) \<longleftrightarrow> proved L pre g ms cs \<and> gc_object c \<in> ms \<and> list_ex (provesClaim L g c) pre"
  by (simp_all add: proved_def)

lemma proved_mono [simp]: "proved L pre g ms cs \<Longrightarrow> proved L (pre @ es) g ms cs"
  by (auto simp: proved_def list_all_iff)

lemma wp_resolveLoopI:
  assumes "guarded (group_justified (gp_Lib R)) tr" "sameGroup grp g"
    and "proved (gp_Lib R) tr g all claims" "set ms \<subseteq> all"
    and "\<And>e es s'. guarded (group_justified (gp_Lib R)) (tr @ es) \<Longrightarrow> Q (Inl e) (s', tr @ es)"
    and "\<And>cs es s'. guarded (group_justified (gp_Lib R)) (tr @ es) \<Longrightarrow> proved (gp_Lib R) (tr @ es) g all cs
       \<Longrightarrow> Q (Inr cs) (s', tr @ es)"
  shows "wp (resolveLoop (logGroupReconciler R) grp ms claims) Q (s, tr)"
  using assms
proof (induction ms arbitrary: s tr claims)
  case Nil
  then show ?case using Nil(6) [where es = "[]"] by (simp add: wp_simps)
next
  case (Cons m ms)
  note f = sameGroup_fields [OF Cons.prems(2)]
  let ?L = "gp_Lib R" and ?R = "logGroupReconciler R"
  have snoc: "guarded (group_justified ?L) (tr @ [KGrpEntity (GotObject nn r)])"
    "guarded (group_justified ?L) (tr @ [KMemberGroup (GotObject nn r')])" for nn r r'
    using Cons.prems(1) by (simp_all add: guarded_snoc)
  have again: "wp (resolveLoop ?R grp ms (claims @ [c])) Q (s', tr @ [e])"
    if "guarded (group_justified ?L) (tr @ [e])" "gc_object c = m" "provesClaim ?L g c e" for c e s'
  proof (rule Cons.IH [OF that(1) Cons.prems(2)])
    show "proved ?L (tr @ [e]) g all (claims @ [c])"
      using Cons.prems(3,4) that by simp
    show "set ms \<subseteq> all" using Cons.prems(4) by simp
    show "Q (Inl ee) (s', (tr @ [e]) @ es)"
      if "guarded (group_justified ?L) ((tr @ [e]) @ es)" for ee es s'
      using Cons.prems(5) [where es = "e # es"] that by simp
    show "Q (Inr cs) (s', (tr @ [e]) @ es)"
      if "guarded (group_justified ?L) ((tr @ [e]) @ es)" "proved ?L ((tr @ [e]) @ es) g all cs" for cs es s'
      using Cons.prems(6) [where es = "e # es"] that by simp
  qed
  have stop: "wp (rejectMembership ?R m' err) Q (s', tr)" "wp (stallMembership ?R m' err' err) Q (s', tr)"
    for m' err err' s'
    using Cons.prems(1,5) by (auto intro: wp_rejectMembershipI)
  have stop': "wp (stallMembership ?R m' err' err) Q (s', tr @ [e])"
    if "guarded (group_justified ?L) (tr @ [e])" for m' err err' s' e
    by (rule wp_rejectMembershipI(2) [OF that]) (use Cons.prems(5) [where es = "e # _"] in simp)
  have entity: "wp (do { r \<leftarrow> resolveEntity (gp_Entities ?R) (om_Namespace g) ref;
      case r of Inl err \<Rightarrow> stallMembership ?R m (e1 err) err
      | Inr entity \<Rightarrow>
          if \<not> IsStatusConditionTrue (gp_Lib ?R) (est_Conditions (en_Status entity)) conditionReady
             \<or> est_ID (en_Status entity) = '''' then stallMembership ?R m (e2 entity) (e2 entity)
          else resolveLoop ?R grp ms (claims @
            [\<lparr>gc_object = m, gc_memberID = est_ID (en_Status entity), gc_memberType = groupMemberTypeEntity\<rparr>]) }) Q (s, tr)"
    if "gms_EntityRef (gm_Spec m) = Some ref" "gms_MemberGroupRef (gm_Spec m) = None" for ref e1 e2
    unfolding wp_simps resolveEntity_def logGroupReconciler_sel logKube_sel
    by (rule wp_loggedI) (auto simp: wp_simps that snoc split: sum.split intro!: stop' again)
  have member: "wp (do { r \<leftarrow> resolveGroup (gp_MemberGroups ?R) (om_Namespace g) ref;
      case r of Inl err \<Rightarrow> stallMembership ?R m (e1 err) err
      | Inr child \<Rightarrow>
          if \<not> IsStatusConditionTrue (gp_Lib ?R) (grst_Conditions (gr_Status child)) conditionReady
             \<or> grst_ID (gr_Status child) = '''' then stallMembership ?R m (e2 child) (e2 child)
          else resolveLoop ?R grp ms (claims @
            [\<lparr>gc_object = m, gc_memberID = grst_ID (gr_Status child), gc_memberType = groupMemberTypeGroup\<rparr>]) }) Q (s, tr)"
    if "gms_MemberGroupRef (gm_Spec m) = Some ref" "gms_EntityRef (gm_Spec m) = None" "grpref_Name ref \<noteq> om_Name g"
    for ref e1 e2
    unfolding wp_simps resolveGroup_def logGroupReconciler_sel logKube_sel
    by (rule wp_loggedI) (auto simp: wp_simps that snoc split: sum.split intro!: stop' again)
  show ?case
    unfolding resolveLoop.simps f Let_def
    using stop entity member
    by (cases "gms_EntityRef (gm_Spec m)"; cases "gms_MemberGroupRef (gm_Spec m)") simp_all
qed

lemma wp_membershipsI:
  assumes "guarded (group_justified (gp_Lib R)) tr" "sameGroup grp g"
    and "\<And>e es s'. guarded (group_justified (gp_Lib R)) (tr @ es) \<Longrightarrow> Q1 e (s', tr @ es)"
    and "\<And>e es s'. guarded (group_justified (gp_Lib R)) (tr @ es) \<Longrightarrow> Q2 e (s', tr @ es)"
    and "\<And>cs es s'. guarded (group_justified (gp_Lib R)) (tr @ es) \<Longrightarrow> claimsOK (gp_Lib R) (tr @ es) g cs
       \<Longrightarrow> Q3 cs (s', tr @ es)"
  shows "wp (membershipsForGroup (logGroupReconciler R) grp)
     (\<lambda>m st. case m of Inl e \<Rightarrow> Q1 e st
      | Inr ms \<Rightarrow> wp (resolveMemberships (logGroupReconciler R) grp ms)
          (\<lambda>c st. case c of Inl e \<Rightarrow> Q2 e st | Inr cs \<Rightarrow> Q3 cs st) st) (s, tr)"
proof -
  let ?L = "gp_Lib R" and ?R = "logGroupReconciler R"
  note f = sameGroup_fields [OF assms(2)]
  let ?sel = "\<lambda>items. sort_key om_Name (filter (\<lambda>m. grpref_Name (gms_GroupRef (gm_Spec m)) = om_Name g) items)"
  have snoc: "guarded (group_justified ?L) (tr @ [KMembership (ListedObjects ns r)])" for ns r
    using assms(1) by (simp add: guarded_snoc)
  have resolved: "wp (resolveMemberships ?R grp (?sel items))
      (\<lambda>c st. case c of Inl e \<Rightarrow> Q2 e st | Inr cs \<Rightarrow> Q3 cs st)
      (s', tr @ [KMembership (ListedObjects (om_Namespace g) (Inr items))])" for items s'
  proof -
    let ?e = "KMembership (ListedObjects (om_Namespace g) (Inr items))"
    let ?tr = "tr @ [?e]"
    have ok: "claimsOK ?L (?tr @ es) g cs"
      if "proved ?L (?tr @ es) g (set (?sel items)) cs" "cs = [] \<or> groupType g \<noteq> OpenBaoGroupTypeExternal" for es cs
      using that by (auto simp: claimsOK_def proved_def list_all_iff listedFor_def)
    have none: "Q3 [] (s', ?tr)"
      using assms(5) [where es = "[?e]"] snoc ok [of "[]" "[]"] by simp
    have reject: "wp (rejectExternal ?R grp ms) (\<lambda>c st. case c of Inl e \<Rightarrow> Q2 e st | Inr cs \<Rightarrow> Q3 cs st) (s', ?tr)"
      for ms
      by (rule wp_rejectExternalI [OF snoc]) (use assms(4) [where es = "?e # _"] in simp)
    have loop: "wp (resolveLoop ?R grp (?sel items) []) (\<lambda>c st. case c of Inl e \<Rightarrow> Q2 e st | Inr cs \<Rightarrow> Q3 cs st) (s', ?tr)"
      if "groupType g \<noteq> OpenBaoGroupTypeExternal"
      by (rule wp_resolveLoopI [OF snoc assms(2), where all = "set (?sel items)"])
         (use assms(4) [where es = "?e # _"] assms(5) [where es = "?e # _"] ok that in auto)
    show ?thesis
      using none reject loop by (auto simp: resolveMemberships_def f wp_simps)
  qed
  have failed: "Q1 e (s', tr @ [KMembership (ListedObjects ns r)])" for e ns r s'
    using assms(3) [where es = "[_]"] snoc by simp
  show ?thesis
    unfolding membershipsForGroup_def wp_simps logGroupReconciler_sel logKube_sel f
    by (rule wp_loggedI) (auto simp: failed resolved split: sum.split)
qed

section \<open>Every call of a run is justified\<close>

definition acquiredGroup ::
  "KubeLib \<Rightarrow> OpenBaoGroup \<Rightarrow> OpenBaoGroup \<times> (go_error + Group option) \<Rightarrow> GroupEvent list \<Rightarrow> bool" where
  "acquiredGroup L g p tr \<longleftrightarrow> guarded (group_justified L) tr \<and> activeGroup L tr g \<and> sameGroup (fst p) g \<and>
     (case snd p of
        Inr (Some ob) \<Rightarrow> ownedGroup tr g (grst_ID (gr_Status (fst p))) \<and>
          observedGroup tr g (grst_ID (gr_Status (fst p))) ob
      | _ \<Rightarrow> True)"

lemma acquiredGroupI:
  "guarded (group_justified L) tr \<Longrightarrow> activeGroup L tr g \<Longrightarrow> sameGroup (fst p) g
     \<Longrightarrow> (\<And>ob. snd p = Inr (Some ob) \<Longrightarrow> ownedGroup tr g (grst_ID (gr_Status (fst p))) \<and>
            observedGroup tr g (grst_ID (gr_Status (fst p))) ob) \<Longrightarrow> acquiredGroup L g p tr"
  by (auto simp: acquiredGroup_def split: sum.split option.split)

lemma acquire_group_noID_justified:
  assumes "grst_ID (gr_Status grp) = ''''" "sameGroup grp g" "activeGroup L tr g"
    and "guarded (group_justified L) tr" "\<not> list_ex createsGroup tr"
  shows "wp (acquire_group L grp (logGroupClient c)) (\<lambda>p (s', tr'). acquiredGroup L g p tr') (s, tr)"
proof -
  note f = sameGroup_fields [OF assms(2)]
  have noID: "\<not> (grst_ID (gr_Status grp) \<noteq> '''')" using assms(1) by simp
  have created: "ownedGroup (tr @ e # CreatedGroup q (Inr i) # es) g i" if "i \<noteq> ''''" for q i e es
    using that by (auto simp: ownedGroup_def)
  have adopted: "ownedGroup (tr @ [GotGroupNamed (om_Name g) (Inr (Some ob))]) g (g_ID ob)"
    if "g_ID ob \<noteq> ''''" "AllowsAdoption (groupCreationPolicy g)" for ob
    using that by (auto simp: ownedGroup_def)
  show ?thesis
    unfolding acquire_group.simps [of L grp] if_not_P [OF noID] wp_simps logGroupClient_sel f
    by (intro wp_loggedI)
       (use assms in \<open>auto simp: wp_simps trace_simps guarded_from_append acquiredGroup_def adopted created
          observedGroup_def split: sum.splits option.splits
          intro!: wp_loggedI group_create_justified [where g = g] group_read_justified [where g = g]\<close>)
qed

lemma acquire_group_justified:
  assumes "sameGroup grp g" "activeGroup L tr g" "guarded (group_justified L) tr"
    and "\<not> list_ex createsGroup tr" "grst_ID (gr_Status grp) = grst_ID (gr_Status g)"
  shows "wp (acquire_group L grp (logGroupClient c)) (\<lambda>p (s', tr'). acquiredGroup L g p tr') (s, tr)"
proof (cases "grst_ID (gr_Status grp) = ''''")
  case True
  then show ?thesis using assms(1-4) by (rule acquire_group_noID_justified)
next
  case False
  let ?i = "grst_ID (gr_Status grp)"
  have j: "guarded (group_justified L) (tr @ [GotGroup ?i r])" for r
    using assms(2,3) by (auto simp: guarded_snoc intro: group_read_justified)
  have again: "wp (acquire_group L (setGroupID '''' grp) (logGroupClient c))
      (\<lambda>p (s', tr'). acquiredGroup L g p tr') (s', tr @ [GotGroup ?i r])" for r s'
    by (rule acquire_group_noID_justified) (use assms j in auto)
  have own: "ownedGroup tr' g ?i" for tr'
    using False assms(5) by (simp add: ownedGroup_def)
  show ?thesis
    unfolding acquire_group.simps [of L grp] if_P [OF False] wp_simps logGroupClient_sel
    by (rule wp_loggedI)
       (use assms(1,2) in \<open>auto simp: j own observedGroup_def split: sum.split option.split
          intro!: again acquiredGroupI\<close>)
qed

lemma wp_acquire_groupI:
  assumes "sameGroup grp g" "activeGroup L tr g" "guarded (group_justified L) tr"
    and "\<not> list_ex createsGroup tr" "grst_ID (gr_Status grp) = grst_ID (gr_Status g)"
    and "\<And>e a s1 tr1. acquiredGroup L g (e, a) tr1 \<Longrightarrow> Q (e, a) (s1, tr1)"
  shows "wp (acquire_group L grp (logGroupClient c)) Q (s, tr)"
  by (rule wp_mono [OF acquire_group_justified]) (use assms in auto)

lemma acquiredGroup_guarded: "acquiredGroup L g p tr \<Longrightarrow> guarded (group_justified L) tr"
  by (simp add: acquiredGroup_def)

text \<open>A claim is reported ready only if the group contains its member.\<close>

lemma appliedMembership_fields:
  "gmst_MemberID (appliedMembership grp claim obs t1 t2) = gc_memberID claim"
  "gmst_MemberType (appliedMembership grp claim obs t1 t2) = gc_memberType claim"
  by (simp_all add: appliedMembership_def Let_def)

lemma appliedMembership_notReady:
  "\<not> containsMember (Some obs) (gc_memberType claim) (gc_memberID claim)
     \<Longrightarrow> \<not> readyTrue (gmst_Conditions (appliedMembership grp claim obs t1 t2))"
  by (simp add: appliedMembership_def Let_def)
     (use has_condition_notReady markError_Ready in blast)

lemma membership_applied_justified:
  assumes "activeGroup L tr g" "settledGroup L tr g claims obs" "claim \<in> set claims"
  shows "group_justified L tr (KMembership (UpdatedStatus
           ((gc_object claim)\<lparr>gm_Status := appliedMembership grp claim obs t1 t2\<rparr>) r))"
proof (cases "containsMember (Some obs) (gc_memberType claim) (gc_memberID claim)")
  case True
  have "\<exists>g claims cl obs'. activeGroup L tr g \<and> settledGroup L tr g claims obs' \<and>
          cl \<in> set claims \<and> containsMember (Some obs') (gc_memberType cl) (gc_memberID cl) \<and>
          ObjectMeta.truncate ((gc_object claim)\<lparr>gm_Status := appliedMembership grp claim obs t1 t2\<rparr>)
            = ObjectMeta.truncate (gc_object cl) \<and>
          gmst_MemberID (appliedMembership grp claim obs t1 t2) = gc_memberID cl \<and>
          gmst_MemberType (appliedMembership grp claim obs t1 t2) = gc_memberType cl"
    using assms True
    by (intro exI [where x = g] exI [where x = claims] exI [where x = claim] exI [where x = obs])
       (simp add: appliedMembership_fields ObjectMeta.truncate_def)
  then show ?thesis unfolding group_justified.simps by simp
next
  case False
  then show ?thesis using appliedMembership_notReady by (intro membership_status_unready) simp
qed

lemma updateMembershipStatuses_justified:
  assumes "activeGroup (gp_Lib R) tr g" "settledGroup (gp_Lib R) tr g claims obs" "set cs \<subseteq> set claims"
    and "guarded (group_justified (gp_Lib R)) tr"
  shows "wp (updateMembershipStatuses (logGroupReconciler R) grp cs obs)
           (\<lambda>_ (s', tr'). guarded (group_justified (gp_Lib R)) tr') (s, tr)"
  using assms
proof (induction cs arbitrary: s tr)
  case Nil
  then show ?case by (simp add: wp_simps)
next
  case (Cons claim cs)
  then have c: "claim \<in> set claims" "set cs \<subseteq> set claims" by simp_all
  note prems = Cons.prems(1,2,4)
  have step: "guarded (group_justified (gp_Lib R)) (tr @ [KMembership (UpdatedStatus
           ((gc_object claim)\<lparr>gm_Status := appliedMembership grp claim obs t1 t2\<rparr>) r)])" for t1 t2 r
    using prems c by (auto simp: guarded_snoc intro: membership_applied_justified)
  show ?case
    unfolding updateMembershipStatuses.simps Let_def wp_simps logGroupReconciler_sel
    by (intro wp_silentI wp_updateStatusI)
       (use prems step c in \<open>auto simp: wp_simps split: sum.split intro!: Cons.IH\<close>)
qed

lemma finish_group_justified:
  assumes "sameGroup grp g" "activeGroup (gp_Lib R) tr g" "guarded (group_justified (gp_Lib R)) tr"
    and "settledGroup (gp_Lib R) tr g claims obs"
  shows "wp (finish_group (logGroupReconciler R) before grp claims obs)
           (\<lambda>_ (s', tr'). guarded (group_justified (gp_Lib R)) tr') (s, tr)"
proof -
  have ready: "guarded (group_justified (gp_Lib R))
      (tr @ [KGroup (UpdatedStatus (readyGroupStatus grp obs claims t1 t2) r)])" for t1 t2 r
    using assms by (simp add: guarded_snoc group_ready_justified)
  show ?thesis
    unfolding finish_group_def Let_def wp_simps logGroupReconciler_sel
    using assms ready
    by (intro wp_silentI wp_updateStatusI)
       (auto simp: wp_simps split: sum.split intro!: updateMembershipStatuses_justified [where g = g])
qed

lemma settledGroup_direct:
  "claimsOK L tr g claims \<Longrightarrow> ownedGroup tr g i \<Longrightarrow> observedGroup tr g i ob
     \<Longrightarrow> groupMatches (desiredGroupRequest g (Some ob) claims) ob \<Longrightarrow> settledGroup L tr g claims ob"
  unfolding settledGroup_def by blast

lemma settledGroup_updated:
  "claimsOK L tr g claims \<Longrightarrow> ownedGroup tr g i \<Longrightarrow> observedGroup tr g i ob \<Longrightarrow> observedGroup tr g i prev
     \<Longrightarrow> UpdatedGroup i (desiredGroupRequest g (Some prev) claims) (Inr x) \<in> set tr \<Longrightarrow> settledGroup L tr g claims ob"
  unfolding settledGroup_def by blast

lemma apply_group_justified:
  assumes "sameGroup grp g" "activeGroup (gp_Lib R) tr g" "guarded (group_justified (gp_Lib R)) tr"
    and "ownedGroup tr g (grst_ID (gr_Status grp))" "observedGroup tr g (grst_ID (gr_Status grp)) ob"
    and "nameFits g ob" "claimsOK (gp_Lib R) tr g claims"
  shows "wp (apply_group (logGroupReconciler R) (logGroupClient c) before grp claims ob)
           (\<lambda>_ (s', tr'). guarded (group_justified (gp_Lib R)) tr') (s, tr)"
proof -
  let ?L = "gp_Lib R" and ?i = "grst_ID (gr_Status grp)" and ?d = "desiredGroupRequest g (Some ob) claims"
  note f = sameGroup_fields [OF assms(1)]
  have direct: "wp (finish_group (logGroupReconciler R) before grp claims ob)
      (\<lambda>_ (s', tr'). guarded (group_justified ?L) tr') (s, tr)" if "groupMatches ?d ob"
    using assms that by (intro finish_group_justified [where g = g] settledGroup_direct) auto
  have upd: "guarded (group_justified ?L) (tr @ [UpdatedGroup ?i ?d u])" if "\<not> groupMatches ?d ob" for u
    using assms that by (auto simp: guarded_snoc intro!: group_update_justified [where g = g and ob = ob])
  then have get: "guarded (group_justified ?L) (tr @ [UpdatedGroup ?i ?d u, GotGroup ?i r])"
    if "\<not> groupMatches ?d ob" for u r
    using that assms(2,3) by (auto simp: trace_simps intro!: group_read_justified [where g = g])
  have after: "wp (finish_group (logGroupReconciler R) before grp claims ob')
      (\<lambda>_ (s', tr'). guarded (group_justified ?L) tr')
      (s', tr @ [UpdatedGroup ?i ?d (Inr x), GotGroup ?i (Inr (Some ob'))])"
    if "\<not> groupMatches ?d ob" for x ob' s'
    using that assms get
    by (intro finish_group_justified [where g = g] settledGroup_updated [where i = ?i and x = x and prev = ob])
       (simp_all add: observedGroup_def)
  show ?thesis
    unfolding apply_group_def Let_def wp_simps f logGroupClient_sel logGroupReconciler_sel fail_group_def
    using direct upd get after
    by (auto simp: wp_simps split: sum.splits option.splits intro!: wp_loggedI group_failure_rules)
qed

lemma sync_group_justified:
  assumes "acquiredGroup (gp_Lib R) g (grp, Inr a) tr"
  shows "wp (sync_group (logGroupReconciler R) (logGroupClient c) before grp a)
           (\<lambda>_ (s', tr'). guarded (group_justified (gp_Lib R)) tr') (s, tr)"
proof -
  let ?L = "gp_Lib R"
  from assms have a: "guarded (group_justified ?L) tr" "activeGroup ?L tr g" "sameGroup grp g"
    by (simp_all add: acquiredGroup_def)
  have failed: "wp (fail_group (logGroupReconciler R) grp reason err)
      (\<lambda>_ (s', tr'). guarded (group_justified ?L) tr') (s', tr')"
    "wp (dependencyFailure_group (logGroupReconciler R) grp err)
      (\<lambda>_ (s', tr'). guarded (group_justified ?L) tr') (s', tr')"
    if "guarded (group_justified ?L) tr'" for reason err s' tr'
    using that by (auto simp: fail_group_def dependencyFailure_group_def intro!: group_failure_rules)
  show ?thesis
  proof (cases a)
    case None
    with a failed show ?thesis by (simp add: sync_group_def)
  next
    case (Some ob)
    with assms have own: "ownedGroup tr g (grst_ID (gr_Status grp))"
      "observedGroup tr g (grst_ID (gr_Status grp)) ob" by (simp_all add: acquiredGroup_def)
    note f = sameGroup_fields [OF a(3)]
    show ?thesis
    proof (cases "nameFits g ob")
      case False
      with Some a failed show ?thesis by (auto simp: sync_group_def nameFits_def f)
    next
      case True
      then have n: "\<not> (g_Name ob \<noteq> '''' \<and> g_Name ob \<noteq> om_Name g)" by (auto simp: nameFits_def)
      show ?thesis
        unfolding sync_group_def Some option.case f if_not_P [OF n] wp_simps
        by (rule wp_membershipsI [OF a(1,3)])
           (use a own True in \<open>auto simp: wp_simps f split: option.split
              intro!: failed apply_group_justified [where g = g]\<close>)
    qed
  qed
qed

lemma reconcileActive_group_justified:
  assumes "seen KGroup tr g" "notDeleted g" "guarded (group_justified (gp_Lib R)) tr"
    and "IsDelete (groupDeletionPolicy g) \<longrightarrow> held (gp_Lib R) KGroup tr g" "\<not> list_ex createsGroup tr"
  shows "wp (reconcileActive_group (logGroupReconciler R) before g)
           (\<lambda>_ (s', tr'). guarded (group_justified (gp_Lib R)) tr') (s, tr)"
proof -
  let ?L = "gp_Lib R"
  have active: "activeGroup ?L (tr @ [KGrpConnection (GotObject nn (Inr k)), MadeGroupClient k e]) g"
    if "IsStatusConditionTrue ?L (cnst_Conditions (cn_Status k)) conditionReady" for nn k e
    using assms that
    by (auto simp: activeGroup_def live_def intro: connReady_got [where conn = k and nn = nn])
  show ?thesis
    unfolding reconcileActive_group_def Let_def wp_simps resolveConnection_def
      logGroupReconciler_sel logKube_sel dependencyFailure_group_def fail_group_def
    using assms
    by (auto split: sum.splits simp: wp_simps trace_simps nilPanic_def
        intro!: wp_loggedI wp_clientFor_groupI group_failure_rules sync_group_justified [where g = g]
          wp_acquire_groupI [where g = g] active intro: acquiredGroup_guarded)
qed

lemma reconcileDeletion_group_justified:
  assumes "seen KGroup tr g" "\<not> notDeleted g" "guarded (group_justified (gp_Lib R)) tr"
  shows "wp (reconcileDeletion_group (logGroupReconciler R) g)
           (\<lambda>_ (s', tr'). guarded (group_justified (gp_Lib R)) tr') (s, tr)"
proof -
  have deleted: "group_justified L (tr @ es) (DeletedGroup (grst_ID (gr_Status g)) r)"
    if "groupDeletionPolicy g = DeletionPolicyDelete" "grst_ID (gr_Status g) \<noteq> ''''" for L es r
    using assms that by (auto simp: group_justified.simps intro!: exI [where x = g])
  have drop: "group_justified L (tr @ es) (KGroup (UpdatedObject
      (ob\<lparr>om_Finalizers := RemoveFinalizer L (om_Finalizers g) finalizerName\<rparr>) r))"
    if "groupDeletionPolicy g \<noteq> DeletionPolicyDelete \<or> grst_ID (gr_Status g) = '''' \<or>
      list_ex (goneGroup L (grst_ID (gr_Status g))) es" for L es ob r
    unfolding group_justified.simps
    by (rule finalizerWrite_remove [where orig = g]) (use assms that in auto)
  show ?thesis
    unfolding reconcileDeletion_group_def Let_def wp_simps resolveConnection_def logGroupReconciler_sel
      logKube_sel
    using assms(3) deleted drop [where es = "[]"] drop
    by (auto split: sum.splits option.splits simp: wp_simps trace_simps
        intro!: wp_removeFinalizerI wp_loggedI wp_clientFor_groupI group_failure_rules)
qed

lemma Reconcile_group_justified:
  "wp (Reconcile_group (logGroupReconciler R) req)
     (\<lambda>_ (s', tr'). guarded (group_justified (gp_Lib R)) tr') (s, [])"
proof -
  have add: "group_justified L pre (KGroup (UpdatedObject
      (g\<lparr>om_Finalizers := AddFinalizer L (om_Finalizers g) finalizerName\<rparr>) r))"
    if "seen KGroup pre g" "notDeleted g" "IsDelete (groupDeletionPolicy g)" for L pre g r
    unfolding group_justified.simps by (rule finalizerWrite_add) (use that in auto)
  show ?thesis
    unfolding Reconcile_group_def Let_def wp_simps logGroupReconciler_sel logKube_sel
    by (rule wp_loggedI)
       (auto split: sum.splits simp: wp_simps guarded_def
        intro!: wp_ensureFinalizerI reconcileDeletion_group_justified reconcileActive_group_justified add
        intro: seen_got seen_updated held_contains held_added)
qed

lemma group_trace_justified: "guarded (group_justified (gp_Lib R)) (group_trace R req s)"
  using Reconcile_group_justified [of R req s]
  by (simp add: group_trace_def group_run_def wp_run split_beta)

section \<open>Members\<close>

lemma set_normalizedIDs [simp]: "set (elems (normalizedIDs s)) = set (elems s)"
  by (rule memberIDs.view_norm)

lemma observedMemberIDs_simps [simp]:
  "observedMemberIDs None ty = None"
  "observedMemberIDs (Some g) ''Entity'' = g_MemberEntityIDs g"
  "observedMemberIDs (Some g) ''Group'' = g_MemberGroupIDs g"
  by (simp_all add: observedMemberIDs_def groupMemberTypeEntity_def)

lemma desired_members:
  "set (elems (gq_MemberEntityIDs (desiredGroupRequest g (Some ob) claims)))
     = (set (elems (g_MemberEntityIDs ob)) - set (elems (grst_ManagedMemberEntityIDs (gr_Status g))))
       \<union> set (claimedEntities claims)"
  "set (elems (gq_MemberGroupIDs (desiredGroupRequest g (Some ob) claims)))
     = (set (elems (g_MemberGroupIDs ob)) - set (elems (grst_ManagedMemberGroupIDs (gr_Status g))))
       \<union> set (claimedGroups claims)"
  by (auto simp: desiredGroupRequest_def Let_def subtractIDs_def)

lemma desired_sorted:
  "sorted (elems (gq_MemberEntityIDs (desiredGroupRequest g ob claims))) \<and>
   distinct (elems (gq_MemberEntityIDs (desiredGroupRequest g ob claims)))"
  "sorted (elems (gq_MemberGroupIDs (desiredGroupRequest g ob claims))) \<and>
   distinct (elems (gq_MemberGroupIDs (desiredGroupRequest g ob claims)))"
  by (simp_all add: desiredGroupRequest_def Let_def normalizedIDs_def Compact_sort)

lemma groupMatches_iff:
  "groupMatches (desiredGroupRequest g obs claims) ob \<longleftrightarrow>
     g_Name ob = om_Name g \<and> EqualFold (g_Type ob) (ToLower (groupType g)) \<and>
     maps_Equal (g_Metadata ob) (grs_Metadata (gr_Spec g)) \<and>
     set (elems (g_Policies ob)) = set (elems (grs_Policies (gr_Spec g))) \<and>
     set (elems (g_MemberEntityIDs ob)) = set (elems (gq_MemberEntityIDs (desiredGroupRequest g obs claims))) \<and>
     set (elems (g_MemberGroupIDs ob)) = set (elems (gq_MemberGroupIDs (desiredGroupRequest g obs claims)))"
  by (simp add: groupMatches_def desiredGroupRequest_def Let_def slices_Equal_def memberIDs.norm_elems_eq_iff)

lemma readyGroup_fields:
  "om_Name (readyGroupStatus g ob claims t1 t2) = om_Name g"
  "groupType (readyGroupStatus g ob claims t1 t2) = groupType g"
  "gr_Spec (readyGroupStatus g ob claims t1 t2) = gr_Spec g"
  "grst_ManagedMemberEntityIDs (gr_Status (readyGroupStatus g ob claims t1 t2))
     = normalizedIDs (append_nil (claimedEntities claims))"
  "grst_ManagedMemberGroupIDs (gr_Status (readyGroupStatus g ob claims t1 t2))
     = normalizedIDs (append_nil (claimedGroups claims))"
  by (simp_all add: readyGroupStatus_def observeGroupStatus_def managedMemberIDs_def Let_def groupType_def)

section \<open>The properties\<close>

definition group_create_ok :: "KubeLib \<Rightarrow> GroupEvent list \<Rightarrow> GroupEvent \<Rightarrow> bool" where
  "group_create_ok L pre e = (case e of
      CreatedGroup q r \<Rightarrow> (\<exists>g. activeGroup L pre g \<and> AllowsCreation (groupCreationPolicy g) \<and>
        q = desiredGroupRequest g None [] \<and> list_ex (absentGroup L (om_Name g)) pre \<and>
        \<not> list_ex createsGroup pre)
    | _ \<Rightarrow> True)"

definition group_update_ok :: "KubeLib \<Rightarrow> GroupEvent list \<Rightarrow> GroupEvent \<Rightarrow> bool" where
  "group_update_ok L pre e = (case e of
      UpdatedGroup i q r \<Rightarrow> (\<exists>g ob claims. activeGroup L pre g \<and> ownedGroup pre g i \<and>
        observedGroup pre g i ob \<and> nameFits g ob \<and> claimsOK L pre g claims \<and>
        q = desiredGroupRequest g (Some ob) claims \<and> \<not> groupMatches q ob)
    | _ \<Rightarrow> True)"

definition group_delete_ok :: "KubeLib \<Rightarrow> GroupEvent list \<Rightarrow> GroupEvent \<Rightarrow> bool" where
  "group_delete_ok L pre e = (case e of
      DeletedGroup i r \<Rightarrow> (\<exists>g. seen KGroup pre g \<and> \<not> notDeleted g \<and>
        groupDeletionPolicy g = DeletionPolicyDelete \<and> i = grst_ID (gr_Status g) \<and> i \<noteq> '''')
    | KGroup (UpdatedObject ob r) \<Rightarrow>
        finalizerWrite L KGroup (\<lambda>g. IsDelete (groupDeletionPolicy g))
          (\<lambda>g. groupDeletionPolicy g \<noteq> DeletionPolicyDelete \<or> grst_ID (gr_Status g) = '''' \<or>
             list_ex (goneGroup L (grst_ID (gr_Status g))) pre) pre ob
    | _ \<Rightarrow> True)"

definition group_ready_ok :: "KubeLib \<Rightarrow> GroupEvent list \<Rightarrow> GroupEvent \<Rightarrow> bool" where
  "group_ready_ok L pre e = (case e of
      KGroup (UpdatedStatus ob r) \<Rightarrow>
        (if readyTrue (grst_Conditions (gr_Status ob)) then
          (\<exists>g g1 claims obs t1 t2. activeGroup L pre g \<and> settledGroup L pre g claims obs \<and>
            ob = readyGroupStatus g1 obs claims t1 t2 \<and> sameGroup g1 g)
         else True)
    | KMembership (UpdatedStatus m r) \<Rightarrow>
        (if readyTrue (gmst_Conditions (gm_Status m)) then
          (\<exists>g claims claim obs. activeGroup L pre g \<and> settledGroup L pre g claims obs \<and>
             claim \<in> set claims \<and> containsMember (Some obs) (gc_memberType claim) (gc_memberID claim) \<and>
             ObjectMeta.truncate m = ObjectMeta.truncate (gc_object claim) \<and>
             gmst_MemberID (gm_Status m) = gc_memberID claim \<and>
             gmst_MemberType (gm_Status m) = gc_memberType claim)
         else True)
    | _ \<Rightarrow> True)"

lemma group_creates_only_absent: "guarded (group_create_ok (gp_Lib R)) (group_trace R req s)"
  by (rule guarded_mono [OF group_trace_justified])
     (auto simp: group_create_ok_def group_justified.simps split: GroupEvent.splits)

text \<open>
  C12. A group is updated only if the resource owns its identifier, and only with members that
  are either kept from the observation or claimed by a listed membership of this group whose
  entity or member group was read as ready with that identifier; a group never becomes a member
  of itself, and an external group is never given members.
\<close>

theorem group_updates_with_proved_claims: "guarded (group_update_ok (gp_Lib R)) (group_trace R req s)"
  by (rule guarded_mono [OF group_trace_justified])
     (auto simp: group_update_ok_def group_justified.simps split: GroupEvent.splits)

lemma group_deletion_discipline: "guarded (group_delete_ok (gp_Lib R)) (group_trace R req s)"
  by (rule guarded_mono [OF group_trace_justified])
     (auto simp: group_delete_ok_def group_justified.simps split: GroupEvent.splits KubeEvent.splits)

lemma group_ready_is_settled: "guarded (group_ready_ok (gp_Lib R)) (group_trace R req s)"
proof (rule guarded_mono [OF group_trace_justified])
  fix pre e assume j: "group_justified (gp_Lib R) pre e"
  show "group_ready_ok (gp_Lib R) pre e"
  proof (cases "\<exists>ob r. e = KGroup (UpdatedStatus ob r)")
    case True
    then obtain ob r where e: "e = KGroup (UpdatedStatus ob r)" by blast
    from j show ?thesis
      by (simp only: e group_justified.simps group_ready_ok_def GroupEvent.case KubeEvent.case)
  next
    case False
    show ?thesis
    proof (cases "\<exists>m r. e = KMembership (UpdatedStatus m r)")
      case True
      then obtain m r where e: "e = KMembership (UpdatedStatus m r)" by blast
      from j show ?thesis
        by (simp only: e group_justified.simps group_ready_ok_def GroupEvent.case KubeEvent.case)
    qed (use False in \<open>auto simp: group_ready_ok_def split: GroupEvent.splits KubeEvent.splits\<close>)
  qed
qed


text \<open>
  C13. The entity members of a request are those observed that the operator did not put there
  before, together with those claimed now, without duplicates and in order: members managed
  elsewhere stay, and a member whose claim has gone leaves.  The same holds of group members.
\<close>

theorem group_members_functional:
  "set (elems (gq_MemberEntityIDs (desiredGroupRequest g (Some ob) claims)))
     = (set (elems (g_MemberEntityIDs ob)) - set (elems (grst_ManagedMemberEntityIDs (gr_Status g))))
       \<union> set (claimedEntities claims) \<and>
   sorted (elems (gq_MemberEntityIDs (desiredGroupRequest g (Some ob) claims))) \<and>
   distinct (elems (gq_MemberEntityIDs (desiredGroupRequest g (Some ob) claims))) \<and>
   set (elems (gq_MemberGroupIDs (desiredGroupRequest g (Some ob) claims)))
     = (set (elems (g_MemberGroupIDs ob)) - set (elems (grst_ManagedMemberGroupIDs (gr_Status g))))
       \<union> set (claimedGroups claims) \<and>
   sorted (elems (gq_MemberGroupIDs (desiredGroupRequest g (Some ob) claims))) \<and>
   distinct (elems (gq_MemberGroupIDs (desiredGroupRequest g (Some ob) claims)))"
  using desired_sorted [of g "Some ob" claims] desired_members [of g ob claims] by simp

text \<open>
  C14. Reconciling is stable: once OpenBao holds a group that matches the request and the status
  has recorded it, the next reconciliation with the same claims finds nothing to update.
\<close>

theorem group_reconciled_stable:
  assumes "groupMatches (desiredGroupRequest g (Some ob) claims) ob'"
  shows "groupMatches (desiredGroupRequest (readyGroupStatus g ob' claims t1 t2) (Some ob') claims) ob'"
  using assms unfolding groupMatches_iff
  by (auto simp: desired_members readyGroup_fields)

definition demoGroup :: OpenBaoGroup where
  "demoGroup = \<lparr>om_Name = ''team'', om_Namespace = ''ns'', om_Generation = 1, om_Finalizers = [],
     om_DeletionTimestamp = None,
     gr_Spec = \<lparr>grs_ConnectionRef = \<lparr>connref_Name = ''bao''\<rparr>, grs_Type = '''', grs_CreationPolicy = '''',
       grs_DeletionPolicy = '''', grs_DriftDetectionInterval = None, grs_Metadata = None,
       grs_Policies = Some [''p'']\<rparr>,
     gr_Status = \<lparr>grst_ID = ''g1'', grst_Name = ''team'', grst_Type = ''Internal'', grst_Metadata = None,
       grst_Policies = None, grst_MemberEntityIDs = None, grst_MemberGroupIDs = None,
       grst_ManagedMemberEntityIDs = Some [''old''], grst_ManagedMemberGroupIDs = None,
       grst_ObservedGeneration = 1, grst_Conditions = []\<rparr>\<rparr>"

definition demoMembership :: OpenBaoGroupMembership where
  "demoMembership = \<lparr>om_Name = ''m'', om_Namespace = ''ns'', om_Generation = 1, om_Finalizers = [],
     om_DeletionTimestamp = None,
     gm_Spec = \<lparr>gms_GroupRef = \<lparr>grpref_Name = ''team''\<rparr>, gms_EntityRef = Some \<lparr>entref_Name = ''app''\<rparr>,
       gms_MemberGroupRef = None\<rparr>,
     gm_Status = \<lparr>gmst_GroupID = '''', gmst_MemberID = '''', gmst_MemberType = '''',
       gmst_ObservedGeneration = 0, gmst_Conditions = []\<rparr>\<rparr>"

definition demoClaim :: groupMembershipClaim where
  "demoClaim = \<lparr>gc_object = demoMembership, gc_memberID = ''e1'', gc_memberType = groupMemberTypeEntity\<rparr>"

definition observedTeam :: "string list \<Rightarrow> Group" where
  "observedTeam members = \<lparr>g_ID = ''g1'', g_Name = ''team'', g_Type = ''internal'', g_Metadata = None,
     g_Policies = Some [''p''], g_MemberEntityIDs = Some members, g_MemberGroupIDs = None\<rparr>"

lemma group_reconciled_stable_witness:
  "groupMatches (desiredGroupRequest (readyGroupStatus demoGroup (observedTeam [''x'', ''e1'']) [demoClaim] 3 4)
     (Some (observedTeam [''x'', ''e1''])) [demoClaim]) (observedTeam [''x'', ''e1''])"
proof (rule group_reconciled_stable)
  show "groupMatches (desiredGroupRequest demoGroup (Some (observedTeam [''x'', ''old''])) [demoClaim])
     (observedTeam [''x'', ''e1''])"
    unfolding groupMatches_iff desired_members
  proof (intro conjI)
    show "EqualFold (g_Type (observedTeam [''x'', ''e1''])) (ToLower (groupType demoGroup))" by code_simp
  qed (auto simp: demoGroup_def observedTeam_def demoClaim_def claimedEntities_def claimedGroups_def maps_Equal_def)
qed

section \<open>The status of a group is written on every reconciliation\<close>

text \<open>
  The status fields carry \<^verbatim>\<open>omitempty\<close>: an empty list is not stored and reads back as
  nil, so the copy of the status that \<^verbatim>\<open>Reconcile\<close> takes before it starts is of this form.
\<close>

definition omitEmpty :: "'a slice \<Rightarrow> 'a slice" where
  "omitEmpty s = append_nil (elems s)"

definition storedGroupStatus :: "OpenBaoGroupStatus \<Rightarrow> OpenBaoGroupStatus" where
  "storedGroupStatus st = st
     \<lparr>grst_Policies := omitEmpty (grst_Policies st),
      grst_MemberEntityIDs := omitEmpty (grst_MemberEntityIDs st),
      grst_MemberGroupIDs := omitEmpty (grst_MemberGroupIDs st),
      grst_ManagedMemberEntityIDs := omitEmpty (grst_ManagedMemberEntityIDs st),
      grst_ManagedMemberGroupIDs := omitEmpty (grst_ManagedMemberGroupIDs st)\<rparr>"

text \<open>
  \<^verbatim>\<open>normalizedIDs\<close> returns an empty list where nothing is managed, never nil, so the
  status a group without memberships gets never equals one read from the API server: the write
  that \<^verbatim>\<open>updateStatusIfChanged\<close> is meant to skip is issued by every reconciliation, even
  when the stored status is the one the last reconciliation wrote.
\<close>

theorem group_status_always_rewritten:
  "gr_Status (readyGroupStatus g ob [] t1 t2) \<noteq> storedGroupStatus st \<and>
   storedGroupStatus (gr_Status (readyGroupStatus g ob [] t1 t2)) \<noteq> gr_Status (readyGroupStatus g ob [] t1 t2)"
proof -
  have "grst_ManagedMemberGroupIDs (gr_Status (readyGroupStatus g ob [] t1 t2)) = Some []"
    by (simp add: readyGroup_fields claimedGroups_def normalizedIDs_def append_nil_def Compact_def)
  moreover have "grst_ManagedMemberGroupIDs (storedGroupStatus st) \<noteq> Some []" for st
    by (simp add: storedGroupStatus_def omitEmpty_def append_nil_def)
  ultimately show ?thesis by metis
qed

end
