(* ===== verification/ConnectionController.thy ===== *)
theory ConnectionController
  imports Observing BaoTypes Examples
begin

text \<open>
  \<^verbatim>\<open>internal/controller/openbao/openbaoconnection_controller.go\<close>: a connection is ready
  when a client can be built from its specification, OpenBao answers its health check (outside
  namespaces, which do not expose it) and accepts the credentials in a token self-lookup.  The
  readiness it reports is what every other controller waits for.
\<close>

record 's ConnectionReconciler =
  cr_Lib :: KubeLib
  cr_Connections :: "('s, OpenBaoConnection) KubeAPI"
  cr_Now :: "('s, int) state"
  cr_NewClient :: "(OpenBaoConnection \<Rightarrow> ('s, go_error + 's ConnectionClient) state) option"
  cr_ClientCache :: "(OpenBaoConnection \<Rightarrow> ('s, go_error + 's ConnectionClient) state) option"
  cr_connectionClientFor :: "OpenBaoConnection \<Rightarrow> ('s, go_error + 's ConnectionClient) state"

definition connectionAccess :: "(OpenBaoConnection, OpenBaoConnectionStatus) StatusAccess" where
  "connectionAccess =
     \<lparr>sa_Status = cn_Status,
      sa_setStatus = (\<lambda>st c. c\<lparr>cn_Status := st\<rparr>),
      sa_Conditions = cnst_Conditions,
      sa_setConditions = (\<lambda>cs st. st\<lparr>cnst_Conditions := cs\<rparr>),
      sa_ObservedGeneration = cnst_ObservedGeneration,
      sa_setObservedGeneration = (\<lambda>g st. st\<lparr>cnst_ObservedGeneration := g\<rparr>)\<rparr>"

interpretation connectionStatus: status_object connectionAccess
  by unfold_locales (simp_all add: connectionAccess_def ObjectMeta.truncate_def)

definition clientFor_connection ::
  "'s ConnectionReconciler \<Rightarrow> OpenBaoConnection \<Rightarrow> ('s, go_error + 's ConnectionClient) state" where
  "clientFor_connection R connection =
     clientForWith (cr_NewClient R) (cr_ClientCache R) (cr_connectionClientFor R) connection"

text \<open>Unlike the other controllers, \<^verbatim>\<open>fail\<close> withdraws \<^verbatim>\<open>Authenticated\<close>.\<close>

definition fail_connection ::
  "'s ConnectionReconciler \<Rightarrow> OpenBaoConnection \<Rightarrow> string \<Rightarrow> go_error \<Rightarrow> ('s, outcome) state" where
  "fail_connection R connection reason err = do {
     let before = cn_Status connection;
     t \<leftarrow> cr_Now R;
     let after = before\<lparr>cnst_Authenticated := False,
           cnst_Conditions := markError (cnst_Conditions before) (om_Generation connection) reason (Some err) t\<rparr>;
     endWithStatus (k_StatusUpdate (cr_Connections R)) (connection\<lparr>cn_Status := after\<rparr>) before after
       (noRequeue, Some err)
   }"

definition invalidConfiguration ::
  "'s ConnectionReconciler \<Rightarrow> OpenBaoConnectionStatus \<Rightarrow> OpenBaoConnection \<Rightarrow> go_error \<Rightarrow> ('s, outcome) state" where
  "invalidConfiguration R before connection err = do {
     t1 \<leftarrow> cr_Now R;
     t2 \<leftarrow> cr_Now R;
     let st = cn_Status connection;
     let after = st\<lparr>cnst_Authenticated := False,
           cnst_Conditions := markStalled (cnst_Conditions st) (om_Generation connection)
             ''InvalidConfiguration'' (Some err) t1 t2\<rparr>;
     endWithStatus (k_StatusUpdate (cr_Connections R)) (connection\<lparr>cn_Status := after\<rparr>) before after
       (requeueIn dependencyRetry, None)
   }"

definition recordHealth :: "Health \<Rightarrow> OpenBaoConnection \<Rightarrow> OpenBaoConnection" where
  "recordHealth health connection = connection\<lparr>cn_Status := (cn_Status connection)
     \<lparr>cnst_Version := h_Version health, cnst_Initialized := h_Initialized health,
      cnst_Sealed := h_Sealed health, cnst_Standby := h_Standby health\<rparr>\<rparr>"

definition readyMessage :: "OpenBaoConnection \<Rightarrow> string" where
  "readyMessage connection =
     (if cns_Namespace (cn_Spec connection) \<noteq> '''' then
        ''Configured authentication succeeded in the OpenBao namespace''
      else ''OpenBao is reachable and configured authentication succeeded'')"

definition readyConnectionStatus :: "OpenBaoConnection \<Rightarrow> int \<Rightarrow> int \<Rightarrow> OpenBaoConnection" where
  "readyConnectionStatus connection now1 now2 =
     (let st = (cn_Status connection)\<lparr>cnst_Authenticated := True\<rparr>
      in connection\<lparr>cn_Status := st\<lparr>cnst_Conditions :=
           markReady (cnst_Conditions st) (om_Generation connection) (readyMessage connection) now1 now2\<rparr>\<rparr>)"

text \<open>The self-lookup and what follows it.\<close>

definition authenticate ::
  "'s ConnectionReconciler \<Rightarrow> 's ConnectionClient \<Rightarrow> OpenBaoConnectionStatus \<Rightarrow> OpenBaoConnection
     \<Rightarrow> ('s, outcome) state" where
  "authenticate R apiClient before connection = do {
     e \<leftarrow> LookupSelf apiClient;
     case e of
       Some err \<Rightarrow> fail_connection R connection ''AuthenticationFailed'' err
     | None \<Rightarrow> do {
         t1 \<leftarrow> cr_Now R;
         t2 \<leftarrow> cr_Now R;
         let connection = readyConnectionStatus connection t1 t2;
         endWithStatus (k_StatusUpdate (cr_Connections R)) connection before (cn_Status connection)
           (requeueIn defaultDriftCheck, None)
       }
   }"

definition Reconcile_connection :: "'s ConnectionReconciler \<Rightarrow> NamespacedName \<Rightarrow> ('s, outcome) state" where
  "Reconcile_connection R req = do {
     r \<leftarrow> k_Get (cr_Connections R) req;
     case r of
       Inl err \<Rightarrow>
         if apierrors_IsNotFound (cr_Lib R) err then ret (noRequeue, None)
         else ret (noRequeue, Some err)
     | Inr connection \<Rightarrow> do {
         let before = cn_Status connection;
         let connection = connection\<lparr>cn_Status := (cn_Status connection)
               \<lparr>cnst_ObservedGeneration := om_Generation connection\<rparr>\<rparr>;
         c \<leftarrow> clientFor_connection R connection;
         case c of
           Inl err \<Rightarrow> invalidConfiguration R before connection err
         | Inr apiClient \<Rightarrow>
             if cns_Namespace (cn_Spec connection) = '''' then do {
               h \<leftarrow> CheckHealth apiClient;
               case h of
                 Inl err \<Rightarrow> fail_connection R connection ''HealthCheckFailed'' err
               | Inr None \<Rightarrow> nilPanic
               | Inr (Some health) \<Rightarrow> authenticate R apiClient before (recordHealth health connection)
             }
             else authenticate R apiClient before connection
       }
   }"

text \<open>The connections that refer to a Secret are requeued when it changes.\<close>

definition refersToSecret :: "OpenBaoConnection \<Rightarrow> string \<Rightarrow> bool" where
  "refersToSecret connection name \<longleftrightarrow>
     (case cns_TokenSecretRef (cn_Spec connection) of None \<Rightarrow> False | Some ref \<Rightarrow> skr_Name ref = name) \<or>
     (case cns_AppRole (cn_Spec connection) of None \<Rightarrow> False
      | Some a \<Rightarrow> skr_Name (aas_RoleIDSecretRef a) = name \<or> skr_Name (aas_SecretIDSecretRef a) = name) \<or>
     (case cns_CABundleSecretRef (cn_Spec connection) of None \<Rightarrow> False | Some ref \<Rightarrow> skr_Name ref = name)"

definition mapSecretToConnections ::
  "'s ConnectionReconciler \<Rightarrow> 'a ObjectMeta_scheme \<Rightarrow> ('s, NamespacedName list) state" where
  "mapSecretToConnections R obj = do {
     r \<leftarrow> k_List (cr_Connections R) (om_Namespace obj);
     ret (case r of
       Inl _ \<Rightarrow> []
     | Inr items \<Rightarrow> map ObjectKey (filter (\<lambda>c. refersToSecret c (om_Name obj)) items))
   }"

section \<open>Observing a run\<close>

datatype ConnectionEvent =
    KConn "OpenBaoConnection KubeEvent"
  | MadeConnectionClient OpenBaoConnection "go_error option"
  | CheckedHealth "go_error + Health option"
  | LookedUpSelf "go_error option"

definition logConnectionClient :: "'s ConnectionClient \<Rightarrow> ('s \<times> ConnectionEvent list) ConnectionClient" where
  "logConnectionClient c =
     \<lparr>CheckHealth = logged CheckedHealth (CheckHealth c), LookupSelf = logged LookedUpSelf (LookupSelf c)\<rparr>"

lemma logConnectionClient_sel [simp]:
  "CheckHealth (logConnectionClient c) = logged CheckedHealth (CheckHealth c)"
  "LookupSelf (logConnectionClient c) = logged LookedUpSelf (LookupSelf c)"
  by (simp_all add: logConnectionClient_def)

definition logConnectionReconciler ::
  "'s ConnectionReconciler \<Rightarrow> ('s \<times> ConnectionEvent list) ConnectionReconciler" where
  "logConnectionReconciler R =
     \<lparr>cr_Lib = cr_Lib R,
      cr_Connections = logKube KConn (cr_Connections R),
      cr_Now = silent (cr_Now R),
      cr_NewClient = map_option (logClientFor MadeConnectionClient logConnectionClient) (cr_NewClient R),
      cr_ClientCache = map_option (logClientFor MadeConnectionClient logConnectionClient) (cr_ClientCache R),
      cr_connectionClientFor =
        logClientFor MadeConnectionClient logConnectionClient (cr_connectionClientFor R)\<rparr>"

lemma logConnectionReconciler_sel [simp]:
  "cr_Lib (logConnectionReconciler R) = cr_Lib R"
  "cr_Connections (logConnectionReconciler R) = logKube KConn (cr_Connections R)"
  "cr_Now (logConnectionReconciler R) = silent (cr_Now R)"
  by (simp_all add: logConnectionReconciler_def)

lemma wp_clientFor_connectionI:
  assumes "\<And>e s'. Q (Inl e) (s', tr @ [MadeConnectionClient connection (Some e)])"
    and "\<And>c s'. Q (Inr (logConnectionClient c)) (s', tr @ [MadeConnectionClient connection None])"
  shows "wp (clientFor_connection (logConnectionReconciler R) connection) Q (s, tr)"
  unfolding clientFor_connection_def logConnectionReconciler_def ConnectionReconciler.simps
  by (intro wp_clientForWithI assms)

definition connection_run ::
  "'s ConnectionReconciler \<Rightarrow> NamespacedName \<Rightarrow> 's \<Rightarrow> outcome \<times> 's \<times> ConnectionEvent list" where
  "connection_run R req s = run_state (Reconcile_connection (logConnectionReconciler R) req) (s, [])"

definition connection_trace :: "'s ConnectionReconciler \<Rightarrow> NamespacedName \<Rightarrow> 's \<Rightarrow> ConnectionEvent list" where
  "connection_trace R req s = snd (snd (connection_run R req s))"

text \<open>
  What a status written by the controller rests on: it is the status of an object that was read,
  brought to its generation; it claims readiness and authentication together, and only after the
  checks the namespace calls for have passed, whose health it records.
\<close>

definition sameConn :: "OpenBaoConnection \<Rightarrow> OpenBaoConnection \<Rightarrow> bool" where
  "sameConn a b \<longleftrightarrow> ObjectMeta.truncate a = ObjectMeta.truncate b \<and> cn_Spec a = cn_Spec b"

definition connectionVerified :: "ConnectionEvent list \<Rightarrow> OpenBaoConnection \<Rightarrow> bool" where
  "connectionVerified pre ob \<longleftrightarrow> LookedUpSelf None \<in> set pre \<and>
     (if cns_Namespace (cn_Spec ob) = '''' then
        (\<exists>h. CheckedHealth (Inr (Some h)) \<in> set pre \<and>
           cnst_Version (cn_Status ob) = h_Version h \<and> cnst_Initialized (cn_Status ob) = h_Initialized h \<and>
           cnst_Sealed (cn_Status ob) = h_Sealed h \<and> cnst_Standby (cn_Status ob) = h_Standby h)
      else True)"

definition connection_status_ok :: "ConnectionEvent list \<Rightarrow> ConnectionEvent \<Rightarrow> bool" where
  "connection_status_ok pre e = (case e of
      KConn (UpdatedStatus ob r) \<Rightarrow>
        (\<exists>nn conn. KConn (GotObject nn (Inr conn)) \<in> set pre \<and> sameConn ob conn) \<and>
        cnst_ObservedGeneration (cn_Status ob) = om_Generation ob \<and>
        (readyTrue (cnst_Conditions (cn_Status ob)) = cnst_Authenticated (cn_Status ob)) \<and>
        (if cnst_Authenticated (cn_Status ob) then connectionVerified pre ob else True)
    | KConn (UpdatedObject ob r) \<Rightarrow> False
    | _ \<Rightarrow> True)"

lemma connection_status_ok_simps [simp]:
  "connection_status_ok pre (KConn (GotObject nn r))"
  "connection_status_ok pre (MadeConnectionClient c e)"
  "connection_status_ok pre (CheckedHealth h)" "connection_status_ok pre (LookedUpSelf l)"
  by (simp_all add: connection_status_ok_def)

lemma connection_status_okI:
  assumes "KConn (GotObject nn (Inr conn)) \<in> set pre" "sameConn ob conn"
    and "cnst_ObservedGeneration (cn_Status ob) = om_Generation ob"
    and "readyTrue (cnst_Conditions (cn_Status ob)) = cnst_Authenticated (cn_Status ob)"
    and "cnst_Authenticated (cn_Status ob) \<Longrightarrow> connectionVerified pre ob"
  shows "connection_status_ok pre (KConn (UpdatedStatus ob r))"
  using assms unfolding connection_status_ok_def ConnectionEvent.case KubeEvent.case by (metis (full_types))

lemma markError_notReady: "\<not> readyTrue (markError cs g r (Some e) n)"
  using markError_Ready has_condition_notReady by blast

lemma markStalled_notReady: "\<not> readyTrue (markStalled cs g r (Some e) n1 n2)"
  using markStalled_both(1) has_condition_notReady by blast

lemma sameConn_simps [simp]:
  "sameConn a a" "sameConn (a\<lparr>cn_Status := st\<rparr>) b = sameConn a b" "sameConn (recordHealth h a) b = sameConn a b"
  by (simp_all add: sameConn_def ObjectMeta.truncate_def recordHealth_def)

lemma recordHealth_simps [simp]:
  "cnst_ObservedGeneration (cn_Status (recordHealth h a)) = cnst_ObservedGeneration (cn_Status a)"
  "om_Generation (recordHealth h a) = om_Generation a"
  "cn_Spec (recordHealth h a) = cn_Spec a"
  by (simp_all add: recordHealth_def)

lemma fail_connection_ok:
  assumes "guarded connection_status_ok tr" "KConn (GotObject nn (Inr conn)) \<in> set tr" "sameConn c conn"
    and "cnst_ObservedGeneration (cn_Status c) = om_Generation c"
  shows "wp (fail_connection (logConnectionReconciler R) c reason err)
     (\<lambda>_ (s', tr'). guarded connection_status_ok tr') (s, tr)"
  unfolding fail_connection_def Let_def wp_simps logConnectionReconciler_sel
  using assms
  by (intro wp_silentI wp_endWithStatusI)
     (auto simp: guarded_snoc markError_notReady intro!: connection_status_okI [where conn = conn and nn = nn])

lemma invalidConfiguration_ok:
  assumes "guarded connection_status_ok tr" "KConn (GotObject nn (Inr conn)) \<in> set tr" "sameConn c conn"
    and "cnst_ObservedGeneration (cn_Status c) = om_Generation c"
  shows "wp (invalidConfiguration (logConnectionReconciler R) before c err)
     (\<lambda>_ (s', tr'). guarded connection_status_ok tr') (s, tr)"
  unfolding invalidConfiguration_def Let_def wp_simps logConnectionReconciler_sel
  using assms
  by (intro wp_silentI wp_endWithStatusI)
     (auto simp: guarded_snoc markStalled_notReady intro!: connection_status_okI [where conn = conn and nn = nn])

lemma authenticate_ok:
  assumes "guarded connection_status_ok tr" "KConn (GotObject nn (Inr conn)) \<in> set tr" "sameConn c conn"
    and "cnst_ObservedGeneration (cn_Status c) = om_Generation c"
    and "\<And>t1 t2. connectionVerified (tr @ [LookedUpSelf None]) (readyConnectionStatus c t1 t2)"
  shows "wp (authenticate (logConnectionReconciler R) (logConnectionClient k) before c)
     (\<lambda>_ (s', tr'). guarded connection_status_ok tr') (s, tr)"
proof -
  have ready: "connection_status_ok (tr @ [LookedUpSelf None]) (KConn (UpdatedStatus (readyConnectionStatus c t1 t2) r))"
    for t1 t2 r
    using assms
    by (intro connection_status_okI [where conn = conn and nn = nn])
       (simp_all add: readyConnectionStatus_def Let_def markReady_readyTrue)
  show ?thesis
    unfolding authenticate_def Let_def wp_simps logConnectionReconciler_sel logConnectionClient_sel
    using assms(1-4) ready
    by (auto simp: trace_simps wp_simps split: option.split
        intro!: wp_loggedI wp_silentI wp_endWithStatusI fail_connection_ok [where conn = conn and nn = nn])
qed

lemma verified_health:
  "connectionVerified (tr @ [CheckedHealth (Inr (Some h)), LookedUpSelf None])
     (readyConnectionStatus (recordHealth h c) t1 t2)"
  by (auto simp: connectionVerified_def readyConnectionStatus_def recordHealth_def Let_def intro: exI [where x = h])

lemma verified_namespace:
  "cns_Namespace (cn_Spec c) \<noteq> '''' \<Longrightarrow>
     connectionVerified (tr @ [LookedUpSelf None]) (readyConnectionStatus c t1 t2)"
  by (simp add: connectionVerified_def readyConnectionStatus_def Let_def)

lemma Reconcile_connection_ok:
  "wp (Reconcile_connection (logConnectionReconciler R) req)
     (\<lambda>_ (s', tr'). guarded connection_status_ok tr') (s, [])"
proof -
  let ?R = "logConnectionReconciler R"
  let ?Q = "\<lambda>_ (s', tr'). guarded connection_status_ok tr'"
  let ?c = "\<lambda>x. x\<lparr>cn_Status := (cn_Status x)\<lparr>cnst_ObservedGeneration := om_Generation x\<rparr>\<rparr>"
  let ?tr = "\<lambda>x. [KConn (GotObject req (Inr x))]"
  have inv: "wp (invalidConfiguration ?R before (?c x) err) ?Q (s', ?tr x @ [MadeConnectionClient k e])"
    for x before err k e s'
    by (rule invalidConfiguration_ok [where conn = x and nn = req]) (simp_all add: guarded_def)
  have health: "wp (fail_connection ?R (?c x) reason err) ?Q (s', ?tr x @ [MadeConnectionClient k e, CheckedHealth h])"
    for x reason err k e h s'
    by (rule fail_connection_ok [where conn = x and nn = req]) (simp_all add: guarded_def)
  have plain: "wp (authenticate ?R (logConnectionClient a) before (?c x)) ?Q (s', ?tr x @ [MadeConnectionClient k e])"
    if "cns_Namespace (cn_Spec x) \<noteq> ''''" for x a before k e s'
  proof (rule authenticate_ok [where conn = x and nn = req])
    show "connectionVerified ((?tr x @ [MadeConnectionClient k e]) @ [LookedUpSelf None])
        (readyConnectionStatus (?c x) t1 t2)" for t1 t2
      by (rule verified_namespace) (simp add: that)
  qed (simp_all add: guarded_def)
  have checked: "wp (authenticate ?R (logConnectionClient a) before (recordHealth h (?c x))) ?Q
      (s', ?tr x @ [MadeConnectionClient k e, CheckedHealth (Inr (Some h))])" for x a before h k e s'
  proof (rule authenticate_ok [where conn = x and nn = req])
    show "connectionVerified ((?tr x @ [MadeConnectionClient k e, CheckedHealth (Inr (Some h))]) @ [LookedUpSelf None])
        (readyConnectionStatus (recordHealth h (?c x)) t1 t2)" for t1 t2
      using verified_health [of "?tr x @ [MadeConnectionClient k e]" h "?c x" t1 t2] by simp
  qed (simp_all add: guarded_def)
  have client: "wp (if cns_Namespace (cn_Spec (?c x)) = '''' then do {
               h \<leftarrow> CheckHealth (logConnectionClient a);
               case h of
                 Inl err \<Rightarrow> fail_connection ?R (?c x) ''HealthCheckFailed'' err
               | Inr None \<Rightarrow> nilPanic
               | Inr (Some health) \<Rightarrow> authenticate ?R (logConnectionClient a) (cn_Status x) (recordHealth health (?c x))
             }
             else authenticate ?R (logConnectionClient a) (cn_Status x) (?c x)) ?Q
      (s', ?tr x @ [MadeConnectionClient k e])" for x a s' k e
  proof (cases "cns_Namespace (cn_Spec x) = ''''")
    case True
    then show ?thesis
      using health checked
      by (auto simp: wp_simps nilPanic_def guarded_def split: sum.split option.split intro!: wp_loggedI)
  next
    case False
    with plain show ?thesis by simp
  qed
  show ?thesis
    unfolding Reconcile_connection_def Let_def wp_bind logConnectionReconciler_sel logKube_sel
  proof (rule wp_loggedI, simp only: append_Nil)
    fix r :: "go_error + OpenBaoConnection" and s'
    show "wp (case r of
          Inl err \<Rightarrow> if apierrors_IsNotFound (cr_Lib R) err then ret (noRequeue, None) else ret (noRequeue, Some err)
        | Inr x \<Rightarrow> do {
            c \<leftarrow> clientFor_connection ?R (?c x);
            case c of Inl err \<Rightarrow> invalidConfiguration ?R (cn_Status x) (?c x) err
            | Inr a \<Rightarrow> if cns_Namespace (cn_Spec (?c x)) = '''' then do {
               h \<leftarrow> CheckHealth a;
               case h of
                 Inl err \<Rightarrow> fail_connection ?R (?c x) ''HealthCheckFailed'' err
               | Inr None \<Rightarrow> nilPanic
               | Inr (Some health) \<Rightarrow> authenticate ?R a (cn_Status x) (recordHealth health (?c x))
             }
             else authenticate ?R a (cn_Status x) (?c x) }) ?Q (s', [KConn (GotObject req r)])"
    proof (cases r)
      case (Inl e)
      then show ?thesis by (simp add: wp_simps guarded_def)
    next
      case (Inr x)
      show ?thesis
        unfolding Inr sum.case wp_bind
        by (rule wp_clientFor_connectionI) (simp_all only: sum.case inv client)
    qed
  qed
qed

section \<open>The properties\<close>

text \<open>
  C15. A connection is reported ready exactly when it is reported authenticated, and only after
  the token self-lookup succeeded and, outside namespaces, after a health check whose answer the
  status records.  Every status written carries the generation of an object that was read, and
  the specification is never written.
\<close>

theorem connection_ready_is_verified: "guarded connection_status_ok (connection_trace R req s)"
  using Reconcile_connection_ok [of R req s]
  by (simp add: connection_trace_def connection_run_def wp_run split_beta)

text \<open>
  A failed authentication that is already on record writes nothing, so the version and the
  sealed and standby states that the health check of the same run observed are dropped: the copy
  \<^verbatim>\<open>fail\<close> compares with was taken after they had been set.
\<close>

theorem connection_health_lost:
  assumes "cnst_Authenticated (cn_Status c) = False"
    and "has_condition (cnst_Conditions (cn_Status c)) conditionReady ConditionFalse reason (Error err) (om_Generation c)"
  shows "wp (fail_connection (logConnectionReconciler R) (recordHealth h c) reason err)
     (\<lambda>out (s', tr'). out = (noRequeue, Some err) \<and> tr' = tr) (s, tr)"
proof -
  let ?st = "cn_Status (recordHealth h c)"
  have same: "?st = ?st\<lparr>cnst_Authenticated := False,
      cnst_Conditions := markError (cnst_Conditions ?st) (om_Generation c) reason (Some err) t\<rparr>" for t
    using assms by (simp add: recordHealth_def markError_stable)
  show ?thesis
    unfolding fail_connection_def Let_def wp_simps logConnectionReconciler_sel
    by (intro wp_silentI wp_endWithStatusI) (use same in \<open>simp_all\<close>)
qed

definition downConn :: OpenBaoConnection where
  "downConn = readyConn\<lparr>cn_Status := (cn_Status readyConn)\<lparr>cnst_Authenticated := False,
     cnst_Conditions := [mkCondition conditionReady ConditionFalse ''AuthenticationFailed'' (Error boom) 1 5]\<rparr>\<rparr>"

definition deadReconciler :: "unit ConnectionReconciler" where
  "deadReconciler =
     \<lparr>cr_Lib = stdLib, cr_Connections = constKube downConn, cr_Now = ret 9, cr_NewClient = None,
      cr_ClientCache = None, cr_connectionClientFor = (\<lambda>c. ret (Inl boom))\<rparr>"

lemma connection_health_lost_witness:
  "wp (fail_connection (logConnectionReconciler deadReconciler)
        (recordHealth \<lparr>h_Version = ''2.5'', h_Initialized = True, h_Sealed = True, h_Standby = False\<rparr> downConn)
        ''AuthenticationFailed'' boom)
     (\<lambda>out (s', tr'). out = (noRequeue, Some boom) \<and> tr' = []) ((), [])"
  by (rule connection_health_lost)
     (simp_all add: downConn_def readyConn_def has_condition_def findCondition_Cons sameCondition_def)

end
