(* ===== verification/Scope.thy ===== *)
theory Scope
  imports GoErrors
begin

text \<open>
  \<^verbatim>\<open>internal/controller/openbao/scope.go\<close>: the namespaces the operator watches, from its
  comma-separated flag.  \<^verbatim>\<open>validation.IsDNS1123Label\<close> of the Kubernetes libraries is a
  parameter that returns its complaints; the cache options are the set of watched namespaces, none
  meaning the whole cluster.
\<close>

fun joinText :: "string \<Rightarrow> string list \<Rightarrow> string" where
  "joinText sep [] = ''''"
| "joinText sep [x] = x"
| "joinText sep (x # y # ys) = x @ sep @ joinText sep (y # ys)"

text \<open>The loop of \<^verbatim>\<open>ParseWatchNamespaces\<close> with the namespaces collected so far.\<close>

fun parseEntries ::
  "(string \<Rightarrow> string list) \<Rightarrow> string list \<Rightarrow> string list \<Rightarrow> go_error + string list" where
  "parseEntries isDNS1123Label [] namespaces = Inr namespaces"
| "parseEntries isDNS1123Label (v # vs) namespaces =
     (let namespace = TrimSpace v in
      if namespace = '''' then Inl (Errorf ''watch namespace list contains an empty entry'')
      else (let messages = isDNS1123Label namespace in
        if messages \<noteq> [] then
          Inl (Errorf (''invalid watch namespace '' @ fmt_q namespace @ '': '' @ joinText ''; '' messages))
        else if namespace \<in> set namespaces then
          Inl (Errorf (''watch namespace '' @ fmt_q namespace @ '' is listed more than once''))
        else parseEntries isDNS1123Label vs (namespaces @ [namespace])))"

definition ParseWatchNamespaces :: "(string \<Rightarrow> string list) \<Rightarrow> string \<Rightarrow> go_error + string slice" where
  "ParseWatchNamespaces isDNS1123Label raw =
     (if TrimSpace raw = '''' then Inr None
      else (case parseEntries isDNS1123Label (SplitByte (CHR '','') raw) [] of
          Inl err \<Rightarrow> Inl err
        | Inr namespaces \<Rightarrow> Inr (Some (sort namespaces))))"

text \<open>The namespaces of the options; \<open>None\<close> is the zero value, which watches all of them.\<close>

definition CacheOptionsForWatchNamespaces ::
  "(string \<Rightarrow> string list) \<Rightarrow> string \<Rightarrow> go_error + string fset option" where
  "CacheOptionsForWatchNamespaces isDNS1123Label raw = (case ParseWatchNamespaces isDNS1123Label raw of
      Inl err \<Rightarrow> Inl err
    | Inr namespaces \<Rightarrow> if elems namespaces = [] then Inr None else Inr (Some (fset_of_list (elems namespaces))))"

section \<open>Properties\<close>

definition acceptable :: "(string \<Rightarrow> string list) \<Rightarrow> string list \<Rightarrow> bool" where
  "acceptable isDNS1123Label ns \<longleftrightarrow> distinct ns \<and> list_all (\<lambda>n. n \<noteq> '''' \<and> isDNS1123Label n = []) ns"

lemma parseEntries_Inr:
  "parseEntries d vs ns = Inr out \<longleftrightarrow>
     out = ns @ map TrimSpace vs \<and> list_all (\<lambda>n. n \<noteq> '''' \<and> d n = []) (map TrimSpace vs) \<and>
     distinct (map TrimSpace vs) \<and> set ns \<inter> set (map TrimSpace vs) = {}"
  by (induction vs arbitrary: ns) (auto simp: Let_def)

lemma parseEntries_accepts:
  "(\<exists>out. parseEntries d vs [] = Inr out) \<longleftrightarrow> acceptable d (map TrimSpace vs)"
  unfolding parseEntries_Inr acceptable_def by simp blast

lemma ParseWatchNamespaces_Inr:
  assumes "TrimSpace raw \<noteq> ''''"
  shows "ParseWatchNamespaces d raw = Inr r \<longleftrightarrow>
     acceptable d (map TrimSpace (SplitByte (CHR '','') raw)) \<and>
     r = Some (sort (map TrimSpace (SplitByte (CHR '','') raw)))"
proof (cases "parseEntries d (SplitByte (CHR '','') raw) []")
  case (Inl e)
  then have "\<not> acceptable d (map TrimSpace (SplitByte (CHR '','') raw))"
    using parseEntries_accepts [of d "SplitByte (CHR '','') raw"] by simp
  with Inl assms show ?thesis by (simp add: ParseWatchNamespaces_def)
next
  case (Inr out)
  then have "acceptable d (map TrimSpace (SplitByte (CHR '','') raw))"
    using parseEntries_accepts [of d "SplitByte (CHR '','') raw"] by simp
  moreover have "out = map TrimSpace (SplitByte (CHR '','') raw)"
    using Inr unfolding parseEntries_Inr by simp
  ultimately show ?thesis using Inr assms by (auto simp: ParseWatchNamespaces_def)
qed

lemma sort_SplitByte_ne: "sort (map TrimSpace (SplitByte c raw)) \<noteq> []"
  by (metis SplitByte_ne length_0_conv length_map length_sort)

text \<open>
  C23. The flag is accepted exactly when it is blank or a list of distinct valid namespaces, and then
  yields those very namespaces in ascending order: none is dropped, doubled or invented, so the
  operator watches what was asked for and never silently the whole cluster.
\<close>

theorem ParseWatchNamespaces_exact:
  "ParseWatchNamespaces d raw = Inr r \<longleftrightarrow>
     (if TrimSpace raw = '''' then r = None
      else acceptable d (map TrimSpace (SplitByte (CHR '','') raw)) \<and>
        r = Some (sort (map TrimSpace (SplitByte (CHR '','') raw))))"
  by (cases "TrimSpace raw = ''''") (auto simp: ParseWatchNamespaces_Inr, auto simp: ParseWatchNamespaces_def)

text \<open>
  Only the blank flag leads to a cache of the whole cluster; any other accepted flag restricts it
  to the namespaces listed.
\<close>

theorem CacheOptions_scope:
  "CacheOptionsForWatchNamespaces d raw = Inr opts \<longleftrightarrow>
     (if TrimSpace raw = '''' then opts = None
      else acceptable d (map TrimSpace (SplitByte (CHR '','') raw)) \<and>
        opts = Some (fset_of_list (map TrimSpace (SplitByte (CHR '','') raw))))"
proof (cases "TrimSpace raw = ''''")
  case True
  then show ?thesis by (auto simp: CacheOptionsForWatchNamespaces_def ParseWatchNamespaces_def)
next
  case False
  have set: "fset_of_list (sort ns) = fset_of_list ns" for ns :: "string list"
    by (simp add: fset_of_list_elem fset_eq_iff)
  note parsed = ParseWatchNamespaces_Inr [OF False, of d]
  show ?thesis
  proof (cases "ParseWatchNamespaces d raw")
    case (Inl e)
    with parsed have "\<not> acceptable d (map TrimSpace (SplitByte (CHR '','') raw))" by auto
    with Inl False show ?thesis by (simp add: CacheOptionsForWatchNamespaces_def)
  next
    case (Inr r)
    with parsed [of r] have r: "acceptable d (map TrimSpace (SplitByte (CHR '','') raw))"
        "r = Some (sort (map TrimSpace (SplitByte (CHR '','') raw)))" by auto
    show ?thesis
      unfolding CacheOptionsForWatchNamespaces_def Inr sum.case r(2) elems_simps set
      using r(1) False sort_SplitByte_ne [of "CHR '',''" raw] by auto
  qed
qed

end
