(* ===== verification/AnyValue.thy ===== *)
theory AnyValue
  imports Json Sha256
begin

text \<open>
  Go's \<^verbatim>\<open>map[string]any\<close>, the shape in which the configuration endpoints of
  OpenBao are read and written, and what the program does with such values: encode them as
  JSON, read JSON back, compare the encodings and hash them
  (\<^verbatim>\<open>reflectJSONEqual\<close>, \<^verbatim>\<open>systemConfigHash\<close>,
  \<^verbatim>\<open>objectMap\<close> of \<^verbatim>\<open>openbaosystem_controller.go\<close>).

  \<open>any\<close> has one constructor per dynamic type the program stores in an interface value.
  What \<^verbatim>\<open>Unmarshal\<close> stores are \<open>ANil\<close>, \<open>ABool\<close>, \<open>AFloat\<close>, \<open>AString\<close>, \<open>AList\<close>
  (\<^verbatim>\<open>[]any\<close>) and \<open>AMap\<close> (\<^verbatim>\<open>map[string]any\<close>); the others come
  from the program's own assignments.  A map inside an interface value is kept as its entries
  in ascending order of the keys, the order in which it is written.

  A \<^verbatim>\<open>float64\<close> is its 64 bits.  The conversion between floats and decimal text
  (\<^verbatim>\<open>strconv\<close>) is a parameter, \<open>FloatLib\<close>; \<open>float_lib_ok\<close> states that integers of
  at most 53 bits survive it, as they do under IEEE 754.
\<close>

section \<open>Floats\<close>

type_synonym float64 = "64 word"

definition float_exponent :: "float64 \<Rightarrow> nat" where
  "float_exponent w = unat (take_bit 11 (drop_bit 52 w))"

definition float_fraction :: "float64 \<Rightarrow> nat" where
  "float_fraction w = unat (take_bit 52 w)"

definition float_negative :: "float64 \<Rightarrow> bool" where
  "float_negative w = bit w 63"

definition float_finite :: "float64 \<Rightarrow> bool" where
  "float_finite w \<longleftrightarrow> float_exponent w < 2047"

definition float_NaN :: "float64 \<Rightarrow> bool" where
  "float_NaN w \<longleftrightarrow> float_exponent w = 2047 \<and> float_fraction w \<noteq> 0"

text \<open>\<^verbatim>\<open>f <= 0\<close>: a zero of either sign or a negative number; false for NaN.\<close>

definition float_le_zero :: "float64 \<Rightarrow> bool" where
  "float_le_zero w \<longleftrightarrow> \<not> float_NaN w \<and>
     (float_negative w \<or> (float_exponent w = 0 \<and> float_fraction w = 0))"

text \<open>
  \<^verbatim>\<open>int64(f)\<close> truncates towards zero; what does not fit becomes the smallest
  \<^verbatim>\<open>int64\<close>, as on amd64.
\<close>

definition float_to_int64 :: "float64 \<Rightarrow> int" where
  "float_to_int64 w =
     (let e = float_exponent w;
          m = float_fraction w + (if e = 0 then 0 else 2 ^ 52);
          a = (if 1075 \<le> e then m * 2 ^ (e - 1075) else m div 2 ^ (1075 - max e 1));
          n = (if float_negative w then - int a else int a)
      in if 1086 < e then minDuration
         else if minDuration \<le> n \<and> n \<le> maxDuration then n else minDuration)"

record FloatLib =
  fl_Parse :: "string \<Rightarrow> float64 option"
  fl_Format :: "float64 \<Rightarrow> string"

definition float_lib_ok :: "FloatLib \<Rightarrow> bool" where
  "float_lib_ok F \<longleftrightarrow> (\<forall>n. \<bar>n\<bar> \<le> 2 ^ 53 \<longrightarrow>
     (\<exists>w. fl_Parse F (fmt_d n) = Some w \<and> float_finite w \<and> fl_Format F w = fmt_d n))"

section \<open>Values\<close>

datatype any =
    ANil
  | ABool bool
  | AInt int
  | AFloat float64
  | AString string
  | AStrings "string slice"
  | AStringMap strmap
  | AList "any list"
  | AMap "(string \<times> any) list"

type_synonym anymap = "(string, any) fmap"

text \<open>\<^verbatim>\<open>value[key].(string)\<close> and \<^verbatim>\<open>value[key].(float64)\<close>\<close>

definition getString :: "anymap \<Rightarrow> string \<Rightarrow> string option" where
  "getString m k = (case fmlookup m k of Some (AString s) \<Rightarrow> Some s | _ \<Rightarrow> None)"

definition getFloat :: "anymap \<Rightarrow> string \<Rightarrow> float64 option" where
  "getFloat m k = (case fmlookup m k of Some (AFloat w) \<Rightarrow> Some w | _ \<Rightarrow> None)"

section \<open>Number literals\<close>

definition digit :: "char \<Rightarrow> bool" where
  "digit c \<longleftrightarrow> (let n = (of_char c :: nat) in 48 \<le> n \<and> n \<le> 57)"

definition digits_val :: "string \<Rightarrow> nat" where
  "digits_val s = foldl (\<lambda>n c. 10 * n + (of_char c - 48)) 0 s"

text \<open>The number a literal denotes: an integer when it has only digits after its sign.\<close>

definition numLit :: "string \<Rightarrow> Json" where
  "numLit t = (case t of
      [] \<Rightarrow> JFloat t
    | c # ds \<Rightarrow>
        if list_all digit t then JNum (int (digits_val t))
        else if c = CHR ''-'' \<and> ds \<noteq> [] \<and> list_all digit ds \<and> digits_val ds \<noteq> 0 then JNum (- int (digits_val ds))
        else JFloat t)"

section \<open>Encoding and decoding\<close>

text \<open>An encoding fails on a float that is infinite or not a number.\<close>

fun anyJson :: "FloatLib \<Rightarrow> any \<Rightarrow> Json option"
  and anyJsons :: "FloatLib \<Rightarrow> any list \<Rightarrow> Json list option"
  and anyFields :: "FloatLib \<Rightarrow> (string \<times> any) list \<Rightarrow> (string \<times> Json) list option" where
  "anyJson F ANil = Some JNull"
| "anyJson F (ABool b) = Some (JBool b)"
| "anyJson F (AInt n) = Some (JNum n)"
| "anyJson F (AFloat w) = (if float_finite w then Some (numLit (fl_Format F w)) else None)"
| "anyJson F (AString s) = Some (JString s)"
| "anyJson F (AStrings s) = Some (encStrings s)"
| "anyJson F (AStringMap m) = Some (encStringMap m)"
| "anyJson F (AList vs) = map_option JArr (anyJsons F vs)"
| "anyJson F (AMap kvs) = map_option JObj (anyFields F kvs)"
| "anyJsons F [] = Some []"
| "anyJsons F (v # vs) =
     (case anyJson F v of None \<Rightarrow> None | Some j \<Rightarrow> map_option (Cons j) (anyJsons F vs))"
| "anyFields F [] = Some []"
| "anyFields F ((k, v) # kvs) =
     (case anyJson F v of None \<Rightarrow> None | Some j \<Rightarrow> map_option (Cons (k, j)) (anyFields F kvs))"

definition mapJson :: "FloatLib \<Rightarrow> anymap \<Rightarrow> Json option" where
  "mapJson F m = map_option JObj (anyFields F (sorted_list_of_fmap m))"

fun putKey :: "string \<Rightarrow> 'v \<Rightarrow> (string \<times> 'v) list \<Rightarrow> (string \<times> 'v) list" where
  "putKey k v [] = [(k, v)]"
| "putKey k v ((k', v') # kvs) =
     (if k < k' then (k, v) # (k', v') # kvs
      else if k = k' then (k, v) # kvs
      else (k', v') # putKey k v kvs)"

text \<open>Reading into an interface value.  A number out of the range of a float is an error.\<close>

fun decAny :: "FloatLib \<Rightarrow> Json \<Rightarrow> string + any"
  and decAnys :: "FloatLib \<Rightarrow> Json list \<Rightarrow> string + any list"
  and decAnyFields :: "FloatLib \<Rightarrow> (string \<times> Json) list \<Rightarrow> string + (string \<times> any) list" where
  "decAny F JNull = Inr ANil"
| "decAny F (JBool b) = Inr (ABool b)"
| "decAny F (JNum n) = (case fl_Parse F (fmt_d n) of
     None \<Rightarrow> Inl (typeMismatch ''float64'') | Some w \<Rightarrow> Inr (AFloat w))"
| "decAny F (JFloat t) = (case fl_Parse F t of
     None \<Rightarrow> Inl (typeMismatch ''float64'') | Some w \<Rightarrow> Inr (AFloat w))"
| "decAny F (JString s) = Inr (AString s)"
| "decAny F (JArr vs) = andThen (decAnys F vs) (\<lambda>xs. Inr (AList xs))"
| "decAny F (JObj fs) = andThen (decAnyFields F fs) (\<lambda>kvs. Inr (AMap (foldl (\<lambda>m (k, v). putKey k v m) [] kvs)))"
| "decAnys F [] = Inr []"
| "decAnys F (v # vs) = andThen (decAny F v) (\<lambda>x. andThen (decAnys F vs) (\<lambda>xs. Inr (x # xs)))"
| "decAnyFields F [] = Inr []"
| "decAnyFields F ((k, v) # fs) =
     andThen (decAny F v) (\<lambda>x. andThen (decAnyFields F fs) (\<lambda>kvs. Inr ((k, x) # kvs)))"

text \<open>Reading into a \<^verbatim>\<open>map[string]any\<close>: the entries are added to the map there is.\<close>

definition decAnyMap :: "FloatLib \<Rightarrow> anymap option decoder" where
  "decAnyMap F v x = (case v of
      JNull \<Rightarrow> Inr None
    | JObj fs \<Rightarrow> andThen (decAnyFields F fs) (\<lambda>kvs.
        Inr (Some (foldl (\<lambda>m (k, v). fmupd k v m) (case x of None \<Rightarrow> fmempty | Some m \<Rightarrow> m) kvs)))
    | _ \<Rightarrow> Inl (typeMismatch ''map[string]interface {}''))"

section \<open>The text of a document\<close>

text \<open>
  Strings are written with the escapes of \<^verbatim>\<open>encoding/json\<close>: the quote and the
  backslash, control characters, the characters that are special in HTML, and the line
  separators U+2028 and U+2029 (three bytes each).  Other bytes are copied; the strings of the
  program come from decoded JSON and are valid UTF-8.
\<close>

definition jsonEscape :: "char \<Rightarrow> string" where
  "jsonEscape c = (let n = (of_char c :: nat) in
     if n = 34 \<or> n = 92 then [CHR 0x5C, c]
     else if n = 8 then [CHR 0x5C, CHR ''b'']
     else if n = 9 then [CHR 0x5C, CHR ''t'']
     else if n = 10 then [CHR 0x5C, CHR ''n'']
     else if n = 12 then [CHR 0x5C, CHR ''f'']
     else if n = 13 then [CHR 0x5C, CHR ''r'']
     else if n < 32 \<or> n = 38 \<or> n = 60 \<or> n = 62
       then [CHR 0x5C, CHR ''u'', CHR ''0'', CHR ''0'', hex_digit (n div 16), hex_digit (n mod 16)]
     else [c])"

fun jsonEscapes :: "string \<Rightarrow> string" where
  "jsonEscapes (a # b # c # s) =
     (if a = CHR 0xE2 \<and> b = CHR 0x80 \<and> c = CHR 0xA8 then CHR 0x5C # ''u2028'' @ jsonEscapes s
      else if a = CHR 0xE2 \<and> b = CHR 0x80 \<and> c = CHR 0xA9 then CHR 0x5C # ''u2029'' @ jsonEscapes s
      else jsonEscape a @ jsonEscapes (b # c # s))"
| "jsonEscapes (a # s) = jsonEscape a @ jsonEscapes s"
| "jsonEscapes [] = []"

definition jsonQuote :: "string \<Rightarrow> string" where
  "jsonQuote s = [CHR 0x22] @ jsonEscapes s @ [CHR 0x22]"

fun jsonText :: "Json \<Rightarrow> string"
  and jsonTexts :: "Json list \<Rightarrow> string list"
  and jsonFieldTexts :: "(string \<times> Json) list \<Rightarrow> string list" where
  "jsonText JNull = ''null''"
| "jsonText (JBool b) = (if b then ''true'' else ''false'')"
| "jsonText (JNum n) = fmt_d n"
| "jsonText (JFloat t) = t"
| "jsonText (JString s) = jsonQuote s"
| "jsonText (JArr vs) = ''['' @ JoinByte (CHR '','') (jsonTexts vs) @ '']''"
| "jsonText (JObj fs) = ''{'' @ JoinByte (CHR '','') (jsonFieldTexts fs) @ ''}''"
| "jsonTexts [] = []"
| "jsonTexts (v # vs) = jsonText v # jsonTexts vs"
| "jsonFieldTexts [] = []"
| "jsonFieldTexts ((k, v) # fs) = (jsonQuote k @ '':'' @ jsonText v) # jsonFieldTexts fs"

definition Marshal :: "FloatLib \<Rightarrow> any \<Rightarrow> string option" where
  "Marshal F v = map_option jsonText (anyJson F v)"

section \<open>The helpers of openbaosystem\_controller.go\<close>

definition reflectJSONEqual :: "FloatLib \<Rightarrow> any \<Rightarrow> any \<Rightarrow> bool" where
  "reflectJSONEqual F left right \<longleftrightarrow> (case Marshal F left of
      None \<Rightarrow> False
    | Some leftJSON \<Rightarrow> (case Marshal F right of None \<Rightarrow> False | Some rightJSON \<Rightarrow> leftJSON = rightJSON))"

definition systemDesiredFieldsMatch :: "FloatLib \<Rightarrow> anymap \<Rightarrow> anymap \<Rightarrow> bool" where
  "systemDesiredFieldsMatch F desired observed \<longleftrightarrow>
     list_all (\<lambda>(key, desiredValue). case fmlookup observed key of
        None \<Rightarrow> False
      | Some observedValue \<Rightarrow> reflectJSONEqual F desiredValue observedValue) (sorted_list_of_fmap desired)"

definition systemConfigHash :: "FloatLib \<Rightarrow> anymap \<Rightarrow> string" where
  "systemConfigHash F ob = (case mapJson F ob of
      None \<Rightarrow> '''' | Some data \<Rightarrow> sha256_hex (jsonText data))"

text \<open>\<^verbatim>\<open>objectMap\<close> is given the document its argument is written as.\<close>

definition objectMap :: "FloatLib \<Rightarrow> Json option \<Rightarrow> anymap option" where
  "objectMap F written = (case written of
      None \<Rightarrow> None
    | Some data \<Rightarrow> (case decAnyMap F data None of Inl _ \<Rightarrow> None | Inr m \<Rightarrow> m))"

end
