(* ===== verification/SystemEngine.thy ===== *)
theory SystemEngine
  imports Observing BaoTypes AnyValue
begin

text \<open>
  The shared lifecycle of \<^verbatim>\<open>internal/controller/openbao/openbaosystem_controller.go\<close>:
  \<^verbatim>\<open>reconcileSystemNamed\<close> and its helpers, which sixteen kinds of configuration
  resource run with a \<^verbatim>\<open>systemPlan\<close> of their own.

  The closures of a plan read the object they were made for through a pointer, and writing the
  finalizer refreshes that object; here they take the object as an argument.  What the Go code
  copies into the plan beforehand (\<^verbatim>\<open>ConnectionRef\<close>, the policies, the interval,
  the name and \<^verbatim>\<open>Status.Before\<close>) are values.  The client is a type parameter: the
  engine only hands it to the plan.
\<close>

section \<open>Plans and reconcilers\<close>

record ('s, 'k, 'o, 'st) systemPlan =
  sp_ConnectionRef :: OpenBaoConnectionReference
  sp_CreationPolicy :: CreationPolicy
  sp_DeletionPolicy :: DeletionPolicy
  sp_DriftInterval :: int
  sp_Name :: string
  sp_Desired :: "'o \<Rightarrow> go_error + anymap"
  sp_Get :: "'o \<Rightarrow> 'k \<Rightarrow> ('s, go_error + anymap option) state"
  sp_Write :: "'o \<Rightarrow> 'k \<Rightarrow> anymap \<Rightarrow> bool \<Rightarrow> ('s, go_error option) state"
  sp_Delete :: "'o \<Rightarrow> 'k \<Rightarrow> ('s, go_error option) state"
  sp_Acquired :: "'o \<Rightarrow> bool"
  sp_MarkAcquired :: "'o \<Rightarrow> 'o"
  sp_Observe :: "anymap \<Rightarrow> 'o \<Rightarrow> 'o"
  sp_Status :: "('o, 'st) StatusAccess"
  sp_ConfigHash :: "'st \<Rightarrow> string"
  sp_setConfigHash :: "string \<Rightarrow> 'st \<Rightarrow> 'st"
  sp_Before :: 'st

record ('s, 'k, 'o) SystemReconciler =
  sr_Lib :: KubeLib
  sr_Float :: FloatLib
  sr_Objects :: "('s, 'o) KubeAPI"
  sr_Connections :: "('s, OpenBaoConnection) KubeAPI"
  sr_Now :: "('s, int) state"
  sr_NewClient :: "(OpenBaoConnection \<Rightarrow> ('s, go_error + 'k) state) option"
  sr_ClientCache :: "(OpenBaoConnection \<Rightarrow> ('s, go_error + 'k) state) option"
  sr_connectionClientFor :: "OpenBaoConnection \<Rightarrow> ('s, go_error + 'k) state"

section \<open>Helpers\<close>

definition systemClientFor ::
  "('s, 'k, 'o) SystemReconciler \<Rightarrow> OpenBaoConnection \<Rightarrow> ('s, go_error + 'k) state" where
  "systemClientFor R connection =
     clientForWith (sr_NewClient R) (sr_ClientCache R) (sr_connectionClientFor R) connection"

text \<open>
  \<^verbatim>\<open>durationSeconds\<close> of \<^verbatim>\<open>openbaokubernetesauthrole_controller.go\<close>:
  a duration in whole seconds.
\<close>

definition durationSeconds :: "int option \<Rightarrow> string \<Rightarrow> go_error + int" where
  "durationSeconds duration fieldName = (case duration of
      None \<Rightarrow> Inr 0
    | Some d \<Rightarrow>
        if d = 0 then Inr 0
        else if d < 0 then Inl (Errorf (fieldName @ '' must not be negative''))
        else if go_mod d Second \<noteq> 0 then Inl (Errorf (fieldName @ '' must be a whole number of seconds''))
        else Inr (go_div d Second))"

definition systemDuration :: "int option \<Rightarrow> string \<Rightarrow> go_error + int option" where
  "systemDuration value fieldName = (case value of
      None \<Rightarrow> Inr None
    | Some d \<Rightarrow> map_sum id Some (durationSeconds value fieldName))"

definition systemPolicies :: "CreationPolicy \<Rightarrow> DeletionPolicy \<Rightarrow> CreationPolicy \<times> DeletionPolicy" where
  "systemPolicies creation deletion =
     (if creation = '''' then CreationPolicyCreate else creation,
      if deletion = '''' then DeletionPolicyOrphan else deletion)"

definition systemDrift :: "int option \<Rightarrow> int" where
  "systemDrift value = (case value of None \<Rightarrow> defaultDriftCheck | Some d \<Rightarrow> d)"

text \<open>The two failure paths write the status in memory and leave the observed generation to it.\<close>

definition systemFailure ::
  "('s, 'k, 'a ObjectMeta_scheme) SystemReconciler \<Rightarrow> ('s, 'k, 'a ObjectMeta_scheme, 'st) systemPlan
     \<Rightarrow> 'a ObjectMeta_scheme \<Rightarrow> string \<Rightarrow> go_error \<Rightarrow> ('s, outcome) state" where
  "systemFailure R plan object reason err = do {
     t \<leftarrow> sr_Now R;
     let acc = sp_Status plan;
     let st = sa_Status acc object;
     let current = sa_setConditions acc
           (markError (sa_Conditions acc st) (om_Generation object) reason (Some err) t) st;
     endWithStatus (k_StatusUpdate (sr_Objects R)) (sa_setStatus acc current object)
       (sp_Before plan) current (noRequeue, Some err)
   }"

definition systemDependencyFailure ::
  "('s, 'k, 'a ObjectMeta_scheme) SystemReconciler \<Rightarrow> ('s, 'k, 'a ObjectMeta_scheme, 'st) systemPlan
     \<Rightarrow> 'a ObjectMeta_scheme \<Rightarrow> go_error \<Rightarrow> ('s, outcome) state" where
  "systemDependencyFailure R plan object err = do {
     t1 \<leftarrow> sr_Now R;
     t2 \<leftarrow> sr_Now R;
     let acc = sp_Status plan;
     let st = sa_Status acc object;
     let current = sa_setConditions acc (markStalled (sa_Conditions acc st) (om_Generation object)
           ''DependencyNotReady'' (Some err) t1 t2) st;
     endWithStatus (k_StatusUpdate (sr_Objects R)) (sa_setStatus acc current object)
       (sp_Before plan) current (requeueIn dependencyRetry, None)
   }"

section \<open>reconcileSystemNamed\<close>

text \<open>The deletion branch.\<close>

definition reconcileSystemDeletion ::
  "('s, 'k, 'a ObjectMeta_scheme) SystemReconciler \<Rightarrow> ('s, 'k, 'a ObjectMeta_scheme, 'st) systemPlan
     \<Rightarrow> 'a ObjectMeta_scheme \<Rightarrow> ('s, outcome) state" where
  "reconcileSystemDeletion R plan object =
     (let dropFinalizer = do {
            e \<leftarrow> removeFinalizer (sr_Lib R) (k_Update (sr_Objects R)) object;
            ret (noRequeue, e)
          };
          cleanupFailed = recordCleanupFailure (sp_Status plan) (sr_Now R) (k_StatusUpdate (sr_Objects R))
            object (sp_Before plan)
      in if sp_DeletionPolicy plan \<noteq> DeletionPolicyDelete then dropFinalizer
         else do {
           r \<leftarrow> resolveConnection (sr_Connections R) (om_Namespace object) (sp_ConnectionRef plan);
           case r of
             Inl err \<Rightarrow> cleanupFailed reasonCleanupDependencyUnavailable
               (cleanupDependencyError ''OpenBaoConnection'' err)
           | Inr connection \<Rightarrow> do {
               c \<leftarrow> systemClientFor R connection;
               case c of
                 Inl err \<Rightarrow> cleanupFailed reasonCleanupDependencyUnavailable
                   (cleanupDependencyError ''OpenBaoConnection credentials'' err)
               | Inr apiClient \<Rightarrow> do {
                   d \<leftarrow> sp_Delete plan object apiClient;
                   case d of
                     None \<Rightarrow> dropFinalizer
                   | Some err \<Rightarrow>
                       if \<not> isNotFound (sr_Lib R) err then cleanupFailed ''CleanupFailed'' err
                       else dropFinalizer
                 }
             }
         })"

text \<open>The end of the active branch: record what was observed.\<close>

definition observeSystem ::
  "('s, 'k, 'a ObjectMeta_scheme, 'st) systemPlan \<Rightarrow> anymap \<Rightarrow> 'a ObjectMeta_scheme \<Rightarrow> 'a ObjectMeta_scheme" where
  "observeSystem plan observed object = sp_Observe plan observed (sp_MarkAcquired plan object)"

definition readySystemObject ::
  "FloatLib \<Rightarrow> ('s, 'k, 'a ObjectMeta_scheme, 'st) systemPlan \<Rightarrow> anymap \<Rightarrow> int \<Rightarrow> int
     \<Rightarrow> 'a ObjectMeta_scheme \<Rightarrow> 'a ObjectMeta_scheme" where
  "readySystemObject F plan observed t1 t2 object =
     (let acc = sp_Status plan;
          object = observeSystem plan observed object;
          st = sp_setConfigHash plan (systemConfigHash F observed) (sa_Status acc object)
      in sa_setStatus acc (sa_setConditions acc (markReady (sa_Conditions acc st) (om_Generation object)
           ''OpenBao resource is reconciled'' t1 t2) st) object)"

definition finishSystem ::
  "('s, 'k, 'a ObjectMeta_scheme) SystemReconciler \<Rightarrow> ('s, 'k, 'a ObjectMeta_scheme, 'st) systemPlan
     \<Rightarrow> 'a ObjectMeta_scheme \<Rightarrow> anymap option \<Rightarrow> ('s, outcome) state" where
  "finishSystem R plan object observed = (case observed of
      None \<Rightarrow> systemFailure R plan object ''InvalidOpenBaoResponse''
        (Errorf (''OpenBao returned no resource '' @ fmt_q (sp_Name plan)))
    | Some observed \<Rightarrow> do {
        t1 \<leftarrow> sr_Now R;
        t2 \<leftarrow> sr_Now R;
        let object = readySystemObject (sr_Float R) plan observed t1 t2 object;
        endWithStatus (k_StatusUpdate (sr_Objects R)) object (sp_Before plan)
          (sa_Status (sp_Status plan) object) (requeueIn (sp_DriftInterval plan), None)
      })"

text \<open>The middle: write the desired fields when something differs, and read back.\<close>

definition applySystem ::
  "('s, 'k, 'a ObjectMeta_scheme) SystemReconciler \<Rightarrow> ('s, 'k, 'a ObjectMeta_scheme, 'st) systemPlan
     \<Rightarrow> 'k \<Rightarrow> 'a ObjectMeta_scheme \<Rightarrow> anymap option \<Rightarrow> bool \<Rightarrow> ('s, outcome) state" where
  "applySystem R plan apiClient object observed created = (case sp_Desired plan object of
      Inl err \<Rightarrow> systemFailure R plan object ''InvalidOpenBaoSpec'' err
    | Inr desired \<Rightarrow>
        if created \<or> (case observed of None \<Rightarrow> True
                      | Some ob \<Rightarrow> \<not> systemDesiredFieldsMatch (sr_Float R) desired ob) then do {
          w \<leftarrow> sp_Write plan object apiClient desired created;
          case w of
            Some err \<Rightarrow> systemFailure R plan object ''OpenBaoWriteFailed'' err
          | None \<Rightarrow> do {
              g \<leftarrow> sp_Get plan object apiClient;
              case g of
                Inl err \<Rightarrow> systemFailure R plan object ''OpenBaoReadFailed'' err
              | Inr observed \<Rightarrow> finishSystem R plan object observed
            }
        } else finishSystem R plan object observed)"

definition acquireSystem ::
  "('s, 'k, 'a ObjectMeta_scheme) SystemReconciler \<Rightarrow> ('s, 'k, 'a ObjectMeta_scheme, 'st) systemPlan
     \<Rightarrow> 'k \<Rightarrow> 'a ObjectMeta_scheme \<Rightarrow> ('s, outcome) state" where
  "acquireSystem R plan apiClient object = do {
     g \<leftarrow> sp_Get plan object apiClient;
     case g of
       Inl err \<Rightarrow>
         if \<not> isNotFound (sr_Lib R) err then systemFailure R plan object ''OpenBaoReadFailed'' err
         else if \<not> AllowsCreation (sp_CreationPolicy plan) then
           systemFailure R plan object ''OpenBaoAcquireFailed''
             (Errorf (''OpenBao resource '' @ fmt_q (sp_Name plan) @ '' does not exist and creationPolicy='' @
                sp_CreationPolicy plan @ '' does not allow creation''))
         else applySystem R plan apiClient object None True
     | Inr observed \<Rightarrow>
         if \<not> sp_Acquired plan object \<and> \<not> AllowsAdoption (sp_CreationPolicy plan) then
           systemFailure R plan object ''OpenBaoAcquireFailed''
             (Errorf (''OpenBao resource '' @ fmt_q (sp_Name plan) @
                '' already exists; set creationPolicy to Adopt or CreateOrAdopt to manage it''))
         else applySystem R plan apiClient object observed False
   }"

definition stampGeneration ::
  "('a ObjectMeta_scheme, 'st) StatusAccess \<Rightarrow> 'a ObjectMeta_scheme \<Rightarrow> 'a ObjectMeta_scheme" where
  "stampGeneration acc object =
     sa_setStatus acc (sa_setObservedGeneration acc (om_Generation object) (sa_Status acc object)) object"

definition reconcileSystemActive ::
  "('s, 'k, 'a ObjectMeta_scheme) SystemReconciler \<Rightarrow> ('s, 'k, 'a ObjectMeta_scheme, 'st) systemPlan
     \<Rightarrow> 'a ObjectMeta_scheme \<Rightarrow> ('s, outcome) state" where
  "reconcileSystemActive R plan object = do {
     let object = stampGeneration (sp_Status plan) object;
     r \<leftarrow> resolveConnection (sr_Connections R) (om_Namespace object) (sp_ConnectionRef plan);
     case r of
       Inl err \<Rightarrow> systemDependencyFailure R plan object
         (Wrapf (''read OpenBaoConnection '' @ om_Namespace object @ ''/'' @ connref_Name (sp_ConnectionRef plan)) err)
     | Inr connection \<Rightarrow>
         if \<not> IsStatusConditionTrue (sr_Lib R) (cnst_Conditions (cn_Status connection)) conditionReady then
           systemDependencyFailure R plan object
             (dependencyMessage ''OpenBaoConnection'' (ObjectKey connection) None)
         else do {
           c \<leftarrow> systemClientFor R connection;
           case c of
             Inl err \<Rightarrow> systemDependencyFailure R plan object err
           | Inr apiClient \<Rightarrow> acquireSystem R plan apiClient object
         }
   }"

definition reconcileSystemNamed ::
  "('s, 'k, 'a ObjectMeta_scheme) SystemReconciler \<Rightarrow> ('s, 'k, 'a ObjectMeta_scheme, 'st) systemPlan
     \<Rightarrow> 'a ObjectMeta_scheme \<Rightarrow> ('s, outcome) state" where
  "reconcileSystemNamed R plan object = do {
     f \<leftarrow> (if notDeleted object \<and> IsDelete (sp_DeletionPolicy plan)
          then ensureFinalizer (sr_Lib R) (k_Update (sr_Objects R)) object
          else ret (Inr object));
     case f of
       Inl err \<Rightarrow> ret (noRequeue, Some err)
     | Inr object \<Rightarrow>
         if \<not> notDeleted object then reconcileSystemDeletion R plan object
         else reconcileSystemActive R plan object
   }"

text \<open>
  The head of every \<^verbatim>\<open>Reconcile\<close> of these kinds: read the object, hand it on; an
  object that is gone needs nothing.
\<close>

definition withObject ::
  "('s, 'k, 'o) SystemReconciler \<Rightarrow> NamespacedName \<Rightarrow> ('o \<Rightarrow> ('s, outcome) state) \<Rightarrow> ('s, outcome) state" where
  "withObject R req f = do {
     r \<leftarrow> k_Get (sr_Objects R) req;
     case r of
       Inl err \<Rightarrow>
         if apierrors_IsNotFound (sr_Lib R) err then ret (noRequeue, None)
         else ret (noRequeue, Some err)
     | Inr object \<Rightarrow> f object
   }"

text \<open>
  One reconciliation of a kind: \<^verbatim>\<open>Reconcile\<close> reads the object, may reject it
  (only the rotation configurations do), and runs the engine with the plan made for it.
\<close>

definition reconcileSystemKind ::
  "('s, 'k, 'a ObjectMeta_scheme) SystemReconciler \<Rightarrow> ('a ObjectMeta_scheme \<Rightarrow> go_error option)
     \<Rightarrow> ('a ObjectMeta_scheme \<Rightarrow> ('s, 'k, 'a ObjectMeta_scheme, 'st) systemPlan)
     \<Rightarrow> NamespacedName \<Rightarrow> ('s, outcome) state" where
  "reconcileSystemKind R rejects planOf req = withObject R req (\<lambda>object.
     case rejects object of
       Some err \<Rightarrow> ret (noRequeue, Some err)
     | None \<Rightarrow> reconcileSystemNamed R (planOf object) object)"

definition acceptAll :: "'o \<Rightarrow> go_error option" where
  "acceptAll ob = None"

text \<open>\<^verbatim>\<open>mapConnection\<close>, the same for every kind.\<close>

definition connectionRequests ::
  "'b ObjectMeta_scheme \<Rightarrow> 'a ObjectMeta_scheme list \<Rightarrow> ('a ObjectMeta_scheme \<Rightarrow> string) \<Rightarrow> NamespacedName list" where
  "connectionRequests obj items connection =
     map ObjectKey (filter (\<lambda>item. connection item = om_Name obj) items)"

definition mapConnection ::
  "('s, 'k, 'a ObjectMeta_scheme) SystemReconciler \<Rightarrow> ('a ObjectMeta_scheme \<Rightarrow> string)
     \<Rightarrow> 'b ObjectMeta_scheme \<Rightarrow> ('s, NamespacedName list) state" where
  "mapConnection R connection obj = do {
     r \<leftarrow> k_List (sr_Objects R) (om_Namespace obj);
     ret (case r of Inl _ \<Rightarrow> [] | Inr items \<Rightarrow> connectionRequests obj items connection)
   }"

end
