(* ===== verification/SystemLifecycle.thy ===== *)
theory SystemLifecycle
  imports SystemEngine
begin

text \<open>
  What \<^verbatim>\<open>reconcileSystemNamed\<close> may do with any plan, for every behaviour of the
  API server and of OpenBao.  A run is observed through the calls it makes (\<open>SystemEvent\<close>):
  those on the Kubernetes side, and the plan's own \<^verbatim>\<open>Get\<close>,
  \<^verbatim>\<open>Write\<close> and \<^verbatim>\<open>Delete\<close>.  \<open>system_justified\<close> says which
  earlier answers justify each call that changes something.

  The contract a kind's plans fulfil is the locale \<open>system_kind\<close>; the lemmas are proved once
  inside it and reach the kinds through the interpretations in \<open>SystemKinds\<close> and
  \<open>ConfigurationKinds\<close>.
\<close>

section \<open>Observing a run\<close>

datatype 'o SystemEvent =
    SObject "'o KubeEvent"
  | SConnection "OpenBaoConnection KubeEvent"
  | MadeSystemClient OpenBaoConnection "go_error option"
  | ReadSystem 'o "go_error + anymap option"
  | WroteSystem 'o anymap bool "go_error option"
  | DeletedSystem 'o "go_error option"

definition logPlan ::
  "('s, 'k, 'o, 'st) systemPlan \<Rightarrow> ('s \<times> 'o SystemEvent list, 'k, 'o, 'st) systemPlan" where
  "logPlan p =
     \<lparr>sp_ConnectionRef = sp_ConnectionRef p, sp_CreationPolicy = sp_CreationPolicy p,
      sp_DeletionPolicy = sp_DeletionPolicy p, sp_DriftInterval = sp_DriftInterval p,
      sp_Name = sp_Name p, sp_Desired = sp_Desired p,
      sp_Get = (\<lambda>ob k. logged (ReadSystem ob) (sp_Get p ob k)),
      sp_Write = (\<lambda>ob k d c. logged (WroteSystem ob d c) (sp_Write p ob k d c)),
      sp_Delete = (\<lambda>ob k. logged (DeletedSystem ob) (sp_Delete p ob k)),
      sp_Acquired = sp_Acquired p, sp_MarkAcquired = sp_MarkAcquired p, sp_Observe = sp_Observe p,
      sp_Status = sp_Status p, sp_ConfigHash = sp_ConfigHash p, sp_setConfigHash = sp_setConfigHash p,
      sp_Before = sp_Before p\<rparr>"

lemma logPlan_sel [simp]:
  "sp_ConnectionRef (logPlan p) = sp_ConnectionRef p" "sp_CreationPolicy (logPlan p) = sp_CreationPolicy p"
  "sp_DeletionPolicy (logPlan p) = sp_DeletionPolicy p" "sp_DriftInterval (logPlan p) = sp_DriftInterval p"
  "sp_Name (logPlan p) = sp_Name p" "sp_Desired (logPlan p) = sp_Desired p"
  "sp_Get (logPlan p) ob k = logged (ReadSystem ob) (sp_Get p ob k)"
  "sp_Write (logPlan p) ob k d c = logged (WroteSystem ob d c) (sp_Write p ob k d c)"
  "sp_Delete (logPlan p) ob k = logged (DeletedSystem ob) (sp_Delete p ob k)"
  "sp_Acquired (logPlan p) = sp_Acquired p" "sp_Status (logPlan p) = sp_Status p"
  "sp_Before (logPlan p) = sp_Before p"
  "observeSystem (logPlan p) m ob = observeSystem p m ob"
  "readySystemObject F (logPlan p) m t1 t2 ob = readySystemObject F p m t1 t2 ob"
  by (simp_all add: logPlan_def observeSystem_def readySystemObject_def)

definition logSystemReconciler ::
  "('s, 'k, 'o) SystemReconciler \<Rightarrow> ('s \<times> 'o SystemEvent list, 'k, 'o) SystemReconciler" where
  "logSystemReconciler R =
     \<lparr>sr_Lib = sr_Lib R, sr_Float = sr_Float R,
      sr_Objects = logKube SObject (sr_Objects R),
      sr_Connections = logKube SConnection (sr_Connections R),
      sr_Now = silent (sr_Now R),
      sr_NewClient = map_option (logClientFor MadeSystemClient id) (sr_NewClient R),
      sr_ClientCache = map_option (logClientFor MadeSystemClient id) (sr_ClientCache R),
      sr_connectionClientFor = logClientFor MadeSystemClient id (sr_connectionClientFor R)\<rparr>"

lemma logSystemReconciler_sel [simp]:
  "sr_Lib (logSystemReconciler R) = sr_Lib R" "sr_Float (logSystemReconciler R) = sr_Float R"
  "sr_Objects (logSystemReconciler R) = logKube SObject (sr_Objects R)"
  "sr_Connections (logSystemReconciler R) = logKube SConnection (sr_Connections R)"
  "sr_Now (logSystemReconciler R) = silent (sr_Now R)"
  by (simp_all add: logSystemReconciler_def)

lemma wp_systemClientForI:
  assumes "\<And>e s'. Q (Inl e) (s', tr @ [MadeSystemClient connection (Some e)])"
    and "\<And>c s'. Q (Inr c) (s', tr @ [MadeSystemClient connection None])"
  shows "wp (systemClientFor (logSystemReconciler R) connection) Q (s, tr)"
  unfolding systemClientFor_def logSystemReconciler_def SystemReconciler.simps
  by (intro wp_clientForWithI assms(1)) (simp add: assms(2))

lemma systemClientFor_logged:
  "systemClientFor (logSystemReconciler R) connection
     = logClientFor MadeSystemClient id (systemClientFor R) connection"
  unfolding systemClientFor_def clientForWith_def logSystemReconciler_def SystemReconciler.simps
  by (auto simp: logClientFor_def split: option.splits)

text \<open>A call that always gives the same answer, whatever else it does.\<close>

definition answers :: "('s, 'b) state \<Rightarrow> 'b \<Rightarrow> bool" where
  "answers m a \<longleftrightarrow> (\<forall>s. fst (run_state m s) = a)"

lemma answers_ret [simp]: "answers (ret a) b \<longleftrightarrow> a = b"
  by (simp add: answers_def)

lemma wp_answersI: "answers m a \<Longrightarrow> (\<And>s'. Q a (s', tr @ [ev a])) \<Longrightarrow> wp (logged ev m) Q (s, tr)"
  by (auto simp: wp_def answers_def split: prod.splits) (metis fst_conv)

lemma wp_clientAnswersI:
  "answers (systemClientFor R conn) (Inr k) \<Longrightarrow> (\<And>s'. Q (Inr k) (s', tr @ [MadeSystemClient conn None]))
     \<Longrightarrow> wp (systemClientFor (logSystemReconciler R) conn) Q (s, tr)"
  unfolding systemClientFor_logged logClientFor_def wp_simps
  by (rule wp_answersI [where a = "Inr k"]) (simp_all add: errorOf_def)

definition system_run ::
  "('s, 'k, 'a ObjectMeta_scheme) SystemReconciler \<Rightarrow> ('a ObjectMeta_scheme \<Rightarrow> go_error option)
     \<Rightarrow> ('a ObjectMeta_scheme \<Rightarrow> ('s, 'k, 'a ObjectMeta_scheme, 'st) systemPlan)
     \<Rightarrow> NamespacedName \<Rightarrow> 's \<Rightarrow> outcome \<times> 's \<times> 'a ObjectMeta_scheme SystemEvent list" where
  "system_run R rejects planOf req s =
     run_state (reconcileSystemKind (logSystemReconciler R) rejects (\<lambda>ob. logPlan (planOf ob)) req) (s, [])"

definition system_trace ::
  "('s, 'k, 'a ObjectMeta_scheme) SystemReconciler \<Rightarrow> ('a ObjectMeta_scheme \<Rightarrow> go_error option)
     \<Rightarrow> ('a ObjectMeta_scheme \<Rightarrow> ('s, 'k, 'a ObjectMeta_scheme, 'st) systemPlan)
     \<Rightarrow> NamespacedName \<Rightarrow> 's \<Rightarrow> 'a ObjectMeta_scheme SystemEvent list" where
  "system_trace R rejects planOf req s = snd (snd (system_run R rejects planOf req s))"

section \<open>What justifies a call\<close>

definition readAs :: "'o SystemEvent list \<Rightarrow> 'o \<Rightarrow> bool" where
  "readAs pre orig \<longleftrightarrow> (\<exists>nn. SObject (GotObject nn (Inr orig)) \<in> set pre)"

text \<open>A live object over a ready connection, with the generation being reconciled on record.\<close>

definition activeSystem ::
  "KubeLib \<Rightarrow> ('s, 'k, 'a ObjectMeta_scheme, 'st) systemPlan \<Rightarrow> 'a ObjectMeta_scheme SystemEvent list
     \<Rightarrow> 'a ObjectMeta_scheme \<Rightarrow> bool" where
  "activeSystem L plan pre ob \<longleftrightarrow> (\<exists>cur.
     live L SObject SConnection (\<lambda>_. IsDelete (sp_DeletionPolicy plan)) pre cur \<and>
     ob = stampGeneration (sp_Status plan) cur)"

text \<open>The external object is this resource's: it was absent and may be created, or it was
  acquired before, or it may be adopted.\<close>

definition entitled ::
  "KubeLib \<Rightarrow> ('s, 'k, 'o, 'st) systemPlan \<Rightarrow> 'o SystemEvent list \<Rightarrow> 'o \<Rightarrow> bool \<Rightarrow> bool" where
  "entitled L plan pre ob created \<longleftrightarrow>
     (if created then AllowsCreation (sp_CreationPolicy plan) \<and>
        (\<exists>err. ReadSystem ob (Inl err) \<in> set pre \<and> isNotFound L err)
      else (sp_Acquired plan ob \<or> AllowsAdoption (sp_CreationPolicy plan)) \<and>
        (\<exists>m. ReadSystem ob (Inr m) \<in> set pre))"

definition differs ::
  "FloatLib \<Rightarrow> 'o SystemEvent list \<Rightarrow> 'o \<Rightarrow> anymap \<Rightarrow> bool" where
  "differs F pre ob desired \<longleftrightarrow> (\<exists>m. ReadSystem ob (Inr m) \<in> set pre \<and>
     (case m of None \<Rightarrow> True | Some x \<Rightarrow> \<not> systemDesiredFieldsMatch F desired x))"

text \<open>The observation either agreed with the desired fields or followed an accepted write of them.\<close>

definition settledSystem ::
  "FloatLib \<Rightarrow> ('s, 'k, 'o, 'st) systemPlan \<Rightarrow> 'o SystemEvent list \<Rightarrow> 'o \<Rightarrow> anymap \<Rightarrow> bool" where
  "settledSystem F plan pre ob m \<longleftrightarrow> (\<exists>desired. sp_Desired plan ob = Inr desired \<and>
     ReadSystem ob (Inr (Some m)) \<in> set pre \<and>
     (systemDesiredFieldsMatch F desired m \<or> (\<exists>c. WroteSystem ob desired c None \<in> set pre)))"

fun deletionConfirmed :: "KubeLib \<Rightarrow> 'o SystemEvent \<Rightarrow> bool" where
  "deletionConfirmed L (DeletedSystem ob d) = confirmedGone L d"
| "deletionConfirmed L e = False"

definition system_write_ok ::
  "KubeLib \<Rightarrow> FloatLib \<Rightarrow> ('a ObjectMeta_scheme \<Rightarrow> ('s, 'k, 'a ObjectMeta_scheme, 'st) systemPlan)
     \<Rightarrow> 'a ObjectMeta_scheme SystemEvent list \<Rightarrow> 'a ObjectMeta_scheme SystemEvent \<Rightarrow> bool" where
  "system_write_ok L F planOf pre e = (case e of
      WroteSystem ob desired created r \<Rightarrow>
        (\<exists>orig. readAs pre orig \<and> activeSystem L (planOf orig) pre ob \<and>
           sp_Desired (planOf orig) ob = Inr desired \<and> entitled L (planOf orig) pre ob created \<and>
           (\<not> created \<longrightarrow> differs F pre ob desired) \<and>
           (\<forall>ob' d c r'. WroteSystem ob' d c r' \<notin> set pre))
    | _ \<Rightarrow> True)"

definition system_delete_ok ::
  "KubeLib \<Rightarrow> ('a ObjectMeta_scheme \<Rightarrow> ('s, 'k, 'a ObjectMeta_scheme, 'st) systemPlan)
     \<Rightarrow> 'a ObjectMeta_scheme SystemEvent list \<Rightarrow> 'a ObjectMeta_scheme SystemEvent \<Rightarrow> bool" where
  "system_delete_ok L planOf pre e = (case e of
      DeletedSystem ob r \<Rightarrow>
        (\<exists>orig. readAs pre orig \<and> seen SObject pre ob \<and> \<not> notDeleted ob \<and>
           sp_DeletionPolicy (planOf orig) = DeletionPolicyDelete)
    | SObject (UpdatedObject ob r) \<Rightarrow>
        (\<exists>orig. readAs pre orig \<and>
           finalizerWrite L SObject (\<lambda>_. IsDelete (sp_DeletionPolicy (planOf orig)))
             (\<lambda>_. sp_DeletionPolicy (planOf orig) \<noteq> DeletionPolicyDelete \<or> list_ex (deletionConfirmed L) pre) pre ob)
    | _ \<Rightarrow> True)"

definition system_ready_ok ::
  "KubeLib \<Rightarrow> FloatLib \<Rightarrow> ('a ObjectMeta_scheme, 'st) StatusAccess
     \<Rightarrow> ('a ObjectMeta_scheme \<Rightarrow> ('s, 'k, 'a ObjectMeta_scheme, 'st) systemPlan)
     \<Rightarrow> 'a ObjectMeta_scheme SystemEvent list \<Rightarrow> 'a ObjectMeta_scheme SystemEvent \<Rightarrow> bool" where
  "system_ready_ok L F acc planOf pre e = (case e of
      SObject (UpdatedStatus ob r) \<Rightarrow> readyTrue (sa_Conditions acc (sa_Status acc ob)) \<longrightarrow>
        (\<exists>orig cur m created t1 t2. readAs pre orig \<and> activeSystem L (planOf orig) pre cur \<and>
           entitled L (planOf orig) pre cur created \<and> settledSystem F (planOf orig) pre cur m \<and>
           ob = readySystemObject F (planOf orig) m t1 t2 cur)
    | _ \<Rightarrow> True)"

definition system_justified ::
  "KubeLib \<Rightarrow> FloatLib \<Rightarrow> ('a ObjectMeta_scheme, 'st) StatusAccess
     \<Rightarrow> ('a ObjectMeta_scheme \<Rightarrow> ('s, 'k, 'a ObjectMeta_scheme, 'st) systemPlan)
     \<Rightarrow> 'a ObjectMeta_scheme SystemEvent list \<Rightarrow> 'a ObjectMeta_scheme SystemEvent \<Rightarrow> bool" where
  "system_justified L F acc planOf pre e \<longleftrightarrow> system_write_ok L F planOf pre e \<and>
     system_delete_ok L planOf pre e \<and> system_ready_ok L F acc planOf pre e"

text \<open>Facts about the past survive later calls.\<close>

lemma readAs_mono [simp]: "readAs pre orig \<Longrightarrow> readAs (pre @ es) orig"
  by (auto simp: readAs_def)

lemma activeSystem_mono [simp]: "activeSystem L plan pre ob \<Longrightarrow> activeSystem L plan (pre @ es) ob"
  unfolding activeSystem_def by (blast intro: live_mono)

lemma entitled_mono [simp]: "entitled L plan pre ob c \<Longrightarrow> entitled L plan (pre @ es) ob c"
  by (auto simp: entitled_def split: if_splits)

lemma system_justified_reads [simp]:
  "system_justified L F acc planOf pre (SObject (GotObject nn r))"
  "system_justified L F acc planOf pre (SConnection k)"
  "system_justified L F acc planOf pre (MadeSystemClient c e)"
  "system_justified L F acc planOf pre (ReadSystem ob g)"
  by (simp_all add: system_justified_def system_write_ok_def system_delete_ok_def system_ready_ok_def)

lemma system_justified_notReady:
  "\<not> readyTrue (sa_Conditions acc (sa_Status acc ob)) \<Longrightarrow>
     system_justified L F acc planOf pre (SObject (UpdatedStatus ob r))"
  by (simp add: system_justified_def system_write_ok_def system_delete_ok_def system_ready_ok_def)

lemma system_justified_Write:
  "readAs pre orig \<Longrightarrow> activeSystem L (planOf orig) pre ob \<Longrightarrow> sp_Desired (planOf orig) ob = Inr desired
     \<Longrightarrow> entitled L (planOf orig) pre ob created \<Longrightarrow> (\<not> created \<Longrightarrow> differs F pre ob desired)
     \<Longrightarrow> \<forall>ob' d c r'. WroteSystem ob' d c r' \<notin> set pre
     \<Longrightarrow> system_justified L F acc planOf pre (WroteSystem ob desired created r)"
  by (auto simp: system_justified_def system_write_ok_def system_delete_ok_def system_ready_ok_def)

lemma system_justified_Delete:
  "readAs pre orig \<Longrightarrow> seen SObject pre ob \<Longrightarrow> \<not> notDeleted ob
     \<Longrightarrow> sp_DeletionPolicy (planOf orig) = DeletionPolicyDelete
     \<Longrightarrow> system_justified L F acc planOf pre (DeletedSystem ob r)"
  by (auto simp: system_justified_def system_write_ok_def system_delete_ok_def system_ready_ok_def)

lemma system_justified_addFinalizer:
  assumes "readAs pre orig" "seen SObject pre ob" "notDeleted ob" "IsDelete (sp_DeletionPolicy (planOf orig))"
  shows "system_justified L F acc planOf pre (SObject (UpdatedObject
           (ob\<lparr>om_Finalizers := AddFinalizer L (om_Finalizers ob) finalizerName\<rparr>) r))"
  using assms finalizerWrite_add [of SObject pre ob "\<lambda>_. IsDelete (sp_DeletionPolicy (planOf orig))" L]
  by (auto simp: system_justified_def system_write_ok_def system_delete_ok_def system_ready_ok_def)

lemma system_justified_dropFinalizer:
  assumes "readAs pre orig" "seen SObject pre ob" "\<not> notDeleted ob" "fs = om_Finalizers ob"
    and "sp_DeletionPolicy (planOf orig) \<noteq> DeletionPolicyDelete \<or> list_ex (deletionConfirmed L) pre"
  shows "system_justified L F acc planOf pre (SObject (UpdatedObject
           (ob\<lparr>om_Finalizers := RemoveFinalizer L fs finalizerName\<rparr>) r))"
  using assms finalizerWrite_remove [of SObject pre ob fs "\<lambda>_. sp_DeletionPolicy (planOf orig) \<noteq> DeletionPolicyDelete
      \<or> list_ex (deletionConfirmed L) pre" L "\<lambda>_. IsDelete (sp_DeletionPolicy (planOf orig))" ob]
  by (auto simp: system_justified_def system_write_ok_def system_delete_ok_def system_ready_ok_def)

lemma system_justified_Ready:
  "readAs pre orig \<Longrightarrow> activeSystem L (planOf orig) pre cur \<Longrightarrow> entitled L (planOf orig) pre cur created
     \<Longrightarrow> settledSystem F (planOf orig) pre cur m \<Longrightarrow> ob = readySystemObject F (planOf orig) m t1 t2 cur
     \<Longrightarrow> system_justified L F acc planOf pre (SObject (UpdatedStatus ob r))"
  unfolding system_justified_def system_write_ok_def system_delete_ok_def system_ready_ok_def
  by (simp only: SystemEvent.case KubeEvent.case) blast

section \<open>The contract of a kind, and every run of it\<close>

text \<open>
  The plan works on the object's own status, keeps the configuration hash and the conditions
  apart, never touches the metadata, and observing the same answer again changes nothing.
\<close>

locale system_kind = status_object acc
  for acc :: "('a ObjectMeta_scheme, 'st) StatusAccess" +
  fixes planOf :: "'a ObjectMeta_scheme \<Rightarrow> ('s, 'k, 'a ObjectMeta_scheme, 'st) systemPlan"
  assumes plan_status: "sp_Status (planOf orig) = acc"
    and plan_before: "sp_Before (planOf orig) = sa_Status acc orig"
    and hash_set: "sp_ConfigHash (planOf orig) (sp_setConfigHash (planOf orig) h st) = h"
    and hash_conds: "sp_ConfigHash (planOf orig) (sa_setConditions acc cs st) = sp_ConfigHash (planOf orig) st"
    and conds_hash: "sa_Conditions acc (sp_setConfigHash (planOf orig) h st) = sa_Conditions acc st"
    and gen_hash: "sa_ObservedGeneration acc (sp_setConfigHash (planOf orig) h st) = sa_ObservedGeneration acc st"
    and observe_meta: "ObjectMeta.truncate (observeSystem (planOf orig) m ob) = ObjectMeta.truncate ob"
    and observe_gen: "sa_ObservedGeneration acc (sa_Status acc (observeSystem (planOf orig) m ob))
          = sa_ObservedGeneration acc (sa_Status acc ob)"
    and observe_settled: "readySystemObject F (planOf orig) m t1 t2
          (readySystemObject F (planOf orig) m t3 t4 ob) = readySystemObject F (planOf orig) m t3 t4 ob"
begin

abbreviation justified :: "KubeLib \<Rightarrow> FloatLib \<Rightarrow> 'a ObjectMeta_scheme SystemEvent list \<Rightarrow> bool" where
  "justified L F tr \<equiv> guarded (system_justified L F acc planOf) tr"

lemma systemFailure_justified:
  assumes "justified L F tr"
  shows "wp (systemFailure (logSystemReconciler R) (logPlan (planOf orig)) ob reason err)
           (\<lambda>_ (s', tr'). justified L F tr') (s, tr)"
  using assms unfolding systemFailure_def Let_def wp_simps logSystemReconciler_sel logPlan_sel plan_status
  by (intro wp_silentI wp_endWithStatusI)
     (simp_all add: guarded_snoc system_justified_notReady get_set conds_set
        has_condition_notReady [OF markError_Ready])

lemma systemDependencyFailure_justified:
  assumes "justified L F tr"
  shows "wp (systemDependencyFailure (logSystemReconciler R) (logPlan (planOf orig)) ob err)
           (\<lambda>_ (s', tr'). justified L F tr') (s, tr)"
  using assms unfolding systemDependencyFailure_def Let_def wp_simps logSystemReconciler_sel logPlan_sel plan_status
  by (intro wp_silentI wp_endWithStatusI)
     (simp_all add: guarded_snoc system_justified_notReady get_set conds_set
        has_condition_notReady [OF markStalled_both(1)])

lemma system_cleanupFailure_justified:
  assumes "justified L F tr"
  shows "wp (recordCleanupFailure acc (silent now) (k_StatusUpdate (logKube SObject K)) ob before reason err)
           (\<lambda>_ (s', tr'). justified L F tr') (s, tr)"
  using assms by (rule wp_cleanupFailure_guarded) (rule system_justified_notReady)

lemma finishSystem_justified:
  assumes "justified (sr_Lib R) (sr_Float R) tr" "readAs tr orig"
    and "activeSystem (sr_Lib R) (planOf orig) tr ob" "entitled (sr_Lib R) (planOf orig) tr ob created"
    and "\<And>m. observed = Some m \<Longrightarrow> settledSystem (sr_Float R) (planOf orig) tr ob m"
  shows "wp (finishSystem (logSystemReconciler R) (logPlan (planOf orig)) ob observed)
           (\<lambda>_ (s', tr'). justified (sr_Lib R) (sr_Float R) tr') (s, tr)"
proof (cases observed)
  case None
  then show ?thesis
    unfolding finishSystem_def using assms(1) by (simp add: systemFailure_justified)
next
  case (Some m)
  have ready: "system_justified (sr_Lib R) (sr_Float R) acc planOf tr
     (SObject (UpdatedStatus (readySystemObject (sr_Float R) (planOf orig) m t1 t2 ob) r))" for t1 t2 r
    by (rule system_justified_Ready [where orig = orig and cur = ob and created = created and m = m and planOf = planOf])
       (use assms(2-4) assms(5) [OF Some] in simp_all)
  show ?thesis
    using assms(1) ready unfolding finishSystem_def Some option.case Let_def wp_simps logSystemReconciler_sel logPlan_sel
    by (intro wp_silentI wp_endWithStatusI) (simp_all add: guarded_snoc)
qed

lemma applySystem_justified:
  assumes "justified (sr_Lib R) (sr_Float R) tr" "readAs tr orig"
    and "activeSystem (sr_Lib R) (planOf orig) tr ob" "entitled (sr_Lib R) (planOf orig) tr ob created"
    and "\<not> created \<Longrightarrow> ReadSystem ob (Inr observed) \<in> set tr"
    and "\<forall>ob' d c r. WroteSystem ob' d c r \<notin> set tr"
  shows "wp (applySystem (logSystemReconciler R) (logPlan (planOf orig)) k ob observed created)
           (\<lambda>_ (s', tr'). justified (sr_Lib R) (sr_Float R) tr') (s, tr)"
proof (cases "sp_Desired (planOf orig) ob")
  case (Inl err)
  then show ?thesis
    unfolding applySystem_def using assms(1) by (simp add: systemFailure_justified)
next
  case (Inr desired)
  let ?F = "sr_Float R" and ?L = "sr_Lib R"
  let ?writes = "created \<or> (case observed of None \<Rightarrow> True | Some x \<Rightarrow> \<not> systemDesiredFieldsMatch ?F desired x)"
  show ?thesis
  proof (cases ?writes)
    case False
    then have "settledSystem ?F (planOf orig) tr ob m" if "observed = Some m" for m
      using that Inr assms(5) by (auto simp: settledSystem_def)
    with False Inr assms(1-4) show ?thesis
      unfolding applySystem_def logSystemReconciler_sel logPlan_sel by (auto intro: finishSystem_justified)
  next
    case True
    have diff: "differs ?F tr ob desired" if "\<not> created"
      using that True assms(5) by (auto simp: differs_def)
    have written: "system_justified ?L ?F acc planOf tr (WroteSystem ob desired created w)" for w
      by (rule system_justified_Write [where orig = orig and planOf = planOf])
         (use assms(2-4,6) Inr diff in simp_all)
    let ?tr = "\<lambda>w. tr @ [WroteSystem ob desired created w]"
    have J: "justified ?L ?F (?tr w)" for w using assms(1) written by (simp add: guarded_snoc)
    have J2: "justified ?L ?F (?tr w @ [ReadSystem ob g])" for w g
      using J [of w] by (simp add: guarded_snoc del: append_assoc)
    have fin: "wp (finishSystem (logSystemReconciler R) (logPlan (planOf orig)) ob x)
           (\<lambda>_ (s', tr'). justified ?L ?F tr') (s', ?tr None @ [ReadSystem ob (Inr x)])" for x s'
      by (rule finishSystem_justified [where created = created, OF J2])
         (use assms(2-4) Inr in \<open>auto simp: settledSystem_def\<close>)
    show ?thesis
      using True Inr J J2 fin unfolding applySystem_def logSystemReconciler_sel logPlan_sel
      by (auto simp: wp_simps split: option.splits sum.splits
          intro!: wp_loggedI systemFailure_justified)
  qed
qed

lemma acquireSystem_justified:
  assumes "justified (sr_Lib R) (sr_Float R) tr" "readAs tr orig" "activeSystem (sr_Lib R) (planOf orig) tr ob"
    and "\<forall>ob' d c r. WroteSystem ob' d c r \<notin> set tr"
  shows "wp (acquireSystem (logSystemReconciler R) (logPlan (planOf orig)) k ob)
           (\<lambda>_ (s', tr'). justified (sr_Lib R) (sr_Float R) tr') (s, tr)"
proof -
  let ?tr = "\<lambda>g. tr @ [ReadSystem ob g]"
  have J: "justified (sr_Lib R) (sr_Float R) (?tr g)" for g using assms(1) by (simp add: guarded_snoc)
  have ent: "entitled (sr_Lib R) (planOf orig) (?tr (Inl e)) ob True"
    if "isNotFound (sr_Lib R) e" "AllowsCreation (sp_CreationPolicy (planOf orig))" for e
    using that by (auto simp: entitled_def)
  have ent': "entitled (sr_Lib R) (planOf orig) (?tr (Inr x)) ob False"
    if "sp_Acquired (planOf orig) ob \<or> AllowsAdoption (sp_CreationPolicy (planOf orig))" for x
    using that by (auto simp: entitled_def)
  show ?thesis
    unfolding acquireSystem_def wp_simps logPlan_sel logSystemReconciler_sel
    by (rule wp_loggedI)
       (use J ent ent' assms in \<open>auto split: sum.splits intro!: systemFailure_justified applySystem_justified\<close>)
qed

lemma reconcileSystemActive_justified:
  assumes "justified (sr_Lib R) (sr_Float R) tr" "readAs tr orig" "seen SObject tr ob" "notDeleted ob"
    and "IsDelete (sp_DeletionPolicy (planOf orig)) \<longrightarrow> held (sr_Lib R) SObject tr ob"
    and "\<forall>ob' d c r. WroteSystem ob' d c r \<notin> set tr"
  shows "wp (reconcileSystemActive (logSystemReconciler R) (logPlan (planOf orig)) ob)
           (\<lambda>_ (s', tr'). justified (sr_Lib R) (sr_Float R) tr') (s, tr)"
proof -
  let ?L = "sr_Lib R"
  have active: "activeSystem ?L (planOf orig) (tr @ [SConnection (GotObject nn (Inr k)), MadeSystemClient k e])
      (stampGeneration acc ob)"
    if "IsStatusConditionTrue ?L (cnst_Conditions (cn_Status k)) conditionReady" for nn k e
    unfolding activeSystem_def plan_status
    by (rule exI [where x = ob]) (use assms that in \<open>auto simp: live_def intro: connReady_got [where conn = k and nn = nn]\<close>)
  have J: "justified ?L (sr_Float R) (tr @ [SConnection c])"
    "justified ?L (sr_Float R) (tr @ [SConnection c, MadeSystemClient k e])" for c k e
    using assms(1) by (simp_all add: trace_simps)
  show ?thesis
    unfolding reconcileSystemActive_def Let_def wp_simps resolveConnection_def logSystemReconciler_sel
      logPlan_sel logKube_sel plan_status
    using J assms active
    by (auto split: sum.splits
        intro!: wp_loggedI wp_systemClientForI systemDependencyFailure_justified acquireSystem_justified)
qed

lemma reconcileSystemDeletion_justified:
  assumes "justified (sr_Lib R) (sr_Float R) tr" "readAs tr orig" "seen SObject tr ob" "\<not> notDeleted ob"
  shows "wp (reconcileSystemDeletion (logSystemReconciler R) (logPlan (planOf orig)) ob)
           (\<lambda>_ (s', tr'). justified (sr_Lib R) (sr_Float R) tr') (s, tr)"
  unfolding reconcileSystemDeletion_def Let_def wp_simps resolveConnection_def logSystemReconciler_sel
    logPlan_sel logKube_sel plan_status
  using assms
  by (auto split: sum.splits option.splits simp: wp_simps trace_simps confirmedGone_def
      intro!: wp_removeFinalizerI wp_loggedI wp_systemClientForI system_cleanupFailure_justified
        system_justified_dropFinalizer [where orig = orig] system_justified_Delete [where orig = orig])

lemma reconcileSystemKind_justified:
  "wp (reconcileSystemKind (logSystemReconciler R) rejects (\<lambda>ob. logPlan (planOf ob)) req)
     (\<lambda>_ (s', tr'). justified (sr_Lib R) (sr_Float R) tr') (s, [])"
  unfolding reconcileSystemKind_def withObject_def reconcileSystemNamed_def wp_simps
    logSystemReconciler_sel logPlan_sel logKube_sel
  by (rule wp_loggedI)
     (auto split: sum.splits option.splits simp: wp_simps guarded_def
      intro!: wp_ensureFinalizerI reconcileSystemDeletion_justified reconcileSystemActive_justified
        system_justified_addFinalizer
      intro: seen_got seen_updated held_contains held_added simp: readAs_def)

lemma ready_configHash:
  "sp_ConfigHash (planOf orig) (sa_Status acc (readySystemObject F (planOf orig) m t1 t2 ob)) = systemConfigHash F m"
  by (simp add: readySystemObject_def plan_status Let_def get_set hash_conds hash_set)

lemma stampGeneration_id:
  "sa_ObservedGeneration acc (sa_Status acc ob) = om_Generation ob \<Longrightarrow> stampGeneration acc ob = ob"
  unfolding stampGeneration_def by (metis gen_id set_get)

text \<open>
  A resource whose status records the present answer of OpenBao, which agrees with the desired
  fields, is left alone: the run only reads.
\<close>

lemma settled_stable:
  assumes accepted: "rejects ob = None"
    and obj: "answers (k_Get (sr_Objects R) req) (Inr ob)"
    and conn: "answers (k_Get (sr_Connections R) (om_Namespace ob, connref_Name (sp_ConnectionRef (planOf ob)))) (Inr conn)"
    and ready: "IsStatusConditionTrue (sr_Lib R) (cnst_Conditions (cn_Status conn)) conditionReady"
    and client: "answers (systemClientFor R conn) (Inr k)"
    and get: "answers (sp_Get (planOf ob) ob k) (Inr (Some m))"
    and alive: "notDeleted ob"
    and fin: "IsDelete (sp_DeletionPolicy (planOf ob)) \<longrightarrow> ContainsFinalizer (sr_Lib R) (om_Finalizers ob) finalizerName"
    and recorded: "ob = readySystemObject (sr_Float R) (planOf ob) m t1 t2 cur"
      "sa_ObservedGeneration acc (sa_Status acc ob) = om_Generation ob"
    and acquired: "sp_Acquired (planOf ob) ob \<or> AllowsAdoption (sp_CreationPolicy (planOf ob))"
    and desired: "sp_Desired (planOf ob) ob = Inr d" "systemDesiredFieldsMatch (sr_Float R) d m"
  shows "system_run R rejects planOf req s =
    ((requeueIn (sp_DriftInterval (planOf ob)), None), fst (snd (system_run R rejects planOf req s)),
     [SObject (GotObject req (Inr ob)),
      SConnection (GotObject (om_Namespace ob, connref_Name (sp_ConnectionRef (planOf ob))) (Inr conn)),
      MadeSystemClient conn None, ReadSystem ob (Inr (Some m))])"
proof -
  let ?P = "planOf ob" and ?F = "sr_Float R"
  let ?nn = "(om_Namespace ob, connref_Name (sp_ConnectionRef ?P))"
  let ?tr = "[SObject (GotObject req (Inr ob)), SConnection (GotObject ?nn (Inr conn)), MadeSystemClient conn None,
    ReadSystem ob (Inr (Some m))]"
  let ?Q = "\<lambda>out st. out = (requeueIn (sp_DriftInterval ?P), None) \<and> snd st = ?tr"
  have again: "readySystemObject ?F ?P m a b ob = ob" for a b
    by (metis observe_settled recorded(1))
  have finish: "wp (finishSystem (logSystemReconciler R) (logPlan ?P) ob (Some m)) ?Q (s', ?tr)" for s'
    unfolding finishSystem_def option.case Let_def wp_simps logSystemReconciler_sel logPlan_sel again plan_status plan_before
    by (intro wp_silentI wp_endWithStatusI) simp_all
  have "wp (reconcileSystemKind (logSystemReconciler R) rejects (\<lambda>ob. logPlan (planOf ob)) req) ?Q (s, [])"
    unfolding reconcileSystemKind_def withObject_def reconcileSystemNamed_def wp_simps
      logSystemReconciler_sel logPlan_sel logKube_sel
    apply (rule wp_answersI [OF obj])
    using accepted alive fin acquired desired ready
    apply (simp add: wp_simps ensureFinalizer_def reconcileSystemActive_def plan_status Let_def
        stampGeneration_id [OF recorded(2)] resolveConnection_def)
    by (auto intro!: wp_answersI [OF conn] wp_clientAnswersI [OF client] wp_answersI [OF get] finish
        simp: acquireSystem_def applySystem_def wp_simps)
  then show ?thesis
    by (auto simp: system_run_def wp_run split_beta prod_eq_iff)
qed

lemma trace_justified:
  "guarded (system_justified (sr_Lib R) (sr_Float R) acc planOf) (system_trace R rejects planOf req s)"
  using reconcileSystemKind_justified [of R rejects req s]
  by (simp add: system_trace_def system_run_def wp_run split_beta)

lemma writes_ok: "guarded (system_write_ok (sr_Lib R) (sr_Float R) planOf) (system_trace R rejects planOf req s)"
  by (rule guarded_mono [OF trace_justified]) (simp add: system_justified_def)

lemma deletes_ok: "guarded (system_delete_ok (sr_Lib R) planOf) (system_trace R rejects planOf req s)"
  by (rule guarded_mono [OF trace_justified]) (simp add: system_justified_def)

lemma ready_ok: "guarded (system_ready_ok (sr_Lib R) (sr_Float R) acc planOf) (system_trace R rejects planOf req s)"
  by (rule guarded_mono [OF trace_justified]) (simp add: system_justified_def)

end

end
