(* ===== verification/SystemApi.thy ===== *)
theory SystemApi
  imports Api
begin

text \<open>
  The custom resources of \<^verbatim>\<open>openbaosystem_types.go\<close> and
  \<^verbatim>\<open>openbaoadditional_types.go\<close> that the system engine reconciles, field for
  field, with the conventions of \<open>Api\<close>.
\<close>

section \<open>openbaosystem\_types.go\<close>

record OpenBaoMountSpec =
  ms_ConnectionRef :: OpenBaoConnectionReference
  ms_Path :: string
  ms_Type :: string
  ms_Description :: string
  ms_CreationPolicy :: CreationPolicy
  ms_DeletionPolicy :: DeletionPolicy
  ms_DriftDetectionInterval :: "int option"
  ms_Local :: "bool option"
  ms_SealWrap :: "bool option"
  ms_ExternalEntropyAccess :: "bool option"
  ms_PluginName :: string
  ms_PluginVersion :: string
  ms_Options :: strmap
  ms_Config :: strmap
  ms_DefaultLeaseTTL :: "int option"
  ms_MaxLeaseTTL :: "int option"
  ms_ListingVisibility :: string
  ms_TokenType :: string
  ms_PassthroughRequestHeaders :: "string slice"
  ms_AllowedResponseHeaders :: "string slice"

record OpenBaoMountStatus =
  mt_Path :: string
  mt_Accessor :: string
  mt_Type :: string
  mt_ConfigHash :: string
  mt_ObservedGeneration :: int
  mt_Conditions :: "Condition list"

text \<open>The spec and status of a mount are embedded in those of the two kinds of mount.\<close>

record OpenBaoAuthMethod = ObjectMeta +
  am_Spec :: OpenBaoMountSpec
  am_Status :: OpenBaoMountStatus

record OpenBaoSecretEngine = ObjectMeta +
  se_Spec :: OpenBaoMountSpec
  se_Status :: OpenBaoMountStatus

record OpenBaoNamespaceSpec =
  nas_ConnectionRef :: OpenBaoConnectionReference
  nas_Path :: string
  nas_CustomMetadata :: strmap
  nas_CreationPolicy :: CreationPolicy
  nas_DeletionPolicy :: DeletionPolicy
  nas_DriftDetectionInterval :: "int option"

record OpenBaoNamespaceStatus =
  nat_Path :: string
  nat_ID :: string
  nat_ConfigHash :: string
  nat_ObservedGeneration :: int
  nat_Conditions :: "Condition list"

record OpenBaoNamespace = ObjectMeta +
  nao_Spec :: OpenBaoNamespaceSpec
  nao_Status :: OpenBaoNamespaceStatus

record OpenBaoAuditDeviceSpec =
  ads_ConnectionRef :: OpenBaoConnectionReference
  ads_Path :: string
  ads_Type :: string
  ads_Description :: string
  ads_Local :: "bool option"
  ads_Options :: strmap
  ads_CreationPolicy :: CreationPolicy
  ads_DeletionPolicy :: DeletionPolicy
  ads_DriftDetectionInterval :: "int option"

record OpenBaoAuditDeviceStatus =
  adt_Path :: string
  adt_Type :: string
  adt_ConfigHash :: string
  adt_ObservedGeneration :: int
  adt_Conditions :: "Condition list"

record OpenBaoAuditDevice = ObjectMeta +
  ado_Spec :: OpenBaoAuditDeviceSpec
  ado_Status :: OpenBaoAuditDeviceStatus

record OpenBaoRateLimitQuotaSpec =
  rqs_ConnectionRef :: OpenBaoConnectionReference
  rqs_Type :: string
  rqs_Path :: string
  rqs_Role :: string
  rqs_Rate :: string
  rqs_Interval :: "int option"
  rqs_BlockInterval :: "int option"
  rqs_Inheritable :: "bool option"
  rqs_CreationPolicy :: CreationPolicy
  rqs_DeletionPolicy :: DeletionPolicy
  rqs_DriftDetectionInterval :: "int option"

record OpenBaoRateLimitQuotaStatus =
  rqt_Name :: string
  rqt_ConfigHash :: string
  rqt_ObservedGeneration :: int
  rqt_Conditions :: "Condition list"

record OpenBaoRateLimitQuota = ObjectMeta +
  rqo_Spec :: OpenBaoRateLimitQuotaSpec
  rqo_Status :: OpenBaoRateLimitQuotaStatus

record OpenBaoWorkflowSpec =
  wfs_ConnectionRef :: OpenBaoConnectionReference
  wfs_Path :: string
  wfs_Workflow :: string
  wfs_Description :: string
  wfs_AllowUnauthenticated :: "bool option"
  wfs_CAS :: "int option"
  wfs_CASRequired :: "bool option"
  wfs_CreationPolicy :: CreationPolicy
  wfs_DeletionPolicy :: DeletionPolicy
  wfs_DriftDetectionInterval :: "int option"

record OpenBaoWorkflowStatus =
  wft_Path :: string
  wft_Version :: int
  wft_ConfigHash :: string
  wft_ObservedGeneration :: int
  wft_Conditions :: "Condition list"

record OpenBaoWorkflow = ObjectMeta +
  wfo_Spec :: OpenBaoWorkflowSpec
  wfo_Status :: OpenBaoWorkflowStatus

record OpenBaoPluginSpec =
  pls_ConnectionRef :: OpenBaoConnectionReference
  pls_Name :: string
  pls_Type :: string
  pls_Command :: string
  pls_Args :: "string slice"
  pls_Env :: "string slice"
  pls_SHA256 :: string
  pls_Version :: string
  pls_OCI :: "bool option"
  pls_CreationPolicy :: CreationPolicy
  pls_DeletionPolicy :: DeletionPolicy
  pls_DriftDetectionInterval :: "int option"

record OpenBaoPluginStatus =
  plt_Name :: string
  plt_Type :: string
  plt_ConfigHash :: string
  plt_ObservedGeneration :: int
  plt_Conditions :: "Condition list"

record OpenBaoPlugin = ObjectMeta +
  plo_Spec :: OpenBaoPluginSpec
  plo_Status :: OpenBaoPluginStatus

section \<open>openbaoadditional\_types.go\<close>

record OpenBaoMFALoginEnforcementSpec =
  mes_ConnectionRef :: OpenBaoConnectionReference
  mes_Name :: string
  mes_AuthMethodAccessors :: "string slice"
  mes_AuthMethodTypes :: "string slice"
  mes_IdentityEntityIDs :: "string slice"
  mes_IdentityGroupIDs :: "string slice"
  mes_MFAMethodIDs :: "string slice"
  mes_CreationPolicy :: CreationPolicy
  mes_DeletionPolicy :: DeletionPolicy
  mes_DriftDetectionInterval :: "int option"

record OpenBaoMFALoginEnforcementStatus =
  met_Name :: string
  met_ConfigHash :: string
  met_ObservedGeneration :: int
  met_Conditions :: "Condition list"

record OpenBaoMFALoginEnforcement = ObjectMeta +
  meo_Spec :: OpenBaoMFALoginEnforcementSpec
  meo_Status :: OpenBaoMFALoginEnforcementStatus

record OpenBaoCORSConfigurationSpec =
  cos_ConnectionRef :: OpenBaoConnectionReference
  cos_Enable :: "bool option"
  cos_AllowCredentials :: "bool option"
  cos_AllowedHeaders :: "string slice"
  cos_AllowedOrigins :: "string slice"
  cos_CreationPolicy :: CreationPolicy
  cos_DeletionPolicy :: DeletionPolicy
  cos_DriftDetectionInterval :: "int option"

record OpenBaoCORSConfigurationStatus =
  cot_ConfigHash :: string
  cot_ObservedGeneration :: int
  cot_Conditions :: "Condition list"

record OpenBaoCORSConfiguration = ObjectMeta +
  coo_Spec :: OpenBaoCORSConfigurationSpec
  coo_Status :: OpenBaoCORSConfigurationStatus

record OpenBaoAuditRequestHeaderSpec =
  ahs_ConnectionRef :: OpenBaoConnectionReference
  ahs_Header :: string
  ahs_HMAC :: "bool option"
  ahs_CreationPolicy :: CreationPolicy
  ahs_DeletionPolicy :: DeletionPolicy
  ahs_DriftDetectionInterval :: "int option"

record OpenBaoAuditRequestHeaderStatus =
  aht_Header :: string
  aht_ConfigHash :: string
  aht_ObservedGeneration :: int
  aht_Conditions :: "Condition list"

record OpenBaoAuditRequestHeader = ObjectMeta +
  aho_Spec :: OpenBaoAuditRequestHeaderSpec
  aho_Status :: OpenBaoAuditRequestHeaderStatus

record OpenBaoUIHeaderSpec =
  uhs_ConnectionRef :: OpenBaoConnectionReference
  uhs_Header :: string
  uhs_Values :: "string slice"
  uhs_Multivalue :: "bool option"
  uhs_CreationPolicy :: CreationPolicy
  uhs_DeletionPolicy :: DeletionPolicy
  uhs_DriftDetectionInterval :: "int option"

record OpenBaoUIHeaderStatus =
  uht_Header :: string
  uht_ConfigHash :: string
  uht_ObservedGeneration :: int
  uht_Conditions :: "Condition list"

record OpenBaoUIHeader = ObjectMeta +
  uho_Spec :: OpenBaoUIHeaderSpec
  uho_Status :: OpenBaoUIHeaderStatus

record OpenBaoRateLimitQuotaConfigurationSpec =
  qcs_ConnectionRef :: OpenBaoConnectionReference
  qcs_EnableRateLimitAuditLogging :: "bool option"
  qcs_EnableRateLimitResponseHeaders :: "bool option"
  qcs_RateLimitExemptPaths :: "string slice"
  qcs_CreationPolicy :: CreationPolicy
  qcs_DeletionPolicy :: DeletionPolicy
  qcs_DriftDetectionInterval :: "int option"

record OpenBaoRateLimitQuotaConfigurationStatus =
  qct_ConfigHash :: string
  qct_ObservedGeneration :: int
  qct_Conditions :: "Condition list"

record OpenBaoRateLimitQuotaConfiguration = ObjectMeta +
  qco_Spec :: OpenBaoRateLimitQuotaConfigurationSpec
  qco_Status :: OpenBaoRateLimitQuotaConfigurationStatus

record OpenBaoLoggerSpec =
  los_ConnectionRef :: OpenBaoConnectionReference
  los_Name :: string
  los_Level :: string
  los_CreationPolicy :: CreationPolicy
  los_DeletionPolicy :: DeletionPolicy
  los_DriftDetectionInterval :: "int option"

record OpenBaoLoggerStatus =
  lot_Name :: string
  lot_Level :: string
  lot_ConfigHash :: string
  lot_ObservedGeneration :: int
  lot_Conditions :: "Condition list"

record OpenBaoLogger = ObjectMeta +
  loo_Spec :: OpenBaoLoggerSpec
  loo_Status :: OpenBaoLoggerStatus

record OpenBaoRotationConfigurationSpec =
  rcs_ConnectionRef :: OpenBaoConnectionReference
  rcs_Enabled :: "bool option"
  rcs_Interval :: "int option"
  rcs_MaxOperations :: "int option"
  rcs_CreationPolicy :: CreationPolicy
  rcs_DeletionPolicy :: DeletionPolicy
  rcs_DriftDetectionInterval :: "int option"

record OpenBaoRotationConfigurationStatus =
  rct_ConfigHash :: string
  rct_ObservedGeneration :: int
  rct_Conditions :: "Condition list"

record OpenBaoEncryptionKeyConfiguration = ObjectMeta +
  eko_Spec :: OpenBaoRotationConfigurationSpec
  eko_Status :: OpenBaoRotationConfigurationStatus

record OpenBaoKeyringRotationConfiguration = ObjectMeta +
  kro_Spec :: OpenBaoRotationConfigurationSpec
  kro_Status :: OpenBaoRotationConfigurationStatus

end
