(* ===== verification/SystemClientTypes.thy ===== *)
theory SystemClientTypes
  imports SystemEngine SystemApi
begin

text \<open>
  The client side of the system resources: the data of
  \<^verbatim>\<open>internal/openbaoclient/system_resources.go\<close>, the interface
  \<^verbatim>\<open>SystemClient\<close> the engine's kinds call, and the helpers their
  \<^verbatim>\<open>Desired\<close> closures build a \<^verbatim>\<open>map[string]any\<close> with.
\<close>

section \<open>system\_resources.go\<close>

record Mount =
  mo_Accessor :: string
  mo_Config :: "anymap option"
  mo_Description :: string
  mo_ExternalEntropy :: bool
  mo_Local :: bool
  mo_Options :: "anymap option"
  mo_PluginVersion :: string
  mo_SealWrap :: bool
  mo_Type :: string
  mo_UUID :: string

record Namespace =
  ns_ID :: string
  ns_Path :: string
  ns_CustomMetadata :: "anymap option"
  ns_UUID :: string

record AuditDevice =
  ad_Type :: string
  ad_Description :: string
  ad_Local :: bool
  ad_Options :: "anymap option"

type_synonym RateLimitQuota = "anymap option"
type_synonym Workflow = "anymap option"
type_synonym Plugin = "anymap option"

text \<open>How \<^verbatim>\<open>json.Marshal\<close> writes them; a nil map is null.\<close>

definition encMap :: "FloatLib \<Rightarrow> anymap option \<Rightarrow> Json option" where
  "encMap F m = (case m of None \<Rightarrow> Some JNull | Some f \<Rightarrow> mapJson F f)"

definition encMount :: "FloatLib \<Rightarrow> Mount \<Rightarrow> Json option" where
  "encMount F v = (case encMap F (mo_Config v) of
      None \<Rightarrow> None
    | Some config \<Rightarrow> (case encMap F (mo_Options v) of
        None \<Rightarrow> None
      | Some options \<Rightarrow> Some (JObj
         [(''accessor'', JString (mo_Accessor v)), (''config'', config),
          (''description'', JString (mo_Description v)),
          (''external_entropy_access'', JBool (mo_ExternalEntropy v)), (''local'', JBool (mo_Local v)),
          (''options'', options), (''plugin_version'', JString (mo_PluginVersion v)),
          (''seal_wrap'', JBool (mo_SealWrap v)), (''type'', JString (mo_Type v)),
          (''uuid'', JString (mo_UUID v))])))"

definition encNamespace :: "FloatLib \<Rightarrow> Namespace \<Rightarrow> Json option" where
  "encNamespace F v = map_option (\<lambda>custom. JObj
     [(''id'', JString (ns_ID v)), (''path'', JString (ns_Path v)), (''custom_metadata'', custom),
      (''uuid'', JString (ns_UUID v))]) (encMap F (ns_CustomMetadata v))"

definition encAuditDevice :: "FloatLib \<Rightarrow> AuditDevice \<Rightarrow> Json option" where
  "encAuditDevice F v = map_option (\<lambda>options. JObj
     [(''type'', JString (ad_Type v)), (''description'', JString (ad_Description v)),
      (''local'', JBool (ad_Local v)), (''options'', options)]) (encMap F (ad_Options v))"

text \<open>\<^verbatim>\<open>objectMap(value)\<close> for a pointer; a nil pointer is written as null.\<close>

definition objectMapOf :: "FloatLib \<Rightarrow> ('v \<Rightarrow> Json option) \<Rightarrow> 'v option \<Rightarrow> anymap option" where
  "objectMapOf F enc value = objectMap F (case value of None \<Rightarrow> Some JNull | Some v \<Rightarrow> enc v)"

section \<open>The interface SystemClient\<close>

record 's SystemClient =
  GetMFALoginEnforcement :: "string \<Rightarrow> ('s, go_error + anymap option) state"
  WriteMFALoginEnforcement :: "string \<Rightarrow> anymap \<Rightarrow> ('s, go_error option) state"
  DeleteMFALoginEnforcement :: "string \<Rightarrow> ('s, go_error option) state"
  GetCORSConfiguration :: "('s, go_error + anymap option) state"
  WriteCORSConfiguration :: "anymap \<Rightarrow> ('s, go_error option) state"
  DeleteCORSConfiguration :: "('s, go_error option) state"
  GetAuditRequestHeader :: "string \<Rightarrow> ('s, go_error + anymap option) state"
  WriteAuditRequestHeader :: "string \<Rightarrow> anymap \<Rightarrow> ('s, go_error option) state"
  DeleteAuditRequestHeader :: "string \<Rightarrow> ('s, go_error option) state"
  GetUIHeader :: "string \<Rightarrow> ('s, go_error + anymap option) state"
  WriteUIHeader :: "string \<Rightarrow> anymap \<Rightarrow> ('s, go_error option) state"
  DeleteUIHeader :: "string \<Rightarrow> ('s, go_error option) state"
  GetRateLimitQuotaConfiguration :: "('s, go_error + anymap option) state"
  WriteRateLimitQuotaConfiguration :: "anymap \<Rightarrow> ('s, go_error option) state"
  GetLogger :: "string \<Rightarrow> ('s, go_error + anymap option) state"
  WriteLogger :: "string \<Rightarrow> anymap \<Rightarrow> ('s, go_error option) state"
  DeleteLogger :: "string \<Rightarrow> ('s, go_error option) state"
  GetEncryptionKeyConfiguration :: "('s, go_error + anymap option) state"
  WriteEncryptionKeyConfiguration :: "anymap \<Rightarrow> ('s, go_error option) state"
  GetKeyringRotationConfiguration :: "('s, go_error + anymap option) state"
  WriteKeyringRotationConfiguration :: "anymap \<Rightarrow> ('s, go_error option) state"
  GetAuthMethod :: "string \<Rightarrow> ('s, go_error + Mount option) state"
  EnableAuthMethod :: "string \<Rightarrow> anymap \<Rightarrow> ('s, go_error option) state"
  TuneAuthMethod :: "string \<Rightarrow> anymap \<Rightarrow> ('s, go_error option) state"
  DisableAuthMethod :: "string \<Rightarrow> ('s, go_error option) state"
  GetSecretEngine :: "string \<Rightarrow> ('s, go_error + Mount option) state"
  EnableSecretEngine :: "string \<Rightarrow> anymap \<Rightarrow> ('s, go_error option) state"
  TuneSecretEngine :: "string \<Rightarrow> anymap \<Rightarrow> ('s, go_error option) state"
  DisableSecretEngine :: "string \<Rightarrow> ('s, go_error option) state"
  GetNamespace :: "string \<Rightarrow> ('s, go_error + Namespace option) state"
  WriteNamespace :: "string \<Rightarrow> anymap \<Rightarrow> ('s, go_error option) state"
  DeleteNamespace :: "string \<Rightarrow> ('s, go_error option) state"
  GetAuditDevice :: "string \<Rightarrow> ('s, go_error + AuditDevice option) state"
  WriteAuditDevice :: "string \<Rightarrow> anymap \<Rightarrow> ('s, go_error option) state"
  DeleteAuditDevice :: "string \<Rightarrow> ('s, go_error option) state"
  GetRateLimitQuota :: "string \<Rightarrow> ('s, go_error + RateLimitQuota) state"
  WriteRateLimitQuota :: "string \<Rightarrow> anymap \<Rightarrow> ('s, go_error option) state"
  DeleteRateLimitQuota :: "string \<Rightarrow> ('s, go_error option) state"
  GetWorkflow :: "string \<Rightarrow> ('s, go_error + Workflow) state"
  WriteWorkflow :: "string \<Rightarrow> anymap \<Rightarrow> ('s, go_error option) state"
  DeleteWorkflow :: "string \<Rightarrow> ('s, go_error option) state"
  GetPlugin :: "string \<Rightarrow> string \<Rightarrow> ('s, go_error + Plugin) state"
  WritePlugin :: "string \<Rightarrow> string \<Rightarrow> anymap \<Rightarrow> ('s, go_error option) state"
  DeletePlugin :: "string \<Rightarrow> string \<Rightarrow> ('s, go_error option) state"

section \<open>Building a map[string]any\<close>

text \<open>The conditional assignments \<^verbatim>\<open>if x != "" { result[k] = x }\<close> and their variants.\<close>

definition putString :: "string \<Rightarrow> string \<Rightarrow> anymap \<Rightarrow> anymap" where
  "putString k s m = (if s \<noteq> '''' then fmupd k (AString s) m else m)"

definition putBool :: "string \<Rightarrow> bool option \<Rightarrow> anymap \<Rightarrow> anymap" where
  "putBool k b m = (case b of None \<Rightarrow> m | Some x \<Rightarrow> fmupd k (ABool x) m)"

definition putInt :: "string \<Rightarrow> int option \<Rightarrow> anymap \<Rightarrow> anymap" where
  "putInt k i m = (case i of None \<Rightarrow> m | Some n \<Rightarrow> fmupd k (AInt n) m)"

definition putStringMap :: "string \<Rightarrow> strmap \<Rightarrow> anymap \<Rightarrow> anymap" where
  "putStringMap k v m = (case v of None \<Rightarrow> m | Some f \<Rightarrow> fmupd k (AStringMap (Some f)) m)"

text \<open>\<^verbatim>\<open>if x != nil { result[k] = x }\<close>, with the slice itself or a fresh copy, and \<^verbatim>\<open>if len(x) > 0\<close>.\<close>

definition putSlice :: "string \<Rightarrow> string slice \<Rightarrow> anymap \<Rightarrow> anymap" where
  "putSlice k v m = (case v of None \<Rightarrow> m | Some xs \<Rightarrow> fmupd k (AStrings (Some xs)) m)"

definition putCopy :: "string \<Rightarrow> string slice \<Rightarrow> anymap \<Rightarrow> anymap" where
  "putCopy k v m = (case v of None \<Rightarrow> m | Some xs \<Rightarrow> fmupd k (AStrings (append_nil xs)) m)"

definition putNonEmpty :: "string \<Rightarrow> string slice \<Rightarrow> anymap \<Rightarrow> anymap" where
  "putNonEmpty k v m = (if elems v = [] then m else fmupd k (AStrings v) m)"

lemmas put_defs = putString_def putBool_def putInt_def putStringMap_def putSlice_def putCopy_def putNonEmpty_def

end
