(* ===== verification/SystemKinds.thy ===== *)
theory SystemKinds
  imports SystemLifecycle SystemClientTypes
begin

text \<open>
  The plans of \<^verbatim>\<open>openbaosystem_controller.go\<close> and
  \<^verbatim>\<open>openbaosystem_resources_controller.go\<close>: auth methods, secret engines,
  namespaces, audit devices, rate-limit quotas, workflows and plugins.  Each
  \<^verbatim>\<open>Reconcile\<close> reads its object, makes a plan and hands it to the engine.
  Every kind is an interpretation of \<open>system_kind\<close>.
\<close>

lemmas settle_simps = observeSystem_def readySystemObject_def Let_def markReady_idem ObjectMeta.truncate_def

section \<open>Auth methods and secret engines\<close>

definition mountDesired :: "OpenBaoMountSpec \<Rightarrow> go_error + anymap" where
  "mountDesired spec =
     (let typ = TrimSpace (ms_Type spec);
          result = fmupd ''type'' (AString typ) fmempty
      in if typ = '''' then Inl (Errorf ''type must not be empty'')
         else
           (let result = putString ''description'' (ms_Description spec) result;
                result = putString ''plugin_name'' (ms_PluginName spec) result;
                result = putString ''plugin_version'' (ms_PluginVersion spec) result;
                result = putBool ''local'' (ms_Local spec) result;
                result = putBool ''seal_wrap'' (ms_SealWrap spec) result;
                result = putBool ''external_entropy_access'' (ms_ExternalEntropyAccess spec) result;
                result = putStringMap ''options'' (ms_Options spec) result;
                result = putStringMap ''config'' (ms_Config spec) result
            in Inr result))"

text \<open>A lease is sent as text: a number of seconds and the letter s.\<close>

definition putLease :: "string \<Rightarrow> int option \<Rightarrow> anymap \<Rightarrow> anymap" where
  "putLease k value m = (case value of None \<Rightarrow> m | Some n \<Rightarrow> fmupd k (AString (fmt_d n @ ''s'')) m)"

definition mountTune :: "OpenBaoMountSpec \<Rightarrow> go_error + anymap" where
  "mountTune spec =
     (let result = putString ''description'' (ms_Description spec) fmempty
      in andThen (systemDuration (ms_DefaultLeaseTTL spec) ''defaultLeaseTTL'') (\<lambda>value.
         let result = putLease ''default_lease_ttl'' value result
         in andThen (systemDuration (ms_MaxLeaseTTL spec) ''maxLeaseTTL'') (\<lambda>value.
            let result = putLease ''max_lease_ttl'' value result;
                result = putString ''listing_visibility'' (ms_ListingVisibility spec) result;
                result = putString ''token_type'' (ms_TokenType spec) result;
                result = putNonEmpty ''passthrough_request_headers'' (ms_PassthroughRequestHeaders spec) result;
                result = putNonEmpty ''allowed_response_headers'' (ms_AllowedResponseHeaders spec) result
            in Inr result)))"

text \<open>
  \<^verbatim>\<open>Write\<close> of a mount: it is enabled when it is being created, and tuned when
  the specification tunes anything.
\<close>

definition writeMount ::
  "(anymap \<Rightarrow> ('s, go_error option) state) \<Rightarrow> (anymap \<Rightarrow> ('s, go_error option) state) \<Rightarrow> OpenBaoMountSpec
     \<Rightarrow> anymap \<Rightarrow> bool \<Rightarrow> ('s, go_error option) state" where
  "writeMount enable tuneMount spec value creating = do {
     e \<leftarrow> (if creating then enable value else ret None);
     case e of
       Some err \<Rightarrow> ret (Some err)
     | None \<Rightarrow> (case mountTune spec of
           Inl err \<Rightarrow> ret (Some err)
         | Inr tune \<Rightarrow> if tune \<noteq> fmempty then tuneMount tune else ret None)
   }"

definition observeMount :: "anymap \<Rightarrow> OpenBaoMountSpec \<Rightarrow> OpenBaoMountStatus \<Rightarrow> OpenBaoMountStatus" where
  "observeMount value spec st =
     (let st = (case getString value ''accessor'' of None \<Rightarrow> st | Some a \<Rightarrow> st\<lparr>mt_Accessor := a\<rparr>);
          st = (case getString value ''type'' of None \<Rightarrow> st | Some typ \<Rightarrow> st\<lparr>mt_Type := typ\<rparr>)
      in st\<lparr>mt_Path := ms_Path spec\<rparr>)"

lemma observeMount_keeps [simp]:
  "mt_Conditions (observeMount m spec st) = mt_Conditions st"
  "mt_ObservedGeneration (observeMount m spec st) = mt_ObservedGeneration st"
  "observeMount m spec (st\<lparr>mt_ConfigHash := h\<rparr>) = (observeMount m spec st)\<lparr>mt_ConfigHash := h\<rparr>"
  "observeMount m spec (st\<lparr>mt_Conditions := cs\<rparr>) = (observeMount m spec st)\<lparr>mt_Conditions := cs\<rparr>"
  "observeMount m spec (st\<lparr>mt_Path := p\<rparr>) = observeMount m spec st"
  "(observeMount m spec st)\<lparr>mt_Path := ms_Path spec\<rparr> = observeMount m spec st"
  "observeMount m spec (observeMount m spec st) = observeMount m spec st"
  by (simp_all add: observeMount_def Let_def split: option.splits)

definition authMethodAccess where
  "authMethodAccess =
     \<lparr>sa_Status = am_Status,
      sa_setStatus = (\<lambda>st ob. ob\<lparr>am_Status := st\<rparr>),
      sa_Conditions = mt_Conditions,
      sa_setConditions = (\<lambda>cs st. st\<lparr>mt_Conditions := cs\<rparr>),
      sa_ObservedGeneration = mt_ObservedGeneration,
      sa_setObservedGeneration = (\<lambda>g st. st\<lparr>mt_ObservedGeneration := g\<rparr>)\<rparr>"

definition authMethodPlan ::
  "FloatLib \<Rightarrow> OpenBaoAuthMethod \<Rightarrow> ('s, 's SystemClient, OpenBaoAuthMethod, OpenBaoMountStatus) systemPlan" where
  "authMethodPlan F object =
     \<lparr>sp_ConnectionRef = ms_ConnectionRef (am_Spec object),
      sp_CreationPolicy = fst (systemPolicies (ms_CreationPolicy (am_Spec object)) (ms_DeletionPolicy (am_Spec object))),
      sp_DeletionPolicy = snd (systemPolicies (ms_CreationPolicy (am_Spec object)) (ms_DeletionPolicy (am_Spec object))),
      sp_DriftInterval = systemDrift (ms_DriftDetectionInterval (am_Spec object)),
      sp_Name = ms_Path (am_Spec object),
      sp_Desired = (\<lambda>ob. mountDesired (am_Spec ob)),
      sp_Get = (\<lambda>ob c. do {
        r \<leftarrow> GetAuthMethod c (ms_Path (am_Spec ob));
        ret (map_sum id (objectMapOf F (encMount F)) r)
      }),
      sp_Write = (\<lambda>ob c. writeMount (EnableAuthMethod c (ms_Path (am_Spec ob))) (TuneAuthMethod c (ms_Path (am_Spec ob))) (am_Spec ob)),
      sp_Delete = (\<lambda>ob c. DisableAuthMethod c (ms_Path (am_Spec ob))),
      sp_Acquired = (\<lambda>ob. mt_Path (am_Status ob) \<noteq> ''''),
      sp_MarkAcquired = (\<lambda>ob. ob\<lparr>am_Status := (am_Status ob)\<lparr>mt_Path := ms_Path (am_Spec ob)\<rparr>\<rparr>),
      sp_Observe = (\<lambda>value ob. ob\<lparr>am_Status := observeMount value (am_Spec ob) (am_Status ob)\<rparr>),
      sp_Status = authMethodAccess,
      sp_ConfigHash = mt_ConfigHash,
      sp_setConfigHash = (\<lambda>h st. st\<lparr>mt_ConfigHash := h\<rparr>),
      sp_Before = am_Status object\<rparr>"

definition Reconcile_authMethod ::
  "('s, 's SystemClient, OpenBaoAuthMethod) SystemReconciler \<Rightarrow> NamespacedName \<Rightarrow> ('s, outcome) state" where
  "Reconcile_authMethod R req = reconcileSystemKind R acceptAll (authMethodPlan (sr_Float R)) req"

definition mapConnection_authMethod ::
  "('s, 's SystemClient, OpenBaoAuthMethod) SystemReconciler \<Rightarrow> 'b ObjectMeta_scheme \<Rightarrow> ('s, NamespacedName list) state" where
  "mapConnection_authMethod R obj =
     mapConnection R (\<lambda>item. connref_Name (ms_ConnectionRef (am_Spec item))) obj"

interpretation authMethod: system_kind authMethodAccess "authMethodPlan F" for F
  by unfold_locales
     (auto simp: authMethodPlan_def authMethodAccess_def settle_simps split: option.splits)

definition secretEngineAccess where
  "secretEngineAccess =
     \<lparr>sa_Status = se_Status,
      sa_setStatus = (\<lambda>st ob. ob\<lparr>se_Status := st\<rparr>),
      sa_Conditions = mt_Conditions,
      sa_setConditions = (\<lambda>cs st. st\<lparr>mt_Conditions := cs\<rparr>),
      sa_ObservedGeneration = mt_ObservedGeneration,
      sa_setObservedGeneration = (\<lambda>g st. st\<lparr>mt_ObservedGeneration := g\<rparr>)\<rparr>"

definition secretEnginePlan ::
  "FloatLib \<Rightarrow> OpenBaoSecretEngine \<Rightarrow> ('s, 's SystemClient, OpenBaoSecretEngine, OpenBaoMountStatus) systemPlan" where
  "secretEnginePlan F object =
     \<lparr>sp_ConnectionRef = ms_ConnectionRef (se_Spec object),
      sp_CreationPolicy = fst (systemPolicies (ms_CreationPolicy (se_Spec object)) (ms_DeletionPolicy (se_Spec object))),
      sp_DeletionPolicy = snd (systemPolicies (ms_CreationPolicy (se_Spec object)) (ms_DeletionPolicy (se_Spec object))),
      sp_DriftInterval = systemDrift (ms_DriftDetectionInterval (se_Spec object)),
      sp_Name = ms_Path (se_Spec object),
      sp_Desired = (\<lambda>ob. mountDesired (se_Spec ob)),
      sp_Get = (\<lambda>ob c. do {
        r \<leftarrow> GetSecretEngine c (ms_Path (se_Spec ob));
        ret (map_sum id (objectMapOf F (encMount F)) r)
      }),
      sp_Write = (\<lambda>ob c. writeMount (EnableSecretEngine c (ms_Path (se_Spec ob))) (TuneSecretEngine c (ms_Path (se_Spec ob))) (se_Spec ob)),
      sp_Delete = (\<lambda>ob c. DisableSecretEngine c (ms_Path (se_Spec ob))),
      sp_Acquired = (\<lambda>ob. mt_Path (se_Status ob) \<noteq> ''''),
      sp_MarkAcquired = (\<lambda>ob. ob\<lparr>se_Status := (se_Status ob)\<lparr>mt_Path := ms_Path (se_Spec ob)\<rparr>\<rparr>),
      sp_Observe = (\<lambda>value ob. ob\<lparr>se_Status := observeMount value (se_Spec ob) (se_Status ob)\<rparr>),
      sp_Status = secretEngineAccess,
      sp_ConfigHash = mt_ConfigHash,
      sp_setConfigHash = (\<lambda>h st. st\<lparr>mt_ConfigHash := h\<rparr>),
      sp_Before = se_Status object\<rparr>"

definition Reconcile_secretEngine ::
  "('s, 's SystemClient, OpenBaoSecretEngine) SystemReconciler \<Rightarrow> NamespacedName \<Rightarrow> ('s, outcome) state" where
  "Reconcile_secretEngine R req = reconcileSystemKind R acceptAll (secretEnginePlan (sr_Float R)) req"

definition mapConnection_secretEngine ::
  "('s, 's SystemClient, OpenBaoSecretEngine) SystemReconciler \<Rightarrow> 'b ObjectMeta_scheme \<Rightarrow> ('s, NamespacedName list) state" where
  "mapConnection_secretEngine R obj =
     mapConnection R (\<lambda>item. connref_Name (ms_ConnectionRef (se_Spec item))) obj"

interpretation secretEngine: system_kind secretEngineAccess "secretEnginePlan F" for F
  by unfold_locales
     (auto simp: secretEnginePlan_def secretEngineAccess_def settle_simps split: option.splits)

section \<open>Namespaces\<close>

definition namespaceAccess where
  "namespaceAccess =
     \<lparr>sa_Status = nao_Status,
      sa_setStatus = (\<lambda>st ob. ob\<lparr>nao_Status := st\<rparr>),
      sa_Conditions = nat_Conditions,
      sa_setConditions = (\<lambda>cs st. st\<lparr>nat_Conditions := cs\<rparr>),
      sa_ObservedGeneration = nat_ObservedGeneration,
      sa_setObservedGeneration = (\<lambda>g st. st\<lparr>nat_ObservedGeneration := g\<rparr>)\<rparr>"

definition namespaceDesired :: "OpenBaoNamespaceSpec \<Rightarrow> go_error + anymap" where
  "namespaceDesired spec =
     (if TrimSpace (nas_Path spec) = '''' then Inl (Errorf ''path must not be empty'')
      else Inr (if map_entries (nas_CustomMetadata spec) = fmempty then fmempty
                else fmupd ''custom_metadata'' (AStringMap (nas_CustomMetadata spec)) fmempty))"

definition namespacePlan ::
  "FloatLib \<Rightarrow> OpenBaoNamespace \<Rightarrow> ('s, 's SystemClient, OpenBaoNamespace, OpenBaoNamespaceStatus) systemPlan" where
  "namespacePlan F object =
     \<lparr>sp_ConnectionRef = nas_ConnectionRef (nao_Spec object),
      sp_CreationPolicy = fst (systemPolicies (nas_CreationPolicy (nao_Spec object)) (nas_DeletionPolicy (nao_Spec object))),
      sp_DeletionPolicy = snd (systemPolicies (nas_CreationPolicy (nao_Spec object)) (nas_DeletionPolicy (nao_Spec object))),
      sp_DriftInterval = systemDrift (nas_DriftDetectionInterval (nao_Spec object)),
      sp_Name = nas_Path (nao_Spec object),
      sp_Desired = (\<lambda>ob. namespaceDesired (nao_Spec ob)),
      sp_Get = (\<lambda>ob c. do {
        r \<leftarrow> GetNamespace c (nas_Path (nao_Spec ob));
        ret (map_sum id (objectMapOf F (encNamespace F)) r)
      }),
      sp_Write = (\<lambda>ob c value _. WriteNamespace c (nas_Path (nao_Spec ob)) value),
      sp_Delete = (\<lambda>ob c. DeleteNamespace c (nas_Path (nao_Spec ob))),
      sp_Acquired = (\<lambda>ob. nat_Path (nao_Status ob) \<noteq> ''''),
      sp_MarkAcquired = (\<lambda>ob. ob\<lparr>nao_Status := (nao_Status ob)\<lparr>nat_Path := nas_Path (nao_Spec ob)\<rparr>\<rparr>),
      sp_Observe = (\<lambda>value ob.
        let ob' = ob\<lparr>nao_Status := (nao_Status ob)\<lparr>nat_Path := nas_Path (nao_Spec ob)\<rparr>\<rparr>
        in (case getString value ''id'' of
              None \<Rightarrow> ob'
            | Some i \<Rightarrow> ob'\<lparr>nao_Status := (nao_Status ob')\<lparr>nat_ID := i\<rparr>\<rparr>)),
      sp_Status = namespaceAccess,
      sp_ConfigHash = nat_ConfigHash,
      sp_setConfigHash = (\<lambda>h st. st\<lparr>nat_ConfigHash := h\<rparr>),
      sp_Before = nao_Status object\<rparr>"

definition Reconcile_namespace ::
  "('s, 's SystemClient, OpenBaoNamespace) SystemReconciler \<Rightarrow> NamespacedName \<Rightarrow> ('s, outcome) state" where
  "Reconcile_namespace R req = reconcileSystemKind R acceptAll (namespacePlan (sr_Float R)) req"

definition mapConnection_namespace ::
  "('s, 's SystemClient, OpenBaoNamespace) SystemReconciler \<Rightarrow> 'b ObjectMeta_scheme \<Rightarrow> ('s, NamespacedName list) state" where
  "mapConnection_namespace R obj =
     mapConnection R (\<lambda>item. connref_Name (nas_ConnectionRef (nao_Spec item))) obj"

interpretation namespace: system_kind namespaceAccess "namespacePlan F" for F
  by unfold_locales
     (auto simp: namespacePlan_def namespaceAccess_def settle_simps split: option.splits)

section \<open>Audit devices\<close>

definition auditDeviceAccess where
  "auditDeviceAccess =
     \<lparr>sa_Status = ado_Status,
      sa_setStatus = (\<lambda>st ob. ob\<lparr>ado_Status := st\<rparr>),
      sa_Conditions = adt_Conditions,
      sa_setConditions = (\<lambda>cs st. st\<lparr>adt_Conditions := cs\<rparr>),
      sa_ObservedGeneration = adt_ObservedGeneration,
      sa_setObservedGeneration = (\<lambda>g st. st\<lparr>adt_ObservedGeneration := g\<rparr>)\<rparr>"

definition auditDeviceDesired :: "OpenBaoAuditDeviceSpec \<Rightarrow> go_error + anymap" where
  "auditDeviceDesired spec =
     (if TrimSpace (ads_Type spec) = '''' \<or> TrimSpace (ads_Path spec) = '''' then
        Inl (Errorf ''path and type must not be empty'')
      else
        (let result = fmupd ''type'' (AString (ads_Type spec)) fmempty;
             result = putString ''description'' (ads_Description spec) result;
             result = putBool ''local'' (ads_Local spec) result;
             result = putStringMap ''options'' (ads_Options spec) result
         in Inr result))"

definition auditDevicePlan ::
  "FloatLib \<Rightarrow> OpenBaoAuditDevice \<Rightarrow> ('s, 's SystemClient, OpenBaoAuditDevice, OpenBaoAuditDeviceStatus) systemPlan" where
  "auditDevicePlan F object =
     \<lparr>sp_ConnectionRef = ads_ConnectionRef (ado_Spec object),
      sp_CreationPolicy = fst (systemPolicies (ads_CreationPolicy (ado_Spec object)) (ads_DeletionPolicy (ado_Spec object))),
      sp_DeletionPolicy = snd (systemPolicies (ads_CreationPolicy (ado_Spec object)) (ads_DeletionPolicy (ado_Spec object))),
      sp_DriftInterval = systemDrift (ads_DriftDetectionInterval (ado_Spec object)),
      sp_Name = ads_Path (ado_Spec object),
      sp_Desired = (\<lambda>ob. auditDeviceDesired (ado_Spec ob)),
      sp_Get = (\<lambda>ob c. do {
        r \<leftarrow> GetAuditDevice c (ads_Path (ado_Spec ob));
        ret (map_sum id (objectMapOf F (encAuditDevice F)) r)
      }),
      sp_Write = (\<lambda>ob c value _. WriteAuditDevice c (ads_Path (ado_Spec ob)) value),
      sp_Delete = (\<lambda>ob c. DeleteAuditDevice c (ads_Path (ado_Spec ob))),
      sp_Acquired = (\<lambda>ob. adt_Path (ado_Status ob) \<noteq> ''''),
      sp_MarkAcquired = (\<lambda>ob. ob\<lparr>ado_Status := (ado_Status ob)\<lparr>adt_Path := ads_Path (ado_Spec ob)\<rparr>\<rparr>),
      sp_Observe = (\<lambda>value ob.
        let ob' = ob\<lparr>ado_Status := (ado_Status ob)\<lparr>adt_Path := ads_Path (ado_Spec ob)\<rparr>\<rparr>
        in (case getString value ''type'' of
              None \<Rightarrow> ob'
            | Some typ \<Rightarrow> ob'\<lparr>ado_Status := (ado_Status ob')\<lparr>adt_Type := typ\<rparr>\<rparr>)),
      sp_Status = auditDeviceAccess,
      sp_ConfigHash = adt_ConfigHash,
      sp_setConfigHash = (\<lambda>h st. st\<lparr>adt_ConfigHash := h\<rparr>),
      sp_Before = ado_Status object\<rparr>"

definition Reconcile_auditDevice ::
  "('s, 's SystemClient, OpenBaoAuditDevice) SystemReconciler \<Rightarrow> NamespacedName \<Rightarrow> ('s, outcome) state" where
  "Reconcile_auditDevice R req = reconcileSystemKind R acceptAll (auditDevicePlan (sr_Float R)) req"

definition mapConnection_auditDevice ::
  "('s, 's SystemClient, OpenBaoAuditDevice) SystemReconciler \<Rightarrow> 'b ObjectMeta_scheme \<Rightarrow> ('s, NamespacedName list) state" where
  "mapConnection_auditDevice R obj =
     mapConnection R (\<lambda>item. connref_Name (ads_ConnectionRef (ado_Spec item))) obj"

interpretation auditDevice: system_kind auditDeviceAccess "auditDevicePlan F" for F
  by unfold_locales
     (auto simp: auditDevicePlan_def auditDeviceAccess_def settle_simps split: option.splits)

section \<open>Rate-limit quotas\<close>

definition rateLimitQuotaAccess where
  "rateLimitQuotaAccess =
     \<lparr>sa_Status = rqo_Status,
      sa_setStatus = (\<lambda>st ob. ob\<lparr>rqo_Status := st\<rparr>),
      sa_Conditions = rqt_Conditions,
      sa_setConditions = (\<lambda>cs st. st\<lparr>rqt_Conditions := cs\<rparr>),
      sa_ObservedGeneration = rqt_ObservedGeneration,
      sa_setObservedGeneration = (\<lambda>g st. st\<lparr>rqt_ObservedGeneration := g\<rparr>)\<rparr>"

definition quotaRate :: "FloatLib \<Rightarrow> string \<Rightarrow> anymap \<Rightarrow> go_error + anymap" where
  "quotaRate F rate result =
     (if rate = '''' then Inr result
      else (case fl_Parse F rate of
          None \<Rightarrow> Inl (Errorf ''rate must be a positive number'')
        | Some w \<Rightarrow>
            if float_le_zero w then Inl (Errorf ''rate must be a positive number'')
            else Inr (fmupd ''rate'' (AFloat w) result)))"

definition rateLimitQuotaDesired :: "FloatLib \<Rightarrow> OpenBaoRateLimitQuotaSpec \<Rightarrow> go_error + anymap" where
  "rateLimitQuotaDesired F spec =
     (if TrimSpace (rqs_Type spec) = '''' then Inl (Errorf ''type must not be empty'')
      else
        (let result = fmupd ''type'' (AString (rqs_Type spec)) fmempty;
             result = putString ''path'' (rqs_Path spec) result;
             result = putString ''role'' (rqs_Role spec) result
         in andThen (quotaRate F (rqs_Rate spec) result) (\<lambda>result.
            andThen (systemDuration (rqs_Interval spec) ''interval'') (\<lambda>value.
              let result = putInt ''interval'' value result
              in andThen (systemDuration (rqs_BlockInterval spec) ''blockInterval'') (\<lambda>value.
                let result = putInt ''block_interval'' value result;
                    result = putBool ''inheritable'' (rqs_Inheritable spec) result
                in Inr result)))))"

definition rateLimitQuotaPlan ::
  "FloatLib \<Rightarrow> OpenBaoRateLimitQuota \<Rightarrow> ('s, 's SystemClient, OpenBaoRateLimitQuota, OpenBaoRateLimitQuotaStatus) systemPlan" where
  "rateLimitQuotaPlan F object =
     \<lparr>sp_ConnectionRef = rqs_ConnectionRef (rqo_Spec object),
      sp_CreationPolicy = fst (systemPolicies (rqs_CreationPolicy (rqo_Spec object)) (rqs_DeletionPolicy (rqo_Spec object))),
      sp_DeletionPolicy = snd (systemPolicies (rqs_CreationPolicy (rqo_Spec object)) (rqs_DeletionPolicy (rqo_Spec object))),
      sp_DriftInterval = systemDrift (rqs_DriftDetectionInterval (rqo_Spec object)),
      sp_Name = om_Name object,
      sp_Desired = (\<lambda>ob. rateLimitQuotaDesired F (rqo_Spec ob)),
      sp_Get = (\<lambda>ob c. GetRateLimitQuota c (om_Name ob)),
      sp_Write = (\<lambda>ob c value _. WriteRateLimitQuota c (om_Name ob) value),
      sp_Delete = (\<lambda>ob c. DeleteRateLimitQuota c (om_Name ob)),
      sp_Acquired = (\<lambda>ob. rqt_Name (rqo_Status ob) \<noteq> ''''),
      sp_MarkAcquired = (\<lambda>ob. ob\<lparr>rqo_Status := (rqo_Status ob)\<lparr>rqt_Name := om_Name ob\<rparr>\<rparr>),
      sp_Observe = (\<lambda>_ ob. ob\<lparr>rqo_Status := (rqo_Status ob)\<lparr>rqt_Name := om_Name ob\<rparr>\<rparr>),
      sp_Status = rateLimitQuotaAccess,
      sp_ConfigHash = rqt_ConfigHash,
      sp_setConfigHash = (\<lambda>h st. st\<lparr>rqt_ConfigHash := h\<rparr>),
      sp_Before = rqo_Status object\<rparr>"

definition Reconcile_rateLimitQuota ::
  "('s, 's SystemClient, OpenBaoRateLimitQuota) SystemReconciler \<Rightarrow> NamespacedName \<Rightarrow> ('s, outcome) state" where
  "Reconcile_rateLimitQuota R req = reconcileSystemKind R acceptAll (rateLimitQuotaPlan (sr_Float R)) req"

definition mapConnection_rateLimitQuota ::
  "('s, 's SystemClient, OpenBaoRateLimitQuota) SystemReconciler \<Rightarrow> 'b ObjectMeta_scheme \<Rightarrow> ('s, NamespacedName list) state" where
  "mapConnection_rateLimitQuota R obj =
     mapConnection R (\<lambda>item. connref_Name (rqs_ConnectionRef (rqo_Spec item))) obj"

interpretation rateLimitQuota: system_kind rateLimitQuotaAccess "rateLimitQuotaPlan F" for F
  by unfold_locales
     (auto simp: rateLimitQuotaPlan_def rateLimitQuotaAccess_def settle_simps split: option.splits)

section \<open>Workflows\<close>

definition workflowAccess where
  "workflowAccess =
     \<lparr>sa_Status = wfo_Status,
      sa_setStatus = (\<lambda>st ob. ob\<lparr>wfo_Status := st\<rparr>),
      sa_Conditions = wft_Conditions,
      sa_setConditions = (\<lambda>cs st. st\<lparr>wft_Conditions := cs\<rparr>),
      sa_ObservedGeneration = wft_ObservedGeneration,
      sa_setObservedGeneration = (\<lambda>g st. st\<lparr>wft_ObservedGeneration := g\<rparr>)\<rparr>"

definition workflowDesired :: "OpenBaoWorkflowSpec \<Rightarrow> go_error + anymap" where
  "workflowDesired spec =
     (if TrimSpace (wfs_Path spec) = '''' \<or> wfs_Workflow spec = '''' then
        Inl (Errorf ''path and workflow must not be empty'')
      else
        (let result = fmupd ''workflow'' (AString (wfs_Workflow spec)) fmempty;
             result = putString ''description'' (wfs_Description spec) result;
             result = putBool ''allow_unauthenticated'' (wfs_AllowUnauthenticated spec) result;
             result = putInt ''cas'' (wfs_CAS spec) result;
             result = putBool ''cas_required'' (wfs_CASRequired spec) result
         in Inr result))"

definition workflowPlan ::
  "FloatLib \<Rightarrow> OpenBaoWorkflow \<Rightarrow> ('s, 's SystemClient, OpenBaoWorkflow, OpenBaoWorkflowStatus) systemPlan" where
  "workflowPlan F object =
     \<lparr>sp_ConnectionRef = wfs_ConnectionRef (wfo_Spec object),
      sp_CreationPolicy = fst (systemPolicies (wfs_CreationPolicy (wfo_Spec object)) (wfs_DeletionPolicy (wfo_Spec object))),
      sp_DeletionPolicy = snd (systemPolicies (wfs_CreationPolicy (wfo_Spec object)) (wfs_DeletionPolicy (wfo_Spec object))),
      sp_DriftInterval = systemDrift (wfs_DriftDetectionInterval (wfo_Spec object)),
      sp_Name = wfs_Path (wfo_Spec object),
      sp_Desired = (\<lambda>ob. workflowDesired (wfo_Spec ob)),
      sp_Get = (\<lambda>ob c. GetWorkflow c (wfs_Path (wfo_Spec ob))),
      sp_Write = (\<lambda>ob c value _. WriteWorkflow c (wfs_Path (wfo_Spec ob)) value),
      sp_Delete = (\<lambda>ob c. DeleteWorkflow c (wfs_Path (wfo_Spec ob))),
      sp_Acquired = (\<lambda>ob. wft_Path (wfo_Status ob) \<noteq> ''''),
      sp_MarkAcquired = (\<lambda>ob. ob\<lparr>wfo_Status := (wfo_Status ob)\<lparr>wft_Path := wfs_Path (wfo_Spec ob)\<rparr>\<rparr>),
      sp_Observe = (\<lambda>value ob.
        let ob' = ob\<lparr>wfo_Status := (wfo_Status ob)\<lparr>wft_Path := wfs_Path (wfo_Spec ob)\<rparr>\<rparr>
        in (case getFloat value ''version'' of
              None \<Rightarrow> ob'
            | Some version \<Rightarrow> ob'\<lparr>wfo_Status := (wfo_Status ob')\<lparr>wft_Version := float_to_int64 version\<rparr>\<rparr>)),
      sp_Status = workflowAccess,
      sp_ConfigHash = wft_ConfigHash,
      sp_setConfigHash = (\<lambda>h st. st\<lparr>wft_ConfigHash := h\<rparr>),
      sp_Before = wfo_Status object\<rparr>"

definition Reconcile_workflow ::
  "('s, 's SystemClient, OpenBaoWorkflow) SystemReconciler \<Rightarrow> NamespacedName \<Rightarrow> ('s, outcome) state" where
  "Reconcile_workflow R req = reconcileSystemKind R acceptAll (workflowPlan (sr_Float R)) req"

definition mapConnection_workflow ::
  "('s, 's SystemClient, OpenBaoWorkflow) SystemReconciler \<Rightarrow> 'b ObjectMeta_scheme \<Rightarrow> ('s, NamespacedName list) state" where
  "mapConnection_workflow R obj =
     mapConnection R (\<lambda>item. connref_Name (wfs_ConnectionRef (wfo_Spec item))) obj"

interpretation workflow: system_kind workflowAccess "workflowPlan F" for F
  by unfold_locales
     (auto simp: workflowPlan_def workflowAccess_def settle_simps split: option.splits)

section \<open>Plugins\<close>

definition pluginAccess where
  "pluginAccess =
     \<lparr>sa_Status = plo_Status,
      sa_setStatus = (\<lambda>st ob. ob\<lparr>plo_Status := st\<rparr>),
      sa_Conditions = plt_Conditions,
      sa_setConditions = (\<lambda>cs st. st\<lparr>plt_Conditions := cs\<rparr>),
      sa_ObservedGeneration = plt_ObservedGeneration,
      sa_setObservedGeneration = (\<lambda>g st. st\<lparr>plt_ObservedGeneration := g\<rparr>)\<rparr>"

definition pluginDesired :: "OpenBaoPluginSpec \<Rightarrow> go_error + anymap" where
  "pluginDesired spec =
     (if TrimSpace (pls_Name spec) = '''' \<or> TrimSpace (pls_Type spec) = '''' then
        Inl (Errorf ''name and type must not be empty'')
      else
        (let result = fmupd ''type'' (AString (pls_Type spec)) fmempty;
             result = putString ''command'' (pls_Command spec) result;
             result = putSlice ''args'' (pls_Args spec) result;
             result = putSlice ''env'' (pls_Env spec) result;
             result = putString ''sha256'' (pls_SHA256 spec) result;
             result = putString ''version'' (pls_Version spec) result;
             result = putBool ''oci'' (pls_OCI spec) result
         in Inr result))"

definition pluginPlan ::
  "FloatLib \<Rightarrow> OpenBaoPlugin \<Rightarrow> ('s, 's SystemClient, OpenBaoPlugin, OpenBaoPluginStatus) systemPlan" where
  "pluginPlan F object =
     \<lparr>sp_ConnectionRef = pls_ConnectionRef (plo_Spec object),
      sp_CreationPolicy = fst (systemPolicies (pls_CreationPolicy (plo_Spec object)) (pls_DeletionPolicy (plo_Spec object))),
      sp_DeletionPolicy = snd (systemPolicies (pls_CreationPolicy (plo_Spec object)) (pls_DeletionPolicy (plo_Spec object))),
      sp_DriftInterval = systemDrift (pls_DriftDetectionInterval (plo_Spec object)),
      sp_Name = pls_Name (plo_Spec object),
      sp_Desired = (\<lambda>ob. pluginDesired (plo_Spec ob)),
      sp_Get = (\<lambda>ob c. GetPlugin c (pls_Type (plo_Spec ob)) (pls_Name (plo_Spec ob))),
      sp_Write = (\<lambda>ob c value _. WritePlugin c (pls_Type (plo_Spec ob)) (pls_Name (plo_Spec ob)) value),
      sp_Delete = (\<lambda>ob c. DeletePlugin c (pls_Type (plo_Spec ob)) (pls_Name (plo_Spec ob))),
      sp_Acquired = (\<lambda>ob. plt_Name (plo_Status ob) \<noteq> ''''),
      sp_MarkAcquired = (\<lambda>ob. ob\<lparr>plo_Status := (plo_Status ob)\<lparr>plt_Name := pls_Name (plo_Spec ob)\<rparr>\<rparr>),
      sp_Observe = (\<lambda>value ob.
        let ob' = ob\<lparr>plo_Status := (plo_Status ob)\<lparr>plt_Name := pls_Name (plo_Spec ob)\<rparr>\<rparr>
        in (case getString value ''type'' of
              None \<Rightarrow> ob'
            | Some typ \<Rightarrow> ob'\<lparr>plo_Status := (plo_Status ob')\<lparr>plt_Type := typ\<rparr>\<rparr>)),
      sp_Status = pluginAccess,
      sp_ConfigHash = plt_ConfigHash,
      sp_setConfigHash = (\<lambda>h st. st\<lparr>plt_ConfigHash := h\<rparr>),
      sp_Before = plo_Status object\<rparr>"

definition Reconcile_plugin ::
  "('s, 's SystemClient, OpenBaoPlugin) SystemReconciler \<Rightarrow> NamespacedName \<Rightarrow> ('s, outcome) state" where
  "Reconcile_plugin R req = reconcileSystemKind R acceptAll (pluginPlan (sr_Float R)) req"

definition mapConnection_plugin ::
  "('s, 's SystemClient, OpenBaoPlugin) SystemReconciler \<Rightarrow> 'b ObjectMeta_scheme \<Rightarrow> ('s, NamespacedName list) state" where
  "mapConnection_plugin R obj =
     mapConnection R (\<lambda>item. connref_Name (pls_ConnectionRef (plo_Spec item))) obj"

interpretation plugin: system_kind pluginAccess "pluginPlan F" for F
  by unfold_locales
     (auto simp: pluginPlan_def pluginAccess_def settle_simps split: option.splits)

end
