(* ===== verification/ConfigurationKinds.thy ===== *)
theory ConfigurationKinds
  imports SystemKinds
begin

text \<open>
  The plans of \<^verbatim>\<open>openbaoadditional_controller.go\<close>: CORS, audit request
  headers, UI headers, the global rate-limit quota configuration, loggers and the two rotation
  configurations, and the MFA login enforcement of \<^verbatim>\<open>openbaomfa_controller.go\<close>.
  Every kind is an interpretation of \<open>system_kind\<close>.
\<close>

section \<open>CORS\<close>

definition corsConfigurationAccess where
  "corsConfigurationAccess =
     \<lparr>sa_Status = coo_Status,
      sa_setStatus = (\<lambda>st ob. ob\<lparr>coo_Status := st\<rparr>),
      sa_Conditions = cot_Conditions,
      sa_setConditions = (\<lambda>cs st. st\<lparr>cot_Conditions := cs\<rparr>),
      sa_ObservedGeneration = cot_ObservedGeneration,
      sa_setObservedGeneration = (\<lambda>g st. st\<lparr>cot_ObservedGeneration := g\<rparr>)\<rparr>"

definition corsDesired :: "OpenBaoCORSConfigurationSpec \<Rightarrow> go_error + anymap" where
  "corsDesired spec =
     (let result = putBool ''enable'' (cos_Enable spec) fmempty;
          result = putBool ''allow_credentials'' (cos_AllowCredentials spec) result;
          result = putCopy ''allowed_headers'' (cos_AllowedHeaders spec) result;
          result = putCopy ''allowed_origins'' (cos_AllowedOrigins spec) result
      in Inr result)"

definition corsConfigurationPlan ::
  "FloatLib \<Rightarrow> OpenBaoCORSConfiguration \<Rightarrow> ('s, 's SystemClient, OpenBaoCORSConfiguration, OpenBaoCORSConfigurationStatus) systemPlan" where
  "corsConfigurationPlan F object =
     \<lparr>sp_ConnectionRef = cos_ConnectionRef (coo_Spec object),
      sp_CreationPolicy = fst (systemPolicies (cos_CreationPolicy (coo_Spec object)) (cos_DeletionPolicy (coo_Spec object))),
      sp_DeletionPolicy = snd (systemPolicies (cos_CreationPolicy (coo_Spec object)) (cos_DeletionPolicy (coo_Spec object))),
      sp_DriftInterval = systemDrift (cos_DriftDetectionInterval (coo_Spec object)),
      sp_Name = om_Name object,
      sp_Desired = (\<lambda>ob. corsDesired (coo_Spec ob)),
      sp_Get = (\<lambda>ob c. GetCORSConfiguration c),
      sp_Write = (\<lambda>ob c value _. WriteCORSConfiguration c value),
      sp_Delete = (\<lambda>ob c. DeleteCORSConfiguration c),
      sp_Acquired = (\<lambda>ob. cot_ConfigHash (coo_Status ob) \<noteq> ''''),
      sp_MarkAcquired = (\<lambda>ob. ob),
      sp_Observe = (\<lambda>_ ob. ob),
      sp_Status = corsConfigurationAccess,
      sp_ConfigHash = cot_ConfigHash,
      sp_setConfigHash = (\<lambda>h st. st\<lparr>cot_ConfigHash := h\<rparr>),
      sp_Before = coo_Status object\<rparr>"

definition Reconcile_corsConfiguration ::
  "('s, 's SystemClient, OpenBaoCORSConfiguration) SystemReconciler \<Rightarrow> NamespacedName \<Rightarrow> ('s, outcome) state" where
  "Reconcile_corsConfiguration R req = reconcileSystemKind R acceptAll (corsConfigurationPlan (sr_Float R)) req"

definition mapConnection_corsConfiguration ::
  "('s, 's SystemClient, OpenBaoCORSConfiguration) SystemReconciler \<Rightarrow> 'b ObjectMeta_scheme \<Rightarrow> ('s, NamespacedName list) state" where
  "mapConnection_corsConfiguration R obj =
     mapConnection R (\<lambda>item. connref_Name (cos_ConnectionRef (coo_Spec item))) obj"

interpretation corsConfiguration: system_kind corsConfigurationAccess "corsConfigurationPlan F" for F
  by unfold_locales
     (auto simp: corsConfigurationPlan_def corsConfigurationAccess_def settle_simps split: option.splits)

section \<open>Audit request headers\<close>

definition auditRequestHeaderAccess where
  "auditRequestHeaderAccess =
     \<lparr>sa_Status = aho_Status,
      sa_setStatus = (\<lambda>st ob. ob\<lparr>aho_Status := st\<rparr>),
      sa_Conditions = aht_Conditions,
      sa_setConditions = (\<lambda>cs st. st\<lparr>aht_Conditions := cs\<rparr>),
      sa_ObservedGeneration = aht_ObservedGeneration,
      sa_setObservedGeneration = (\<lambda>g st. st\<lparr>aht_ObservedGeneration := g\<rparr>)\<rparr>"

definition auditRequestHeaderDesired :: "OpenBaoAuditRequestHeaderSpec \<Rightarrow> go_error + anymap" where
  "auditRequestHeaderDesired spec =
     (if TrimSpace (ahs_Header spec) = '''' then Inl (Errorf ''header must not be empty'')
      else Inr (putBool ''hmac'' (ahs_HMAC spec) fmempty))"

definition auditRequestHeaderPlan ::
  "FloatLib \<Rightarrow> OpenBaoAuditRequestHeader \<Rightarrow> ('s, 's SystemClient, OpenBaoAuditRequestHeader, OpenBaoAuditRequestHeaderStatus) systemPlan" where
  "auditRequestHeaderPlan F object =
     \<lparr>sp_ConnectionRef = ahs_ConnectionRef (aho_Spec object),
      sp_CreationPolicy = fst (systemPolicies (ahs_CreationPolicy (aho_Spec object)) (ahs_DeletionPolicy (aho_Spec object))),
      sp_DeletionPolicy = snd (systemPolicies (ahs_CreationPolicy (aho_Spec object)) (ahs_DeletionPolicy (aho_Spec object))),
      sp_DriftInterval = systemDrift (ahs_DriftDetectionInterval (aho_Spec object)),
      sp_Name = ahs_Header (aho_Spec object),
      sp_Desired = (\<lambda>ob. auditRequestHeaderDesired (aho_Spec ob)),
      sp_Get = (\<lambda>ob c. GetAuditRequestHeader c (ahs_Header (aho_Spec ob))),
      sp_Write = (\<lambda>ob c value _. WriteAuditRequestHeader c (ahs_Header (aho_Spec ob)) value),
      sp_Delete = (\<lambda>ob c. DeleteAuditRequestHeader c (ahs_Header (aho_Spec ob))),
      sp_Acquired = (\<lambda>ob. aht_Header (aho_Status ob) \<noteq> ''''),
      sp_MarkAcquired = (\<lambda>ob. ob\<lparr>aho_Status := (aho_Status ob)\<lparr>aht_Header := ahs_Header (aho_Spec ob)\<rparr>\<rparr>),
      sp_Observe = (\<lambda>_ ob. ob\<lparr>aho_Status := (aho_Status ob)\<lparr>aht_Header := ahs_Header (aho_Spec ob)\<rparr>\<rparr>),
      sp_Status = auditRequestHeaderAccess,
      sp_ConfigHash = aht_ConfigHash,
      sp_setConfigHash = (\<lambda>h st. st\<lparr>aht_ConfigHash := h\<rparr>),
      sp_Before = aho_Status object\<rparr>"

definition Reconcile_auditRequestHeader ::
  "('s, 's SystemClient, OpenBaoAuditRequestHeader) SystemReconciler \<Rightarrow> NamespacedName \<Rightarrow> ('s, outcome) state" where
  "Reconcile_auditRequestHeader R req = reconcileSystemKind R acceptAll (auditRequestHeaderPlan (sr_Float R)) req"

definition mapConnection_auditRequestHeader ::
  "('s, 's SystemClient, OpenBaoAuditRequestHeader) SystemReconciler \<Rightarrow> 'b ObjectMeta_scheme \<Rightarrow> ('s, NamespacedName list) state" where
  "mapConnection_auditRequestHeader R obj =
     mapConnection R (\<lambda>item. connref_Name (ahs_ConnectionRef (aho_Spec item))) obj"

interpretation auditRequestHeader: system_kind auditRequestHeaderAccess "auditRequestHeaderPlan F" for F
  by unfold_locales
     (auto simp: auditRequestHeaderPlan_def auditRequestHeaderAccess_def settle_simps split: option.splits)

section \<open>UI headers\<close>

definition uiHeaderAccess where
  "uiHeaderAccess =
     \<lparr>sa_Status = uho_Status,
      sa_setStatus = (\<lambda>st ob. ob\<lparr>uho_Status := st\<rparr>),
      sa_Conditions = uht_Conditions,
      sa_setConditions = (\<lambda>cs st. st\<lparr>uht_Conditions := cs\<rparr>),
      sa_ObservedGeneration = uht_ObservedGeneration,
      sa_setObservedGeneration = (\<lambda>g st. st\<lparr>uht_ObservedGeneration := g\<rparr>)\<rparr>"

definition uiHeaderDesired :: "OpenBaoUIHeaderSpec \<Rightarrow> go_error + anymap" where
  "uiHeaderDesired spec =
     (if TrimSpace (uhs_Header spec) = '''' then Inl (Errorf ''header must not be empty'')
      else
        (let result = putCopy ''values'' (uhs_Values spec) fmempty;
             result = putBool ''multivalue'' (uhs_Multivalue spec) result
         in Inr result))"

definition uiHeaderPlan ::
  "FloatLib \<Rightarrow> OpenBaoUIHeader \<Rightarrow> ('s, 's SystemClient, OpenBaoUIHeader, OpenBaoUIHeaderStatus) systemPlan" where
  "uiHeaderPlan F object =
     \<lparr>sp_ConnectionRef = uhs_ConnectionRef (uho_Spec object),
      sp_CreationPolicy = fst (systemPolicies (uhs_CreationPolicy (uho_Spec object)) (uhs_DeletionPolicy (uho_Spec object))),
      sp_DeletionPolicy = snd (systemPolicies (uhs_CreationPolicy (uho_Spec object)) (uhs_DeletionPolicy (uho_Spec object))),
      sp_DriftInterval = systemDrift (uhs_DriftDetectionInterval (uho_Spec object)),
      sp_Name = uhs_Header (uho_Spec object),
      sp_Desired = (\<lambda>ob. uiHeaderDesired (uho_Spec ob)),
      sp_Get = (\<lambda>ob c. GetUIHeader c (uhs_Header (uho_Spec ob))),
      sp_Write = (\<lambda>ob c value _. WriteUIHeader c (uhs_Header (uho_Spec ob)) value),
      sp_Delete = (\<lambda>ob c. DeleteUIHeader c (uhs_Header (uho_Spec ob))),
      sp_Acquired = (\<lambda>ob. uht_Header (uho_Status ob) \<noteq> ''''),
      sp_MarkAcquired = (\<lambda>ob. ob\<lparr>uho_Status := (uho_Status ob)\<lparr>uht_Header := uhs_Header (uho_Spec ob)\<rparr>\<rparr>),
      sp_Observe = (\<lambda>_ ob. ob\<lparr>uho_Status := (uho_Status ob)\<lparr>uht_Header := uhs_Header (uho_Spec ob)\<rparr>\<rparr>),
      sp_Status = uiHeaderAccess,
      sp_ConfigHash = uht_ConfigHash,
      sp_setConfigHash = (\<lambda>h st. st\<lparr>uht_ConfigHash := h\<rparr>),
      sp_Before = uho_Status object\<rparr>"

definition Reconcile_uiHeader ::
  "('s, 's SystemClient, OpenBaoUIHeader) SystemReconciler \<Rightarrow> NamespacedName \<Rightarrow> ('s, outcome) state" where
  "Reconcile_uiHeader R req = reconcileSystemKind R acceptAll (uiHeaderPlan (sr_Float R)) req"

definition mapConnection_uiHeader ::
  "('s, 's SystemClient, OpenBaoUIHeader) SystemReconciler \<Rightarrow> 'b ObjectMeta_scheme \<Rightarrow> ('s, NamespacedName list) state" where
  "mapConnection_uiHeader R obj =
     mapConnection R (\<lambda>item. connref_Name (uhs_ConnectionRef (uho_Spec item))) obj"

interpretation uiHeader: system_kind uiHeaderAccess "uiHeaderPlan F" for F
  by unfold_locales
     (auto simp: uiHeaderPlan_def uiHeaderAccess_def settle_simps split: option.splits)

section \<open>Global rate-limit quota configuration\<close>

definition quotaConfigurationAccess where
  "quotaConfigurationAccess =
     \<lparr>sa_Status = qco_Status,
      sa_setStatus = (\<lambda>st ob. ob\<lparr>qco_Status := st\<rparr>),
      sa_Conditions = qct_Conditions,
      sa_setConditions = (\<lambda>cs st. st\<lparr>qct_Conditions := cs\<rparr>),
      sa_ObservedGeneration = qct_ObservedGeneration,
      sa_setObservedGeneration = (\<lambda>g st. st\<lparr>qct_ObservedGeneration := g\<rparr>)\<rparr>"

definition unsupportedConfigurationDelete :: "string \<Rightarrow> go_error" where
  "unsupportedConfigurationDelete name =
     Errorf (''OpenBao does not expose deletion for '' @ name @ ''; use deletionPolicy=Orphan'')"

definition quotaConfigurationDesired :: "OpenBaoRateLimitQuotaConfigurationSpec \<Rightarrow> go_error + anymap" where
  "quotaConfigurationDesired spec =
     (let result = putBool ''enable_rate_limit_audit_logging'' (qcs_EnableRateLimitAuditLogging spec) fmempty;
          result = putBool ''enable_rate_limit_response_headers'' (qcs_EnableRateLimitResponseHeaders spec) result;
          result = putCopy ''rate_limit_exempt_paths'' (qcs_RateLimitExemptPaths spec) result
      in Inr result)"

definition quotaConfigurationPlan ::
  "FloatLib \<Rightarrow> OpenBaoRateLimitQuotaConfiguration \<Rightarrow> ('s, 's SystemClient, OpenBaoRateLimitQuotaConfiguration, OpenBaoRateLimitQuotaConfigurationStatus) systemPlan" where
  "quotaConfigurationPlan F object =
     \<lparr>sp_ConnectionRef = qcs_ConnectionRef (qco_Spec object),
      sp_CreationPolicy = fst (systemPolicies (qcs_CreationPolicy (qco_Spec object)) (qcs_DeletionPolicy (qco_Spec object))),
      sp_DeletionPolicy = snd (systemPolicies (qcs_CreationPolicy (qco_Spec object)) (qcs_DeletionPolicy (qco_Spec object))),
      sp_DriftInterval = systemDrift (qcs_DriftDetectionInterval (qco_Spec object)),
      sp_Name = om_Name object,
      sp_Desired = (\<lambda>ob. quotaConfigurationDesired (qco_Spec ob)),
      sp_Get = (\<lambda>ob c. GetRateLimitQuotaConfiguration c),
      sp_Write = (\<lambda>ob c value _. WriteRateLimitQuotaConfiguration c value),
      sp_Delete = (\<lambda>ob c. ret (Some (unsupportedConfigurationDelete ''rate-limit quota configuration''))),
      sp_Acquired = (\<lambda>ob. qct_ConfigHash (qco_Status ob) \<noteq> ''''),
      sp_MarkAcquired = (\<lambda>ob. ob),
      sp_Observe = (\<lambda>_ ob. ob),
      sp_Status = quotaConfigurationAccess,
      sp_ConfigHash = qct_ConfigHash,
      sp_setConfigHash = (\<lambda>h st. st\<lparr>qct_ConfigHash := h\<rparr>),
      sp_Before = qco_Status object\<rparr>"

definition Reconcile_quotaConfiguration ::
  "('s, 's SystemClient, OpenBaoRateLimitQuotaConfiguration) SystemReconciler \<Rightarrow> NamespacedName \<Rightarrow> ('s, outcome) state" where
  "Reconcile_quotaConfiguration R req = reconcileSystemKind R acceptAll (quotaConfigurationPlan (sr_Float R)) req"

definition mapConnection_quotaConfiguration ::
  "('s, 's SystemClient, OpenBaoRateLimitQuotaConfiguration) SystemReconciler \<Rightarrow> 'b ObjectMeta_scheme \<Rightarrow> ('s, NamespacedName list) state" where
  "mapConnection_quotaConfiguration R obj =
     mapConnection R (\<lambda>item. connref_Name (qcs_ConnectionRef (qco_Spec item))) obj"

interpretation quotaConfiguration: system_kind quotaConfigurationAccess "quotaConfigurationPlan F" for F
  by unfold_locales
     (auto simp: quotaConfigurationPlan_def quotaConfigurationAccess_def settle_simps split: option.splits)

section \<open>Loggers\<close>

definition loggerAccess where
  "loggerAccess =
     \<lparr>sa_Status = loo_Status,
      sa_setStatus = (\<lambda>st ob. ob\<lparr>loo_Status := st\<rparr>),
      sa_Conditions = lot_Conditions,
      sa_setConditions = (\<lambda>cs st. st\<lparr>lot_Conditions := cs\<rparr>),
      sa_ObservedGeneration = lot_ObservedGeneration,
      sa_setObservedGeneration = (\<lambda>g st. st\<lparr>lot_ObservedGeneration := g\<rparr>)\<rparr>"

definition loggerDesired :: "OpenBaoLoggerSpec \<Rightarrow> go_error + anymap" where
  "loggerDesired spec =
     (if los_Level spec \<in> set [''trace'', ''debug'', ''info'', ''warn'', ''error'']
      then Inr (fmupd ''level'' (AString (los_Level spec)) fmempty)
      else Inl (Errorf ''level must be one of trace, debug, info, warn, or error''))"

definition loggerPlan ::
  "FloatLib \<Rightarrow> OpenBaoLogger \<Rightarrow> ('s, 's SystemClient, OpenBaoLogger, OpenBaoLoggerStatus) systemPlan" where
  "loggerPlan F object =
     \<lparr>sp_ConnectionRef = los_ConnectionRef (loo_Spec object),
      sp_CreationPolicy = fst (systemPolicies (los_CreationPolicy (loo_Spec object)) (los_DeletionPolicy (loo_Spec object))),
      sp_DeletionPolicy = snd (systemPolicies (los_CreationPolicy (loo_Spec object)) (los_DeletionPolicy (loo_Spec object))),
      sp_DriftInterval = systemDrift (los_DriftDetectionInterval (loo_Spec object)),
      sp_Name = los_Name (loo_Spec object),
      sp_Desired = (\<lambda>ob. loggerDesired (loo_Spec ob)),
      sp_Get = (\<lambda>ob c. GetLogger c (los_Name (loo_Spec ob))),
      sp_Write = (\<lambda>ob c value _. WriteLogger c (los_Name (loo_Spec ob)) value),
      sp_Delete = (\<lambda>ob c. DeleteLogger c (los_Name (loo_Spec ob))),
      sp_Acquired = (\<lambda>ob. lot_ConfigHash (loo_Status ob) \<noteq> ''''),
      sp_MarkAcquired = (\<lambda>ob. ob),
      sp_Observe = (\<lambda>value ob.
        let ob' = ob\<lparr>loo_Status := (loo_Status ob)\<lparr>lot_Name := los_Name (loo_Spec ob)\<rparr>\<rparr>
        in (case getString value ''level'' of
              None \<Rightarrow> ob'
            | Some level \<Rightarrow> ob'\<lparr>loo_Status := (loo_Status ob')\<lparr>lot_Level := level\<rparr>\<rparr>)),
      sp_Status = loggerAccess,
      sp_ConfigHash = lot_ConfigHash,
      sp_setConfigHash = (\<lambda>h st. st\<lparr>lot_ConfigHash := h\<rparr>),
      sp_Before = loo_Status object\<rparr>"

definition Reconcile_logger ::
  "('s, 's SystemClient, OpenBaoLogger) SystemReconciler \<Rightarrow> NamespacedName \<Rightarrow> ('s, outcome) state" where
  "Reconcile_logger R req = reconcileSystemKind R acceptAll (loggerPlan (sr_Float R)) req"

definition mapConnection_logger ::
  "('s, 's SystemClient, OpenBaoLogger) SystemReconciler \<Rightarrow> 'b ObjectMeta_scheme \<Rightarrow> ('s, NamespacedName list) state" where
  "mapConnection_logger R obj =
     mapConnection R (\<lambda>item. connref_Name (los_ConnectionRef (loo_Spec item))) obj"

interpretation logger: system_kind loggerAccess "loggerPlan F" for F
  by unfold_locales
     (auto simp: loggerPlan_def loggerAccess_def settle_simps split: option.splits)

section \<open>Rotation configurations\<close>

definition rotationDesired :: "OpenBaoRotationConfigurationSpec \<Rightarrow> go_error + anymap" where
  "rotationDesired spec =
     (let result = putBool ''enabled'' (rcs_Enabled spec) fmempty
      in andThen (systemDuration (rcs_Interval spec) ''interval'') (\<lambda>seconds.
         let result = putInt ''interval'' seconds result
         in (case rcs_MaxOperations spec of
               None \<Rightarrow> Inr result
             | Some n \<Rightarrow>
                 if n < 0 then Inl (Errorf ''maxOperations must not be negative'')
                 else Inr (fmupd ''max_operations'' (AInt n) result))))"

text \<open>
  \<^verbatim>\<open>reconcileRotationConfiguration\<close> computes the desired fields before anything
  else and returns their error; the plan then holds them as a value.
\<close>

definition rejectsRotation :: "OpenBaoRotationConfigurationSpec \<Rightarrow> go_error option" where
  "rejectsRotation spec = (case rotationDesired spec of Inl err \<Rightarrow> Some err | Inr _ \<Rightarrow> None)"

definition rotationPlan ::
  "('a ObjectMeta_scheme, OpenBaoRotationConfigurationStatus) StatusAccess \<Rightarrow> 'a ObjectMeta_scheme
     \<Rightarrow> OpenBaoRotationConfigurationSpec
     \<Rightarrow> ('k \<Rightarrow> anymap \<Rightarrow> ('s, go_error option) state) \<Rightarrow> ('k \<Rightarrow> ('s, go_error + anymap option) state)
     \<Rightarrow> ('s, 'k, 'a ObjectMeta_scheme, OpenBaoRotationConfigurationStatus) systemPlan" where
  "rotationPlan acc object spec write getf =
     \<lparr>sp_ConnectionRef = rcs_ConnectionRef spec,
      sp_CreationPolicy = fst (systemPolicies (rcs_CreationPolicy spec) (rcs_DeletionPolicy spec)),
      sp_DeletionPolicy = snd (systemPolicies (rcs_CreationPolicy spec) (rcs_DeletionPolicy spec)),
      sp_DriftInterval = systemDrift (rcs_DriftDetectionInterval spec),
      sp_Name = om_Name object,
      sp_Desired = (\<lambda>_. rotationDesired spec),
      sp_Get = (\<lambda>_ c. getf c),
      sp_Write = (\<lambda>_ c value _. write c value),
      sp_Delete = (\<lambda>_ _. ret (Some (unsupportedConfigurationDelete ''rotation configuration''))),
      sp_Acquired = (\<lambda>_. False),
      sp_MarkAcquired = (\<lambda>ob. ob),
      sp_Observe = (\<lambda>_ ob. ob),
      sp_Status = acc,
      sp_ConfigHash = rct_ConfigHash,
      sp_setConfigHash = (\<lambda>h st. st\<lparr>rct_ConfigHash := h\<rparr>),
      sp_Before = sa_Status acc object\<rparr>"

definition encryptionKeyAccess where
  "encryptionKeyAccess =
     \<lparr>sa_Status = eko_Status,
      sa_setStatus = (\<lambda>st ob. ob\<lparr>eko_Status := st\<rparr>),
      sa_Conditions = rct_Conditions,
      sa_setConditions = (\<lambda>cs st. st\<lparr>rct_Conditions := cs\<rparr>),
      sa_ObservedGeneration = rct_ObservedGeneration,
      sa_setObservedGeneration = (\<lambda>g st. st\<lparr>rct_ObservedGeneration := g\<rparr>)\<rparr>"

definition encryptionKeyPlan ::
  "OpenBaoEncryptionKeyConfiguration \<Rightarrow> ('s, 's SystemClient, OpenBaoEncryptionKeyConfiguration, OpenBaoRotationConfigurationStatus) systemPlan" where
  "encryptionKeyPlan object = rotationPlan encryptionKeyAccess object (eko_Spec object) WriteEncryptionKeyConfiguration GetEncryptionKeyConfiguration"

definition Reconcile_encryptionKey ::
  "('s, 's SystemClient, OpenBaoEncryptionKeyConfiguration) SystemReconciler \<Rightarrow> NamespacedName \<Rightarrow> ('s, outcome) state" where
  "Reconcile_encryptionKey R req = reconcileSystemKind R (\<lambda>ob. rejectsRotation (eko_Spec ob)) encryptionKeyPlan req"

definition mapConnection_encryptionKey ::
  "('s, 's SystemClient, OpenBaoEncryptionKeyConfiguration) SystemReconciler \<Rightarrow> 'b ObjectMeta_scheme \<Rightarrow> ('s, NamespacedName list) state" where
  "mapConnection_encryptionKey R obj =
     mapConnection R (\<lambda>item. connref_Name (rcs_ConnectionRef (eko_Spec item))) obj"

interpretation encryptionKey: system_kind encryptionKeyAccess encryptionKeyPlan
  by unfold_locales
     (auto simp: encryptionKeyPlan_def rotationPlan_def encryptionKeyAccess_def settle_simps split: option.splits)

definition keyringRotationAccess where
  "keyringRotationAccess =
     \<lparr>sa_Status = kro_Status,
      sa_setStatus = (\<lambda>st ob. ob\<lparr>kro_Status := st\<rparr>),
      sa_Conditions = rct_Conditions,
      sa_setConditions = (\<lambda>cs st. st\<lparr>rct_Conditions := cs\<rparr>),
      sa_ObservedGeneration = rct_ObservedGeneration,
      sa_setObservedGeneration = (\<lambda>g st. st\<lparr>rct_ObservedGeneration := g\<rparr>)\<rparr>"

definition keyringRotationPlan ::
  "OpenBaoKeyringRotationConfiguration \<Rightarrow> ('s, 's SystemClient, OpenBaoKeyringRotationConfiguration, OpenBaoRotationConfigurationStatus) systemPlan" where
  "keyringRotationPlan object = rotationPlan keyringRotationAccess object (kro_Spec object) WriteKeyringRotationConfiguration GetKeyringRotationConfiguration"

definition Reconcile_keyringRotation ::
  "('s, 's SystemClient, OpenBaoKeyringRotationConfiguration) SystemReconciler \<Rightarrow> NamespacedName \<Rightarrow> ('s, outcome) state" where
  "Reconcile_keyringRotation R req = reconcileSystemKind R (\<lambda>ob. rejectsRotation (kro_Spec ob)) keyringRotationPlan req"

definition mapConnection_keyringRotation ::
  "('s, 's SystemClient, OpenBaoKeyringRotationConfiguration) SystemReconciler \<Rightarrow> 'b ObjectMeta_scheme \<Rightarrow> ('s, NamespacedName list) state" where
  "mapConnection_keyringRotation R obj =
     mapConnection R (\<lambda>item. connref_Name (rcs_ConnectionRef (kro_Spec item))) obj"

interpretation keyringRotation: system_kind keyringRotationAccess keyringRotationPlan
  by unfold_locales
     (auto simp: keyringRotationPlan_def rotationPlan_def keyringRotationAccess_def settle_simps split: option.splits)

section \<open>MFA login enforcement\<close>

definition mfaLoginEnforcementAccess where
  "mfaLoginEnforcementAccess =
     \<lparr>sa_Status = meo_Status,
      sa_setStatus = (\<lambda>st ob. ob\<lparr>meo_Status := st\<rparr>),
      sa_Conditions = met_Conditions,
      sa_setConditions = (\<lambda>cs st. st\<lparr>met_Conditions := cs\<rparr>),
      sa_ObservedGeneration = met_ObservedGeneration,
      sa_setObservedGeneration = (\<lambda>g st. st\<lparr>met_ObservedGeneration := g\<rparr>)\<rparr>"

definition mfaPolicies :: "CreationPolicy \<Rightarrow> DeletionPolicy \<Rightarrow> CreationPolicy \<times> DeletionPolicy" where
  "mfaPolicies creation deletion =
     (if creation = '''' then CreationPolicyCreate else creation,
      if deletion = '''' then DeletionPolicyOrphan else deletion)"

definition mfaDrift :: "int option \<Rightarrow> int" where
  "mfaDrift value = (case value of None \<Rightarrow> defaultDriftCheck | Some d \<Rightarrow> d)"

text \<open>Trimmed, sorted, without duplicates; an empty value is an error.\<close>

definition mfaStrings :: "string slice \<Rightarrow> string \<Rightarrow> go_error + string list" where
  "mfaStrings values fieldName =
     (let result = map TrimSpace (elems values)
      in if '''' \<in> set result then Inl (Errorf (fieldName @ '' must not contain empty values''))
         else Inr (Compact (sort result)))"

text \<open>
  The selectors are visited in the order of a Go map, which is unspecified: \<open>visit\<close> is the order
  of this run.  It decides which of several errors is reported.
\<close>

definition enforcementSelectors :: "OpenBaoMFALoginEnforcementSpec \<Rightarrow> (string \<times> string slice) list" where
  "enforcementSelectors spec =
     [(''auth_method_accessors'', mes_AuthMethodAccessors spec),
      (''auth_method_types'', mes_AuthMethodTypes spec),
      (''identity_entity_ids'', mes_IdentityEntityIDs spec),
      (''identity_group_ids'', mes_IdentityGroupIDs spec)]"

fun putSelectors :: "(string \<times> string slice) list \<Rightarrow> anymap \<Rightarrow> go_error + anymap" where
  "putSelectors [] result = Inr result"
| "putSelectors ((key, values) # rest) result =
     (if elems values = [] then putSelectors rest result
      else andThen (mfaStrings values key) (\<lambda>cleaned.
             putSelectors rest (fmupd key (AStrings (append_nil cleaned)) result)))"

definition mfaLoginEnforcementDesired ::
  "((string \<times> string slice) list \<Rightarrow> (string \<times> string slice) list) \<Rightarrow> OpenBaoMFALoginEnforcementSpec
     \<Rightarrow> go_error + anymap" where
  "mfaLoginEnforcementDesired visit spec =
     (if TrimSpace (mes_Name spec) = '''' then Inl (Errorf ''name must not be empty'')
      else andThen (mfaStrings (mes_MFAMethodIDs spec) ''mfaMethodIDs'') (\<lambda>methodIDs.
        if methodIDs = [] then Inl (Errorf ''mfaMethodIDs must contain at least one method ID'')
        else putSelectors (visit (enforcementSelectors spec))
               (fmupd ''mfa_method_ids'' (AStrings (append_nil methodIDs)) fmempty)))"

definition mfaLoginEnforcementPlan ::
  "((string \<times> string slice) list \<Rightarrow> (string \<times> string slice) list) \<Rightarrow> OpenBaoMFALoginEnforcement \<Rightarrow> ('s, 's SystemClient, OpenBaoMFALoginEnforcement, OpenBaoMFALoginEnforcementStatus) systemPlan" where
  "mfaLoginEnforcementPlan visit object =
     \<lparr>sp_ConnectionRef = mes_ConnectionRef (meo_Spec object),
      sp_CreationPolicy = fst (mfaPolicies (mes_CreationPolicy (meo_Spec object)) (mes_DeletionPolicy (meo_Spec object))),
      sp_DeletionPolicy = snd (mfaPolicies (mes_CreationPolicy (meo_Spec object)) (mes_DeletionPolicy (meo_Spec object))),
      sp_DriftInterval = mfaDrift (mes_DriftDetectionInterval (meo_Spec object)),
      sp_Name = mes_Name (meo_Spec object),
      sp_Desired = (\<lambda>ob. mfaLoginEnforcementDesired visit (meo_Spec ob)),
      sp_Get = (\<lambda>ob c. GetMFALoginEnforcement c (mes_Name (meo_Spec ob))),
      sp_Write = (\<lambda>ob c value _. WriteMFALoginEnforcement c (mes_Name (meo_Spec ob)) value),
      sp_Delete = (\<lambda>ob c. DeleteMFALoginEnforcement c (mes_Name (meo_Spec ob))),
      sp_Acquired = (\<lambda>ob. met_Name (meo_Status ob) \<noteq> ''''),
      sp_MarkAcquired = (\<lambda>ob. ob\<lparr>meo_Status := (meo_Status ob)\<lparr>met_Name := mes_Name (meo_Spec ob)\<rparr>\<rparr>),
      sp_Observe = (\<lambda>_ ob. ob\<lparr>meo_Status := (meo_Status ob)\<lparr>met_Name := mes_Name (meo_Spec ob)\<rparr>\<rparr>),
      sp_Status = mfaLoginEnforcementAccess,
      sp_ConfigHash = met_ConfigHash,
      sp_setConfigHash = (\<lambda>h st. st\<lparr>met_ConfigHash := h\<rparr>),
      sp_Before = meo_Status object\<rparr>"

definition Reconcile_mfaLoginEnforcement ::
  "((string \<times> string slice) list \<Rightarrow> (string \<times> string slice) list) \<Rightarrow>
     ('s, 's SystemClient, OpenBaoMFALoginEnforcement) SystemReconciler \<Rightarrow> NamespacedName \<Rightarrow> ('s, outcome) state" where
  "Reconcile_mfaLoginEnforcement visit R req = reconcileSystemKind R acceptAll (mfaLoginEnforcementPlan visit) req"

definition mapConnection_mfaLoginEnforcement ::
  "('s, 's SystemClient, OpenBaoMFALoginEnforcement) SystemReconciler \<Rightarrow> 'b ObjectMeta_scheme \<Rightarrow> ('s, NamespacedName list) state" where
  "mapConnection_mfaLoginEnforcement R obj =
     mapConnection R (\<lambda>item. connref_Name (mes_ConnectionRef (meo_Spec item))) obj"

interpretation mfaLoginEnforcement: system_kind mfaLoginEnforcementAccess "mfaLoginEnforcementPlan visit" for visit
  by unfold_locales
     (auto simp: mfaLoginEnforcementPlan_def mfaLoginEnforcementAccess_def settle_simps split: option.splits)

end
