(* ===== verification/JsonMatching.thy ===== *)
theory JsonMatching
  imports AnyValue
begin

text \<open>
  When the comparison of \<^verbatim>\<open>systemDesiredFieldsMatch\<close> succeeds: a server that
  stores what it is sent and returns it is seen to agree with the desired fields, although the
  values come back with other dynamic types (an \<^verbatim>\<open>int64\<close> as a
  \<^verbatim>\<open>float64\<close>, a \<^verbatim>\<open>[]string\<close> as a
  \<^verbatim>\<open>[]any\<close>).
\<close>

section \<open>Decimal literals\<close>

lemma digits_val_snoc: "digits_val (s @ [c]) = 10 * digits_val s + (of_char c - 48)"
  by (simp add: digits_val_def)

lemma digit_char: "n < 10 \<Longrightarrow> digit (char_of (48 + n)) \<and> of_char (char_of (48 + n)) - 48 = n" for n :: nat
  by (simp add: digit_def Let_def)

lemma dec_nat_digits: "list_all digit (dec_nat n) \<and> digits_val (dec_nat n) = n \<and> dec_nat n \<noteq> []"
proof (induction n rule: dec_nat.induct)
  case (1 n)
  show ?case
  proof (cases "n < 10")
    case True
    then show ?thesis
      using digit_char [of n] by (subst (1 2 3) dec_nat.simps) (simp add: digits_val_def)
  next
    case False
    have "n mod 10 < 10" by simp
    with False 1 digit_char [of "n mod 10"] show ?thesis
      by (subst (1 2 3) dec_nat.simps) (simp add: digits_val_snoc)
  qed
qed

lemma minus_no_digit: "\<not> digit (CHR ''-'')"
  by (simp add: digit_def)

lemma numLit_fmt_d [simp]: "numLit (fmt_d n) = JNum n"
proof (cases "n < 0")
  case True
  then show ?thesis
    using dec_nat_digits [of "nat (- n)"] by (simp add: fmt_d_def numLit_def minus_no_digit)
next
  case False
  then show ?thesis
    using dec_nat_digits [of "nat n"] by (auto simp: fmt_d_def numLit_def split: list.splits)
qed

section \<open>Entries in ascending order\<close>

lemma putKey_last: "(\<And>p. p \<in> set m \<Longrightarrow> fst p < k) \<Longrightarrow> putKey k v m = m @ [(k, v)]"
proof (induction m)
  case Nil
  show ?case by simp
next
  case (Cons p m)
  have "fst p < k" by (rule Cons.prems) simp
  moreover have "putKey k v m = m @ [(k, v)]" by (rule Cons.IH) (rule Cons.prems, simp)
  ultimately show ?case by (cases p) auto
qed

lemma foldl_putKey:
  "sorted_wrt (<) (map fst (m @ kvs)) \<Longrightarrow> foldl (\<lambda>m (k, v). putKey k v m) m kvs = m @ kvs"
proof (induction kvs arbitrary: m)
  case Nil
  show ?case by simp
next
  case (Cons p kvs)
  obtain k v where p: "p = (k, v)" by (cases p)
  have "putKey k v m = m @ [(k, v)]"
    by (rule putKey_last) (use Cons.prems in \<open>auto simp: p sorted_wrt_append\<close>)
  then show ?case
    using Cons.IH [of "m @ [(k, v)]"] Cons.prems by (simp add: p)
qed

lemma fst_sorted_list_of_fmap: "map fst (sorted_list_of_fmap f) = sorted_list_of_fset (fmdom f)"
  by (simp add: sorted_list_of_fmap_def comp_def)

lemma sorted_fmap_keys: "sorted_wrt (<) (map fst (sorted_list_of_fmap f))"
  unfolding fst_sorted_list_of_fmap sorted_list_of_fset.rep_eq by (rule strict_sorted_list_of_set)

section \<open>What comes back is written alike\<close>

text \<open>The values a desired configuration holds, numbers from strings and floats aside.\<close>

fun sendable :: "any \<Rightarrow> bool" where
  "sendable ANil = True"
| "sendable (ABool b) = True"
| "sendable (AInt n) = (\<bar>n\<bar> \<le> 2 ^ 53)"
| "sendable (AFloat w) = False"
| "sendable (AString s) = True"
| "sendable (AStrings s) = True"
| "sendable (AStringMap m) = True"
| "sendable (AList vs) = False"
| "sendable (AMap kvs) = False"

lemma anyJsons_strings: "anyJsons F (map AString xs) = Some (map JString xs)"
  by (induction xs) simp_all

lemma decAnys_strings: "decAnys F (map JString xs) = Inr (map AString xs)"
  by (induction xs) simp_all

lemma anyFields_strings:
  "anyFields F (map (\<lambda>(k, v). (k, AString v)) kvs) = Some (map (\<lambda>(k, v). (k, JString v)) kvs)"
  by (induction kvs) auto

lemma decAnyFields_strings:
  "decAnyFields F (map (\<lambda>(k, v). (k, JString v)) kvs) = Inr (map (\<lambda>(k, v). (k, AString v)) kvs)"
  by (induction kvs) auto

lemma echo_value:
  assumes "float_lib_ok F" "sendable v"
  shows "\<exists>j v'. anyJson F v = Some j \<and> decAny F j = Inr v' \<and> anyJson F v' = Some j"
proof (cases v)
  case (AInt n)
  with assms obtain w where "fl_Parse F (fmt_d n) = Some w" "float_finite w" "fl_Format F w = fmt_d n"
    by (auto simp: float_lib_ok_def)
  with AInt show ?thesis by simp
next
  case (AStrings s)
  then show ?thesis
    by (cases s) (simp_all add: encStrings_def decAnys_strings anyJsons_strings)
next
  case (AStringMap m)
  show ?thesis
  proof (cases m)
    case None
    with AStringMap show ?thesis by (simp add: encStringMap_def)
  next
    case (Some f)
    let ?kvs = "map (\<lambda>(k, v). (k, AString v)) (sorted_list_of_fmap f)"
    have "map fst ?kvs = map fst (sorted_list_of_fmap f)" by (simp add: comp_def case_prod_beta)
    then have "sorted_wrt (<) (map fst ([] @ ?kvs))"
      using sorted_fmap_keys [of f] by (simp only: append_Nil)
    then have "foldl (\<lambda>m (k, v). putKey k v m) [] ?kvs = ?kvs"
      by (metis foldl_putKey append_Nil)
    with AStringMap Some show ?thesis
      by (simp add: encStringMap_def decAnyFields_strings anyFields_strings)
  qed
qed (use assms in simp_all)

lemma echo_fields:
  assumes "float_lib_ok F" "\<forall>(k, v) \<in> set kvs. sendable v"
  shows "\<exists>fs kvs'. anyFields F kvs = Some fs \<and> decAnyFields F fs = Inr kvs' \<and>
     list_all2 (\<lambda>(k, v) (k', v'). k = k' \<and> anyJson F v \<noteq> None \<and> anyJson F v = anyJson F v') kvs kvs'"
  using assms(2)
proof (induction kvs)
  case Nil
  show ?case by simp
next
  case (Cons p kvs)
  obtain k v where p: "p = (k, v)" by (cases p)
  with Cons.prems have "sendable v" by simp
  from echo_value [OF assms(1) this] obtain j v' where
    "anyJson F v = Some j" "decAny F j = Inr v'" "anyJson F v' = Some j" by blast
  moreover from Cons obtain fs kvs' where "anyFields F kvs = Some fs" "decAnyFields F fs = Inr kvs'"
    "list_all2 (\<lambda>(k, v) (k', v'). k = k' \<and> anyJson F v \<noteq> None \<and> anyJson F v = anyJson F v') kvs kvs'"
    by auto
  ultimately show ?case by (simp add: p)
qed

lemma foldl_fmupd_lookup:
  "distinct (map fst kvs) \<Longrightarrow>
     fmlookup (foldl (\<lambda>m (k, v). fmupd k v m) m kvs) x
       = (case map_of kvs x of None \<Rightarrow> fmlookup m x | Some v \<Rightarrow> Some v)"
proof (induction kvs arbitrary: m)
  case Nil
  show ?case by simp
next
  case (Cons p kvs)
  obtain k v where p: "p = (k, v)" by (cases p)
  from Cons.prems have "map_of kvs k = None" by (simp add: p map_of_eq_None_iff)
  with Cons show ?case by (auto simp: p split: option.splits)
qed

lemma list_all2_map_of:
  assumes "list_all2 (\<lambda>(k, v) (k', v'). k = k' \<and> P v v') kvs kvs'" "(k, v) \<in> set kvs" "distinct (map fst kvs)"
  shows "\<exists>v'. map_of kvs' k = Some v' \<and> P v v'"
  using assms
proof (induction kvs kvs' rule: list_all2_induct)
  case Nil
  then show ?case by simp
next
  case (Cons p kvs p' kvs')
  then show ?case by (cases p; cases p') force
qed

lemma list_all2_keys: "list_all2 (\<lambda>(k, v) (k', v'). k = k' \<and> P v v') kvs kvs' \<Longrightarrow> map fst kvs' = map fst kvs"
  by (induction kvs kvs' rule: list_all2_induct) auto

text \<open>The round trip: sending the desired fields and reading them back gives a map that matches.\<close>

lemma echo_matches:
  assumes "float_lib_ok F" "\<forall>(k, v) \<in> set (sorted_list_of_fmap d). sendable v"
  shows "\<exists>j m. mapJson F d = Some j \<and> decAnyMap F j None = Inr (Some m) \<and> systemDesiredFieldsMatch F d m"
proof -
  let ?kvs = "sorted_list_of_fmap d"
  let ?same = "\<lambda>v v'. anyJson F v \<noteq> None \<and> anyJson F v = anyJson F v'"
  from echo_fields [OF assms] obtain fs kvs' where
    fs: "anyFields F ?kvs = Some fs" "decAnyFields F fs = Inr kvs'"
    and all2: "list_all2 (\<lambda>(k, v) (k', v'). k = k' \<and> ?same v v') ?kvs kvs'" by auto
  have dist: "distinct (map fst ?kvs)"
    using sorted_fmap_keys [of d] by (simp add: strict_sorted_iff)
  let ?m = "foldl (\<lambda>m (k, v). fmupd k v m) fmempty kvs'"
  have same: "reflectJSONEqual F v v'" if "?same v v'" for v v'
    using that by (cases "anyJson F v'") (auto simp: reflectJSONEqual_def Marshal_def)
  have dist': "distinct (map fst kvs')" using list_all2_keys [OF all2] dist by simp
  have entry: "case fmlookup ?m k of None \<Rightarrow> False | Some v' \<Rightarrow> reflectJSONEqual F v v'"
    if kv: "(k, v) \<in> set ?kvs" for k v
  proof -
    from list_all2_map_of [OF all2 kv dist] obtain v' where m: "map_of kvs' k = Some v'" and v': "?same v v'" by blast
    from m dist' same [OF v'] show ?thesis by (simp add: foldl_fmupd_lookup)
  qed
  have "systemDesiredFieldsMatch F d ?m"
    unfolding systemDesiredFieldsMatch_def list_all_iff
  proof (rule ballI)
    fix p assume "p \<in> set ?kvs"
    then have "(fst p, snd p) \<in> set ?kvs" by simp
    from entry [OF this] show "case p of (key, v) \<Rightarrow> case fmlookup ?m key of None \<Rightarrow> False
        | Some v' \<Rightarrow> reflectJSONEqual F v v'"
      by (simp add: case_prod_beta)
  qed
  with fs show ?thesis by (simp add: mapJson_def decAnyMap_def)
qed

section \<open>A float library for the examples\<close>

text \<open>
  Integers are kept as twice their magnitude plus the sign; other literals are rejected.  It
  satisfies \<open>float_lib_ok\<close>.
\<close>

definition intFloats :: FloatLib where
  "intFloats =
     \<lparr>fl_Parse = (\<lambda>t. case numLit t of
          JNum n \<Rightarrow> Some (word_of_int (if n < 0 then 2 * - n + 1 else 2 * n)) | _ \<Rightarrow> None),
      fl_Format = (\<lambda>w. let u = uint w in fmt_d (if odd u then - (u div 2) else u div 2))\<rparr>"

lemma float_finite_small: "uint w < 2 ^ 55 \<Longrightarrow> float_finite w"
proof -
  assume small: "uint w < 2 ^ 55"
  then have "uint w div 2 ^ 52 < 2047" by simp
  moreover have "uint (drop_bit 52 w) = drop_bit 52 (uint w)"
    using small by (simp add: unsigned_drop_bit_eq take_bit_int_eq_self)
  ultimately have "uint (drop_bit 52 w) < 2047"
    by (simp only: drop_bit_eq_div)
  then have "uint (take_bit 11 (drop_bit 52 w)) < 2047"
    by (rule order.strict_trans1 [rotated])
       (simp only: unsigned_take_bit_eq take_bit_int_less_eq_self_iff uint_ge_0)
  then show "float_finite w"
    unfolding float_finite_def float_exponent_def unat_eq_nat_uint by linarith
qed

lemma intFloats_ok: "float_lib_ok intFloats"
proof -
  have "\<exists>w. fl_Parse intFloats (fmt_d n) = Some w \<and> float_finite w \<and> fl_Format intFloats w = fmt_d n"
    if b: "\<bar>n\<bar> \<le> 2 ^ 53" for n
  proof -
    define u where "u = (if n < 0 then 2 * - n + 1 else 2 * n)"
    define w where "w = (word_of_int u :: 64 word)"
    have "0 \<le> u" "u < 2 ^ 55" using b by (auto simp: u_def)
    then have w: "uint w = u" by (simp add: w_def uint_word_of_int take_bit_eq_mod)
    have "fl_Parse intFloats (fmt_d n) = Some w" by (simp add: intFloats_def w_def u_def)
    moreover have "fl_Format intFloats w = fmt_d n"
    proof -
      have "(if odd u then - (u div 2) else u div 2) = n" by (auto simp: u_def)
      then show ?thesis using w by (simp add: intFloats_def Let_def split: if_splits)
    qed
    ultimately show ?thesis using float_finite_small w \<open>u < 2 ^ 55\<close> by auto
  qed
  then show ?thesis by (simp add: float_lib_ok_def)
qed

end
