(* ===== verification/SystemProperties.thy ===== *)
theory SystemProperties
  imports ConfigurationKinds JsonMatching Examples
begin

text \<open>
  The properties of the fifteen kinds of resource the system engine reconciles, each a fact of
  the locale \<open>system_kind\<close> at every kind's plan, and the runs that show where the code falls
  short of its documentation.
\<close>

section \<open>Every kind\<close>

definition disciplinedWrites ::
  "('s, 'k, 'a ObjectMeta_scheme) SystemReconciler \<Rightarrow> ('a ObjectMeta_scheme \<Rightarrow> go_error option)
     \<Rightarrow> ('a ObjectMeta_scheme \<Rightarrow> ('s, 'k, 'a ObjectMeta_scheme, 'st) systemPlan) \<Rightarrow> bool" where
  "disciplinedWrites R rejects planOf \<longleftrightarrow>
     (\<forall>req s. guarded (system_write_ok (sr_Lib R) (sr_Float R) planOf) (system_trace R rejects planOf req s))"

definition disciplinedDeletes ::
  "('s, 'k, 'a ObjectMeta_scheme) SystemReconciler \<Rightarrow> ('a ObjectMeta_scheme \<Rightarrow> go_error option)
     \<Rightarrow> ('a ObjectMeta_scheme \<Rightarrow> ('s, 'k, 'a ObjectMeta_scheme, 'st) systemPlan) \<Rightarrow> bool" where
  "disciplinedDeletes R rejects planOf \<longleftrightarrow>
     (\<forall>req s. guarded (system_delete_ok (sr_Lib R) planOf) (system_trace R rejects planOf req s))"

definition settledReady ::
  "('s, 'k, 'a ObjectMeta_scheme) SystemReconciler \<Rightarrow> ('a ObjectMeta_scheme, 'st) StatusAccess
     \<Rightarrow> ('a ObjectMeta_scheme \<Rightarrow> go_error option)
     \<Rightarrow> ('a ObjectMeta_scheme \<Rightarrow> ('s, 'k, 'a ObjectMeta_scheme, 'st) systemPlan) \<Rightarrow> bool" where
  "settledReady R acc rejects planOf \<longleftrightarrow>
     (\<forall>req s. guarded (system_ready_ok (sr_Lib R) (sr_Float R) acc planOf) (system_trace R rejects planOf req s)) \<and>
     (\<forall>orig m t1 t2 ob. sp_ConfigHash (planOf orig)
        (sa_Status acc (readySystemObject (sr_Float R) (planOf orig) m t1 t2 ob)) = systemConfigHash (sr_Float R) m)"

definition disciplined ::
  "('s, 'k, 'a ObjectMeta_scheme) SystemReconciler \<Rightarrow> ('a ObjectMeta_scheme, 'st) StatusAccess
     \<Rightarrow> ('a ObjectMeta_scheme \<Rightarrow> go_error option)
     \<Rightarrow> ('a ObjectMeta_scheme \<Rightarrow> ('s, 'k, 'a ObjectMeta_scheme, 'st) systemPlan) \<Rightarrow> bool" where
  "disciplined R acc rejects planOf \<longleftrightarrow> disciplinedWrites R rejects planOf \<and>
     disciplinedDeletes R rejects planOf \<and> settledReady R acc rejects planOf"

text \<open>
  A world at rest: the API server, the connection and OpenBao keep giving the same answers, the
  object is live, carries its finalizer if it needs one, is acquired or adoptable, agrees with
  the desired fields, and its status records that very answer.
\<close>

definition atRest ::
  "('s, 'k, 'a ObjectMeta_scheme) SystemReconciler \<Rightarrow> ('a ObjectMeta_scheme, 'st) StatusAccess
     \<Rightarrow> ('a ObjectMeta_scheme \<Rightarrow> go_error option)
     \<Rightarrow> ('a ObjectMeta_scheme \<Rightarrow> ('s, 'k, 'a ObjectMeta_scheme, 'st) systemPlan)
     \<Rightarrow> NamespacedName \<Rightarrow> 'a ObjectMeta_scheme \<Rightarrow> OpenBaoConnection \<Rightarrow> anymap \<Rightarrow> bool" where
  "atRest R acc rejects planOf req ob conn m \<longleftrightarrow>
     rejects ob = None \<and>
     answers (k_Get (sr_Objects R) req) (Inr ob) \<and>
     answers (k_Get (sr_Connections R) (om_Namespace ob, connref_Name (sp_ConnectionRef (planOf ob)))) (Inr conn) \<and>
     IsStatusConditionTrue (sr_Lib R) (cnst_Conditions (cn_Status conn)) conditionReady \<and>
     (\<exists>k. answers (systemClientFor R conn) (Inr k) \<and> answers (sp_Get (planOf ob) ob k) (Inr (Some m))) \<and>
     notDeleted ob \<and>
     (IsDelete (sp_DeletionPolicy (planOf ob)) \<longrightarrow> ContainsFinalizer (sr_Lib R) (om_Finalizers ob) finalizerName) \<and>
     (\<exists>t1 t2 cur. ob = readySystemObject (sr_Float R) (planOf ob) m t1 t2 cur) \<and>
     sa_ObservedGeneration acc (sa_Status acc ob) = om_Generation ob \<and>
     (sp_Acquired (planOf ob) ob \<or> AllowsAdoption (sp_CreationPolicy (planOf ob))) \<and>
     (\<exists>d. sp_Desired (planOf ob) ob = Inr d \<and> systemDesiredFieldsMatch (sr_Float R) d m)"

definition quietAtRest ::
  "('s, 'k, 'a ObjectMeta_scheme) SystemReconciler \<Rightarrow> ('a ObjectMeta_scheme, 'st) StatusAccess
     \<Rightarrow> ('a ObjectMeta_scheme \<Rightarrow> go_error option)
     \<Rightarrow> ('a ObjectMeta_scheme \<Rightarrow> ('s, 'k, 'a ObjectMeta_scheme, 'st) systemPlan) \<Rightarrow> bool" where
  "quietAtRest R acc rejects planOf \<longleftrightarrow>
     (\<forall>req ob conn m s. atRest R acc rejects planOf req ob conn m \<longrightarrow>
        fst (system_run R rejects planOf req s) = (requeueIn (sp_DriftInterval (planOf ob)), None) \<and>
        system_trace R rejects planOf req s =
          [SObject (GotObject req (Inr ob)),
           SConnection (GotObject (om_Namespace ob, connref_Name (sp_ConnectionRef (planOf ob))) (Inr conn)),
           MadeSystemClient conn None, ReadSystem ob (Inr (Some m))])"

context system_kind
begin

lemma writes_disciplined: "disciplinedWrites R rejects planOf"
  unfolding disciplinedWrites_def by (intro allI writes_ok)

lemma deletes_disciplined: "disciplinedDeletes R rejects planOf"
  unfolding disciplinedDeletes_def by (intro allI deletes_ok)

lemma ready_settled: "settledReady R acc rejects planOf"
  unfolding settledReady_def by (intro conjI allI ready_ok ready_configHash)

lemma all_disciplined: "disciplined R acc rejects planOf"
  unfolding disciplined_def by (intro conjI writes_disciplined deletes_disciplined ready_settled)

lemma rest_quiet: "quietAtRest R acc rejects planOf"
  unfolding quietAtRest_def
proof (intro allI impI)
  fix req ob conn m s
  assume "atRest R acc rejects planOf req ob conn m"
  then obtain k t1 t2 cur d where
    h: "rejects ob = None" "answers (k_Get (sr_Objects R) req) (Inr ob)"
      "answers (k_Get (sr_Connections R) (om_Namespace ob, connref_Name (sp_ConnectionRef (planOf ob)))) (Inr conn)"
      "IsStatusConditionTrue (sr_Lib R) (cnst_Conditions (cn_Status conn)) conditionReady"
      "answers (systemClientFor R conn) (Inr k)" "answers (sp_Get (planOf ob) ob k) (Inr (Some m))" "notDeleted ob"
      "IsDelete (sp_DeletionPolicy (planOf ob)) \<longrightarrow> ContainsFinalizer (sr_Lib R) (om_Finalizers ob) finalizerName"
      "ob = readySystemObject (sr_Float R) (planOf ob) m t1 t2 cur"
      "sa_ObservedGeneration acc (sa_Status acc ob) = om_Generation ob"
      "sp_Acquired (planOf ob) ob \<or> AllowsAdoption (sp_CreationPolicy (planOf ob))"
      "sp_Desired (planOf ob) ob = Inr d" "systemDesiredFieldsMatch (sr_Float R) d m"
    unfolding atRest_def by blast
  have "system_run R rejects planOf req s =
    ((requeueIn (sp_DriftInterval (planOf ob)), None), fst (snd (system_run R rejects planOf req s)),
     [SObject (GotObject req (Inr ob)),
      SConnection (GotObject (om_Namespace ob, connref_Name (sp_ConnectionRef (planOf ob))) (Inr conn)),
      MadeSystemClient conn None, ReadSystem ob (Inr (Some m))])"
    by (rule settled_stable [where cur = cur and ob = ob]) (rule h)+
  then show
    "fst (system_run R rejects planOf req s) = (requeueIn (sp_DriftInterval (planOf ob)), None) \<and>
       system_trace R rejects planOf req s =
          [SObject (GotObject req (Inr ob)),
           SConnection (GotObject (om_Namespace ob, connref_Name (sp_ConnectionRef (planOf ob))) (Inr conn)),
           MadeSystemClient conn None, ReadSystem ob (Inr (Some m))]"
    unfolding system_trace_def by (metis fst_conv snd_conv)
qed

end


text \<open>
  C25. For every kind: in a world at rest a reconciliation reads the resource, the connection and
  the external object, writes nothing, and asks to be called again after the drift interval.
\<close>

theorem system_quiet_at_rest:
  "quietAtRest R1 authMethodAccess acceptAll (authMethodPlan (sr_Float R1)) \<and>
   quietAtRest R2 secretEngineAccess acceptAll (secretEnginePlan (sr_Float R2)) \<and>
   quietAtRest R3 namespaceAccess acceptAll (namespacePlan (sr_Float R3)) \<and>
   quietAtRest R4 auditDeviceAccess acceptAll (auditDevicePlan (sr_Float R4)) \<and>
   quietAtRest R5 rateLimitQuotaAccess acceptAll (rateLimitQuotaPlan (sr_Float R5)) \<and>
   quietAtRest R6 workflowAccess acceptAll (workflowPlan (sr_Float R6)) \<and>
   quietAtRest R7 pluginAccess acceptAll (pluginPlan (sr_Float R7)) \<and>
   quietAtRest R8 corsConfigurationAccess acceptAll (corsConfigurationPlan (sr_Float R8)) \<and>
   quietAtRest R9 auditRequestHeaderAccess acceptAll (auditRequestHeaderPlan (sr_Float R9)) \<and>
   quietAtRest R10 uiHeaderAccess acceptAll (uiHeaderPlan (sr_Float R10)) \<and>
   quietAtRest R11 quotaConfigurationAccess acceptAll (quotaConfigurationPlan (sr_Float R11)) \<and>
   quietAtRest R12 loggerAccess acceptAll (loggerPlan (sr_Float R12)) \<and>
   quietAtRest R13 encryptionKeyAccess (\<lambda>ob. rejectsRotation (eko_Spec ob)) encryptionKeyPlan \<and>
   quietAtRest R14 keyringRotationAccess (\<lambda>ob. rejectsRotation (kro_Spec ob)) keyringRotationPlan \<and>
   quietAtRest R15 mfaLoginEnforcementAccess acceptAll (mfaLoginEnforcementPlan visit)"
  by (intro conjI authMethod.rest_quiet secretEngine.rest_quiet namespace.rest_quiet auditDevice.rest_quiet rateLimitQuota.rest_quiet workflow.rest_quiet plugin.rest_quiet corsConfiguration.rest_quiet auditRequestHeader.rest_quiet uiHeader.rest_quiet quotaConfiguration.rest_quiet logger.rest_quiet encryptionKey.rest_quiet keyringRotation.rest_quiet mfaLoginEnforcement.rest_quiet)

section \<open>What is sent comes back as a match\<close>

definition sendableMap :: "anymap \<Rightarrow> bool" where
  "sendableMap m \<longleftrightarrow> fmpred (\<lambda>k v. sendable v) m"

lemma sendableMap_empty [simp]: "sendableMap fmempty"
  by (simp add: sendableMap_def)

lemma sendableMap_upd [simp, intro]: "sendableMap m \<Longrightarrow> sendable v \<Longrightarrow> sendableMap (fmupd k v m)"
  by (simp add: sendableMap_def fmpred_upd)

lemma sendableMap_put [simp]:
  "sendableMap m \<Longrightarrow> sendableMap (putString k s m)" "sendableMap m \<Longrightarrow> sendableMap (putBool k b m)"
  "sendableMap m \<Longrightarrow> sendableMap (putStringMap k sm m)" "sendableMap m \<Longrightarrow> sendableMap (putSlice k sl m)"
  "sendableMap m \<Longrightarrow> sendableMap (putCopy k sl m)" "sendableMap m \<Longrightarrow> sendableMap (putNonEmpty k sl m)"
  by (auto simp: put_defs split: option.splits)

lemma sendableMap_entries: "sendableMap m \<Longrightarrow> \<forall>(k, v) \<in> set (sorted_list_of_fmap m). sendable v"
  by (auto simp: sendableMap_def sorted_list_of_fmap_def fmpred_iff sorted_list_of_fset.rep_eq fmlookup_dom_iff)

lemma desired_sendable:
  "mountDesired spec1 = Inr d \<Longrightarrow> sendableMap d" "namespaceDesired spec2 = Inr d \<Longrightarrow> sendableMap d"
  "auditDeviceDesired spec3 = Inr d \<Longrightarrow> sendableMap d" "pluginDesired spec4 = Inr d \<Longrightarrow> sendableMap d"
  "corsDesired spec5 = Inr d \<Longrightarrow> sendableMap d" "auditRequestHeaderDesired spec6 = Inr d \<Longrightarrow> sendableMap d"
  "uiHeaderDesired spec7 = Inr d \<Longrightarrow> sendableMap d" "quotaConfigurationDesired spec8 = Inr d \<Longrightarrow> sendableMap d"
  "loggerDesired spec9 = Inr d \<Longrightarrow> sendableMap d"
  by (auto simp: mountDesired_def namespaceDesired_def auditDeviceDesired_def pluginDesired_def corsDesired_def
      auditRequestHeaderDesired_def uiHeaderDesired_def quotaConfigurationDesired_def loggerDesired_def Let_def
      split: if_splits)


definition corsExample :: OpenBaoCORSConfigurationSpec where
  "corsExample = \<lparr>cos_ConnectionRef = \<lparr>connref_Name = ''bao''\<rparr>, cos_Enable = Some True, cos_AllowCredentials = None,
     cos_AllowedHeaders = None, cos_AllowedOrigins = Some [''https://a'', ''https://b''], cos_CreationPolicy = '''',
     cos_DeletionPolicy = '''', cos_DriftDetectionInterval = None\<rparr>"


section \<open>Environments for the examples\<close>

text \<open>A client that fails every call; the examples replace what they use.\<close>

definition stubClient :: "'s SystemClient" where
  "stubClient =
     \<lparr>GetMFALoginEnforcement = (\<lambda>_. ret (Inl boom)), WriteMFALoginEnforcement = (\<lambda>_ _. ret (Some boom)),
      DeleteMFALoginEnforcement = (\<lambda>_. ret (Some boom)),
      GetCORSConfiguration = ret (Inl boom), WriteCORSConfiguration = (\<lambda>_. ret (Some boom)),
      DeleteCORSConfiguration = ret (Some boom),
      GetAuditRequestHeader = (\<lambda>_. ret (Inl boom)), WriteAuditRequestHeader = (\<lambda>_ _. ret (Some boom)),
      DeleteAuditRequestHeader = (\<lambda>_. ret (Some boom)),
      GetUIHeader = (\<lambda>_. ret (Inl boom)), WriteUIHeader = (\<lambda>_ _. ret (Some boom)),
      DeleteUIHeader = (\<lambda>_. ret (Some boom)),
      GetRateLimitQuotaConfiguration = ret (Inl boom), WriteRateLimitQuotaConfiguration = (\<lambda>_. ret (Some boom)),
      GetLogger = (\<lambda>_. ret (Inl boom)), WriteLogger = (\<lambda>_ _. ret (Some boom)), DeleteLogger = (\<lambda>_. ret (Some boom)),
      GetEncryptionKeyConfiguration = ret (Inl boom), WriteEncryptionKeyConfiguration = (\<lambda>_. ret (Some boom)),
      GetKeyringRotationConfiguration = ret (Inl boom), WriteKeyringRotationConfiguration = (\<lambda>_. ret (Some boom)),
      GetAuthMethod = (\<lambda>_. ret (Inl boom)), EnableAuthMethod = (\<lambda>_ _. ret (Some boom)),
      TuneAuthMethod = (\<lambda>_ _. ret (Some boom)), DisableAuthMethod = (\<lambda>_. ret (Some boom)),
      GetSecretEngine = (\<lambda>_. ret (Inl boom)), EnableSecretEngine = (\<lambda>_ _. ret (Some boom)),
      TuneSecretEngine = (\<lambda>_ _. ret (Some boom)), DisableSecretEngine = (\<lambda>_. ret (Some boom)),
      GetNamespace = (\<lambda>_. ret (Inl boom)), WriteNamespace = (\<lambda>_ _. ret (Some boom)),
      DeleteNamespace = (\<lambda>_. ret (Some boom)),
      GetAuditDevice = (\<lambda>_. ret (Inl boom)), WriteAuditDevice = (\<lambda>_ _. ret (Some boom)),
      DeleteAuditDevice = (\<lambda>_. ret (Some boom)),
      GetRateLimitQuota = (\<lambda>_. ret (Inl boom)), WriteRateLimitQuota = (\<lambda>_ _. ret (Some boom)),
      DeleteRateLimitQuota = (\<lambda>_. ret (Some boom)),
      GetWorkflow = (\<lambda>_. ret (Inl boom)), WriteWorkflow = (\<lambda>_ _. ret (Some boom)),
      DeleteWorkflow = (\<lambda>_. ret (Some boom)),
      GetPlugin = (\<lambda>_ _. ret (Inl boom)), WritePlugin = (\<lambda>_ _ _. ret (Some boom)),
      DeletePlugin = (\<lambda>_ _. ret (Some boom))\<rparr>"

definition constSystem ::
  "'a ObjectMeta_scheme \<Rightarrow> unit SystemClient \<Rightarrow> (unit, unit SystemClient, 'a ObjectMeta_scheme) SystemReconciler" where
  "constSystem ob c =
     \<lparr>sr_Lib = stdLib, sr_Float = intFloats, sr_Objects = constKube ob, sr_Connections = constKube readyConn,
      sr_Now = ret 9, sr_NewClient = Some (\<lambda>_. ret (Inr c)), sr_ClientCache = None,
      sr_connectionClientFor = (\<lambda>_. ret (Inl boom))\<rparr>"

text \<open>An audit request header whose specification names one header and whose status another.\<close>

definition exampleHeader :: "DeletionPolicy \<Rightarrow> string \<Rightarrow> int option \<Rightarrow> OpenBaoAuditRequestHeader" where
  "exampleHeader policy recorded deleted = \<lparr>om_Name = ''hdr'', om_Namespace = ''ns'', om_Generation = 2,
     om_Finalizers = [finalizerName], om_DeletionTimestamp = deleted,
     aho_Spec = \<lparr>ahs_ConnectionRef = \<lparr>connref_Name = ''bao''\<rparr>, ahs_Header = ''X-New'', ahs_HMAC = Some True,
       ahs_CreationPolicy = ''Create'', ahs_DeletionPolicy = policy, ahs_DriftDetectionInterval = None\<rparr>,
     aho_Status = \<lparr>aht_Header = recorded, aht_ConfigHash = '''', aht_ObservedGeneration = 2, aht_Conditions = []\<rparr>\<rparr>"

definition headerClient :: "bool \<Rightarrow> unit SystemClient" where
  "headerClient stored = stubClient
     \<lparr>GetAuditRequestHeader := (\<lambda>_. ret (Inr (Some (fmupd ''hmac'' (ABool stored) fmempty)))),
      DeleteAuditRequestHeader := (\<lambda>_. ret None)\<rparr>"

section \<open>Taking over what belongs to others\<close>


section \<open>Rotation configurations\<close>

definition exampleRotation :: "DeletionPolicy \<Rightarrow> int option \<Rightarrow> OpenBaoEncryptionKeyConfiguration" where
  "exampleRotation policy deleted = \<lparr>om_Name = ''rot'', om_Namespace = ''ns'', om_Generation = 1,
     om_Finalizers = [finalizerName], om_DeletionTimestamp = deleted,
     eko_Spec = \<lparr>rcs_ConnectionRef = \<lparr>connref_Name = ''bao''\<rparr>, rcs_Enabled = Some True, rcs_Interval = None,
       rcs_MaxOperations = None, rcs_CreationPolicy = '''', rcs_DeletionPolicy = policy,
       rcs_DriftDetectionInterval = None\<rparr>,
     eko_Status = \<lparr>rct_ConfigHash = ''recorded'', rct_ObservedGeneration = 1,
       rct_Conditions = [mkCondition conditionReady ConditionTrue reasonReconciled ''OpenBao resource is reconciled'' 1 3]\<rparr>\<rparr>"

definition rotationClient :: "unit SystemClient" where
  "rotationClient = stubClient
     \<lparr>GetEncryptionKeyConfiguration := ret (Inr (Some (fmupd ''enabled'' (ABool True) fmempty)))\<rparr>"

text \<open>
  A rotation configuration never counts as acquired: under the default creation policy a
  resource that is Ready and agrees with OpenBao is turned into a failure ("already exists") by
  the next reconciliation.  With deletion policy Delete its finalizer is never removed.
\<close>

theorem rotation_never_acquired:
  "(let R = constSystem (exampleRotation '''' None) rotationClient;
        rej = (\<lambda>ob. rejectsRotation (eko_Spec ob))
    in fst (system_run R rej encryptionKeyPlan (''ns'', ''rot'') ())
         = (noRequeue, Some (Errorf (''OpenBao resource '' @ fmt_q ''rot'' @
              '' already exists; set creationPolicy to Adopt or CreateOrAdopt to manage it''))) \<and>
       list_ex (\<lambda>e. case e of SObject (UpdatedStatus ob r) \<Rightarrow>
            \<not> IsStatusConditionTrue stdLib (rct_Conditions (eko_Status ob)) conditionReady | _ \<Rightarrow> False)
         (system_trace R rej encryptionKeyPlan (''ns'', ''rot'') ())) \<and>
   (let R = constSystem (exampleRotation ''Delete'' (Some 7)) rotationClient
    in \<not> list_ex (\<lambda>e. case e of SObject (UpdatedObject ob r) \<Rightarrow> True | _ \<Rightarrow> False)
         (system_trace R (\<lambda>ob. rejectsRotation (eko_Spec ob)) encryptionKeyPlan (''ns'', ''rot'') ()))"
  by code_simp

section \<open>Tuning of mounts\<close>

text \<open>The specification without the fields that only tuning applies.\<close>

definition untuned :: "OpenBaoMountSpec \<Rightarrow> OpenBaoMountSpec" where
  "untuned spec = spec\<lparr>ms_DefaultLeaseTTL := None, ms_MaxLeaseTTL := None, ms_ListingVisibility := '''',
     ms_TokenType := '''', ms_PassthroughRequestHeaders := None, ms_AllowedResponseHeaders := None\<rparr>"

lemma mountDesired_untuned: "mountDesired (untuned spec) = mountDesired spec"
  by (simp add: mountDesired_def untuned_def Let_def)

text \<open>
  Whether an existing auth method or secret engine is written depends on the fields its
  creation sends: only when one of those differs from what was read is the mount tuned.  A
  change or a drift of the lease times, the visibility, the token type or the headers alone is
  never applied.
\<close>

theorem mount_tuning_not_compared:
  "guarded (\<lambda>pre e. case e of
       WroteSystem ob d c r \<Rightarrow>
         c \<or> (mountDesired (untuned (am_Spec ob)) = Inr d \<and> differs (sr_Float R1) pre ob d)
     | _ \<Rightarrow> True) (system_trace R1 acceptAll (authMethodPlan (sr_Float R1)) req s1) \<and>
   guarded (\<lambda>pre e. case e of
       WroteSystem ob d c r \<Rightarrow>
         c \<or> (mountDesired (untuned (se_Spec ob)) = Inr d \<and> differs (sr_Float R2) pre ob d)
     | _ \<Rightarrow> True) (system_trace R2 acceptAll (secretEnginePlan (sr_Float R2)) req s2)"
  by (intro conjI guarded_mono [OF authMethod.writes_ok] guarded_mono [OF secretEngine.writes_ok])
     (auto simp: system_write_ok_def mountDesired_untuned authMethodPlan_def secretEnginePlan_def
       split: SystemEvent.splits)

section \<open>A world at rest\<close>

definition restHeader :: OpenBaoAuditRequestHeader where
  "restHeader = (let h = exampleHeader ''Orphan'' ''X-New'' None
     in readySystemObject intFloats (auditRequestHeaderPlan intFloats h ::
          (unit, unit SystemClient, OpenBaoAuditRequestHeader, OpenBaoAuditRequestHeaderStatus) systemPlan) (fmupd ''hmac'' (ABool True) fmempty) 3 3 h)"

lemma restHeader_atRest:
  "atRest (constSystem restHeader (headerClient True)) auditRequestHeaderAccess acceptAll
     (auditRequestHeaderPlan intFloats) (''ns'', ''hdr'') restHeader readyConn (fmupd ''hmac'' (ABool True) fmempty)"
proof -
  let ?m = "fmupd ''hmac'' (ABool True) fmempty" and ?h = "exampleHeader ''Orphan'' ''X-New'' None"
  have same: "readySystemObject intFloats (auditRequestHeaderPlan intFloats restHeader) ?m 3 3 ?h = restHeader"
    by (simp add: restHeader_def readySystemObject_def observeSystem_def auditRequestHeaderPlan_def Let_def)
  have "mapJson intFloats ?m = Some (JObj [(''hmac'', JBool True)])" by code_simp
  have match: "systemDesiredFieldsMatch intFloats ?m ?m" by code_simp
  have desired: "auditRequestHeaderDesired (aho_Spec restHeader) = Inr ?m"
    and fields: "om_Namespace restHeader = ''ns''" "om_Generation restHeader = 2" "om_DeletionTimestamp restHeader = None"
      "aht_ObservedGeneration (aho_Status restHeader) = 2" "aht_Header (aho_Status restHeader) = ''X-New''"
      "ahs_ConnectionRef (aho_Spec restHeader) = \<lparr>connref_Name = ''bao''\<rparr>"
      "ahs_DeletionPolicy (aho_Spec restHeader) = ''Orphan''" "ahs_Header (aho_Spec restHeader) = ''X-New''"
    by (simp_all add: restHeader_def readySystemObject_def observeSystem_def auditRequestHeaderPlan_def Let_def
        exampleHeader_def auditRequestHeaderAccess_def auditRequestHeaderDesired_def putBool_def TrimSpace_def
        TrimLeftFunc_def TrimRightFunc_def IsSpace_def)
  have ready: "IsStatusConditionTrue stdLib (cnst_Conditions (cn_Status readyConn)) conditionReady" by code_simp
  have plan: "sp_ConnectionRef (auditRequestHeaderPlan intFloats restHeader) = \<lparr>connref_Name = ''bao''\<rparr>"
    "\<not> IsDelete (sp_DeletionPolicy (auditRequestHeaderPlan intFloats restHeader))"
    "sp_Acquired (auditRequestHeaderPlan intFloats restHeader) restHeader"
    "sp_Desired (auditRequestHeaderPlan intFloats restHeader) restHeader = Inr ?m"
    using fields desired
    by (simp_all add: auditRequestHeaderPlan_def systemPolicies_def IsDelete_def DeletionPolicyDelete_def)
  have client: "answers (systemClientFor (constSystem restHeader (headerClient True)) readyConn) (Inr (headerClient True))"
    "answers (sp_Get (auditRequestHeaderPlan intFloats restHeader) restHeader (headerClient True)) (Inr (Some ?m))"
    by (simp_all add: systemClientFor_def constSystem_def clientForWith_def auditRequestHeaderPlan_def headerClient_def)
  show ?thesis
    unfolding atRest_def
    using plan client ready fields match same [symmetric]
    by (auto simp: acceptAll_def constSystem_def constKube_def notDeleted_def auditRequestHeaderAccess_def)
qed

theorem system_quiet_at_rest_witness:
  "system_trace (constSystem restHeader (headerClient True)) acceptAll (auditRequestHeaderPlan intFloats) (''ns'', ''hdr'') ()
     = [SObject (GotObject (''ns'', ''hdr'') (Inr restHeader)), SConnection (GotObject (''ns'', ''bao'') (Inr readyConn)),
        MadeSystemClient readyConn None, ReadSystem restHeader (Inr (Some (fmupd ''hmac'' (ABool True) fmempty)))]"
proof -
  let ?R = "constSystem restHeader (headerClient True)"
  have F: "sr_Float ?R = intFloats" by (simp add: constSystem_def)
  have at: "om_Namespace restHeader = ''ns''"
    "sp_ConnectionRef (auditRequestHeaderPlan intFloats restHeader ::
       (unit, unit SystemClient, OpenBaoAuditRequestHeader, OpenBaoAuditRequestHeaderStatus) systemPlan)
         = \<lparr>connref_Name = ''bao''\<rparr>"
    by (simp_all add: restHeader_def readySystemObject_def observeSystem_def auditRequestHeaderPlan_def Let_def
        exampleHeader_def auditRequestHeaderAccess_def)
  have quiet: "quietAtRest ?R auditRequestHeaderAccess acceptAll (auditRequestHeaderPlan intFloats)"
    using system_quiet_at_rest [where ?R9.0 = ?R] unfolding F by blast
  show ?thesis
    using quiet [unfolded quietAtRest_def, rule_format, OF restHeader_atRest] at by simp
qed

end
