(* ===== verification/OidcEngine.thy ===== *)
theory OidcEngine
  imports SystemEngine
begin

text \<open>
  The shared lifecycle of \<^verbatim>\<open>internal/controller/openbao/openbaooidc_controller.go\<close>:
  \<^verbatim>\<open>reconcileOIDCNamed\<close>, its comparison of desired and observed fields, and the
  singleton issuer configuration.  The conventions are those of \<open>SystemEngine\<close>; the
  controllers hold the same three fields, so \<open>SystemReconciler\<close> is used for them too.
\<close>

section \<open>The client and the plan\<close>

type_synonym OIDCObject = anymap

record 's OIDCClient =
  GetOIDCResource :: "string \<Rightarrow> string \<Rightarrow> ('s, go_error + OIDCObject option) state"
  WriteOIDCResource :: "string \<Rightarrow> string \<Rightarrow> OIDCObject \<Rightarrow> ('s, go_error option) state"
  DeleteOIDCResource :: "string \<Rightarrow> string \<Rightarrow> ('s, go_error option) state"
  GetOIDCConfig :: "('s, go_error + OIDCObject option) state"
  WriteOIDCConfig :: "OIDCObject \<Rightarrow> ('s, go_error option) state"

type_synonym ('s, 'o) OIDCReconciler = "('s, 's OIDCClient, 'o) SystemReconciler"

record ('o, 'st) oidcNamedPlan =
  op_ConnectionRef :: OpenBaoConnectionReference
  op_CreationPolicy :: CreationPolicy
  op_DeletionPolicy :: DeletionPolicy
  op_DriftInterval :: int
  op_Resource :: string
  op_Name :: string
  op_Desired :: "'o \<Rightarrow> go_error + OIDCObject"
  op_Status :: "('o, 'st) StatusAccess"
  op_StatusName :: "'st \<Rightarrow> string"
  op_setStatusName :: "string \<Rightarrow> 'st \<Rightarrow> 'st"
  op_ConfigHash :: "'st \<Rightarrow> string"
  op_setConfigHash :: "string \<Rightarrow> 'st \<Rightarrow> 'st"
  op_Before :: 'st

section \<open>Comparison and hash\<close>

text \<open>
  Lists are sorted before they are compared: a \<^verbatim>\<open>[]string\<close> by its elements, a
  \<^verbatim>\<open>[]any\<close> by the JSON text of its elements.  The dynamic type is kept.
\<close>

definition jsonOrEmpty :: "FloatLib \<Rightarrow> any \<Rightarrow> string" where
  "jsonOrEmpty F v = (case Marshal F v of None \<Rightarrow> '''' | Some t \<Rightarrow> t)"

fun canonicalOIDCValue :: "FloatLib \<Rightarrow> any \<Rightarrow> any" where
  "canonicalOIDCValue F (AStrings typed) = AStrings (append_nil (sort (elems typed)))"
| "canonicalOIDCValue F (AList typed) = AList (sort_key (jsonOrEmpty F) (map (canonicalOIDCValue F) typed))"
| "canonicalOIDCValue F v = v"

text \<open>
  \<^verbatim>\<open>reflect.DeepEqual\<close> compares dynamic types first, as equality of \<open>any\<close> does; the
  desired side holds no floats.
\<close>

definition oidcDesiredFieldsMatch :: "FloatLib \<Rightarrow> OIDCObject \<Rightarrow> OIDCObject \<Rightarrow> bool" where
  "oidcDesiredFieldsMatch F desired observed \<longleftrightarrow>
     list_all (\<lambda>(key, desiredValue). case fmlookup observed key of
        None \<Rightarrow> False
      | Some observedValue \<Rightarrow> canonicalOIDCValue F desiredValue = canonicalOIDCValue F observedValue)
     (sorted_list_of_fmap desired)"

text \<open>The canonical form of an object is the object itself: it is neither kind of list.\<close>

definition oidcConfigHash :: "FloatLib \<Rightarrow> OIDCObject option \<Rightarrow> string" where
  "oidcConfigHash F ob = (case (case ob of None \<Rightarrow> Some JNull | Some m \<Rightarrow> mapJson F m) of
      None \<Rightarrow> '''' | Some data \<Rightarrow> sha256_hex (jsonText data))"

definition oidcOptionalDuration :: "int option \<Rightarrow> string \<Rightarrow> go_error + int option" where
  "oidcOptionalDuration value fieldName = (case value of
      None \<Rightarrow> Inr None
    | Some d \<Rightarrow> map_sum id Some (durationSeconds value fieldName))"

definition oidcStrings :: "string slice \<Rightarrow> string \<Rightarrow> go_error + string list" where
  "oidcStrings values fieldName =
     (let result = map TrimSpace (elems values)
      in if '''' \<in> set result then Inl (Errorf (fieldName @ '' must not contain empty values''))
         else Inr (Compact (sort result)))"

definition oidcResourcePolicies :: "CreationPolicy \<Rightarrow> DeletionPolicy \<Rightarrow> CreationPolicy \<times> DeletionPolicy" where
  "oidcResourcePolicies creation deletion =
     (if creation = '''' then CreationPolicyCreate else creation,
      if deletion = '''' then DeletionPolicyOrphan else deletion)"

definition oidcDrift :: "int option \<Rightarrow> int" where
  "oidcDrift duration = (case duration of None \<Rightarrow> defaultDriftCheck | Some d \<Rightarrow> d)"

section \<open>Failure paths\<close>

definition oidcClientFor ::
  "('s, 'o) OIDCReconciler \<Rightarrow> OpenBaoConnection \<Rightarrow> ('s, go_error + 's OIDCClient) state" where
  "oidcClientFor R connection =
     clientForWith (sr_NewClient R) (sr_ClientCache R) (sr_connectionClientFor R) connection"

definition oidcFailure ::
  "('s, 'a ObjectMeta_scheme) OIDCReconciler \<Rightarrow> ('a ObjectMeta_scheme, 'st) oidcNamedPlan
     \<Rightarrow> 'a ObjectMeta_scheme \<Rightarrow> string \<Rightarrow> go_error \<Rightarrow> ('s, outcome) state" where
  "oidcFailure R plan object reason err = do {
     t \<leftarrow> sr_Now R;
     let acc = op_Status plan;
     let st = sa_Status acc object;
     let current = sa_setConditions acc
           (markError (sa_Conditions acc st) (om_Generation object) reason (Some err) t) st;
     endWithStatus (k_StatusUpdate (sr_Objects R)) (sa_setStatus acc current object)
       (op_Before plan) current (noRequeue, Some err)
   }"

definition oidcDependencyFailure ::
  "('s, 'a ObjectMeta_scheme) OIDCReconciler \<Rightarrow> ('a ObjectMeta_scheme, 'st) oidcNamedPlan
     \<Rightarrow> 'a ObjectMeta_scheme \<Rightarrow> go_error \<Rightarrow> ('s, outcome) state" where
  "oidcDependencyFailure R plan object err = do {
     t1 \<leftarrow> sr_Now R;
     t2 \<leftarrow> sr_Now R;
     let acc = op_Status plan;
     let st = sa_Status acc object;
     let current = sa_setConditions acc (markStalled (sa_Conditions acc st) (om_Generation object)
           ''DependencyNotReady'' (Some err) t1 t2) st;
     endWithStatus (k_StatusUpdate (sr_Objects R)) (sa_setStatus acc current object)
       (op_Before plan) current (requeueIn dependencyRetry, None)
   }"

section \<open>reconcileOIDCNamed\<close>

definition reconcileOIDCDeletion ::
  "('s, 'a ObjectMeta_scheme) OIDCReconciler \<Rightarrow> ('a ObjectMeta_scheme, 'st) oidcNamedPlan
     \<Rightarrow> 'a ObjectMeta_scheme \<Rightarrow> ('s, outcome) state" where
  "reconcileOIDCDeletion R plan object =
     (let dropFinalizer = do {
            e \<leftarrow> removeFinalizer (sr_Lib R) (k_Update (sr_Objects R)) object;
            ret (noRequeue, e)
          };
          cleanupFailed = recordCleanupFailure (op_Status plan) (sr_Now R) (k_StatusUpdate (sr_Objects R))
            object (op_Before plan)
      in if op_DeletionPolicy plan \<noteq> DeletionPolicyDelete then dropFinalizer
         else do {
           r \<leftarrow> resolveConnection (sr_Connections R) (om_Namespace object) (op_ConnectionRef plan);
           case r of
             Inl err \<Rightarrow> cleanupFailed reasonCleanupDependencyUnavailable
               (cleanupDependencyError ''OpenBaoConnection'' err)
           | Inr connection \<Rightarrow> do {
               c \<leftarrow> oidcClientFor R connection;
               case c of
                 Inl err \<Rightarrow> cleanupFailed reasonCleanupDependencyUnavailable
                   (cleanupDependencyError ''OpenBaoConnection credentials'' err)
               | Inr apiClient \<Rightarrow> do {
                   d \<leftarrow> DeleteOIDCResource apiClient (op_Resource plan) (op_Name plan);
                   case d of
                     None \<Rightarrow> dropFinalizer
                   | Some err \<Rightarrow>
                       if \<not> isNotFound (sr_Lib R) err then cleanupFailed ''CleanupFailed'' err
                       else dropFinalizer
                 }
             }
         })"

definition readyOIDCObject ::
  "FloatLib \<Rightarrow> ('a ObjectMeta_scheme, 'st) oidcNamedPlan \<Rightarrow> OIDCObject option \<Rightarrow> int \<Rightarrow> int
     \<Rightarrow> 'a ObjectMeta_scheme \<Rightarrow> 'a ObjectMeta_scheme" where
  "readyOIDCObject F plan observed t1 t2 object =
     (let acc = op_Status plan;
          st = op_setConfigHash plan (oidcConfigHash F observed)
                 (op_setStatusName plan (op_Name plan) (sa_Status acc object))
      in sa_setStatus acc (sa_setConditions acc (markReady (sa_Conditions acc st) (om_Generation object)
           (''OpenBao OIDC '' @ op_Resource plan @ '' is reconciled'') t1 t2) st) object)"

text \<open>The end: what was read last is recorded, nil or not.\<close>

definition finishOIDC ::
  "('s, 'a ObjectMeta_scheme) OIDCReconciler \<Rightarrow> ('a ObjectMeta_scheme, 'st) oidcNamedPlan
     \<Rightarrow> 'a ObjectMeta_scheme \<Rightarrow> OIDCObject option \<Rightarrow> ('s, outcome) state" where
  "finishOIDC R plan object observed = do {
     t1 \<leftarrow> sr_Now R;
     t2 \<leftarrow> sr_Now R;
     let object = readyOIDCObject (sr_Float R) plan observed t1 t2 object;
     endWithStatus (k_StatusUpdate (sr_Objects R)) object (op_Before plan)
       (sa_Status (op_Status plan) object) (requeueIn (op_DriftInterval plan), None)
   }"

text \<open>Write the desired fields and read back; the same on creation and on drift.\<close>

definition writeOIDC ::
  "('s, 'a ObjectMeta_scheme) OIDCReconciler \<Rightarrow> ('a ObjectMeta_scheme, 'st) oidcNamedPlan
     \<Rightarrow> 's OIDCClient \<Rightarrow> 'a ObjectMeta_scheme \<Rightarrow> OIDCObject
     \<Rightarrow> (OIDCObject option \<Rightarrow> ('s, outcome) state) \<Rightarrow> ('s, outcome) state" where
  "writeOIDC R plan apiClient object desired continue = do {
     w \<leftarrow> WriteOIDCResource apiClient (op_Resource plan) (op_Name plan) desired;
     case w of
       Some err \<Rightarrow> oidcFailure R plan object ''OIDCWriteFailed'' err
     | None \<Rightarrow> do {
         g \<leftarrow> GetOIDCResource apiClient (op_Resource plan) (op_Name plan);
         case g of
           Inl err \<Rightarrow> oidcFailure R plan object ''OIDCReadFailed'' err
         | Inr observed \<Rightarrow> continue observed
       }
   }"

definition applyOIDC ::
  "('s, 'a ObjectMeta_scheme) OIDCReconciler \<Rightarrow> ('a ObjectMeta_scheme, 'st) oidcNamedPlan
     \<Rightarrow> 's OIDCClient \<Rightarrow> 'a ObjectMeta_scheme \<Rightarrow> OIDCObject option \<Rightarrow> ('s, outcome) state" where
  "applyOIDC R plan apiClient object observed = (case observed of
      None \<Rightarrow> oidcFailure R plan object ''InvalidOpenBaoResponse''
        (Errorf (''OpenBao returned no OIDC '' @ op_Resource plan @ '' '' @ fmt_q (op_Name plan)))
    | Some m \<Rightarrow> (case op_Desired plan object of
        Inl err \<Rightarrow> oidcFailure R plan object ''InvalidOIDCSpec'' err
      | Inr desired \<Rightarrow>
          if \<not> oidcDesiredFieldsMatch (sr_Float R) desired m
          then writeOIDC R plan apiClient object desired (finishOIDC R plan object)
          else finishOIDC R plan object observed))"

definition acquireOIDC ::
  "('s, 'a ObjectMeta_scheme) OIDCReconciler \<Rightarrow> ('a ObjectMeta_scheme, 'st) oidcNamedPlan
     \<Rightarrow> 's OIDCClient \<Rightarrow> 'a ObjectMeta_scheme \<Rightarrow> ('s, outcome) state" where
  "acquireOIDC R plan apiClient object = do {
     g \<leftarrow> GetOIDCResource apiClient (op_Resource plan) (op_Name plan);
     case g of
       Inl err \<Rightarrow>
         if \<not> isNotFound (sr_Lib R) err then oidcFailure R plan object ''OIDCReadFailed'' err
         else if \<not> AllowsCreation (op_CreationPolicy plan) then
           oidcFailure R plan object ''OIDCAcquireFailed''
             (Errorf (''OpenBao OIDC '' @ op_Resource plan @ '' '' @ fmt_q (op_Name plan) @
                '' does not exist and creationPolicy='' @ op_CreationPolicy plan @ '' does not allow creation''))
         else (case op_Desired plan object of
             Inl desiredErr \<Rightarrow> oidcFailure R plan object ''InvalidOIDCSpec'' desiredErr
           | Inr desired \<Rightarrow> writeOIDC R plan apiClient object desired (applyOIDC R plan apiClient object))
     | Inr observed \<Rightarrow>
         if op_StatusName plan (sa_Status (op_Status plan) object) = ''''
            \<and> \<not> AllowsAdoption (op_CreationPolicy plan) then
           oidcFailure R plan object ''OIDCAcquireFailed''
             (Errorf (''OpenBao OIDC '' @ op_Resource plan @ '' '' @ fmt_q (op_Name plan) @
                '' already exists; set creationPolicy to Adopt or CreateOrAdopt to manage it''))
         else applyOIDC R plan apiClient object observed
   }"

definition reconcileOIDCActive ::
  "('s, 'a ObjectMeta_scheme) OIDCReconciler \<Rightarrow> ('a ObjectMeta_scheme, 'st) oidcNamedPlan
     \<Rightarrow> 'a ObjectMeta_scheme \<Rightarrow> ('s, outcome) state" where
  "reconcileOIDCActive R plan object = do {
     let object = stampGeneration (op_Status plan) object;
     r \<leftarrow> resolveConnection (sr_Connections R) (om_Namespace object) (op_ConnectionRef plan);
     case r of
       Inl err \<Rightarrow> oidcDependencyFailure R plan object
         (Wrapf (''read OpenBaoConnection '' @ om_Namespace object @ ''/'' @ connref_Name (op_ConnectionRef plan)) err)
     | Inr connection \<Rightarrow>
         if \<not> IsStatusConditionTrue (sr_Lib R) (cnst_Conditions (cn_Status connection)) conditionReady then
           oidcDependencyFailure R plan object
             (dependencyMessage ''OpenBaoConnection'' (ObjectKey connection) None)
         else do {
           c \<leftarrow> oidcClientFor R connection;
           case c of
             Inl err \<Rightarrow> oidcDependencyFailure R plan object err
           | Inr apiClient \<Rightarrow> acquireOIDC R plan apiClient object
         }
   }"

definition reconcileOIDCNamed ::
  "('s, 'a ObjectMeta_scheme) OIDCReconciler \<Rightarrow> ('a ObjectMeta_scheme, 'st) oidcNamedPlan
     \<Rightarrow> 'a ObjectMeta_scheme \<Rightarrow> ('s, outcome) state" where
  "reconcileOIDCNamed R plan object = do {
     f \<leftarrow> (if notDeleted object \<and> IsDelete (op_DeletionPolicy plan)
          then ensureFinalizer (sr_Lib R) (k_Update (sr_Objects R)) object
          else ret (Inr object));
     case f of
       Inl err \<Rightarrow> ret (noRequeue, Some err)
     | Inr object \<Rightarrow>
         if \<not> notDeleted object then reconcileOIDCDeletion R plan object
         else reconcileOIDCActive R plan object
   }"

definition reconcileOIDCKind ::
  "('s, 'a ObjectMeta_scheme) OIDCReconciler
     \<Rightarrow> ('a ObjectMeta_scheme \<Rightarrow> ('a ObjectMeta_scheme, 'st) oidcNamedPlan)
     \<Rightarrow> NamespacedName \<Rightarrow> ('s, outcome) state" where
  "reconcileOIDCKind R planOf req = withObject R req (\<lambda>object. reconcileOIDCNamed R (planOf object) object)"

end
