(* ===== verification/OidcLifecycle.thy ===== *)
theory OidcLifecycle
  imports OidcEngine SystemLifecycle
begin

text \<open>
  What \<^verbatim>\<open>reconcileOIDCNamed\<close> may do with any plan: the trace theorems of the
  OIDC kinds, in the manner of \<open>SystemLifecycle\<close>.  The plan of a kind makes no calls itself;
  the client does, under the resource and the name the plan holds.  The contract a kind's plans
  fulfil is the locale \<open>oidc_kind\<close>, interpreted for every kind in \<open>OidcKinds\<close>.
\<close>

section \<open>Observing a run\<close>

datatype 'o OIDCEvent =
    OObject "'o KubeEvent"
  | OConnection "OpenBaoConnection KubeEvent"
  | MadeOIDCClient OpenBaoConnection "go_error option"
  | ReadOIDC string string "go_error + OIDCObject option"
  | WroteOIDC string string OIDCObject "go_error option"
  | DeletedOIDC string string "go_error option"
  | ReadOIDCConfig "go_error + OIDCObject option"
  | WroteOIDCConfig OIDCObject "go_error option"

definition logOIDCClient :: "'s OIDCClient \<Rightarrow> ('s \<times> 'o OIDCEvent list) OIDCClient" where
  "logOIDCClient c =
     \<lparr>GetOIDCResource = (\<lambda>r n. logged (ReadOIDC r n) (GetOIDCResource c r n)),
      WriteOIDCResource = (\<lambda>r n m. logged (WroteOIDC r n m) (WriteOIDCResource c r n m)),
      DeleteOIDCResource = (\<lambda>r n. logged (DeletedOIDC r n) (DeleteOIDCResource c r n)),
      GetOIDCConfig = logged ReadOIDCConfig (GetOIDCConfig c),
      WriteOIDCConfig = (\<lambda>m. logged (WroteOIDCConfig m) (WriteOIDCConfig c m))\<rparr>"

lemma logOIDCClient_sel [simp]:
  "GetOIDCResource (logOIDCClient c) r n = logged (ReadOIDC r n) (GetOIDCResource c r n)"
  "WriteOIDCResource (logOIDCClient c) r n m = logged (WroteOIDC r n m) (WriteOIDCResource c r n m)"
  "DeleteOIDCResource (logOIDCClient c) r n = logged (DeletedOIDC r n) (DeleteOIDCResource c r n)"
  "GetOIDCConfig (logOIDCClient c) = logged ReadOIDCConfig (GetOIDCConfig c)"
  "WriteOIDCConfig (logOIDCClient c) m = logged (WroteOIDCConfig m) (WriteOIDCConfig c m)"
  by (simp_all add: logOIDCClient_def)

definition logOIDCReconciler :: "('s, 'o) OIDCReconciler \<Rightarrow> ('s \<times> 'o OIDCEvent list, 'o) OIDCReconciler" where
  "logOIDCReconciler R =
     \<lparr>sr_Lib = sr_Lib R, sr_Float = sr_Float R,
      sr_Objects = logKube OObject (sr_Objects R),
      sr_Connections = logKube OConnection (sr_Connections R),
      sr_Now = silent (sr_Now R),
      sr_NewClient = map_option (logClientFor MadeOIDCClient logOIDCClient) (sr_NewClient R),
      sr_ClientCache = map_option (logClientFor MadeOIDCClient logOIDCClient) (sr_ClientCache R),
      sr_connectionClientFor = logClientFor MadeOIDCClient logOIDCClient (sr_connectionClientFor R)\<rparr>"

lemma logOIDCReconciler_sel [simp]:
  "sr_Lib (logOIDCReconciler R) = sr_Lib R" "sr_Float (logOIDCReconciler R) = sr_Float R"
  "sr_Objects (logOIDCReconciler R) = logKube OObject (sr_Objects R)"
  "sr_Connections (logOIDCReconciler R) = logKube OConnection (sr_Connections R)"
  "sr_Now (logOIDCReconciler R) = silent (sr_Now R)"
  by (simp_all add: logOIDCReconciler_def)

lemma wp_oidcClientForI:
  assumes "\<And>e s'. Q (Inl e) (s', tr @ [MadeOIDCClient connection (Some e)])"
    and "\<And>c s'. Q (Inr (logOIDCClient c)) (s', tr @ [MadeOIDCClient connection None])"
  shows "wp (oidcClientFor (logOIDCReconciler R) connection) Q (s, tr)"
  unfolding oidcClientFor_def logOIDCReconciler_def SystemReconciler.simps
  by (intro wp_clientForWithI assms(1)) (simp add: assms(2))

definition oidc_run ::
  "('s, 'a ObjectMeta_scheme) OIDCReconciler
     \<Rightarrow> ('a ObjectMeta_scheme \<Rightarrow> ('a ObjectMeta_scheme, 'st) oidcNamedPlan)
     \<Rightarrow> NamespacedName \<Rightarrow> 's \<Rightarrow> outcome \<times> 's \<times> 'a ObjectMeta_scheme OIDCEvent list" where
  "oidc_run R planOf req s = run_state (reconcileOIDCKind (logOIDCReconciler R) planOf req) (s, [])"

definition oidc_trace ::
  "('s, 'a ObjectMeta_scheme) OIDCReconciler
     \<Rightarrow> ('a ObjectMeta_scheme \<Rightarrow> ('a ObjectMeta_scheme, 'st) oidcNamedPlan)
     \<Rightarrow> NamespacedName \<Rightarrow> 's \<Rightarrow> 'a ObjectMeta_scheme OIDCEvent list" where
  "oidc_trace R planOf req s = snd (snd (oidc_run R planOf req s))"

section \<open>What justifies a call\<close>

definition wasRead :: "'o OIDCEvent list \<Rightarrow> 'o \<Rightarrow> bool" where
  "wasRead pre orig \<longleftrightarrow> (\<exists>nn. OObject (GotObject nn (Inr orig)) \<in> set pre)"

definition activeOIDC ::
  "KubeLib \<Rightarrow> ('a ObjectMeta_scheme, 'st) oidcNamedPlan \<Rightarrow> 'a ObjectMeta_scheme OIDCEvent list
     \<Rightarrow> 'a ObjectMeta_scheme \<Rightarrow> bool" where
  "activeOIDC L plan pre ob \<longleftrightarrow> (\<exists>cur.
     live L OObject OConnection (\<lambda>_. IsDelete (op_DeletionPolicy plan)) pre cur \<and>
     ob = stampGeneration (op_Status plan) cur)"

definition readOIDC :: "('o, 'st) oidcNamedPlan \<Rightarrow> go_error + OIDCObject option \<Rightarrow> 'o OIDCEvent" where
  "readOIDC plan = ReadOIDC (op_Resource plan) (op_Name plan)"

definition wroteOIDC :: "('o, 'st) oidcNamedPlan \<Rightarrow> OIDCObject \<Rightarrow> go_error option \<Rightarrow> 'o OIDCEvent" where
  "wroteOIDC plan = WroteOIDC (op_Resource plan) (op_Name plan)"

text \<open>
  The named object is this resource's: a first read found none and it may be created, or a read
  found one and the status names an object already, or it may be adopted.
\<close>

definition entitledOIDC ::
  "KubeLib \<Rightarrow> ('o, 'st) oidcNamedPlan \<Rightarrow> 'o OIDCEvent list \<Rightarrow> 'o \<Rightarrow> bool" where
  "entitledOIDC L plan pre ob \<longleftrightarrow>
     (AllowsCreation (op_CreationPolicy plan) \<and>
        (\<exists>err. readOIDC plan (Inl err) \<in> set pre \<and> isNotFound L err)) \<or>
     ((op_StatusName plan (sa_Status (op_Status plan) ob) \<noteq> '''' \<or> AllowsAdoption (op_CreationPolicy plan)) \<and>
        (\<exists>m. readOIDC plan (Inr m) \<in> set pre))"

text \<open>A reason to write: the object is missing, or what was read differs from the desired fields.\<close>

definition missingOrDiffers ::
  "KubeLib \<Rightarrow> FloatLib \<Rightarrow> ('o, 'st) oidcNamedPlan \<Rightarrow> 'o OIDCEvent list \<Rightarrow> OIDCObject \<Rightarrow> bool" where
  "missingOrDiffers L F plan pre desired \<longleftrightarrow>
     (\<exists>err. readOIDC plan (Inl err) \<in> set pre \<and> isNotFound L err) \<or>
     (\<exists>m. readOIDC plan (Inr (Some m)) \<in> set pre \<and> \<not> oidcDesiredFieldsMatch F desired m)"

text \<open>What was observed last agreed with the desired fields, or was read after an accepted write of them.\<close>

definition settledOIDC ::
  "FloatLib \<Rightarrow> ('o, 'st) oidcNamedPlan \<Rightarrow> 'o OIDCEvent list \<Rightarrow> 'o \<Rightarrow> OIDCObject option \<Rightarrow> bool" where
  "settledOIDC F plan pre ob observed \<longleftrightarrow> (\<exists>desired. op_Desired plan ob = Inr desired \<and>
     readOIDC plan (Inr observed) \<in> set pre \<and>
     ((\<exists>m. observed = Some m \<and> oidcDesiredFieldsMatch F desired m) \<or> wroteOIDC plan desired None \<in> set pre))"

fun oidcDeletionConfirmed :: "KubeLib \<Rightarrow> 'o OIDCEvent \<Rightarrow> bool" where
  "oidcDeletionConfirmed L (DeletedOIDC r n d) = confirmedGone L d"
| "oidcDeletionConfirmed L e = False"

definition oidc_write_ok ::
  "KubeLib \<Rightarrow> FloatLib \<Rightarrow> ('a ObjectMeta_scheme \<Rightarrow> ('a ObjectMeta_scheme, 'st) oidcNamedPlan)
     \<Rightarrow> 'a ObjectMeta_scheme OIDCEvent list \<Rightarrow> 'a ObjectMeta_scheme OIDCEvent \<Rightarrow> bool" where
  "oidc_write_ok L F planOf pre e = (case e of
      WroteOIDC r n desired res \<Rightarrow>
        (\<exists>orig ob. wasRead pre orig \<and> r = op_Resource (planOf orig) \<and> n = op_Name (planOf orig) \<and>
           activeOIDC L (planOf orig) pre ob \<and> op_Desired (planOf orig) ob = Inr desired \<and>
           entitledOIDC L (planOf orig) pre ob \<and> missingOrDiffers L F (planOf orig) pre desired)
    | WroteOIDCConfig m res \<Rightarrow> False
    | _ \<Rightarrow> True)"

definition oidc_delete_ok ::
  "KubeLib \<Rightarrow> ('a ObjectMeta_scheme \<Rightarrow> ('a ObjectMeta_scheme, 'st) oidcNamedPlan)
     \<Rightarrow> 'a ObjectMeta_scheme OIDCEvent list \<Rightarrow> 'a ObjectMeta_scheme OIDCEvent \<Rightarrow> bool" where
  "oidc_delete_ok L planOf pre e = (case e of
      DeletedOIDC r n res \<Rightarrow>
        (\<exists>orig ob. wasRead pre orig \<and> r = op_Resource (planOf orig) \<and> n = op_Name (planOf orig) \<and>
           seen OObject pre ob \<and> \<not> notDeleted ob \<and> op_DeletionPolicy (planOf orig) = DeletionPolicyDelete)
    | OObject (UpdatedObject ob r) \<Rightarrow>
        (\<exists>orig. wasRead pre orig \<and>
           finalizerWrite L OObject (\<lambda>_. IsDelete (op_DeletionPolicy (planOf orig)))
             (\<lambda>_. op_DeletionPolicy (planOf orig) \<noteq> DeletionPolicyDelete \<or>
               list_ex (oidcDeletionConfirmed L) pre) pre ob)
    | _ \<Rightarrow> True)"

definition oidc_ready_ok ::
  "KubeLib \<Rightarrow> FloatLib \<Rightarrow> ('a ObjectMeta_scheme, 'st) StatusAccess
     \<Rightarrow> ('a ObjectMeta_scheme \<Rightarrow> ('a ObjectMeta_scheme, 'st) oidcNamedPlan)
     \<Rightarrow> 'a ObjectMeta_scheme OIDCEvent list \<Rightarrow> 'a ObjectMeta_scheme OIDCEvent \<Rightarrow> bool" where
  "oidc_ready_ok L F acc planOf pre e = (case e of
      OObject (UpdatedStatus ob r) \<Rightarrow> readyTrue (sa_Conditions acc (sa_Status acc ob)) \<longrightarrow>
        (\<exists>orig cur observed t1 t2. wasRead pre orig \<and> activeOIDC L (planOf orig) pre cur \<and>
           entitledOIDC L (planOf orig) pre cur \<and> settledOIDC F (planOf orig) pre cur observed \<and>
           ob = readyOIDCObject F (planOf orig) observed t1 t2 cur)
    | _ \<Rightarrow> True)"

definition oidc_justified ::
  "KubeLib \<Rightarrow> FloatLib \<Rightarrow> ('a ObjectMeta_scheme, 'st) StatusAccess
     \<Rightarrow> ('a ObjectMeta_scheme \<Rightarrow> ('a ObjectMeta_scheme, 'st) oidcNamedPlan)
     \<Rightarrow> 'a ObjectMeta_scheme OIDCEvent list \<Rightarrow> 'a ObjectMeta_scheme OIDCEvent \<Rightarrow> bool" where
  "oidc_justified L F acc planOf pre e \<longleftrightarrow> oidc_write_ok L F planOf pre e \<and>
     oidc_delete_ok L planOf pre e \<and> oidc_ready_ok L F acc planOf pre e"

lemmas oidc_justified_defs = oidc_justified_def oidc_write_ok_def oidc_delete_ok_def oidc_ready_ok_def

text \<open>Facts about the past survive later calls.\<close>

lemma wasRead_mono [simp]: "wasRead pre orig \<Longrightarrow> wasRead (pre @ es) orig"
  by (auto simp: wasRead_def)

lemma activeOIDC_mono [simp]: "activeOIDC L plan pre ob \<Longrightarrow> activeOIDC L plan (pre @ es) ob"
  unfolding activeOIDC_def by (blast intro: live_mono)

lemma entitledOIDC_mono [simp]: "entitledOIDC L plan pre ob \<Longrightarrow> entitledOIDC L plan (pre @ es) ob"
  by (auto simp: entitledOIDC_def)

lemma oidc_justified_reads [simp]:
  "oidc_justified L F acc planOf pre (OObject (GotObject nn r))"
  "oidc_justified L F acc planOf pre (OConnection k)"
  "oidc_justified L F acc planOf pre (MadeOIDCClient c e)"
  "oidc_justified L F acc planOf pre (ReadOIDC res n g)"
  by (simp_all add: oidc_justified_defs)

lemma oidc_justified_notReady:
  "\<not> readyTrue (sa_Conditions acc (sa_Status acc ob)) \<Longrightarrow>
     oidc_justified L F acc planOf pre (OObject (UpdatedStatus ob r))"
  by (simp add: oidc_justified_defs)

lemma oidc_justified_Write:
  "wasRead pre orig \<Longrightarrow> activeOIDC L (planOf orig) pre ob \<Longrightarrow> op_Desired (planOf orig) ob = Inr desired
     \<Longrightarrow> entitledOIDC L (planOf orig) pre ob \<Longrightarrow> missingOrDiffers L F (planOf orig) pre desired
     \<Longrightarrow> oidc_justified L F acc planOf pre (WroteOIDC (op_Resource (planOf orig)) (op_Name (planOf orig)) desired r)"
  by (auto simp: oidc_justified_defs)

lemma oidc_justified_Delete:
  "wasRead pre orig \<Longrightarrow> seen OObject pre ob \<Longrightarrow> \<not> notDeleted ob
     \<Longrightarrow> op_DeletionPolicy (planOf orig) = DeletionPolicyDelete
     \<Longrightarrow> oidc_justified L F acc planOf pre (DeletedOIDC (op_Resource (planOf orig)) (op_Name (planOf orig)) r)"
  by (auto simp: oidc_justified_defs)

lemma oidc_justified_addFinalizer:
  assumes "wasRead pre orig" "seen OObject pre ob" "notDeleted ob" "IsDelete (op_DeletionPolicy (planOf orig))"
  shows "oidc_justified L F acc planOf pre (OObject (UpdatedObject
           (ob\<lparr>om_Finalizers := AddFinalizer L (om_Finalizers ob) finalizerName\<rparr>) r))"
  using assms finalizerWrite_add [of OObject pre ob "\<lambda>_. IsDelete (op_DeletionPolicy (planOf orig))" L]
  by (auto simp: oidc_justified_defs)

lemma oidc_justified_dropFinalizer:
  assumes "wasRead pre orig" "seen OObject pre ob" "\<not> notDeleted ob" "fs = om_Finalizers ob"
    and "op_DeletionPolicy (planOf orig) \<noteq> DeletionPolicyDelete \<or> list_ex (oidcDeletionConfirmed L) pre"
  shows "oidc_justified L F acc planOf pre (OObject (UpdatedObject
           (ob\<lparr>om_Finalizers := RemoveFinalizer L fs finalizerName\<rparr>) r))"
  using assms finalizerWrite_remove [of OObject pre ob fs "\<lambda>_. op_DeletionPolicy (planOf orig) \<noteq> DeletionPolicyDelete
      \<or> list_ex (oidcDeletionConfirmed L) pre" L "\<lambda>_. IsDelete (op_DeletionPolicy (planOf orig))" ob]
  by (auto simp: oidc_justified_defs)

lemma oidc_justified_Ready:
  "wasRead pre orig \<Longrightarrow> activeOIDC L (planOf orig) pre cur \<Longrightarrow> entitledOIDC L (planOf orig) pre cur
     \<Longrightarrow> settledOIDC F (planOf orig) pre cur observed \<Longrightarrow> ob = readyOIDCObject F (planOf orig) observed t1 t2 cur
     \<Longrightarrow> oidc_justified L F acc planOf pre (OObject (UpdatedStatus ob r))"
  unfolding oidc_justified_defs by (simp only: OIDCEvent.case KubeEvent.case) blast

section \<open>The contract of a kind, and every run of it\<close>

locale oidc_kind = status_object acc
  for acc :: "('a ObjectMeta_scheme, 'st) StatusAccess" +
  fixes planOf :: "'a ObjectMeta_scheme \<Rightarrow> ('a ObjectMeta_scheme, 'st) oidcNamedPlan"
  assumes plan_status: "op_Status (planOf orig) = acc"
    and plan_before: "op_Before (planOf orig) = sa_Status acc orig"
    and name_own: "op_Name (planOf orig) = om_Name orig"
    and name_set: "op_StatusName (planOf orig) (op_setStatusName (planOf orig) n st) = n"
    and name_hash: "op_StatusName (planOf orig) (op_setConfigHash (planOf orig) h st) = op_StatusName (planOf orig) st"
    and name_conds: "op_StatusName (planOf orig) (sa_setConditions acc cs st) = op_StatusName (planOf orig) st"
    and hash_set: "op_ConfigHash (planOf orig) (op_setConfigHash (planOf orig) h st) = h"
    and hash_conds: "op_ConfigHash (planOf orig) (sa_setConditions acc cs st) = op_ConfigHash (planOf orig) st"
    and ready_settled: "readyOIDCObject F (planOf orig) m t1 t2
          (readyOIDCObject F (planOf orig) m t3 t4 ob) = readyOIDCObject F (planOf orig) m t3 t4 ob"
begin

abbreviation justified :: "KubeLib \<Rightarrow> FloatLib \<Rightarrow> 'a ObjectMeta_scheme OIDCEvent list \<Rightarrow> bool" where
  "justified L F tr \<equiv> guarded (oidc_justified L F acc planOf) tr"

lemma oidcFailure_justified:
  assumes "justified L F tr"
  shows "wp (oidcFailure (logOIDCReconciler R) (planOf orig) ob reason err)
           (\<lambda>_ (s', tr'). justified L F tr') (s, tr)"
  using assms unfolding oidcFailure_def Let_def wp_simps logOIDCReconciler_sel plan_status
  by (intro wp_silentI wp_endWithStatusI)
     (simp_all add: guarded_snoc oidc_justified_notReady get_set conds_set
        has_condition_notReady [OF markError_Ready])

lemma oidcDependencyFailure_justified:
  assumes "justified L F tr"
  shows "wp (oidcDependencyFailure (logOIDCReconciler R) (planOf orig) ob err)
           (\<lambda>_ (s', tr'). justified L F tr') (s, tr)"
  using assms unfolding oidcDependencyFailure_def Let_def wp_simps logOIDCReconciler_sel plan_status
  by (intro wp_silentI wp_endWithStatusI)
     (simp_all add: guarded_snoc oidc_justified_notReady get_set conds_set
        has_condition_notReady [OF markStalled_both(1)])

lemma oidc_cleanupFailure_justified:
  assumes "justified L F tr"
  shows "wp (recordCleanupFailure acc (silent now) (k_StatusUpdate (logKube OObject K)) ob before reason err)
           (\<lambda>_ (s', tr'). justified L F tr') (s, tr)"
  using assms by (rule wp_cleanupFailure_guarded) (rule oidc_justified_notReady)

lemma finishOIDC_justified:
  assumes "justified (sr_Lib R) (sr_Float R) tr" "wasRead tr orig"
    and "activeOIDC (sr_Lib R) (planOf orig) tr ob" "entitledOIDC (sr_Lib R) (planOf orig) tr ob"
    and "settledOIDC (sr_Float R) (planOf orig) tr ob observed"
  shows "wp (finishOIDC (logOIDCReconciler R) (planOf orig) ob observed)
           (\<lambda>_ (s', tr'). justified (sr_Lib R) (sr_Float R) tr') (s, tr)"
proof -
  have ready: "oidc_justified (sr_Lib R) (sr_Float R) acc planOf tr
     (OObject (UpdatedStatus (readyOIDCObject (sr_Float R) (planOf orig) observed t1 t2 ob) r))" for t1 t2 r
    by (rule oidc_justified_Ready [where orig = orig and cur = ob and observed = observed and planOf = planOf])
       (use assms in simp_all)
  show ?thesis
    using assms(1) ready unfolding finishOIDC_def Let_def wp_simps logOIDCReconciler_sel
    by (intro wp_silentI wp_endWithStatusI) (simp_all add: guarded_snoc)
qed

text \<open>A justified write, and the read after it.\<close>

lemma writeOIDC_justified:
  assumes "justified (sr_Lib R) (sr_Float R) tr" "wasRead tr orig"
    and "activeOIDC (sr_Lib R) (planOf orig) tr ob" "entitledOIDC (sr_Lib R) (planOf orig) tr ob"
    and "op_Desired (planOf orig) ob = Inr desired" "missingOrDiffers (sr_Lib R) (sr_Float R) (planOf orig) tr desired"
    and continue: "\<And>observed s' tr'. justified (sr_Lib R) (sr_Float R) tr' \<Longrightarrow> wasRead tr' orig
        \<Longrightarrow> activeOIDC (sr_Lib R) (planOf orig) tr' ob \<Longrightarrow> entitledOIDC (sr_Lib R) (planOf orig) tr' ob
        \<Longrightarrow> settledOIDC (sr_Float R) (planOf orig) tr' ob observed
        \<Longrightarrow> wp (cont observed) (\<lambda>_ (s', tr'). justified (sr_Lib R) (sr_Float R) tr') (s', tr')"
  shows "wp (writeOIDC (logOIDCReconciler R) (planOf orig) (logOIDCClient k) ob desired cont)
           (\<lambda>_ (s', tr'). justified (sr_Lib R) (sr_Float R) tr') (s, tr)"
proof -
  let ?L = "sr_Lib R" and ?F = "sr_Float R"
  let ?tr = "\<lambda>w. tr @ [WroteOIDC (op_Resource (planOf orig)) (op_Name (planOf orig)) desired w]"
  let ?tr2 = "\<lambda>g. ?tr None @ [ReadOIDC (op_Resource (planOf orig)) (op_Name (planOf orig)) g]"
  have J: "justified ?L ?F (?tr w)" for w
    using assms(1-6) by (auto simp: guarded_snoc intro: oidc_justified_Write)
  have J2: "justified ?L ?F (?tr2 g)" for g
    using J [of None] by (simp add: guarded_snoc del: append_assoc)
  have "wp (cont x) (\<lambda>_ (s', tr'). justified ?L ?F tr') (s', ?tr2 (Inr x))" for x s'
    by (rule continue [OF J2])
       (use assms(2-5) in \<open>auto simp: settledOIDC_def readOIDC_def wroteOIDC_def\<close>)
  then show ?thesis
    using J J2 unfolding writeOIDC_def wp_simps logOIDCClient_sel
    by (auto split: option.splits sum.splits simp: wp_simps intro!: wp_loggedI oidcFailure_justified)
qed

lemma applyOIDC_justified:
  assumes "justified (sr_Lib R) (sr_Float R) tr" "wasRead tr orig"
    and "activeOIDC (sr_Lib R) (planOf orig) tr ob" "entitledOIDC (sr_Lib R) (planOf orig) tr ob"
    and "readOIDC (planOf orig) (Inr observed) \<in> set tr"
  shows "wp (applyOIDC (logOIDCReconciler R) (planOf orig) (logOIDCClient k) ob observed)
           (\<lambda>_ (s', tr'). justified (sr_Lib R) (sr_Float R) tr') (s, tr)"
proof (cases observed)
  case None
  then show ?thesis unfolding applyOIDC_def using assms(1) by (simp add: oidcFailure_justified)
next
  case (Some m)
  show ?thesis
  proof (cases "op_Desired (planOf orig) ob")
    case (Inl err)
    then show ?thesis unfolding applyOIDC_def using Some assms(1) by (simp add: oidcFailure_justified)
  next
    case (Inr desired)
    then show ?thesis
      using Some assms unfolding applyOIDC_def
      by (auto simp: missingOrDiffers_def settledOIDC_def
          intro!: finishOIDC_justified writeOIDC_justified [where orig = orig])
  qed
qed

lemma acquireOIDC_justified:
  assumes "justified (sr_Lib R) (sr_Float R) tr" "wasRead tr orig" "activeOIDC (sr_Lib R) (planOf orig) tr ob"
  shows "wp (acquireOIDC (logOIDCReconciler R) (planOf orig) (logOIDCClient k) ob)
           (\<lambda>_ (s', tr'). justified (sr_Lib R) (sr_Float R) tr') (s, tr)"
proof -
  let ?tr = "\<lambda>g. tr @ [ReadOIDC (op_Resource (planOf orig)) (op_Name (planOf orig)) g]"
  have J: "justified (sr_Lib R) (sr_Float R) (?tr g)" for g using assms(1) by (simp add: guarded_snoc)
  have absent: "entitledOIDC (sr_Lib R) (planOf orig) (?tr (Inl e)) ob"
      "missingOrDiffers (sr_Lib R) (sr_Float R) (planOf orig) (?tr (Inl e)) d"
    if "isNotFound (sr_Lib R) e" "AllowsCreation (op_CreationPolicy (planOf orig))" for e d
    using that by (auto simp: entitledOIDC_def missingOrDiffers_def readOIDC_def)
  have present: "entitledOIDC (sr_Lib R) (planOf orig) (?tr (Inr x)) ob"
    if "op_StatusName (planOf orig) (sa_Status acc ob) \<noteq> '''' \<or> AllowsAdoption (op_CreationPolicy (planOf orig))" for x
    using that by (auto simp: entitledOIDC_def readOIDC_def plan_status)
  show ?thesis
    unfolding acquireOIDC_def wp_simps logOIDCReconciler_sel logOIDCClient_sel plan_status
    by (rule wp_loggedI)
       (use J absent present assms in \<open>auto split: sum.splits simp: settledOIDC_def readOIDC_def
          intro!: oidcFailure_justified applyOIDC_justified writeOIDC_justified [where orig = orig]\<close>)
qed

lemma reconcileOIDCActive_justified:
  assumes "justified (sr_Lib R) (sr_Float R) tr" "wasRead tr orig" "seen OObject tr ob" "notDeleted ob"
    and "IsDelete (op_DeletionPolicy (planOf orig)) \<longrightarrow> held (sr_Lib R) OObject tr ob"
  shows "wp (reconcileOIDCActive (logOIDCReconciler R) (planOf orig) ob)
           (\<lambda>_ (s', tr'). justified (sr_Lib R) (sr_Float R) tr') (s, tr)"
proof -
  let ?L = "sr_Lib R"
  have active: "activeOIDC ?L (planOf orig) (tr @ [OConnection (GotObject nn (Inr k)), MadeOIDCClient k e])
      (stampGeneration acc ob)"
    if "IsStatusConditionTrue ?L (cnst_Conditions (cn_Status k)) conditionReady" for nn k e
    unfolding activeOIDC_def plan_status
    by (rule exI [where x = ob]) (use assms that in \<open>auto simp: live_def intro: connReady_got [where conn = k and nn = nn]\<close>)
  have J: "justified ?L (sr_Float R) (tr @ [OConnection c])"
    "justified ?L (sr_Float R) (tr @ [OConnection c, MadeOIDCClient k e])" for c k e
    using assms(1) by (simp_all add: trace_simps)
  show ?thesis
    unfolding reconcileOIDCActive_def Let_def wp_simps resolveConnection_def logOIDCReconciler_sel
      logKube_sel plan_status
    using J assms active
    by (auto split: sum.splits
        intro!: wp_loggedI wp_oidcClientForI oidcDependencyFailure_justified acquireOIDC_justified)
qed

lemma reconcileOIDCDeletion_justified:
  assumes "justified (sr_Lib R) (sr_Float R) tr" "wasRead tr orig" "seen OObject tr ob" "\<not> notDeleted ob"
  shows "wp (reconcileOIDCDeletion (logOIDCReconciler R) (planOf orig) ob)
           (\<lambda>_ (s', tr'). justified (sr_Lib R) (sr_Float R) tr') (s, tr)"
  unfolding reconcileOIDCDeletion_def Let_def wp_simps resolveConnection_def logOIDCReconciler_sel
    logKube_sel plan_status
  using assms
  by (auto split: sum.splits option.splits simp: wp_simps trace_simps confirmedGone_def
      intro!: wp_removeFinalizerI wp_loggedI wp_oidcClientForI oidc_cleanupFailure_justified
        oidc_justified_dropFinalizer [where orig = orig]
        oidc_justified_Delete [where orig = orig and ob = ob])

lemma reconcileOIDCKind_justified:
  "wp (reconcileOIDCKind (logOIDCReconciler R) planOf req)
     (\<lambda>_ (s', tr'). justified (sr_Lib R) (sr_Float R) tr') (s, [])"
  unfolding reconcileOIDCKind_def withObject_def reconcileOIDCNamed_def wp_simps
    logOIDCReconciler_sel logKube_sel
  by (rule wp_loggedI)
     (auto split: sum.splits option.splits simp: wp_simps guarded_def
      intro!: wp_ensureFinalizerI reconcileOIDCDeletion_justified reconcileOIDCActive_justified
        oidc_justified_addFinalizer
      intro: seen_got seen_updated held_contains held_added simp: wasRead_def)

lemma trace_justified:
  "guarded (oidc_justified (sr_Lib R) (sr_Float R) acc planOf) (oidc_trace R planOf req s)"
  using reconcileOIDCKind_justified [of R req s]
  by (simp add: oidc_trace_def oidc_run_def wp_run split_beta)

lemma writes_ok: "guarded (oidc_write_ok (sr_Lib R) (sr_Float R) planOf) (oidc_trace R planOf req s)"
  by (rule guarded_mono [OF trace_justified]) (simp add: oidc_justified_def)

lemma deletes_ok: "guarded (oidc_delete_ok (sr_Lib R) planOf) (oidc_trace R planOf req s)"
  by (rule guarded_mono [OF trace_justified]) (simp add: oidc_justified_def)

lemma ready_ok: "guarded (oidc_ready_ok (sr_Lib R) (sr_Float R) acc planOf) (oidc_trace R planOf req s)"
  by (rule guarded_mono [OF trace_justified]) (simp add: oidc_justified_def)

text \<open>A ready status names the resource's own object and records the hash of what was read.\<close>

lemma ready_records:
  "op_StatusName (planOf orig) (sa_Status acc (readyOIDCObject F (planOf orig) m t1 t2 ob)) = om_Name orig"
  "op_ConfigHash (planOf orig) (sa_Status acc (readyOIDCObject F (planOf orig) m t1 t2 ob)) = oidcConfigHash F m"
  by (simp_all add: readyOIDCObject_def plan_status Let_def get_set name_conds name_hash name_set name_own
      hash_conds hash_set)

end

end
