(* ===== verification/OidcApi.thy ===== *)
theory OidcApi
  imports Api
begin

text \<open>
  The custom resources of \<^verbatim>\<open>openbaooidc_types.go\<close>, field for field, with
  the conventions of \<open>Api\<close>.
\<close>

record OpenBaoOIDCConfigSpec =
  ocs_ConnectionRef :: OpenBaoConnectionReference
  ocs_Issuer :: string

record OpenBaoOIDCConfigStatus =
  oct_ConfigHash :: string
  oct_ObservedGeneration :: int
  oct_Conditions :: "Condition list"

record OpenBaoOIDCConfig = ObjectMeta +
  oco_Spec :: OpenBaoOIDCConfigSpec
  oco_Status :: OpenBaoOIDCConfigStatus

record OpenBaoOIDCProviderSpec =
  ops_ConnectionRef :: OpenBaoConnectionReference
  ops_CreationPolicy :: CreationPolicy
  ops_DeletionPolicy :: DeletionPolicy
  ops_DriftDetectionInterval :: "int option"
  ops_AllowedClientIDs :: "string slice"
  ops_Issuer :: string
  ops_ScopesSupported :: "string slice"

record OpenBaoOIDCProviderStatus =
  opt_Name :: string
  opt_ConfigHash :: string
  opt_ObservedGeneration :: int
  opt_Conditions :: "Condition list"

record OpenBaoOIDCProvider = ObjectMeta +
  opo_Spec :: OpenBaoOIDCProviderSpec
  opo_Status :: OpenBaoOIDCProviderStatus

record OpenBaoOIDCClientSpec =
  ics_ConnectionRef :: OpenBaoConnectionReference
  ics_CreationPolicy :: CreationPolicy
  ics_DeletionPolicy :: DeletionPolicy
  ics_DriftDetectionInterval :: "int option"
  ics_AccessTokenTTL :: "int option"
  ics_Assignments :: "string slice"
  ics_AuthorizationCode :: "bool option"
  ics_ClientCredentials :: "bool option"
  ics_ClientType :: string
  ics_IDTokenTTL :: "int option"
  ics_Key :: string
  ics_RedirectURIs :: "string slice"

record OpenBaoOIDCClientStatus =
  ict_Name :: string
  ict_ConfigHash :: string
  ict_ObservedGeneration :: int
  ict_Conditions :: "Condition list"

record OpenBaoOIDCClient = ObjectMeta +
  ico_Spec :: OpenBaoOIDCClientSpec
  ico_Status :: OpenBaoOIDCClientStatus

record OpenBaoOIDCKeySpec =
  iks_ConnectionRef :: OpenBaoConnectionReference
  iks_CreationPolicy :: CreationPolicy
  iks_DeletionPolicy :: DeletionPolicy
  iks_DriftDetectionInterval :: "int option"
  iks_Algorithm :: string
  iks_AllowedClientIDs :: "string slice"
  iks_RotationPeriod :: "int option"
  iks_VerificationTTL :: "int option"

record OpenBaoOIDCKeyStatus =
  ikt_Name :: string
  ikt_ConfigHash :: string
  ikt_ObservedGeneration :: int
  ikt_Conditions :: "Condition list"

record OpenBaoOIDCKey = ObjectMeta +
  iko_Spec :: OpenBaoOIDCKeySpec
  iko_Status :: OpenBaoOIDCKeyStatus

record OpenBaoOIDCRoleSpec =
  irs_ConnectionRef :: OpenBaoConnectionReference
  irs_CreationPolicy :: CreationPolicy
  irs_DeletionPolicy :: DeletionPolicy
  irs_DriftDetectionInterval :: "int option"
  irs_ClientID :: string
  irs_Key :: string
  irs_Template :: string
  irs_TTL :: "int option"

record OpenBaoOIDCRoleStatus =
  irt_Name :: string
  irt_ConfigHash :: string
  irt_ObservedGeneration :: int
  irt_Conditions :: "Condition list"

record OpenBaoOIDCRole = ObjectMeta +
  iro_Spec :: OpenBaoOIDCRoleSpec
  iro_Status :: OpenBaoOIDCRoleStatus

record OpenBaoOIDCScopeSpec =
  iss_ConnectionRef :: OpenBaoConnectionReference
  iss_CreationPolicy :: CreationPolicy
  iss_DeletionPolicy :: DeletionPolicy
  iss_DriftDetectionInterval :: "int option"
  iss_Description :: string
  iss_Template :: string

record OpenBaoOIDCScopeStatus =
  ist_Name :: string
  ist_ConfigHash :: string
  ist_ObservedGeneration :: int
  ist_Conditions :: "Condition list"

record OpenBaoOIDCScope = ObjectMeta +
  iso_Spec :: OpenBaoOIDCScopeSpec
  iso_Status :: OpenBaoOIDCScopeStatus

record OpenBaoOIDCAssignmentSpec =
  ias_ConnectionRef :: OpenBaoConnectionReference
  ias_CreationPolicy :: CreationPolicy
  ias_DeletionPolicy :: DeletionPolicy
  ias_DriftDetectionInterval :: "int option"
  ias_EntityIDs :: "string slice"
  ias_GroupIDs :: "string slice"

record OpenBaoOIDCAssignmentStatus =
  iat_Name :: string
  iat_ConfigHash :: string
  iat_ObservedGeneration :: int
  iat_Conditions :: "Condition list"

record OpenBaoOIDCAssignment = ObjectMeta +
  iao_Spec :: OpenBaoOIDCAssignmentSpec
  iao_Status :: OpenBaoOIDCAssignmentStatus

end
