(* ===== verification/OidcKinds.thy ===== *)
theory OidcKinds
  imports OidcLifecycle OidcApi SystemClientTypes
begin

text \<open>
  The reconcilers of \<^verbatim>\<open>openbaooidc_controller.go\<close>: the desired fields and the plan
  of each named kind, its \<^verbatim>\<open>Reconcile\<close> and \<^verbatim>\<open>mapConnection\<close>, and the issuer
  configuration.  Every named kind is an interpretation of \<open>oidc_kind\<close>.
\<close>

lemmas oidc_settle_simps = readyOIDCObject_def Let_def markReady_idem ObjectMeta.truncate_def

text \<open>A list is sent when it is not empty, a duration when it is given.\<close>

definition putOidcStrings :: "string \<Rightarrow> string slice \<Rightarrow> string \<Rightarrow> anymap \<Rightarrow> go_error + anymap" where
  "putOidcStrings k values fieldName m =
     (if elems values = [] then Inr m
      else map_sum id (\<lambda>vs. fmupd k (AStrings (Some vs)) m) (oidcStrings values fieldName))"

definition putOidcDuration :: "string \<Rightarrow> int option \<Rightarrow> string \<Rightarrow> anymap \<Rightarrow> go_error + anymap" where
  "putOidcDuration k value fieldName m =
     map_sum id (\<lambda>v. case v of None \<Rightarrow> m | Some n \<Rightarrow> fmupd k (AInt n) m) (oidcOptionalDuration value fieldName)"

section \<open>OpenBaoOIDCProvider\<close>

definition oidcProviderAccess where
  "oidcProviderAccess =
     \<lparr>sa_Status = opo_Status,
      sa_setStatus = (\<lambda>st ob. ob\<lparr>opo_Status := st\<rparr>),
      sa_Conditions = opt_Conditions,
      sa_setConditions = (\<lambda>cs st. st\<lparr>opt_Conditions := cs\<rparr>),
      sa_ObservedGeneration = opt_ObservedGeneration,
      sa_setObservedGeneration = (\<lambda>g st. st\<lparr>opt_ObservedGeneration := g\<rparr>)\<rparr>"

definition oidcProviderDesired :: "OpenBaoOIDCProviderSpec \<Rightarrow> go_error + OIDCObject" where
  "oidcProviderDesired spec =
     (let result = putString ''issuer'' (TrimSpace (ops_Issuer spec)) fmempty
      in andThen (putOidcStrings ''allowed_client_ids'' (ops_AllowedClientIDs spec) ''allowedClientIDs'' result) (\<lambda>result.
         putOidcStrings ''scopes_supported'' (ops_ScopesSupported spec) ''scopesSupported'' result))"

definition oidcProviderPlan :: "OpenBaoOIDCProvider \<Rightarrow> (OpenBaoOIDCProvider, OpenBaoOIDCProviderStatus) oidcNamedPlan" where
  "oidcProviderPlan object =
     (let policies = oidcResourcePolicies (ops_CreationPolicy (opo_Spec object)) (ops_DeletionPolicy (opo_Spec object))
      in \<lparr>op_ConnectionRef = ops_ConnectionRef (opo_Spec object),
          op_CreationPolicy = fst policies,
          op_DeletionPolicy = snd policies,
          op_DriftInterval = oidcDrift (ops_DriftDetectionInterval (opo_Spec object)),
          op_Resource = ''provider'',
          op_Name = om_Name object,
          op_Desired = (\<lambda>ob. oidcProviderDesired (opo_Spec ob)),
          op_Status = oidcProviderAccess,
          op_StatusName = opt_Name,
          op_setStatusName = (\<lambda>n st. st\<lparr>opt_Name := n\<rparr>),
          op_ConfigHash = opt_ConfigHash,
          op_setConfigHash = (\<lambda>h st. st\<lparr>opt_ConfigHash := h\<rparr>),
          op_Before = opo_Status object\<rparr>)"

definition Reconcile_oidcProvider ::
  "('s, OpenBaoOIDCProvider) OIDCReconciler \<Rightarrow> NamespacedName \<Rightarrow> ('s, outcome) state" where
  "Reconcile_oidcProvider R req = reconcileOIDCKind R oidcProviderPlan req"

definition mapConnection_oidcProvider ::
  "('s, OpenBaoOIDCProvider) OIDCReconciler \<Rightarrow> 'b ObjectMeta_scheme \<Rightarrow> ('s, NamespacedName list) state" where
  "mapConnection_oidcProvider R obj =
     mapConnection R (\<lambda>item. connref_Name (ops_ConnectionRef (opo_Spec item))) obj"

interpretation oidcProvider: oidc_kind oidcProviderAccess oidcProviderPlan
  by unfold_locales (auto simp: oidcProviderPlan_def oidcProviderAccess_def oidc_settle_simps)

section \<open>OpenBaoOIDCClient\<close>

definition oidcClientAccess where
  "oidcClientAccess =
     \<lparr>sa_Status = ico_Status,
      sa_setStatus = (\<lambda>st ob. ob\<lparr>ico_Status := st\<rparr>),
      sa_Conditions = ict_Conditions,
      sa_setConditions = (\<lambda>cs st. st\<lparr>ict_Conditions := cs\<rparr>),
      sa_ObservedGeneration = ict_ObservedGeneration,
      sa_setObservedGeneration = (\<lambda>g st. st\<lparr>ict_ObservedGeneration := g\<rparr>)\<rparr>"

definition oidcClientDesired :: "OpenBaoOIDCClientSpec \<Rightarrow> go_error + OIDCObject" where
  "oidcClientDesired spec =
     (andThen (putOidcDuration ''access_token_ttl'' (ics_AccessTokenTTL spec) ''accessTokenTTL'' fmempty) (\<lambda>result.
      andThen (putOidcStrings ''assignments'' (ics_Assignments spec) ''assignments'' result) (\<lambda>result.
      let result = putBool ''authorization_code'' (ics_AuthorizationCode spec) result;
          result = putBool ''client_credentials'' (ics_ClientCredentials spec) result;
          result = putString ''client_type'' (TrimSpace (ics_ClientType spec)) result
      in andThen (putOidcDuration ''id_token_ttl'' (ics_IDTokenTTL spec) ''idTokenTTL'' result) (\<lambda>result.
         let result = putString ''key'' (TrimSpace (ics_Key spec)) result
         in putOidcStrings ''redirect_uris'' (ics_RedirectURIs spec) ''redirectURIs'' result))))"

definition oidcClientPlan :: "OpenBaoOIDCClient \<Rightarrow> (OpenBaoOIDCClient, OpenBaoOIDCClientStatus) oidcNamedPlan" where
  "oidcClientPlan object =
     (let policies = oidcResourcePolicies (ics_CreationPolicy (ico_Spec object)) (ics_DeletionPolicy (ico_Spec object))
      in \<lparr>op_ConnectionRef = ics_ConnectionRef (ico_Spec object),
          op_CreationPolicy = fst policies,
          op_DeletionPolicy = snd policies,
          op_DriftInterval = oidcDrift (ics_DriftDetectionInterval (ico_Spec object)),
          op_Resource = ''client'',
          op_Name = om_Name object,
          op_Desired = (\<lambda>ob. oidcClientDesired (ico_Spec ob)),
          op_Status = oidcClientAccess,
          op_StatusName = ict_Name,
          op_setStatusName = (\<lambda>n st. st\<lparr>ict_Name := n\<rparr>),
          op_ConfigHash = ict_ConfigHash,
          op_setConfigHash = (\<lambda>h st. st\<lparr>ict_ConfigHash := h\<rparr>),
          op_Before = ico_Status object\<rparr>)"

definition Reconcile_oidcClient ::
  "('s, OpenBaoOIDCClient) OIDCReconciler \<Rightarrow> NamespacedName \<Rightarrow> ('s, outcome) state" where
  "Reconcile_oidcClient R req = reconcileOIDCKind R oidcClientPlan req"

definition mapConnection_oidcClient ::
  "('s, OpenBaoOIDCClient) OIDCReconciler \<Rightarrow> 'b ObjectMeta_scheme \<Rightarrow> ('s, NamespacedName list) state" where
  "mapConnection_oidcClient R obj =
     mapConnection R (\<lambda>item. connref_Name (ics_ConnectionRef (ico_Spec item))) obj"

interpretation oidcClient: oidc_kind oidcClientAccess oidcClientPlan
  by unfold_locales (auto simp: oidcClientPlan_def oidcClientAccess_def oidc_settle_simps)

section \<open>OpenBaoOIDCKey\<close>

definition oidcKeyAccess where
  "oidcKeyAccess =
     \<lparr>sa_Status = iko_Status,
      sa_setStatus = (\<lambda>st ob. ob\<lparr>iko_Status := st\<rparr>),
      sa_Conditions = ikt_Conditions,
      sa_setConditions = (\<lambda>cs st. st\<lparr>ikt_Conditions := cs\<rparr>),
      sa_ObservedGeneration = ikt_ObservedGeneration,
      sa_setObservedGeneration = (\<lambda>g st. st\<lparr>ikt_ObservedGeneration := g\<rparr>)\<rparr>"

definition oidcKeyDesired :: "OpenBaoOIDCKeySpec \<Rightarrow> go_error + OIDCObject" where
  "oidcKeyDesired spec =
     (let result = putString ''algorithm'' (TrimSpace (iks_Algorithm spec)) fmempty
      in andThen (putOidcStrings ''allowed_client_ids'' (iks_AllowedClientIDs spec) ''allowedClientIDs'' result) (\<lambda>result.
         andThen (putOidcDuration ''rotation_period'' (iks_RotationPeriod spec) ''rotationPeriod'' result) (\<lambda>result.
         putOidcDuration ''verification_ttl'' (iks_VerificationTTL spec) ''verificationTTL'' result)))"

definition oidcKeyPlan :: "OpenBaoOIDCKey \<Rightarrow> (OpenBaoOIDCKey, OpenBaoOIDCKeyStatus) oidcNamedPlan" where
  "oidcKeyPlan object =
     (let policies = oidcResourcePolicies (iks_CreationPolicy (iko_Spec object)) (iks_DeletionPolicy (iko_Spec object))
      in \<lparr>op_ConnectionRef = iks_ConnectionRef (iko_Spec object),
          op_CreationPolicy = fst policies,
          op_DeletionPolicy = snd policies,
          op_DriftInterval = oidcDrift (iks_DriftDetectionInterval (iko_Spec object)),
          op_Resource = ''key'',
          op_Name = om_Name object,
          op_Desired = (\<lambda>ob. oidcKeyDesired (iko_Spec ob)),
          op_Status = oidcKeyAccess,
          op_StatusName = ikt_Name,
          op_setStatusName = (\<lambda>n st. st\<lparr>ikt_Name := n\<rparr>),
          op_ConfigHash = ikt_ConfigHash,
          op_setConfigHash = (\<lambda>h st. st\<lparr>ikt_ConfigHash := h\<rparr>),
          op_Before = iko_Status object\<rparr>)"

definition Reconcile_oidcKey ::
  "('s, OpenBaoOIDCKey) OIDCReconciler \<Rightarrow> NamespacedName \<Rightarrow> ('s, outcome) state" where
  "Reconcile_oidcKey R req = reconcileOIDCKind R oidcKeyPlan req"

definition mapConnection_oidcKey ::
  "('s, OpenBaoOIDCKey) OIDCReconciler \<Rightarrow> 'b ObjectMeta_scheme \<Rightarrow> ('s, NamespacedName list) state" where
  "mapConnection_oidcKey R obj =
     mapConnection R (\<lambda>item. connref_Name (iks_ConnectionRef (iko_Spec item))) obj"

interpretation oidcKey: oidc_kind oidcKeyAccess oidcKeyPlan
  by unfold_locales (auto simp: oidcKeyPlan_def oidcKeyAccess_def oidc_settle_simps)

section \<open>OpenBaoOIDCRole\<close>

definition oidcRoleAccess where
  "oidcRoleAccess =
     \<lparr>sa_Status = iro_Status,
      sa_setStatus = (\<lambda>st ob. ob\<lparr>iro_Status := st\<rparr>),
      sa_Conditions = irt_Conditions,
      sa_setConditions = (\<lambda>cs st. st\<lparr>irt_Conditions := cs\<rparr>),
      sa_ObservedGeneration = irt_ObservedGeneration,
      sa_setObservedGeneration = (\<lambda>g st. st\<lparr>irt_ObservedGeneration := g\<rparr>)\<rparr>"

definition oidcRoleDesired :: "OpenBaoOIDCRoleSpec \<Rightarrow> go_error + OIDCObject" where
  "oidcRoleDesired spec =
     (let key = TrimSpace (irs_Key spec)
      in if key = '''' then Inl (Errorf ''key must not be empty'')
         else let result = fmupd ''key'' (AString key) fmempty;
                  result = putString ''client_id'' (TrimSpace (irs_ClientID spec)) result;
                  result = putString ''template'' (irs_Template spec) result
              in putOidcDuration ''ttl'' (irs_TTL spec) ''ttl'' result)"

definition oidcRolePlan :: "OpenBaoOIDCRole \<Rightarrow> (OpenBaoOIDCRole, OpenBaoOIDCRoleStatus) oidcNamedPlan" where
  "oidcRolePlan object =
     (let policies = oidcResourcePolicies (irs_CreationPolicy (iro_Spec object)) (irs_DeletionPolicy (iro_Spec object))
      in \<lparr>op_ConnectionRef = irs_ConnectionRef (iro_Spec object),
          op_CreationPolicy = fst policies,
          op_DeletionPolicy = snd policies,
          op_DriftInterval = oidcDrift (irs_DriftDetectionInterval (iro_Spec object)),
          op_Resource = ''role'',
          op_Name = om_Name object,
          op_Desired = (\<lambda>ob. oidcRoleDesired (iro_Spec ob)),
          op_Status = oidcRoleAccess,
          op_StatusName = irt_Name,
          op_setStatusName = (\<lambda>n st. st\<lparr>irt_Name := n\<rparr>),
          op_ConfigHash = irt_ConfigHash,
          op_setConfigHash = (\<lambda>h st. st\<lparr>irt_ConfigHash := h\<rparr>),
          op_Before = iro_Status object\<rparr>)"

definition Reconcile_oidcRole ::
  "('s, OpenBaoOIDCRole) OIDCReconciler \<Rightarrow> NamespacedName \<Rightarrow> ('s, outcome) state" where
  "Reconcile_oidcRole R req = reconcileOIDCKind R oidcRolePlan req"

definition mapConnection_oidcRole ::
  "('s, OpenBaoOIDCRole) OIDCReconciler \<Rightarrow> 'b ObjectMeta_scheme \<Rightarrow> ('s, NamespacedName list) state" where
  "mapConnection_oidcRole R obj =
     mapConnection R (\<lambda>item. connref_Name (irs_ConnectionRef (iro_Spec item))) obj"

interpretation oidcRole: oidc_kind oidcRoleAccess oidcRolePlan
  by unfold_locales (auto simp: oidcRolePlan_def oidcRoleAccess_def oidc_settle_simps)

section \<open>OpenBaoOIDCScope\<close>

definition oidcScopeAccess where
  "oidcScopeAccess =
     \<lparr>sa_Status = iso_Status,
      sa_setStatus = (\<lambda>st ob. ob\<lparr>iso_Status := st\<rparr>),
      sa_Conditions = ist_Conditions,
      sa_setConditions = (\<lambda>cs st. st\<lparr>ist_Conditions := cs\<rparr>),
      sa_ObservedGeneration = ist_ObservedGeneration,
      sa_setObservedGeneration = (\<lambda>g st. st\<lparr>ist_ObservedGeneration := g\<rparr>)\<rparr>"

definition oidcScopeDesired :: "OpenBaoOIDCScopeSpec \<Rightarrow> go_error + OIDCObject" where
  "oidcScopeDesired spec =
     (let result = putString ''description'' (iss_Description spec) fmempty
      in Inr (putString ''template'' (iss_Template spec) result))"

definition oidcScopePlan :: "OpenBaoOIDCScope \<Rightarrow> (OpenBaoOIDCScope, OpenBaoOIDCScopeStatus) oidcNamedPlan" where
  "oidcScopePlan object =
     (let policies = oidcResourcePolicies (iss_CreationPolicy (iso_Spec object)) (iss_DeletionPolicy (iso_Spec object))
      in \<lparr>op_ConnectionRef = iss_ConnectionRef (iso_Spec object),
          op_CreationPolicy = fst policies,
          op_DeletionPolicy = snd policies,
          op_DriftInterval = oidcDrift (iss_DriftDetectionInterval (iso_Spec object)),
          op_Resource = ''scope'',
          op_Name = om_Name object,
          op_Desired = (\<lambda>ob. oidcScopeDesired (iso_Spec ob)),
          op_Status = oidcScopeAccess,
          op_StatusName = ist_Name,
          op_setStatusName = (\<lambda>n st. st\<lparr>ist_Name := n\<rparr>),
          op_ConfigHash = ist_ConfigHash,
          op_setConfigHash = (\<lambda>h st. st\<lparr>ist_ConfigHash := h\<rparr>),
          op_Before = iso_Status object\<rparr>)"

definition Reconcile_oidcScope ::
  "('s, OpenBaoOIDCScope) OIDCReconciler \<Rightarrow> NamespacedName \<Rightarrow> ('s, outcome) state" where
  "Reconcile_oidcScope R req = reconcileOIDCKind R oidcScopePlan req"

definition mapConnection_oidcScope ::
  "('s, OpenBaoOIDCScope) OIDCReconciler \<Rightarrow> 'b ObjectMeta_scheme \<Rightarrow> ('s, NamespacedName list) state" where
  "mapConnection_oidcScope R obj =
     mapConnection R (\<lambda>item. connref_Name (iss_ConnectionRef (iso_Spec item))) obj"

interpretation oidcScope: oidc_kind oidcScopeAccess oidcScopePlan
  by unfold_locales (auto simp: oidcScopePlan_def oidcScopeAccess_def oidc_settle_simps)

section \<open>OpenBaoOIDCAssignment\<close>

definition oidcAssignmentAccess where
  "oidcAssignmentAccess =
     \<lparr>sa_Status = iao_Status,
      sa_setStatus = (\<lambda>st ob. ob\<lparr>iao_Status := st\<rparr>),
      sa_Conditions = iat_Conditions,
      sa_setConditions = (\<lambda>cs st. st\<lparr>iat_Conditions := cs\<rparr>),
      sa_ObservedGeneration = iat_ObservedGeneration,
      sa_setObservedGeneration = (\<lambda>g st. st\<lparr>iat_ObservedGeneration := g\<rparr>)\<rparr>"

definition oidcAssignmentDesired :: "OpenBaoOIDCAssignmentSpec \<Rightarrow> go_error + OIDCObject" where
  "oidcAssignmentDesired spec =
     (andThen (putOidcStrings ''entity_ids'' (ias_EntityIDs spec) ''entityIDs'' fmempty) (\<lambda>result.
      putOidcStrings ''group_ids'' (ias_GroupIDs spec) ''groupIDs'' result))"

definition oidcAssignmentPlan :: "OpenBaoOIDCAssignment \<Rightarrow> (OpenBaoOIDCAssignment, OpenBaoOIDCAssignmentStatus) oidcNamedPlan" where
  "oidcAssignmentPlan object =
     (let policies = oidcResourcePolicies (ias_CreationPolicy (iao_Spec object)) (ias_DeletionPolicy (iao_Spec object))
      in \<lparr>op_ConnectionRef = ias_ConnectionRef (iao_Spec object),
          op_CreationPolicy = fst policies,
          op_DeletionPolicy = snd policies,
          op_DriftInterval = oidcDrift (ias_DriftDetectionInterval (iao_Spec object)),
          op_Resource = ''assignment'',
          op_Name = om_Name object,
          op_Desired = (\<lambda>ob. oidcAssignmentDesired (iao_Spec ob)),
          op_Status = oidcAssignmentAccess,
          op_StatusName = iat_Name,
          op_setStatusName = (\<lambda>n st. st\<lparr>iat_Name := n\<rparr>),
          op_ConfigHash = iat_ConfigHash,
          op_setConfigHash = (\<lambda>h st. st\<lparr>iat_ConfigHash := h\<rparr>),
          op_Before = iao_Status object\<rparr>)"

definition Reconcile_oidcAssignment ::
  "('s, OpenBaoOIDCAssignment) OIDCReconciler \<Rightarrow> NamespacedName \<Rightarrow> ('s, outcome) state" where
  "Reconcile_oidcAssignment R req = reconcileOIDCKind R oidcAssignmentPlan req"

definition mapConnection_oidcAssignment ::
  "('s, OpenBaoOIDCAssignment) OIDCReconciler \<Rightarrow> 'b ObjectMeta_scheme \<Rightarrow> ('s, NamespacedName list) state" where
  "mapConnection_oidcAssignment R obj =
     mapConnection R (\<lambda>item. connref_Name (ias_ConnectionRef (iao_Spec item))) obj"

interpretation oidcAssignment: oidc_kind oidcAssignmentAccess oidcAssignmentPlan
  by unfold_locales (auto simp: oidcAssignmentPlan_def oidcAssignmentAccess_def oidc_settle_simps)

section \<open>OpenBaoOIDCConfig\<close>

definition oidcConfigAccess where
  "oidcConfigAccess =
     \<lparr>sa_Status = oco_Status,
      sa_setStatus = (\<lambda>st ob. ob\<lparr>oco_Status := st\<rparr>),
      sa_Conditions = oct_Conditions,
      sa_setConditions = (\<lambda>cs st. st\<lparr>oct_Conditions := cs\<rparr>),
      sa_ObservedGeneration = oct_ObservedGeneration,
      sa_setObservedGeneration = (\<lambda>g st. st\<lparr>oct_ObservedGeneration := g\<rparr>)\<rparr>"

text \<open>The two ways \<^verbatim>\<open>Reconcile\<close> gives up: the dependency is not ready, or an error.\<close>

definition oidcConfigStalled ::
  "('s, OpenBaoOIDCConfig) OIDCReconciler \<Rightarrow> OpenBaoOIDCConfigStatus \<Rightarrow> OpenBaoOIDCConfig \<Rightarrow> go_error
     \<Rightarrow> ('s, outcome) state" where
  "oidcConfigStalled R before object err = do {
     t1 \<leftarrow> sr_Now R;
     t2 \<leftarrow> sr_Now R;
     let object = object\<lparr>oco_Status := (oco_Status object)\<lparr>oct_Conditions :=
           markStalled (oct_Conditions (oco_Status object)) (om_Generation object) ''DependencyNotReady'' (Some err) t1 t2\<rparr>\<rparr>;
     endWithStatus (k_StatusUpdate (sr_Objects R)) object before (oco_Status object) (requeueIn dependencyRetry, None)
   }"

definition oidcConfigError ::
  "('s, OpenBaoOIDCConfig) OIDCReconciler \<Rightarrow> OpenBaoOIDCConfigStatus \<Rightarrow> OpenBaoOIDCConfig \<Rightarrow> string \<Rightarrow> go_error
     \<Rightarrow> ('s, outcome) state" where
  "oidcConfigError R before object reason err = do {
     t \<leftarrow> sr_Now R;
     let object = object\<lparr>oco_Status := (oco_Status object)\<lparr>oct_Conditions :=
           markError (oct_Conditions (oco_Status object)) (om_Generation object) reason (Some err) t\<rparr>\<rparr>;
     endWithStatus (k_StatusUpdate (sr_Objects R)) object before (oco_Status object) (noRequeue, Some err)
   }"

definition oidcConfigDesired :: "OpenBaoOIDCConfigSpec \<Rightarrow> OIDCObject" where
  "oidcConfigDesired spec = putString ''issuer'' (TrimSpace (ocs_Issuer spec)) fmempty"

definition finishOIDCConfig ::
  "('s, OpenBaoOIDCConfig) OIDCReconciler \<Rightarrow> OpenBaoOIDCConfigStatus \<Rightarrow> OpenBaoOIDCConfig \<Rightarrow> OIDCObject option
     \<Rightarrow> ('s, outcome) state" where
  "finishOIDCConfig R before object observed = do {
     t1 \<leftarrow> sr_Now R;
     t2 \<leftarrow> sr_Now R;
     let object = object\<lparr>oco_Status := (oco_Status object)\<lparr>oct_ConfigHash := oidcConfigHash (sr_Float R) observed,
           oct_Conditions := markReady (oct_Conditions (oco_Status object)) (om_Generation object)
             ''OpenBao OIDC configuration is reconciled'' t1 t2\<rparr>\<rparr>;
     endWithStatus (k_StatusUpdate (sr_Objects R)) object before (oco_Status object) (requeueIn defaultDriftCheck, None)
   }"

text \<open>
  A nil map has no entries, so an empty specification agrees with it.  An error of the second
  read is returned without touching the status.
\<close>

definition applyOIDCConfig ::
  "('s, OpenBaoOIDCConfig) OIDCReconciler \<Rightarrow> 's OIDCClient \<Rightarrow> OpenBaoOIDCConfigStatus \<Rightarrow> OpenBaoOIDCConfig
     \<Rightarrow> ('s, outcome) state" where
  "applyOIDCConfig R apiClient before object = do {
     let desired = oidcConfigDesired (oco_Spec object);
     g \<leftarrow> GetOIDCConfig apiClient;
     case g of
       Inl err \<Rightarrow> oidcConfigError R before object ''OIDCReadFailed'' err
     | Inr observed \<Rightarrow>
         if \<not> oidcDesiredFieldsMatch (sr_Float R) desired (case observed of None \<Rightarrow> fmempty | Some m \<Rightarrow> m)
         then do {
           w \<leftarrow> WriteOIDCConfig apiClient desired;
           case w of
             Some err \<Rightarrow> oidcConfigError R before object ''OIDCWriteFailed'' err
           | None \<Rightarrow> do {
               g \<leftarrow> GetOIDCConfig apiClient;
               case g of
                 Inl err \<Rightarrow> ret (noRequeue, Some err)
               | Inr observed \<Rightarrow> finishOIDCConfig R before object observed
             }
         }
         else finishOIDCConfig R before object observed
   }"

definition Reconcile_oidcConfig ::
  "('s, OpenBaoOIDCConfig) OIDCReconciler \<Rightarrow> NamespacedName \<Rightarrow> ('s, outcome) state" where
  "Reconcile_oidcConfig R req = withObject R req (\<lambda>object. do {
     let before = oco_Status object;
     let object = object\<lparr>oco_Status := before\<lparr>oct_ObservedGeneration := om_Generation object\<rparr>\<rparr>;
     r \<leftarrow> resolveConnection (sr_Connections R) (om_Namespace object) (ocs_ConnectionRef (oco_Spec object));
     case r of
       Inl err \<Rightarrow> oidcConfigStalled R before object err
     | Inr connection \<Rightarrow>
         if \<not> IsStatusConditionTrue (sr_Lib R) (cnst_Conditions (cn_Status connection)) conditionReady then
           oidcConfigStalled R before object (dependencyMessage ''OpenBaoConnection'' (ObjectKey connection) None)
         else do {
           c \<leftarrow> oidcClientFor R connection;
           case c of
             Inl err \<Rightarrow> oidcConfigError R before object ''OIDCClientFailed'' err
           | Inr apiClient \<Rightarrow> applyOIDCConfig R apiClient before object
         }
   })"

definition mapConnection_oidcConfig ::
  "('s, OpenBaoOIDCConfig) OIDCReconciler \<Rightarrow> 'b ObjectMeta_scheme \<Rightarrow> ('s, NamespacedName list) state" where
  "mapConnection_oidcConfig R obj = mapConnection R (\<lambda>item. connref_Name (ocs_ConnectionRef (oco_Spec item))) obj"

end
