(* ===== verification/OidcProperties.thy ===== *)
theory OidcProperties
  imports OidcKinds JsonMatching Examples Normalize
begin

text \<open>
  The properties of the six named OIDC kinds, each a fact of the locale \<open>oidc_kind\<close> at every
  kind's plan; the normal form of the lists that are sent; why a list or a duration is never
  found satisfied; and the runs of the issuer configuration.
\<close>

section \<open>Every named kind\<close>

text \<open>
  Providers, clients, keys, roles, scopes and assignments: the external object is written only
  under the resource's own kind and name, with the desired fields, for a live resource over a
  ready connection whose finalizer is in place if it asks for deletion.  It was absent and the
  creation policy allows creation, or it was there and the status names an object already or
  adoption is allowed; and it was absent or a read differed from the desired fields.
\<close>

lemma oidc_writes_only_entitled:
  "guarded (oidc_write_ok (sr_Lib R1) (sr_Float R1) oidcProviderPlan)
     (oidc_trace R1 oidcProviderPlan req1 s1) \<and>
   guarded (oidc_write_ok (sr_Lib R2) (sr_Float R2) oidcClientPlan)
     (oidc_trace R2 oidcClientPlan req2 s2) \<and>
   guarded (oidc_write_ok (sr_Lib R3) (sr_Float R3) oidcKeyPlan)
     (oidc_trace R3 oidcKeyPlan req3 s3) \<and>
   guarded (oidc_write_ok (sr_Lib R4) (sr_Float R4) oidcRolePlan)
     (oidc_trace R4 oidcRolePlan req4 s4) \<and>
   guarded (oidc_write_ok (sr_Lib R5) (sr_Float R5) oidcScopePlan)
     (oidc_trace R5 oidcScopePlan req5 s5) \<and>
   guarded (oidc_write_ok (sr_Lib R6) (sr_Float R6) oidcAssignmentPlan)
     (oidc_trace R6 oidcAssignmentPlan req6 s6)"
  by (intro conjI oidcProvider.writes_ok oidcClient.writes_ok oidcKey.writes_ok oidcRole.writes_ok oidcScope.writes_ok oidcAssignment.writes_ok)

text \<open>
  The six kinds: the external object is deleted only for a deleted resource with deletion policy
  Delete, under its own kind and name; the finalizer is added only to live resources that ask for
  deletion and removed only from deleted ones, after a confirmed deletion unless none is asked for.
\<close>

lemma oidc_deletion_discipline:
  "guarded (oidc_delete_ok (sr_Lib R1) oidcProviderPlan) (oidc_trace R1 oidcProviderPlan req1 s1) \<and>
   guarded (oidc_delete_ok (sr_Lib R2) oidcClientPlan) (oidc_trace R2 oidcClientPlan req2 s2) \<and>
   guarded (oidc_delete_ok (sr_Lib R3) oidcKeyPlan) (oidc_trace R3 oidcKeyPlan req3 s3) \<and>
   guarded (oidc_delete_ok (sr_Lib R4) oidcRolePlan) (oidc_trace R4 oidcRolePlan req4 s4) \<and>
   guarded (oidc_delete_ok (sr_Lib R5) oidcScopePlan) (oidc_trace R5 oidcScopePlan req5 s5) \<and>
   guarded (oidc_delete_ok (sr_Lib R6) oidcAssignmentPlan) (oidc_trace R6 oidcAssignmentPlan req6 s6)"
  by (intro conjI oidcProvider.deletes_ok oidcClient.deletes_ok oidcKey.deletes_ok oidcRole.deletes_ok oidcScope.deletes_ok oidcAssignment.deletes_ok)

text \<open>
  The six kinds: Ready is written only over a ready connection by a resource entitled to the
  object, after a read that agreed with the desired fields or followed an accepted write of them.
\<close>

lemma oidc_ready_is_settled:
  "guarded (oidc_ready_ok (sr_Lib R1) (sr_Float R1) oidcProviderAccess oidcProviderPlan)
     (oidc_trace R1 oidcProviderPlan req1 s1) \<and>
   guarded (oidc_ready_ok (sr_Lib R2) (sr_Float R2) oidcClientAccess oidcClientPlan)
     (oidc_trace R2 oidcClientPlan req2 s2) \<and>
   guarded (oidc_ready_ok (sr_Lib R3) (sr_Float R3) oidcKeyAccess oidcKeyPlan)
     (oidc_trace R3 oidcKeyPlan req3 s3) \<and>
   guarded (oidc_ready_ok (sr_Lib R4) (sr_Float R4) oidcRoleAccess oidcRolePlan)
     (oidc_trace R4 oidcRolePlan req4 s4) \<and>
   guarded (oidc_ready_ok (sr_Lib R5) (sr_Float R5) oidcScopeAccess oidcScopePlan)
     (oidc_trace R5 oidcScopePlan req5 s5) \<and>
   guarded (oidc_ready_ok (sr_Lib R6) (sr_Float R6) oidcAssignmentAccess oidcAssignmentPlan)
     (oidc_trace R6 oidcAssignmentPlan req6 s6)"
  by (intro conjI oidcProvider.ready_ok oidcClient.ready_ok oidcKey.ready_ok oidcRole.ready_ok oidcScope.ready_ok oidcAssignment.ready_ok)


section \<open>The lists that are sent\<close>

text \<open>They are trimmed, sorted and without repetitions, whatever order the specification has.\<close>

lemma oidcStrings_exact:
  "oidcStrings values fieldName = Inr r \<longleftrightarrow>
     '''' \<notin> TrimSpace ` set (elems values) \<and> sorted r \<and> distinct r \<and> set r = TrimSpace ` set (elems values)"
proof -
  have "Compact (sort xs) = r \<longleftrightarrow> sorted r \<and> distinct r \<and> set r = set xs" for xs :: "string list"
  proof
    assume r: "sorted r \<and> distinct r \<and> set r = set xs"
    show "Compact (sort xs) = r"
      unfolding Compact_sort by (rule sorted_distinct_set_unique) (use r in simp_all)
  qed (auto simp: Compact_sort)
  then show ?thesis by (auto simp: oidcStrings_def Let_def)
qed

section \<open>Comparison of what was decoded\<close>

text \<open>Values of JSON: no \<^verbatim>\<open>[]string\<close>, no \<^verbatim>\<open>int64\<close>.\<close>

fun wire :: "any \<Rightarrow> bool" where
  "wire (AInt n) = False"
| "wire (AStrings ss) = False"
| "wire (AStringMap m) = False"
| "wire v = True"

lemma decAny_wire: "decAny F j = Inr v \<Longrightarrow> wire v"
  by (cases j) (auto simp: andThen_def split: sum.splits option.splits)

lemma decAnyFields_wire: "decAnyFields F fs = Inr kvs \<Longrightarrow> (k, v) \<in> set kvs \<Longrightarrow> wire v"
  by (induction fs arbitrary: kvs) (auto simp: andThen_def decAny_wire split: sum.splits)

definition decoded :: "FloatLib \<Rightarrow> anymap \<Rightarrow> bool" where
  "decoded F m \<longleftrightarrow> (\<exists>j. decAnyMap F j None = Inr (Some m))"

lemma fmlookup_foldl: "fmlookup (foldl (\<lambda>m (k, v). fmupd k v m) m kvs) k = Some v \<Longrightarrow>
    (k, v) \<in> set kvs \<or> fmlookup m k = Some v"
proof (induction kvs arbitrary: m)
  case (Cons kv kvs)
  then show ?case by (cases kv) (auto dest!: Cons.IH split: if_splits)
qed simp

lemma decoded_wire: "decoded F m \<Longrightarrow> fmlookup m k = Some v \<Longrightarrow> wire v"
proof -
  assume look: "fmlookup m k = Some v" and "decoded F m"
  then obtain j where "decAnyMap F j None = Inr (Some m)" unfolding decoded_def by blast
  then obtain fs kvs where "decAnyFields F fs = Inr kvs" "m = foldl (\<lambda>m (k, v). fmupd k v m) fmempty kvs"
    by (cases j) (auto simp: decAnyMap_def andThen_def split: sum.splits)
  with look show "wire v" using fmlookup_foldl decAnyFields_wire by fastforce
qed

lemma canonical_wire: "wire (canonicalOIDCValue F v) = wire v"
  by (cases v) auto

lemma typed_never_matches:
  assumes "decoded F m" "fmlookup d k = Some v" "\<not> wire v"
  shows "\<not> oidcDesiredFieldsMatch F d m"
proof
  assume "oidcDesiredFieldsMatch F d m"
  moreover have "(k, v) \<in> set (sorted_list_of_fmap d)"
    using assms(2) by (force simp: sorted_list_of_fmap_def sorted_list_of_fset.rep_eq fmlookup_dom_iff)
  ultimately obtain w where "fmlookup m k = Some w" "canonicalOIDCValue F v = canonicalOIDCValue F w"
    unfolding oidcDesiredFieldsMatch_def list_all_iff by (auto split: option.splits)
  then show False
    using decoded_wire [OF assms(1)] assms(3) canonical_wire by metis
qed

text \<open>The desired fields that hold a list or a duration.\<close>

definition typedFields :: "anymap \<Rightarrow> bool" where
  "typedFields d \<longleftrightarrow> (\<exists>k v. fmlookup d k = Some v \<and> \<not> wire v)"

definition typedAt :: "string \<Rightarrow> anymap \<Rightarrow> bool" where
  "typedAt k m \<longleftrightarrow> (\<exists>v. fmlookup m k = Some v \<and> \<not> wire v)"

lemma typedFieldsI: "typedAt k d \<Longrightarrow> typedFields d"
  by (auto simp: typedFields_def typedAt_def)

lemma typedAt_put [simp]:
  "k' \<noteq> k \<Longrightarrow> typedAt k' (putString k s m) = typedAt k' m"
  "k' \<noteq> k \<Longrightarrow> typedAt k' (putBool k b m) = typedAt k' m"
  by (simp_all add: typedAt_def putString_def putBool_def split: option.splits)

lemma typedAt_strings:
  "putOidcStrings k vs f m = Inr m' \<Longrightarrow> typedAt k' m' \<longleftrightarrow> k' = k \<and> elems vs \<noteq> [] \<or> typedAt k' m"
  by (auto simp: typedAt_def putOidcStrings_def map_sum_def split: if_splits sum.splits)

lemma typedAt_duration:
  "putOidcDuration k v f m = Inr m' \<Longrightarrow> typedAt k' m' \<longleftrightarrow> k' = k \<and> v \<noteq> None \<or> typedAt k' m"
  by (auto simp: typedAt_def putOidcDuration_def oidcOptionalDuration_def map_sum_def split: option.splits sum.splits)

definition providerTyped :: "OpenBaoOIDCProviderSpec \<Rightarrow> bool" where
  "providerTyped spec \<longleftrightarrow> elems (ops_AllowedClientIDs spec) \<noteq> [] \<or> elems (ops_ScopesSupported spec) \<noteq> []"

definition clientTyped :: "OpenBaoOIDCClientSpec \<Rightarrow> bool" where
  "clientTyped spec \<longleftrightarrow> ics_AccessTokenTTL spec \<noteq> None \<or> ics_IDTokenTTL spec \<noteq> None \<or>
     elems (ics_Assignments spec) \<noteq> [] \<or> elems (ics_RedirectURIs spec) \<noteq> []"

definition keyTyped :: "OpenBaoOIDCKeySpec \<Rightarrow> bool" where
  "keyTyped spec \<longleftrightarrow> elems (iks_AllowedClientIDs spec) \<noteq> [] \<or> iks_RotationPeriod spec \<noteq> None \<or> iks_VerificationTTL spec \<noteq> None"

definition roleTyped :: "OpenBaoOIDCRoleSpec \<Rightarrow> bool" where
  "roleTyped spec \<longleftrightarrow> irs_TTL spec \<noteq> None"

definition assignmentTyped :: "OpenBaoOIDCAssignmentSpec \<Rightarrow> bool" where
  "assignmentTyped spec \<longleftrightarrow> elems (ias_EntityIDs spec) \<noteq> [] \<or> elems (ias_GroupIDs spec) \<noteq> []"

lemma andThen_Inr: "andThen r f = Inr y \<longleftrightarrow> (\<exists>x. r = Inr x \<and> f x = Inr y)"
  by (cases r) simp_all

lemma typed_fields:
  "oidcProviderDesired spec1 = Inr d \<Longrightarrow> providerTyped spec1 \<Longrightarrow> typedFields d"
  "oidcClientDesired spec2 = Inr d \<Longrightarrow> clientTyped spec2 \<Longrightarrow> typedFields d"
  "oidcKeyDesired spec3 = Inr d \<Longrightarrow> keyTyped spec3 \<Longrightarrow> typedFields d"
  "oidcRoleDesired spec4 = Inr d \<Longrightarrow> roleTyped spec4 \<Longrightarrow> typedFields d"
  "oidcAssignmentDesired spec5 = Inr d \<Longrightarrow> assignmentTyped spec5 \<Longrightarrow> typedFields d"
proof -
  assume "oidcProviderDesired spec1 = Inr d" and t: "providerTyped spec1"
  then obtain m0 m1 where "putOidcStrings ''allowed_client_ids'' (ops_AllowedClientIDs spec1) ''allowedClientIDs'' m0 = Inr m1"
    "putOidcStrings ''scopes_supported'' (ops_ScopesSupported spec1) ''scopesSupported'' m1 = Inr d"
    unfolding oidcProviderDesired_def Let_def andThen_Inr by blast
  note put = this [THEN typedAt_strings]
  from t have "typedAt ''allowed_client_ids'' d \<or> typedAt ''scopes_supported'' d"
    by (auto simp: providerTyped_def put)
  then show "typedFields d" by (auto intro: typedFieldsI)
next
  assume "oidcClientDesired spec2 = Inr d" and t: "clientTyped spec2"
  then obtain m1 m2 m3 where
    1: "putOidcDuration ''access_token_ttl'' (ics_AccessTokenTTL spec2) ''accessTokenTTL'' fmempty = Inr m1"
    and 2: "putOidcStrings ''assignments'' (ics_Assignments spec2) ''assignments'' m1 = Inr m2"
    and 3: "putOidcDuration ''id_token_ttl'' (ics_IDTokenTTL spec2) ''idTokenTTL''
      (putString ''client_type'' (TrimSpace (ics_ClientType spec2)) (putBool ''client_credentials''
        (ics_ClientCredentials spec2) (putBool ''authorization_code'' (ics_AuthorizationCode spec2) m2))) = Inr m3"
    and 4: "putOidcStrings ''redirect_uris'' (ics_RedirectURIs spec2) ''redirectURIs''
      (putString ''key'' (TrimSpace (ics_Key spec2)) m3) = Inr d"
    unfolding oidcClientDesired_def Let_def andThen_Inr by blast
  note put = typedAt_duration [OF 1] typedAt_strings [OF 2] typedAt_duration [OF 3] typedAt_strings [OF 4]
  from t have "typedAt ''access_token_ttl'' d \<or> typedAt ''assignments'' d \<or> typedAt ''id_token_ttl'' d
      \<or> typedAt ''redirect_uris'' d"
    by (auto simp: clientTyped_def put)
  then show "typedFields d" by (auto intro: typedFieldsI)
next
  assume "oidcKeyDesired spec3 = Inr d" and t: "keyTyped spec3"
  then obtain m0 m1 m2 where
    1: "putOidcStrings ''allowed_client_ids'' (iks_AllowedClientIDs spec3) ''allowedClientIDs'' m0 = Inr m1"
    and 2: "putOidcDuration ''rotation_period'' (iks_RotationPeriod spec3) ''rotationPeriod'' m1 = Inr m2"
    and 3: "putOidcDuration ''verification_ttl'' (iks_VerificationTTL spec3) ''verificationTTL'' m2 = Inr d"
    unfolding oidcKeyDesired_def Let_def andThen_Inr by blast
  note put = typedAt_strings [OF 1] typedAt_duration [OF 2] typedAt_duration [OF 3]
  from t have "typedAt ''allowed_client_ids'' d \<or> typedAt ''rotation_period'' d \<or> typedAt ''verification_ttl'' d"
    by (auto simp: keyTyped_def put)
  then show "typedFields d" by (auto intro: typedFieldsI)
next
  assume "oidcRoleDesired spec4 = Inr d" and t: "roleTyped spec4"
  then obtain m0 where "putOidcDuration ''ttl'' (irs_TTL spec4) ''ttl'' m0 = Inr d"
    by (auto simp: oidcRoleDesired_def Let_def split: if_splits)
  with t have "typedAt ''ttl'' d" by (simp add: roleTyped_def typedAt_duration)
  then show "typedFields d" by (rule typedFieldsI)
next
  assume "oidcAssignmentDesired spec5 = Inr d" and t: "assignmentTyped spec5"
  then obtain m1 where "putOidcStrings ''entity_ids'' (ias_EntityIDs spec5) ''entityIDs'' fmempty = Inr m1"
    "putOidcStrings ''group_ids'' (ias_GroupIDs spec5) ''groupIDs'' m1 = Inr d"
    unfolding oidcAssignmentDesired_def andThen_Inr by blast
  note put = this [THEN typedAt_strings]
  from t have "typedAt ''entity_ids'' d \<or> typedAt ''group_ids'' d"
    by (auto simp: assignmentTyped_def put)
  then show "typedFields d" by (auto intro: typedFieldsI)
qed

text \<open>A ready status of an object with such fields follows an accepted write in the same run.\<close>

definition rewrittenFirst ::
  "FloatLib \<Rightarrow> ('a ObjectMeta_scheme, 'st) StatusAccess \<Rightarrow> ('a ObjectMeta_scheme \<Rightarrow> bool)
     \<Rightarrow> 'a ObjectMeta_scheme OIDCEvent list \<Rightarrow> 'a ObjectMeta_scheme OIDCEvent \<Rightarrow> bool" where
  "rewrittenFirst F acc typed pre e = (case e of
      OObject (UpdatedStatus ob r) \<Rightarrow>
        readyTrue (sa_Conditions acc (sa_Status acc ob)) \<and> typed ob \<and>
        (\<forall>res n m. ReadOIDC res n (Inr (Some m)) \<in> set pre \<longrightarrow> decoded F m)
          \<longrightarrow> (\<exists>res n d. WroteOIDC res n d None \<in> set pre)
    | _ \<Rightarrow> True)"

lemma settled_typed_wrote:
  assumes "settledOIDC F plan pre ob observed" "\<And>d. op_Desired plan ob = Inr d \<Longrightarrow> typedFields d"
    and "\<forall>res n m. ReadOIDC res n (Inr (Some m)) \<in> set pre \<longrightarrow> decoded F m"
  shows "\<exists>res n d. WroteOIDC res n d None \<in> set pre"
  using assms unfolding settledOIDC_def readOIDC_def wroteOIDC_def typedFields_def
  by (metis typed_never_matches)

context oidc_kind
begin

lemma typed_rewritten:
  assumes "\<And>orig cur m t1 t2 d. typed (readyOIDCObject (sr_Float R) (planOf orig) m t1 t2 cur) \<Longrightarrow>
      op_Desired (planOf orig) cur = Inr d \<Longrightarrow> typedFields d"
  shows "guarded (rewrittenFirst (sr_Float R) acc typed) (oidc_trace R planOf req s)"
proof (rule guarded_mono [OF ready_ok])
  fix pre e
  assume ok: "oidc_ready_ok (sr_Lib R) (sr_Float R) acc planOf pre e"
  show "rewrittenFirst (sr_Float R) acc typed pre e"
  proof (cases "\<exists>ob r. e = OObject (UpdatedStatus ob r)")
    case True
    then obtain ob r where e: "e = OObject (UpdatedStatus ob r)" by blast
    have "\<exists>res n d. WroteOIDC res n d None \<in> set pre"
      if "readyTrue (sa_Conditions acc (sa_Status acc ob))" and t: "typed ob"
        and d: "\<forall>res n m. ReadOIDC res n (Inr (Some m)) \<in> set pre \<longrightarrow> decoded (sr_Float R) m"
    proof -
      from ok that(1) obtain orig cur observed t1 t2 where
        "settledOIDC (sr_Float R) (planOf orig) pre cur observed"
        "ob = readyOIDCObject (sr_Float R) (planOf orig) observed t1 t2 cur"
        unfolding oidc_ready_ok_def e by auto
      then show ?thesis using settled_typed_wrote [OF _ _ d] assms t by blast
    qed
    then show ?thesis unfolding rewrittenFirst_def e by simp
  qed (auto simp: rewrittenFirst_def split: OIDCEvent.splits KubeEvent.splits)
qed

end

lemma ready_spec [simp]:
  "opo_Spec (readyOIDCObject F (oidcProviderPlan orig) m t1 t2 ob1) = opo_Spec ob1"
  "ico_Spec (readyOIDCObject F (oidcClientPlan orig2) m t1 t2 ob2) = ico_Spec ob2"
  "iko_Spec (readyOIDCObject F (oidcKeyPlan orig3) m t1 t2 ob3) = iko_Spec ob3"
  "iro_Spec (readyOIDCObject F (oidcRolePlan orig4) m t1 t2 ob4) = iro_Spec ob4"
  "iao_Spec (readyOIDCObject F (oidcAssignmentPlan orig5) m t1 t2 ob5) = iao_Spec ob5"
  by (simp_all add: readyOIDCObject_def Let_def oidcProviderPlan_def oidcProviderAccess_def oidcClientPlan_def
      oidcClientAccess_def oidcKeyPlan_def oidcKeyAccess_def oidcRolePlan_def oidcRoleAccess_def
      oidcAssignmentPlan_def oidcAssignmentAccess_def)

lemma plan_desired [simp]:
  "op_Desired (oidcProviderPlan orig) ob1 = oidcProviderDesired (opo_Spec ob1)"
  "op_Desired (oidcClientPlan orig2) ob2 = oidcClientDesired (ico_Spec ob2)"
  "op_Desired (oidcKeyPlan orig3) ob3 = oidcKeyDesired (iko_Spec ob3)"
  "op_Desired (oidcRolePlan orig4) ob4 = oidcRoleDesired (iro_Spec ob4)"
  "op_Desired (oidcAssignmentPlan orig5) ob5 = oidcAssignmentDesired (iao_Spec ob5)"
  by (simp_all add: oidcProviderPlan_def oidcClientPlan_def oidcKeyPlan_def oidcRolePlan_def oidcAssignmentPlan_def
      Let_def)


section \<open>The issuer configuration\<close>

definition oidcConfig_trace ::
  "('s, OpenBaoOIDCConfig) OIDCReconciler \<Rightarrow> NamespacedName \<Rightarrow> 's \<Rightarrow> OpenBaoOIDCConfig OIDCEvent list" where
  "oidcConfig_trace R req s = snd (snd (run_state (Reconcile_oidcConfig (logOIDCReconciler R) req) (s, [])))"

definition agrees :: "FloatLib \<Rightarrow> OIDCObject \<Rightarrow> OIDCObject option \<Rightarrow> bool" where
  "agrees F desired observed \<longleftrightarrow> oidcDesiredFieldsMatch F desired (case observed of None \<Rightarrow> fmempty | Some m \<Rightarrow> m)"

definition oidcConfig_ok ::
  "KubeLib \<Rightarrow> FloatLib \<Rightarrow> OpenBaoOIDCConfig OIDCEvent list \<Rightarrow> OpenBaoOIDCConfig OIDCEvent \<Rightarrow> bool" where
  "oidcConfig_ok L F pre e = (case e of
      WroteOIDCConfig m r \<Rightarrow>
        (\<exists>orig observed. wasRead pre orig \<and> connReady L OConnection pre \<and> m = oidcConfigDesired (oco_Spec orig) \<and>
           ReadOIDCConfig (Inr observed) \<in> set pre \<and> \<not> agrees F m observed \<and>
           (\<forall>m' r'. WroteOIDCConfig m' r' \<notin> set pre))
    | OObject (UpdatedStatus ob r) \<Rightarrow> readyTrue (oct_Conditions (oco_Status ob)) \<longrightarrow>
        (\<exists>orig observed. wasRead pre orig \<and> connReady L OConnection pre \<and> ReadOIDCConfig (Inr observed) \<in> set pre \<and>
           (agrees F (oidcConfigDesired (oco_Spec orig)) observed \<or>
             WroteOIDCConfig (oidcConfigDesired (oco_Spec orig)) None \<in> set pre) \<and>
           oct_ConfigHash (oco_Status ob) = oidcConfigHash F observed)
    | OObject (UpdatedObject ob r) \<Rightarrow> False
    | WroteOIDC k n m r \<Rightarrow> False
    | DeletedOIDC k n r \<Rightarrow> False
    | _ \<Rightarrow> True)"

abbreviation config_justified ::
  "KubeLib \<Rightarrow> FloatLib \<Rightarrow> OpenBaoOIDCConfig OIDCEvent list \<Rightarrow> bool" where
  "config_justified L F tr \<equiv> guarded (oidcConfig_ok L F) tr"

lemma oidcConfig_ok_reads [simp]:
  "oidcConfig_ok L F pre (OObject (GotObject nn r1))" "oidcConfig_ok L F pre (OConnection k)"
  "oidcConfig_ok L F pre (MadeOIDCClient c e)" "oidcConfig_ok L F pre (ReadOIDCConfig g)"
  by (simp_all add: oidcConfig_ok_def)

lemma oidcConfig_ok_notReady:
  "\<not> readyTrue (oct_Conditions (oco_Status ob)) \<Longrightarrow> oidcConfig_ok L F pre (OObject (UpdatedStatus ob r))"
  by (simp add: oidcConfig_ok_def)

lemma oidcConfig_ok_write:
  "wasRead pre orig \<Longrightarrow> connReady L OConnection pre \<Longrightarrow> ReadOIDCConfig (Inr x) \<in> set pre
     \<Longrightarrow> \<not> agrees F (oidcConfigDesired (oco_Spec orig)) x \<Longrightarrow> \<forall>m r. WroteOIDCConfig m r \<notin> set pre
     \<Longrightarrow> oidcConfig_ok L F pre (WroteOIDCConfig (oidcConfigDesired (oco_Spec orig)) res)"
  by (auto simp: oidcConfig_ok_def)

lemma oidcConfigStalled_justified:
  assumes "config_justified L F tr"
  shows "wp (oidcConfigStalled (logOIDCReconciler R) before ob err) (\<lambda>_ (s', tr'). config_justified L F tr') (s, tr)"
  using assms unfolding oidcConfigStalled_def Let_def wp_simps logOIDCReconciler_sel
  by (intro wp_silentI wp_endWithStatusI)
     (simp_all add: guarded_snoc oidcConfig_ok_notReady has_condition_notReady [OF markStalled_both(1)])

lemma oidcConfigError_justified:
  assumes "config_justified L F tr"
  shows "wp (oidcConfigError (logOIDCReconciler R) before ob reason err) (\<lambda>_ (s', tr'). config_justified L F tr') (s, tr)"
  using assms unfolding oidcConfigError_def Let_def wp_simps logOIDCReconciler_sel
  by (intro wp_silentI wp_endWithStatusI)
     (simp_all add: guarded_snoc oidcConfig_ok_notReady has_condition_notReady [OF markError_Ready])

lemma finishOIDCConfig_justified:
  assumes "config_justified L (sr_Float R) tr" "wasRead tr orig" "connReady L OConnection tr"
    and "ReadOIDCConfig (Inr observed) \<in> set tr"
    and "agrees (sr_Float R) (oidcConfigDesired (oco_Spec orig)) observed \<or>
      WroteOIDCConfig (oidcConfigDesired (oco_Spec orig)) None \<in> set tr"
  shows "wp (finishOIDCConfig (logOIDCReconciler R) before ob observed)
           (\<lambda>_ (s', tr'). config_justified L (sr_Float R) tr') (s, tr)"
  using assms unfolding finishOIDCConfig_def Let_def wp_simps logOIDCReconciler_sel
  by (intro wp_silentI wp_endWithStatusI) (auto simp: guarded_snoc oidcConfig_ok_def)

lemma applyOIDCConfig_justified:
  assumes "config_justified L (sr_Float R) tr" "wasRead tr orig" "connReady L OConnection tr"
    and "oco_Spec ob = oco_Spec orig" "\<forall>m r. WroteOIDCConfig m r \<notin> set tr"
  shows "wp (applyOIDCConfig (logOIDCReconciler R) (logOIDCClient k) before ob)
           (\<lambda>_ (s', tr'). config_justified L (sr_Float R) tr') (s, tr)"
proof -
  let ?d = "oidcConfigDesired (oco_Spec orig)" and ?F = "sr_Float R"
  let ?tr = "\<lambda>g. tr @ [ReadOIDCConfig g]"
  let ?tr2 = "\<lambda>g w. ?tr g @ [WroteOIDCConfig ?d w]"
  have J: "config_justified L ?F (?tr g)" for g using assms(1) by (simp add: guarded_snoc)
  have J2: "config_justified L ?F (?tr2 (Inr x) w)" if "\<not> agrees ?F ?d x" for x w
    using that J assms(2,3,5)
    by (auto simp: guarded_snoc simp del: append_assoc intro!: oidcConfig_ok_write [where orig = orig])
  have J3: "config_justified L ?F (?tr2 (Inr x) w @ [ReadOIDCConfig g])" if "\<not> agrees ?F ?d x" for x w g
    using J2 [OF that] by (simp add: guarded_snoc del: append_assoc)
  have same: "wp (finishOIDCConfig (logOIDCReconciler R) before ob x)
      (\<lambda>_ (s', tr'). config_justified L ?F tr') (s', ?tr (Inr x))" if "agrees ?F ?d x" for x s'
    by (rule finishOIDCConfig_justified [where orig = orig, OF J]) (use assms that in simp_all)
  have written: "wp (finishOIDCConfig (logOIDCReconciler R) before ob y) (\<lambda>_ (s', tr'). config_justified L ?F tr')
      (s', ?tr2 (Inr x) None @ [ReadOIDCConfig (Inr y)])" if "\<not> agrees ?F ?d x" for x y s'
    by (rule finishOIDCConfig_justified [where orig = orig, OF J3 [OF that]]) (use assms in simp_all)
  show ?thesis
    unfolding applyOIDCConfig_def Let_def wp_simps logOIDCReconciler_sel logOIDCClient_sel assms(4) agrees_def [symmetric]
    using J J2 J3 same written
    by (auto split: sum.splits option.splits simp: wp_simps intro!: wp_loggedI oidcConfigError_justified)
qed

lemma Reconcile_oidcConfig_justified:
  "wp (Reconcile_oidcConfig (logOIDCReconciler R) req)
     (\<lambda>_ (s', tr'). config_justified (sr_Lib R) (sr_Float R) tr') (s, [])"
proof -
  let ?J = "config_justified (sr_Lib R) (sr_Float R)"
  have J: "?J [OObject (GotObject req r1)]" "?J [OObject (GotObject req r1), OConnection k]"
    "?J [OObject (GotObject req r1), OConnection k, MadeOIDCClient c e]" for r1 k c e
    by (simp_all add: guarded_def)
  have go: "wp (applyOIDCConfig (logOIDCReconciler R) (logOIDCClient k) (oco_Status orig)
      (orig\<lparr>oco_Status := (oco_Status orig)\<lparr>oct_ObservedGeneration := om_Generation orig\<rparr>\<rparr>))
      (\<lambda>_ (s', tr'). ?J tr') (s', [OObject (GotObject req (Inr orig)), OConnection (GotObject nn (Inr conn)), MadeOIDCClient conn None])"
    if "IsStatusConditionTrue (sr_Lib R) (cnst_Conditions (cn_Status conn)) conditionReady" for k orig nn conn s'
    by (rule applyOIDCConfig_justified [where orig = orig, OF J(3)])
       (use that in \<open>auto simp: wasRead_def intro: connReady_got [where conn = conn and nn = nn]\<close>)
  show ?thesis
    unfolding Reconcile_oidcConfig_def withObject_def Let_def wp_simps resolveConnection_def logOIDCReconciler_sel logKube_sel
    by (rule wp_loggedI)
       (auto split: sum.splits simp: wp_simps J go
         intro!: wp_loggedI wp_oidcClientForI oidcConfigStalled_justified oidcConfigError_justified)
qed

text \<open>
  C29. The issuer configuration is written at most once per reconciliation, over a ready connection,
  and only when what was read lacks the issuer of the specification; Ready is reported only after
  a read that agrees with it or followed an accepted write, with the hash of that read.  Nothing is
  ever deleted, the object itself is never written, and without an issuer in the specification
  the configuration is never written.
\<close>

theorem oidcConfig_writes_issuer_only:
  "guarded (oidcConfig_ok (sr_Lib R) (sr_Float R)) (oidcConfig_trace R req s) \<and>
   guarded (\<lambda>pre e. case e of WroteOIDCConfig m r \<Rightarrow>
      (\<exists>orig. wasRead pre orig \<and> TrimSpace (ocs_Issuer (oco_Spec orig)) \<noteq> '''' \<and>
         m = fmupd ''issuer'' (AString (TrimSpace (ocs_Issuer (oco_Spec orig)))) fmempty) | _ \<Rightarrow> True)
     (oidcConfig_trace R req s)"
proof -
  have ok: "guarded (oidcConfig_ok (sr_Lib R) (sr_Float R)) (oidcConfig_trace R req s)"
    using Reconcile_oidcConfig_justified [of R req s] by (simp add: oidcConfig_trace_def wp_run split_beta)
  have empty: "agrees F fmempty x" for F x
    by (simp add: agrees_def oidcDesiredFieldsMatch_def)
  show ?thesis
    by (intro conjI ok guarded_mono [OF ok])
       (auto simp: oidcConfig_ok_def oidcConfigDesired_def putString_def empty split: OIDCEvent.splits if_splits)
qed

section \<open>An example\<close>

text \<open>A provider whose list is stored as it was sent is written again.\<close>

definition exampleProvider :: OpenBaoOIDCProvider where
  "exampleProvider = \<lparr>om_Name = ''p'', om_Namespace = ''ns'', om_Generation = 1, om_Finalizers = [],
     om_DeletionTimestamp = None,
     opo_Spec = \<lparr>ops_ConnectionRef = \<lparr>connref_Name = ''bao''\<rparr>, ops_CreationPolicy = '''', ops_DeletionPolicy = '''',
       ops_DriftDetectionInterval = None, ops_AllowedClientIDs = Some [''a''], ops_Issuer = '''', ops_ScopesSupported = None\<rparr>,
     opo_Status = \<lparr>opt_Name = ''p'', opt_ConfigHash = '''', opt_ObservedGeneration = 1, opt_Conditions = []\<rparr>\<rparr>"

definition providerClient :: "unit OIDCClient" where
  "providerClient =
     \<lparr>GetOIDCResource = (\<lambda>_ _. ret (Inr (Some (fmupd ''allowed_client_ids'' (AList [AString ''a'']) fmempty)))),
      WriteOIDCResource = (\<lambda>_ _ _. ret (Some boom)), DeleteOIDCResource = (\<lambda>_ _. ret (Some boom)),
      GetOIDCConfig = ret (Inl boom), WriteOIDCConfig = (\<lambda>_. ret (Some boom))\<rparr>"

lemma provider_rewritten:
  "list_ex (\<lambda>e. case e of WroteOIDC r n d res \<Rightarrow> d = fmupd ''allowed_client_ids'' (AStrings (Some [''a''])) fmempty | _ \<Rightarrow> False)
     (oidc_trace \<lparr>sr_Lib = stdLib, sr_Float = intFloats, sr_Objects = constKube exampleProvider,
        sr_Connections = constKube readyConn, sr_Now = ret 9, sr_NewClient = Some (\<lambda>_. ret (Inr providerClient)),
        sr_ClientCache = None, sr_connectionClientFor = (\<lambda>_. ret (Inl boom))\<rparr>
        oidcProviderPlan (''ns'', ''p'') ())"
  by code_simp

end
