(* ===== verification/SystemEndpoints.thy ===== *)
theory SystemEndpoints
  imports Endpoints SystemClientTypes
begin

text \<open>
  \<^verbatim>\<open>internal/openbaoclient/system_resources.go\<close> and
  \<^verbatim>\<open>additional_resources.go\<close>: the endpoints behind
  \<^verbatim>\<open>SystemClient\<close>, gathered in \<open>systemClient\<close>, so that the controllers of the
  system kinds can be run over the HTTP client.  A body is a \<^verbatim>\<open>map[string]any\<close>
  and may fail to be encoded, after the token was ensured and before anything is sent.
\<close>

section \<open>Shared\<close>

definition doSegmentsMap ::
  "FloatLib \<Rightarrow> 's Client \<Rightarrow> string list \<Rightarrow> anymap \<Rightarrow> (TokenState \<times> 's, go_error option) state" where
  "doSegmentsMap F c segments request = (case mapJson F request of
      Some body \<Rightarrow> do {
        r \<leftarrow> doSegments c ''POST'' segments (Some body) nilTarget [];
        ret (errOnly r)
      }
    | None \<Rightarrow> do {
        e \<leftarrow> ensureToken c;
        ret (case e of
           Some err \<Rightarrow> Some err
         | None \<Rightarrow> Some (Wrapf ''encode OpenBao API request'' (Errorf ''json: unsupported value'')))
      })"

definition deleteSegments :: "'s Client \<Rightarrow> string list \<Rightarrow> (TokenState \<times> 's, go_error option) state" where
  "deleteSegments c segments = do {
     r \<leftarrow> doSegments c ''DELETE'' segments None nilTarget [];
     ret (errOnly r)
   }"

definition systemPathSegment :: string where "systemPathSegment = ''sys''"
definition oidcConfigSegment :: string where "oidcConfigSegment = ''config''"
definition auditPathSegment :: string where "auditPathSegment = ''audit''"

section \<open>system\_resources.go\<close>

definition zeroMount :: Mount where
  "zeroMount = \<lparr>mo_Accessor = '''', mo_Config = None, mo_Description = '''', mo_ExternalEntropy = False,
     mo_Local = False, mo_Options = None, mo_PluginVersion = '''', mo_SealWrap = False, mo_Type = '''',
     mo_UUID = ''''\<rparr>"

definition decMount :: "FloatLib \<Rightarrow> Mount decoder" where
  "decMount F = decStruct ''Mount'' (\<lambda>fs x.
     andThen (field fs ''accessor'' decString (mo_Accessor x)) (\<lambda>accessor.
     andThen (field fs ''config'' (decAnyMap F) (mo_Config x)) (\<lambda>config.
     andThen (field fs ''description'' decString (mo_Description x)) (\<lambda>description.
     andThen (field fs ''external_entropy_access'' decBool (mo_ExternalEntropy x)) (\<lambda>entropy.
     andThen (field fs ''local'' decBool (mo_Local x)) (\<lambda>loc.
     andThen (field fs ''options'' (decAnyMap F) (mo_Options x)) (\<lambda>options.
     andThen (field fs ''plugin_version'' decString (mo_PluginVersion x)) (\<lambda>version.
     andThen (field fs ''seal_wrap'' decBool (mo_SealWrap x)) (\<lambda>seal.
     andThen (field fs ''type'' decString (mo_Type x)) (\<lambda>typ.
     andThen (field fs ''uuid'' decString (mo_UUID x)) (\<lambda>uuid.
     Inr \<lparr>mo_Accessor = accessor, mo_Config = config, mo_Description = description,
       mo_ExternalEntropy = entropy, mo_Local = loc, mo_Options = options, mo_PluginVersion = version,
       mo_SealWrap = seal, mo_Type = typ, mo_UUID = uuid\<rparr>)))))))))))"

definition mountPath :: "string \<Rightarrow> string \<Rightarrow> string list" where
  "mountPath root path = [systemPathSegment, root] @ SplitByte (CHR ''/'') path"

definition Client_GetAuthMethod ::
  "FloatLib \<Rightarrow> 's Client \<Rightarrow> string \<Rightarrow> (TokenState \<times> 's, go_error + Mount option) state" where
  "Client_GetAuthMethod F c path = do {
     r \<leftarrow> doSegments c ''GET'' (mountPath ''auth'' path) None (apiResponse zeroMount (decMount F)) [];
     ret (map_sum id Some r)
   }"

definition Client_EnableAuthMethod ::
  "FloatLib \<Rightarrow> 's Client \<Rightarrow> string \<Rightarrow> anymap \<Rightarrow> (TokenState \<times> 's, go_error option) state" where
  "Client_EnableAuthMethod F c path request = doSegmentsMap F c (mountPath ''auth'' path) request"

definition Client_TuneAuthMethod ::
  "FloatLib \<Rightarrow> 's Client \<Rightarrow> string \<Rightarrow> anymap \<Rightarrow> (TokenState \<times> 's, go_error option) state" where
  "Client_TuneAuthMethod F c path request = doSegmentsMap F c (mountPath ''auth'' path @ [''tune'']) request"

definition Client_DisableAuthMethod :: "'s Client \<Rightarrow> string \<Rightarrow> (TokenState \<times> 's, go_error option) state" where
  "Client_DisableAuthMethod c path = deleteSegments c (mountPath ''auth'' path)"

definition Client_GetSecretEngine ::
  "FloatLib \<Rightarrow> 's Client \<Rightarrow> string \<Rightarrow> (TokenState \<times> 's, go_error + Mount option) state" where
  "Client_GetSecretEngine F c path = do {
     r \<leftarrow> doSegments c ''GET'' (mountPath ''mounts'' path) None (apiResponse zeroMount (decMount F)) [];
     ret (map_sum id Some r)
   }"

definition Client_EnableSecretEngine ::
  "FloatLib \<Rightarrow> 's Client \<Rightarrow> string \<Rightarrow> anymap \<Rightarrow> (TokenState \<times> 's, go_error option) state" where
  "Client_EnableSecretEngine F c path request = doSegmentsMap F c (mountPath ''mounts'' path) request"

definition Client_TuneSecretEngine ::
  "FloatLib \<Rightarrow> 's Client \<Rightarrow> string \<Rightarrow> anymap \<Rightarrow> (TokenState \<times> 's, go_error option) state" where
  "Client_TuneSecretEngine F c path request = doSegmentsMap F c (mountPath ''mounts'' path @ [''tune'']) request"

definition Client_DisableSecretEngine :: "'s Client \<Rightarrow> string \<Rightarrow> (TokenState \<times> 's, go_error option) state" where
  "Client_DisableSecretEngine c path = deleteSegments c (mountPath ''mounts'' path)"

definition zeroNamespace :: Namespace where
  "zeroNamespace = \<lparr>ns_ID = '''', ns_Path = '''', ns_CustomMetadata = None, ns_UUID = ''''\<rparr>"

definition decNamespace :: "FloatLib \<Rightarrow> Namespace decoder" where
  "decNamespace F = decStruct ''Namespace'' (\<lambda>fs x.
     andThen (field fs ''id'' decString (ns_ID x)) (\<lambda>i.
     andThen (field fs ''path'' decString (ns_Path x)) (\<lambda>p.
     andThen (field fs ''custom_metadata'' (decAnyMap F) (ns_CustomMetadata x)) (\<lambda>m.
     andThen (field fs ''uuid'' decString (ns_UUID x)) (\<lambda>u.
     Inr \<lparr>ns_ID = i, ns_Path = p, ns_CustomMetadata = m, ns_UUID = u\<rparr>)))))"

definition namespacePath :: "string \<Rightarrow> string list" where
  "namespacePath path = [systemPathSegment, ''namespaces''] @ SplitByte (CHR ''/'') path"

definition Client_GetNamespace ::
  "FloatLib \<Rightarrow> 's Client \<Rightarrow> string \<Rightarrow> (TokenState \<times> 's, go_error + Namespace option) state" where
  "Client_GetNamespace F c path = do {
     r \<leftarrow> doSegments c ''GET'' (namespacePath path) None (apiResponse zeroNamespace (decNamespace F)) [];
     ret (map_sum id Some r)
   }"

definition Client_WriteNamespace ::
  "FloatLib \<Rightarrow> 's Client \<Rightarrow> string \<Rightarrow> anymap \<Rightarrow> (TokenState \<times> 's, go_error option) state" where
  "Client_WriteNamespace F c path request = doSegmentsMap F c (namespacePath path) request"

definition Client_DeleteNamespace :: "'s Client \<Rightarrow> string \<Rightarrow> (TokenState \<times> 's, go_error option) state" where
  "Client_DeleteNamespace c path = deleteSegments c (namespacePath path)"

definition zeroAuditDevice :: AuditDevice where
  "zeroAuditDevice = \<lparr>ad_Type = '''', ad_Description = '''', ad_Local = False, ad_Options = None\<rparr>"

definition decAuditDevice :: "FloatLib \<Rightarrow> AuditDevice decoder" where
  "decAuditDevice F = decStruct ''AuditDevice'' (\<lambda>fs x.
     andThen (field fs ''type'' decString (ad_Type x)) (\<lambda>t.
     andThen (field fs ''description'' decString (ad_Description x)) (\<lambda>d.
     andThen (field fs ''local'' decBool (ad_Local x)) (\<lambda>l.
     andThen (field fs ''options'' (decAnyMap F) (ad_Options x)) (\<lambda>opts.
     Inr \<lparr>ad_Type = t, ad_Description = d, ad_Local = l, ad_Options = opts\<rparr>)))))"

text \<open>\<^verbatim>\<open>map[string]AuditDevice\<close>: every entry is read into a zero device.\<close>

fun decDevices ::
  "FloatLib \<Rightarrow> (string \<times> Json) list \<Rightarrow> (string, AuditDevice) fmap \<Rightarrow> string + (string, AuditDevice) fmap" where
  "decDevices F [] m = Inr m"
| "decDevices F ((k, v) # fs) m =
     andThen (decAuditDevice F v zeroAuditDevice) (\<lambda>d. decDevices F fs (fmupd k d m))"

definition decDeviceMap :: "FloatLib \<Rightarrow> (string, AuditDevice) fmap decoder" where
  "decDeviceMap F v x = (case v of
      JNull \<Rightarrow> Inr fmempty
    | JObj fs \<Rightarrow> decDevices F fs x
    | _ \<Rightarrow> Inl (typeMismatch ''map[string]AuditDevice''))"

definition TrimSuffix :: "string \<Rightarrow> string \<Rightarrow> string" where
  "TrimSuffix s p = (if HasSuffix s p then take (length s - length p) s else s)"

text \<open>The device at the path, or at the path with a slash at its end, as the server lists them.\<close>

definition findDevice :: "(string, AuditDevice) fmap \<Rightarrow> string \<Rightarrow> go_error + AuditDevice option" where
  "findDevice devices path = (case fmlookup devices path of
      Some device \<Rightarrow> Inr (Some device)
    | None \<Rightarrow> (case fmlookup devices (TrimSuffix path ''/'' @ ''/'') of
        Some device \<Rightarrow> Inr (Some device)
      | None \<Rightarrow> Inl (HTTPError StatusNotFound ''audit device not found'')))"

definition Client_GetAuditDevice ::
  "FloatLib \<Rightarrow> 's Client \<Rightarrow> string \<Rightarrow> (TokenState \<times> 's, go_error + AuditDevice option) state" where
  "Client_GetAuditDevice F c path = do {
     r \<leftarrow> doSegments c ''GET'' [systemPathSegment, auditPathSegment] None (apiResponse fmempty (decDeviceMap F)) [];
     ret (andThen r (\<lambda>devices. findDevice devices path))
   }"

definition Client_WriteAuditDevice ::
  "FloatLib \<Rightarrow> 's Client \<Rightarrow> string \<Rightarrow> anymap \<Rightarrow> (TokenState \<times> 's, go_error option) state" where
  "Client_WriteAuditDevice F c path request = doSegmentsMap F c [systemPathSegment, auditPathSegment, path] request"

definition Client_DeleteAuditDevice :: "'s Client \<Rightarrow> string \<Rightarrow> (TokenState \<times> 's, go_error option) state" where
  "Client_DeleteAuditDevice c path = deleteSegments c [systemPathSegment, auditPathSegment, path]"

text \<open>\<^verbatim>\<open>getAdditional\<close>, and the three types that are maps of any shape.\<close>

definition getAdditional ::
  "FloatLib \<Rightarrow> 's Client \<Rightarrow> string list \<Rightarrow> (TokenState \<times> 's, go_error + anymap option) state" where
  "getAdditional F c segments = doSegments c ''GET'' segments None (apiResponse None (decAnyMap F)) []"

definition writeAdditional ::
  "FloatLib \<Rightarrow> 's Client \<Rightarrow> string list \<Rightarrow> anymap \<Rightarrow> (TokenState \<times> 's, go_error option) state" where
  "writeAdditional F c segments request = doSegmentsMap F c segments request"

definition deleteAdditional :: "'s Client \<Rightarrow> string list \<Rightarrow> (TokenState \<times> 's, go_error option) state" where
  "deleteAdditional c segments = deleteSegments c segments"

definition quotaPath :: "string \<Rightarrow> string list" where
  "quotaPath name = [systemPathSegment, ''quotas'', ''rate-limit'', name]"

definition workflowPath :: "string \<Rightarrow> string list" where
  "workflowPath path = [systemPathSegment, ''workflows'', ''manage''] @ SplitByte (CHR ''/'') path"

definition pluginPath :: "string \<Rightarrow> string \<Rightarrow> string list" where
  "pluginPath typ name = [systemPathSegment, ''plugins'', ''catalog'', typ, name]"

definition Client_GetRateLimitQuota ::
  "FloatLib \<Rightarrow> 's Client \<Rightarrow> string \<Rightarrow> (TokenState \<times> 's, go_error + RateLimitQuota) state" where
  "Client_GetRateLimitQuota F c name = doSegments c ''GET'' (quotaPath name) None (apiResponse None (decAnyMap F)) []"

definition Client_WriteRateLimitQuota ::
  "FloatLib \<Rightarrow> 's Client \<Rightarrow> string \<Rightarrow> anymap \<Rightarrow> (TokenState \<times> 's, go_error option) state" where
  "Client_WriteRateLimitQuota F c name request = doSegmentsMap F c (quotaPath name) request"

definition Client_DeleteRateLimitQuota :: "'s Client \<Rightarrow> string \<Rightarrow> (TokenState \<times> 's, go_error option) state" where
  "Client_DeleteRateLimitQuota c name = deleteSegments c (quotaPath name)"

definition Client_GetWorkflow ::
  "FloatLib \<Rightarrow> 's Client \<Rightarrow> string \<Rightarrow> (TokenState \<times> 's, go_error + Workflow) state" where
  "Client_GetWorkflow F c path = doSegments c ''GET'' (workflowPath path) None (apiResponse None (decAnyMap F)) []"

definition Client_WriteWorkflow ::
  "FloatLib \<Rightarrow> 's Client \<Rightarrow> string \<Rightarrow> anymap \<Rightarrow> (TokenState \<times> 's, go_error option) state" where
  "Client_WriteWorkflow F c path request = doSegmentsMap F c (workflowPath path) request"

definition Client_DeleteWorkflow :: "'s Client \<Rightarrow> string \<Rightarrow> (TokenState \<times> 's, go_error option) state" where
  "Client_DeleteWorkflow c path = deleteSegments c (workflowPath path)"

definition Client_GetPlugin ::
  "FloatLib \<Rightarrow> 's Client \<Rightarrow> string \<Rightarrow> string \<Rightarrow> (TokenState \<times> 's, go_error + Plugin) state" where
  "Client_GetPlugin F c typ name = doSegments c ''GET'' (pluginPath typ name) None (apiResponse None (decAnyMap F)) []"

definition Client_WritePlugin ::
  "FloatLib \<Rightarrow> 's Client \<Rightarrow> string \<Rightarrow> string \<Rightarrow> anymap \<Rightarrow> (TokenState \<times> 's, go_error option) state" where
  "Client_WritePlugin F c typ name request = doSegmentsMap F c (pluginPath typ name) request"

definition Client_DeletePlugin :: "'s Client \<Rightarrow> string \<Rightarrow> string \<Rightarrow> (TokenState \<times> 's, go_error option) state" where
  "Client_DeletePlugin c typ name = deleteSegments c (pluginPath typ name)"

section \<open>additional\_resources.go\<close>

definition Client_GetMFALoginEnforcement ::
  "FloatLib \<Rightarrow> 's Client \<Rightarrow> string \<Rightarrow> (TokenState \<times> 's, go_error + anymap option) state" where
  "Client_GetMFALoginEnforcement F c name = getAdditional F c [identityPathSegment, ''mfa'', ''login-enforcement'', name]"

definition Client_WriteMFALoginEnforcement ::
  "FloatLib \<Rightarrow> 's Client \<Rightarrow> string \<Rightarrow> anymap \<Rightarrow> (TokenState \<times> 's, go_error option) state" where
  "Client_WriteMFALoginEnforcement F c name request = writeAdditional F c [identityPathSegment, ''mfa'', ''login-enforcement'', name] request"

definition Client_DeleteMFALoginEnforcement :: "'s Client \<Rightarrow> string \<Rightarrow> (TokenState \<times> 's, go_error option) state" where
  "Client_DeleteMFALoginEnforcement c name = deleteAdditional c [identityPathSegment, ''mfa'', ''login-enforcement'', name]"

definition Client_GetMFAMethod ::
  "FloatLib \<Rightarrow> 's Client \<Rightarrow> string \<Rightarrow> string \<Rightarrow> (TokenState \<times> 's, go_error + anymap option) state" where
  "Client_GetMFAMethod F c methodType methodID = getAdditional F c [identityPathSegment, ''mfa'', ''method'', methodType, methodID]"

definition Client_WriteMFAMethod ::
  "FloatLib \<Rightarrow> 's Client \<Rightarrow> string \<Rightarrow> string \<Rightarrow> anymap \<Rightarrow> (TokenState \<times> 's, go_error option) state" where
  "Client_WriteMFAMethod F c methodType methodID request = writeAdditional F c [identityPathSegment, ''mfa'', ''method'', methodType, methodID] request"

definition Client_DeleteMFAMethod :: "'s Client \<Rightarrow> string \<Rightarrow> string \<Rightarrow> (TokenState \<times> 's, go_error option) state" where
  "Client_DeleteMFAMethod c methodType methodID = deleteAdditional c [identityPathSegment, ''mfa'', ''method'', methodType, methodID]"

definition Client_GetCORSConfiguration ::
  "FloatLib \<Rightarrow> 's Client \<Rightarrow> (TokenState \<times> 's, go_error + anymap option) state" where
  "Client_GetCORSConfiguration F c = getAdditional F c [systemPathSegment, oidcConfigSegment, ''cors'']"

definition Client_WriteCORSConfiguration ::
  "FloatLib \<Rightarrow> 's Client \<Rightarrow> anymap \<Rightarrow> (TokenState \<times> 's, go_error option) state" where
  "Client_WriteCORSConfiguration F c request = writeAdditional F c [systemPathSegment, oidcConfigSegment, ''cors''] request"

definition Client_DeleteCORSConfiguration :: "'s Client \<Rightarrow> (TokenState \<times> 's, go_error option) state" where
  "Client_DeleteCORSConfiguration c = deleteAdditional c [systemPathSegment, oidcConfigSegment, ''cors'']"

definition Client_GetAuditRequestHeader ::
  "FloatLib \<Rightarrow> 's Client \<Rightarrow> string \<Rightarrow> (TokenState \<times> 's, go_error + anymap option) state" where
  "Client_GetAuditRequestHeader F c header = getAdditional F c [systemPathSegment, oidcConfigSegment, ''auditing'', ''request-headers'', header]"

definition Client_WriteAuditRequestHeader ::
  "FloatLib \<Rightarrow> 's Client \<Rightarrow> string \<Rightarrow> anymap \<Rightarrow> (TokenState \<times> 's, go_error option) state" where
  "Client_WriteAuditRequestHeader F c header request = writeAdditional F c [systemPathSegment, oidcConfigSegment, ''auditing'', ''request-headers'', header] request"

definition Client_DeleteAuditRequestHeader :: "'s Client \<Rightarrow> string \<Rightarrow> (TokenState \<times> 's, go_error option) state" where
  "Client_DeleteAuditRequestHeader c header = deleteAdditional c [systemPathSegment, oidcConfigSegment, ''auditing'', ''request-headers'', header]"

definition Client_GetUIHeader ::
  "FloatLib \<Rightarrow> 's Client \<Rightarrow> string \<Rightarrow> (TokenState \<times> 's, go_error + anymap option) state" where
  "Client_GetUIHeader F c header = getAdditional F c [systemPathSegment, oidcConfigSegment, ''ui'', ''headers'', header]"

definition Client_WriteUIHeader ::
  "FloatLib \<Rightarrow> 's Client \<Rightarrow> string \<Rightarrow> anymap \<Rightarrow> (TokenState \<times> 's, go_error option) state" where
  "Client_WriteUIHeader F c header request = writeAdditional F c [systemPathSegment, oidcConfigSegment, ''ui'', ''headers'', header] request"

definition Client_DeleteUIHeader :: "'s Client \<Rightarrow> string \<Rightarrow> (TokenState \<times> 's, go_error option) state" where
  "Client_DeleteUIHeader c header = deleteAdditional c [systemPathSegment, oidcConfigSegment, ''ui'', ''headers'', header]"

definition Client_GetRateLimitQuotaConfiguration ::
  "FloatLib \<Rightarrow> 's Client \<Rightarrow> (TokenState \<times> 's, go_error + anymap option) state" where
  "Client_GetRateLimitQuotaConfiguration F c = getAdditional F c [systemPathSegment, ''quotas'', oidcConfigSegment]"

definition Client_WriteRateLimitQuotaConfiguration ::
  "FloatLib \<Rightarrow> 's Client \<Rightarrow> anymap \<Rightarrow> (TokenState \<times> 's, go_error option) state" where
  "Client_WriteRateLimitQuotaConfiguration F c request = writeAdditional F c [systemPathSegment, ''quotas'', oidcConfigSegment] request"

definition Client_GetLogger ::
  "FloatLib \<Rightarrow> 's Client \<Rightarrow> string \<Rightarrow> (TokenState \<times> 's, go_error + anymap option) state" where
  "Client_GetLogger F c name =
     (if name = '''' then getAdditional F c [systemPathSegment, ''loggers'']
      else do {
        r \<leftarrow> getAdditional F c [systemPathSegment, ''loggers'', name];
        ret (map_sum id (\<lambda>value.
          case Option.bind value (\<lambda>m. getString m name) of
            Some level \<Rightarrow> Some (fmupd ''level'' (AString level) fmempty)
          | None \<Rightarrow> value) r)
      })"

definition Client_WriteLogger ::
  "FloatLib \<Rightarrow> 's Client \<Rightarrow> string \<Rightarrow> anymap \<Rightarrow> (TokenState \<times> 's, go_error option) state" where
  "Client_WriteLogger F c name request =
     (if name = '''' then writeAdditional F c [systemPathSegment, ''loggers''] request
      else writeAdditional F c [systemPathSegment, ''loggers'', name] request)"

definition Client_DeleteLogger :: "'s Client \<Rightarrow> string \<Rightarrow> (TokenState \<times> 's, go_error option) state" where
  "Client_DeleteLogger c name =
     (if name = '''' then deleteAdditional c [systemPathSegment, ''loggers'']
      else deleteAdditional c [systemPathSegment, ''loggers'', name])"

definition Client_GetEncryptionKeyConfiguration ::
  "FloatLib \<Rightarrow> 's Client \<Rightarrow> (TokenState \<times> 's, go_error + anymap option) state" where
  "Client_GetEncryptionKeyConfiguration F c = getAdditional F c [systemPathSegment, ''rotate'', oidcConfigSegment]"

definition Client_WriteEncryptionKeyConfiguration ::
  "FloatLib \<Rightarrow> 's Client \<Rightarrow> anymap \<Rightarrow> (TokenState \<times> 's, go_error option) state" where
  "Client_WriteEncryptionKeyConfiguration F c request = writeAdditional F c [systemPathSegment, ''rotate'', oidcConfigSegment] request"

definition Client_GetKeyringRotationConfiguration ::
  "FloatLib \<Rightarrow> 's Client \<Rightarrow> (TokenState \<times> 's, go_error + anymap option) state" where
  "Client_GetKeyringRotationConfiguration F c = getAdditional F c [systemPathSegment, ''rotate'', ''keyring'', oidcConfigSegment]"

definition Client_WriteKeyringRotationConfiguration ::
  "FloatLib \<Rightarrow> 's Client \<Rightarrow> anymap \<Rightarrow> (TokenState \<times> 's, go_error option) state" where
  "Client_WriteKeyringRotationConfiguration F c request = writeAdditional F c [systemPathSegment, ''rotate'', ''keyring'', oidcConfigSegment] request"

section \<open>The client as a SystemClient\<close>

definition systemClient :: "FloatLib \<Rightarrow> 's Client \<Rightarrow> (TokenState \<times> 's) SystemClient" where
  "systemClient F c =
     \<lparr>GetMFALoginEnforcement = Client_GetMFALoginEnforcement F c,
      WriteMFALoginEnforcement = Client_WriteMFALoginEnforcement F c,
      DeleteMFALoginEnforcement = Client_DeleteMFALoginEnforcement c,
      GetCORSConfiguration = Client_GetCORSConfiguration F c,
      WriteCORSConfiguration = Client_WriteCORSConfiguration F c,
      DeleteCORSConfiguration = Client_DeleteCORSConfiguration c,
      GetAuditRequestHeader = Client_GetAuditRequestHeader F c,
      WriteAuditRequestHeader = Client_WriteAuditRequestHeader F c,
      DeleteAuditRequestHeader = Client_DeleteAuditRequestHeader c,
      GetUIHeader = Client_GetUIHeader F c,
      WriteUIHeader = Client_WriteUIHeader F c,
      DeleteUIHeader = Client_DeleteUIHeader c,
      GetRateLimitQuotaConfiguration = Client_GetRateLimitQuotaConfiguration F c,
      WriteRateLimitQuotaConfiguration = Client_WriteRateLimitQuotaConfiguration F c,
      GetLogger = Client_GetLogger F c,
      WriteLogger = Client_WriteLogger F c,
      DeleteLogger = Client_DeleteLogger c,
      GetEncryptionKeyConfiguration = Client_GetEncryptionKeyConfiguration F c,
      WriteEncryptionKeyConfiguration = Client_WriteEncryptionKeyConfiguration F c,
      GetKeyringRotationConfiguration = Client_GetKeyringRotationConfiguration F c,
      WriteKeyringRotationConfiguration = Client_WriteKeyringRotationConfiguration F c,
      GetAuthMethod = Client_GetAuthMethod F c,
      EnableAuthMethod = Client_EnableAuthMethod F c,
      TuneAuthMethod = Client_TuneAuthMethod F c,
      DisableAuthMethod = Client_DisableAuthMethod c,
      GetSecretEngine = Client_GetSecretEngine F c,
      EnableSecretEngine = Client_EnableSecretEngine F c,
      TuneSecretEngine = Client_TuneSecretEngine F c,
      DisableSecretEngine = Client_DisableSecretEngine c,
      GetNamespace = Client_GetNamespace F c,
      WriteNamespace = Client_WriteNamespace F c,
      DeleteNamespace = Client_DeleteNamespace c,
      GetAuditDevice = Client_GetAuditDevice F c,
      WriteAuditDevice = Client_WriteAuditDevice F c,
      DeleteAuditDevice = Client_DeleteAuditDevice c,
      GetRateLimitQuota = Client_GetRateLimitQuota F c,
      WriteRateLimitQuota = Client_WriteRateLimitQuota F c,
      DeleteRateLimitQuota = Client_DeleteRateLimitQuota c,
      GetWorkflow = Client_GetWorkflow F c,
      WriteWorkflow = Client_WriteWorkflow F c,
      DeleteWorkflow = Client_DeleteWorkflow c,
      GetPlugin = Client_GetPlugin F c,
      WritePlugin = Client_WritePlugin F c,
      DeletePlugin = Client_DeletePlugin c\<rparr>"

text \<open>
  A successful read of a mount, a namespace or an audit device is never a nil pointer, and an
  audit device is one the server listed at that path.
\<close>

lemma findDevice_lists:
  "findDevice devices path = Inr v \<Longrightarrow>
     \<exists>d. v = Some d \<and> (fmlookup devices path = Some d \<or> fmlookup devices (TrimSuffix path ''/'' @ ''/'') = Some d)"
  by (cases "fmlookup devices path"; cases "fmlookup devices (TrimSuffix path ''/'' @ ''/'')") (auto simp: findDevice_def)

lemma findDevice_absent: "findDevice devices path = Inl err \<Longrightarrow> IsNotFound err"
  by (auto simp: findDevice_def StatusNotFound_def split: option.splits)

lemma mountPath_inject: "mountPath root p = mountPath root' q \<longleftrightarrow> root = root' \<and> p = q"
  unfolding mountPath_def by (auto dest: arg_cong [where f = "JoinByte (CHR ''/'')"] simp: JoinByte_Split)

end
