(* ===== verification/OidcEndpoints.thy ===== *)
theory OidcEndpoints
  imports SystemEndpoints OidcEngine
begin

text \<open>
  \<^verbatim>\<open>internal/openbaoclient/oidc.go\<close>: the paths and requests of the OIDC endpoints,
  and the client as an \<open>OIDCClient\<close>.
\<close>

definition oidcPathSegment :: string where "oidcPathSegment = ''oidc''"
definition oidcProviderSegment :: string where "oidcProviderSegment = ''provider''"
definition oidcClientSegment :: string where "oidcClientSegment = ''client''"
definition oidcKeySegment :: string where "oidcKeySegment = ''key''"
definition oidcRoleSegment :: string where "oidcRoleSegment = ''role''"
definition oidcScopeSegment :: string where "oidcScopeSegment = ''scope''"
definition oidcAssignmentSegment :: string where "oidcAssignmentSegment = ''assignment''"

lemmas oidc_segment_defs = oidcPathSegment_def oidcProviderSegment_def oidcClientSegment_def oidcKeySegment_def
  oidcRoleSegment_def oidcScopeSegment_def oidcAssignmentSegment_def

definition oidcResourceSegment :: "string \<Rightarrow> go_error + string" where
  "oidcResourceSegment resource =
     (if resource \<in> {oidcProviderSegment, oidcClientSegment, oidcKeySegment, oidcRoleSegment, oidcScopeSegment,
         oidcAssignmentSegment}
      then Inr resource else Inl (Errorf (''unsupported OpenBao OIDC resource '' @ fmt_q resource)))"

definition oidcResourcePath :: "string \<Rightarrow> string \<Rightarrow> go_error + string list" where
  "oidcResourcePath resource name = (case oidcResourceSegment resource of
      Inl err \<Rightarrow> Inl err
    | Inr segment \<Rightarrow> Inr [identityPathSegment, oidcPathSegment, segment, name])"

definition oidcConfigPath :: "string list" where
  "oidcConfigPath = [identityPathSegment, oidcPathSegment, oidcConfigSegment]"

definition Client_GetOIDCResource ::
  "FloatLib \<Rightarrow> 's Client \<Rightarrow> string \<Rightarrow> string \<Rightarrow> (TokenState \<times> 's, go_error + OIDCObject option) state" where
  "Client_GetOIDCResource F c resource name = (case oidcResourcePath resource name of
      Inl err \<Rightarrow> ret (Inl err)
    | Inr path \<Rightarrow> getAdditional F c path)"

definition Client_WriteOIDCResource ::
  "FloatLib \<Rightarrow> 's Client \<Rightarrow> string \<Rightarrow> string \<Rightarrow> OIDCObject \<Rightarrow> (TokenState \<times> 's, go_error option) state" where
  "Client_WriteOIDCResource F c resource name request = (case oidcResourcePath resource name of
      Inl err \<Rightarrow> ret (Some err)
    | Inr path \<Rightarrow> doSegmentsMap F c path request)"

definition Client_DeleteOIDCResource ::
  "'s Client \<Rightarrow> string \<Rightarrow> string \<Rightarrow> (TokenState \<times> 's, go_error option) state" where
  "Client_DeleteOIDCResource c resource name = (case oidcResourcePath resource name of
      Inl err \<Rightarrow> ret (Some err)
    | Inr path \<Rightarrow> deleteSegments c path)"

definition Client_GetOIDCConfig ::
  "FloatLib \<Rightarrow> 's Client \<Rightarrow> (TokenState \<times> 's, go_error + OIDCObject option) state" where
  "Client_GetOIDCConfig F c = getAdditional F c oidcConfigPath"

definition Client_WriteOIDCConfig ::
  "FloatLib \<Rightarrow> 's Client \<Rightarrow> OIDCObject \<Rightarrow> (TokenState \<times> 's, go_error option) state" where
  "Client_WriteOIDCConfig F c request = doSegmentsMap F c oidcConfigPath request"

definition oidcClient :: "FloatLib \<Rightarrow> 's Client \<Rightarrow> (TokenState \<times> 's) OIDCClient" where
  "oidcClient F c =
     \<lparr>GetOIDCResource = Client_GetOIDCResource F c, WriteOIDCResource = Client_WriteOIDCResource F c,
      DeleteOIDCResource = Client_DeleteOIDCResource c, GetOIDCConfig = Client_GetOIDCConfig F c,
      WriteOIDCConfig = Client_WriteOIDCConfig F c\<rparr>"

text \<open>
  A named object has a path of its own: neither another kind, nor another name, nor the issuer
  configuration is reached by it.
\<close>

lemma oidcResourcePath_inject:
  "oidcResourcePath r n = Inr p \<Longrightarrow> oidcResourcePath r' n' = Inr p \<Longrightarrow> r = r' \<and> n = n'"
  by (auto simp: oidcResourcePath_def oidcResourceSegment_def split: sum.splits if_splits)

lemma oidcResourcePath_not_config: "oidcResourcePath r n \<noteq> Inr oidcConfigPath"
  by (auto simp: oidcResourcePath_def oidcConfigPath_def split: sum.splits)

text \<open>A resource of no known kind is refused before any request is made.\<close>

lemma unsupported_OIDC:
  assumes "resource \<notin> {''provider'', ''client'', ''key'', ''role'', ''scope'', ''assignment''}"
  shows "\<exists>err. Client_GetOIDCResource F c resource name = ret (Inl err) \<and>
    Client_WriteOIDCResource F c resource name request = ret (Some err) \<and>
    Client_DeleteOIDCResource c resource name = ret (Some err)"
proof -
  have "oidcResourcePath resource n = Inl (Errorf (''unsupported OpenBao OIDC resource '' @ fmt_q resource))" for n
    using assms by (simp add: oidcResourcePath_def oidcResourceSegment_def oidc_segment_defs)
  then show ?thesis
    unfolding Client_GetOIDCResource_def Client_WriteOIDCResource_def Client_DeleteOIDCResource_def by auto
qed

end
