(* ===== verification/MfaController.thy ===== *)
theory MfaController
  imports ConfigurationKinds ClientCache
begin

text \<open>
  \<^verbatim>\<open>OpenBaoMFAMethodReconciler\<close> of \<^verbatim>\<open>openbaomfa_controller.go\<close>, with the types of
  \<^verbatim>\<open>openbaoadditional_types.go\<close>.  The desired method holds credentials read from Secrets of the
  same namespace; what is compared and hashed leaves them out, and a hash of the credentials in
  the status shows when they change.
\<close>

section \<open>Types\<close>

type_synonym OpenBaoMFAMethodType = string

definition OpenBaoMFAMethodTypeDuo :: OpenBaoMFAMethodType where "OpenBaoMFAMethodTypeDuo = ''duo''"
definition OpenBaoMFAMethodTypeOkta :: OpenBaoMFAMethodType where "OpenBaoMFAMethodTypeOkta = ''okta''"
definition OpenBaoMFAMethodTypePingID :: OpenBaoMFAMethodType where "OpenBaoMFAMethodTypePingID = ''pingid''"
definition OpenBaoMFAMethodTypeTOTP :: OpenBaoMFAMethodType where "OpenBaoMFAMethodTypeTOTP = ''totp''"

record OpenBaoMFAMethodSpec =
  mms_ConnectionRef :: OpenBaoConnectionReference
  mms_Type :: OpenBaoMFAMethodType
  mms_MethodID :: string
  mms_MethodName :: string
  mms_UsernameFormat :: string
  mms_APIHostname :: string
  mms_IntegrationKey :: string
  mms_SecretKeyRef :: "SecretKeyReference option"
  mms_PushInfo :: string
  mms_UsePasscode :: "bool option"
  mms_APITokenRef :: "SecretKeyReference option"
  mms_BaseURL :: string
  mms_OrgName :: string
  mms_PrimaryEmail :: "bool option"
  mms_Production :: "bool option"
  mms_SettingsFileRef :: "SecretKeyReference option"
  mms_Algorithm :: string
  mms_Digits :: "int option"
  mms_Issuer :: string
  mms_KeySize :: "int option"
  mms_MaxValidationAttempts :: "int option"
  mms_Period :: "int option"
  mms_QRSize :: "int option"
  mms_Skew :: "int option"
  mms_CreationPolicy :: CreationPolicy
  mms_DeletionPolicy :: DeletionPolicy
  mms_DriftDetectionInterval :: "int option"

record OpenBaoMFAMethodStatus =
  mmt_MethodID :: string
  mmt_MethodName :: string
  mmt_ConfigHash :: string
  mmt_SecretHash :: string
  mmt_ObservedGeneration :: int
  mmt_Conditions :: "Condition list"

record OpenBaoMFAMethod = ObjectMeta +
  mmo_Spec :: OpenBaoMFAMethodSpec
  mmo_Status :: OpenBaoMFAMethodStatus

definition mfaAccess where
  "mfaAccess =
     \<lparr>sa_Status = mmo_Status,
      sa_setStatus = (\<lambda>st ob. ob\<lparr>mmo_Status := st\<rparr>),
      sa_Conditions = mmt_Conditions,
      sa_setConditions = (\<lambda>cs st. st\<lparr>mmt_Conditions := cs\<rparr>),
      sa_ObservedGeneration = mmt_ObservedGeneration,
      sa_setObservedGeneration = (\<lambda>g st. st\<lparr>mmt_ObservedGeneration := g\<rparr>)\<rparr>"

section \<open>The desired method\<close>

text \<open>\<^verbatim>\<open>base64.StdEncoding.EncodeToString\<close>\<close>

definition base64_digits :: string where
  "base64_digits = ''ABCDEFGHIJKLMNOPQRSTUVWXYZabcdefghijklmnopqrstuvwxyz0123456789+/''"

definition base64_digit :: "nat \<Rightarrow> char" where
  "base64_digit n = base64_digits ! (n mod 64)"

fun base64 :: "string \<Rightarrow> string" where
  "base64 [] = []"
| "base64 [a] = (let n = of_char a * 16 in [base64_digit (n div 64), base64_digit n, CHR ''='', CHR ''=''])"
| "base64 [a, b] = (let n = (of_char a * 256 + of_char b) * 4
     in [base64_digit (n div 4096), base64_digit (n div 64), base64_digit n, CHR ''=''])"
| "base64 (a # b # c # s) = (let n = (of_char a * 256 + of_char b) * 256 + of_char c
     in [base64_digit (n div 262144), base64_digit (n div 4096), base64_digit (n div 64), base64_digit n] @ base64 s)"

record 's MFAMethodClient =
  GetMFAMethod :: "string \<Rightarrow> string \<Rightarrow> ('s, go_error + anymap option) state"
  WriteMFAMethod :: "string \<Rightarrow> string \<Rightarrow> anymap \<Rightarrow> ('s, go_error option) state"
  DeleteMFAMethod :: "string \<Rightarrow> string \<Rightarrow> ('s, go_error option) state"

record 's MFAMethodReconciler =
  mr_Lib :: KubeLib
  mr_Float :: FloatLib
  mr_Methods :: "('s, OpenBaoMFAMethod) KubeAPI"
  mr_Connections :: "('s, OpenBaoConnection) KubeAPI"
  mr_GetSecret :: "NamespacedName \<Rightarrow> ('s, go_error + Secret) state"
  mr_Now :: "('s, int) state"
  mr_NewClient :: "(OpenBaoConnection \<Rightarrow> ('s, go_error + 's MFAMethodClient) state) option"
  mr_ClientCache :: "(OpenBaoConnection \<Rightarrow> ('s, go_error + 's MFAMethodClient) state) option"
  mr_connectionClientFor :: "OpenBaoConnection \<Rightarrow> ('s, go_error + 's MFAMethodClient) state"

definition mfaSecretHash :: "string list \<Rightarrow> string" where
  "mfaSecretHash parts = sha256_hex (JoinByte (CHR 0x00) (sort parts))"

definition readSecret_mfa ::
  "'s MFAMethodReconciler \<Rightarrow> string \<Rightarrow> SecretKeyReference \<Rightarrow> string \<Rightarrow> ('s, go_error + string) state" where
  "readSecret_mfa R namespace ref defaultKey = do {
     r \<leftarrow> mr_GetSecret R (namespace, skr_Name ref);
     ret (case r of
       Inl err \<Rightarrow> Inl (Wrapf (''read MFA Secret '' @ slashed namespace (skr_Name ref)) err)
     | Inr secret \<Rightarrow>
         (let key = (if skr_Key ref = '''' then defaultKey else skr_Key ref)
          in case fmlookup (sec_Data secret) key of
               None \<Rightarrow> Inl (Errorf (''MFA Secret '' @ slashed namespace (skr_Name ref) @
                 '' does not contain key '' @ fmt_q key))
             | Some value \<Rightarrow>
                 if value = '''' then Inl (Errorf (''MFA Secret '' @ slashed namespace (skr_Name ref) @
                   '' does not contain key '' @ fmt_q key))
                 else Inr value))
   }"

text \<open>A credential that must be given: read it, or say what is missing.\<close>

definition requiredSecret ::
  "'s MFAMethodReconciler \<Rightarrow> string \<Rightarrow> SecretKeyReference option \<Rightarrow> string \<Rightarrow> ('s, go_error + string) state" where
  "requiredSecret R namespace ref missing = (case ref of
      None \<Rightarrow> ret (Inl (Errorf missing))
    | Some ref \<Rightarrow> readSecret_mfa R namespace ref ''value'')"

definition mfaBase :: "OpenBaoMFAMethodSpec \<Rightarrow> anymap" where
  "mfaBase spec = putString ''username_format'' (mms_UsernameFormat spec)
     (fmupd ''method_name'' (AString (mms_MethodName spec)) fmempty)"

definition duoFields :: "OpenBaoMFAMethodSpec \<Rightarrow> string \<Rightarrow> anymap \<Rightarrow> anymap" where
  "duoFields spec value result =
     (let result = putString ''api_hostname'' (mms_APIHostname spec) result;
          result = putString ''integration_key'' (mms_IntegrationKey spec) result;
          result = fmupd ''secret_key'' (AString value) result;
          result = putString ''push_info'' (mms_PushInfo spec) result
      in putBool ''use_passcode'' (mms_UsePasscode spec) result)"

definition oktaFields :: "OpenBaoMFAMethodSpec \<Rightarrow> string \<Rightarrow> anymap \<Rightarrow> anymap" where
  "oktaFields spec value result =
     (let result = fmupd ''api_token'' (AString value) result;
          result = putString ''base_url'' (mms_BaseURL spec) result;
          result = putString ''org_name'' (mms_OrgName spec) result;
          result = putBool ''primary_email'' (mms_PrimaryEmail spec) result
      in putBool ''production'' (mms_Production spec) result)"

definition pingidFields :: "string \<Rightarrow> anymap \<Rightarrow> anymap" where
  "pingidFields value result = fmupd ''settings_file_base64'' (AString (base64 value)) result"

definition totpFields :: "OpenBaoMFAMethodSpec \<Rightarrow> anymap \<Rightarrow> anymap" where
  "totpFields spec result =
     (let result = putString ''algorithm'' (mms_Algorithm spec) result;
          result = putInt ''digits'' (mms_Digits spec) result;
          result = putString ''issuer'' (mms_Issuer spec) result;
          result = putInt ''key_size'' (mms_KeySize spec) result;
          result = putInt ''max_validation_attempts'' (mms_MaxValidationAttempts spec) result;
          result = putInt ''period'' (mms_Period spec) result;
          result = putInt ''qr_size'' (mms_QRSize spec) result
      in putInt ''skew'' (mms_Skew spec) result)"

text \<open>The desired method and the hash of its credentials.\<close>

definition desired_mfa ::
  "'s MFAMethodReconciler \<Rightarrow> OpenBaoMFAMethod \<Rightarrow> ('s, go_error + anymap \<times> string) state" where
  "desired_mfa R object =
     (let spec = mmo_Spec object; ns = om_Namespace object; typ = mms_Type spec
      in if TrimSpace (mms_MethodID spec) = '''' \<or> TrimSpace (mms_MethodName spec) = '''' then
           ret (Inl (Errorf ''methodID and methodName must not be empty''))
         else if typ = OpenBaoMFAMethodTypeDuo then do {
           r \<leftarrow> requiredSecret R ns (mms_SecretKeyRef spec) ''secretKeyRef is required for duo MFA'';
           ret (map_sum id (\<lambda>value. (duoFields spec value (mfaBase spec), mfaSecretHash [''duo='' @ value])) r)
         }
         else if typ = OpenBaoMFAMethodTypeOkta then do {
           r \<leftarrow> requiredSecret R ns (mms_APITokenRef spec) ''apiTokenRef is required for okta MFA'';
           ret (map_sum id (\<lambda>value. (oktaFields spec value (mfaBase spec), mfaSecretHash [''okta='' @ value])) r)
         }
         else if typ = OpenBaoMFAMethodTypePingID then do {
           r \<leftarrow> requiredSecret R ns (mms_SettingsFileRef spec) ''settingsFileRef is required for pingid MFA'';
           ret (map_sum id (\<lambda>value. (pingidFields value (mfaBase spec), mfaSecretHash [''pingid='' @ value])) r)
         }
         else if typ = OpenBaoMFAMethodTypeTOTP then
           ret (Inr (totpFields spec (mfaBase spec), mfaSecretHash []))
         else ret (Inl (Errorf (''unsupported MFA type '' @ fmt_q typ))))"

section \<open>Comparison and hash\<close>

definition secretFields :: "string list" where
  "secretFields = [''secret_key'', ''api_token'', ''settings_file_base64'']"

definition mfaFieldsMatch :: "FloatLib \<Rightarrow> anymap \<Rightarrow> anymap option \<Rightarrow> bool" where
  "mfaFieldsMatch F desired observed \<longleftrightarrow>
     list_all (\<lambda>(key, desiredValue). key \<in> set secretFields \<or>
        (case Option.bind observed (\<lambda>m. fmlookup m key) of
           None \<Rightarrow> False
         | Some observedValue \<Rightarrow> reflectJSONEqual F desiredValue observedValue)) (sorted_list_of_fmap desired)"

definition mfaClean :: "anymap option \<Rightarrow> anymap" where
  "mfaClean value = (case value of
      None \<Rightarrow> fmempty | Some m \<Rightarrow> fmfilter (\<lambda>key. key \<notin> set secretFields) m)"

definition mfaHash :: "FloatLib \<Rightarrow> anymap option \<Rightarrow> string" where
  "mfaHash F value = (case mapJson F (mfaClean value) of
      None \<Rightarrow> '''' | Some data \<Rightarrow> sha256_hex (jsonText data))"

definition mfaCreation :: "OpenBaoMFAMethod \<Rightarrow> CreationPolicy" where
  "mfaCreation object = fst (mfaPolicies (mms_CreationPolicy (mmo_Spec object)) (mms_DeletionPolicy (mmo_Spec object)))"

section \<open>The controller\<close>

definition clientFor_mfa ::
  "'s MFAMethodReconciler \<Rightarrow> OpenBaoConnection \<Rightarrow> ('s, go_error + 's MFAMethodClient) state" where
  "clientFor_mfa R connection = clientForWith (mr_NewClient R) (mr_ClientCache R) (mr_connectionClientFor R) connection"

definition dependencyFailure_mfa ::
  "'s MFAMethodReconciler \<Rightarrow> OpenBaoMFAMethod \<Rightarrow> go_error \<Rightarrow> ('s, outcome) state" where
  "dependencyFailure_mfa R object err =
     dependencyFailureWith mfaAccess (mr_Now R) (k_StatusUpdate (mr_Methods R)) object err"

definition fail_mfa ::
  "'s MFAMethodReconciler \<Rightarrow> OpenBaoMFAMethod \<Rightarrow> string \<Rightarrow> go_error \<Rightarrow> ('s, outcome) state" where
  "fail_mfa R object reason err = failWith mfaAccess (mr_Now R) (k_StatusUpdate (mr_Methods R)) object reason err"

definition reconcileDeletion_mfa :: "'s MFAMethodReconciler \<Rightarrow> OpenBaoMFAMethod \<Rightarrow> ('s, outcome) state" where
  "reconcileDeletion_mfa R object =
     (let dropFinalizer = do {
            e \<leftarrow> removeFinalizer (mr_Lib R) (k_Update (mr_Methods R)) object;
            ret (noRequeue, e)
          };
          cleanupFailed = recordCleanupFailure mfaAccess (mr_Now R) (k_StatusUpdate (mr_Methods R)) object (mmo_Status object)
      in if mms_DeletionPolicy (mmo_Spec object) \<noteq> DeletionPolicyDelete \<or> mmt_MethodID (mmo_Status object) = ''''
         then dropFinalizer
         else do {
           r \<leftarrow> resolveConnection (mr_Connections R) (om_Namespace object) (mms_ConnectionRef (mmo_Spec object));
           case r of
             Inl err \<Rightarrow> cleanupFailed reasonCleanupDependencyUnavailable
               (cleanupDependencyError ''OpenBaoConnection'' err)
           | Inr connection \<Rightarrow> do {
               c \<leftarrow> clientFor_mfa R connection;
               case c of
                 Inl err \<Rightarrow> cleanupFailed reasonCleanupDependencyUnavailable
                   (cleanupDependencyError ''OpenBaoConnection credentials'' err)
               | Inr apiClient \<Rightarrow> do {
                   d \<leftarrow> DeleteMFAMethod apiClient (mms_Type (mmo_Spec object)) (mmt_MethodID (mmo_Status object));
                   case d of
                     None \<Rightarrow> dropFinalizer
                   | Some err \<Rightarrow>
                       if \<not> isNotFound (mr_Lib R) err then cleanupFailed ''CleanupFailed'' err
                       else dropFinalizer
                 }
             }
         })"

text \<open>The status of a reconciled method.\<close>

definition readyMFAMethod ::
  "FloatLib \<Rightarrow> OpenBaoMFAMethod \<Rightarrow> anymap option \<Rightarrow> string \<Rightarrow> int \<Rightarrow> int \<Rightarrow> OpenBaoMFAMethod" where
  "readyMFAMethod F object observed secretHash t1 t2 =
     (let st = mmo_Status object;
          name = (case Option.bind observed (\<lambda>m. getString m ''method_name'') of
              Some value \<Rightarrow> if value \<noteq> '''' then value else mms_MethodName (mmo_Spec object)
            | None \<Rightarrow> mms_MethodName (mmo_Spec object))
      in object\<lparr>mmo_Status := st\<lparr>mmt_MethodID := mms_MethodID (mmo_Spec object), mmt_MethodName := name,
           mmt_ConfigHash := mfaHash F observed, mmt_SecretHash := secretHash,
           mmt_Conditions := markReady (mmt_Conditions st) (om_Generation object)
             ''OpenBao MFA method is reconciled'' t1 t2\<rparr>\<rparr>)"

definition finish_mfa ::
  "'s MFAMethodReconciler \<Rightarrow> OpenBaoMFAMethodStatus \<Rightarrow> OpenBaoMFAMethod \<Rightarrow> anymap option \<Rightarrow> string
     \<Rightarrow> ('s, outcome) state" where
  "finish_mfa R before object observed secretHash = do {
     t1 \<leftarrow> mr_Now R;
     t2 \<leftarrow> mr_Now R;
     let object = readyMFAMethod (mr_Float R) object observed secretHash t1 t2;
     endWithStatus (k_StatusUpdate (mr_Methods R)) object before (mmo_Status object)
       (requeueIn (mfaDrift (mms_DriftDetectionInterval (mmo_Spec object))), None)
   }"

definition sync_mfa ::
  "'s MFAMethodReconciler \<Rightarrow> 's MFAMethodClient \<Rightarrow> OpenBaoMFAMethodStatus \<Rightarrow> OpenBaoMFAMethod
     \<Rightarrow> anymap \<Rightarrow> string \<Rightarrow> anymap option \<Rightarrow> bool \<Rightarrow> ('s, outcome) state" where
  "sync_mfa R apiClient before object desired secretHash observed created =
     (let typ = mms_Type (mmo_Spec object); methodID = mms_MethodID (mmo_Spec object)
      in if created \<or> mmt_SecretHash (mmo_Status object) \<noteq> secretHash \<or> \<not> mfaFieldsMatch (mr_Float R) desired observed
         then do {
           w \<leftarrow> WriteMFAMethod apiClient typ methodID desired;
           case w of
             Some err \<Rightarrow> fail_mfa R object ''MFAWriteFailed'' err
           | None \<Rightarrow> do {
               g \<leftarrow> GetMFAMethod apiClient typ methodID;
               case g of
                 Inl err \<Rightarrow> fail_mfa R object ''MFAReadFailed'' err
               | Inr observed \<Rightarrow> finish_mfa R before object observed secretHash
             }
         }
         else finish_mfa R before object observed secretHash)"

text \<open>The reasons are spelled as in the source.\<close>

definition acquire_mfa ::
  "'s MFAMethodReconciler \<Rightarrow> 's MFAMethodClient \<Rightarrow> OpenBaoMFAMethodStatus \<Rightarrow> OpenBaoMFAMethod
     \<Rightarrow> anymap \<Rightarrow> string \<Rightarrow> ('s, outcome) state" where
  "acquire_mfa R apiClient before object desired secretHash = do {
     g \<leftarrow> GetMFAMethod apiClient (mms_Type (mmo_Spec object)) (mms_MethodID (mmo_Spec object));
     case g of
       Inl err \<Rightarrow>
         if \<not> isNotFound (mr_Lib R) err then fail_mfa R object ''MFAReadFailed'' err
         else if \<not> AllowsCreation (mfaCreation object) then
           fail_mfa R object ''MFIAcquireFailed''
             (Errorf (''OpenBao MFA method '' @ fmt_q (mms_MethodID (mmo_Spec object)) @
                '' does not exist and creationPolicy='' @ mfaCreation object @ '' does not allow creation''))
         else sync_mfa R apiClient before object desired secretHash None True
     | Inr observed \<Rightarrow>
         if mmt_MethodID (mmo_Status object) = '''' \<and> \<not> AllowsAdoption (mfaCreation object) then
           fail_mfa R object ''MFIAcquireFailed''
             (Errorf (''OpenBao MFA method '' @ fmt_q (mms_MethodID (mmo_Spec object)) @
                '' already exists; set creationPolicy to Adopt or CreateOrAdopt to manage it''))
         else sync_mfa R apiClient before object desired secretHash observed False
   }"

definition reconcileActive_mfa :: "'s MFAMethodReconciler \<Rightarrow> OpenBaoMFAMethod \<Rightarrow> ('s, outcome) state" where
  "reconcileActive_mfa R object = do {
     let before = mmo_Status object;
     let object = object\<lparr>mmo_Status := before\<lparr>mmt_ObservedGeneration := om_Generation object\<rparr>\<rparr>;
     r \<leftarrow> resolveConnection (mr_Connections R) (om_Namespace object) (mms_ConnectionRef (mmo_Spec object));
     case r of
       Inl err \<Rightarrow> dependencyFailure_mfa R object err
     | Inr connection \<Rightarrow>
         if \<not> IsStatusConditionTrue (mr_Lib R) (cnst_Conditions (cn_Status connection)) conditionReady then
           dependencyFailure_mfa R object (dependencyMessage ''OpenBaoConnection'' (ObjectKey connection) None)
         else do {
           c \<leftarrow> clientFor_mfa R connection;
           case c of
             Inl err \<Rightarrow> dependencyFailure_mfa R object err
           | Inr apiClient \<Rightarrow> do {
               d \<leftarrow> desired_mfa R object;
               case d of
                 Inl err \<Rightarrow> fail_mfa R object ''InvalidMFASpec'' err
               | Inr (desired, secretHash) \<Rightarrow> acquire_mfa R apiClient before object desired secretHash
             }
         }
   }"

definition Reconcile_mfa :: "'s MFAMethodReconciler \<Rightarrow> NamespacedName \<Rightarrow> ('s, outcome) state" where
  "Reconcile_mfa R req = do {
     r \<leftarrow> k_Get (mr_Methods R) req;
     case r of
       Inl err \<Rightarrow>
         if apierrors_IsNotFound (mr_Lib R) err then ret (noRequeue, None)
         else ret (noRequeue, Some err)
     | Inr object \<Rightarrow> do {
         f \<leftarrow> (if notDeleted object \<and> IsDelete (mms_DeletionPolicy (mmo_Spec object))
              then ensureFinalizer (mr_Lib R) (k_Update (mr_Methods R)) object
              else ret (Inr object));
         case f of
           Inl err \<Rightarrow> ret (noRequeue, Some err)
         | Inr object \<Rightarrow>
             if \<not> notDeleted object then reconcileDeletion_mfa R object
             else reconcileActive_mfa R object
       }
   }"

section \<open>Watches\<close>

definition mapConnection_mfa ::
  "'s MFAMethodReconciler \<Rightarrow> 'b ObjectMeta_scheme \<Rightarrow> ('s, NamespacedName list) state" where
  "mapConnection_mfa R obj = do {
     r \<leftarrow> k_List (mr_Methods R) (om_Namespace obj);
     ret (case r of Inl _ \<Rightarrow> []
       | Inr items \<Rightarrow> map ObjectKey
           (filter (\<lambda>item. connref_Name (mms_ConnectionRef (mmo_Spec item)) = om_Name obj) items))
   }"

definition mapSecret_mfa ::
  "'s MFAMethodReconciler \<Rightarrow> 'b ObjectMeta_scheme \<Rightarrow> ('s, NamespacedName list) state" where
  "mapSecret_mfa R obj = do {
     r \<leftarrow> k_List (mr_Methods R) (om_Namespace obj);
     ret (case r of Inl _ \<Rightarrow> []
       | Inr items \<Rightarrow> map ObjectKey
           (filter (\<lambda>method. list_ex (\<lambda>ref. case ref of None \<Rightarrow> False | Some ref \<Rightarrow> skr_Name ref = om_Name obj)
              [mms_SecretKeyRef (mmo_Spec method), mms_APITokenRef (mmo_Spec method), mms_SettingsFileRef (mmo_Spec method)])
            items))
   }"

end
