(* ===== verification/MfaProperties.thy ===== *)
theory MfaProperties
  imports MfaController JsonMatching Examples
begin

text \<open>
  What a reconciliation of an MFA method may do, for every behaviour of the API server, of the
  Secrets and of OpenBao, and what its status tells of the credentials.
\<close>

section \<open>Observing a run\<close>

datatype MFAEvent =
    MMethod "OpenBaoMFAMethod KubeEvent"
  | MConnection "OpenBaoConnection KubeEvent"
  | ReadSecret NamespacedName "go_error + Secret"
  | MadeMFAClient OpenBaoConnection "go_error option"
  | ReadMFA string string "go_error + anymap option"
  | WroteMFA string string anymap "go_error option"
  | DeletedMFA string string "go_error option"

definition logMFAClient :: "'s MFAMethodClient \<Rightarrow> ('s \<times> MFAEvent list) MFAMethodClient" where
  "logMFAClient c =
     \<lparr>GetMFAMethod = (\<lambda>t i. logged (ReadMFA t i) (GetMFAMethod c t i)),
      WriteMFAMethod = (\<lambda>t i m. logged (WroteMFA t i m) (WriteMFAMethod c t i m)),
      DeleteMFAMethod = (\<lambda>t i. logged (DeletedMFA t i) (DeleteMFAMethod c t i))\<rparr>"

lemma logMFAClient_sel [simp]:
  "GetMFAMethod (logMFAClient c) t i = logged (ReadMFA t i) (GetMFAMethod c t i)"
  "WriteMFAMethod (logMFAClient c) t i m = logged (WroteMFA t i m) (WriteMFAMethod c t i m)"
  "DeleteMFAMethod (logMFAClient c) t i = logged (DeletedMFA t i) (DeleteMFAMethod c t i)"
  by (simp_all add: logMFAClient_def)

definition logMFAReconciler :: "'s MFAMethodReconciler \<Rightarrow> ('s \<times> MFAEvent list) MFAMethodReconciler" where
  "logMFAReconciler R =
     \<lparr>mr_Lib = mr_Lib R, mr_Float = mr_Float R,
      mr_Methods = logKube MMethod (mr_Methods R),
      mr_Connections = logKube MConnection (mr_Connections R),
      mr_GetSecret = (\<lambda>nn. logged (ReadSecret nn) (mr_GetSecret R nn)),
      mr_Now = silent (mr_Now R),
      mr_NewClient = map_option (logClientFor MadeMFAClient logMFAClient) (mr_NewClient R),
      mr_ClientCache = map_option (logClientFor MadeMFAClient logMFAClient) (mr_ClientCache R),
      mr_connectionClientFor = logClientFor MadeMFAClient logMFAClient (mr_connectionClientFor R)\<rparr>"

lemma logMFAReconciler_sel [simp]:
  "mr_Lib (logMFAReconciler R) = mr_Lib R" "mr_Float (logMFAReconciler R) = mr_Float R"
  "mr_Methods (logMFAReconciler R) = logKube MMethod (mr_Methods R)"
  "mr_Connections (logMFAReconciler R) = logKube MConnection (mr_Connections R)"
  "mr_GetSecret (logMFAReconciler R) nn = logged (ReadSecret nn) (mr_GetSecret R nn)"
  "mr_Now (logMFAReconciler R) = silent (mr_Now R)"
  by (simp_all add: logMFAReconciler_def)

lemma wp_clientFor_mfaI:
  assumes "\<And>e s'. Q (Inl e) (s', tr @ [MadeMFAClient connection (Some e)])"
    and "\<And>c s'. Q (Inr (logMFAClient c)) (s', tr @ [MadeMFAClient connection None])"
  shows "wp (clientFor_mfa (logMFAReconciler R) connection) Q (s, tr)"
  unfolding clientFor_mfa_def logMFAReconciler_def MFAMethodReconciler.simps
  by (intro wp_clientForWithI assms(1)) (simp add: assms(2))

definition mfa_trace :: "'s MFAMethodReconciler \<Rightarrow> NamespacedName \<Rightarrow> 's \<Rightarrow> MFAEvent list" where
  "mfa_trace R req s = snd (snd (run_state (Reconcile_mfa (logMFAReconciler R) req) (s, [])))"

section \<open>What justifies a call\<close>

definition wantsMFADeletion :: "OpenBaoMFAMethod \<Rightarrow> bool" where
  "wantsMFADeletion ob \<longleftrightarrow> IsDelete (mms_DeletionPolicy (mmo_Spec ob))"

definition stampMFA :: "OpenBaoMFAMethod \<Rightarrow> OpenBaoMFAMethod" where
  "stampMFA ob = ob\<lparr>mmo_Status := (mmo_Status ob)\<lparr>mmt_ObservedGeneration := om_Generation ob\<rparr>\<rparr>"

definition activeMFA :: "KubeLib \<Rightarrow> MFAEvent list \<Rightarrow> OpenBaoMFAMethod \<Rightarrow> bool" where
  "activeMFA L pre ob \<longleftrightarrow> (\<exists>cur. live L MMethod MConnection wantsMFADeletion pre cur \<and> ob = stampMFA cur)"

text \<open>The credential the specification refers to, as this run read it.\<close>

definition credentialRead :: "MFAEvent list \<Rightarrow> string \<Rightarrow> SecretKeyReference \<Rightarrow> string \<Rightarrow> bool" where
  "credentialRead pre ns ref value \<longleftrightarrow> value \<noteq> '''' \<and>
     (\<exists>sec. ReadSecret (ns, skr_Name ref) (Inr sec) \<in> set pre \<and>
        fmlookup (sec_Data sec) (if skr_Key ref = '''' then ''value'' else skr_Key ref) = Some value)"

definition builtFrom :: "MFAEvent list \<Rightarrow> OpenBaoMFAMethod \<Rightarrow> anymap \<Rightarrow> string \<Rightarrow> bool" where
  "builtFrom pre ob desired h \<longleftrightarrow>
     (let spec = mmo_Spec ob; ns = om_Namespace ob; typ = mms_Type spec
      in (typ = OpenBaoMFAMethodTypeDuo \<and> (\<exists>ref value. mms_SecretKeyRef spec = Some ref \<and> credentialRead pre ns ref value \<and>
            desired = duoFields spec value (mfaBase spec) \<and> h = mfaSecretHash [''duo='' @ value])) \<or>
         (typ = OpenBaoMFAMethodTypeOkta \<and> (\<exists>ref value. mms_APITokenRef spec = Some ref \<and> credentialRead pre ns ref value \<and>
            desired = oktaFields spec value (mfaBase spec) \<and> h = mfaSecretHash [''okta='' @ value])) \<or>
         (typ = OpenBaoMFAMethodTypePingID \<and> (\<exists>ref value. mms_SettingsFileRef spec = Some ref \<and> credentialRead pre ns ref value \<and>
            desired = pingidFields value (mfaBase spec) \<and> h = mfaSecretHash [''pingid='' @ value])) \<or>
         (typ = OpenBaoMFAMethodTypeTOTP \<and> desired = totpFields spec (mfaBase spec) \<and> h = mfaSecretHash []))"

definition readMFA :: "OpenBaoMFAMethod \<Rightarrow> go_error + anymap option \<Rightarrow> MFAEvent" where
  "readMFA ob = ReadMFA (mms_Type (mmo_Spec ob)) (mms_MethodID (mmo_Spec ob))"

definition wroteMFA :: "OpenBaoMFAMethod \<Rightarrow> anymap \<Rightarrow> go_error option \<Rightarrow> MFAEvent" where
  "wroteMFA ob = WroteMFA (mms_Type (mmo_Spec ob)) (mms_MethodID (mmo_Spec ob))"

text \<open>The method was absent and may be created, or it was there and is managed or may be adopted.\<close>

definition mayWriteMFA :: "KubeLib \<Rightarrow> FloatLib \<Rightarrow> MFAEvent list \<Rightarrow> OpenBaoMFAMethod \<Rightarrow> anymap \<Rightarrow> string \<Rightarrow> bool" where
  "mayWriteMFA L F pre ob desired h \<longleftrightarrow>
     (AllowsCreation (mfaCreation ob) \<and> (\<exists>err. readMFA ob (Inl err) \<in> set pre \<and> isNotFound L err)) \<or>
     ((mmt_MethodID (mmo_Status ob) \<noteq> '''' \<or> AllowsAdoption (mfaCreation ob)) \<and>
        (\<exists>m. readMFA ob (Inr m) \<in> set pre \<and>
           (mmt_SecretHash (mmo_Status ob) \<noteq> h \<or> \<not> mfaFieldsMatch F desired m)))"

definition settledMFA :: "FloatLib \<Rightarrow> MFAEvent list \<Rightarrow> OpenBaoMFAMethod \<Rightarrow> anymap \<Rightarrow> string \<Rightarrow> anymap option \<Rightarrow> bool" where
  "settledMFA F pre ob desired h observed \<longleftrightarrow> readMFA ob (Inr observed) \<in> set pre \<and>
     (wroteMFA ob desired None \<in> set pre \<or>
        mmt_SecretHash (mmo_Status ob) = h \<and> mfaFieldsMatch F desired observed \<and>
        (mmt_MethodID (mmo_Status ob) \<noteq> '''' \<or> AllowsAdoption (mfaCreation ob)))"

fun mfaDeletionConfirmed :: "KubeLib \<Rightarrow> MFAEvent \<Rightarrow> bool" where
  "mfaDeletionConfirmed L (DeletedMFA t i d) = confirmedGone L d"
| "mfaDeletionConfirmed L e = False"

definition mfa_cleared :: "KubeLib \<Rightarrow> MFAEvent list \<Rightarrow> OpenBaoMFAMethod \<Rightarrow> bool" where
  "mfa_cleared L pre ob \<longleftrightarrow> mms_DeletionPolicy (mmo_Spec ob) \<noteq> DeletionPolicyDelete \<or>
     mmt_MethodID (mmo_Status ob) = '''' \<or> list_ex (mfaDeletionConfirmed L) pre"

fun mfa_justified :: "KubeLib \<Rightarrow> FloatLib \<Rightarrow> MFAEvent list \<Rightarrow> MFAEvent \<Rightarrow> bool" where
  "mfa_justified L F pre (WroteMFA t i desired r) \<longleftrightarrow>
     (\<exists>ob h. activeMFA L pre ob \<and> t = mms_Type (mmo_Spec ob) \<and> i = mms_MethodID (mmo_Spec ob) \<and>
        builtFrom pre ob desired h \<and> mayWriteMFA L F pre ob desired h \<and> (\<forall>t' i' d' r'. WroteMFA t' i' d' r' \<notin> set pre))"
| "mfa_justified L F pre (DeletedMFA t i r) \<longleftrightarrow>
     (\<exists>ob. seen MMethod pre ob \<and> \<not> notDeleted ob \<and> mms_DeletionPolicy (mmo_Spec ob) = DeletionPolicyDelete \<and>
        t = mms_Type (mmo_Spec ob) \<and> i = mmt_MethodID (mmo_Status ob) \<and> i \<noteq> '''')"
| "mfa_justified L F pre (MMethod (UpdatedObject ob r)) \<longleftrightarrow>
     finalizerWrite L MMethod wantsMFADeletion (mfa_cleared L pre) pre ob"
| "mfa_justified L F pre (MMethod (UpdatedStatus ob r)) \<longleftrightarrow>
     (readyTrue (mmt_Conditions (mmo_Status ob)) \<longrightarrow>
        (\<exists>cur desired h observed t1 t2. activeMFA L pre cur \<and> builtFrom pre cur desired h \<and>
           settledMFA F pre cur desired h observed \<and> ob = readyMFAMethod F cur observed h t1 t2))"
| "mfa_justified L F pre e \<longleftrightarrow> True"

lemma activeMFA_mono [simp]: "activeMFA L pre ob \<Longrightarrow> activeMFA L (pre @ es) ob"
  unfolding activeMFA_def by (blast intro: live_mono)

lemma credentialRead_mono: "credentialRead pre ns ref v \<Longrightarrow> credentialRead (pre @ es) ns ref v"
  by (auto simp: credentialRead_def)

lemma builtFrom_mono [simp]: "builtFrom pre ob d h \<Longrightarrow> builtFrom (pre @ es) ob d h"
  unfolding builtFrom_def Let_def by (blast intro: credentialRead_mono)

interpretation mfaStatus: status_object mfaAccess
  by unfold_locales (auto simp: mfaAccess_def ObjectMeta.truncate_def)

abbreviation mfa_ok :: "KubeLib \<Rightarrow> FloatLib \<Rightarrow> MFAEvent list \<Rightarrow> bool" where
  "mfa_ok L F tr \<equiv> guarded (mfa_justified L F) tr"

lemma mfa_notReady:
  "\<not> readyTrue (sa_Conditions mfaAccess (sa_Status mfaAccess ob)) \<Longrightarrow> mfa_justified L F pre (MMethod (UpdatedStatus ob r))"
  by (simp add: mfaAccess_def)

lemma fail_mfa_ok:
  "mfa_ok L F tr \<Longrightarrow> wp (fail_mfa (logMFAReconciler R) ob reason err) (\<lambda>_ (s', tr'). mfa_ok L F tr') (s, tr)"
  unfolding fail_mfa_def logMFAReconciler_sel by (rule mfaStatus.wp_fail_guarded) (assumption | erule mfa_notReady)+

lemma dependencyFailure_mfa_ok:
  "mfa_ok L F tr \<Longrightarrow> wp (dependencyFailure_mfa (logMFAReconciler R) ob err) (\<lambda>_ (s', tr'). mfa_ok L F tr') (s, tr)"
  unfolding dependencyFailure_mfa_def logMFAReconciler_sel
  by (rule mfaStatus.wp_dependencyFailure_guarded) (assumption | erule mfa_notReady)+

lemma cleanup_mfa_ok:
  "mfa_ok L F tr \<Longrightarrow> wp (recordCleanupFailure mfaAccess (silent now) (k_StatusUpdate (logKube MMethod K)) ob before reason err)
     (\<lambda>_ (s', tr'). mfa_ok L F tr') (s, tr)"
  by (rule mfaStatus.wp_cleanupFailure_guarded) (assumption | erule mfa_notReady)+

lemma wp_readSecretI:
  assumes "\<And>e r s'. Q (Inl e) (s', tr @ [ReadSecret (ns, skr_Name ref) r])"
    and "\<And>v r s'. credentialRead (tr @ [ReadSecret (ns, skr_Name ref) r]) ns ref v \<Longrightarrow>
      Q (Inr v) (s', tr @ [ReadSecret (ns, skr_Name ref) r])"
  shows "wp (readSecret_mfa (logMFAReconciler R) ns ref ''value'') Q (s, tr)"
  unfolding readSecret_mfa_def wp_simps logMFAReconciler_sel
  by (rule wp_loggedI)
     (auto split: sum.splits option.splits simp: Let_def intro!: assms simp: credentialRead_def)

lemma wp_requiredSecretI:
  assumes "\<And>e. Q (Inl e) (s, tr)"
    and "\<And>ref e r s'. refo = Some ref \<Longrightarrow> Q (Inl e) (s', tr @ [ReadSecret (ns, skr_Name ref) r])"
    and "\<And>ref v r s'. refo = Some ref \<Longrightarrow> credentialRead (tr @ [ReadSecret (ns, skr_Name ref) r]) ns ref v \<Longrightarrow>
      Q (Inr v) (s', tr @ [ReadSecret (ns, skr_Name ref) r])"
  shows "wp (requiredSecret (logMFAReconciler R) ns refo missing) Q (s, tr)"
proof (cases refo)
  case None
  then show ?thesis by (simp add: requiredSecret_def wp_simps assms(1))
next
  case (Some ref)
  then show ?thesis unfolding requiredSecret_def Some option.case
    by (intro wp_readSecretI) (auto intro: assms Some)
qed

lemma builtFrom_credential:
  "mms_Type (mmo_Spec ob) = OpenBaoMFAMethodTypeDuo \<Longrightarrow> mms_SecretKeyRef (mmo_Spec ob) = Some ref \<Longrightarrow>
     credentialRead pre (om_Namespace ob) ref v \<Longrightarrow>
     builtFrom pre ob (duoFields (mmo_Spec ob) v (mfaBase (mmo_Spec ob))) (mfaSecretHash [''duo='' @ v])"
  "mms_Type (mmo_Spec ob) = OpenBaoMFAMethodTypeOkta \<Longrightarrow> mms_APITokenRef (mmo_Spec ob) = Some ref \<Longrightarrow>
     credentialRead pre (om_Namespace ob) ref v \<Longrightarrow>
     builtFrom pre ob (oktaFields (mmo_Spec ob) v (mfaBase (mmo_Spec ob))) (mfaSecretHash [''okta='' @ v])"
  "mms_Type (mmo_Spec ob) = OpenBaoMFAMethodTypePingID \<Longrightarrow> mms_SettingsFileRef (mmo_Spec ob) = Some ref \<Longrightarrow>
     credentialRead pre (om_Namespace ob) ref v \<Longrightarrow>
     builtFrom pre ob (pingidFields v (mfaBase (mmo_Spec ob))) (mfaSecretHash [''pingid='' @ v])"
  "mms_Type (mmo_Spec ob) = OpenBaoMFAMethodTypeTOTP \<Longrightarrow>
     builtFrom pre ob (totpFields (mmo_Spec ob) (mfaBase (mmo_Spec ob))) (mfaSecretHash [])"
  unfolding builtFrom_def Let_def by blast+

text \<open>The desired method is built from a credential this run read, and only reads Secrets.\<close>

lemma wp_desired_mfaI:
  assumes "\<And>e s'. Q (Inl e) (s', tr)" "\<And>e nn r s'. Q (Inl e) (s', tr @ [ReadSecret nn r])"
    and "\<And>d h s'. builtFrom tr ob d h \<Longrightarrow> Q (Inr (d, h)) (s', tr)"
    and "\<And>d h nn r s'. builtFrom (tr @ [ReadSecret nn r]) ob d h \<Longrightarrow> Q (Inr (d, h)) (s', tr @ [ReadSecret nn r])"
  shows "wp (desired_mfa (logMFAReconciler R) ob) Q (s, tr)"
  unfolding desired_mfa_def Let_def
  by (auto simp: wp_simps simp del: append.simps intro!: wp_requiredSecretI assms builtFrom_credential)

lemma mfa_ok_reads:
  "mfa_justified L F pre (MMethod (GotObject nn r1))" "mfa_justified L F pre (MConnection k)"
  "mfa_justified L F pre (ReadSecret nn r2)" "mfa_justified L F pre (MadeMFAClient c e)"
  "mfa_justified L F pre (ReadMFA t i g)"
  by simp_all

lemma mfa_justified_Ready:
  "activeMFA L pre cur \<Longrightarrow> builtFrom pre cur desired h \<Longrightarrow> settledMFA F pre cur desired h observed \<Longrightarrow>
     mfa_justified L F pre (MMethod (UpdatedStatus (readyMFAMethod F cur observed h t1 t2) r))"
  unfolding mfa_justified.simps by blast

lemma mfa_justified_Delete:
  "seen MMethod pre ob \<Longrightarrow> \<not> notDeleted ob \<Longrightarrow> mms_DeletionPolicy (mmo_Spec ob) = DeletionPolicyDelete \<Longrightarrow>
     mmt_MethodID (mmo_Status ob) \<noteq> '''' \<Longrightarrow>
     mfa_justified L F pre (DeletedMFA (mms_Type (mmo_Spec ob)) (mmt_MethodID (mmo_Status ob)) r)"
  by auto

lemma finish_mfa_ok:
  assumes "mfa_ok L (mr_Float R) tr" "activeMFA L tr ob" "builtFrom tr ob desired h"
    and "settledMFA (mr_Float R) tr ob desired h observed"
  shows "wp (finish_mfa (logMFAReconciler R) before ob observed h)
           (\<lambda>_ (s', tr'). mfa_ok L (mr_Float R) tr') (s, tr)"
proof -
  note ready = mfa_justified_Ready [OF assms(2-4)]
  show ?thesis
    using assms(1) ready unfolding finish_mfa_def Let_def wp_simps logMFAReconciler_sel
    by (intro wp_silentI wp_endWithStatusI) (simp_all add: guarded_snoc del: mfa_justified.simps)
qed

lemma sync_mfa_ok:
  assumes "mfa_ok L (mr_Float R) tr" "activeMFA L tr ob" "builtFrom tr ob desired h"
    and "created \<or> mmt_SecretHash (mmo_Status ob) \<noteq> h \<or> \<not> mfaFieldsMatch (mr_Float R) desired observed
      \<Longrightarrow> mayWriteMFA L (mr_Float R) tr ob desired h"
    and "\<not> created \<Longrightarrow> readMFA ob (Inr observed) \<in> set tr \<and>
      (mmt_MethodID (mmo_Status ob) \<noteq> '''' \<or> AllowsAdoption (mfaCreation ob))"
    and "\<forall>t i d r. WroteMFA t i d r \<notin> set tr"
  shows "wp (sync_mfa (logMFAReconciler R) (logMFAClient k) before ob desired h observed created)
           (\<lambda>_ (s', tr'). mfa_ok L (mr_Float R) tr') (s, tr)"
proof -
  let ?F = "mr_Float R" and ?t = "mms_Type (mmo_Spec ob)" and ?i = "mms_MethodID (mmo_Spec ob)"
  let ?writes = "created \<or> mmt_SecretHash (mmo_Status ob) \<noteq> h \<or> \<not> mfaFieldsMatch ?F desired observed"
  let ?tr = "\<lambda>w. tr @ [WroteMFA ?t ?i desired w]"
  have J: "mfa_ok L ?F (?tr w)" if ?writes for w
    using assms(1-3,6) assms(4) [OF that] by (auto simp: guarded_snoc)
  have J2: "mfa_ok L ?F (?tr w @ [ReadMFA ?t ?i g])" if ?writes for w g
    using J [OF that] by (simp add: guarded_snoc del: append_assoc)
  have written: "wp (finish_mfa (logMFAReconciler R) before ob x h) (\<lambda>_ (s', tr'). mfa_ok L ?F tr')
      (s', ?tr None @ [ReadMFA ?t ?i (Inr x)])" if ?writes for x s'
    by (rule finish_mfa_ok [where desired = desired, OF J2 [OF that]])
       (use assms(2,3) in \<open>simp_all add: settledMFA_def readMFA_def wroteMFA_def\<close>)
  have same: "wp (finish_mfa (logMFAReconciler R) before ob observed h) (\<lambda>_ (s', tr'). mfa_ok L ?F tr') (s, tr)"
    if "\<not> ?writes"
    by (rule finish_mfa_ok [OF assms(1-3)]) (use that assms(5) in \<open>simp add: settledMFA_def\<close>)
  show ?thesis
  proof (cases ?writes)
    case True
    then show ?thesis
      unfolding sync_mfa_def Let_def logMFAReconciler_sel wp_simps logMFAClient_sel
      using J [OF True] J2 [OF True] written [OF True]
      by (auto split: sum.splits option.splits simp: wp_simps intro!: wp_loggedI fail_mfa_ok)
  next
    case False
    then show ?thesis unfolding sync_mfa_def Let_def logMFAReconciler_sel using same [OF False] by simp
  qed
qed

lemma acquire_mfa_ok:
  assumes "mfa_ok (mr_Lib R) (mr_Float R) tr" "activeMFA (mr_Lib R) tr ob" "builtFrom tr ob desired h"
    and "\<forall>t i d r. WroteMFA t i d r \<notin> set tr"
  shows "wp (acquire_mfa (logMFAReconciler R) (logMFAClient k) before ob desired h)
           (\<lambda>_ (s', tr'). mfa_ok (mr_Lib R) (mr_Float R) tr') (s, tr)"
proof -
  let ?tr = "\<lambda>g. tr @ [ReadMFA (mms_Type (mmo_Spec ob)) (mms_MethodID (mmo_Spec ob)) g]"
  have J: "mfa_ok (mr_Lib R) (mr_Float R) (?tr g)" for g
    using assms(1) by (simp add: guarded_snoc)
  have create: "wp (sync_mfa (logMFAReconciler R) (logMFAClient k) before ob desired h None True)
      (\<lambda>_ (s', tr'). mfa_ok (mr_Lib R) (mr_Float R) tr') (s', ?tr (Inl e))"
    if "isNotFound (mr_Lib R) e" "AllowsCreation (mfaCreation ob)" for e s'
    by (rule sync_mfa_ok [OF J]) (use assms that in \<open>auto simp: mayWriteMFA_def readMFA_def\<close>)
  have manage: "wp (sync_mfa (logMFAReconciler R) (logMFAClient k) before ob desired h x False)
      (\<lambda>_ (s', tr'). mfa_ok (mr_Lib R) (mr_Float R) tr') (s', ?tr (Inr x))"
    if "mmt_MethodID (mmo_Status ob) \<noteq> '''' \<or> AllowsAdoption (mfaCreation ob)" for x s'
    by (rule sync_mfa_ok [OF J]) (use assms that in \<open>auto simp: mayWriteMFA_def readMFA_def\<close>)
  show ?thesis
    unfolding acquire_mfa_def wp_simps logMFAReconciler_sel logMFAClient_sel
    by (rule wp_loggedI) (use J create manage in \<open>auto split: sum.splits intro!: fail_mfa_ok\<close>)
qed

lemma reconcileActive_mfa_ok:
  assumes "mfa_ok (mr_Lib R) (mr_Float R) tr" "seen MMethod tr ob" "notDeleted ob"
    and "wantsMFADeletion ob \<longrightarrow> held (mr_Lib R) MMethod tr ob" "\<forall>t i d r. WroteMFA t i d r \<notin> set tr"
  shows "wp (reconcileActive_mfa (logMFAReconciler R) ob)
           (\<lambda>_ (s', tr'). mfa_ok (mr_Lib R) (mr_Float R) tr') (s, tr)"
proof -
  let ?L = "mr_Lib R" and ?ob = "stampMFA ob"
  have active: "activeMFA ?L (tr @ MConnection (GotObject nn (Inr k)) # es) ?ob"
    if "IsStatusConditionTrue ?L (cnst_Conditions (cn_Status k)) conditionReady" for nn k es
    unfolding activeMFA_def
    by (rule exI [where x = ob]) (use assms that in \<open>auto simp: live_def intro: connReady_got [where conn = k and nn = nn]\<close>)
  have J: "mfa_ok ?L (mr_Float R) (tr @ [MConnection c])" "mfa_ok ?L (mr_Float R) (tr @ [MConnection c, MadeMFAClient k e])"
    "mfa_ok ?L (mr_Float R) (tr @ [MConnection c, MadeMFAClient k e, ReadSecret n r])" for c k e n r
    using assms(1) by (simp_all add: trace_simps)
  show ?thesis
    unfolding reconcileActive_mfa_def Let_def wp_simps resolveConnection_def logMFAReconciler_sel logKube_sel
      stampMFA_def [symmetric]
    using J assms(5) active
    by (auto split: sum.splits simp: wp_simps
        intro!: wp_loggedI wp_clientFor_mfaI wp_desired_mfaI dependencyFailure_mfa_ok fail_mfa_ok acquire_mfa_ok)
qed

lemma reconcileDeletion_mfa_ok:
  assumes "mfa_ok (mr_Lib R) F tr" "seen MMethod tr ob" "\<not> notDeleted ob"
  shows "wp (reconcileDeletion_mfa (logMFAReconciler R) ob) (\<lambda>_ (s', tr'). mfa_ok (mr_Lib R) F tr') (s, tr)"
proof -
  have drop: "finalizerWrite (mr_Lib R) MMethod wantsMFADeletion (mfa_cleared (mr_Lib R) tr') tr'
      (ob\<lparr>om_Finalizers := RemoveFinalizer (mr_Lib R) (om_Finalizers ob) finalizerName\<rparr>)"
    if "seen MMethod tr' ob" "mfa_cleared (mr_Lib R) tr' ob" for tr'
    by (rule finalizerWrite_remove [where orig = ob]) (use that assms(3) in auto)
  show ?thesis
    unfolding reconcileDeletion_mfa_def Let_def wp_simps resolveConnection_def logMFAReconciler_sel logKube_sel
    using assms
    by (auto split: sum.splits option.splits simp: wp_simps trace_simps confirmedGone_def mfa_cleared_def
        simp del: mfa_justified.simps(2)
        intro!: wp_removeFinalizerI wp_loggedI wp_clientFor_mfaI cleanup_mfa_ok drop mfa_justified_Delete)
qed

lemma Reconcile_mfa_ok:
  "wp (Reconcile_mfa (logMFAReconciler R) req) (\<lambda>_ (s', tr'). mfa_ok (mr_Lib R) (mr_Float R) tr') (s, [])"
proof -
  have add: "mfa_justified (mr_Lib R) (mr_Float R) [MMethod (GotObject req (Inr ob))] (MMethod (UpdatedObject
      (ob\<lparr>om_Finalizers := AddFinalizer (mr_Lib R) (om_Finalizers ob) finalizerName\<rparr>) r))"
    if "notDeleted ob" "IsDelete (mms_DeletionPolicy (mmo_Spec ob))" for ob r
    unfolding mfa_justified.simps
    by (rule finalizerWrite_add) (use that in \<open>auto simp: wantsMFADeletion_def intro: seen_got\<close>)
  show ?thesis
    unfolding Reconcile_mfa_def wp_simps logMFAReconciler_sel logKube_sel
    by (rule wp_loggedI)
       (auto split: sum.splits option.splits simp: wp_simps guarded_def add wantsMFADeletion_def
          simp del: mfa_justified.simps(3) intro!: wp_ensureFinalizerI reconcileDeletion_mfa_ok reconcileActive_mfa_ok
          intro: seen_got seen_updated held_contains held_added)
qed


section \<open>Credentials and the status\<close>

lemma list_all_fmap: "list_all P (sorted_list_of_fmap d) \<longleftrightarrow> (\<forall>k v. fmlookup d k = Some v \<longrightarrow> P (k, v))"
  for d :: "(string, 'b) fmap"
proof -
  have "kv \<in> set (sorted_list_of_fmap d) \<longleftrightarrow> fmlookup d (fst kv) = Some (snd kv)" for kv
    by (cases kv) (force simp: sorted_list_of_fmap_def sorted_list_of_fset.rep_eq fmlookup_dom_iff)
  then show ?thesis by (auto simp: list_all_iff)
qed

lemma mfaFieldsMatch_agree:
  assumes "\<And>k. k \<notin> set secretFields \<Longrightarrow> fmlookup d k = fmlookup d' k"
  shows "mfaFieldsMatch F d x = mfaFieldsMatch F d' x"
  unfolding mfaFieldsMatch_def list_all_fmap prod.case using assms by metis

lemma credential_fields_agree:
  assumes "k \<notin> set secretFields"
  shows "fmlookup (duoFields spec v m) k = fmlookup (duoFields spec v' m) k"
    and "fmlookup (oktaFields spec v m) k = fmlookup (oktaFields spec v' m) k"
    and "fmlookup (pingidFields v m) k = fmlookup (pingidFields v' m) k"
  using assms
  by (auto simp: duoFields_def oktaFields_def pingidFields_def secretFields_def put_defs Let_def split: option.splits)

text \<open>
  C32. The status does not tell what the credentials are, only their hash: two observations that
  agree except in the credential fields give the same status, and whether a method is rewritten
  because of its fields does not depend on the credential that was read.
\<close>

theorem mfa_secrets_hidden:
  assumes "\<forall>k. k \<notin> set secretFields \<longrightarrow> fmlookup m k = fmlookup m' k"
  shows "readyMFAMethod F ob (Some m) h t1 t2 = readyMFAMethod F ob (Some m') h t1 t2 \<and>
    mfaFieldsMatch F (duoFields spec v base) x = mfaFieldsMatch F (duoFields spec v' base) x \<and>
    mfaFieldsMatch F (oktaFields spec v base) x = mfaFieldsMatch F (oktaFields spec v' base) x \<and>
    mfaFieldsMatch F (pingidFields v base) x = mfaFieldsMatch F (pingidFields v' base) x"
proof -
  have "mfaClean (Some m) = mfaClean (Some m')"
    using assms by (auto simp: mfaClean_def intro!: fmap_ext)
  moreover have "getString m ''method_name'' = getString m' ''method_name''"
    using assms by (simp add: getString_def secretFields_def)
  ultimately have "readyMFAMethod F ob (Some m) h t1 t2 = readyMFAMethod F ob (Some m') h t1 t2"
    by (simp add: readyMFAMethod_def mfaHash_def)
  then show ?thesis
    by (intro conjI mfaFieldsMatch_agree credential_fields_agree)
qed

definition exampleMethod :: OpenBaoMFAMethod where
  "exampleMethod = \<lparr>om_Name = ''duo'', om_Namespace = ''ns'', om_Generation = 1, om_Finalizers = [],
     om_DeletionTimestamp = None,
     mmo_Spec = \<lparr>mms_ConnectionRef = \<lparr>connref_Name = ''bao''\<rparr>, mms_Type = ''duo'', mms_MethodID = ''id'',
       mms_MethodName = ''duo'', mms_UsernameFormat = '''', mms_APIHostname = ''api'', mms_IntegrationKey = ''ik'',
       mms_SecretKeyRef = Some \<lparr>skr_Name = ''sec'', skr_Key = ''''\<rparr>, mms_PushInfo = '''', mms_UsePasscode = None,
       mms_APITokenRef = None, mms_BaseURL = '''', mms_OrgName = '''', mms_PrimaryEmail = None, mms_Production = None,
       mms_SettingsFileRef = None, mms_Algorithm = '''', mms_Digits = None, mms_Issuer = '''', mms_KeySize = None,
       mms_MaxValidationAttempts = None, mms_Period = None, mms_QRSize = None, mms_Skew = None,
       mms_CreationPolicy = '''', mms_DeletionPolicy = '''', mms_DriftDetectionInterval = None\<rparr>,
     mmo_Status = \<lparr>mmt_MethodID = '''', mmt_MethodName = '''', mmt_ConfigHash = '''', mmt_SecretHash = '''',
       mmt_ObservedGeneration = 0, mmt_Conditions = []\<rparr>\<rparr>"

theorem mfa_secrets_hidden_witness:
  "readyMFAMethod intFloats exampleMethod (Some (fmupd ''secret_key'' (AString ''hunter2'') fmempty)) ''hash'' 1 1 =
     readyMFAMethod intFloats exampleMethod (Some fmempty) ''hash'' 1 1"
  using mfa_secrets_hidden [of "fmupd ''secret_key'' (AString ''hunter2'') fmempty" fmempty intFloats exampleMethod
      "''hash''" 1 1]
  by (auto simp: secretFields_def)

end
