(* ===== verification/NamedEngine.thy ===== *)
theory NamedEngine
  imports SystemEngine
begin

text \<open>
  The controllers of password policies, Kubernetes auth roles, token roles and AppRoles
  (\<^verbatim>\<open>openbaopasswordpolicy_controller.go\<close>, \<^verbatim>\<open>openbaokubernetesauthrole_controller.go\<close>,
  \<^verbatim>\<open>openbaotokenrole_controller.go\<close>, \<^verbatim>\<open>openbaoapprole_controller.go\<close>) are written out four
  times in the source and differ in their types, messages and desired configuration only.  Here
  each function is written once over a record of these, \<open>namedKind\<close>; \<open>RoleKinds\<close> gives the four
  records, and the functions of each controller as the instances.

  The reconcilers hold the same three fields as the system ones, so \<open>SystemReconciler\<close> is used for
  them too.  \<^verbatim>\<open>acquire\<close> and the rest of \<^verbatim>\<open>Reconcile\<close> read \<^verbatim>\<open>before\<close>, the copy of the
  status, which two of the controllers take before the finalizer is added and two after.
\<close>

record ('s, 'k, 'o, 'st, 'd, 'm) namedKind =
  nk_Noun :: string
  nk_NoneFor :: string
  nk_Reason :: string
  nk_ReadyMessage :: string
  nk_BeforeFinalizer :: bool
  nk_ConnectionRef :: "'o \<Rightarrow> OpenBaoConnectionReference"
  nk_CreationPolicy :: "'o \<Rightarrow> CreationPolicy"
  nk_DeletionPolicy :: "'o \<Rightarrow> DeletionPolicy"
  nk_DriftInterval :: "'o \<Rightarrow> int"
  nk_Get :: "'o \<Rightarrow> 'k \<Rightarrow> ('s, go_error + 'm option) state"
  nk_Write :: "'o \<Rightarrow> 'k \<Rightarrow> 'd \<Rightarrow> ('s, go_error option) state"
  nk_Delete :: "'o \<Rightarrow> 'k \<Rightarrow> ('s, go_error option) state"
  nk_Desired :: "'o \<Rightarrow> go_error + 'd"
  nk_Matches :: "'d \<Rightarrow> 'm \<Rightarrow> bool"
  nk_Status :: "('o, 'st) StatusAccess"
  nk_StatusName :: "'st \<Rightarrow> string"
  nk_Observe :: "'o \<Rightarrow> 'm \<Rightarrow> 'st \<Rightarrow> 'st"

definition named_fail ::
  "('s, 'k, 'a ObjectMeta_scheme) SystemReconciler \<Rightarrow> ('s, 'k, 'a ObjectMeta_scheme, 'st, 'd, 'm) namedKind
     \<Rightarrow> 'a ObjectMeta_scheme \<Rightarrow> string \<Rightarrow> go_error \<Rightarrow> ('s, outcome) state" where
  "named_fail R K object reason err =
     failWith (nk_Status K) (sr_Now R) (k_StatusUpdate (sr_Objects R)) object reason err"

definition named_dependencyFailure ::
  "('s, 'k, 'a ObjectMeta_scheme) SystemReconciler \<Rightarrow> ('s, 'k, 'a ObjectMeta_scheme, 'st, 'd, 'm) namedKind
     \<Rightarrow> 'a ObjectMeta_scheme \<Rightarrow> go_error \<Rightarrow> ('s, outcome) state" where
  "named_dependencyFailure R K object err =
     dependencyFailureWith (nk_Status K) (sr_Now R) (k_StatusUpdate (sr_Objects R)) object err"

definition named_acquire ::
  "KubeLib \<Rightarrow> ('s, 'k, 'a ObjectMeta_scheme, 'st, 'd, 'm) namedKind \<Rightarrow> 'k \<Rightarrow> 'a ObjectMeta_scheme
     \<Rightarrow> ('s, go_error + 'm option) state" where
  "named_acquire L K apiClient object = do {
     g \<leftarrow> nk_Get K object apiClient;
     case g of
       Inr observed \<Rightarrow>
         if nk_StatusName K (sa_Status (nk_Status K) object) = '''' \<and> \<not> AllowsAdoption (nk_CreationPolicy K object) then
           ret (Inl (Errorf (''OpenBao '' @ nk_Noun K @ '' '' @ fmt_q (om_Name object) @
             '' already exists; set creationPolicy to Adopt or CreateOrAdopt to manage it'')))
         else ret (Inr observed)
     | Inl err \<Rightarrow>
         if \<not> isNotFound L err then ret (Inl err)
         else if \<not> AllowsCreation (nk_CreationPolicy K object) then
           ret (Inl (Errorf (''OpenBao '' @ nk_Noun K @ '' '' @ fmt_q (om_Name object) @
             '' does not exist and creationPolicy='' @ nk_CreationPolicy K object @ '' does not allow creation'')))
         else (case nk_Desired K object of
             Inl err \<Rightarrow> ret (Inl err)
           | Inr desired \<Rightarrow> do {
               w \<leftarrow> nk_Write K object apiClient desired;
               case w of
                 Some err \<Rightarrow> ret (Inl err)
               | None \<Rightarrow> nk_Get K object apiClient
             })
   }"

definition named_reconcileDeletion ::
  "('s, 'k, 'a ObjectMeta_scheme) SystemReconciler \<Rightarrow> ('s, 'k, 'a ObjectMeta_scheme, 'st, 'd, 'm) namedKind
     \<Rightarrow> 'a ObjectMeta_scheme \<Rightarrow> ('s, outcome) state" where
  "named_reconcileDeletion R K object =
     (if nk_DeletionPolicy K object \<noteq> DeletionPolicyDelete then do {
        e \<leftarrow> removeFinalizer (sr_Lib R) (k_Update (sr_Objects R)) object;
        ret (noRequeue, e)
      } else do {
        let before = sa_Status (nk_Status K) object;
        let object = stampGeneration (nk_Status K) object;
        let cleanupFailed = recordCleanupFailure (nk_Status K) (sr_Now R) (k_StatusUpdate (sr_Objects R)) object before;
        r \<leftarrow> resolveConnection (sr_Connections R) (om_Namespace object) (nk_ConnectionRef K object);
        case r of
          Inl err \<Rightarrow> cleanupFailed reasonCleanupDependencyUnavailable
            (cleanupDependencyError ''OpenBaoConnection'' err)
        | Inr connection \<Rightarrow> do {
            c \<leftarrow> systemClientFor R connection;
            case c of
              Inl err \<Rightarrow> cleanupFailed reasonCleanupDependencyUnavailable
                (cleanupDependencyError ''OpenBaoConnection credentials'' err)
            | Inr apiClient \<Rightarrow> do {
                d \<leftarrow> nk_Delete K object apiClient;
                if case d of Some err \<Rightarrow> \<not> isNotFound (sr_Lib R) err | None \<Rightarrow> False
                then cleanupFailed ''CleanupFailed'' (the d)
                else do {
                  e \<leftarrow> removeFinalizer (sr_Lib R) (k_Update (sr_Objects R)) object;
                  ret (noRequeue, e)
                }
              }
          }
      })"

definition named_ready ::
  "('s, 'k, 'a ObjectMeta_scheme, 'st, 'd, 'm) namedKind \<Rightarrow> 'm \<Rightarrow> int \<Rightarrow> int
     \<Rightarrow> 'a ObjectMeta_scheme \<Rightarrow> 'a ObjectMeta_scheme" where
  "named_ready K observed t1 t2 object =
     (let acc = nk_Status K; st = nk_Observe K object observed (sa_Status acc object)
      in sa_setStatus acc (sa_setConditions acc (markReady (sa_Conditions acc st) (om_Generation object)
           (nk_ReadyMessage K) t1 t2) st) object)"

definition named_finish ::
  "('s, 'k, 'a ObjectMeta_scheme) SystemReconciler \<Rightarrow> ('s, 'k, 'a ObjectMeta_scheme, 'st, 'd, 'm) namedKind
     \<Rightarrow> 'st \<Rightarrow> 'a ObjectMeta_scheme \<Rightarrow> 'm \<Rightarrow> ('s, outcome) state" where
  "named_finish R K before object observed = do {
     t1 \<leftarrow> sr_Now R;
     t2 \<leftarrow> sr_Now R;
     let object = named_ready K observed t1 t2 object;
     r \<leftarrow> updateStatusIfChanged (k_StatusUpdate (sr_Objects R)) object before (sa_Status (nk_Status K) object);
     case r of
       Inl err \<Rightarrow> ret (noRequeue, Some err)
     | Inr object \<Rightarrow> ret (requeueIn (nk_DriftInterval K object), None)
   }"

definition named_sync ::
  "('s, 'k, 'a ObjectMeta_scheme) SystemReconciler \<Rightarrow> ('s, 'k, 'a ObjectMeta_scheme, 'st, 'd, 'm) namedKind
     \<Rightarrow> 'k \<Rightarrow> 'st \<Rightarrow> 'a ObjectMeta_scheme \<Rightarrow> 'm option \<Rightarrow> ('s, outcome) state" where
  "named_sync R K apiClient before object acquired = (case acquired of
      None \<Rightarrow> named_fail R K object ''InvalidOpenBaoResponse''
        (Errorf (''OpenBao returned no '' @ nk_NoneFor K @ fmt_q (om_Name object)))
    | Some observed \<Rightarrow> (case nk_Desired K object of
        Inl err \<Rightarrow> named_fail R K object (''Invalid'' @ nk_Reason K @ ''Spec'') err
      | Inr desired \<Rightarrow>
          if nk_Matches K desired observed then named_finish R K before object observed
          else do {
            w \<leftarrow> nk_Write K object apiClient desired;
            case w of
              Some err \<Rightarrow> named_fail R K object (nk_Reason K @ ''WriteFailed'') err
            | None \<Rightarrow> do {
                g \<leftarrow> nk_Get K object apiClient;
                case g of
                  Inl err \<Rightarrow> named_fail R K object (nk_Reason K @ ''ReadFailed'') err
                | Inr None \<Rightarrow> named_fail R K object ''InvalidOpenBaoResponse''
                    (Errorf (''OpenBao returned no '' @ nk_Noun K @ '' after writing '' @ fmt_q (om_Name object)))
                | Inr (Some observed) \<Rightarrow> named_finish R K before object observed
              }
          }))"

definition named_reconcileActive ::
  "('s, 'k, 'a ObjectMeta_scheme) SystemReconciler \<Rightarrow> ('s, 'k, 'a ObjectMeta_scheme, 'st, 'd, 'm) namedKind
     \<Rightarrow> 'st \<Rightarrow> 'a ObjectMeta_scheme \<Rightarrow> ('s, outcome) state" where
  "named_reconcileActive R K before object = do {
     let object = stampGeneration (nk_Status K) object;
     let ref = nk_ConnectionRef K object;
     r \<leftarrow> resolveConnection (sr_Connections R) (om_Namespace object) ref;
     case r of
       Inl err \<Rightarrow> named_dependencyFailure R K object
         (Wrapf (''read OpenBaoConnection '' @ om_Namespace object @ ''/'' @ connref_Name ref) err)
     | Inr connection \<Rightarrow>
         if \<not> IsStatusConditionTrue (sr_Lib R) (cnst_Conditions (cn_Status connection)) conditionReady then
           named_dependencyFailure R K object (dependencyMessage ''OpenBaoConnection'' (ObjectKey connection) None)
         else do {
           c \<leftarrow> systemClientFor R connection;
           case c of
             Inl err \<Rightarrow> named_dependencyFailure R K object err
           | Inr apiClient \<Rightarrow> do {
               a \<leftarrow> named_acquire (sr_Lib R) K apiClient object;
               case a of
                 Inl err \<Rightarrow> named_fail R K object (nk_Reason K @ ''AcquireFailed'') err
               | Inr observed \<Rightarrow> named_sync R K apiClient before object observed
             }
         }
   }"

definition named_reconcile ::
  "('s, 'k, 'a ObjectMeta_scheme) SystemReconciler \<Rightarrow> ('s, 'k, 'a ObjectMeta_scheme, 'st, 'd, 'm) namedKind
     \<Rightarrow> NamespacedName \<Rightarrow> ('s, outcome) state" where
  "named_reconcile R K req = withObject R req (\<lambda>read. do {
     f \<leftarrow> (if notDeleted read \<and> IsDelete (nk_DeletionPolicy K read)
          then ensureFinalizer (sr_Lib R) (k_Update (sr_Objects R)) read
          else ret (Inr read));
     case f of
       Inl err \<Rightarrow> ret (noRequeue, Some err)
     | Inr object \<Rightarrow>
         if \<not> notDeleted object then named_reconcileDeletion R K object
         else named_reconcileActive R K
           (sa_Status (nk_Status K) (if nk_BeforeFinalizer K then read else object)) object
   })"

end
