(* ===== verification/NamedLifecycle.thy ===== *)
theory NamedLifecycle
  imports NamedEngine SystemLifecycle
begin

text \<open>
  What a reconciliation of \<open>NamedEngine\<close> may do with any kind, for every behaviour of the API
  server and of OpenBao.  The contract of a kind is the locale \<open>named_kind\<close>, interpreted in
  \<open>RoleKinds\<close>.
\<close>

section \<open>Observing a run\<close>

datatype ('o, 'd, 'm) NamedEvent =
    NObject "'o KubeEvent"
  | NConnection "OpenBaoConnection KubeEvent"
  | MadeNamedClient OpenBaoConnection "go_error option"
  | ReadNamed 'o "go_error + 'm option"
  | WroteNamed 'o 'd "go_error option"
  | DeletedNamed 'o "go_error option"

definition logKind ::
  "('s, 'k, 'o, 'st, 'd, 'm) namedKind \<Rightarrow> ('s \<times> ('o, 'd, 'm) NamedEvent list, 'k, 'o, 'st, 'd, 'm) namedKind" where
  "logKind K =
     \<lparr>nk_Noun = nk_Noun K, nk_NoneFor = nk_NoneFor K, nk_Reason = nk_Reason K, nk_ReadyMessage = nk_ReadyMessage K,
      nk_BeforeFinalizer = nk_BeforeFinalizer K, nk_ConnectionRef = nk_ConnectionRef K,
      nk_CreationPolicy = nk_CreationPolicy K, nk_DeletionPolicy = nk_DeletionPolicy K,
      nk_DriftInterval = nk_DriftInterval K,
      nk_Get = (\<lambda>ob k. logged (ReadNamed ob) (nk_Get K ob k)),
      nk_Write = (\<lambda>ob k d. logged (WroteNamed ob d) (nk_Write K ob k d)),
      nk_Delete = (\<lambda>ob k. logged (DeletedNamed ob) (nk_Delete K ob k)),
      nk_Desired = nk_Desired K, nk_Matches = nk_Matches K, nk_Status = nk_Status K,
      nk_StatusName = nk_StatusName K, nk_Observe = nk_Observe K\<rparr>"

lemma logKind_sel [simp]:
  "nk_Noun (logKind K) = nk_Noun K" "nk_NoneFor (logKind K) = nk_NoneFor K" "nk_Reason (logKind K) = nk_Reason K"
  "nk_BeforeFinalizer (logKind K) = nk_BeforeFinalizer K" "nk_ConnectionRef (logKind K) = nk_ConnectionRef K"
  "nk_CreationPolicy (logKind K) = nk_CreationPolicy K" "nk_DeletionPolicy (logKind K) = nk_DeletionPolicy K"
  "nk_DriftInterval (logKind K) = nk_DriftInterval K"
  "nk_Get (logKind K) ob k = logged (ReadNamed ob) (nk_Get K ob k)"
  "nk_Write (logKind K) ob k d = logged (WroteNamed ob d) (nk_Write K ob k d)"
  "nk_Delete (logKind K) ob k = logged (DeletedNamed ob) (nk_Delete K ob k)"
  "nk_Desired (logKind K) = nk_Desired K" "nk_Matches (logKind K) = nk_Matches K" "nk_Status (logKind K) = nk_Status K"
  "nk_StatusName (logKind K) = nk_StatusName K"
  "named_ready (logKind K) m t1 t2 ob = named_ready K m t1 t2 ob"
  by (simp_all add: logKind_def named_ready_def)

definition logNamedReconciler ::
  "('s, 'k, 'o) SystemReconciler \<Rightarrow> ('s \<times> ('o, 'd, 'm) NamedEvent list, 'k, 'o) SystemReconciler" where
  "logNamedReconciler R =
     \<lparr>sr_Lib = sr_Lib R, sr_Float = sr_Float R,
      sr_Objects = logKube NObject (sr_Objects R),
      sr_Connections = logKube NConnection (sr_Connections R),
      sr_Now = silent (sr_Now R),
      sr_NewClient = map_option (logClientFor MadeNamedClient id) (sr_NewClient R),
      sr_ClientCache = map_option (logClientFor MadeNamedClient id) (sr_ClientCache R),
      sr_connectionClientFor = logClientFor MadeNamedClient id (sr_connectionClientFor R)\<rparr>"

lemma logNamedReconciler_sel [simp]:
  "sr_Lib (logNamedReconciler R) = sr_Lib R"
  "sr_Objects (logNamedReconciler R) = logKube NObject (sr_Objects R)"
  "sr_Connections (logNamedReconciler R) = logKube NConnection (sr_Connections R)"
  "sr_Now (logNamedReconciler R) = silent (sr_Now R)"
  by (simp_all add: logNamedReconciler_def)

lemma wp_namedClientForI:
  assumes "\<And>e s'. Q (Inl e) (s', tr @ [MadeNamedClient connection (Some e)])"
    and "\<And>c s'. Q (Inr c) (s', tr @ [MadeNamedClient connection None])"
  shows "wp (systemClientFor (logNamedReconciler R) connection) Q (s, tr)"
  unfolding systemClientFor_def logNamedReconciler_def SystemReconciler.simps
  by (intro wp_clientForWithI assms(1)) (simp add: assms(2))

definition named_trace ::
  "('s, 'k, 'a ObjectMeta_scheme) SystemReconciler \<Rightarrow> ('s, 'k, 'a ObjectMeta_scheme, 'st, 'd, 'm) namedKind
     \<Rightarrow> NamespacedName \<Rightarrow> 's \<Rightarrow> ('a ObjectMeta_scheme, 'd, 'm) NamedEvent list" where
  "named_trace R K req s = snd (snd (run_state (named_reconcile (logNamedReconciler R) (logKind K) req) (s, [])))"

section \<open>What justifies a call\<close>

definition activeNamed ::
  "KubeLib \<Rightarrow> ('s, 'k, 'a ObjectMeta_scheme, 'st, 'd, 'm) namedKind
     \<Rightarrow> ('a ObjectMeta_scheme, 'd, 'm) NamedEvent list \<Rightarrow> 'a ObjectMeta_scheme \<Rightarrow> bool" where
  "activeNamed L K pre ob \<longleftrightarrow> (\<exists>cur.
     live L NObject NConnection (\<lambda>ob. IsDelete (nk_DeletionPolicy K ob)) pre cur \<and>
     ob = stampGeneration (nk_Status K) cur)"

text \<open>The configuration was absent and may be created by this very write.\<close>

definition createsNamed ::
  "KubeLib \<Rightarrow> ('s, 'k, 'o, 'st, 'd, 'm) namedKind \<Rightarrow> ('o, 'd, 'm) NamedEvent list \<Rightarrow> 'o \<Rightarrow> bool" where
  "createsNamed L K pre ob \<longleftrightarrow> AllowsCreation (nk_CreationPolicy K ob) \<and>
     (\<exists>err. ReadNamed ob (Inl err) \<in> set pre \<and> isNotFound L err) \<and> (\<forall>ob' d r. WroteNamed ob' d r \<notin> set pre)"

text \<open>It is this resource's: recorded, adoptable, or just created.\<close>

definition ownsNamed ::
  "KubeLib \<Rightarrow> ('s, 'k, 'o, 'st, 'd, 'm) namedKind \<Rightarrow> ('o, 'd, 'm) NamedEvent list \<Rightarrow> 'o \<Rightarrow> bool" where
  "ownsNamed L K pre ob \<longleftrightarrow>
     nk_StatusName K (sa_Status (nk_Status K) ob) \<noteq> '''' \<or> AllowsAdoption (nk_CreationPolicy K ob) \<or>
     (AllowsCreation (nk_CreationPolicy K ob) \<and> (\<exists>err. ReadNamed ob (Inl err) \<in> set pre \<and> isNotFound L err) \<and>
        (\<exists>d. WroteNamed ob d None \<in> set pre))"

definition differsNamed ::
  "('s, 'k, 'o, 'st, 'd, 'm) namedKind \<Rightarrow> ('o, 'd, 'm) NamedEvent list \<Rightarrow> 'o \<Rightarrow> 'd \<Rightarrow> bool" where
  "differsNamed K pre ob desired \<longleftrightarrow> (\<exists>m. ReadNamed ob (Inr (Some m)) \<in> set pre \<and> \<not> nk_Matches K desired m)"

definition settledNamed ::
  "('s, 'k, 'o, 'st, 'd, 'm) namedKind \<Rightarrow> ('o, 'd, 'm) NamedEvent list \<Rightarrow> 'o \<Rightarrow> 'm \<Rightarrow> bool" where
  "settledNamed K pre ob m \<longleftrightarrow> (\<exists>desired. nk_Desired K ob = Inr desired \<and> ReadNamed ob (Inr (Some m)) \<in> set pre \<and>
     (nk_Matches K desired m \<or> WroteNamed ob desired None \<in> set pre))"

fun namedDeletionConfirmed :: "KubeLib \<Rightarrow> ('o, 'd, 'm) NamedEvent \<Rightarrow> bool" where
  "namedDeletionConfirmed L (DeletedNamed ob d) = confirmedGone L d"
| "namedDeletionConfirmed L e = False"

fun named_justified ::
  "KubeLib \<Rightarrow> ('s, 'k, 'a ObjectMeta_scheme, 'st, 'd, 'm) namedKind
     \<Rightarrow> ('a ObjectMeta_scheme, 'd, 'm) NamedEvent list \<Rightarrow> ('a ObjectMeta_scheme, 'd, 'm) NamedEvent \<Rightarrow> bool" where
  "named_justified L K pre (WroteNamed ob desired r) \<longleftrightarrow>
     activeNamed L K pre ob \<and> nk_Desired K ob = Inr desired \<and>
     (createsNamed L K pre ob \<or> ownsNamed L K pre ob \<and> differsNamed K pre ob desired)"
| "named_justified L K pre (DeletedNamed ob r) \<longleftrightarrow>
     (\<exists>cur. seen NObject pre cur \<and> \<not> notDeleted cur \<and> nk_DeletionPolicy K cur = DeletionPolicyDelete \<and>
        ob = stampGeneration (nk_Status K) cur)"
| "named_justified L K pre (NObject (UpdatedObject ob r)) \<longleftrightarrow>
     finalizerWrite L NObject (\<lambda>ob. IsDelete (nk_DeletionPolicy K ob))
       (\<lambda>ob. nk_DeletionPolicy K ob \<noteq> DeletionPolicyDelete \<or> list_ex (namedDeletionConfirmed L) pre) pre ob"
| "named_justified L K pre (NObject (UpdatedStatus ob r)) \<longleftrightarrow>
     (readyTrue (sa_Conditions (nk_Status K) (sa_Status (nk_Status K) ob)) \<longrightarrow>
        (\<exists>cur m t1 t2. activeNamed L K pre cur \<and> ownsNamed L K pre cur \<and> settledNamed K pre cur m \<and>
           ob = named_ready K m t1 t2 cur))"
| "named_justified L K pre e \<longleftrightarrow> True"

lemma activeNamed_mono [simp]: "activeNamed L K pre ob \<Longrightarrow> activeNamed L K (pre @ es) ob"
  unfolding activeNamed_def by (blast intro: live_mono)

lemma ownsNamed_mono [simp]: "ownsNamed L K pre ob \<Longrightarrow> ownsNamed L K (pre @ es) ob"
  unfolding ownsNamed_def by auto

lemma named_justified_Ready:
  "activeNamed L K pre cur \<Longrightarrow> ownsNamed L K pre cur \<Longrightarrow> settledNamed K pre cur m \<Longrightarrow>
     named_justified L K pre (NObject (UpdatedStatus (named_ready K m t1 t2 cur) r))"
  unfolding named_justified.simps by blast

lemma named_justified_Delete:
  "seen NObject pre cur \<Longrightarrow> \<not> notDeleted cur \<Longrightarrow> nk_DeletionPolicy K cur = DeletionPolicyDelete \<Longrightarrow>
     named_justified L K pre (DeletedNamed (stampGeneration (nk_Status K) cur) r)"
  by auto

section \<open>The contract of a kind, and every run of it\<close>

text \<open>
  A kind's policies, connection and desired configuration come from the specification, not from
  the generation in the status.
\<close>

locale named_kind = status_object acc
  for acc :: "('a ObjectMeta_scheme, 'st) StatusAccess" +
  fixes K :: "('s, 'k, 'a ObjectMeta_scheme, 'st, 'd, 'm) namedKind"
  assumes kind_status: "nk_Status K = acc"
    and kind_stamped: "nk_DeletionPolicy K (stampGeneration acc ob) = nk_DeletionPolicy K ob"
      "nk_CreationPolicy K (stampGeneration acc ob) = nk_CreationPolicy K ob"
      "nk_Desired K (stampGeneration acc ob) = nk_Desired K ob"
    and name_stamped: "nk_StatusName K (sa_setObservedGeneration acc g st) = nk_StatusName K st"
    and name_conds: "nk_StatusName K (sa_setConditions acc cs st) = nk_StatusName K st"
    and name_observed: "nk_StatusName K (nk_Observe K ob m st) = om_Name ob"
begin

abbreviation justified :: "KubeLib \<Rightarrow> ('a ObjectMeta_scheme, 'd, 'm) NamedEvent list \<Rightarrow> bool" where
  "justified L tr \<equiv> guarded (named_justified L K) tr"

lemma named_fail_justified:
  "justified L tr \<Longrightarrow> wp (named_fail (logNamedReconciler R) (logKind K) ob reason err)
     (\<lambda>_ (s', tr'). justified L tr') (s, tr)"
  unfolding named_fail_def logNamedReconciler_sel logKind_sel kind_status
  by (rule wp_fail_guarded) (assumption | simp add: kind_status)+

lemma named_dependencyFailure_justified:
  "justified L tr \<Longrightarrow> wp (named_dependencyFailure (logNamedReconciler R) (logKind K) ob err)
     (\<lambda>_ (s', tr'). justified L tr') (s, tr)"
  unfolding named_dependencyFailure_def logNamedReconciler_sel logKind_sel kind_status
  by (rule wp_dependencyFailure_guarded) (assumption | simp add: kind_status)+

lemma named_cleanup_justified:
  "justified L tr \<Longrightarrow> wp (recordCleanupFailure acc (silent now) (k_StatusUpdate (logKube NObject Ku)) ob before reason err)
     (\<lambda>_ (s', tr'). justified L tr') (s, tr)"
  by (rule wp_cleanupFailure_guarded) (assumption | simp add: kind_status)+

lemma named_finish_justified:
  assumes "justified L tr" "activeNamed L K tr ob" "ownsNamed L K tr ob" "settledNamed K tr ob m"
  shows "wp (named_finish (logNamedReconciler R) (logKind K) before ob m) (\<lambda>_ (s', tr'). justified L tr') (s, tr)"
proof -
  note ready = named_justified_Ready [OF assms(2-4)]
  show ?thesis
    using assms(1) ready unfolding named_finish_def Let_def wp_simps logNamedReconciler_sel logKind_sel
    by (intro wp_silentI)
       (auto simp: updateStatusIfChanged_def wp_simps logKube_write guarded_snoc simp del: named_justified.simps
          split: sum.splits intro!: wp_loggedI)
qed

lemma named_sync_justified:
  assumes "justified L tr" "activeNamed L K tr ob" "ownsNamed L K tr ob"
    and "\<And>m. x = Some m \<Longrightarrow> ReadNamed ob (Inr (Some m)) \<in> set tr"
  shows "wp (named_sync (logNamedReconciler R) (logKind K) k before ob x) (\<lambda>_ (s', tr'). justified L tr') (s, tr)"
proof (cases x)
  case None
  then show ?thesis unfolding named_sync_def using assms(1) by (simp add: named_fail_justified)
next
  case (Some m)
  show ?thesis
  proof (cases "nk_Desired K ob")
    case (Inl err)
    then show ?thesis unfolding named_sync_def using Some assms(1) by (simp add: named_fail_justified)
  next
    case (Inr desired)
    let ?w = "\<lambda>r. tr @ [WroteNamed ob desired r]" and ?g = "\<lambda>g. tr @ [WroteNamed ob desired None, ReadNamed ob g]"
    have J: "justified L (?w r)" "justified L (?g g)" if "\<not> nk_Matches K desired m" for r g
      using assms Inr Some that by (auto simp: trace_simps differsNamed_def)
    have same: "wp (named_finish (logNamedReconciler R) (logKind K) before ob m) (\<lambda>_ (s', tr'). justified L tr') (s, tr)"
      if "nk_Matches K desired m"
      by (rule named_finish_justified [OF assms(1-3)]) (use assms(4) Some Inr that in \<open>simp add: settledNamed_def\<close>)
    have written: "wp (named_finish (logNamedReconciler R) (logKind K) before ob m')
        (\<lambda>_ (s', tr'). justified L tr') (s', ?g (Inr (Some m')))" if "\<not> nk_Matches K desired m" for m' s'
      by (rule named_finish_justified [OF J(2) [OF that]])
         (use assms(2,3) Inr in \<open>simp_all add: settledNamed_def\<close>)
    show ?thesis
      unfolding named_sync_def logKind_sel Some Inr option.case sum.case
      using J same written
      by (auto split: sum.splits option.splits simp: wp_simps intro!: wp_loggedI named_fail_justified)
  qed
qed

lemma named_acquire_sync_justified:
  assumes "justified (sr_Lib R) tr" "activeNamed (sr_Lib R) K tr ob" "\<forall>ob' d r. WroteNamed ob' d r \<notin> set tr"
  shows "wp (named_acquire (sr_Lib R) (logKind K) k ob)
     (\<lambda>a (s', tr'). justified (sr_Lib R) tr' \<and> activeNamed (sr_Lib R) K tr' ob \<and>
        (\<forall>x. a = Inr x \<longrightarrow> ownsNamed (sr_Lib R) K tr' ob \<and>
           (\<forall>m. x = Some m \<longrightarrow> ReadNamed ob (Inr (Some m)) \<in> set tr'))) (s, tr)"
proof -
  let ?L = "sr_Lib R" and ?r = "\<lambda>g. tr @ [ReadNamed ob g]"
  have J: "justified ?L (?r g)" for g using assms(1) by (simp add: guarded_snoc)
  have Jw: "justified ?L (?r (Inl e) @ [WroteNamed ob d w])"
    if "isNotFound ?L e" "AllowsCreation (nk_CreationPolicy K ob)" "nk_Desired K ob = Inr d" for e d w
    using J assms that by (auto simp: guarded_snoc createsNamed_def simp del: append_assoc)
  have Jg: "justified ?L (?r (Inl e) @ [WroteNamed ob d w, ReadNamed ob g])"
    if "isNotFound ?L e" "AllowsCreation (nk_CreationPolicy K ob)" "nk_Desired K ob = Inr d" for e d w g
    using Jw [OF that] by (simp add: trace_simps)
  show ?thesis
    unfolding named_acquire_def wp_simps logKind_sel kind_status
    by (rule wp_loggedI)
       (use J Jw Jg assms in \<open>auto split: sum.splits option.splits simp: wp_simps ownsNamed_def kind_status
          intro!: wp_loggedI\<close>)
qed

lemma named_reconcileActive_justified:
  assumes "justified (sr_Lib R) tr" "seen NObject tr ob" "notDeleted ob" "\<forall>ob' d r. WroteNamed ob' d r \<notin> set tr"
    and "IsDelete (nk_DeletionPolicy K ob) \<longrightarrow> held (sr_Lib R) NObject tr ob"
  shows "wp (named_reconcileActive (logNamedReconciler R) (logKind K) before ob)
           (\<lambda>_ (s', tr'). justified (sr_Lib R) tr') (s, tr)"
proof -
  let ?L = "sr_Lib R" and ?ob = "stampGeneration acc ob"
  have active: "activeNamed ?L K (tr @ [NConnection (GotObject nn (Inr k)), MadeNamedClient k e]) ?ob"
    if "IsStatusConditionTrue ?L (cnst_Conditions (cn_Status k)) conditionReady" for nn k e
    unfolding activeNamed_def kind_status
    by (rule exI [where x = ob]) (use assms that in \<open>auto simp: live_def intro: connReady_got [where conn = k and nn = nn]\<close>)
  have J: "justified ?L (tr @ [NConnection c])" "justified ?L (tr @ [NConnection c, MadeNamedClient k e])" for c k e
    using assms(1) by (simp_all add: trace_simps)
  have run: "wp (named_acquire ?L (logKind K) cl ?ob)
      (\<lambda>a st. (\<forall>e. a = Inl e \<longrightarrow>
          wp (named_fail (logNamedReconciler R) (logKind K) ?ob (nk_Reason K @ ''AcquireFailed'') e)
            (\<lambda>_ (s', tr'). justified ?L tr') st) \<and>
        (\<forall>x. a = Inr x \<longrightarrow> wp (named_sync (logNamedReconciler R) (logKind K) cl before ?ob x)
            (\<lambda>_ (s', tr'). justified ?L tr') st))
      (s', tr @ [NConnection (GotObject nn (Inr k)), MadeNamedClient k e])"
    if "IsStatusConditionTrue ?L (cnst_Conditions (cn_Status k)) conditionReady" for nn k e cl s'
    by (rule wp_mono [OF named_acquire_sync_justified [OF J(2) active [OF that]]])
       (use assms(4) in \<open>auto split: sum.splits intro!: named_fail_justified named_sync_justified\<close>)
  show ?thesis
    unfolding named_reconcileActive_def Let_def wp_simps resolveConnection_def logNamedReconciler_sel
      logKube_sel logKind_sel kind_status
    using J run
    by (auto split: sum.splits intro!: wp_loggedI wp_namedClientForI named_dependencyFailure_justified)
qed

lemma named_reconcileDeletion_justified:
  assumes "justified (sr_Lib R) tr" "seen NObject tr ob" "\<not> notDeleted ob"
  shows "wp (named_reconcileDeletion (logNamedReconciler R) (logKind K) ob)
           (\<lambda>_ (s', tr'). justified (sr_Lib R) tr') (s, tr)"
proof -
  have drop: "finalizerWrite (sr_Lib R) NObject wants cleared tr'
      (ob'\<lparr>om_Finalizers := RemoveFinalizer (sr_Lib R) fs finalizerName\<rparr>)"
    if "seen NObject tr' ob" "fs = om_Finalizers ob" "cleared ob" for tr' ob' fs wants cleared
    by (rule finalizerWrite_remove [where orig = ob]) (use that assms(3) in auto)
  have stamped: "om_Finalizers (stampGeneration acc ob) = om_Finalizers ob"
    by (simp add: stampGeneration_def)
  have gone: "named_justified (sr_Lib R) K tr' (DeletedNamed (stampGeneration acc ob) r)"
    if "seen NObject tr' ob" "nk_DeletionPolicy K ob = DeletionPolicyDelete" for tr' r
    using named_justified_Delete [OF that(1) assms(3) that(2)] by (simp only: kind_status)
  show ?thesis
    unfolding named_reconcileDeletion_def Let_def wp_simps resolveConnection_def logNamedReconciler_sel
      logKube_sel logKind_sel kind_status
    using assms
    by (auto split: sum.splits option.splits simp: wp_simps trace_simps confirmedGone_def stamped
        simp del: named_justified.simps(2)
        intro!: wp_removeFinalizerI wp_loggedI wp_namedClientForI named_cleanup_justified drop gone)
qed

lemma named_reconcile_justified:
  "wp (named_reconcile (logNamedReconciler R) (logKind K) req) (\<lambda>_ (s', tr'). justified (sr_Lib R) tr') (s, [])"
proof -
  have add: "finalizerWrite (sr_Lib R) NObject (\<lambda>ob. IsDelete (nk_DeletionPolicy K ob)) cleared
      [NObject (GotObject req (Inr ob))] (ob\<lparr>om_Finalizers := AddFinalizer (sr_Lib R) (om_Finalizers ob) finalizerName\<rparr>)"
    if "notDeleted ob" "IsDelete (nk_DeletionPolicy K ob)" for ob cleared
    by (rule finalizerWrite_add) (use that in \<open>auto intro: seen_got\<close>)
  show ?thesis
    unfolding named_reconcile_def withObject_def wp_simps logNamedReconciler_sel logKube_sel
    by (rule wp_loggedI)
       (auto split: sum.splits option.splits simp: wp_simps guarded_def add
          intro!: wp_ensureFinalizerI named_reconcileDeletion_justified named_reconcileActive_justified
          intro: seen_got seen_updated held_contains held_added)
qed

lemma trace_justified: "guarded (named_justified (sr_Lib R) K) (named_trace R K req s)"
  using named_reconcile_justified [of R req s] by (simp add: named_trace_def wp_run split_beta)

text \<open>A ready status names the resource's own configuration.\<close>

lemma ready_records: "nk_StatusName K (sa_Status acc (named_ready K m t1 t2 ob)) = om_Name ob"
  by (simp add: named_ready_def kind_status Let_def get_set name_conds name_observed)

end

end
