(* ===== verification/RoleApi.thy ===== *)
theory RoleApi
  imports Api
begin

text \<open>
  The custom resources of \<^verbatim>\<open>openbaopasswordpolicy_types.go\<close>,
  \<^verbatim>\<open>openbaokubernetesauthrole_types.go\<close>, \<^verbatim>\<open>openbaotokenrole_types.go\<close> and
  \<^verbatim>\<open>openbaoapprole_types.go\<close>, field for field, with the conventions of \<open>Api\<close>.
\<close>

section \<open>openbaopasswordpolicy\_types.go\<close>

record OpenBaoPasswordPolicySpec =
  pws_ConnectionRef :: OpenBaoConnectionReference
  pws_Rules :: string
  pws_CreationPolicy :: CreationPolicy
  pws_DeletionPolicy :: DeletionPolicy
  pws_DriftDetectionInterval :: "int option"

record OpenBaoPasswordPolicyStatus =
  pwt_Name :: string
  pwt_RulesHash :: string
  pwt_ObservedGeneration :: int
  pwt_Conditions :: "Condition list"

record OpenBaoPasswordPolicy = ObjectMeta +
  pwo_Spec :: OpenBaoPasswordPolicySpec
  pwo_Status :: OpenBaoPasswordPolicyStatus

section \<open>openbaokubernetesauthrole\_types.go\<close>

record OpenBaoKubernetesAuthRoleSpec =
  kus_ConnectionRef :: OpenBaoConnectionReference
  kus_MountPath :: string
  kus_CreationPolicy :: CreationPolicy
  kus_DeletionPolicy :: DeletionPolicy
  kus_DriftDetectionInterval :: "int option"
  kus_BoundServiceAccountNames :: "string slice"
  kus_BoundServiceAccountNamespaces :: "string slice"
  kus_TokenPolicies :: "string slice"
  kus_TokenTTL :: "int option"
  kus_TokenMaxTTL :: "int option"
  kus_TokenPeriod :: "int option"
  kus_Audience :: string
  kus_TokenType :: string
  kus_TokenNumUses :: "int option"
  kus_TokenNoDefaultPolicy :: "bool option"
  kus_TokenExplicitMaxTTL :: "int option"
  kus_TokenBoundCIDRs :: "string slice"

record OpenBaoKubernetesAuthRoleStatus =
  kut_MountPath :: string
  kut_Name :: string
  kut_ConfigHash :: string
  kut_ObservedGeneration :: int
  kut_Conditions :: "Condition list"

record OpenBaoKubernetesAuthRole = ObjectMeta +
  kuo_Spec :: OpenBaoKubernetesAuthRoleSpec
  kuo_Status :: OpenBaoKubernetesAuthRoleStatus

section \<open>openbaotokenrole\_types.go\<close>

record OpenBaoTokenRoleSpec =
  trs_ConnectionRef :: OpenBaoConnectionReference
  trs_CreationPolicy :: CreationPolicy
  trs_DeletionPolicy :: DeletionPolicy
  trs_DriftDetectionInterval :: "int option"
  trs_AllowedEntityAliases :: "string slice"
  trs_AllowedPolicies :: "string slice"
  trs_AllowedPoliciesGlob :: "string slice"
  trs_DisallowedPolicies :: "string slice"
  trs_DisallowedPoliciesGlob :: "string slice"
  trs_TokenBoundCIDRs :: "string slice"
  trs_TokenExplicitMaxTTL :: "int option"
  trs_TokenPeriod :: "int option"
  trs_TokenNumUses :: "int option"
  trs_TokenNoDefaultPolicy :: "bool option"
  trs_TokenType :: string
  trs_Orphan :: "bool option"
  trs_Renewable :: "bool option"
  trs_PathSuffix :: string

record OpenBaoTokenRoleStatus =
  trt_Name :: string
  trt_ConfigHash :: string
  trt_ObservedGeneration :: int
  trt_Conditions :: "Condition list"

record OpenBaoTokenRole = ObjectMeta +
  tro_Spec :: OpenBaoTokenRoleSpec
  tro_Status :: OpenBaoTokenRoleStatus

section \<open>openbaoapprole\_types.go\<close>

record OpenBaoAppRoleSpec =
  ars_ConnectionRef :: OpenBaoConnectionReference
  ars_MountPath :: string
  ars_CreationPolicy :: CreationPolicy
  ars_DeletionPolicy :: DeletionPolicy
  ars_DriftDetectionInterval :: "int option"
  ars_BindSecretID :: "bool option"
  ars_LocalSecretIDs :: "bool option"
  ars_SecretIDBoundCIDRs :: "string slice"
  ars_SecretIDNumUses :: "int option"
  ars_SecretIDTTL :: "int option"
  ars_TokenBoundCIDRs :: "string slice"
  ars_TokenExplicitMaxTTL :: "int option"
  ars_TokenMaxTTL :: "int option"
  ars_TokenNoDefaultPolicy :: "bool option"
  ars_TokenNumUses :: "int option"
  ars_TokenPeriod :: "int option"
  ars_TokenPolicies :: "string slice"
  ars_TokenTTL :: "int option"
  ars_TokenType :: string

record OpenBaoAppRoleStatus =
  art_MountPath :: string
  art_Name :: string
  art_ConfigHash :: string
  art_ObservedGeneration :: int
  art_Conditions :: "Condition list"

record OpenBaoAppRole = ObjectMeta +
  aro_Spec :: OpenBaoAppRoleSpec
  aro_Status :: OpenBaoAppRoleStatus

end
