(* ===== verification/RoleClientTypes.thy ===== *)
theory RoleClientTypes
  imports Endpoints
begin

text \<open>
  The request and response types of \<^verbatim>\<open>password_policies.go\<close>,
  \<^verbatim>\<open>kubernetes_auth_roles.go\<close>, \<^verbatim>\<open>token_roles.go\<close> and
  \<^verbatim>\<open>approle_roles.go\<close> with their JSON form, and the requests of these endpoints.
\<close>

section \<open>Optional fields\<close>

text \<open>A field with \<^verbatim>\<open>omitempty\<close> is left out when its slice is empty or its pointer nil.\<close>

definition omitStrings :: "string \<Rightarrow> string slice \<Rightarrow> (string \<times> Json) list" where
  "omitStrings k s = (if elems s = [] then [] else [(k, encStrings s)])"

definition omitInt :: "string \<Rightarrow> int option \<Rightarrow> (string \<times> Json) list" where
  "omitInt k v = (case v of None \<Rightarrow> [] | Some n \<Rightarrow> [(k, JNum n)])"

definition omitBool :: "string \<Rightarrow> bool option \<Rightarrow> (string \<times> Json) list" where
  "omitBool k v = (case v of None \<Rightarrow> [] | Some b \<Rightarrow> [(k, JBool b)])"

text \<open>A pointer: null makes it nil, any other value is decoded over what it points to.\<close>

definition decPointer :: "'a decoder \<Rightarrow> 'a \<Rightarrow> 'a option decoder" where
  "decPointer d zero v x = (case v of JNull \<Rightarrow> Inr None
     | _ \<Rightarrow> map_sum id Some (d v (case x of None \<Rightarrow> zero | Some y \<Rightarrow> y)))"

section \<open>password\_policies.go\<close>

record PasswordPolicy = pp_Rules :: string

definition passwordPolicyPath :: "string \<Rightarrow> string list" where
  "passwordPolicyPath name = [''sys'', ''policies'', ''password'', name]"

text \<open>The endpoint answers with the policy at the top or inside \<^verbatim>\<open>data\<close>.\<close>

definition decPasswordResponse :: "(string \<times> string) decoder" where
  "decPasswordResponse = decStruct ''struct { Policy string; Data struct { Policy string } }'' (\<lambda>fs x.
     andThen (field fs ''policy'' decString (fst x)) (\<lambda>top.
     andThen (field fs ''data'' (decStruct ''struct { Policy string }''
       (\<lambda>fs y. field fs ''policy'' decString y)) (snd x)) (\<lambda>inner.
     Inr (top, inner))))"

definition Client_GetPasswordPolicy ::
  "'s Client \<Rightarrow> string \<Rightarrow> (TokenState \<times> 's, go_error + PasswordPolicy option) state" where
  "Client_GetPasswordPolicy c name = do {
     r \<leftarrow> doSegments c ''GET'' (passwordPolicyPath name) None (Target ('''', '''') decPasswordResponse) [];
     ret (map_sum id (\<lambda>(top, inner). Some \<lparr>pp_Rules = firstNonEmpty top inner\<rparr>) r)
   }"

definition Client_WritePasswordPolicy ::
  "'s Client \<Rightarrow> string \<Rightarrow> string \<Rightarrow> (TokenState \<times> 's, go_error option) state" where
  "Client_WritePasswordPolicy c name rules = do {
     r \<leftarrow> doSegments c ''POST'' (passwordPolicyPath name) (Some (JObj [(''policy'', JString rules)])) nilTarget [];
     ret (errOnly r)
   }"

definition Client_DeletePasswordPolicy :: "'s Client \<Rightarrow> string \<Rightarrow> (TokenState \<times> 's, go_error option) state" where
  "Client_DeletePasswordPolicy c name = do {
     r \<leftarrow> doSegments c ''DELETE'' (passwordPolicyPath name) None nilTarget [];
     ret (errOnly r)
   }"

section \<open>kubernetes\_auth\_roles.go\<close>

record KubernetesAuthRole =
  kr_BoundServiceAccountNames :: "string slice"
  kr_BoundServiceAccountNamespaces :: "string slice"
  kr_TokenPolicies :: "string slice"
  kr_Policies :: "string slice"
  kr_TokenTTL :: int
  kr_TokenMaxTTL :: int
  kr_TokenPeriod :: int
  kr_Audience :: string
  kr_TokenType :: string
  kr_TokenNumUses :: int
  kr_TokenNoDefaultPolicy :: bool
  kr_TokenExplicitMaxTTL :: int
  kr_TokenBoundCIDRs :: "string slice"

record KubernetesAuthRoleRequest =
  kq_BoundServiceAccountNames :: "string slice"
  kq_BoundServiceAccountNamespaces :: "string slice"
  kq_TokenPolicies :: "string slice"
  kq_TokenTTL :: int
  kq_TokenMaxTTL :: int
  kq_TokenPeriod :: int
  kq_Audience :: string
  kq_TokenType :: string
  kq_TokenNumUses :: "int option"
  kq_TokenNoDefaultPolicy :: "bool option"
  kq_TokenExplicitMaxTTL :: "int option"
  kq_TokenBoundCIDRs :: "string slice"

definition zeroKubernetesAuthRole :: KubernetesAuthRole where
  "zeroKubernetesAuthRole =
     \<lparr>kr_BoundServiceAccountNames = None, kr_BoundServiceAccountNamespaces = None,
     kr_TokenPolicies = None, kr_Policies = None, kr_TokenTTL = 0, kr_TokenMaxTTL = 0,
     kr_TokenPeriod = 0, kr_Audience = '''', kr_TokenType = '''', kr_TokenNumUses = 0,
     kr_TokenNoDefaultPolicy = False, kr_TokenExplicitMaxTTL = 0, kr_TokenBoundCIDRs = None\<rparr>"

definition decKubernetesAuthRole :: "KubernetesAuthRole decoder" where
  "decKubernetesAuthRole = decStruct ''KubernetesAuthRole'' (\<lambda>fs x.
     andThen (field fs ''bound_service_account_names'' decStrings (kr_BoundServiceAccountNames x)) (\<lambda>x0.
     andThen (field fs ''bound_service_account_namespaces'' decStrings (kr_BoundServiceAccountNamespaces x)) (\<lambda>x1.
     andThen (field fs ''token_policies'' decStrings (kr_TokenPolicies x)) (\<lambda>x2.
     andThen (field fs ''policies'' decStrings (kr_Policies x)) (\<lambda>x3.
     andThen (field fs ''token_ttl'' decInt64 (kr_TokenTTL x)) (\<lambda>x4.
     andThen (field fs ''token_max_ttl'' decInt64 (kr_TokenMaxTTL x)) (\<lambda>x5.
     andThen (field fs ''token_period'' decInt64 (kr_TokenPeriod x)) (\<lambda>x6.
     andThen (field fs ''audience'' decString (kr_Audience x)) (\<lambda>x7.
     andThen (field fs ''token_type'' decString (kr_TokenType x)) (\<lambda>x8.
     andThen (field fs ''token_num_uses'' decInt64 (kr_TokenNumUses x)) (\<lambda>x9.
     andThen (field fs ''token_no_default_policy'' decBool (kr_TokenNoDefaultPolicy x)) (\<lambda>x10.
     andThen (field fs ''token_explicit_max_ttl'' decInt64 (kr_TokenExplicitMaxTTL x)) (\<lambda>x11.
     andThen (field fs ''token_bound_cidrs'' decStrings (kr_TokenBoundCIDRs x)) (\<lambda>x12.
     Inr \<lparr>kr_BoundServiceAccountNames = x0, kr_BoundServiceAccountNamespaces = x1, kr_TokenPolicies = x2,
     kr_Policies = x3, kr_TokenTTL = x4, kr_TokenMaxTTL = x5, kr_TokenPeriod = x6, kr_Audience = x7,
     kr_TokenType = x8, kr_TokenNumUses = x9, kr_TokenNoDefaultPolicy = x10,
     kr_TokenExplicitMaxTTL = x11, kr_TokenBoundCIDRs = x12\<rparr>))))))))))))))"

definition encKubernetesAuthRoleRequest :: "KubernetesAuthRoleRequest \<Rightarrow> Json" where
  "encKubernetesAuthRoleRequest r = JObj (
     [(''bound_service_account_names'', encStrings (kq_BoundServiceAccountNames r))] @
     [(''bound_service_account_namespaces'', encStrings (kq_BoundServiceAccountNamespaces r))] @
     [(''token_policies'', encStrings (kq_TokenPolicies r))] @
     [(''token_ttl'', JNum (kq_TokenTTL r))] @
     [(''token_max_ttl'', JNum (kq_TokenMaxTTL r))] @
     [(''token_period'', JNum (kq_TokenPeriod r))] @
     omitempty ''audience'' (kq_Audience r) @
     omitempty ''token_type'' (kq_TokenType r) @
     omitInt ''token_num_uses'' (kq_TokenNumUses r) @
     omitBool ''token_no_default_policy'' (kq_TokenNoDefaultPolicy r) @
     omitInt ''token_explicit_max_ttl'' (kq_TokenExplicitMaxTTL r) @
     omitStrings ''token_bound_cidrs'' (kq_TokenBoundCIDRs r))"

definition EffectivePolicies_kubernetes :: "KubernetesAuthRole \<Rightarrow> string slice" where
  "EffectivePolicies_kubernetes r = (if elems (kr_TokenPolicies r) \<noteq> [] then kr_TokenPolicies r else kr_Policies r)"

definition kubernetesAuthRolePath :: "string \<Rightarrow> string \<Rightarrow> string list" where
  "kubernetesAuthRolePath mountPath name = authPathSegment # SplitByte (CHR ''/'') mountPath @ [''role'', name]"

definition Client_GetKubernetesAuthRole ::
  "'s Client \<Rightarrow> string \<Rightarrow> string \<Rightarrow> (TokenState \<times> 's, go_error + KubernetesAuthRole option) state" where
  "Client_GetKubernetesAuthRole c mountPath name = (case validateAuthMountPath mountPath ''Kubernetes auth'' of
      Some err \<Rightarrow> ret (Inl err)
    | None \<Rightarrow> do {
        r \<leftarrow> doSegments c ''GET'' (kubernetesAuthRolePath mountPath name) None (apiResponse zeroKubernetesAuthRole decKubernetesAuthRole) [];
        ret (map_sum id Some r)
      })"

definition Client_WriteKubernetesAuthRole ::
  "'s Client \<Rightarrow> string \<Rightarrow> string \<Rightarrow> KubernetesAuthRoleRequest \<Rightarrow> (TokenState \<times> 's, go_error option) state" where
  "Client_WriteKubernetesAuthRole c mountPath name request = (case validateAuthMountPath mountPath ''Kubernetes auth'' of
      Some err \<Rightarrow> ret (Some err)
    | None \<Rightarrow> do {
        r \<leftarrow> doSegments c ''POST'' (kubernetesAuthRolePath mountPath name) (Some (encKubernetesAuthRoleRequest request)) nilTarget [];
        ret (errOnly r)
      })"

definition Client_DeleteKubernetesAuthRole ::
  "'s Client \<Rightarrow> string \<Rightarrow> string \<Rightarrow> (TokenState \<times> 's, go_error option) state" where
  "Client_DeleteKubernetesAuthRole c mountPath name = (case validateAuthMountPath mountPath ''Kubernetes auth'' of
      Some err \<Rightarrow> ret (Some err)
    | None \<Rightarrow> do {
        r \<leftarrow> doSegments c ''DELETE'' (kubernetesAuthRolePath mountPath name) None nilTarget [];
        ret (errOnly r)
      })"

section \<open>token\_roles.go\<close>

record TokenRole =
  tk_AllowedEntityAliases :: "string slice"
  tk_AllowedPolicies :: "string slice"
  tk_AllowedPoliciesGlob :: "string slice"
  tk_DisallowedPolicies :: "string slice"
  tk_DisallowedPoliciesGlob :: "string slice"
  tk_TokenBoundCIDRs :: "string slice"
  tk_TokenExplicitMaxTTL :: "int option"
  tk_TokenPeriod :: "int option"
  tk_TokenNumUses :: "int option"
  tk_TokenNoDefaultPolicy :: "bool option"
  tk_TokenType :: string
  tk_Orphan :: "bool option"
  tk_Renewable :: "bool option"
  tk_PathSuffix :: string

record TokenRoleRequest =
  tq_AllowedEntityAliases :: "string slice"
  tq_AllowedPolicies :: "string slice"
  tq_AllowedPoliciesGlob :: "string slice"
  tq_DisallowedPolicies :: "string slice"
  tq_DisallowedPoliciesGlob :: "string slice"
  tq_TokenBoundCIDRs :: "string slice"
  tq_TokenExplicitMaxTTL :: "int option"
  tq_TokenPeriod :: "int option"
  tq_TokenNumUses :: "int option"
  tq_TokenNoDefaultPolicy :: "bool option"
  tq_TokenType :: string
  tq_Orphan :: "bool option"
  tq_Renewable :: "bool option"
  tq_PathSuffix :: string

definition zeroTokenRole :: TokenRole where
  "zeroTokenRole =
     \<lparr>tk_AllowedEntityAliases = None, tk_AllowedPolicies = None, tk_AllowedPoliciesGlob = None,
     tk_DisallowedPolicies = None, tk_DisallowedPoliciesGlob = None, tk_TokenBoundCIDRs = None,
     tk_TokenExplicitMaxTTL = None, tk_TokenPeriod = None, tk_TokenNumUses = None,
     tk_TokenNoDefaultPolicy = None, tk_TokenType = '''', tk_Orphan = None, tk_Renewable = None,
     tk_PathSuffix = ''''\<rparr>"

definition decTokenRole :: "TokenRole decoder" where
  "decTokenRole = decStruct ''TokenRole'' (\<lambda>fs x.
     andThen (field fs ''allowed_entity_aliases'' decStrings (tk_AllowedEntityAliases x)) (\<lambda>x0.
     andThen (field fs ''allowed_policies'' decStrings (tk_AllowedPolicies x)) (\<lambda>x1.
     andThen (field fs ''allowed_policies_glob'' decStrings (tk_AllowedPoliciesGlob x)) (\<lambda>x2.
     andThen (field fs ''disallowed_policies'' decStrings (tk_DisallowedPolicies x)) (\<lambda>x3.
     andThen (field fs ''disallowed_policies_glob'' decStrings (tk_DisallowedPoliciesGlob x)) (\<lambda>x4.
     andThen (field fs ''token_bound_cidrs'' decStrings (tk_TokenBoundCIDRs x)) (\<lambda>x5.
     andThen (field fs ''token_explicit_max_ttl'' (decPointer decInt64 0) (tk_TokenExplicitMaxTTL x)) (\<lambda>x6.
     andThen (field fs ''token_period'' (decPointer decInt64 0) (tk_TokenPeriod x)) (\<lambda>x7.
     andThen (field fs ''token_num_uses'' (decPointer decInt64 0) (tk_TokenNumUses x)) (\<lambda>x8.
     andThen (field fs ''token_no_default_policy'' (decPointer decBool False) (tk_TokenNoDefaultPolicy x)) (\<lambda>x9.
     andThen (field fs ''token_type'' decString (tk_TokenType x)) (\<lambda>x10.
     andThen (field fs ''orphan'' (decPointer decBool False) (tk_Orphan x)) (\<lambda>x11.
     andThen (field fs ''renewable'' (decPointer decBool False) (tk_Renewable x)) (\<lambda>x12.
     andThen (field fs ''path_suffix'' decString (tk_PathSuffix x)) (\<lambda>x13.
     Inr \<lparr>tk_AllowedEntityAliases = x0, tk_AllowedPolicies = x1, tk_AllowedPoliciesGlob = x2,
     tk_DisallowedPolicies = x3, tk_DisallowedPoliciesGlob = x4, tk_TokenBoundCIDRs = x5,
     tk_TokenExplicitMaxTTL = x6, tk_TokenPeriod = x7, tk_TokenNumUses = x8,
     tk_TokenNoDefaultPolicy = x9, tk_TokenType = x10, tk_Orphan = x11, tk_Renewable = x12,
     tk_PathSuffix = x13\<rparr>)))))))))))))))"

definition encTokenRoleRequest :: "TokenRoleRequest \<Rightarrow> Json" where
  "encTokenRoleRequest r = JObj (
     omitStrings ''allowed_entity_aliases'' (tq_AllowedEntityAliases r) @
     omitStrings ''allowed_policies'' (tq_AllowedPolicies r) @
     omitStrings ''allowed_policies_glob'' (tq_AllowedPoliciesGlob r) @
     omitStrings ''disallowed_policies'' (tq_DisallowedPolicies r) @
     omitStrings ''disallowed_policies_glob'' (tq_DisallowedPoliciesGlob r) @
     omitStrings ''token_bound_cidrs'' (tq_TokenBoundCIDRs r) @
     omitInt ''token_explicit_max_ttl'' (tq_TokenExplicitMaxTTL r) @
     omitInt ''token_period'' (tq_TokenPeriod r) @
     omitInt ''token_num_uses'' (tq_TokenNumUses r) @
     omitBool ''token_no_default_policy'' (tq_TokenNoDefaultPolicy r) @
     omitempty ''token_type'' (tq_TokenType r) @
     omitBool ''orphan'' (tq_Orphan r) @
     omitBool ''renewable'' (tq_Renewable r) @
     omitempty ''path_suffix'' (tq_PathSuffix r))"

definition tokenRolePath :: "string \<Rightarrow> string list" where
  "tokenRolePath name = [authPathSegment, ''token'', ''roles'', name]"

definition Client_GetTokenRole ::
  "'s Client \<Rightarrow> string \<Rightarrow> (TokenState \<times> 's, go_error + TokenRole option) state" where
  "Client_GetTokenRole c name = do {
     r \<leftarrow> doSegments c ''GET'' (tokenRolePath name) None (apiResponse zeroTokenRole decTokenRole) [];
     ret (map_sum id Some r)
   }"

definition Client_WriteTokenRole ::
  "'s Client \<Rightarrow> string \<Rightarrow> TokenRoleRequest \<Rightarrow> (TokenState \<times> 's, go_error option) state" where
  "Client_WriteTokenRole c name request = do {
     r \<leftarrow> doSegments c ''POST'' (tokenRolePath name) (Some (encTokenRoleRequest request)) nilTarget [];
     ret (errOnly r)
   }"

definition Client_DeleteTokenRole :: "'s Client \<Rightarrow> string \<Rightarrow> (TokenState \<times> 's, go_error option) state" where
  "Client_DeleteTokenRole c name = do {
     r \<leftarrow> doSegments c ''DELETE'' (tokenRolePath name) None nilTarget [];
     ret (errOnly r)
   }"

section \<open>approle\_roles.go\<close>

record AppRole =
  ap_BindSecretID :: "bool option"
  ap_LocalSecretIDs :: "bool option"
  ap_SecretIDBoundCIDRs :: "string slice"
  ap_SecretIDNumUses :: "int option"
  ap_SecretIDTTL :: "int option"
  ap_TokenBoundCIDRs :: "string slice"
  ap_TokenExplicitMaxTTL :: "int option"
  ap_TokenMaxTTL :: "int option"
  ap_TokenNoDefaultPolicy :: "bool option"
  ap_TokenNumUses :: "int option"
  ap_TokenPeriod :: "int option"
  ap_TokenPolicies :: "string slice"
  ap_Policies :: "string slice"
  ap_TokenTTL :: "int option"
  ap_TokenType :: string

record AppRoleRequest =
  aq_BindSecretID :: "bool option"
  aq_LocalSecretIDs :: "bool option"
  aq_SecretIDBoundCIDRs :: "string slice"
  aq_SecretIDNumUses :: "int option"
  aq_SecretIDTTL :: "int option"
  aq_TokenBoundCIDRs :: "string slice"
  aq_TokenExplicitMaxTTL :: "int option"
  aq_TokenMaxTTL :: "int option"
  aq_TokenNoDefaultPolicy :: "bool option"
  aq_TokenNumUses :: "int option"
  aq_TokenPeriod :: "int option"
  aq_TokenPolicies :: "string slice"
  aq_TokenTTL :: "int option"
  aq_TokenType :: string

definition zeroAppRole :: AppRole where
  "zeroAppRole =
     \<lparr>ap_BindSecretID = None, ap_LocalSecretIDs = None, ap_SecretIDBoundCIDRs = None,
     ap_SecretIDNumUses = None, ap_SecretIDTTL = None, ap_TokenBoundCIDRs = None,
     ap_TokenExplicitMaxTTL = None, ap_TokenMaxTTL = None, ap_TokenNoDefaultPolicy = None,
     ap_TokenNumUses = None, ap_TokenPeriod = None, ap_TokenPolicies = None, ap_Policies = None,
     ap_TokenTTL = None, ap_TokenType = ''''\<rparr>"

definition decAppRole :: "AppRole decoder" where
  "decAppRole = decStruct ''AppRole'' (\<lambda>fs x.
     andThen (field fs ''bind_secret_id'' (decPointer decBool False) (ap_BindSecretID x)) (\<lambda>x0.
     andThen (field fs ''local_secret_ids'' (decPointer decBool False) (ap_LocalSecretIDs x)) (\<lambda>x1.
     andThen (field fs ''secret_id_bound_cidrs'' decStrings (ap_SecretIDBoundCIDRs x)) (\<lambda>x2.
     andThen (field fs ''secret_id_num_uses'' (decPointer decInt64 0) (ap_SecretIDNumUses x)) (\<lambda>x3.
     andThen (field fs ''secret_id_ttl'' (decPointer decInt64 0) (ap_SecretIDTTL x)) (\<lambda>x4.
     andThen (field fs ''token_bound_cidrs'' decStrings (ap_TokenBoundCIDRs x)) (\<lambda>x5.
     andThen (field fs ''token_explicit_max_ttl'' (decPointer decInt64 0) (ap_TokenExplicitMaxTTL x)) (\<lambda>x6.
     andThen (field fs ''token_max_ttl'' (decPointer decInt64 0) (ap_TokenMaxTTL x)) (\<lambda>x7.
     andThen (field fs ''token_no_default_policy'' (decPointer decBool False) (ap_TokenNoDefaultPolicy x)) (\<lambda>x8.
     andThen (field fs ''token_num_uses'' (decPointer decInt64 0) (ap_TokenNumUses x)) (\<lambda>x9.
     andThen (field fs ''token_period'' (decPointer decInt64 0) (ap_TokenPeriod x)) (\<lambda>x10.
     andThen (field fs ''token_policies'' decStrings (ap_TokenPolicies x)) (\<lambda>x11.
     andThen (field fs ''policies'' decStrings (ap_Policies x)) (\<lambda>x12.
     andThen (field fs ''token_ttl'' (decPointer decInt64 0) (ap_TokenTTL x)) (\<lambda>x13.
     andThen (field fs ''token_type'' decString (ap_TokenType x)) (\<lambda>x14.
     Inr \<lparr>ap_BindSecretID = x0, ap_LocalSecretIDs = x1, ap_SecretIDBoundCIDRs = x2, ap_SecretIDNumUses = x3,
     ap_SecretIDTTL = x4, ap_TokenBoundCIDRs = x5, ap_TokenExplicitMaxTTL = x6, ap_TokenMaxTTL = x7,
     ap_TokenNoDefaultPolicy = x8, ap_TokenNumUses = x9, ap_TokenPeriod = x10, ap_TokenPolicies = x11,
     ap_Policies = x12, ap_TokenTTL = x13, ap_TokenType = x14\<rparr>))))))))))))))))"

definition encAppRoleRequest :: "AppRoleRequest \<Rightarrow> Json" where
  "encAppRoleRequest r = JObj (
     omitBool ''bind_secret_id'' (aq_BindSecretID r) @
     omitBool ''local_secret_ids'' (aq_LocalSecretIDs r) @
     omitStrings ''secret_id_bound_cidrs'' (aq_SecretIDBoundCIDRs r) @
     omitInt ''secret_id_num_uses'' (aq_SecretIDNumUses r) @
     omitInt ''secret_id_ttl'' (aq_SecretIDTTL r) @
     omitStrings ''token_bound_cidrs'' (aq_TokenBoundCIDRs r) @
     omitInt ''token_explicit_max_ttl'' (aq_TokenExplicitMaxTTL r) @
     omitInt ''token_max_ttl'' (aq_TokenMaxTTL r) @
     omitBool ''token_no_default_policy'' (aq_TokenNoDefaultPolicy r) @
     omitInt ''token_num_uses'' (aq_TokenNumUses r) @
     omitInt ''token_period'' (aq_TokenPeriod r) @
     omitStrings ''token_policies'' (aq_TokenPolicies r) @
     omitInt ''token_ttl'' (aq_TokenTTL r) @
     omitempty ''token_type'' (aq_TokenType r))"

definition EffectivePolicies_appRole :: "AppRole \<Rightarrow> string slice" where
  "EffectivePolicies_appRole r = (if elems (ap_TokenPolicies r) \<noteq> [] then ap_TokenPolicies r else ap_Policies r)"

definition appRolePath :: "string \<Rightarrow> string \<Rightarrow> string list" where
  "appRolePath mountPath name = authPathSegment # SplitByte (CHR ''/'') mountPath @ [''role'', name]"

definition Client_GetAppRole ::
  "'s Client \<Rightarrow> string \<Rightarrow> string \<Rightarrow> (TokenState \<times> 's, go_error + AppRole option) state" where
  "Client_GetAppRole c mountPath name = (case validateAuthMountPath mountPath ''AppRole auth'' of
      Some err \<Rightarrow> ret (Inl err)
    | None \<Rightarrow> do {
        r \<leftarrow> doSegments c ''GET'' (appRolePath mountPath name) None (apiResponse zeroAppRole decAppRole) [];
        ret (map_sum id Some r)
      })"

definition Client_WriteAppRole ::
  "'s Client \<Rightarrow> string \<Rightarrow> string \<Rightarrow> AppRoleRequest \<Rightarrow> (TokenState \<times> 's, go_error option) state" where
  "Client_WriteAppRole c mountPath name request = (case validateAuthMountPath mountPath ''AppRole auth'' of
      Some err \<Rightarrow> ret (Some err)
    | None \<Rightarrow> do {
        r \<leftarrow> doSegments c ''POST'' (appRolePath mountPath name) (Some (encAppRoleRequest request)) nilTarget [];
        ret (errOnly r)
      })"

definition Client_DeleteAppRole ::
  "'s Client \<Rightarrow> string \<Rightarrow> string \<Rightarrow> (TokenState \<times> 's, go_error option) state" where
  "Client_DeleteAppRole c mountPath name = (case validateAuthMountPath mountPath ''AppRole auth'' of
      Some err \<Rightarrow> ret (Some err)
    | None \<Rightarrow> do {
        r \<leftarrow> doSegments c ''DELETE'' (appRolePath mountPath name) None nilTarget [];
        ret (errOnly r)
      })"

end
