(* ===== verification/RoleKinds.thy ===== *)
theory RoleKinds
  imports NamedLifecycle RoleApi RoleClientTypes
begin

text \<open>
  The reconcilers of \<^verbatim>\<open>openbaopasswordpolicy_controller.go\<close>,
  \<^verbatim>\<open>openbaokubernetesauthrole_controller.go\<close>, \<^verbatim>\<open>openbaotokenrole_controller.go\<close> and
  \<^verbatim>\<open>openbaoapprole_controller.go\<close>: what each desires and how it compares it with what it reads,
  and its functions as the instances of \<open>NamedEngine\<close>.  Every kind is an interpretation of \<open>named_kind\<close>.
\<close>

section \<open>OpenBaoPasswordPolicy\<close>

record 's PasswordPolicyClient =
  GetPasswordPolicy :: "string \<Rightarrow> ('s, go_error + PasswordPolicy option) state"
  WritePasswordPolicy :: "string \<Rightarrow> string \<Rightarrow> ('s, go_error option) state"
  DeletePasswordPolicy :: "string \<Rightarrow> ('s, go_error option) state"

definition passwordPolicyRulesHash :: "string \<Rightarrow> string" where
  "passwordPolicyRulesHash rules = sha256_hex rules"

definition observe_passwordPolicy ::
  "OpenBaoPasswordPolicy \<Rightarrow> PasswordPolicy \<Rightarrow> OpenBaoPasswordPolicyStatus \<Rightarrow> OpenBaoPasswordPolicyStatus" where
  "observe_passwordPolicy policy observed st =
     st\<lparr>pwt_Name := om_Name policy, pwt_RulesHash := passwordPolicyRulesHash (pp_Rules observed)\<rparr>"

definition passwordPolicyAccess where
  "passwordPolicyAccess =
     \<lparr>sa_Status = pwo_Status,
      sa_setStatus = (\<lambda>st ob. ob\<lparr>pwo_Status := st\<rparr>),
      sa_Conditions = pwt_Conditions,
      sa_setConditions = (\<lambda>cs st. st\<lparr>pwt_Conditions := cs\<rparr>),
      sa_ObservedGeneration = pwt_ObservedGeneration,
      sa_setObservedGeneration = (\<lambda>g st. st\<lparr>pwt_ObservedGeneration := g\<rparr>)\<rparr>"

definition passwordPolicyCreationPolicy :: "OpenBaoPasswordPolicy \<Rightarrow> CreationPolicy" where
  "passwordPolicyCreationPolicy ob =
     (if pws_CreationPolicy (pwo_Spec ob) = '''' then CreationPolicyCreate else pws_CreationPolicy (pwo_Spec ob))"

definition passwordPolicyDeletionPolicy :: "OpenBaoPasswordPolicy \<Rightarrow> DeletionPolicy" where
  "passwordPolicyDeletionPolicy ob =
     (if pws_DeletionPolicy (pwo_Spec ob) = '''' then DeletionPolicyOrphan else pws_DeletionPolicy (pwo_Spec ob))"

definition passwordPolicyDriftInterval :: "OpenBaoPasswordPolicy \<Rightarrow> int" where
  "passwordPolicyDriftInterval ob = (case pws_DriftDetectionInterval (pwo_Spec ob) of
      None \<Rightarrow> defaultDriftCheck | Some d \<Rightarrow> d)"

definition passwordPolicyKind ::
  "('s, 's PasswordPolicyClient, OpenBaoPasswordPolicy, OpenBaoPasswordPolicyStatus, string, PasswordPolicy) namedKind" where
  "passwordPolicyKind =
     \<lparr>nk_Noun = ''password policy'', nk_NoneFor = ''password policy for '', nk_Reason = ''PasswordPolicy'',
      nk_ReadyMessage = ''OpenBao password policy is reconciled'', nk_BeforeFinalizer = False,
      nk_ConnectionRef = (\<lambda>ob. pws_ConnectionRef (pwo_Spec ob)),
      nk_CreationPolicy = passwordPolicyCreationPolicy, nk_DeletionPolicy = passwordPolicyDeletionPolicy,
      nk_DriftInterval = passwordPolicyDriftInterval,
      nk_Get = (\<lambda>ob k. GetPasswordPolicy k (om_Name ob)),
      nk_Write = (\<lambda>ob k. WritePasswordPolicy k (om_Name ob)),
      nk_Delete = (\<lambda>ob k. DeletePasswordPolicy k (om_Name ob)),
      nk_Desired = (\<lambda>ob. Inr (pws_Rules (pwo_Spec ob))), nk_Matches = (\<lambda>rules m. pp_Rules m = rules), nk_Status = passwordPolicyAccess,
      nk_StatusName = pwt_Name, nk_Observe = observe_passwordPolicy\<rparr>"

type_synonym 's OpenBaoPasswordPolicyReconciler = "('s, 's PasswordPolicyClient, OpenBaoPasswordPolicy) SystemReconciler"

definition clientFor_passwordPolicy ::
  "'s OpenBaoPasswordPolicyReconciler \<Rightarrow> OpenBaoConnection \<Rightarrow> ('s, go_error + 's PasswordPolicyClient) state" where
  "clientFor_passwordPolicy R connection = systemClientFor R connection"

definition acquire_passwordPolicy ::
  "KubeLib \<Rightarrow> 's PasswordPolicyClient \<Rightarrow> OpenBaoPasswordPolicy \<Rightarrow> ('s, go_error + PasswordPolicy option) state" where
  "acquire_passwordPolicy L apiClient ob = named_acquire L passwordPolicyKind apiClient ob"

definition reconcileDeletion_passwordPolicy :: "'s OpenBaoPasswordPolicyReconciler \<Rightarrow> OpenBaoPasswordPolicy \<Rightarrow> ('s, outcome) state" where
  "reconcileDeletion_passwordPolicy R ob = named_reconcileDeletion R passwordPolicyKind ob"

definition dependencyFailure_passwordPolicy ::
  "'s OpenBaoPasswordPolicyReconciler \<Rightarrow> OpenBaoPasswordPolicy \<Rightarrow> go_error \<Rightarrow> ('s, outcome) state" where
  "dependencyFailure_passwordPolicy R ob err = named_dependencyFailure R passwordPolicyKind ob err"

definition fail_passwordPolicy ::
  "'s OpenBaoPasswordPolicyReconciler \<Rightarrow> OpenBaoPasswordPolicy \<Rightarrow> string \<Rightarrow> go_error \<Rightarrow> ('s, outcome) state" where
  "fail_passwordPolicy R ob reason err = named_fail R passwordPolicyKind ob reason err"

definition Reconcile_passwordPolicy :: "'s OpenBaoPasswordPolicyReconciler \<Rightarrow> NamespacedName \<Rightarrow> ('s, outcome) state" where
  "Reconcile_passwordPolicy R req = named_reconcile R passwordPolicyKind req"

definition mapConnectionToPasswordPolicies ::
  "'s OpenBaoPasswordPolicyReconciler \<Rightarrow> 'b ObjectMeta_scheme \<Rightarrow> ('s, NamespacedName list) state" where
  "mapConnectionToPasswordPolicies R obj =
     mapConnection R (\<lambda>item. connref_Name (pws_ConnectionRef (pwo_Spec item))) obj"

interpretation passwordPolicyLaws: named_kind passwordPolicyAccess "passwordPolicyKind :: ('s, 's PasswordPolicyClient, _, _, _, _) namedKind"
  by unfold_locales
     (auto simp: passwordPolicyKind_def passwordPolicyAccess_def observe_passwordPolicy_def passwordPolicyCreationPolicy_def
        passwordPolicyDeletionPolicy_def stampGeneration_def ObjectMeta.truncate_def)

section \<open>OpenBaoKubernetesAuthRole\<close>

record 's KubernetesAuthRoleClient =
  GetKubernetesAuthRole :: "string \<Rightarrow> string \<Rightarrow> ('s, go_error + KubernetesAuthRole option) state"
  WriteKubernetesAuthRole :: "string \<Rightarrow> string \<Rightarrow> KubernetesAuthRoleRequest \<Rightarrow> ('s, go_error option) state"
  DeleteKubernetesAuthRole :: "string \<Rightarrow> string \<Rightarrow> ('s, go_error option) state"

definition defaultKubernetesAuthRoleMount :: string where
  "defaultKubernetesAuthRoleMount = ''kubernetes''"

definition kubernetesAuthRoleMountPath :: "OpenBaoKubernetesAuthRole \<Rightarrow> string" where
  "kubernetesAuthRoleMountPath role =
     (if kus_MountPath (kuo_Spec role) = '''' then defaultKubernetesAuthRoleMount else kus_MountPath (kuo_Spec role))"

definition normalizedRoleValuesForComparison :: "string slice \<Rightarrow> string slice" where
  "normalizedRoleValuesForComparison values = Some (Compact (sort (map TrimSpace (elems values))))"

definition normalizedRoleValues :: "string slice \<Rightarrow> string \<Rightarrow> go_error + string slice" where
  "normalizedRoleValues values fieldName =
     (let result = normalizedRoleValuesForComparison values
      in if '''' \<in> set (elems result) then Inl (Errorf (fieldName @ '' must not contain empty values''))
         else Inr result)"

definition desiredKubernetesAuthRoleRequest :: "OpenBaoKubernetesAuthRole \<Rightarrow> go_error + KubernetesAuthRoleRequest" where
  "desiredKubernetesAuthRoleRequest role = (let spec = kuo_Spec role in
     andThen (normalizedRoleValues (kus_BoundServiceAccountNames spec) ''boundServiceAccountNames'') (\<lambda>names.
     andThen (normalizedRoleValues (kus_BoundServiceAccountNamespaces spec) ''boundServiceAccountNamespaces'') (\<lambda>namespaces.
     andThen (normalizedRoleValues (kus_TokenPolicies spec) ''tokenPolicies'') (\<lambda>policies.
     andThen (durationSeconds (kus_TokenTTL spec) ''tokenTTL'') (\<lambda>tokenTTL.
     andThen (durationSeconds (kus_TokenMaxTTL spec) ''tokenMaxTTL'') (\<lambda>tokenMaxTTL.
     andThen (durationSeconds (kus_TokenPeriod spec) ''tokenPeriod'') (\<lambda>tokenPeriod.
     andThen (durationSeconds (kus_TokenExplicitMaxTTL spec) ''tokenExplicitMaxTTL'') (\<lambda>tokenExplicitMaxTTL.
     Inr \<lparr>kq_BoundServiceAccountNames = names, kq_BoundServiceAccountNamespaces = namespaces,
       kq_TokenPolicies = policies, kq_TokenTTL = tokenTTL, kq_TokenMaxTTL = tokenMaxTTL, kq_TokenPeriod = tokenPeriod,
       kq_Audience = TrimSpace (kus_Audience spec), kq_TokenType = TrimSpace (kus_TokenType spec),
       kq_TokenNumUses = kus_TokenNumUses spec, kq_TokenNoDefaultPolicy = kus_TokenNoDefaultPolicy spec,
       kq_TokenExplicitMaxTTL = map_option (\<lambda>_. tokenExplicitMaxTTL) (kus_TokenExplicitMaxTTL spec),
       kq_TokenBoundCIDRs = normalizedRoleValuesForComparison (kus_TokenBoundCIDRs spec)\<rparr>))))))))"

definition normalizedKubernetesAuthRoleRequest :: "KubernetesAuthRole \<Rightarrow> KubernetesAuthRoleRequest" where
  "normalizedKubernetesAuthRoleRequest role =
     \<lparr>kq_BoundServiceAccountNames = normalizedRoleValuesForComparison (kr_BoundServiceAccountNames role),
      kq_BoundServiceAccountNamespaces = normalizedRoleValuesForComparison (kr_BoundServiceAccountNamespaces role),
      kq_TokenPolicies = normalizedRoleValuesForComparison (EffectivePolicies_kubernetes role),
      kq_TokenTTL = kr_TokenTTL role, kq_TokenMaxTTL = kr_TokenMaxTTL role, kq_TokenPeriod = kr_TokenPeriod role,
      kq_Audience = kr_Audience role, kq_TokenType = kr_TokenType role,
      kq_TokenNumUses = Some (kr_TokenNumUses role), kq_TokenNoDefaultPolicy = Some (kr_TokenNoDefaultPolicy role),
      kq_TokenExplicitMaxTTL = Some (kr_TokenExplicitMaxTTL role),
      kq_TokenBoundCIDRs = normalizedRoleValuesForComparison (kr_TokenBoundCIDRs role)\<rparr>"

definition kubernetesAuthRoleMatches :: "KubernetesAuthRoleRequest \<Rightarrow> KubernetesAuthRole \<Rightarrow> bool" where
  "kubernetesAuthRoleMatches desired observed = (let normalized = normalizedKubernetesAuthRoleRequest observed in
     kq_BoundServiceAccountNames desired = kq_BoundServiceAccountNames normalized \<and>
     kq_BoundServiceAccountNamespaces desired = kq_BoundServiceAccountNamespaces normalized \<and>
     kq_TokenPolicies desired = kq_TokenPolicies normalized \<and>
     kq_TokenTTL desired = kq_TokenTTL normalized \<and> kq_TokenMaxTTL desired = kq_TokenMaxTTL normalized \<and>
     kq_TokenPeriod desired = kq_TokenPeriod normalized \<and>
     (kq_Audience desired \<noteq> '''' \<longrightarrow> kq_Audience desired = kq_Audience normalized) \<and>
     (kq_TokenType desired \<noteq> '''' \<longrightarrow> kq_TokenType desired = kq_TokenType normalized) \<and>
     (kq_TokenNumUses desired \<noteq> None \<longrightarrow> kq_TokenNumUses desired = kq_TokenNumUses normalized) \<and>
     (kq_TokenNoDefaultPolicy desired \<noteq> None \<longrightarrow> kq_TokenNoDefaultPolicy desired = kq_TokenNoDefaultPolicy normalized) \<and>
     (kq_TokenExplicitMaxTTL desired \<noteq> None \<longrightarrow> kq_TokenExplicitMaxTTL desired = kq_TokenExplicitMaxTTL normalized) \<and>
     (elems (kq_TokenBoundCIDRs desired) = [] \<or> kq_TokenBoundCIDRs desired = kq_TokenBoundCIDRs normalized))"

definition kubernetesAuthRoleConfigHash :: "KubernetesAuthRole \<Rightarrow> string" where
  "kubernetesAuthRoleConfigHash role =
     sha256_hex (jsonText (encKubernetesAuthRoleRequest (normalizedKubernetesAuthRoleRequest role)))"

definition observeKubernetesAuthRoleStatus ::
  "OpenBaoKubernetesAuthRole \<Rightarrow> KubernetesAuthRole \<Rightarrow> OpenBaoKubernetesAuthRoleStatus \<Rightarrow> OpenBaoKubernetesAuthRoleStatus" where
  "observeKubernetesAuthRoleStatus role observed st =
     st\<lparr>kut_MountPath := kubernetesAuthRoleMountPath role, kut_Name := om_Name role,
        kut_ConfigHash := kubernetesAuthRoleConfigHash observed, kut_ObservedGeneration := om_Generation role\<rparr>"

definition kubernetesAuthRoleAccess where
  "kubernetesAuthRoleAccess =
     \<lparr>sa_Status = kuo_Status,
      sa_setStatus = (\<lambda>st ob. ob\<lparr>kuo_Status := st\<rparr>),
      sa_Conditions = kut_Conditions,
      sa_setConditions = (\<lambda>cs st. st\<lparr>kut_Conditions := cs\<rparr>),
      sa_ObservedGeneration = kut_ObservedGeneration,
      sa_setObservedGeneration = (\<lambda>g st. st\<lparr>kut_ObservedGeneration := g\<rparr>)\<rparr>"

definition kubernetesAuthRoleCreationPolicy :: "OpenBaoKubernetesAuthRole \<Rightarrow> CreationPolicy" where
  "kubernetesAuthRoleCreationPolicy ob =
     (if kus_CreationPolicy (kuo_Spec ob) = '''' then CreationPolicyCreate else kus_CreationPolicy (kuo_Spec ob))"

definition kubernetesAuthRoleDeletionPolicy :: "OpenBaoKubernetesAuthRole \<Rightarrow> DeletionPolicy" where
  "kubernetesAuthRoleDeletionPolicy ob =
     (if kus_DeletionPolicy (kuo_Spec ob) = '''' then DeletionPolicyOrphan else kus_DeletionPolicy (kuo_Spec ob))"

definition kubernetesAuthRoleDriftInterval :: "OpenBaoKubernetesAuthRole \<Rightarrow> int" where
  "kubernetesAuthRoleDriftInterval ob = (case kus_DriftDetectionInterval (kuo_Spec ob) of
      None \<Rightarrow> defaultDriftCheck | Some d \<Rightarrow> d)"

definition kubernetesAuthRoleKind ::
  "('s, 's KubernetesAuthRoleClient, OpenBaoKubernetesAuthRole, OpenBaoKubernetesAuthRoleStatus, KubernetesAuthRoleRequest, KubernetesAuthRole) namedKind" where
  "kubernetesAuthRoleKind =
     \<lparr>nk_Noun = ''Kubernetes Auth role'', nk_NoneFor = ''Kubernetes Auth role for '', nk_Reason = ''KubernetesAuthRole'',
      nk_ReadyMessage = ''OpenBao Kubernetes Auth role is reconciled'', nk_BeforeFinalizer = False,
      nk_ConnectionRef = (\<lambda>ob. kus_ConnectionRef (kuo_Spec ob)),
      nk_CreationPolicy = kubernetesAuthRoleCreationPolicy, nk_DeletionPolicy = kubernetesAuthRoleDeletionPolicy,
      nk_DriftInterval = kubernetesAuthRoleDriftInterval,
      nk_Get = (\<lambda>ob k. GetKubernetesAuthRole k (kubernetesAuthRoleMountPath ob) (om_Name ob)),
      nk_Write = (\<lambda>ob k. WriteKubernetesAuthRole k (kubernetesAuthRoleMountPath ob) (om_Name ob)),
      nk_Delete = (\<lambda>ob k. DeleteKubernetesAuthRole k (kubernetesAuthRoleMountPath ob) (om_Name ob)),
      nk_Desired = desiredKubernetesAuthRoleRequest, nk_Matches = kubernetesAuthRoleMatches, nk_Status = kubernetesAuthRoleAccess,
      nk_StatusName = kut_Name, nk_Observe = observeKubernetesAuthRoleStatus\<rparr>"

type_synonym 's OpenBaoKubernetesAuthRoleReconciler = "('s, 's KubernetesAuthRoleClient, OpenBaoKubernetesAuthRole) SystemReconciler"

definition clientFor_kubernetesAuthRole ::
  "'s OpenBaoKubernetesAuthRoleReconciler \<Rightarrow> OpenBaoConnection \<Rightarrow> ('s, go_error + 's KubernetesAuthRoleClient) state" where
  "clientFor_kubernetesAuthRole R connection = systemClientFor R connection"

definition acquire_kubernetesAuthRole ::
  "KubeLib \<Rightarrow> 's KubernetesAuthRoleClient \<Rightarrow> OpenBaoKubernetesAuthRole \<Rightarrow> ('s, go_error + KubernetesAuthRole option) state" where
  "acquire_kubernetesAuthRole L apiClient ob = named_acquire L kubernetesAuthRoleKind apiClient ob"

definition reconcileDeletion_kubernetesAuthRole :: "'s OpenBaoKubernetesAuthRoleReconciler \<Rightarrow> OpenBaoKubernetesAuthRole \<Rightarrow> ('s, outcome) state" where
  "reconcileDeletion_kubernetesAuthRole R ob = named_reconcileDeletion R kubernetesAuthRoleKind ob"

definition dependencyFailure_kubernetesAuthRole ::
  "'s OpenBaoKubernetesAuthRoleReconciler \<Rightarrow> OpenBaoKubernetesAuthRole \<Rightarrow> go_error \<Rightarrow> ('s, outcome) state" where
  "dependencyFailure_kubernetesAuthRole R ob err = named_dependencyFailure R kubernetesAuthRoleKind ob err"

definition fail_kubernetesAuthRole ::
  "'s OpenBaoKubernetesAuthRoleReconciler \<Rightarrow> OpenBaoKubernetesAuthRole \<Rightarrow> string \<Rightarrow> go_error \<Rightarrow> ('s, outcome) state" where
  "fail_kubernetesAuthRole R ob reason err = named_fail R kubernetesAuthRoleKind ob reason err"

definition Reconcile_kubernetesAuthRole :: "'s OpenBaoKubernetesAuthRoleReconciler \<Rightarrow> NamespacedName \<Rightarrow> ('s, outcome) state" where
  "Reconcile_kubernetesAuthRole R req = named_reconcile R kubernetesAuthRoleKind req"

definition mapConnectionToKubernetesAuthRoles ::
  "'s OpenBaoKubernetesAuthRoleReconciler \<Rightarrow> 'b ObjectMeta_scheme \<Rightarrow> ('s, NamespacedName list) state" where
  "mapConnectionToKubernetesAuthRoles R obj =
     mapConnection R (\<lambda>item. connref_Name (kus_ConnectionRef (kuo_Spec item))) obj"

interpretation kubernetesAuthRoleLaws: named_kind kubernetesAuthRoleAccess "kubernetesAuthRoleKind :: ('s, 's KubernetesAuthRoleClient, _, _, _, _) namedKind"
  by unfold_locales
     (auto simp: kubernetesAuthRoleKind_def kubernetesAuthRoleAccess_def observeKubernetesAuthRoleStatus_def kubernetesAuthRoleCreationPolicy_def
        kubernetesAuthRoleDeletionPolicy_def stampGeneration_def desiredKubernetesAuthRoleRequest_def kubernetesAuthRoleMountPath_def ObjectMeta.truncate_def)

section \<open>OpenBaoTokenRole\<close>

record 's TokenRoleClient =
  GetTokenRole :: "string \<Rightarrow> ('s, go_error + TokenRole option) state"
  WriteTokenRole :: "string \<Rightarrow> TokenRoleRequest \<Rightarrow> ('s, go_error option) state"
  DeleteTokenRole :: "string \<Rightarrow> ('s, go_error option) state"

definition optionalDurationSeconds :: "int option \<Rightarrow> string \<Rightarrow> go_error + int option" where
  "optionalDurationSeconds duration fieldName = (case duration of
      None \<Rightarrow> Inr None
    | Some d \<Rightarrow> map_sum id Some (durationSeconds duration fieldName))"

definition optionalIntMatches :: "int option \<Rightarrow> int option \<Rightarrow> bool" where
  "optionalIntMatches desired observed \<longleftrightarrow> desired = None \<or> (observed \<noteq> None \<and> desired = observed)"

definition optionalBoolMatches :: "bool option \<Rightarrow> bool option \<Rightarrow> bool" where
  "optionalBoolMatches desired observed \<longleftrightarrow> desired = None \<or> (observed \<noteq> None \<and> desired = observed)"

definition normalizedTokenRoleValuesForComparison :: "string slice \<Rightarrow> string slice" where
  "normalizedTokenRoleValuesForComparison values = append_nil (Compact (sort (map TrimSpace (elems values))))"

definition normalizedTokenRoleValues :: "string slice \<Rightarrow> string \<Rightarrow> go_error + string slice" where
  "normalizedTokenRoleValues values fieldName =
     (let result = normalizedTokenRoleValuesForComparison values
      in if '''' \<in> set (elems result) then Inl (Errorf (fieldName @ '' must not contain empty values''))
         else Inr result)"

definition desiredTokenRoleRequest :: "OpenBaoTokenRole \<Rightarrow> go_error + TokenRoleRequest" where
  "desiredTokenRoleRequest role = (let spec = tro_Spec role in
     andThen (normalizedTokenRoleValues (trs_AllowedEntityAliases spec) ''allowedEntityAliases'') (\<lambda>aliases.
     andThen (normalizedTokenRoleValues (trs_AllowedPolicies spec) ''allowedPolicies'') (\<lambda>allowed.
     andThen (normalizedTokenRoleValues (trs_AllowedPoliciesGlob spec) ''allowedPoliciesGlob'') (\<lambda>allowedGlob.
     andThen (normalizedTokenRoleValues (trs_DisallowedPolicies spec) ''disallowedPolicies'') (\<lambda>disallowed.
     andThen (normalizedTokenRoleValues (trs_DisallowedPoliciesGlob spec) ''disallowedPoliciesGlob'') (\<lambda>disallowedGlob.
     andThen (normalizedTokenRoleValues (trs_TokenBoundCIDRs spec) ''tokenBoundCIDRs'') (\<lambda>cidrs.
     andThen (optionalDurationSeconds (trs_TokenExplicitMaxTTL spec) ''tokenExplicitMaxTTL'') (\<lambda>maxTTL.
     andThen (optionalDurationSeconds (trs_TokenPeriod spec) ''tokenPeriod'') (\<lambda>period.
     Inr \<lparr>tq_AllowedEntityAliases = aliases, tq_AllowedPolicies = allowed, tq_AllowedPoliciesGlob = allowedGlob,
       tq_DisallowedPolicies = disallowed, tq_DisallowedPoliciesGlob = disallowedGlob, tq_TokenBoundCIDRs = cidrs,
       tq_TokenExplicitMaxTTL = maxTTL, tq_TokenPeriod = period, tq_TokenNumUses = trs_TokenNumUses spec,
       tq_TokenNoDefaultPolicy = trs_TokenNoDefaultPolicy spec, tq_TokenType = TrimSpace (trs_TokenType spec),
       tq_Orphan = trs_Orphan spec, tq_Renewable = trs_Renewable spec,
       tq_PathSuffix = TrimSpace (trs_PathSuffix spec)\<rparr>)))))))))"

definition normalizedTokenRole :: "TokenRole \<Rightarrow> TokenRoleRequest" where
  "normalizedTokenRole role =
     \<lparr>tq_AllowedEntityAliases = normalizedTokenRoleValuesForComparison (tk_AllowedEntityAliases role),
      tq_AllowedPolicies = normalizedTokenRoleValuesForComparison (tk_AllowedPolicies role),
      tq_AllowedPoliciesGlob = normalizedTokenRoleValuesForComparison (tk_AllowedPoliciesGlob role),
      tq_DisallowedPolicies = normalizedTokenRoleValuesForComparison (tk_DisallowedPolicies role),
      tq_DisallowedPoliciesGlob = normalizedTokenRoleValuesForComparison (tk_DisallowedPoliciesGlob role),
      tq_TokenBoundCIDRs = normalizedTokenRoleValuesForComparison (tk_TokenBoundCIDRs role),
      tq_TokenExplicitMaxTTL = tk_TokenExplicitMaxTTL role, tq_TokenPeriod = tk_TokenPeriod role,
      tq_TokenNumUses = tk_TokenNumUses role, tq_TokenNoDefaultPolicy = tk_TokenNoDefaultPolicy role,
      tq_TokenType = tk_TokenType role, tq_Orphan = tk_Orphan role, tq_Renewable = tk_Renewable role,
      tq_PathSuffix = tk_PathSuffix role\<rparr>"

definition tokenRoleMatches :: "TokenRoleRequest \<Rightarrow> TokenRole \<Rightarrow> bool" where
  "tokenRoleMatches desired observed = (let normalized = normalizedTokenRole observed in
     tq_AllowedEntityAliases desired = tq_AllowedEntityAliases normalized \<and>
     tq_AllowedPolicies desired = tq_AllowedPolicies normalized \<and>
     tq_AllowedPoliciesGlob desired = tq_AllowedPoliciesGlob normalized \<and>
     tq_DisallowedPolicies desired = tq_DisallowedPolicies normalized \<and>
     tq_DisallowedPoliciesGlob desired = tq_DisallowedPoliciesGlob normalized \<and>
     tq_TokenBoundCIDRs desired = tq_TokenBoundCIDRs normalized \<and>
     optionalIntMatches (tq_TokenExplicitMaxTTL desired) (tq_TokenExplicitMaxTTL normalized) \<and>
     optionalIntMatches (tq_TokenPeriod desired) (tq_TokenPeriod normalized) \<and>
     optionalIntMatches (tq_TokenNumUses desired) (tq_TokenNumUses normalized) \<and>
     optionalBoolMatches (tq_TokenNoDefaultPolicy desired) (tq_TokenNoDefaultPolicy normalized) \<and>
     optionalBoolMatches (tq_Orphan desired) (tq_Orphan normalized) \<and>
     optionalBoolMatches (tq_Renewable desired) (tq_Renewable normalized) \<and>
     (tq_TokenType desired = '''' \<or> tq_TokenType desired = tq_TokenType normalized) \<and>
     (tq_PathSuffix desired = '''' \<or> tq_PathSuffix desired = tq_PathSuffix normalized))"

definition tokenRoleConfigHash :: "TokenRole \<Rightarrow> string" where
  "tokenRoleConfigHash role = sha256_hex (jsonText (encTokenRoleRequest (normalizedTokenRole role)))"

definition observe_tokenRole ::
  "OpenBaoTokenRole \<Rightarrow> TokenRole \<Rightarrow> OpenBaoTokenRoleStatus \<Rightarrow> OpenBaoTokenRoleStatus" where
  "observe_tokenRole role observed st =
     st\<lparr>trt_Name := om_Name role, trt_ConfigHash := tokenRoleConfigHash observed\<rparr>"

definition tokenRoleAccess where
  "tokenRoleAccess =
     \<lparr>sa_Status = tro_Status,
      sa_setStatus = (\<lambda>st ob. ob\<lparr>tro_Status := st\<rparr>),
      sa_Conditions = trt_Conditions,
      sa_setConditions = (\<lambda>cs st. st\<lparr>trt_Conditions := cs\<rparr>),
      sa_ObservedGeneration = trt_ObservedGeneration,
      sa_setObservedGeneration = (\<lambda>g st. st\<lparr>trt_ObservedGeneration := g\<rparr>)\<rparr>"

definition tokenRoleCreationPolicy :: "OpenBaoTokenRole \<Rightarrow> CreationPolicy" where
  "tokenRoleCreationPolicy ob =
     (if trs_CreationPolicy (tro_Spec ob) = '''' then CreationPolicyCreate else trs_CreationPolicy (tro_Spec ob))"

definition tokenRoleDeletionPolicy :: "OpenBaoTokenRole \<Rightarrow> DeletionPolicy" where
  "tokenRoleDeletionPolicy ob =
     (if trs_DeletionPolicy (tro_Spec ob) = '''' then DeletionPolicyOrphan else trs_DeletionPolicy (tro_Spec ob))"

definition tokenRoleDriftInterval :: "OpenBaoTokenRole \<Rightarrow> int" where
  "tokenRoleDriftInterval ob = (case trs_DriftDetectionInterval (tro_Spec ob) of
      None \<Rightarrow> defaultDriftCheck | Some d \<Rightarrow> d)"

definition tokenRoleKind ::
  "('s, 's TokenRoleClient, OpenBaoTokenRole, OpenBaoTokenRoleStatus, TokenRoleRequest, TokenRole) namedKind" where
  "tokenRoleKind =
     \<lparr>nk_Noun = ''token role'', nk_NoneFor = ''token role for '', nk_Reason = ''TokenRole'',
      nk_ReadyMessage = ''OpenBao token role is reconciled'', nk_BeforeFinalizer = True,
      nk_ConnectionRef = (\<lambda>ob. trs_ConnectionRef (tro_Spec ob)),
      nk_CreationPolicy = tokenRoleCreationPolicy, nk_DeletionPolicy = tokenRoleDeletionPolicy,
      nk_DriftInterval = tokenRoleDriftInterval,
      nk_Get = (\<lambda>ob k. GetTokenRole k (om_Name ob)),
      nk_Write = (\<lambda>ob k. WriteTokenRole k (om_Name ob)),
      nk_Delete = (\<lambda>ob k. DeleteTokenRole k (om_Name ob)),
      nk_Desired = desiredTokenRoleRequest, nk_Matches = tokenRoleMatches, nk_Status = tokenRoleAccess,
      nk_StatusName = trt_Name, nk_Observe = observe_tokenRole\<rparr>"

type_synonym 's OpenBaoTokenRoleReconciler = "('s, 's TokenRoleClient, OpenBaoTokenRole) SystemReconciler"

definition clientFor_tokenRole ::
  "'s OpenBaoTokenRoleReconciler \<Rightarrow> OpenBaoConnection \<Rightarrow> ('s, go_error + 's TokenRoleClient) state" where
  "clientFor_tokenRole R connection = systemClientFor R connection"

definition acquire_tokenRole ::
  "KubeLib \<Rightarrow> 's TokenRoleClient \<Rightarrow> OpenBaoTokenRole \<Rightarrow> ('s, go_error + TokenRole option) state" where
  "acquire_tokenRole L apiClient ob = named_acquire L tokenRoleKind apiClient ob"

definition reconcileDeletion_tokenRole :: "'s OpenBaoTokenRoleReconciler \<Rightarrow> OpenBaoTokenRole \<Rightarrow> ('s, outcome) state" where
  "reconcileDeletion_tokenRole R ob = named_reconcileDeletion R tokenRoleKind ob"

definition dependencyFailure_tokenRole ::
  "'s OpenBaoTokenRoleReconciler \<Rightarrow> OpenBaoTokenRole \<Rightarrow> go_error \<Rightarrow> ('s, outcome) state" where
  "dependencyFailure_tokenRole R ob err = named_dependencyFailure R tokenRoleKind ob err"

definition fail_tokenRole ::
  "'s OpenBaoTokenRoleReconciler \<Rightarrow> OpenBaoTokenRole \<Rightarrow> string \<Rightarrow> go_error \<Rightarrow> ('s, outcome) state" where
  "fail_tokenRole R ob reason err = named_fail R tokenRoleKind ob reason err"

definition Reconcile_tokenRole :: "'s OpenBaoTokenRoleReconciler \<Rightarrow> NamespacedName \<Rightarrow> ('s, outcome) state" where
  "Reconcile_tokenRole R req = named_reconcile R tokenRoleKind req"

definition mapConnectionToTokenRoles ::
  "'s OpenBaoTokenRoleReconciler \<Rightarrow> 'b ObjectMeta_scheme \<Rightarrow> ('s, NamespacedName list) state" where
  "mapConnectionToTokenRoles R obj =
     mapConnection R (\<lambda>item. connref_Name (trs_ConnectionRef (tro_Spec item))) obj"

interpretation tokenRoleLaws: named_kind tokenRoleAccess "tokenRoleKind :: ('s, 's TokenRoleClient, _, _, _, _) namedKind"
  by unfold_locales
     (auto simp: tokenRoleKind_def tokenRoleAccess_def observe_tokenRole_def tokenRoleCreationPolicy_def
        tokenRoleDeletionPolicy_def stampGeneration_def desiredTokenRoleRequest_def ObjectMeta.truncate_def)

section \<open>OpenBaoAppRole\<close>

record 's AppRoleClient =
  GetAppRole :: "string \<Rightarrow> string \<Rightarrow> ('s, go_error + AppRole option) state"
  WriteAppRole :: "string \<Rightarrow> string \<Rightarrow> AppRoleRequest \<Rightarrow> ('s, go_error option) state"
  DeleteAppRole :: "string \<Rightarrow> string \<Rightarrow> ('s, go_error option) state"

definition defaultAppRoleResourceMount :: string where
  "defaultAppRoleResourceMount = ''approle''"

definition appRoleMountPath :: "OpenBaoAppRole \<Rightarrow> string" where
  "appRoleMountPath role =
     (if ars_MountPath (aro_Spec role) = '''' then defaultAppRoleResourceMount else ars_MountPath (aro_Spec role))"

definition normalizedAppRoleValuesForComparison :: "string slice \<Rightarrow> string slice" where
  "normalizedAppRoleValuesForComparison values = append_nil (Compact (sort (map TrimSpace (elems values))))"

definition normalizedAppRoleValues :: "string slice \<Rightarrow> string \<Rightarrow> go_error + string slice" where
  "normalizedAppRoleValues values fieldName =
     (let result = normalizedAppRoleValuesForComparison values
      in if '''' \<in> set (elems result) then Inl (Errorf (fieldName @ '' must not contain empty values''))
         else Inr result)"

definition optionalStringSliceMatches :: "string slice \<Rightarrow> string slice \<Rightarrow> bool" where
  "optionalStringSliceMatches desired observed \<longleftrightarrow> elems desired = [] \<or> desired = observed"

definition desiredAppRoleRequest :: "OpenBaoAppRole \<Rightarrow> go_error + AppRoleRequest" where
  "desiredAppRoleRequest role = (let spec = aro_Spec role in
     andThen (normalizedAppRoleValues (ars_SecretIDBoundCIDRs spec) ''secretIDBoundCIDRs'') (\<lambda>secretCIDRs.
     andThen (normalizedAppRoleValues (ars_TokenBoundCIDRs spec) ''tokenBoundCIDRs'') (\<lambda>tokenCIDRs.
     andThen (normalizedAppRoleValues (ars_TokenPolicies spec) ''tokenPolicies'') (\<lambda>policies.
     andThen (optionalDurationSeconds (ars_SecretIDTTL spec) ''secretIDTTL'') (\<lambda>secretTTL.
     andThen (optionalDurationSeconds (ars_TokenExplicitMaxTTL spec) ''tokenExplicitMaxTTL'') (\<lambda>explicitMax.
     andThen (optionalDurationSeconds (ars_TokenMaxTTL spec) ''tokenMaxTTL'') (\<lambda>maxTTL.
     andThen (optionalDurationSeconds (ars_TokenPeriod spec) ''tokenPeriod'') (\<lambda>period.
     andThen (optionalDurationSeconds (ars_TokenTTL spec) ''tokenTTL'') (\<lambda>ttl.
     Inr \<lparr>aq_BindSecretID = ars_BindSecretID spec, aq_LocalSecretIDs = ars_LocalSecretIDs spec,
       aq_SecretIDBoundCIDRs = secretCIDRs, aq_SecretIDNumUses = ars_SecretIDNumUses spec, aq_SecretIDTTL = secretTTL,
       aq_TokenBoundCIDRs = tokenCIDRs, aq_TokenExplicitMaxTTL = explicitMax, aq_TokenMaxTTL = maxTTL,
       aq_TokenNoDefaultPolicy = ars_TokenNoDefaultPolicy spec, aq_TokenNumUses = ars_TokenNumUses spec,
       aq_TokenPeriod = period, aq_TokenPolicies = policies, aq_TokenTTL = ttl,
       aq_TokenType = TrimSpace (ars_TokenType spec)\<rparr>)))))))))"

definition normalizedAppRole :: "AppRole \<Rightarrow> AppRoleRequest" where
  "normalizedAppRole role =
     \<lparr>aq_BindSecretID = ap_BindSecretID role, aq_LocalSecretIDs = ap_LocalSecretIDs role,
      aq_SecretIDBoundCIDRs = normalizedAppRoleValuesForComparison (ap_SecretIDBoundCIDRs role),
      aq_SecretIDNumUses = ap_SecretIDNumUses role, aq_SecretIDTTL = ap_SecretIDTTL role,
      aq_TokenBoundCIDRs = normalizedAppRoleValuesForComparison (ap_TokenBoundCIDRs role),
      aq_TokenExplicitMaxTTL = ap_TokenExplicitMaxTTL role, aq_TokenMaxTTL = ap_TokenMaxTTL role,
      aq_TokenNoDefaultPolicy = ap_TokenNoDefaultPolicy role, aq_TokenNumUses = ap_TokenNumUses role,
      aq_TokenPeriod = ap_TokenPeriod role,
      aq_TokenPolicies = normalizedAppRoleValuesForComparison (EffectivePolicies_appRole role),
      aq_TokenTTL = ap_TokenTTL role, aq_TokenType = ap_TokenType role\<rparr>"

definition appRoleMatches :: "AppRoleRequest \<Rightarrow> AppRole \<Rightarrow> bool" where
  "appRoleMatches desired observed = (let normalized = normalizedAppRole observed in
     optionalBoolMatches (aq_BindSecretID desired) (aq_BindSecretID normalized) \<and>
     optionalBoolMatches (aq_LocalSecretIDs desired) (aq_LocalSecretIDs normalized) \<and>
     optionalStringSliceMatches (aq_SecretIDBoundCIDRs desired) (aq_SecretIDBoundCIDRs normalized) \<and>
     optionalStringSliceMatches (aq_TokenBoundCIDRs desired) (aq_TokenBoundCIDRs normalized) \<and>
     optionalIntMatches (aq_SecretIDNumUses desired) (aq_SecretIDNumUses normalized) \<and>
     optionalIntMatches (aq_SecretIDTTL desired) (aq_SecretIDTTL normalized) \<and>
     optionalIntMatches (aq_TokenExplicitMaxTTL desired) (aq_TokenExplicitMaxTTL normalized) \<and>
     optionalIntMatches (aq_TokenMaxTTL desired) (aq_TokenMaxTTL normalized) \<and>
     optionalBoolMatches (aq_TokenNoDefaultPolicy desired) (aq_TokenNoDefaultPolicy normalized) \<and>
     optionalIntMatches (aq_TokenNumUses desired) (aq_TokenNumUses normalized) \<and>
     optionalIntMatches (aq_TokenPeriod desired) (aq_TokenPeriod normalized) \<and>
     optionalStringSliceMatches (aq_TokenPolicies desired) (aq_TokenPolicies normalized) \<and>
     optionalIntMatches (aq_TokenTTL desired) (aq_TokenTTL normalized) \<and>
     (aq_TokenType desired = '''' \<or> aq_TokenType desired = aq_TokenType normalized))"

definition appRoleConfigHash :: "AppRole \<Rightarrow> string" where
  "appRoleConfigHash role = sha256_hex (jsonText (encAppRoleRequest (normalizedAppRole role)))"

definition observe_appRole ::
  "OpenBaoAppRole \<Rightarrow> AppRole \<Rightarrow> OpenBaoAppRoleStatus \<Rightarrow> OpenBaoAppRoleStatus" where
  "observe_appRole role observed st =
     st\<lparr>art_MountPath := appRoleMountPath role, art_Name := om_Name role,
        art_ConfigHash := appRoleConfigHash observed\<rparr>"

definition appRoleAccess where
  "appRoleAccess =
     \<lparr>sa_Status = aro_Status,
      sa_setStatus = (\<lambda>st ob. ob\<lparr>aro_Status := st\<rparr>),
      sa_Conditions = art_Conditions,
      sa_setConditions = (\<lambda>cs st. st\<lparr>art_Conditions := cs\<rparr>),
      sa_ObservedGeneration = art_ObservedGeneration,
      sa_setObservedGeneration = (\<lambda>g st. st\<lparr>art_ObservedGeneration := g\<rparr>)\<rparr>"

definition appRoleCreationPolicy :: "OpenBaoAppRole \<Rightarrow> CreationPolicy" where
  "appRoleCreationPolicy ob =
     (if ars_CreationPolicy (aro_Spec ob) = '''' then CreationPolicyCreate else ars_CreationPolicy (aro_Spec ob))"

definition appRoleDeletionPolicy :: "OpenBaoAppRole \<Rightarrow> DeletionPolicy" where
  "appRoleDeletionPolicy ob =
     (if ars_DeletionPolicy (aro_Spec ob) = '''' then DeletionPolicyOrphan else ars_DeletionPolicy (aro_Spec ob))"

definition appRoleDriftInterval :: "OpenBaoAppRole \<Rightarrow> int" where
  "appRoleDriftInterval ob = (case ars_DriftDetectionInterval (aro_Spec ob) of
      None \<Rightarrow> defaultDriftCheck | Some d \<Rightarrow> d)"

definition appRoleKind ::
  "('s, 's AppRoleClient, OpenBaoAppRole, OpenBaoAppRoleStatus, AppRoleRequest, AppRole) namedKind" where
  "appRoleKind =
     \<lparr>nk_Noun = ''AppRole'', nk_NoneFor = ''AppRole '', nk_Reason = ''AppRole'',
      nk_ReadyMessage = ''OpenBao AppRole is reconciled'', nk_BeforeFinalizer = True,
      nk_ConnectionRef = (\<lambda>ob. ars_ConnectionRef (aro_Spec ob)),
      nk_CreationPolicy = appRoleCreationPolicy, nk_DeletionPolicy = appRoleDeletionPolicy,
      nk_DriftInterval = appRoleDriftInterval,
      nk_Get = (\<lambda>ob k. GetAppRole k (appRoleMountPath ob) (om_Name ob)),
      nk_Write = (\<lambda>ob k. WriteAppRole k (appRoleMountPath ob) (om_Name ob)),
      nk_Delete = (\<lambda>ob k. DeleteAppRole k (appRoleMountPath ob) (om_Name ob)),
      nk_Desired = desiredAppRoleRequest, nk_Matches = appRoleMatches, nk_Status = appRoleAccess,
      nk_StatusName = art_Name, nk_Observe = observe_appRole\<rparr>"

type_synonym 's OpenBaoAppRoleReconciler = "('s, 's AppRoleClient, OpenBaoAppRole) SystemReconciler"

definition clientFor_appRole ::
  "'s OpenBaoAppRoleReconciler \<Rightarrow> OpenBaoConnection \<Rightarrow> ('s, go_error + 's AppRoleClient) state" where
  "clientFor_appRole R connection = systemClientFor R connection"

definition acquire_appRole ::
  "KubeLib \<Rightarrow> 's AppRoleClient \<Rightarrow> OpenBaoAppRole \<Rightarrow> ('s, go_error + AppRole option) state" where
  "acquire_appRole L apiClient ob = named_acquire L appRoleKind apiClient ob"

definition reconcileDeletion_appRole :: "'s OpenBaoAppRoleReconciler \<Rightarrow> OpenBaoAppRole \<Rightarrow> ('s, outcome) state" where
  "reconcileDeletion_appRole R ob = named_reconcileDeletion R appRoleKind ob"

definition dependencyFailure_appRole ::
  "'s OpenBaoAppRoleReconciler \<Rightarrow> OpenBaoAppRole \<Rightarrow> go_error \<Rightarrow> ('s, outcome) state" where
  "dependencyFailure_appRole R ob err = named_dependencyFailure R appRoleKind ob err"

definition fail_appRole ::
  "'s OpenBaoAppRoleReconciler \<Rightarrow> OpenBaoAppRole \<Rightarrow> string \<Rightarrow> go_error \<Rightarrow> ('s, outcome) state" where
  "fail_appRole R ob reason err = named_fail R appRoleKind ob reason err"

definition Reconcile_appRole :: "'s OpenBaoAppRoleReconciler \<Rightarrow> NamespacedName \<Rightarrow> ('s, outcome) state" where
  "Reconcile_appRole R req = named_reconcile R appRoleKind req"

definition mapConnectionToAppRoles ::
  "'s OpenBaoAppRoleReconciler \<Rightarrow> 'b ObjectMeta_scheme \<Rightarrow> ('s, NamespacedName list) state" where
  "mapConnectionToAppRoles R obj =
     mapConnection R (\<lambda>item. connref_Name (ars_ConnectionRef (aro_Spec item))) obj"

interpretation appRoleLaws: named_kind appRoleAccess "appRoleKind :: ('s, 's AppRoleClient, _, _, _, _) namedKind"
  by unfold_locales
     (auto simp: appRoleKind_def appRoleAccess_def observe_appRole_def appRoleCreationPolicy_def
        appRoleDeletionPolicy_def stampGeneration_def desiredAppRoleRequest_def ObjectMeta.truncate_def)

section \<open>The HTTP client as the clients of these controllers\<close>

definition passwordPolicyClient :: "'s Client \<Rightarrow> (TokenState \<times> 's) PasswordPolicyClient" where
  "passwordPolicyClient c = \<lparr>GetPasswordPolicy = Client_GetPasswordPolicy c,
     WritePasswordPolicy = Client_WritePasswordPolicy c, DeletePasswordPolicy = Client_DeletePasswordPolicy c\<rparr>"

definition kubernetesAuthRoleClient :: "'s Client \<Rightarrow> (TokenState \<times> 's) KubernetesAuthRoleClient" where
  "kubernetesAuthRoleClient c = \<lparr>GetKubernetesAuthRole = Client_GetKubernetesAuthRole c,
     WriteKubernetesAuthRole = Client_WriteKubernetesAuthRole c,
     DeleteKubernetesAuthRole = Client_DeleteKubernetesAuthRole c\<rparr>"

definition tokenRoleClient :: "'s Client \<Rightarrow> (TokenState \<times> 's) TokenRoleClient" where
  "tokenRoleClient c = \<lparr>GetTokenRole = Client_GetTokenRole c, WriteTokenRole = Client_WriteTokenRole c,
     DeleteTokenRole = Client_DeleteTokenRole c\<rparr>"

definition appRoleConfigClient :: "'s Client \<Rightarrow> (TokenState \<times> 's) AppRoleClient" where
  "appRoleConfigClient c = \<lparr>GetAppRole = Client_GetAppRole c, WriteAppRole = Client_WriteAppRole c,
     DeleteAppRole = Client_DeleteAppRole c\<rparr>"

end
