(* ===== verification/RoleProperties.thy ===== *)
theory RoleProperties
  imports RoleKinds Normalize
begin

text \<open>
  The properties of password policies, Kubernetes auth roles, token roles and AppRoles: every
  run is justified and bounded, the comparison of each role agrees with a reference definition on
  sets and durations, and what a server echoes is seen to match.
\<close>

section \<open>Every run\<close>

definition justifiedRuns ::
  "('s, 'k, 'a ObjectMeta_scheme) SystemReconciler \<Rightarrow> ('s, 'k, 'a ObjectMeta_scheme, 'st, 'd, 'm) namedKind \<Rightarrow> bool" where
  "justifiedRuns R K \<longleftrightarrow> (\<forall>req s. guarded (named_justified (sr_Lib R) K) (named_trace R K req s))"


section \<open>The comparison and the sets of the specification\<close>

text \<open>Both normalizers keep the set of the trimmed values and nothing else.\<close>

definition trimmedValues :: "string list \<Rightarrow> string set" where
  "trimmedValues xs = TrimSpace ` set xs"

lemma elems_Some [simp]: "elems (Some xs) = xs"
  by (simp add: elems_def)

interpretation roleValues: normalizer normalizedRoleValuesForComparison trimmedValues
  by unfold_locales
     (auto simp: normalizedRoleValuesForComparison_def trimmedValues_def Compact_sort image_image)

interpretation tokenRoleValues: normalizer normalizedTokenRoleValuesForComparison trimmedValues
  by unfold_locales
     (auto simp: normalizedTokenRoleValuesForComparison_def trimmedValues_def Compact_sort image_image)

interpretation appRoleValues: normalizer normalizedAppRoleValuesForComparison trimmedValues
  by unfold_locales
     (auto simp: normalizedAppRoleValuesForComparison_def trimmedValues_def Compact_sort image_image)

definition sameValues :: "string slice \<Rightarrow> string slice \<Rightarrow> bool" where
  "sameValues xs ys \<longleftrightarrow> trimmedValues (elems xs) = trimmedValues (elems ys)"

lemma sameValues_nil: "elems xs = [] \<Longrightarrow> sameValues xs ys \<longleftrightarrow> elems ys = []"
  by (simp add: sameValues_def trimmedValues_def)

lemma normalized_values:
  "normalizedRoleValues v f = Inr w \<Longrightarrow> w = normalizedRoleValuesForComparison v"
  "normalizedTokenRoleValues v f = Inr w \<Longrightarrow> w = normalizedTokenRoleValuesForComparison v"
  "normalizedAppRoleValues v f = Inr w \<Longrightarrow> w = normalizedAppRoleValuesForComparison v"
  by (auto simp: normalizedRoleValues_def normalizedTokenRoleValues_def normalizedAppRoleValues_def Let_def
      split: if_splits)

lemma normalized_empty:
  "elems (normalizedRoleValuesForComparison v) = [] \<longleftrightarrow> elems v = []"
  "elems (normalizedAppRoleValuesForComparison v) = [] \<longleftrightarrow> elems v = []"
  using roleValues.view_norm [of v] appRoleValues.view_norm [of v] by (auto simp: trimmedValues_def)

text \<open>A field that was given has the value observed.\<close>

definition givenIs :: "'a option \<Rightarrow> 'a option \<Rightarrow> bool" where
  "givenIs v n \<longleftrightarrow> v = None \<or> v = n"

lemma given_iff: "(v \<noteq> None \<longrightarrow> v = w) \<longleftrightarrow> givenIs v w"
  by (auto simp: givenIs_def)

lemma optional_given:
  "optionalIntMatches v n = givenIs v n" "optionalBoolMatches b c = givenIs b c"
  by (auto simp: optionalIntMatches_def optionalBoolMatches_def givenIs_def)

text \<open>A duration that was given holds exactly the seconds observed.\<close>

definition durationIs :: "int option \<Rightarrow> int option \<Rightarrow> bool" where
  "durationIs v n \<longleftrightarrow> v = None \<or> (\<exists>s. n = Some s \<and> v = Some (s * Second))"

definition secondsIs :: "int option \<Rightarrow> int \<Rightarrow> bool" where
  "secondsIs v n \<longleftrightarrow> n * Second = (case v of None \<Rightarrow> 0 | Some d \<Rightarrow> d)"

lemma durationSeconds_exact: "durationSeconds v f = Inr n \<Longrightarrow> n * Second = (case v of None \<Rightarrow> 0 | Some d \<Rightarrow> d)"
  by (auto simp: durationSeconds_def go_mod_def go_div_def Second_def split: option.splits if_splits)

lemma Second_cancel: "a * Second = b * Second \<longleftrightarrow> a = b"
  by (simp add: Second_def)

lemma durationSeconds_is: "durationSeconds v f = Inr n \<Longrightarrow> n = m \<longleftrightarrow> secondsIs v m"
  using durationSeconds_exact [of v f n] Second_cancel [of n m] by (auto simp: secondsIs_def)

lemma optionalDuration_is:
  assumes "optionalDurationSeconds v f = Inr r"
  shows "givenIs r n \<longleftrightarrow> durationIs v n"
proof (cases v)
  case None
  with assms show ?thesis by (simp add: optionalDurationSeconds_def givenIs_def durationIs_def)
next
  case (Some d)
  with assms obtain k where k: "durationSeconds v f = Inr k" "r = Some k"
    by (auto simp: optionalDurationSeconds_def map_sum_def split: sum.splits)
  have "k * Second = d" using durationSeconds_exact [OF k(1)] Some by simp
  then show ?thesis
    using Some k(2) Second_cancel by (auto simp: givenIs_def durationIs_def)
qed

definition textIs :: "string \<Rightarrow> string \<Rightarrow> bool" where
  "textIs v n \<longleftrightarrow> TrimSpace v = '''' \<or> TrimSpace v = n"

definition tokenRoleAgrees :: "OpenBaoTokenRoleSpec \<Rightarrow> TokenRole \<Rightarrow> bool" where
  "tokenRoleAgrees spec m \<longleftrightarrow>
     sameValues (trs_AllowedEntityAliases spec) (tk_AllowedEntityAliases m) \<and>
     sameValues (trs_AllowedPolicies spec) (tk_AllowedPolicies m) \<and>
     sameValues (trs_AllowedPoliciesGlob spec) (tk_AllowedPoliciesGlob m) \<and>
     sameValues (trs_DisallowedPolicies spec) (tk_DisallowedPolicies m) \<and>
     sameValues (trs_DisallowedPoliciesGlob spec) (tk_DisallowedPoliciesGlob m) \<and>
     sameValues (trs_TokenBoundCIDRs spec) (tk_TokenBoundCIDRs m) \<and>
     durationIs (trs_TokenExplicitMaxTTL spec) (tk_TokenExplicitMaxTTL m) \<and>
     durationIs (trs_TokenPeriod spec) (tk_TokenPeriod m) \<and>
     givenIs (trs_TokenNumUses spec) (tk_TokenNumUses m) \<and>
     givenIs (trs_TokenNoDefaultPolicy spec) (tk_TokenNoDefaultPolicy m) \<and>
     givenIs (trs_Orphan spec) (tk_Orphan m) \<and> givenIs (trs_Renewable spec) (tk_Renewable m) \<and>
     textIs (trs_TokenType spec) (tk_TokenType m) \<and> textIs (trs_PathSuffix spec) (tk_PathSuffix m)"

definition appRoleAgrees :: "OpenBaoAppRoleSpec \<Rightarrow> AppRole \<Rightarrow> bool" where
  "appRoleAgrees spec m \<longleftrightarrow>
     givenIs (ars_BindSecretID spec) (ap_BindSecretID m) \<and> givenIs (ars_LocalSecretIDs spec) (ap_LocalSecretIDs m) \<and>
     (elems (ars_SecretIDBoundCIDRs spec) = [] \<or> sameValues (ars_SecretIDBoundCIDRs spec) (ap_SecretIDBoundCIDRs m)) \<and>
     (elems (ars_TokenBoundCIDRs spec) = [] \<or> sameValues (ars_TokenBoundCIDRs spec) (ap_TokenBoundCIDRs m)) \<and>
     (elems (ars_TokenPolicies spec) = [] \<or> sameValues (ars_TokenPolicies spec) (EffectivePolicies_appRole m)) \<and>
     givenIs (ars_SecretIDNumUses spec) (ap_SecretIDNumUses m) \<and> givenIs (ars_TokenNumUses spec) (ap_TokenNumUses m) \<and>
     givenIs (ars_TokenNoDefaultPolicy spec) (ap_TokenNoDefaultPolicy m) \<and>
     durationIs (ars_SecretIDTTL spec) (ap_SecretIDTTL m) \<and>
     durationIs (ars_TokenExplicitMaxTTL spec) (ap_TokenExplicitMaxTTL m) \<and>
     durationIs (ars_TokenMaxTTL spec) (ap_TokenMaxTTL m) \<and> durationIs (ars_TokenPeriod spec) (ap_TokenPeriod m) \<and>
     durationIs (ars_TokenTTL spec) (ap_TokenTTL m) \<and> textIs (ars_TokenType spec) (ap_TokenType m)"

definition kubernetesAuthRoleAgrees :: "OpenBaoKubernetesAuthRoleSpec \<Rightarrow> KubernetesAuthRole \<Rightarrow> bool" where
  "kubernetesAuthRoleAgrees spec m \<longleftrightarrow>
     sameValues (kus_BoundServiceAccountNames spec) (kr_BoundServiceAccountNames m) \<and>
     sameValues (kus_BoundServiceAccountNamespaces spec) (kr_BoundServiceAccountNamespaces m) \<and>
     sameValues (kus_TokenPolicies spec) (EffectivePolicies_kubernetes m) \<and>
     secondsIs (kus_TokenTTL spec) (kr_TokenTTL m) \<and> secondsIs (kus_TokenMaxTTL spec) (kr_TokenMaxTTL m) \<and>
     secondsIs (kus_TokenPeriod spec) (kr_TokenPeriod m) \<and>
     textIs (kus_Audience spec) (kr_Audience m) \<and> textIs (kus_TokenType spec) (kr_TokenType m) \<and>
     givenIs (kus_TokenNumUses spec) (Some (kr_TokenNumUses m)) \<and>
     givenIs (kus_TokenNoDefaultPolicy spec) (Some (kr_TokenNoDefaultPolicy m)) \<and>
     (kus_TokenExplicitMaxTTL spec = None \<or> secondsIs (kus_TokenExplicitMaxTTL spec) (kr_TokenExplicitMaxTTL m)) \<and>
     (elems (kus_TokenBoundCIDRs spec) = [] \<or> sameValues (kus_TokenBoundCIDRs spec) (kr_TokenBoundCIDRs m))"

lemma andThen_eq_Inr: "andThen r f = Inr y \<longleftrightarrow> (\<exists>x. r = Inr x \<and> f x = Inr y)"
  by (cases r) simp_all

lemma tokenRole_matches_iff:
  assumes "desiredTokenRoleRequest role = Inr desired"
  shows "tokenRoleMatches desired m \<longleftrightarrow> tokenRoleAgrees (tro_Spec role) m"
proof -
  let ?s = "tro_Spec role"
  obtain v1 v2 v3 v4 v5 v6 t1 t2 where
    v: "normalizedTokenRoleValues (trs_AllowedEntityAliases ?s) ''allowedEntityAliases'' = Inr v1"
      "normalizedTokenRoleValues (trs_AllowedPolicies ?s) ''allowedPolicies'' = Inr v2"
      "normalizedTokenRoleValues (trs_AllowedPoliciesGlob ?s) ''allowedPoliciesGlob'' = Inr v3"
      "normalizedTokenRoleValues (trs_DisallowedPolicies ?s) ''disallowedPolicies'' = Inr v4"
      "normalizedTokenRoleValues (trs_DisallowedPoliciesGlob ?s) ''disallowedPoliciesGlob'' = Inr v5"
      "normalizedTokenRoleValues (trs_TokenBoundCIDRs ?s) ''tokenBoundCIDRs'' = Inr v6" and
    t: "optionalDurationSeconds (trs_TokenExplicitMaxTTL ?s) ''tokenExplicitMaxTTL'' = Inr t1"
      "optionalDurationSeconds (trs_TokenPeriod ?s) ''tokenPeriod'' = Inr t2" and
    d: "desired = \<lparr>tq_AllowedEntityAliases = v1, tq_AllowedPolicies = v2, tq_AllowedPoliciesGlob = v3,
       tq_DisallowedPolicies = v4, tq_DisallowedPoliciesGlob = v5, tq_TokenBoundCIDRs = v6,
       tq_TokenExplicitMaxTTL = t1, tq_TokenPeriod = t2, tq_TokenNumUses = trs_TokenNumUses ?s,
       tq_TokenNoDefaultPolicy = trs_TokenNoDefaultPolicy ?s, tq_TokenType = TrimSpace (trs_TokenType ?s),
       tq_Orphan = trs_Orphan ?s, tq_Renewable = trs_Renewable ?s, tq_PathSuffix = TrimSpace (trs_PathSuffix ?s)\<rparr>"
    using assms unfolding desiredTokenRoleRequest_def Let_def andThen_eq_Inr by blast
  show ?thesis
    unfolding d v [THEN normalized_values(2)] tokenRoleMatches_def normalizedTokenRole_def Let_def
      TokenRoleRequest.simps tokenRoleValues.norm_eq_iff sameValues_def [symmetric] optional_given
      t [THEN optionalDuration_is] tokenRoleAgrees_def textIs_def ..
qed

lemma appRole_matches_iff:
  assumes "desiredAppRoleRequest role = Inr desired"
  shows "appRoleMatches desired m \<longleftrightarrow> appRoleAgrees (aro_Spec role) m"
proof -
  let ?s = "aro_Spec role"
  obtain v1 v2 v3 t1 t2 t3 t4 t5 where
    v: "normalizedAppRoleValues (ars_SecretIDBoundCIDRs ?s) ''secretIDBoundCIDRs'' = Inr v1"
      "normalizedAppRoleValues (ars_TokenBoundCIDRs ?s) ''tokenBoundCIDRs'' = Inr v2"
      "normalizedAppRoleValues (ars_TokenPolicies ?s) ''tokenPolicies'' = Inr v3" and
    t: "optionalDurationSeconds (ars_SecretIDTTL ?s) ''secretIDTTL'' = Inr t1"
      "optionalDurationSeconds (ars_TokenExplicitMaxTTL ?s) ''tokenExplicitMaxTTL'' = Inr t2"
      "optionalDurationSeconds (ars_TokenMaxTTL ?s) ''tokenMaxTTL'' = Inr t3"
      "optionalDurationSeconds (ars_TokenPeriod ?s) ''tokenPeriod'' = Inr t4"
      "optionalDurationSeconds (ars_TokenTTL ?s) ''tokenTTL'' = Inr t5" and
    d: "desired = \<lparr>aq_BindSecretID = ars_BindSecretID ?s, aq_LocalSecretIDs = ars_LocalSecretIDs ?s,
       aq_SecretIDBoundCIDRs = v1, aq_SecretIDNumUses = ars_SecretIDNumUses ?s, aq_SecretIDTTL = t1,
       aq_TokenBoundCIDRs = v2, aq_TokenExplicitMaxTTL = t2, aq_TokenMaxTTL = t3,
       aq_TokenNoDefaultPolicy = ars_TokenNoDefaultPolicy ?s, aq_TokenNumUses = ars_TokenNumUses ?s,
       aq_TokenPeriod = t4, aq_TokenPolicies = v3, aq_TokenTTL = t5, aq_TokenType = TrimSpace (ars_TokenType ?s)\<rparr>"
    using assms unfolding desiredAppRoleRequest_def Let_def andThen_eq_Inr by blast
  show ?thesis
    unfolding d v [THEN normalized_values(3)] appRoleMatches_def normalizedAppRole_def Let_def
      AppRoleRequest.simps optionalStringSliceMatches_def normalized_empty appRoleValues.norm_eq_iff
      sameValues_def [symmetric] optional_given t [THEN optionalDuration_is] appRoleAgrees_def textIs_def
    by blast
qed

lemma kubernetesAuthRole_matches_iff:
  assumes "desiredKubernetesAuthRoleRequest role = Inr desired"
  shows "kubernetesAuthRoleMatches desired m \<longleftrightarrow> kubernetesAuthRoleAgrees (kuo_Spec role) m"
proof -
  let ?s = "kuo_Spec role"
  obtain v1 v2 v3 t1 t2 t3 t4 where
    v: "normalizedRoleValues (kus_BoundServiceAccountNames ?s) ''boundServiceAccountNames'' = Inr v1"
      "normalizedRoleValues (kus_BoundServiceAccountNamespaces ?s) ''boundServiceAccountNamespaces'' = Inr v2"
      "normalizedRoleValues (kus_TokenPolicies ?s) ''tokenPolicies'' = Inr v3" and
    t: "durationSeconds (kus_TokenTTL ?s) ''tokenTTL'' = Inr t1"
      "durationSeconds (kus_TokenMaxTTL ?s) ''tokenMaxTTL'' = Inr t2"
      "durationSeconds (kus_TokenPeriod ?s) ''tokenPeriod'' = Inr t3" and
    t4: "durationSeconds (kus_TokenExplicitMaxTTL ?s) ''tokenExplicitMaxTTL'' = Inr t4" and
    d: "desired = \<lparr>kq_BoundServiceAccountNames = v1, kq_BoundServiceAccountNamespaces = v2, kq_TokenPolicies = v3,
       kq_TokenTTL = t1, kq_TokenMaxTTL = t2, kq_TokenPeriod = t3, kq_Audience = TrimSpace (kus_Audience ?s),
       kq_TokenType = TrimSpace (kus_TokenType ?s), kq_TokenNumUses = kus_TokenNumUses ?s,
       kq_TokenNoDefaultPolicy = kus_TokenNoDefaultPolicy ?s,
       kq_TokenExplicitMaxTTL = map_option (\<lambda>_. t4) (kus_TokenExplicitMaxTTL ?s),
       kq_TokenBoundCIDRs = normalizedRoleValuesForComparison (kus_TokenBoundCIDRs ?s)\<rparr>"
    using assms unfolding desiredKubernetesAuthRoleRequest_def Let_def andThen_eq_Inr by blast
  have four: "givenIs (map_option (\<lambda>_. t4) x) (Some n) \<longleftrightarrow> x = None \<or> t4 = n" for x :: "int option" and n
    by (cases x) (auto simp: givenIs_def)
  show ?thesis
    unfolding d v [THEN normalized_values(1)] kubernetesAuthRoleMatches_def normalizedKubernetesAuthRoleRequest_def
      Let_def KubernetesAuthRoleRequest.simps normalized_empty roleValues.norm_eq_iff sameValues_def [symmetric]
      t [THEN durationSeconds_is] given_iff four t4 [THEN durationSeconds_is] kubernetesAuthRoleAgrees_def textIs_def
    by blast
qed

text \<open>
  C37. What a role is compared by: a token role, AppRole or Kubernetes auth role matches exactly when
  each list that counts has the trimmed values of the specification, in any order and however often,
  each duration given holds exactly the seconds observed, and each field given has its value.  The
  sorted, compacted and truncated forms the code compares lose nothing else.
\<close>

theorem role_comparison_exact:
  assumes "desiredTokenRoleRequest r1 = Inr d1" "desiredAppRoleRequest r2 = Inr d2"
    "desiredKubernetesAuthRoleRequest r3 = Inr d3"
  shows "(tokenRoleMatches d1 m1 \<longleftrightarrow> tokenRoleAgrees (tro_Spec r1) m1) \<and>
    (appRoleMatches d2 m2 \<longleftrightarrow> appRoleAgrees (aro_Spec r2) m2) \<and>
    (kubernetesAuthRoleMatches d3 m3 \<longleftrightarrow> kubernetesAuthRoleAgrees (kuo_Spec r3) m3)"
  using assms by (intro conjI tokenRole_matches_iff appRole_matches_iff kubernetesAuthRole_matches_iff)

definition exampleTokenRole :: OpenBaoTokenRole where
  "exampleTokenRole = \<lparr>om_Name = ''role'', om_Namespace = ''ns'', om_Generation = 1, om_Finalizers = [],
     om_DeletionTimestamp = None,
     tro_Spec = \<lparr>trs_ConnectionRef = \<lparr>connref_Name = ''bao''\<rparr>, trs_CreationPolicy = '''',
       trs_DeletionPolicy = '''', trs_DriftDetectionInterval = None, trs_AllowedEntityAliases = None,
       trs_AllowedPolicies = Some ['' reader'', ''reader'', ''admin''], trs_AllowedPoliciesGlob = None,
       trs_DisallowedPolicies = None, trs_DisallowedPoliciesGlob = None, trs_TokenBoundCIDRs = None,
       trs_TokenExplicitMaxTTL = None, trs_TokenPeriod = Some (60 * Second), trs_TokenNumUses = None,
       trs_TokenNoDefaultPolicy = None, trs_TokenType = '''', trs_Orphan = Some True, trs_Renewable = None,
       trs_PathSuffix = ''''\<rparr>,
     tro_Status = \<lparr>trt_Name = '''', trt_ConfigHash = '''', trt_ObservedGeneration = 0, trt_Conditions = []\<rparr>\<rparr>"

definition exampleAppRole :: OpenBaoAppRole where
  "exampleAppRole = \<lparr>om_Name = ''role'', om_Namespace = ''ns'', om_Generation = 1, om_Finalizers = [],
     om_DeletionTimestamp = None,
     aro_Spec = \<lparr>ars_ConnectionRef = \<lparr>connref_Name = ''bao''\<rparr>, ars_MountPath = '''',
       ars_CreationPolicy = '''', ars_DeletionPolicy = '''', ars_DriftDetectionInterval = None,
       ars_BindSecretID = None, ars_LocalSecretIDs = None, ars_SecretIDBoundCIDRs = Some [''10.0.0.0/8''],
       ars_SecretIDNumUses = None, ars_SecretIDTTL = None, ars_TokenBoundCIDRs = None,
       ars_TokenExplicitMaxTTL = None, ars_TokenMaxTTL = None, ars_TokenNoDefaultPolicy = None,
       ars_TokenNumUses = None, ars_TokenPeriod = None, ars_TokenPolicies = None,
       ars_TokenTTL = Some (60 * Second), ars_TokenType = ''''\<rparr>,
     aro_Status = \<lparr>art_MountPath = '''', art_Name = '''', art_ConfigHash = '''', art_ObservedGeneration = 0,
       art_Conditions = []\<rparr>\<rparr>"

definition exampleKubernetesAuthRole :: OpenBaoKubernetesAuthRole where
  "exampleKubernetesAuthRole = \<lparr>om_Name = ''role'', om_Namespace = ''ns'', om_Generation = 1, om_Finalizers = [],
     om_DeletionTimestamp = None,
     kuo_Spec = \<lparr>kus_ConnectionRef = \<lparr>connref_Name = ''bao''\<rparr>, kus_MountPath = '''',
       kus_CreationPolicy = '''', kus_DeletionPolicy = '''', kus_DriftDetectionInterval = None,
       kus_BoundServiceAccountNames = Some [''app''], kus_BoundServiceAccountNamespaces = Some [''ns''],
       kus_TokenPolicies = None, kus_TokenTTL = None, kus_TokenMaxTTL = None, kus_TokenPeriod = None,
       kus_Audience = '''', kus_TokenType = '''', kus_TokenNumUses = Some 3, kus_TokenNoDefaultPolicy = None,
       kus_TokenExplicitMaxTTL = None, kus_TokenBoundCIDRs = None\<rparr>,
     kuo_Status = \<lparr>kut_MountPath = '''', kut_Name = '''', kut_ConfigHash = '''', kut_ObservedGeneration = 0,
       kut_Conditions = []\<rparr>\<rparr>"

lemma examples_valid:
  "\<exists>d. desiredTokenRoleRequest exampleTokenRole = Inr d" "\<exists>d. desiredAppRoleRequest exampleAppRole = Inr d"
  "\<exists>d. desiredKubernetesAuthRoleRequest exampleKubernetesAuthRole = Inr d"
proof -
  have "\<not> isl (desiredTokenRoleRequest exampleTokenRole)" "\<not> isl (desiredAppRoleRequest exampleAppRole)"
    "\<not> isl (desiredKubernetesAuthRoleRequest exampleKubernetesAuthRole)"
    by code_simp+
  then show "\<exists>d. desiredTokenRoleRequest exampleTokenRole = Inr d" "\<exists>d. desiredAppRoleRequest exampleAppRole = Inr d"
    "\<exists>d. desiredKubernetesAuthRoleRequest exampleKubernetesAuthRole = Inr d"
    by (metis sum.collapse(2))+
qed

theorem role_comparison_exact_witness:
  "\<exists>d1 d2 d3. desiredTokenRoleRequest exampleTokenRole = Inr d1 \<and> desiredAppRoleRequest exampleAppRole = Inr d2 \<and>
     desiredKubernetesAuthRoleRequest exampleKubernetesAuthRole = Inr d3 \<and>
     \<not> tokenRoleMatches d1 zeroTokenRole \<and> \<not> appRoleMatches d2 zeroAppRole \<and>
     \<not> kubernetesAuthRoleMatches d3 zeroKubernetesAuthRole"
proof -
  obtain d1 d2 d3 where d: "desiredTokenRoleRequest exampleTokenRole = Inr d1"
    "desiredAppRoleRequest exampleAppRole = Inr d2" "desiredKubernetesAuthRoleRequest exampleKubernetesAuthRole = Inr d3"
    using examples_valid by blast
  have "\<not> tokenRoleAgrees (tro_Spec exampleTokenRole) zeroTokenRole" "\<not> appRoleAgrees (aro_Spec exampleAppRole) zeroAppRole"
    "\<not> kubernetesAuthRoleAgrees (kuo_Spec exampleKubernetesAuthRole) zeroKubernetesAuthRole"
    by (simp_all add: tokenRoleAgrees_def appRoleAgrees_def kubernetesAuthRoleAgrees_def exampleTokenRole_def
        exampleAppRole_def exampleKubernetesAuthRole_def zeroTokenRole_def zeroAppRole_def zeroKubernetesAuthRole_def
        givenIs_def durationIs_def)
  then show ?thesis using role_comparison_exact [OF d] d by blast
qed

end
