(* ===== verification/RoleEcho.thy ===== *)
theory RoleEcho
  imports RoleProperties
begin

text \<open>
  The round trips of the role requests: what a server reads back after storing a request, and that
  it satisfies the next comparison.
\<close>

section \<open>What a server echoes\<close>

lemma fieldValues_simps:
  "fieldValues [] k = []"
  "fieldValues ((n, v) # fs) k = (if EqualFold n k then v # fieldValues fs k else fieldValues fs k)"
  "fieldValues (a @ b) k = fieldValues a k @ fieldValues b k"
  "fieldValues (omitempty n t) k = (if EqualFold n k \<and> t \<noteq> [] then [JString t] else [])"
  "fieldValues (omitStrings n w) k = (if EqualFold n k \<and> elems w \<noteq> [] then [encStrings w] else [])"
  "fieldValues (omitInt n i) k = (if EqualFold n k \<and> i \<noteq> None then [JNum (the i)] else [])"
  "fieldValues (omitBool n c) k = (if EqualFold n k \<and> c \<noteq> None then [JBool (the c)] else [])"
  by (auto simp: fieldValues_def omitempty_def omitStrings_def omitInt_def omitBool_def split: option.splits)

text \<open>The names of the fields are in lower case, so folding leaves them.\<close>

lemma role_names_lower:
  "ToLower ''bound_service_account_names'' = ''bound_service_account_names''"
  "ToLower ''bound_service_account_namespaces'' = ''bound_service_account_namespaces''"
  "ToLower ''token_policies'' = ''token_policies''"
  "ToLower ''policies'' = ''policies''"
  "ToLower ''token_ttl'' = ''token_ttl''"
  "ToLower ''token_max_ttl'' = ''token_max_ttl''"
  "ToLower ''token_period'' = ''token_period''"
  "ToLower ''audience'' = ''audience''"
  "ToLower ''token_type'' = ''token_type''"
  "ToLower ''token_num_uses'' = ''token_num_uses''"
  "ToLower ''token_no_default_policy'' = ''token_no_default_policy''"
  "ToLower ''token_explicit_max_ttl'' = ''token_explicit_max_ttl''"
  "ToLower ''token_bound_cidrs'' = ''token_bound_cidrs''"
  "ToLower ''allowed_entity_aliases'' = ''allowed_entity_aliases''"
  "ToLower ''allowed_policies'' = ''allowed_policies''"
  "ToLower ''allowed_policies_glob'' = ''allowed_policies_glob''"
  "ToLower ''disallowed_policies'' = ''disallowed_policies''"
  "ToLower ''disallowed_policies_glob'' = ''disallowed_policies_glob''"
  "ToLower ''orphan'' = ''orphan''"
  "ToLower ''renewable'' = ''renewable''"
  "ToLower ''path_suffix'' = ''path_suffix''"
  "ToLower ''bind_secret_id'' = ''bind_secret_id''"
  "ToLower ''local_secret_ids'' = ''local_secret_ids''"
  "ToLower ''secret_id_bound_cidrs'' = ''secret_id_bound_cidrs''"
  "ToLower ''secret_id_num_uses'' = ''secret_id_num_uses''"
  "ToLower ''secret_id_ttl'' = ''secret_id_ttl''"
  by code_simp+

definition int64 :: "int \<Rightarrow> bool" where
  "int64 n \<longleftrightarrow> minDuration \<le> n \<and> n \<le> maxDuration"

definition optInt64 :: "int option \<Rightarrow> bool" where
  "optInt64 v = (case v of None \<Rightarrow> True | Some n \<Rightarrow> int64 n)"

text \<open>What is left of a slice sent with \<^verbatim>\<open>omitempty\<close>.\<close>

definition emptyToNil :: "'a slice \<Rightarrow> 'a slice" where
  "emptyToNil v = (if elems v = [] then None else v)"

lemma normalized_emptyToNil [simp]:
  "normalizedRoleValuesForComparison (emptyToNil v) = normalizedRoleValuesForComparison v"
  "normalizedTokenRoleValuesForComparison (emptyToNil v) = normalizedTokenRoleValuesForComparison v"
  "normalizedAppRoleValuesForComparison (emptyToNil v) = normalizedAppRoleValuesForComparison v"
  by (simp_all add: emptyToNil_def normalizedRoleValuesForComparison_def normalizedTokenRoleValuesForComparison_def
      normalizedAppRoleValuesForComparison_def elems_def)

lemma decode_omitted:
  "decodeOver decString (if t \<noteq> [] then [JString t] else []) [] = Inr t"
  "decodeOver decStrings (if elems v \<noteq> [] then [encStrings v] else []) None = Inr (emptyToNil v)"
  "optInt64 i \<Longrightarrow> decodeOver (decPointer decInt64 0) (if i \<noteq> None then [JNum (the i)] else []) None = Inr i"
  "decodeOver (decPointer decBool False) (if b \<noteq> None then [JBool (the b)] else []) None = Inr b"
  "int64 n \<Longrightarrow> decInt64 (JNum n) k = Inr n"
  "optInt64 i \<Longrightarrow> decodeOver decInt64 (if i \<noteq> None then [JNum (the i)] else []) k = Inr (case i of None \<Rightarrow> k | Some n \<Rightarrow> n)"
  "decodeOver decBool (if b \<noteq> None then [JBool (the b)] else []) e = Inr (case b of None \<Rightarrow> e | Some c \<Rightarrow> c)"
  "decodeOver d [] z = Inr z"
  by (auto simp: decPointer_def decInt64_def optInt64_def int64_def emptyToNil_def split: option.splits)

lemmas role_json = field_def EqualFold_def role_names_lower fieldValues_simps decode_omitted decStruct_def

lemma tokenRole_echo:
  assumes "optInt64 (tq_TokenExplicitMaxTTL r)" "optInt64 (tq_TokenPeriod r)" "optInt64 (tq_TokenNumUses r)"
  shows "decTokenRole (encTokenRoleRequest r) zeroTokenRole = Inr
    \<lparr>tk_AllowedEntityAliases = emptyToNil (tq_AllowedEntityAliases r),
     tk_AllowedPolicies = emptyToNil (tq_AllowedPolicies r),
     tk_AllowedPoliciesGlob = emptyToNil (tq_AllowedPoliciesGlob r),
     tk_DisallowedPolicies = emptyToNil (tq_DisallowedPolicies r),
     tk_DisallowedPoliciesGlob = emptyToNil (tq_DisallowedPoliciesGlob r),
     tk_TokenBoundCIDRs = emptyToNil (tq_TokenBoundCIDRs r),
     tk_TokenExplicitMaxTTL = tq_TokenExplicitMaxTTL r, tk_TokenPeriod = tq_TokenPeriod r,
     tk_TokenNumUses = tq_TokenNumUses r, tk_TokenNoDefaultPolicy = tq_TokenNoDefaultPolicy r,
     tk_TokenType = tq_TokenType r, tk_Orphan = tq_Orphan r, tk_Renewable = tq_Renewable r,
     tk_PathSuffix = tq_PathSuffix r\<rparr>"
  using assms
  by (simp add: decTokenRole_def encTokenRoleRequest_def zeroTokenRole_def role_json del: not_None_eq split del: if_split)

lemma appRole_echo:
  assumes "optInt64 (aq_SecretIDNumUses r)" "optInt64 (aq_SecretIDTTL r)" "optInt64 (aq_TokenExplicitMaxTTL r)"
    "optInt64 (aq_TokenMaxTTL r)" "optInt64 (aq_TokenNumUses r)" "optInt64 (aq_TokenPeriod r)" "optInt64 (aq_TokenTTL r)"
  shows "decAppRole (encAppRoleRequest r) zeroAppRole = Inr
    \<lparr>ap_BindSecretID = aq_BindSecretID r, ap_LocalSecretIDs = aq_LocalSecretIDs r,
     ap_SecretIDBoundCIDRs = emptyToNil (aq_SecretIDBoundCIDRs r), ap_SecretIDNumUses = aq_SecretIDNumUses r,
     ap_SecretIDTTL = aq_SecretIDTTL r, ap_TokenBoundCIDRs = emptyToNil (aq_TokenBoundCIDRs r),
     ap_TokenExplicitMaxTTL = aq_TokenExplicitMaxTTL r, ap_TokenMaxTTL = aq_TokenMaxTTL r,
     ap_TokenNoDefaultPolicy = aq_TokenNoDefaultPolicy r, ap_TokenNumUses = aq_TokenNumUses r,
     ap_TokenPeriod = aq_TokenPeriod r, ap_TokenPolicies = emptyToNil (aq_TokenPolicies r), ap_Policies = None,
     ap_TokenTTL = aq_TokenTTL r, ap_TokenType = aq_TokenType r\<rparr>"
  using assms
  by (simp add: decAppRole_def encAppRoleRequest_def zeroAppRole_def role_json del: not_None_eq split del: if_split)

lemma kubernetesAuthRole_echo:
  assumes "int64 (kq_TokenTTL r)" "int64 (kq_TokenMaxTTL r)" "int64 (kq_TokenPeriod r)"
    "optInt64 (kq_TokenNumUses r)" "optInt64 (kq_TokenExplicitMaxTTL r)"
  shows "decKubernetesAuthRole (encKubernetesAuthRoleRequest r) zeroKubernetesAuthRole = Inr
    \<lparr>kr_BoundServiceAccountNames = kq_BoundServiceAccountNames r,
     kr_BoundServiceAccountNamespaces = kq_BoundServiceAccountNamespaces r, kr_TokenPolicies = kq_TokenPolicies r,
     kr_Policies = None, kr_TokenTTL = kq_TokenTTL r, kr_TokenMaxTTL = kq_TokenMaxTTL r, kr_TokenPeriod = kq_TokenPeriod r,
     kr_Audience = kq_Audience r, kr_TokenType = kq_TokenType r,
     kr_TokenNumUses = (case kq_TokenNumUses r of None \<Rightarrow> 0 | Some n \<Rightarrow> n),
     kr_TokenNoDefaultPolicy = (case kq_TokenNoDefaultPolicy r of None \<Rightarrow> False | Some b \<Rightarrow> b),
     kr_TokenExplicitMaxTTL = (case kq_TokenExplicitMaxTTL r of None \<Rightarrow> 0 | Some n \<Rightarrow> n),
     kr_TokenBoundCIDRs = emptyToNil (kq_TokenBoundCIDRs r)\<rparr>"
  using assms
  by (simp add: decKubernetesAuthRole_def encKubernetesAuthRoleRequest_def zeroKubernetesAuthRole_def role_json
      del: not_None_eq split del: if_split)

text \<open>Desired values are normalized already, and durations that are in range give seconds in range.\<close>

lemma durationSeconds_int64:
  assumes "durationSeconds v f = Inr n" "optInt64 v"
  shows "int64 n"
proof -
  have "n * Second = (case v of None \<Rightarrow> 0 | Some d \<Rightarrow> d)" using durationSeconds_exact assms(1) by blast
  then show ?thesis
    using assms(2) by (auto simp: optInt64_def int64_def minDuration_def maxDuration_def Second_def split: option.splits)
qed

lemma optionalDuration_int64: "optionalDurationSeconds v f = Inr r \<Longrightarrow> optInt64 v \<Longrightarrow> optInt64 r"
  using durationSeconds_int64
  by (fastforce simp: optionalDurationSeconds_def optInt64_def map_sum_def split: option.splits sum.splits)

text \<open>The integers of a specification fit in 64 bits, as their Go types make them.\<close>

definition tokenRoleInts :: "OpenBaoTokenRoleSpec \<Rightarrow> bool" where
  "tokenRoleInts spec \<longleftrightarrow> list_all optInt64 [trs_TokenExplicitMaxTTL spec, trs_TokenPeriod spec, trs_TokenNumUses spec]"

definition appRoleInts :: "OpenBaoAppRoleSpec \<Rightarrow> bool" where
  "appRoleInts spec \<longleftrightarrow> list_all optInt64 [ars_SecretIDNumUses spec, ars_SecretIDTTL spec, ars_TokenExplicitMaxTTL spec,
     ars_TokenMaxTTL spec, ars_TokenNumUses spec, ars_TokenPeriod spec, ars_TokenTTL spec]"

definition kubernetesAuthRoleInts :: "OpenBaoKubernetesAuthRoleSpec \<Rightarrow> bool" where
  "kubernetesAuthRoleInts spec \<longleftrightarrow> list_all optInt64 [kus_TokenTTL spec, kus_TokenMaxTTL spec, kus_TokenPeriod spec,
     kus_TokenNumUses spec, kus_TokenExplicitMaxTTL spec]"

lemma tokenRole_echo_matches:
  assumes "desiredTokenRoleRequest role = Inr d" "tokenRoleInts (tro_Spec role)"
  shows "\<exists>m. decTokenRole (encTokenRoleRequest d) zeroTokenRole = Inr m \<and> tokenRoleMatches d m"
proof -
  have d: "optInt64 (tq_TokenExplicitMaxTTL d)" "optInt64 (tq_TokenPeriod d)" "optInt64 (tq_TokenNumUses d)"
    using assms unfolding desiredTokenRoleRequest_def Let_def andThen_eq_Inr tokenRoleInts_def list.pred_inject
    by (auto simp del: split_paired_Ex intro: optionalDuration_int64)
  have n: "normalizedTokenRoleValuesForComparison (f d) = f d"
    if "f \<in> {tq_AllowedEntityAliases, tq_AllowedPolicies, tq_AllowedPoliciesGlob, tq_DisallowedPolicies,
      tq_DisallowedPoliciesGlob, tq_TokenBoundCIDRs}" for f
    using that assms(1) unfolding desiredTokenRoleRequest_def Let_def andThen_eq_Inr
    by (auto dest!: normalized_values(2) simp: tokenRoleValues.norm_idem)
  show ?thesis
    using tokenRole_echo [OF d] n by (simp add: tokenRoleMatches_def normalizedTokenRole_def optional_given givenIs_def)
qed

lemma appRole_echo_matches:
  assumes "desiredAppRoleRequest role = Inr d" "appRoleInts (aro_Spec role)"
  shows "\<exists>m. decAppRole (encAppRoleRequest d) zeroAppRole = Inr m \<and> appRoleMatches d m"
proof -
  have d: "optInt64 (aq_SecretIDNumUses d)" "optInt64 (aq_SecretIDTTL d)" "optInt64 (aq_TokenExplicitMaxTTL d)"
    "optInt64 (aq_TokenMaxTTL d)" "optInt64 (aq_TokenNumUses d)" "optInt64 (aq_TokenPeriod d)" "optInt64 (aq_TokenTTL d)"
    using assms unfolding desiredAppRoleRequest_def Let_def andThen_eq_Inr appRoleInts_def list.pred_inject
    by (auto simp del: split_paired_Ex intro: optionalDuration_int64)
  have n: "normalizedAppRoleValuesForComparison (f d) = f d"
    if "f \<in> {aq_SecretIDBoundCIDRs, aq_TokenBoundCIDRs, aq_TokenPolicies}" for f
    using that assms(1) unfolding desiredAppRoleRequest_def Let_def andThen_eq_Inr
    by (auto dest!: normalized_values(3) simp: appRoleValues.norm_idem)
  show ?thesis
    using appRole_echo [OF d] n
    by (auto simp: appRoleMatches_def normalizedAppRole_def optional_given givenIs_def optionalStringSliceMatches_def
        EffectivePolicies_appRole_def emptyToNil_def)
qed

lemma case_given: "v \<noteq> None \<longrightarrow> v = Some (case v of None \<Rightarrow> z | Some n \<Rightarrow> n)"
  by (cases v) simp_all

lemma kubernetesAuthRole_echo_matches:
  assumes "desiredKubernetesAuthRoleRequest role = Inr d" "kubernetesAuthRoleInts (kuo_Spec role)"
  shows "\<exists>m. decKubernetesAuthRole (encKubernetesAuthRoleRequest d) zeroKubernetesAuthRole = Inr m \<and>
    kubernetesAuthRoleMatches d m"
proof -
  have d: "int64 (kq_TokenTTL d)" "int64 (kq_TokenMaxTTL d)" "int64 (kq_TokenPeriod d)"
    "optInt64 (kq_TokenNumUses d)" "optInt64 (kq_TokenExplicitMaxTTL d)"
    using assms unfolding desiredKubernetesAuthRoleRequest_def Let_def andThen_eq_Inr kubernetesAuthRoleInts_def list.pred_inject
    by (auto simp del: split_paired_Ex simp: optInt64_def [of "map_option f x" for f x] split: option.splits
        intro: durationSeconds_int64)
  have n: "normalizedRoleValuesForComparison (f d) = f d"
    if "f \<in> {kq_BoundServiceAccountNames, kq_BoundServiceAccountNamespaces, kq_TokenPolicies, kq_TokenBoundCIDRs}" for f
    using that assms(1) unfolding desiredKubernetesAuthRoleRequest_def Let_def andThen_eq_Inr
    by (auto dest!: normalized_values(1) simp: roleValues.norm_idem)
  have e: "normalizedRoleValuesForComparison (if elems (kq_TokenPolicies d) \<noteq> [] then kq_TokenPolicies d else None)
      = kq_TokenPolicies d"
    using n [of kq_TokenPolicies] by (auto simp: normalizedRoleValuesForComparison_def elems_def)
  show ?thesis
    unfolding kubernetesAuthRole_echo [OF d] kubernetesAuthRoleMatches_def normalizedKubernetesAuthRoleRequest_def
      EffectivePolicies_kubernetes_def Let_def KubernetesAuthRole.simps KubernetesAuthRoleRequest.simps
    by (intro exI conjI, rule refl, unfold KubernetesAuthRole.simps KubernetesAuthRoleRequest.simps)
       (simp_all add: n e case_given del: not_None_eq)
qed

text \<open>
  C38. A server that stores a role as it was written and returns it is seen to match: for every valid
  specification of a token role, AppRole or Kubernetes auth role the echo of the desired request
  decodes and is compared equal, although empty lists and absent fields were never sent.
\<close>

theorem role_echo_matches:
  assumes "desiredTokenRoleRequest r1 = Inr d1" "tokenRoleInts (tro_Spec r1)"
    and "desiredAppRoleRequest r2 = Inr d2" "appRoleInts (aro_Spec r2)"
    and "desiredKubernetesAuthRoleRequest r3 = Inr d3" "kubernetesAuthRoleInts (kuo_Spec r3)"
  shows "(\<exists>m. decTokenRole (encTokenRoleRequest d1) zeroTokenRole = Inr m \<and> tokenRoleMatches d1 m) \<and>
    (\<exists>m. decAppRole (encAppRoleRequest d2) zeroAppRole = Inr m \<and> appRoleMatches d2 m) \<and>
    (\<exists>m. decKubernetesAuthRole (encKubernetesAuthRoleRequest d3) zeroKubernetesAuthRole = Inr m \<and>
       kubernetesAuthRoleMatches d3 m)"
  using assms by (intro conjI tokenRole_echo_matches appRole_echo_matches kubernetesAuthRole_echo_matches)

theorem role_echo_matches_witness:
  "\<exists>d m. desiredTokenRoleRequest exampleTokenRole = Inr d \<and>
     decTokenRole (encTokenRoleRequest d) zeroTokenRole = Inr m \<and> tokenRoleMatches d m"
proof -
  obtain d1 d2 d3 where d: "desiredTokenRoleRequest exampleTokenRole = Inr d1"
    "desiredAppRoleRequest exampleAppRole = Inr d2" "desiredKubernetesAuthRoleRequest exampleKubernetesAuthRole = Inr d3"
    using examples_valid by blast
  have "tokenRoleInts (tro_Spec exampleTokenRole)" "appRoleInts (aro_Spec exampleAppRole)"
    "kubernetesAuthRoleInts (kuo_Spec exampleKubernetesAuthRole)"
    by code_simp+
  then show ?thesis using role_echo_matches [of exampleTokenRole d1 exampleAppRole d2 exampleKubernetesAuthRole d3] d
    by blast
qed

end
