(* ===== verification/RoleBounds.thy ===== *)
theory RoleBounds
  imports RoleEcho
begin

text \<open>
  Every reconciliation of a named kind ends after a bounded number of calls, and what happens to
  the lists a specification no longer gives.
\<close>

section \<open>How many calls a run makes\<close>

abbreviation within :: "nat \<Rightarrow> 'b \<Rightarrow> 's \<times> 'e list \<Rightarrow> bool" where
  "within n \<equiv> \<lambda>_ st. length (snd st) \<le> n"

lemma named_fail_calls:
  "length tr + 1 \<le> n \<Longrightarrow> wp (named_fail (logNamedReconciler R) (logKind K) ob reason err) (within n) (s, tr)"
  unfolding named_fail_def logNamedReconciler_sel by (rule wp_failWithI) simp_all

lemma named_dependencyFailure_calls:
  "length tr + 1 \<le> n \<Longrightarrow> wp (named_dependencyFailure (logNamedReconciler R) (logKind K) ob err) (within n) (s, tr)"
  unfolding named_dependencyFailure_def logNamedReconciler_sel by (rule wp_dependencyFailureWithI) simp_all

lemma named_finish_calls:
  "length tr + 1 \<le> n \<Longrightarrow> wp (named_finish (logNamedReconciler R) (logKind K) before ob m) (within n) (s, tr)"
  unfolding named_finish_def Let_def wp_simps logNamedReconciler_sel
  by (intro wp_silentI wp_updateStatusI) (simp_all split: sum.splits)

lemma named_sync_calls:
  "length tr + 3 \<le> n \<Longrightarrow> wp (named_sync (logNamedReconciler R) (logKind K) k before ob x) (within n) (s, tr)"
  unfolding named_sync_def wp_simps logKind_sel
  by (auto split: sum.splits option.splits simp: wp_simps
      intro!: wp_loggedI named_fail_calls named_finish_calls)

lemma named_acquire_calls:
  "length tr + 3 \<le> n \<Longrightarrow> wp (named_acquire L (logKind K) k ob) (within n) (s, tr)"
  unfolding named_acquire_def wp_simps logKind_sel
  by (rule wp_loggedI) (auto split: sum.splits option.splits simp: wp_simps intro!: wp_loggedI)

lemma named_reconcileActive_calls:
  assumes "length tr + 8 \<le> n"
  shows "wp (named_reconcileActive (logNamedReconciler R) (logKind K) before ob) (within n) (s, tr)"
proof -
  have acquired: "wp (named_acquire L (logKind K) k ob')
      (\<lambda>a st. (\<forall>e. a = Inl e \<longrightarrow> wp (named_fail (logNamedReconciler R) (logKind K) ob' r e) (within n) st) \<and>
        (\<forall>x. a = Inr x \<longrightarrow> wp (named_sync (logNamedReconciler R) (logKind K) k before ob' x) (within n) st)) (s', tr')"
    if "length tr' + 6 \<le> n" for L k ob' r s' tr'
  proof (rule wp_mono [OF named_acquire_calls [where n = "length tr' + 3"]])
    fix a and st :: "'d \<times> ('a ObjectMeta_scheme, 'b, 'c) NamedEvent list"
    assume "length (snd st) \<le> length tr' + 3"
    with that show "(\<forall>e. a = Inl e \<longrightarrow> wp (named_fail (logNamedReconciler R) (logKind K) ob' r e) (within n) st) \<and>
        (\<forall>x. a = Inr x \<longrightarrow> wp (named_sync (logNamedReconciler R) (logKind K) k before ob' x) (within n) st)"
      by (cases st) (auto intro!: named_fail_calls named_sync_calls)
  qed simp
  show ?thesis
    using assms
    unfolding named_reconcileActive_def Let_def wp_simps resolveConnection_def logNamedReconciler_sel
      logKube_sel logKind_sel
    by (auto split: sum.splits intro!: wp_loggedI wp_namedClientForI named_dependencyFailure_calls acquired)
qed

lemma named_reconcileDeletion_calls:
  "length tr + 4 \<le> n \<Longrightarrow> wp (named_reconcileDeletion (logNamedReconciler R) (logKind K) ob) (within n) (s, tr)"
  unfolding named_reconcileDeletion_def Let_def wp_simps resolveConnection_def logNamedReconciler_sel
    logKube_sel logKind_sel
  by (auto split: sum.splits option.splits simp: wp_simps
      intro!: wp_removeFinalizerI wp_loggedI wp_namedClientForI wp_recordCleanupFailureI)

lemma named_reconcile_calls:
  "wp (named_reconcile (logNamedReconciler R) (logKind K) req) (within 10) (s, [])"
  unfolding named_reconcile_def withObject_def wp_simps logNamedReconciler_sel logKube_sel
  by (rule wp_loggedI)
     (auto split: sum.splits option.splits simp: wp_simps
        intro!: wp_ensureFinalizerI named_reconcileDeletion_calls named_reconcileActive_calls)

definition callsBounded ::
  "nat \<Rightarrow> ('s, 'k, 'a ObjectMeta_scheme) SystemReconciler \<Rightarrow> ('s, 'k, 'a ObjectMeta_scheme, 'st, 'd, 'm) namedKind \<Rightarrow> bool" where
  "callsBounded n R K \<longleftrightarrow> (\<forall>req s. length (named_trace R K req s) \<le> n)"

lemma named_callsBounded: "callsBounded 10 R K"
  unfolding callsBounded_def named_trace_def by (intro allI named_reconcile_calls [unfolded wp_run])

text \<open>
  C36. A reconciliation of any of the four kinds ends, whatever the API server and OpenBao answer,
  after at most ten calls: two of them writes, so it never loops over a role it cannot settle.
\<close>

theorem role_runs_end:
  "callsBounded 10 R1 passwordPolicyKind \<and> callsBounded 10 R2 kubernetesAuthRoleKind \<and>
   callsBounded 10 R3 tokenRoleKind \<and> callsBounded 10 R4 appRoleKind"
  by (intro conjI named_callsBounded)

section \<open>Lists that are no longer given\<close>

lemma tokenRole_cleared:
  assumes "desiredTokenRoleRequest role = Inr d" "elems (trs_AllowedPolicies (tro_Spec role)) = []"
  shows "tokenRoleMatches d m \<Longrightarrow> elems (tk_AllowedPolicies m) = []"
    and "\<exists>fs. encTokenRoleRequest d = JObj fs \<and> fieldValues fs ''allowed_policies'' = []"
proof -
  show "elems (tk_AllowedPolicies m) = []" if "tokenRoleMatches d m"
    using that assms(2) sameValues_nil unfolding tokenRole_matches_iff [OF assms(1)] tokenRoleAgrees_def by blast
  have "tq_AllowedPolicies d = None"
    using assms by (auto simp: desiredTokenRoleRequest_def Let_def andThen_eq_Inr normalizedTokenRoleValuesForComparison_def
        Compact_def append_nil_def dest!: normalized_values(2))
  then show "\<exists>fs. encTokenRoleRequest d = JObj fs \<and> fieldValues fs ''allowed_policies'' = []"
    by (simp add: encTokenRoleRequest_def fieldValues_simps EqualFold_def role_names_lower elems_def)
qed

lemma appRole_cleared:
  assumes "desiredAppRoleRequest role = Inr d" "elems (ars_TokenPolicies (aro_Spec role)) = []"
  shows "appRoleMatches d (m\<lparr>ap_TokenPolicies := p, ap_Policies := q\<rparr>) = appRoleMatches d m"
    and "\<exists>fs. encAppRoleRequest d = JObj fs \<and> fieldValues fs ''token_policies'' = []"
proof -
  show "appRoleMatches d (m\<lparr>ap_TokenPolicies := p, ap_Policies := q\<rparr>) = appRoleMatches d m"
    using assms(2) by (simp add: appRole_matches_iff [OF assms(1)] appRoleAgrees_def)
  have "aq_TokenPolicies d = None"
    using assms by (auto simp: desiredAppRoleRequest_def Let_def andThen_eq_Inr normalizedAppRoleValuesForComparison_def
        Compact_def append_nil_def dest!: normalized_values(3))
  then show "\<exists>fs. encAppRoleRequest d = JObj fs \<and> fieldValues fs ''token_policies'' = []"
    by (simp add: encAppRoleRequest_def fieldValues_simps EqualFold_def role_names_lower elems_def)
qed


definition exampleOpenTokenRole :: OpenBaoTokenRole where
  "exampleOpenTokenRole = exampleTokenRole\<lparr>tro_Spec := (tro_Spec exampleTokenRole)\<lparr>trs_AllowedPolicies := None\<rparr>\<rparr>"


end
