(* ===== verification/GroupAliasController.thy ===== *)
theory GroupAliasController
  imports Observing Endpoints
begin

text \<open>
  \<^verbatim>\<open>openbaogroupalias_controller.go\<close> and \<^verbatim>\<open>group_aliases.go\<close> with
  the types of \<^verbatim>\<open>openbaogroupalias_types.go\<close>: the alias of an external group.  It
  follows the entity alias, but takes the first alias of its name and mount accessor that it finds,
  and sends the whole request on an update.
\<close>

section \<open>Types\<close>

record OpenBaoGroupAliasSpec =
  gas_ConnectionRef :: OpenBaoConnectionReference
  gas_GroupRef :: OpenBaoGroupReference
  gas_MountAccessor :: string
  gas_Name :: string
  gas_CreationPolicy :: CreationPolicy
  gas_DeletionPolicy :: DeletionPolicy
  gas_DriftDetectionInterval :: "int option"

record OpenBaoGroupAliasStatus =
  gat_ID :: string
  gat_CanonicalID :: string
  gat_Name :: string
  gat_MountAccessor :: string
  gat_ObservedGeneration :: int
  gat_Conditions :: "Condition list"

record OpenBaoGroupAlias = ObjectMeta +
  gao_Spec :: OpenBaoGroupAliasSpec
  gao_Status :: OpenBaoGroupAliasStatus


record GroupAlias =
  gl_ID :: string
  gl_Name :: string
  gl_MountAccessor :: string
  gl_CanonicalID :: string

record GroupAliasRequest =
  glr_Name :: string
  glr_MountAccessor :: string
  glr_CanonicalID :: string

record 's GroupAliasClient =
  ListGroupAliasIDs :: "('s, go_error + string list) state"
  GetGroupAliasByID :: "string \<Rightarrow> ('s, go_error + GroupAlias option) state"
  CreateGroupAlias :: "GroupAliasRequest \<Rightarrow> ('s, go_error + string) state"
  UpdateGroupAlias :: "string \<Rightarrow> GroupAliasRequest \<Rightarrow> ('s, go_error + GroupAlias option) state"
  DeleteGroupAlias :: "string \<Rightarrow> ('s, go_error option) state"

record 's GroupAliasReconciler =
  ga_Lib :: KubeLib
  ga_Aliases :: "('s, OpenBaoGroupAlias) KubeAPI"
  ga_Groups :: "('s, OpenBaoGroup) KubeAPI"
  ga_Connections :: "('s, OpenBaoConnection) KubeAPI"
  ga_Now :: "('s, int) state"
  ga_NewClient :: "(OpenBaoConnection \<Rightarrow> ('s, go_error + 's GroupAliasClient) state) option"
  ga_ClientCache :: "(OpenBaoConnection \<Rightarrow> ('s, go_error + 's GroupAliasClient) state) option"
  ga_connectionClientFor :: "OpenBaoConnection \<Rightarrow> ('s, go_error + 's GroupAliasClient) state"

definition groupAliasAccess where
  "groupAliasAccess =
     \<lparr>sa_Status = gao_Status,
      sa_setStatus = (\<lambda>st ob. ob\<lparr>gao_Status := st\<rparr>),
      sa_Conditions = gat_Conditions,
      sa_setConditions = (\<lambda>cs st. st\<lparr>gat_Conditions := cs\<rparr>),
      sa_ObservedGeneration = gat_ObservedGeneration,
      sa_setObservedGeneration = (\<lambda>g st. st\<lparr>gat_ObservedGeneration := g\<rparr>)\<rparr>"

interpretation groupAliasStatus: status_object groupAliasAccess
  by unfold_locales (simp_all add: groupAliasAccess_def ObjectMeta.truncate_def)

section \<open>Helpers\<close>

definition desiredGroupAliasRequest :: "OpenBaoGroupAlias \<Rightarrow> string \<Rightarrow> GroupAliasRequest" where
  "desiredGroupAliasRequest alias groupID =
     \<lparr>glr_Name = gas_Name (gao_Spec alias), glr_MountAccessor = gas_MountAccessor (gao_Spec alias),
      glr_CanonicalID = groupID\<rparr>"

definition groupAliasMatches :: "GroupAliasRequest \<Rightarrow> GroupAlias \<Rightarrow> bool" where
  "groupAliasMatches desired current \<longleftrightarrow>
     gl_Name current = glr_Name desired \<and> gl_MountAccessor current = glr_MountAccessor desired \<and>
     gl_CanonicalID current = glr_CanonicalID desired"

definition observeGroupAliasStatus :: "OpenBaoGroupAlias \<Rightarrow> GroupAlias \<Rightarrow> OpenBaoGroupAlias" where
  "observeGroupAliasStatus alias observed = alias\<lparr>gao_Status := (gao_Status alias)
     \<lparr>gat_ID := gl_ID observed, gat_CanonicalID := gl_CanonicalID observed, gat_Name := gl_Name observed,
      gat_MountAccessor := gl_MountAccessor observed, gat_ObservedGeneration := om_Generation alias\<rparr>\<rparr>"

definition groupAliasDriftInterval :: "OpenBaoGroupAlias \<Rightarrow> int" where
  "groupAliasDriftInterval alias = (case gas_DriftDetectionInterval (gao_Spec alias) of
      None \<Rightarrow> defaultDriftCheck | Some d \<Rightarrow> d)"

definition groupAliasCreationPolicy :: "OpenBaoGroupAlias \<Rightarrow> CreationPolicy" where
  "groupAliasCreationPolicy alias =
     (if gas_CreationPolicy (gao_Spec alias) = '''' then CreationPolicyCreate else gas_CreationPolicy (gao_Spec alias))"

definition groupAliasDeletionPolicy :: "OpenBaoGroupAlias \<Rightarrow> DeletionPolicy" where
  "groupAliasDeletionPolicy alias =
     (if gas_DeletionPolicy (gao_Spec alias) = '''' then DeletionPolicyOrphan else gas_DeletionPolicy (gao_Spec alias))"

section \<open>The controller\<close>

definition clientFor_groupAlias ::
  "'s GroupAliasReconciler \<Rightarrow> OpenBaoConnection \<Rightarrow> ('s, go_error + 's GroupAliasClient) state" where
  "clientFor_groupAlias R connection =
     clientForWith (ga_NewClient R) (ga_ClientCache R) (ga_connectionClientFor R) connection"

definition dependencyFailure_groupAlias ::
  "'s GroupAliasReconciler \<Rightarrow> OpenBaoGroupAlias \<Rightarrow> go_error \<Rightarrow> ('s, outcome) state" where
  "dependencyFailure_groupAlias R alias err =
     dependencyFailureWith groupAliasAccess (ga_Now R) (k_StatusUpdate (ga_Aliases R)) alias err"

definition fail_groupAlias ::
  "'s GroupAliasReconciler \<Rightarrow> OpenBaoGroupAlias \<Rightarrow> string \<Rightarrow> go_error \<Rightarrow> ('s, outcome) state" where
  "fail_groupAlias R alias reason err =
     failWith groupAliasAccess (ga_Now R) (k_StatusUpdate (ga_Aliases R)) alias reason err"

definition setGroupAliasID :: "string \<Rightarrow> OpenBaoGroupAlias \<Rightarrow> OpenBaoGroupAlias" where
  "setGroupAliasID newID alias = alias\<lparr>gao_Status := (gao_Status alias)\<lparr>gat_ID := newID\<rparr>\<rparr>"

definition bearsGroupKey :: "OpenBaoGroupAlias \<Rightarrow> GroupAlias \<Rightarrow> bool" where
  "bearsGroupKey alias candidate \<longleftrightarrow>
     gl_Name candidate = gas_Name (gao_Spec alias) \<and> gl_MountAccessor candidate = gas_MountAccessor (gao_Spec alias)"

text \<open>The loop over the identifiers: the first alias of the name and accessor, if there is one.\<close>

fun scanGroupAliases ::
  "KubeLib \<Rightarrow> OpenBaoGroupAlias \<Rightarrow> 's GroupAliasClient \<Rightarrow> string list \<Rightarrow> ('s, go_error + GroupAlias option) state" where
  "scanGroupAliases L alias apiClient [] = ret (Inr None)"
| "scanGroupAliases L alias apiClient (i # ids) =
     (if i = '''' then scanGroupAliases L alias apiClient ids
      else do {
        r \<leftarrow> GetGroupAliasByID apiClient i;
        case r of
          Inl readErr \<Rightarrow>
            if isNotFound L readErr then scanGroupAliases L alias apiClient ids else ret (Inl readErr)
        | Inr None \<Rightarrow> scanGroupAliases L alias apiClient ids
        | Inr (Some candidate) \<Rightarrow>
            if \<not> bearsGroupKey alias candidate then scanGroupAliases L alias apiClient ids
            else ret (Inr (Some candidate))
      })"

definition createMissingGroupAlias ::
  "OpenBaoGroupAlias \<Rightarrow> string \<Rightarrow> 's GroupAliasClient
     \<Rightarrow> ('s, OpenBaoGroupAlias \<times> (go_error + GroupAlias option)) state" where
  "createMissingGroupAlias alias groupID apiClient =
     (if \<not> AllowsCreation (groupAliasCreationPolicy alias) then
        ret (alias, Inl (Errorf (''OpenBao group alias '' @ fmt_q (gas_Name (gao_Spec alias)) @
          '' does not exist and creationPolicy='' @ groupAliasCreationPolicy alias @
          '' does not allow creation'')))
      else do {
        c \<leftarrow> CreateGroupAlias apiClient (desiredGroupAliasRequest alias groupID);
        case c of
          Inl err \<Rightarrow> ret (alias, Inl err)
        | Inr newID \<Rightarrow>
            if newID = '''' then
              ret (alias, Inl (Errorf (''OpenBao returned an empty ID when creating group alias '' @
                fmt_q (gas_Name (gao_Spec alias)))))
            else do {
              g \<leftarrow> GetGroupAliasByID apiClient newID;
              ret (setGroupAliasID newID alias, g)
            }
      })"

text \<open>\<^verbatim>\<open>acquire\<close> calls itself once with the identifier cleared.\<close>

function acquire_groupAlias ::
  "KubeLib \<Rightarrow> OpenBaoGroupAlias \<Rightarrow> string \<Rightarrow> 's GroupAliasClient
     \<Rightarrow> ('s, OpenBaoGroupAlias \<times> (go_error + GroupAlias option)) state" where
  "acquire_groupAlias L alias groupID apiClient =
     (if gat_ID (gao_Status alias) \<noteq> '''' then do {
        r \<leftarrow> GetGroupAliasByID apiClient (gat_ID (gao_Status alias));
        case r of
          Inl err \<Rightarrow>
            if isNotFound L err then acquire_groupAlias L (setGroupAliasID '''' alias) groupID apiClient
            else ret (alias, Inl err)
        | Inr observed \<Rightarrow> ret (alias, Inr observed)
      } else do {
        l \<leftarrow> ListGroupAliasIDs apiClient;
        f \<leftarrow> (case l of
           Inl err \<Rightarrow> if isNotFound L err then ret (Inr None) else ret (Inl err)
         | Inr ids \<Rightarrow> scanGroupAliases L alias apiClient ids);
        case f of
          Inl err \<Rightarrow> ret (alias, Inl err)
        | Inr (Some candidate) \<Rightarrow>
            if \<not> AllowsAdoption (groupAliasCreationPolicy alias) then
              ret (alias, Inl (Errorf (''OpenBao group alias '' @ fmt_q (gas_Name (gao_Spec alias)) @
                '' already exists for mount accessor '' @ fmt_q (gas_MountAccessor (gao_Spec alias)) @
                ''; set creationPolicy to Adopt or CreateOrAdopt to manage it'')))
            else ret (setGroupAliasID (gl_ID candidate) alias, Inr (Some candidate))
        | Inr None \<Rightarrow> createMissingGroupAlias alias groupID apiClient
      })"
  by pat_completeness auto
termination
  by (relation "measure (\<lambda>(L, alias, i, c). length (gat_ID (gao_Status alias)))")
     (auto simp: setGroupAliasID_def)

declare acquire_groupAlias.simps [simp del]

definition stampGroupAlias :: "OpenBaoGroupAlias \<Rightarrow> OpenBaoGroupAlias" where
  "stampGroupAlias alias =
     alias\<lparr>gao_Status := (gao_Status alias)\<lparr>gat_ObservedGeneration := om_Generation alias\<rparr>\<rparr>"

definition reconcileDeletion_groupAlias ::
  "'s GroupAliasReconciler \<Rightarrow> OpenBaoGroupAlias \<Rightarrow> ('s, outcome) state" where
  "reconcileDeletion_groupAlias R alias =
     (if groupAliasDeletionPolicy alias \<noteq> DeletionPolicyDelete \<or> gat_ID (gao_Status alias) = '''' then do {
        e \<leftarrow> removeFinalizer (ga_Lib R) (k_Update (ga_Aliases R)) alias;
        ret (noRequeue, e)
      } else do {
        let before = gao_Status alias;
        let alias = stampGroupAlias alias;
        let cleanupFailed = recordCleanupFailure groupAliasAccess (ga_Now R) (k_StatusUpdate (ga_Aliases R)) alias before;
        r \<leftarrow> resolveConnection (ga_Connections R) (om_Namespace alias) (gas_ConnectionRef (gao_Spec alias));
        case r of
          Inl err \<Rightarrow> cleanupFailed reasonCleanupDependencyUnavailable
            (cleanupDependencyError ''OpenBaoConnection'' err)
        | Inr connection \<Rightarrow> do {
            c \<leftarrow> clientFor_groupAlias R connection;
            case c of
              Inl err \<Rightarrow> cleanupFailed reasonCleanupDependencyUnavailable
                (cleanupDependencyError ''OpenBaoConnection credentials'' err)
            | Inr apiClient \<Rightarrow> do {
                d \<leftarrow> DeleteGroupAlias apiClient (gat_ID (gao_Status alias));
                if case d of Some err \<Rightarrow> \<not> isNotFound (ga_Lib R) err | None \<Rightarrow> False
                then cleanupFailed ''CleanupFailed'' (the d)
                else do {
                  e \<leftarrow> removeFinalizer (ga_Lib R) (k_Update (ga_Aliases R)) alias;
                  ret (noRequeue, e)
                }
              }
          }
      })"

definition readyGroupAliasStatus :: "OpenBaoGroupAlias \<Rightarrow> GroupAlias \<Rightarrow> int \<Rightarrow> int \<Rightarrow> OpenBaoGroupAlias" where
  "readyGroupAliasStatus alias observed now1 now2 =
     (let alias = observeGroupAliasStatus alias observed
      in alias\<lparr>gao_Status := (gao_Status alias)\<lparr>gat_Conditions :=
           markReady (gat_Conditions (gao_Status alias)) (om_Generation alias)
             ''OpenBao group alias is reconciled'' now1 now2\<rparr>\<rparr>)"

definition groupAliasMismatch :: "OpenBaoGroupAlias \<Rightarrow> GroupAlias \<Rightarrow> go_error option" where
  "groupAliasMismatch alias observed =
     (if gl_Name observed \<noteq> '''' \<and> gl_Name observed \<noteq> gas_Name (gao_Spec alias) then
        Some (Errorf (''OpenBao group alias '' @ fmt_q (gat_ID (gao_Status alias)) @ '' is named '' @
          fmt_q (gl_Name observed) @ '', expected '' @ fmt_q (gas_Name (gao_Spec alias))))
      else if gl_MountAccessor observed \<noteq> '''' \<and> gl_MountAccessor observed \<noteq> gas_MountAccessor (gao_Spec alias) then
        Some (Errorf (''OpenBao group alias '' @ fmt_q (gat_ID (gao_Status alias)) @ '' uses mount accessor '' @
          fmt_q (gl_MountAccessor observed) @ '', expected '' @ fmt_q (gas_MountAccessor (gao_Spec alias))))
      else None)"

definition finish_groupAlias ::
  "'s GroupAliasReconciler \<Rightarrow> OpenBaoGroupAliasStatus \<Rightarrow> OpenBaoGroupAlias \<Rightarrow> GroupAlias \<Rightarrow> ('s, outcome) state" where
  "finish_groupAlias R before alias observed = do {
     t1 \<leftarrow> ga_Now R;
     t2 \<leftarrow> ga_Now R;
     let alias = readyGroupAliasStatus alias observed t1 t2;
     r \<leftarrow> updateStatusIfChanged (k_StatusUpdate (ga_Aliases R)) alias before (gao_Status alias);
     case r of
       Inl err \<Rightarrow> ret (noRequeue, Some err)
     | Inr alias \<Rightarrow> ret (requeueIn (groupAliasDriftInterval alias), None)
   }"

definition sync_groupAlias ::
  "'s GroupAliasReconciler \<Rightarrow> 's GroupAliasClient \<Rightarrow> OpenBaoGroupAliasStatus \<Rightarrow> OpenBaoGroupAlias \<Rightarrow> string
     \<Rightarrow> GroupAlias option \<Rightarrow> ('s, outcome) state" where
  "sync_groupAlias R apiClient before alias groupID acquired = (case acquired of
      None \<Rightarrow> fail_groupAlias R alias ''InvalidOpenBaoResponse''
        (Errorf (''OpenBao returned no group alias for '' @ fmt_q (gas_Name (gao_Spec alias))))
    | Some observed \<Rightarrow> (case groupAliasMismatch alias observed of
        Some err \<Rightarrow> fail_groupAlias R alias ''GroupAliasIdentityMismatch'' err
      | None \<Rightarrow> do {
          let desired = desiredGroupAliasRequest alias groupID;
          if groupAliasMatches desired observed then finish_groupAlias R before alias observed
          else do {
            u \<leftarrow> UpdateGroupAlias apiClient (gat_ID (gao_Status alias)) desired;
            case u of
              Inl err \<Rightarrow> fail_groupAlias R alias ''GroupAliasUpdateFailed'' err
            | Inr None \<Rightarrow> fail_groupAlias R alias ''InvalidOpenBaoResponse''
                (Errorf (''OpenBao returned no group alias after updating '' @ fmt_q (gat_ID (gao_Status alias))))
            | Inr (Some _) \<Rightarrow> do {
                g \<leftarrow> GetGroupAliasByID apiClient (gat_ID (gao_Status alias));
                case g of
                  Inl err \<Rightarrow> fail_groupAlias R alias ''GroupAliasReadFailed'' err
                | Inr None \<Rightarrow> nilPanic
                | Inr (Some observed) \<Rightarrow> finish_groupAlias R before alias observed
              }
          }
        }))"

definition reconcileActive_groupAlias ::
  "'s GroupAliasReconciler \<Rightarrow> OpenBaoGroupAliasStatus \<Rightarrow> OpenBaoGroupAlias \<Rightarrow> ('s, outcome) state" where
  "reconcileActive_groupAlias R before alias = do {
     let alias = stampGroupAlias alias;
     let ref = gas_ConnectionRef (gao_Spec alias);
     r \<leftarrow> resolveConnection (ga_Connections R) (om_Namespace alias) ref;
     case r of
       Inl err \<Rightarrow> dependencyFailure_groupAlias R alias
         (Wrapf (''read OpenBaoConnection '' @ om_Namespace alias @ ''/'' @ connref_Name ref) err)
     | Inr connection \<Rightarrow>
         if \<not> IsStatusConditionTrue (ga_Lib R) (cnst_Conditions (cn_Status connection)) conditionReady then
           dependencyFailure_groupAlias R alias
             (dependencyMessage ''OpenBaoConnection'' (ObjectKey connection) None)
         else do {
           let gref = gas_GroupRef (gao_Spec alias);
           e \<leftarrow> resolveGroup (ga_Groups R) (om_Namespace alias) gref;
           case e of
             Inl err \<Rightarrow> dependencyFailure_groupAlias R alias
               (Wrapf (''read OpenBaoGroup '' @ om_Namespace alias @ ''/'' @ grpref_Name gref) err)
           | Inr grp \<Rightarrow>
               if grs_Type (gr_Spec grp) \<noteq> OpenBaoGroupTypeExternal then
                 fail_groupAlias R alias ''InvalidGroupType''
                   (Errorf (''OpenBaoGroup '' @ om_Namespace grp @ ''/'' @ om_Name grp @ '' must have type External''))
               else if \<not> IsStatusConditionTrue (ga_Lib R) (grst_Conditions (gr_Status grp)) conditionReady \<or> grst_ID (gr_Status grp) = '''' then
                 dependencyFailure_groupAlias R alias (dependencyMessage ''OpenBaoGroup'' (ObjectKey grp) None)
               else do {
                 c \<leftarrow> clientFor_groupAlias R connection;
                 case c of
                   Inl err \<Rightarrow> dependencyFailure_groupAlias R alias err
                 | Inr apiClient \<Rightarrow> do {
                     (alias, a) \<leftarrow> acquire_groupAlias (ga_Lib R) alias (grst_ID (gr_Status grp)) apiClient;
                     case a of
                       Inl err \<Rightarrow> fail_groupAlias R alias ''GroupAliasAcquireFailed'' err
                     | Inr observed \<Rightarrow> sync_groupAlias R apiClient before alias (grst_ID (gr_Status grp)) observed
                   }
               }
         }
   }"

definition Reconcile_groupAlias :: "'s GroupAliasReconciler \<Rightarrow> NamespacedName \<Rightarrow> ('s, outcome) state" where
  "Reconcile_groupAlias R req = do {
     r \<leftarrow> k_Get (ga_Aliases R) req;
     case r of
       Inl err \<Rightarrow>
         if apierrors_IsNotFound (ga_Lib R) err then ret (noRequeue, None)
         else ret (noRequeue, Some err)
     | Inr alias \<Rightarrow> do {
         let before = gao_Status alias;
         f \<leftarrow> (if notDeleted alias \<and> IsDelete (groupAliasDeletionPolicy alias)
              then ensureFinalizer (ga_Lib R) (k_Update (ga_Aliases R)) alias
              else ret (Inr alias));
         case f of
           Inl err \<Rightarrow> ret (noRequeue, Some err)
         | Inr alias \<Rightarrow>
             if \<not> notDeleted alias then reconcileDeletion_groupAlias R alias
             else reconcileActive_groupAlias R before alias
       }
   }"

definition mapConnectionToAliases_group ::
  "'s GroupAliasReconciler \<Rightarrow> 'a ObjectMeta_scheme \<Rightarrow> ('s, NamespacedName list) state" where
  "mapConnectionToAliases_group R obj = do {
     r \<leftarrow> k_List (ga_Aliases R) (om_Namespace obj);
     ret (case r of Inl _ \<Rightarrow> []
       | Inr items \<Rightarrow> map ObjectKey
           (filter (\<lambda>alias. connref_Name (gas_ConnectionRef (gao_Spec alias)) = om_Name obj) items))
   }"

definition mapGroupToAliases ::
  "'s GroupAliasReconciler \<Rightarrow> 'a ObjectMeta_scheme \<Rightarrow> ('s, NamespacedName list) state" where
  "mapGroupToAliases R obj = do {
     r \<leftarrow> k_List (ga_Aliases R) (om_Namespace obj);
     ret (case r of Inl _ \<Rightarrow> []
       | Inr items \<Rightarrow> map ObjectKey
           (filter (\<lambda>alias. grpref_Name (gas_GroupRef (gao_Spec alias)) = om_Name obj) items))
   }"

section \<open>group\_aliases.go\<close>

definition groupAliasPathSegment :: string where "groupAliasPathSegment = ''group-alias''"

definition zeroGroupAlias :: GroupAlias where
  "zeroGroupAlias = \<lparr>gl_ID = '''', gl_Name = '''', gl_MountAccessor = '''', gl_CanonicalID = ''''\<rparr>"

definition decGroupAlias :: "GroupAlias decoder" where
  "decGroupAlias = decStruct ''GroupAlias'' (\<lambda>fs x.
     andThen (field fs ''id'' decString (gl_ID x)) (\<lambda>i.
     andThen (field fs ''name'' decString (gl_Name x)) (\<lambda>n.
     andThen (field fs ''mount_accessor'' decString (gl_MountAccessor x)) (\<lambda>m.
     andThen (field fs ''canonical_id'' decString (gl_CanonicalID x)) (\<lambda>ca.
     Inr \<lparr>gl_ID = i, gl_Name = n, gl_MountAccessor = m, gl_CanonicalID = ca\<rparr>)))))"

definition encGroupAliasRequest :: "GroupAliasRequest \<Rightarrow> Json" where
  "encGroupAliasRequest r = JObj (omitempty ''name'' (glr_Name r) @
     omitempty ''mount_accessor'' (glr_MountAccessor r) @ omitempty ''canonical_id'' (glr_CanonicalID r))"

definition Client_CreateGroupAlias ::
  "'s Client \<Rightarrow> GroupAliasRequest \<Rightarrow> (TokenState \<times> 's, go_error + string) state" where
  "Client_CreateGroupAlias c request =
     doPath c ''POST'' (identityPathSegment @ ''/'' @ groupAliasPathSegment) (Some (encGroupAliasRequest request))
       (apiResponse '''' decID) []"

definition Client_ListGroupAliasIDs :: "'s Client \<Rightarrow> (TokenState \<times> 's, go_error + string list) state" where
  "Client_ListGroupAliasIDs c = do {
     r \<leftarrow> doSegmentsQuery c ''GET'' [identityPathSegment, groupAliasPathSegment, ''id''] listQuery None
            (apiResponse None decKeys) [];
     ret (map_sum id elems r)
   }"

definition Client_GetGroupAliasByID ::
  "'s Client \<Rightarrow> string \<Rightarrow> (TokenState \<times> 's, go_error + GroupAlias option) state" where
  "Client_GetGroupAliasByID c i = do {
     r \<leftarrow> doSegments c ''GET'' [identityPathSegment, groupAliasPathSegment, ''id'', i] None
            (apiResponse zeroGroupAlias decGroupAlias) [];
     ret (map_sum id (\<lambda>a. Some (a\<lparr>gl_ID := firstNonEmpty (gl_ID a) i\<rparr>)) r)
   }"

definition Client_UpdateGroupAlias ::
  "'s Client \<Rightarrow> string \<Rightarrow> GroupAliasRequest \<Rightarrow> (TokenState \<times> 's, go_error + GroupAlias option) state" where
  "Client_UpdateGroupAlias c i request = do {
     r \<leftarrow> doSegments c ''POST'' [identityPathSegment, groupAliasPathSegment, ''id'', i]
            (Some (encGroupAliasRequest request)) (apiResponse zeroGroupAlias decGroupAlias) [];
     ret (map_sum id (\<lambda>a. Some (a\<lparr>gl_ID := firstNonEmpty (gl_ID a) i\<rparr>)) r)
   }"

definition Client_DeleteGroupAlias :: "'s Client \<Rightarrow> string \<Rightarrow> (TokenState \<times> 's, go_error option) state" where
  "Client_DeleteGroupAlias c i = do {
     r \<leftarrow> doSegments c ''DELETE'' [identityPathSegment, groupAliasPathSegment, ''id'', i] None nilTarget [];
     ret (errOnly r)
   }"

definition groupAliasClient_http :: "'s Client \<Rightarrow> (TokenState \<times> 's) GroupAliasClient" where
  "groupAliasClient_http c = \<lparr>ListGroupAliasIDs = Client_ListGroupAliasIDs c,
     GetGroupAliasByID = Client_GetGroupAliasByID c, CreateGroupAlias = Client_CreateGroupAlias c,
     UpdateGroupAlias = Client_UpdateGroupAlias c, DeleteGroupAlias = Client_DeleteGroupAlias c\<rparr>"

end
