(* ===== verification/GroupAliasProperties.thy ===== *)
theory GroupAliasProperties
  imports GroupAliasController
begin

text \<open>
  What a reconciliation of a group alias may do, for every behaviour of the API server and of OpenBao.
  The run works on \<open>workGA i ob\<close>: the alias \<open>ob\<close> as it was read, with the observed generation
  and the identifier set.
\<close>

section \<open>Observing a run\<close>

datatype GroupAliasEvent =
    GGroupAlias "OpenBaoGroupAlias KubeEvent"
  | GConnection "OpenBaoConnection KubeEvent"
  | GGroup "OpenBaoGroup KubeEvent"
  | MadeGroupAliasClient OpenBaoConnection "go_error option"
  | ListedGroupAliases "go_error + string list"
  | GotGroupAlias string "go_error + GroupAlias option"
  | CreatedGroupAlias GroupAliasRequest "go_error + string"
  | UpdatedGroupAlias string GroupAliasRequest "go_error + GroupAlias option"
  | DeletedGroupAlias string "go_error option"

definition logGroupAliasClient :: "'s GroupAliasClient \<Rightarrow> ('s \<times> GroupAliasEvent list) GroupAliasClient" where
  "logGroupAliasClient c =
     \<lparr>ListGroupAliasIDs = logged ListedGroupAliases (ListGroupAliasIDs c),
      GetGroupAliasByID = (\<lambda>i. logged (GotGroupAlias i) (GetGroupAliasByID c i)),
      CreateGroupAlias = (\<lambda>q. logged (CreatedGroupAlias q) (CreateGroupAlias c q)),
      UpdateGroupAlias = (\<lambda>i q. logged (UpdatedGroupAlias i q) (UpdateGroupAlias c i q)),
      DeleteGroupAlias = (\<lambda>i. logged (DeletedGroupAlias i) (DeleteGroupAlias c i))\<rparr>"

lemma logGroupAliasClient_sel [simp]:
  "ListGroupAliasIDs (logGroupAliasClient c) = logged ListedGroupAliases (ListGroupAliasIDs c)"
  "GetGroupAliasByID (logGroupAliasClient c) i = logged (GotGroupAlias i) (GetGroupAliasByID c i)"
  "CreateGroupAlias (logGroupAliasClient c) q = logged (CreatedGroupAlias q) (CreateGroupAlias c q)"
  "UpdateGroupAlias (logGroupAliasClient c) i q = logged (UpdatedGroupAlias i q) (UpdateGroupAlias c i q)"
  "DeleteGroupAlias (logGroupAliasClient c) i = logged (DeletedGroupAlias i) (DeleteGroupAlias c i)"
  by (simp_all add: logGroupAliasClient_def)

definition logGroupAliasReconciler :: "'s GroupAliasReconciler \<Rightarrow> ('s \<times> GroupAliasEvent list) GroupAliasReconciler" where
  "logGroupAliasReconciler R =
     \<lparr>ga_Lib = ga_Lib R, ga_Aliases = logKube GGroupAlias (ga_Aliases R),
      ga_Groups = logKube GGroup (ga_Groups R),
      ga_Connections = logKube GConnection (ga_Connections R), ga_Now = silent (ga_Now R),
      ga_NewClient = map_option (logClientFor MadeGroupAliasClient logGroupAliasClient) (ga_NewClient R),
      ga_ClientCache = map_option (logClientFor MadeGroupAliasClient logGroupAliasClient) (ga_ClientCache R),
      ga_connectionClientFor = logClientFor MadeGroupAliasClient logGroupAliasClient (ga_connectionClientFor R)\<rparr>"

lemma logGroupAliasReconciler_sel [simp]:
  "ga_Lib (logGroupAliasReconciler R) = ga_Lib R"
  "ga_Groups (logGroupAliasReconciler R) = logKube GGroup (ga_Groups R)"
  "ga_Aliases (logGroupAliasReconciler R) = logKube GGroupAlias (ga_Aliases R)"
  "ga_Connections (logGroupAliasReconciler R) = logKube GConnection (ga_Connections R)"
  "ga_Now (logGroupAliasReconciler R) = silent (ga_Now R)"
  by (simp_all add: logGroupAliasReconciler_def)

lemma wp_clientFor_groupAliasI:
  assumes "\<And>e s'. Q (Inl e) (s', tr @ [MadeGroupAliasClient connection (Some e)])"
    and "\<And>c s'. Q (Inr (logGroupAliasClient c)) (s', tr @ [MadeGroupAliasClient connection None])"
  shows "wp (clientFor_groupAlias (logGroupAliasReconciler R) connection) Q (s, tr)"
  unfolding clientFor_groupAlias_def logGroupAliasReconciler_def GroupAliasReconciler.simps
  by (intro wp_clientForWithI assms)

definition groupAlias_trace :: "'s GroupAliasReconciler \<Rightarrow> NamespacedName \<Rightarrow> 's \<Rightarrow> GroupAliasEvent list" where
  "groupAlias_trace R req s = snd (snd (run_state (Reconcile_groupAlias (logGroupAliasReconciler R) req) (s, [])))"

section \<open>What justifies a call\<close>

definition wantsGroupAliasDeletion :: "OpenBaoGroupAlias \<Rightarrow> bool" where
  "wantsGroupAliasDeletion ob \<longleftrightarrow> IsDelete (groupAliasDeletionPolicy ob)"

text \<open>The external group the resource refers to, read in this run, ready, with the identifier \<open>cid\<close>.\<close>

definition readyGroup :: "KubeLib \<Rightarrow> GroupAliasEvent list \<Rightarrow> OpenBaoGroupAlias \<Rightarrow> string \<Rightarrow> bool" where
  "readyGroup L pre ob cid \<longleftrightarrow> cid \<noteq> '''' \<and>
     (\<exists>grp. GGroup (GotObject (om_Namespace ob, grpref_Name (gas_GroupRef (gao_Spec ob))) (Inr grp)) \<in> set pre \<and>
        grs_Type (gr_Spec grp) = OpenBaoGroupTypeExternal \<and> grst_ID (gr_Status grp) = cid \<and>
        IsStatusConditionTrue L (grst_Conditions (gr_Status grp)) conditionReady)"

definition activeGroupAlias :: "KubeLib \<Rightarrow> GroupAliasEvent list \<Rightarrow> OpenBaoGroupAlias \<Rightarrow> string \<Rightarrow> bool" where
  "activeGroupAlias L pre ob cid \<longleftrightarrow>
     live L GGroupAlias GConnection wantsGroupAliasDeletion pre ob \<and> readyGroup L pre ob cid"

definition workGA :: "string \<Rightarrow> OpenBaoGroupAlias \<Rightarrow> OpenBaoGroupAlias" where
  "workGA i ob = setGroupAliasID i (stampGroupAlias ob)"

abbreviation recordedGA :: "OpenBaoGroupAlias \<Rightarrow> string" where
  "recordedGA ob \<equiv> gat_ID (gao_Status ob)"

text \<open>An answer that shows the alias \<open>i\<close> not to be the one of the resource.\<close>

fun otherGroupAlias :: "KubeLib \<Rightarrow> OpenBaoGroupAlias \<Rightarrow> string \<Rightarrow> GroupAliasEvent \<Rightarrow> bool" where
  "otherGroupAlias L ob i (GotGroupAlias j (Inl err)) \<longleftrightarrow> j = i \<and> isNotFound L err"
| "otherGroupAlias L ob i (GotGroupAlias j (Inr None)) \<longleftrightarrow> j = i"
| "otherGroupAlias L ob i (GotGroupAlias j (Inr (Some p))) \<longleftrightarrow> j = i \<and> \<not> bearsGroupKey ob p"
| "otherGroupAlias L ob i e \<longleftrightarrow> False"

text \<open>No alias is recorded, or the recorded one is gone.\<close>

definition unrecordedGA :: "KubeLib \<Rightarrow> GroupAliasEvent list \<Rightarrow> OpenBaoGroupAlias \<Rightarrow> bool" where
  "unrecordedGA L pre ob \<longleftrightarrow> recordedGA ob = '''' \<or>
     (\<exists>err. GotGroupAlias (recordedGA ob) (Inl err) \<in> set pre \<and> isNotFound L err)"

definition searchedGroupAlias :: "KubeLib \<Rightarrow> GroupAliasEvent list \<Rightarrow> OpenBaoGroupAlias \<Rightarrow> bool" where
  "searchedGroupAlias L pre ob \<longleftrightarrow>
     (\<exists>err. ListedGroupAliases (Inl err) \<in> set pre \<and> isNotFound L err) \<or>
     (\<exists>ids. ListedGroupAliases (Inr ids) \<in> set pre \<and>
        (\<forall>i. i \<in> set ids \<and> i \<noteq> '''' \<longrightarrow> list_ex (otherGroupAlias L ob i) pre))"

text \<open>
  The alias \<open>i\<close> is recorded, was created in this run for the group \<open>cid\<close>, or is the one that the
  search found.
\<close>

definition ownsGroupAlias ::
  "KubeLib \<Rightarrow> GroupAliasEvent list \<Rightarrow> OpenBaoGroupAlias \<Rightarrow> string \<Rightarrow> string \<Rightarrow> bool" where
  "ownsGroupAlias L pre ob cid i \<longleftrightarrow>
     (i \<noteq> '''' \<and> i = recordedGA ob) \<or>
     unrecordedGA L pre ob \<and>
       (i \<noteq> '''' \<and> CreatedGroupAlias (desiredGroupAliasRequest ob cid) (Inr i) \<in> set pre \<or>
        AllowsAdoption (groupAliasCreationPolicy ob) \<and>
          (\<exists>j p. GotGroupAlias j (Inr (Some p)) \<in> set pre \<and> bearsGroupKey ob p \<and> gl_ID p = i))"

definition observedGA :: "GroupAliasEvent list \<Rightarrow> string \<Rightarrow> GroupAlias option \<Rightarrow> bool" where
  "observedGA pre i p \<longleftrightarrow> GotGroupAlias i (Inr p) \<in> set pre \<or>
     (\<exists>j x. p = Some x \<and> gl_ID x = i \<and> GotGroupAlias j (Inr p) \<in> set pre)"

fun groupAliasCreate :: "GroupAliasEvent \<Rightarrow> bool" where
  "groupAliasCreate (CreatedGroupAlias q r) \<longleftrightarrow> True"
| "groupAliasCreate e \<longleftrightarrow> False"

fun groupAliasUpdate :: "GroupAliasEvent \<Rightarrow> bool" where
  "groupAliasUpdate (UpdatedGroupAlias i q r) \<longleftrightarrow> True"
| "groupAliasUpdate e \<longleftrightarrow> False"

text \<open>The alias was read and matches, or an update was accepted and the alias read again.\<close>

definition settledGroupAlias ::
  "GroupAliasEvent list \<Rightarrow> OpenBaoGroupAlias \<Rightarrow> string \<Rightarrow> string \<Rightarrow> GroupAlias \<Rightarrow> bool" where
  "settledGroupAlias pre ob cid i p \<longleftrightarrow>
     (observedGA pre i (Some p) \<and> groupAliasMatches (desiredGroupAliasRequest ob cid) p) \<or>
     ((\<exists>x. UpdatedGroupAlias i (desiredGroupAliasRequest ob cid) (Inr (Some x)) \<in> set pre) \<and>
        GotGroupAlias i (Inr (Some p)) \<in> set pre)"

fun goneGroupAlias :: "KubeLib \<Rightarrow> string \<Rightarrow> GroupAliasEvent \<Rightarrow> bool" where
  "goneGroupAlias L i (DeletedGroupAlias j d) \<longleftrightarrow> j = i \<and> confirmedGone L d"
| "goneGroupAlias L i e \<longleftrightarrow> False"

definition clearedGroupAlias :: "KubeLib \<Rightarrow> GroupAliasEvent list \<Rightarrow> OpenBaoGroupAlias \<Rightarrow> bool" where
  "clearedGroupAlias L pre ob \<longleftrightarrow> groupAliasDeletionPolicy ob \<noteq> DeletionPolicyDelete \<or>
     recordedGA ob = '''' \<or> list_ex (goneGroupAlias L (recordedGA ob)) pre"

fun groupAlias_justified :: "KubeLib \<Rightarrow> GroupAliasEvent list \<Rightarrow> GroupAliasEvent \<Rightarrow> bool" where
  "groupAlias_justified L pre (CreatedGroupAlias q r) \<longleftrightarrow>
     (\<exists>ob cid. activeGroupAlias L pre ob cid \<and> q = desiredGroupAliasRequest ob cid \<and>
        AllowsCreation (groupAliasCreationPolicy ob) \<and>
        unrecordedGA L pre ob \<and> searchedGroupAlias L pre ob \<and> \<not> list_ex groupAliasCreate pre)"
| "groupAlias_justified L pre (UpdatedGroupAlias i q r) \<longleftrightarrow>
     (\<exists>ob cid p. activeGroupAlias L pre ob cid \<and> q = desiredGroupAliasRequest ob cid \<and> ownsGroupAlias L pre ob cid i \<and>
        observedGA pre i (Some p) \<and> groupAliasMismatch ob p = None \<and>
        \<not> groupAliasMatches q p \<and> \<not> list_ex groupAliasUpdate pre)"
| "groupAlias_justified L pre (DeletedGroupAlias i r) \<longleftrightarrow>
     (\<exists>ob. seen GGroupAlias pre ob \<and> \<not> notDeleted ob \<and> groupAliasDeletionPolicy ob = DeletionPolicyDelete \<and>
        i = recordedGA ob \<and> i \<noteq> '''')"
| "groupAlias_justified L pre (GGroupAlias (UpdatedObject ob r)) \<longleftrightarrow>
     finalizerWrite L GGroupAlias wantsGroupAliasDeletion (clearedGroupAlias L pre) pre ob"
| "groupAlias_justified L pre (GGroupAlias (UpdatedStatus st r)) \<longleftrightarrow>
     (readyTrue (gat_Conditions (gao_Status st)) \<longrightarrow>
        (\<exists>ob cid i p t1 t2. activeGroupAlias L pre ob cid \<and> ownsGroupAlias L pre ob cid i \<and>
           settledGroupAlias pre ob cid i p \<and> st = readyGroupAliasStatus (workGA i ob) p t1 t2))"
| "groupAlias_justified L pre e \<longleftrightarrow> True"

section \<open>Rules\<close>

lemma activeGroupAlias_mono [simp]: "activeGroupAlias L pre ob cid \<Longrightarrow> activeGroupAlias L (pre @ es) ob cid"
  by (auto simp: activeGroupAlias_def readyGroup_def)

lemma ownsGroupAlias_mono [simp]: "ownsGroupAlias L pre ob cid i \<Longrightarrow> ownsGroupAlias L (pre @ es) ob cid i"
  by (auto simp: ownsGroupAlias_def unrecordedGA_def)

lemma workGA_simps [simp]:
  "gao_Spec (workGA i ob) = gao_Spec ob" "gat_ID (gao_Status (workGA i ob)) = i"
  "om_Name (workGA i ob) = om_Name ob" "om_Namespace (workGA i ob) = om_Namespace ob"
  "setGroupAliasID j (workGA i ob) = workGA j ob"
  "desiredGroupAliasRequest (workGA i ob) = desiredGroupAliasRequest ob"
  "groupAliasCreationPolicy (workGA i ob) = groupAliasCreationPolicy ob"
  "bearsGroupKey (workGA i ob) = bearsGroupKey ob"
  by (simp_all add: workGA_def setGroupAliasID_def stampGroupAlias_def desiredGroupAliasRequest_def
      groupAliasCreationPolicy_def bearsGroupKey_def fun_eq_iff)

lemma mismatch_workGA: "groupAliasMismatch (workGA i ob) p = None \<longleftrightarrow> groupAliasMismatch ob p = None"
  by (simp add: groupAliasMismatch_def)

lemma stampGroupAlias_workGA: "stampGroupAlias ob = workGA (recordedGA ob) ob"
  by (simp add: workGA_def setGroupAliasID_def stampGroupAlias_def)

lemma scanGroupAliases_workGA: "scanGroupAliases L (workGA i ob) c ids = scanGroupAliases L ob c ids"
  by (induction ids) (simp_all cong: if_cong)

abbreviation groupAlias_ok :: "KubeLib \<Rightarrow> GroupAliasEvent list \<Rightarrow> bool" where
  "groupAlias_ok L tr \<equiv> guarded (groupAlias_justified L) tr"

lemma groupAlias_notReady:
  "\<not> readyTrue (sa_Conditions groupAliasAccess (sa_Status groupAliasAccess ob)) \<Longrightarrow>
     groupAlias_justified L pre (GGroupAlias (UpdatedStatus ob r))"
  by (simp add: groupAliasAccess_def)

lemma groupAlias_reads:
  "groupAlias_justified L pre (GGroupAlias (GotObject nn g))" "groupAlias_justified L pre (GConnection k)"
  "groupAlias_justified L pre (GGroup h)"
  "groupAlias_justified L pre (MadeGroupAliasClient c e)" "groupAlias_justified L pre (ListedGroupAliases l)"
  "groupAlias_justified L pre (GotGroupAlias i q)"
  by simp_all

lemma groupAlias_failures:
  "groupAlias_ok L tr \<Longrightarrow> wp (fail_groupAlias (logGroupAliasReconciler R) ob reason err) (\<lambda>_ (s', tr'). groupAlias_ok L tr') (s, tr)"
  "groupAlias_ok L tr \<Longrightarrow> wp (dependencyFailure_groupAlias (logGroupAliasReconciler R) ob err) (\<lambda>_ (s', tr'). groupAlias_ok L tr') (s, tr)"
  "groupAlias_ok L tr \<Longrightarrow> wp (recordCleanupFailure groupAliasAccess (silent now) (k_StatusUpdate (logKube GGroupAlias K)) ob before reason err)
     (\<lambda>_ (s', tr'). groupAlias_ok L tr') (s, tr)"
  unfolding fail_groupAlias_def dependencyFailure_groupAlias_def logGroupAliasReconciler_sel
  by (rule groupAliasStatus.wp_fail_guarded groupAliasStatus.wp_dependencyFailure_guarded groupAliasStatus.wp_cleanupFailure_guarded;
      (assumption | erule groupAlias_notReady))+

section \<open>Acquisition\<close>

text \<open>The search only reads, and finds the first alias of the key or shows that there is none.\<close>

definition scannedGroupAliases ::
  "KubeLib \<Rightarrow> OpenBaoGroupAlias \<Rightarrow> string list \<Rightarrow> GroupAliasEvent list \<Rightarrow> go_error + GroupAlias option \<Rightarrow> bool" where
  "scannedGroupAliases L ob ids es r \<longleftrightarrow> (\<forall>e \<in> set es. \<exists>i a. e = GotGroupAlias i a) \<and>
     (case r of
        Inr (Some p) \<Rightarrow> (\<exists>j. GotGroupAlias j (Inr (Some p)) \<in> set es) \<and> bearsGroupKey ob p
      | Inr None \<Rightarrow> (\<forall>i. i \<in> set ids \<and> i \<noteq> '''' \<longrightarrow> list_ex (otherGroupAlias L ob i) es)
      | _ \<Rightarrow> True)"

lemma scannedGA_Cons:
  assumes "scannedGroupAliases L ob ids es r" "otherGroupAlias L ob i (GotGroupAlias i a)"
  shows "scannedGroupAliases L ob (i # ids) (GotGroupAlias i a # es) r"
  using assms unfolding scannedGroupAliases_def by (auto split: option.splits sum.splits)

lemma wp_scanGroupAliasesI:
  assumes "\<And>r es s'. scannedGroupAliases L ob ids es r \<Longrightarrow> Q r (s', tr @ es)"
  shows "wp (scanGroupAliases L ob (logGroupAliasClient c) ids) Q (s, tr)"
  using assms
proof (induction ids arbitrary: s tr Q)
  case Nil
  then show ?case using Nil [of "[]" "Inr None"] by (simp add: wp_simps scannedGroupAliases_def)
next
  case (Cons i ids)
  show ?case
  proof (cases "i = ''''")
    case True
    have "scannedGroupAliases L ob (i # ids) es r" if "scannedGroupAliases L ob ids es r" for es r
      using that True by (auto simp: scannedGroupAliases_def split: option.splits sum.splits)
    then show ?thesis using True Cons by simp
  next
    case False
    have next_one: "wp (scanGroupAliases L ob (logGroupAliasClient c) ids) Q (s', tr @ [GotGroupAlias i a])"
      if "otherGroupAlias L ob i (GotGroupAlias i a)" for a s'
    proof (rule Cons.IH)
      fix r es s'
      assume "scannedGroupAliases L ob ids es r"
      then show "Q r (s', (tr @ [GotGroupAlias i a]) @ es)"
        using Cons.prems [OF scannedGA_Cons [OF _ that]] by simp
    qed
    have stop: "Q r (s', tr @ [GotGroupAlias i a])" if "scannedGroupAliases L ob (i # ids) [GotGroupAlias i a] r" for a r s'
      using Cons.prems [OF that] by simp
    show ?thesis
      unfolding scanGroupAliases.simps logGroupAliasClient_sel wp_simps if_not_P [OF False]
      by (rule wp_loggedI)
         (use False in \<open>auto split: sum.splits option.splits simp: wp_simps intro!: next_one stop
            simp: scannedGroupAliases_def\<close>)
  qed
qed

definition acquiredGroupAlias ::
  "KubeLib \<Rightarrow> OpenBaoGroupAlias \<Rightarrow> string \<Rightarrow> GroupAliasEvent list
     \<Rightarrow> OpenBaoGroupAlias \<times> (go_error + GroupAlias option) \<Rightarrow> bool" where
  "acquiredGroupAlias L ob cid tr r \<longleftrightarrow>
     groupAlias_ok L tr \<and> activeGroupAlias L tr ob cid \<and> \<not> list_ex groupAliasUpdate tr \<and>
     (case r of
        (st, Inr p) \<Rightarrow> (\<exists>i. st = workGA i ob \<and> ownsGroupAlias L tr ob cid i \<and> observedGA tr i p)
      | _ \<Rightarrow> True)"

lemma unrecordedGA_mono [simp]: "unrecordedGA L pre ob \<Longrightarrow> unrecordedGA L (pre @ es) ob"
  by (auto simp: unrecordedGA_def)

abbreviation onlyReadsGA :: "GroupAliasEvent list \<Rightarrow> bool" where
  "onlyReadsGA es \<equiv> \<forall>e \<in> set es. \<exists>i a. e = GotGroupAlias i a"

lemma onlyReadsGA_quiet:
  assumes "onlyReadsGA es"
  shows "guarded_from (groupAlias_justified L) pre es" "\<not> list_ex groupAliasUpdate es" "\<not> list_ex groupAliasCreate es"
  using assms by (induction es arbitrary: pre) auto

lemma acquiredGroupAlias_error:
  assumes "groupAlias_ok L tr" "activeGroupAlias L tr ob cid" "\<not> list_ex groupAliasUpdate tr"
  shows "acquiredGroupAlias L ob cid tr (st, Inl e)"
  using assms by (simp add: acquiredGroupAlias_def)

lemma acquiredGroupAlias_found:
  assumes "groupAlias_ok L tr" "activeGroupAlias L tr ob cid" "\<not> list_ex groupAliasUpdate tr"
    and "ownsGroupAlias L tr ob cid i" "\<And>p. g = Inr p \<Longrightarrow> observedGA tr i p"
  shows "acquiredGroupAlias L ob cid tr (workGA i ob, g)"
  using assms by (auto simp: acquiredGroupAlias_def split: sum.splits)

text \<open>A search that found nothing may be followed by a creation.\<close>

lemma createMissingGroupAlias_ok:
  assumes "groupAlias_ok L tr" "activeGroupAlias L tr ob cid" "\<not> list_ex groupAliasUpdate tr" "\<not> list_ex groupAliasCreate tr"
    and "unrecordedGA L tr ob" "searchedGroupAlias L tr ob"
  shows "wp (createMissingGroupAlias (workGA i ob) cid (logGroupAliasClient c))
           (\<lambda>r (s', tr'). acquiredGroupAlias L ob cid tr' r) (s, tr)"
proof -
  let ?q = "desiredGroupAliasRequest ob cid" let ?tr = "\<lambda>r. tr @ [CreatedGroupAlias ?q r]"
  have created: "groupAlias_ok L (?tr r)" if "AllowsCreation (groupAliasCreationPolicy ob)" for r
    using assms that by (auto simp: guarded_snoc)
  have failed: "acquiredGroupAlias L ob cid (?tr r) (st, Inl e)" if "AllowsCreation (groupAliasCreationPolicy ob)" for r st e
    by (rule acquiredGroupAlias_error [OF created [OF that]]) (use assms in simp_all)
  have read_back: "acquiredGroupAlias L ob cid (?tr (Inr j) @ [GotGroupAlias j g]) (workGA j ob, g)"
    if "AllowsCreation (groupAliasCreationPolicy ob)" "j \<noteq> ''''" for j g
    by (rule acquiredGroupAlias_found)
       (use assms created [OF that(1)] that(2) in
          \<open>auto simp: guarded_snoc ownsGroupAlias_def observedGA_def simp del: append_assoc\<close>)
  show ?thesis
    unfolding createMissingGroupAlias_def wp_simps logGroupAliasClient_sel workGA_simps
    using failed read_back acquiredGroupAlias_error [OF assms(1-3)]
    by (auto simp: wp_simps split: sum.splits simp del: append_assoc intro!: wp_loggedI)
qed

lemma acquire_groupAlias_noID:
  assumes "groupAlias_ok L tr" "activeGroupAlias L tr ob cid" "\<not> list_ex groupAliasUpdate tr" "\<not> list_ex groupAliasCreate tr"
    and "unrecordedGA L tr ob"
  shows "wp (acquire_groupAlias L (workGA '''' ob) cid (logGroupAliasClient c))
           (\<lambda>r (s', tr'). acquiredGroupAlias L ob cid tr' r) (s, tr)"
proof -
  let ?tr = "\<lambda>l es. tr @ ListedGroupAliases l # es"
  have base: "groupAlias_ok L (?tr l es)" "activeGroupAlias L (?tr l es) ob cid" "\<not> list_ex groupAliasUpdate (?tr l es)"
    "\<not> list_ex groupAliasCreate (?tr l es)" "unrecordedGA L (?tr l es) ob" if "onlyReadsGA es" for l es
    using assms onlyReadsGA_quiet [OF that] by (simp_all add: trace_simps)
  have adopt: "acquiredGroupAlias L ob cid (?tr l es) (workGA (gl_ID p) ob, Inr (Some p))"
    if "scannedGroupAliases L ob ids es (Inr (Some p))" "AllowsAdoption (groupAliasCreationPolicy ob)" for l ids es p
    by (rule acquiredGroupAlias_found [OF base(1-3)])
       (use that base(5) [of es l] in \<open>auto simp: ownsGroupAlias_def scannedGroupAliases_def observedGA_def\<close>)
  have unlisted: "searchedGroupAlias L (?tr (Inl e) []) ob" if "isNotFound L e" for e
    using that by (auto simp: searchedGroupAlias_def)
  have searched: "searchedGroupAlias L (?tr (Inr ids) es) ob" if "scannedGroupAliases L ob ids es (Inr None)" for ids es
    using that by (auto simp: searchedGroupAlias_def scannedGroupAliases_def)
  have quiet: "onlyReadsGA es" if "scannedGroupAliases L ob ids es r" for ids es r
    using that by (simp add: scannedGroupAliases_def)
  note errors = acquiredGroupAlias_error [OF base(1-3)]
  show ?thesis
  proof (subst acquire_groupAlias.simps, simp add: wp_simps scanGroupAliases_workGA, rule wp_loggedI, goal_cases)
    case (1 l s')
    then show ?case
    proof (cases l)
      case (Inl e)
      then show ?thesis
        using errors [of "[]"] createMissingGroupAlias_ok [OF base [of "[]"] unlisted] by (auto simp: wp_simps)
    next
      case (Inr ids)
      have absent: "wp (createMissingGroupAlias (workGA '''' ob) cid (logGroupAliasClient c))
          (\<lambda>a (s', tr'). acquiredGroupAlias L ob cid tr' a) (s', ?tr (Inr ids) es)"
        if "scannedGroupAliases L ob ids es (Inr None)" for es s'
        using createMissingGroupAlias_ok [OF base [OF quiet [OF that]] searched [OF that]] .
      show ?thesis unfolding Inr sum.case wp_simps workGA_simps scanGroupAliases_workGA
        by (rule wp_scanGroupAliasesI)
           (auto split: option.split sum.split simp: absent adopt dest: quiet intro: errors)
    qed
  qed
qed

lemma acquire_groupAlias_ok:
  assumes "groupAlias_ok L tr" "activeGroupAlias L tr ob cid" "\<not> list_ex groupAliasUpdate tr" "\<not> list_ex groupAliasCreate tr"
  shows "wp (acquire_groupAlias L (stampGroupAlias ob) cid (logGroupAliasClient c))
           (\<lambda>r (s', tr'). acquiredGroupAlias L ob cid tr' r) (s, tr)"
proof (cases "recordedGA ob = ''''")
  case True
  then show ?thesis
    unfolding stampGroupAlias_workGA
    using acquire_groupAlias_noID [OF assms] by (simp add: unrecordedGA_def)
next
  case False
  let ?tr = "\<lambda>g. tr @ [GotGroupAlias (recordedGA ob) g]"
  have base: "groupAlias_ok L (?tr g)" "activeGroupAlias L (?tr g) ob cid" "\<not> list_ex groupAliasUpdate (?tr g)"
    "\<not> list_ex groupAliasCreate (?tr g)" for g
    using assms by (simp_all add: guarded_snoc)
  have kept: "acquiredGroupAlias L ob cid (?tr (Inr p)) (workGA (recordedGA ob) ob, Inr p)" for p
    by (rule acquiredGroupAlias_found [OF base(1-3)]) (use False in \<open>simp_all add: ownsGroupAlias_def observedGA_def\<close>)
  have lost: "wp (acquire_groupAlias L (workGA '''' ob) cid (logGroupAliasClient c))
      (\<lambda>r (s', tr'). acquiredGroupAlias L ob cid tr' r) (s', ?tr (Inl e))" if "isNotFound L e" for e s'
    by (rule acquire_groupAlias_noID [OF base]) (use that in \<open>auto simp: unrecordedGA_def\<close>)
  show ?thesis
    unfolding stampGroupAlias_workGA
    using False kept lost acquiredGroupAlias_error [OF base(1-3)]
    by (subst acquire_groupAlias.simps) (auto simp: wp_simps split: sum.splits intro!: wp_loggedI)
qed

section \<open>The run\<close>

lemma finish_groupAlias_ok:
  assumes "groupAlias_ok L tr" "activeGroupAlias L tr ob cid" "ownsGroupAlias L tr ob cid i" "settledGroupAlias tr ob cid i p"
  shows "wp (finish_groupAlias (logGroupAliasReconciler R) before (workGA i ob) p) (\<lambda>_ (s', tr'). groupAlias_ok L tr') (s, tr)"
proof -
  have ready: "groupAlias_justified L tr (GGroupAlias (UpdatedStatus (readyGroupAliasStatus (workGA i ob) p t1 t2) r))"
    for t1 t2 r
    using assms(2-4) unfolding groupAlias_justified.simps by blast
  show ?thesis
    unfolding finish_groupAlias_def Let_def wp_simps logGroupAliasReconciler_sel
    using assms(1) ready
    by (auto simp: wp_simps guarded_snoc simp del: groupAlias_justified.simps split: sum.splits
        intro!: wp_silentI wp_updateStatusI)
qed

lemma sync_groupAlias_ok:
  assumes "acquiredGroupAlias L ob cid tr (st, Inr p)"
  shows "wp (sync_groupAlias (logGroupAliasReconciler R) (logGroupAliasClient c) before st cid p)
           (\<lambda>_ (s', tr'). groupAlias_ok L tr') (s, tr)"
proof -
  from assms obtain i where st: "st = workGA i ob" and owns: "ownsGroupAlias L tr ob cid i"
    and got: "observedGA tr i p" and ok: "groupAlias_ok L tr" "activeGroupAlias L tr ob cid" "\<not> list_ex groupAliasUpdate tr"
    by (auto simp: acquiredGroupAlias_def)
  let ?q = "desiredGroupAliasRequest ob cid" let ?tr = "\<lambda>u. tr @ [UpdatedGroupAlias i ?q u]"
  show ?thesis
  proof (cases "\<exists>x. p = Some x \<and> groupAliasMismatch ob x = None")
    case False
    then show ?thesis
      unfolding sync_groupAlias_def st using ok(1) mismatch_workGA [of i ob]
      by (auto split: option.splits intro!: groupAlias_failures)
  next
    case True
    then obtain x where x: "p = Some x" "groupAliasMismatch ob x = None" by auto
    have same: "wp (finish_groupAlias (logGroupAliasReconciler R) before (workGA i ob) x) (\<lambda>_ (s', tr'). groupAlias_ok L tr') (s, tr)"
      if "groupAliasMatches ?q x"
      by (rule finish_groupAlias_ok [OF ok(1,2) owns]) (use got that x in \<open>simp add: settledGroupAlias_def\<close>)
    have J: "groupAlias_ok L (?tr u)" if "\<not> groupAliasMatches ?q x" for u
      using ok owns got that x by (auto simp: guarded_snoc)
    have J2: "groupAlias_ok L (?tr u @ [GotGroupAlias i g])" if "\<not> groupAliasMatches ?q x" for u g
      using J [OF that] by (simp add: guarded_snoc del: append_assoc)
    have written: "wp (finish_groupAlias (logGroupAliasReconciler R) before (workGA i ob) y) (\<lambda>_ (s', tr'). groupAlias_ok L tr')
        (s', ?tr (Inr (Some z)) @ [GotGroupAlias i (Inr (Some y))])" if "\<not> groupAliasMatches ?q x" for y z s'
      by (rule finish_groupAlias_ok [OF J2 [OF that]]) (use ok owns in \<open>auto simp: settledGroupAlias_def\<close>)
    show ?thesis
      unfolding sync_groupAlias_def st x option.case Let_def workGA_simps logGroupAliasClient_sel
      using same J J2 written x(2) mismatch_workGA [of i ob x]
      by (auto simp: wp_simps nilPanic_def simp del: append_assoc split: sum.splits option.splits
          intro!: wp_loggedI groupAlias_failures)
  qed
qed

lemma acquiredGroupAlias_ok: "acquiredGroupAlias L ob cid tr r \<Longrightarrow> groupAlias_ok L tr"
  by (simp add: acquiredGroupAlias_def)

lemma reconcileActive_groupAlias_ok:
  assumes "groupAlias_ok (ga_Lib R) tr" "seen GGroupAlias tr ob" "notDeleted ob"
    and "wantsGroupAliasDeletion ob \<longrightarrow> held (ga_Lib R) GGroupAlias tr ob"
    and "\<not> list_ex groupAliasUpdate tr" "\<not> list_ex groupAliasCreate tr"
  shows "wp (reconcileActive_groupAlias (logGroupAliasReconciler R) before ob)
           (\<lambda>_ (s', tr'). groupAlias_ok (ga_Lib R) tr') (s, tr)"
proof -
  let ?L = "ga_Lib R" and ?key = "(om_Namespace ob, grpref_Name (gas_GroupRef (gao_Spec ob)))"
  let ?tr = "\<lambda>nn k grp m. tr @ [GConnection (GotObject nn (Inr k)), GGroup (GotObject ?key (Inr grp)), m]"
  have active: "activeGroupAlias ?L (?tr nn k grp m) ob (grst_ID (gr_Status grp))"
    if "IsStatusConditionTrue ?L (cnst_Conditions (cn_Status k)) conditionReady"
      "grs_Type (gr_Spec grp) = OpenBaoGroupTypeExternal" "grst_ID (gr_Status grp) \<noteq> ''''"
      "IsStatusConditionTrue ?L (grst_Conditions (gr_Status grp)) conditionReady" for nn k grp m
    using assms that
    by (auto simp: activeGroupAlias_def readyGroup_def live_def intro: connReady_got [where conn = k and nn = nn])
  have J: "groupAlias_ok ?L (tr @ [GConnection c])" "groupAlias_ok ?L (tr @ [GConnection c, GGroup g])"
    "groupAlias_ok ?L (tr @ [GConnection c, GGroup g, MadeGroupAliasClient k e])" for c g k e
    using assms(1) by (simp_all add: trace_simps)
  have tail: "wp (acquire_groupAlias ?L (stampGroupAlias ob) (grst_ID (gr_Status grp)) (logGroupAliasClient c)) (\<lambda>a. wp
       (case a of (alias, Inl err) \<Rightarrow> fail_groupAlias (logGroupAliasReconciler R) alias ''GroupAliasAcquireFailed'' err
        | (alias, Inr observed) \<Rightarrow>
            sync_groupAlias (logGroupAliasReconciler R) (logGroupAliasClient c) before alias (grst_ID (gr_Status grp)) observed)
       (\<lambda>_ (s', tr'). groupAlias_ok ?L tr')) (s', ?tr nn k grp (MadeGroupAliasClient k' e))"
    if "IsStatusConditionTrue ?L (cnst_Conditions (cn_Status k)) conditionReady"
      "grs_Type (gr_Spec grp) = OpenBaoGroupTypeExternal" "grst_ID (gr_Status grp) \<noteq> ''''"
      "IsStatusConditionTrue ?L (grst_Conditions (gr_Status grp)) conditionReady" for c before s' nn k grp k' e
    by (rule wp_mono [OF acquire_groupAlias_ok [OF J(3) active [OF that]]])
       (use assms acquiredGroupAlias_ok in \<open>auto split: sum.split intro!: groupAlias_failures sync_groupAlias_ok\<close>)
  show ?thesis
    unfolding reconcileActive_groupAlias_def Let_def resolveConnection_def resolveGroup_def
      logGroupAliasReconciler_sel logKube_sel
    using J tail
    by (auto split: sum.splits simp: wp_simps stampGroupAlias_workGA
        intro!: wp_loggedI wp_clientFor_groupAliasI groupAlias_failures)
qed

lemma stampGroupAlias_fields:
  "recordedGA (stampGroupAlias ob) = recordedGA ob" "om_Finalizers (stampGroupAlias ob) = om_Finalizers ob"
  by (simp_all add: stampGroupAlias_def)

lemma reconcileDeletion_groupAlias_ok:
  assumes "groupAlias_ok (ga_Lib R) tr" "seen GGroupAlias tr ob" "\<not> notDeleted ob"
  shows "wp (reconcileDeletion_groupAlias (logGroupAliasReconciler R) ob) (\<lambda>_ (s', tr'). groupAlias_ok (ga_Lib R) tr') (s, tr)"
proof -
  let ?L = "ga_Lib R"
  have drop: "groupAlias_justified ?L tr' (GGroupAlias (UpdatedObject
      (x\<lparr>om_Finalizers := RemoveFinalizer ?L (om_Finalizers ob) finalizerName\<rparr>) r))"
    if "seen GGroupAlias tr' ob" "clearedGroupAlias ?L tr' ob" for tr' x r
    unfolding groupAlias_justified.simps
    by (rule finalizerWrite_remove [where orig = ob]) (use that assms(3) in auto)
  have delete: "groupAlias_justified ?L tr' (DeletedGroupAlias (recordedGA ob) d)"
    if "seen GGroupAlias tr' ob" "groupAliasDeletionPolicy ob = DeletionPolicyDelete" "recordedGA ob \<noteq> ''''" for tr' d
    using that assms(3) by auto
  show ?thesis
    unfolding reconcileDeletion_groupAlias_def Let_def resolveConnection_def logGroupAliasReconciler_sel logKube_sel
    using assms
    by (auto split: sum.splits option.splits simp: wp_simps trace_simps clearedGroupAlias_def stampGroupAlias_fields
        simp del: groupAlias_justified.simps(3,4)
        intro!: wp_removeFinalizerI wp_loggedI wp_clientFor_groupAliasI groupAlias_failures drop delete)
qed

lemma Reconcile_groupAlias_ok:
  "wp (Reconcile_groupAlias (logGroupAliasReconciler R) req) (\<lambda>_ (s', tr'). groupAlias_ok (ga_Lib R) tr') (s, [])"
proof -
  have add: "groupAlias_justified (ga_Lib R) [GGroupAlias (GotObject req (Inr ob))] (GGroupAlias (UpdatedObject
      (ob\<lparr>om_Finalizers := AddFinalizer (ga_Lib R) (om_Finalizers ob) finalizerName\<rparr>) r))"
    if "notDeleted ob" "IsDelete (groupAliasDeletionPolicy ob)" for ob r
    unfolding groupAlias_justified.simps
    by (rule finalizerWrite_add) (use that in \<open>auto simp: wantsGroupAliasDeletion_def intro: seen_got\<close>)
  show ?thesis
    unfolding Reconcile_groupAlias_def Let_def wp_simps logGroupAliasReconciler_sel logKube_sel
    by (rule wp_loggedI)
       (auto split: sum.splits option.splits simp: wp_simps guarded_def add wantsGroupAliasDeletion_def
          simp del: groupAlias_justified.simps(4) intro!: wp_ensureFinalizerI reconcileDeletion_groupAlias_ok
            reconcileActive_groupAlias_ok
          intro: seen_got seen_updated held_contains held_added)
qed


end
