(* ===== verification/PersonaController.thy ===== *)
theory PersonaController
  imports Observing Endpoints AnyValue
begin

text \<open>
  \<^verbatim>\<open>openbaopersona_controller.go\<close> and \<^verbatim>\<open>personas.go\<close> with the
  persona types of \<^verbatim>\<open>openbaoadditional_types.go\<close>: an identity persona.  The
  controller takes the first persona of its name, entity and mount accessor that it finds, and
  it takes the answer of an update for the new state of the persona.

  A nil persona in the search ends the reconciliation: \<open>acquire_persona\<close> then answers \<open>None\<close>.
\<close>

section \<open>Types\<close>

record OpenBaoPersonaSpec =
  pns_ConnectionRef :: OpenBaoConnectionReference
  pns_Name :: string
  pns_EntityID :: string
  pns_MountAccessor :: string
  pns_Metadata :: strmap
  pns_CreationPolicy :: CreationPolicy
  pns_DeletionPolicy :: DeletionPolicy
  pns_DriftDetectionInterval :: "int option"

record OpenBaoPersonaStatus =
  pnt_ID :: string
  pnt_Name :: string
  pnt_EntityID :: string
  pnt_MountAccessor :: string
  pnt_Metadata :: strmap
  pnt_ConfigHash :: string
  pnt_ObservedGeneration :: int
  pnt_Conditions :: "Condition list"

record OpenBaoPersona = ObjectMeta +
  pno_Spec :: OpenBaoPersonaSpec
  pno_Status :: OpenBaoPersonaStatus


record Persona =
  pe_ID :: string
  pe_Name :: string
  pe_EntityID :: string
  pe_MountAccessor :: string
  pe_Metadata :: strmap

record PersonaRequest =
  per_Name :: string
  per_EntityID :: string
  per_MountAccessor :: string
  per_Metadata :: strmap

record 's PersonaClient =
  ListPersonaIDs :: "('s, go_error + string list) state"
  GetPersonaByID :: "string \<Rightarrow> ('s, go_error + Persona option) state"
  CreatePersona :: "PersonaRequest \<Rightarrow> ('s, go_error + string) state"
  UpdatePersona :: "string \<Rightarrow> PersonaRequest \<Rightarrow> ('s, go_error + Persona option) state"
  DeletePersona :: "string \<Rightarrow> ('s, go_error option) state"

record 's PersonaReconciler =
  pn_Lib :: KubeLib
  pn_Personas :: "('s, OpenBaoPersona) KubeAPI"
  pn_Connections :: "('s, OpenBaoConnection) KubeAPI"
  pn_Now :: "('s, int) state"
  pn_NewClient :: "(OpenBaoConnection \<Rightarrow> ('s, go_error + 's PersonaClient) state) option"
  pn_ClientCache :: "(OpenBaoConnection \<Rightarrow> ('s, go_error + 's PersonaClient) state) option"
  pn_connectionClientFor :: "OpenBaoConnection \<Rightarrow> ('s, go_error + 's PersonaClient) state"

definition personaAccess where
  "personaAccess =
     \<lparr>sa_Status = pno_Status,
      sa_setStatus = (\<lambda>st ob. ob\<lparr>pno_Status := st\<rparr>),
      sa_Conditions = pnt_Conditions,
      sa_setConditions = (\<lambda>cs st. st\<lparr>pnt_Conditions := cs\<rparr>),
      sa_ObservedGeneration = pnt_ObservedGeneration,
      sa_setObservedGeneration = (\<lambda>g st. st\<lparr>pnt_ObservedGeneration := g\<rparr>)\<rparr>"

interpretation personaStatus: status_object personaAccess
  by unfold_locales (simp_all add: personaAccess_def ObjectMeta.truncate_def)

section \<open>Helpers\<close>

definition personaRequest :: "OpenBaoPersona \<Rightarrow> PersonaRequest" where
  "personaRequest persona =
     \<lparr>per_Name = pns_Name (pno_Spec persona), per_EntityID = pns_EntityID (pno_Spec persona),
      per_MountAccessor = pns_MountAccessor (pno_Spec persona), per_Metadata = pns_Metadata (pno_Spec persona)\<rparr>"

definition personaMatches :: "PersonaRequest \<Rightarrow> Persona option \<Rightarrow> bool" where
  "personaMatches desired observed \<longleftrightarrow> (case observed of None \<Rightarrow> False
    | Some p \<Rightarrow> per_Name desired = pe_Name p \<and> per_EntityID desired = pe_EntityID p \<and>
        per_MountAccessor desired = pe_MountAccessor p \<and> maps_Equal (per_Metadata desired) (pe_Metadata p))"

definition encPersona :: "Persona \<Rightarrow> Json" where
  "encPersona p = JObj [(''id'', JString (pe_ID p)), (''name'', JString (pe_Name p)),
     (''entity_id'', JString (pe_EntityID p)), (''mount_accessor'', JString (pe_MountAccessor p)),
     (''metadata'', encStringMap (pe_Metadata p))]"

definition personaHash :: "Persona \<Rightarrow> string" where
  "personaHash persona = sha256_hex (jsonText (encPersona persona))"

definition personaCreation :: "OpenBaoPersona \<Rightarrow> CreationPolicy" where
  "personaCreation persona =
     (if pns_CreationPolicy (pno_Spec persona) = '''' then CreationPolicyCreate
      else pns_CreationPolicy (pno_Spec persona))"

definition personaDrift :: "OpenBaoPersona \<Rightarrow> int" where
  "personaDrift persona = (case pns_DriftDetectionInterval (pno_Spec persona) of
      None \<Rightarrow> defaultDriftCheck | Some d \<Rightarrow> d)"

section \<open>The controller\<close>

definition clientFor_persona ::
  "'s PersonaReconciler \<Rightarrow> OpenBaoConnection \<Rightarrow> ('s, go_error + 's PersonaClient) state" where
  "clientFor_persona R connection =
     clientForWith (pn_NewClient R) (pn_ClientCache R) (pn_connectionClientFor R) connection"

text \<open>
  The failure paths leave the observed generation alone; their callers have set it to the
  generation of the persona, so that setting it, as the shared definitions do, changes nothing.
\<close>

definition dependencyFailure_persona ::
  "'s PersonaReconciler \<Rightarrow> OpenBaoPersona \<Rightarrow> go_error \<Rightarrow> ('s, outcome) state" where
  "dependencyFailure_persona R persona err =
     dependencyFailureWith personaAccess (pn_Now R) (k_StatusUpdate (pn_Personas R)) persona err"

definition fail_persona ::
  "'s PersonaReconciler \<Rightarrow> OpenBaoPersona \<Rightarrow> string \<Rightarrow> go_error \<Rightarrow> ('s, outcome) state" where
  "fail_persona R persona reason err =
     failWith personaAccess (pn_Now R) (k_StatusUpdate (pn_Personas R)) persona reason err"

definition setPersonaID :: "string \<Rightarrow> OpenBaoPersona \<Rightarrow> OpenBaoPersona" where
  "setPersonaID newID persona = persona\<lparr>pno_Status := (pno_Status persona)\<lparr>pnt_ID := newID\<rparr>\<rparr>"

definition bearsPersonaKey :: "OpenBaoPersona \<Rightarrow> Persona \<Rightarrow> bool" where
  "bearsPersonaKey persona candidate \<longleftrightarrow>
     pe_Name candidate = pns_Name (pno_Spec persona) \<and>
     pe_EntityID candidate = pns_EntityID (pno_Spec persona) \<and>
     pe_MountAccessor candidate = pns_MountAccessor (pno_Spec persona)"

text \<open>The loop over the identifiers: the first persona of the key with the identifier listed for it.\<close>

fun scanPersonas ::
  "KubeLib \<Rightarrow> OpenBaoPersona \<Rightarrow> 's PersonaClient \<Rightarrow> string list
     \<Rightarrow> ('s, (go_error + (string \<times> Persona) option) option) state" where
  "scanPersonas L persona apiClient [] = ret (Some (Inr None))"
| "scanPersonas L persona apiClient (i # ids) =
     (if i = '''' then scanPersonas L persona apiClient ids
      else do {
        r \<leftarrow> GetPersonaByID apiClient i;
        case r of
          Inl readErr \<Rightarrow>
            if isNotFound L readErr then scanPersonas L persona apiClient ids else ret (Some (Inl readErr))
        | Inr None \<Rightarrow> ret None
        | Inr (Some candidate) \<Rightarrow>
            if bearsPersonaKey persona candidate then ret (Some (Inr (Some (i, candidate))))
            else scanPersonas L persona apiClient ids
      })"

definition createMissingPersona ::
  "OpenBaoPersona \<Rightarrow> 's PersonaClient \<Rightarrow> ('s, OpenBaoPersona \<times> (go_error + Persona option)) state" where
  "createMissingPersona persona apiClient =
     (if \<not> AllowsCreation (personaCreation persona) then
        ret (persona, Inl (Errorf (''OpenBao persona '' @ fmt_q (pns_Name (pno_Spec persona)) @
          '' does not exist and creationPolicy='' @ personaCreation persona @ '' does not allow creation'')))
      else do {
        c \<leftarrow> CreatePersona apiClient (personaRequest persona);
        case c of
          Inl err \<Rightarrow> ret (persona, Inl err)
        | Inr newID \<Rightarrow>
            if newID = '''' then
              ret (persona, Inl (Errorf (''OpenBao returned an empty ID when creating persona '' @
                fmt_q (pns_Name (pno_Spec persona)))))
            else do {
              g \<leftarrow> GetPersonaByID apiClient newID;
              ret (setPersonaID newID persona, g)
            }
      })"

definition findOrCreatePersona ::
  "KubeLib \<Rightarrow> OpenBaoPersona \<Rightarrow> 's PersonaClient
     \<Rightarrow> ('s, (OpenBaoPersona \<times> (go_error + Persona option)) option) state" where
  "findOrCreatePersona L persona apiClient = do {
     l \<leftarrow> ListPersonaIDs apiClient;
     f \<leftarrow> (case l of
        Inl err \<Rightarrow> if isNotFound L err then ret (Some (Inr None)) else ret (Some (Inl err))
      | Inr ids \<Rightarrow> scanPersonas L persona apiClient ids);
     case f of
       None \<Rightarrow> ret None
     | Some (Inl err) \<Rightarrow> ret (Some (persona, Inl err))
     | Some (Inr (Some (i, candidate))) \<Rightarrow>
         if \<not> AllowsAdoption (personaCreation persona) then
           ret (Some (persona, Inl (Errorf (''OpenBao persona '' @ fmt_q (pns_Name (pno_Spec persona)) @
             '' already exists; set creationPolicy to Adopt or CreateOrAdopt to manage it''))))
         else ret (Some (setPersonaID i persona, Inr (Some candidate)))
     | Some (Inr None) \<Rightarrow> do {
         a \<leftarrow> createMissingPersona persona apiClient;
         ret (Some a)
       }
   }"

definition acquire_persona ::
  "KubeLib \<Rightarrow> OpenBaoPersona \<Rightarrow> 's PersonaClient
     \<Rightarrow> ('s, (OpenBaoPersona \<times> (go_error + Persona option)) option) state" where
  "acquire_persona L persona apiClient =
     (if pnt_ID (pno_Status persona) \<noteq> '''' then do {
        r \<leftarrow> GetPersonaByID apiClient (pnt_ID (pno_Status persona));
        case r of
          Inr observed \<Rightarrow> ret (Some (persona, Inr observed))
        | Inl err \<Rightarrow>
            if \<not> isNotFound L err then ret (Some (persona, Inl err))
            else findOrCreatePersona L (setPersonaID '''' persona) apiClient
      } else findOrCreatePersona L persona apiClient)"

definition reconcileDeletion_persona ::
  "'s PersonaReconciler \<Rightarrow> OpenBaoPersona \<Rightarrow> ('s, outcome) state" where
  "reconcileDeletion_persona R persona =
     (if pns_DeletionPolicy (pno_Spec persona) \<noteq> DeletionPolicyDelete \<or> pnt_ID (pno_Status persona) = '''' then do {
        e \<leftarrow> removeFinalizer (pn_Lib R) (k_Update (pn_Personas R)) persona;
        ret (noRequeue, e)
      } else do {
        let before = pno_Status persona;
        let cleanupFailed = recordCleanupFailure personaAccess (pn_Now R) (k_StatusUpdate (pn_Personas R)) persona before;
        r \<leftarrow> resolveConnection (pn_Connections R) (om_Namespace persona) (pns_ConnectionRef (pno_Spec persona));
        case r of
          Inl err \<Rightarrow> cleanupFailed reasonCleanupDependencyUnavailable
            (cleanupDependencyError ''OpenBaoConnection'' err)
        | Inr connection \<Rightarrow> do {
            c \<leftarrow> clientFor_persona R connection;
            case c of
              Inl err \<Rightarrow> cleanupFailed reasonCleanupDependencyUnavailable
                (cleanupDependencyError ''OpenBaoConnection credentials'' err)
            | Inr apiClient \<Rightarrow> do {
                d \<leftarrow> DeletePersona apiClient (pnt_ID (pno_Status persona));
                if case d of Some err \<Rightarrow> \<not> isNotFound (pn_Lib R) err | None \<Rightarrow> False
                then cleanupFailed ''CleanupFailed'' (the d)
                else do {
                  e \<leftarrow> removeFinalizer (pn_Lib R) (k_Update (pn_Personas R)) persona;
                  ret (noRequeue, e)
                }
              }
          }
      })"

definition readyPersonaStatus :: "OpenBaoPersona \<Rightarrow> Persona \<Rightarrow> int \<Rightarrow> int \<Rightarrow> OpenBaoPersona" where
  "readyPersonaStatus persona observed now1 now2 =
     persona\<lparr>pno_Status := (pno_Status persona)
       \<lparr>pnt_ID := pe_ID observed, pnt_Name := pe_Name observed, pnt_EntityID := pe_EntityID observed,
        pnt_MountAccessor := pe_MountAccessor observed, pnt_Metadata := pe_Metadata observed,
        pnt_ConfigHash := personaHash observed,
        pnt_Conditions := markReady (pnt_Conditions (pno_Status persona)) (om_Generation persona)
          ''OpenBao persona is reconciled'' now1 now2\<rparr>\<rparr>"

definition finish_persona ::
  "'s PersonaReconciler \<Rightarrow> OpenBaoPersonaStatus \<Rightarrow> OpenBaoPersona \<Rightarrow> Persona \<Rightarrow> ('s, outcome) state" where
  "finish_persona R before persona observed = do {
     let observed = (if pe_ID observed = '''' then observed\<lparr>pe_ID := pnt_ID (pno_Status persona)\<rparr> else observed);
     if pe_ID observed \<noteq> pnt_ID (pno_Status persona) then
       fail_persona R persona ''PersonaIdentityMismatch''
         (Errorf (''OpenBao persona identity changed from '' @ fmt_q (pnt_ID (pno_Status persona)) @ '' to '' @
           fmt_q (pe_ID observed)))
     else do {
       t1 \<leftarrow> pn_Now R;
       t2 \<leftarrow> pn_Now R;
       let persona = readyPersonaStatus persona observed t1 t2;
       r \<leftarrow> updateStatusIfChanged (k_StatusUpdate (pn_Personas R)) persona before (pno_Status persona);
       case r of
         Inl err \<Rightarrow> ret (noRequeue, Some err)
       | Inr persona \<Rightarrow> ret (requeueIn (personaDrift persona), None)
     }
   }"

definition sync_persona ::
  "'s PersonaReconciler \<Rightarrow> 's PersonaClient \<Rightarrow> OpenBaoPersonaStatus \<Rightarrow> OpenBaoPersona
     \<Rightarrow> Persona option \<Rightarrow> ('s, outcome) state" where
  "sync_persona R apiClient before persona acquired = do {
     let desired = personaRequest persona;
     if personaMatches desired acquired then finish_persona R before persona (the acquired)
     else do {
       u \<leftarrow> UpdatePersona apiClient (pnt_ID (pno_Status persona)) desired;
       case u of
         Inl err \<Rightarrow> fail_persona R persona ''PersonaUpdateFailed'' err
       | Inr None \<Rightarrow> fail_persona R persona ''InvalidOpenBaoResponse''
           (Errorf (''OpenBao returned no persona after updating '' @ fmt_q (pnt_ID (pno_Status persona))))
       | Inr (Some observed) \<Rightarrow> finish_persona R before persona observed
     }
   }"

definition stampPersona :: "OpenBaoPersona \<Rightarrow> OpenBaoPersona" where
  "stampPersona persona =
     persona\<lparr>pno_Status := (pno_Status persona)\<lparr>pnt_ObservedGeneration := om_Generation persona\<rparr>\<rparr>"

definition reconcileActive_persona :: "'s PersonaReconciler \<Rightarrow> OpenBaoPersona \<Rightarrow> ('s, outcome) state" where
  "reconcileActive_persona R persona = do {
     let before = pno_Status persona;
     let persona = stampPersona persona;
     let ref = pns_ConnectionRef (pno_Spec persona);
     r \<leftarrow> resolveConnection (pn_Connections R) (om_Namespace persona) ref;
     case r of
       Inl err \<Rightarrow> dependencyFailure_persona R persona
         (Wrapf (''read OpenBaoConnection '' @ om_Namespace persona @ ''/'' @ connref_Name ref) err)
     | Inr connection \<Rightarrow>
         if \<not> IsStatusConditionTrue (pn_Lib R) (cnst_Conditions (cn_Status connection)) conditionReady then
           dependencyFailure_persona R persona
             (dependencyMessage ''OpenBaoConnection'' (ObjectKey connection) None)
         else do {
           c \<leftarrow> clientFor_persona R connection;
           case c of
             Inl err \<Rightarrow> dependencyFailure_persona R persona err
           | Inr apiClient \<Rightarrow> do {
               a \<leftarrow> acquire_persona (pn_Lib R) persona apiClient;
               case a of
                 None \<Rightarrow> nilPanic
               | Some (persona, Inl err) \<Rightarrow> fail_persona R persona ''PersonaAcquireFailed'' err
               | Some (persona, Inr observed) \<Rightarrow> sync_persona R apiClient before persona observed
             }
         }
   }"

definition Reconcile_persona :: "'s PersonaReconciler \<Rightarrow> NamespacedName \<Rightarrow> ('s, outcome) state" where
  "Reconcile_persona R req = do {
     r \<leftarrow> k_Get (pn_Personas R) req;
     case r of
       Inl err \<Rightarrow>
         if apierrors_IsNotFound (pn_Lib R) err then ret (noRequeue, None)
         else ret (noRequeue, Some err)
     | Inr persona \<Rightarrow> do {
         f \<leftarrow> (if notDeleted persona \<and> IsDelete (pns_DeletionPolicy (pno_Spec persona))
              then ensureFinalizer (pn_Lib R) (k_Update (pn_Personas R)) persona
              else ret (Inr persona));
         case f of
           Inl err \<Rightarrow> ret (noRequeue, Some err)
         | Inr persona \<Rightarrow>
             if \<not> notDeleted persona then reconcileDeletion_persona R persona
             else reconcileActive_persona R persona
       }
   }"

definition mapConnection_persona ::
  "'s PersonaReconciler \<Rightarrow> 'a ObjectMeta_scheme \<Rightarrow> ('s, NamespacedName list) state" where
  "mapConnection_persona R obj = do {
     r \<leftarrow> k_List (pn_Personas R) (om_Namespace obj);
     ret (case r of Inl _ \<Rightarrow> []
       | Inr items \<Rightarrow> map ObjectKey
           (filter (\<lambda>item. connref_Name (pns_ConnectionRef (pno_Spec item)) = om_Name obj) items))
   }"

section \<open>personas.go\<close>

definition personaPathSegment :: string where "personaPathSegment = ''persona''"

definition zeroPersona :: Persona where
  "zeroPersona = \<lparr>pe_ID = '''', pe_Name = '''', pe_EntityID = '''', pe_MountAccessor = '''', pe_Metadata = None\<rparr>"

definition decPersona :: "Persona decoder" where
  "decPersona = decStruct ''Persona'' (\<lambda>fs x.
     andThen (field fs ''id'' decString (pe_ID x)) (\<lambda>i.
     andThen (field fs ''name'' decString (pe_Name x)) (\<lambda>n.
     andThen (field fs ''entity_id'' decString (pe_EntityID x)) (\<lambda>e.
     andThen (field fs ''mount_accessor'' decString (pe_MountAccessor x)) (\<lambda>a.
     andThen (field fs ''metadata'' decStringMap (pe_Metadata x)) (\<lambda>m.
     Inr \<lparr>pe_ID = i, pe_Name = n, pe_EntityID = e, pe_MountAccessor = a, pe_Metadata = m\<rparr>))))))"

definition encPersonaRequest :: "PersonaRequest \<Rightarrow> Json" where
  "encPersonaRequest r = JObj (omitempty ''name'' (per_Name r) @ omitempty ''entity_id'' (per_EntityID r) @
     omitempty ''mount_accessor'' (per_MountAccessor r) @
     (if map_entries (per_Metadata r) = fmempty then [] else [(''metadata'', encStringMap (per_Metadata r))]))"

definition Client_CreatePersona ::
  "'s Client \<Rightarrow> PersonaRequest \<Rightarrow> (TokenState \<times> 's, go_error + string) state" where
  "Client_CreatePersona c request =
     doPath c ''POST'' ''identity/persona'' (Some (encPersonaRequest request)) (apiResponse '''' decID) []"

definition Client_ListPersonaIDs :: "'s Client \<Rightarrow> (TokenState \<times> 's, go_error + string list) state" where
  "Client_ListPersonaIDs c = do {
     r \<leftarrow> doSegmentsQuery c ''GET'' [identityPathSegment, personaPathSegment, ''id''] listQuery None
            (apiResponse None decKeys) [];
     ret (map_sum id elems r)
   }"

definition Client_GetPersonaByID ::
  "'s Client \<Rightarrow> string \<Rightarrow> (TokenState \<times> 's, go_error + Persona option) state" where
  "Client_GetPersonaByID c i = do {
     r \<leftarrow> doSegments c ''GET'' [identityPathSegment, personaPathSegment, ''id'', i] None
            (apiResponse zeroPersona decPersona) [];
     ret (map_sum id (\<lambda>p. Some (p\<lparr>pe_ID := firstNonEmpty (pe_ID p) i\<rparr>)) r)
   }"

definition Client_UpdatePersona ::
  "'s Client \<Rightarrow> string \<Rightarrow> PersonaRequest \<Rightarrow> (TokenState \<times> 's, go_error + Persona option) state" where
  "Client_UpdatePersona c i request = do {
     r \<leftarrow> doSegments c ''POST'' [identityPathSegment, personaPathSegment, ''id'', i]
            (Some (encPersonaRequest request)) (apiResponse zeroPersona decPersona) [];
     ret (map_sum id (\<lambda>p. Some (p\<lparr>pe_ID := firstNonEmpty (pe_ID p) i\<rparr>)) r)
   }"

definition Client_DeletePersona :: "'s Client \<Rightarrow> string \<Rightarrow> (TokenState \<times> 's, go_error option) state" where
  "Client_DeletePersona c i = do {
     r \<leftarrow> doSegments c ''DELETE'' [identityPathSegment, personaPathSegment, ''id'', i] None nilTarget [];
     ret (errOnly r)
   }"

definition personaClient_http :: "'s Client \<Rightarrow> (TokenState \<times> 's) PersonaClient" where
  "personaClient_http c = \<lparr>ListPersonaIDs = Client_ListPersonaIDs c,
     GetPersonaByID = Client_GetPersonaByID c, CreatePersona = Client_CreatePersona c,
     UpdatePersona = Client_UpdatePersona c, DeletePersona = Client_DeletePersona c\<rparr>"

end
