(* ===== verification/PersonaProperties.thy ===== *)
theory PersonaProperties
  imports PersonaController
begin

text \<open>
  What a reconciliation of a persona may do, for every behaviour of the API server and of OpenBao.
  The run works on \<open>work i ob\<close>: the persona \<open>ob\<close> as it was read, with the observed generation
  and the identifier set.
\<close>

section \<open>Observing a run\<close>

datatype PersonaEvent =
    PPersona "OpenBaoPersona KubeEvent"
  | PConnection "OpenBaoConnection KubeEvent"
  | MadePersonaClient OpenBaoConnection "go_error option"
  | ListedPersonas "go_error + string list"
  | GotPersona string "go_error + Persona option"
  | CreatedPersona PersonaRequest "go_error + string"
  | UpdatedPersona string PersonaRequest "go_error + Persona option"
  | DeletedPersona string "go_error option"

definition logPersonaClient :: "'s PersonaClient \<Rightarrow> ('s \<times> PersonaEvent list) PersonaClient" where
  "logPersonaClient c =
     \<lparr>ListPersonaIDs = logged ListedPersonas (ListPersonaIDs c),
      GetPersonaByID = (\<lambda>i. logged (GotPersona i) (GetPersonaByID c i)),
      CreatePersona = (\<lambda>q. logged (CreatedPersona q) (CreatePersona c q)),
      UpdatePersona = (\<lambda>i q. logged (UpdatedPersona i q) (UpdatePersona c i q)),
      DeletePersona = (\<lambda>i. logged (DeletedPersona i) (DeletePersona c i))\<rparr>"

lemma logPersonaClient_sel [simp]:
  "ListPersonaIDs (logPersonaClient c) = logged ListedPersonas (ListPersonaIDs c)"
  "GetPersonaByID (logPersonaClient c) i = logged (GotPersona i) (GetPersonaByID c i)"
  "CreatePersona (logPersonaClient c) q = logged (CreatedPersona q) (CreatePersona c q)"
  "UpdatePersona (logPersonaClient c) i q = logged (UpdatedPersona i q) (UpdatePersona c i q)"
  "DeletePersona (logPersonaClient c) i = logged (DeletedPersona i) (DeletePersona c i)"
  by (simp_all add: logPersonaClient_def)

definition logPersonaReconciler :: "'s PersonaReconciler \<Rightarrow> ('s \<times> PersonaEvent list) PersonaReconciler" where
  "logPersonaReconciler R =
     \<lparr>pn_Lib = pn_Lib R, pn_Personas = logKube PPersona (pn_Personas R),
      pn_Connections = logKube PConnection (pn_Connections R), pn_Now = silent (pn_Now R),
      pn_NewClient = map_option (logClientFor MadePersonaClient logPersonaClient) (pn_NewClient R),
      pn_ClientCache = map_option (logClientFor MadePersonaClient logPersonaClient) (pn_ClientCache R),
      pn_connectionClientFor = logClientFor MadePersonaClient logPersonaClient (pn_connectionClientFor R)\<rparr>"

lemma logPersonaReconciler_sel [simp]:
  "pn_Lib (logPersonaReconciler R) = pn_Lib R"
  "pn_Personas (logPersonaReconciler R) = logKube PPersona (pn_Personas R)"
  "pn_Connections (logPersonaReconciler R) = logKube PConnection (pn_Connections R)"
  "pn_Now (logPersonaReconciler R) = silent (pn_Now R)"
  by (simp_all add: logPersonaReconciler_def)

lemma wp_clientFor_personaI:
  assumes "\<And>e s'. Q (Inl e) (s', tr @ [MadePersonaClient connection (Some e)])"
    and "\<And>c s'. Q (Inr (logPersonaClient c)) (s', tr @ [MadePersonaClient connection None])"
  shows "wp (clientFor_persona (logPersonaReconciler R) connection) Q (s, tr)"
  unfolding clientFor_persona_def logPersonaReconciler_def PersonaReconciler.simps
  by (intro wp_clientForWithI assms)

definition persona_trace :: "'s PersonaReconciler \<Rightarrow> NamespacedName \<Rightarrow> 's \<Rightarrow> PersonaEvent list" where
  "persona_trace R req s = snd (snd (run_state (Reconcile_persona (logPersonaReconciler R) req) (s, [])))"

section \<open>What justifies a call\<close>

definition wantsPersonaDeletion :: "OpenBaoPersona \<Rightarrow> bool" where
  "wantsPersonaDeletion ob \<longleftrightarrow> IsDelete (pns_DeletionPolicy (pno_Spec ob))"

abbreviation livePersona :: "KubeLib \<Rightarrow> PersonaEvent list \<Rightarrow> OpenBaoPersona \<Rightarrow> bool" where
  "livePersona L \<equiv> live L PPersona PConnection wantsPersonaDeletion"

definition work :: "string \<Rightarrow> OpenBaoPersona \<Rightarrow> OpenBaoPersona" where
  "work i ob = setPersonaID i (stampPersona ob)"

abbreviation recordedID :: "OpenBaoPersona \<Rightarrow> string" where
  "recordedID ob \<equiv> pnt_ID (pno_Status ob)"

text \<open>An answer that shows the persona \<open>i\<close> not to be the one of the resource.\<close>

fun otherPersona :: "KubeLib \<Rightarrow> OpenBaoPersona \<Rightarrow> string \<Rightarrow> PersonaEvent \<Rightarrow> bool" where
  "otherPersona L ob i (GotPersona j (Inl err)) \<longleftrightarrow> j = i \<and> isNotFound L err"
| "otherPersona L ob i (GotPersona j (Inr (Some p))) \<longleftrightarrow> j = i \<and> \<not> bearsPersonaKey ob p"
| "otherPersona L ob i e \<longleftrightarrow> False"

text \<open>No persona is recorded, or the recorded one is gone.\<close>

definition unrecorded :: "KubeLib \<Rightarrow> PersonaEvent list \<Rightarrow> OpenBaoPersona \<Rightarrow> bool" where
  "unrecorded L pre ob \<longleftrightarrow> recordedID ob = '''' \<or>
     (\<exists>err. GotPersona (recordedID ob) (Inl err) \<in> set pre \<and> isNotFound L err)"

definition searchedPersona :: "KubeLib \<Rightarrow> PersonaEvent list \<Rightarrow> OpenBaoPersona \<Rightarrow> bool" where
  "searchedPersona L pre ob \<longleftrightarrow>
     (\<exists>err. ListedPersonas (Inl err) \<in> set pre \<and> isNotFound L err) \<or>
     (\<exists>ids. ListedPersonas (Inr ids) \<in> set pre \<and>
        (\<forall>i. i \<in> set ids \<and> i \<noteq> '''' \<longrightarrow> list_ex (otherPersona L ob i) pre))"

definition ownsPersona :: "KubeLib \<Rightarrow> PersonaEvent list \<Rightarrow> OpenBaoPersona \<Rightarrow> string \<Rightarrow> bool" where
  "ownsPersona L pre ob i \<longleftrightarrow> i \<noteq> '''' \<and>
     (i = recordedID ob \<or>
      unrecorded L pre ob \<and>
        (CreatedPersona (personaRequest ob) (Inr i) \<in> set pre \<or>
         AllowsAdoption (personaCreation ob) \<and>
           (\<exists>p. GotPersona i (Inr (Some p)) \<in> set pre \<and> bearsPersonaKey ob p)))"

fun personaCreate :: "PersonaEvent \<Rightarrow> bool" where
  "personaCreate (CreatedPersona q r) \<longleftrightarrow> True"
| "personaCreate e \<longleftrightarrow> False"

fun personaUpdate :: "PersonaEvent \<Rightarrow> bool" where
  "personaUpdate (UpdatedPersona i q r) \<longleftrightarrow> True"
| "personaUpdate e \<longleftrightarrow> False"

text \<open>The state of the persona \<open>i\<close> as OpenBao gave it: read and matching, or answered to the update.\<close>

definition settledPersona :: "PersonaEvent list \<Rightarrow> OpenBaoPersona \<Rightarrow> string \<Rightarrow> Persona \<Rightarrow> bool" where
  "settledPersona pre ob i p \<longleftrightarrow>
     (GotPersona i (Inr (Some p)) \<in> set pre \<and> personaMatches (personaRequest ob) (Some p)) \<or>
     UpdatedPersona i (personaRequest ob) (Inr (Some p)) \<in> set pre"

definition withID :: "string \<Rightarrow> Persona \<Rightarrow> Persona" where
  "withID i p = (if pe_ID p = '''' then p\<lparr>pe_ID := i\<rparr> else p)"

fun gonePersona :: "KubeLib \<Rightarrow> string \<Rightarrow> PersonaEvent \<Rightarrow> bool" where
  "gonePersona L i (DeletedPersona j d) \<longleftrightarrow> j = i \<and> confirmedGone L d"
| "gonePersona L i e \<longleftrightarrow> False"

definition clearedPersona :: "KubeLib \<Rightarrow> PersonaEvent list \<Rightarrow> OpenBaoPersona \<Rightarrow> bool" where
  "clearedPersona L pre ob \<longleftrightarrow> pns_DeletionPolicy (pno_Spec ob) \<noteq> DeletionPolicyDelete \<or>
     recordedID ob = '''' \<or> list_ex (gonePersona L (recordedID ob)) pre"

fun persona_justified :: "KubeLib \<Rightarrow> PersonaEvent list \<Rightarrow> PersonaEvent \<Rightarrow> bool" where
  "persona_justified L pre (CreatedPersona q r) \<longleftrightarrow>
     (\<exists>ob. livePersona L pre ob \<and> q = personaRequest ob \<and> AllowsCreation (personaCreation ob) \<and>
        unrecorded L pre ob \<and> searchedPersona L pre ob \<and> \<not> list_ex personaCreate pre)"
| "persona_justified L pre (UpdatedPersona i q r) \<longleftrightarrow>
     (\<exists>ob p. livePersona L pre ob \<and> q = personaRequest ob \<and> ownsPersona L pre ob i \<and>
        GotPersona i (Inr p) \<in> set pre \<and> \<not> personaMatches q p \<and> \<not> list_ex personaUpdate pre)"
| "persona_justified L pre (DeletedPersona i r) \<longleftrightarrow>
     (\<exists>ob. seen PPersona pre ob \<and> \<not> notDeleted ob \<and> pns_DeletionPolicy (pno_Spec ob) = DeletionPolicyDelete \<and>
        i = recordedID ob \<and> i \<noteq> '''')"
| "persona_justified L pre (PPersona (UpdatedObject ob r)) \<longleftrightarrow>
     finalizerWrite L PPersona wantsPersonaDeletion (clearedPersona L pre) pre ob"
| "persona_justified L pre (PPersona (UpdatedStatus st r)) \<longleftrightarrow>
     (readyTrue (pnt_Conditions (pno_Status st)) \<longrightarrow>
        (\<exists>ob i p t1 t2. livePersona L pre ob \<and> ownsPersona L pre ob i \<and> settledPersona pre ob i p \<and>
           pe_ID (withID i p) = i \<and> st = readyPersonaStatus (work i ob) (withID i p) t1 t2))"
| "persona_justified L pre e \<longleftrightarrow> True"

section \<open>Rules\<close>

lemma ownsPersona_mono [simp]: "ownsPersona L pre ob i \<Longrightarrow> ownsPersona L (pre @ es) ob i"
  by (auto simp: ownsPersona_def unrecorded_def)

lemma work_simps [simp]:
  "pno_Spec (work i ob) = pno_Spec ob" "pnt_ID (pno_Status (work i ob)) = i"
  "om_Name (work i ob) = om_Name ob" "om_Namespace (work i ob) = om_Namespace ob"
  "setPersonaID j (work i ob) = work j ob"
  "personaRequest (work i ob) = personaRequest ob" "personaCreation (work i ob) = personaCreation ob"
  "bearsPersonaKey (work i ob) = bearsPersonaKey ob"
  by (simp_all add: work_def setPersonaID_def stampPersona_def personaRequest_def personaCreation_def
      bearsPersonaKey_def fun_eq_iff)

lemma stampPersona_work: "stampPersona ob = work (recordedID ob) ob"
  by (simp add: work_def setPersonaID_def stampPersona_def)

lemma scanPersonas_work: "scanPersonas L (work i ob) c ids = scanPersonas L ob c ids"
  by (induction ids) (simp_all cong: if_cong)

abbreviation persona_ok :: "KubeLib \<Rightarrow> PersonaEvent list \<Rightarrow> bool" where
  "persona_ok L tr \<equiv> guarded (persona_justified L) tr"

lemma persona_notReady:
  "\<not> readyTrue (sa_Conditions personaAccess (sa_Status personaAccess ob)) \<Longrightarrow>
     persona_justified L pre (PPersona (UpdatedStatus ob r))"
  by (simp add: personaAccess_def)

lemma persona_reads:
  "persona_justified L pre (PPersona (GotObject nn g))" "persona_justified L pre (PConnection k)"
  "persona_justified L pre (MadePersonaClient c e)" "persona_justified L pre (ListedPersonas l)"
  "persona_justified L pre (GotPersona i q)"
  by simp_all

lemma persona_failures:
  "persona_ok L tr \<Longrightarrow> wp (fail_persona (logPersonaReconciler R) ob reason err) (\<lambda>_ (s', tr'). persona_ok L tr') (s, tr)"
  "persona_ok L tr \<Longrightarrow> wp (dependencyFailure_persona (logPersonaReconciler R) ob err) (\<lambda>_ (s', tr'). persona_ok L tr') (s, tr)"
  "persona_ok L tr \<Longrightarrow> wp (recordCleanupFailure personaAccess (silent now) (k_StatusUpdate (logKube PPersona K)) ob before reason err)
     (\<lambda>_ (s', tr'). persona_ok L tr') (s, tr)"
  unfolding fail_persona_def dependencyFailure_persona_def logPersonaReconciler_sel
  by (rule personaStatus.wp_fail_guarded personaStatus.wp_dependencyFailure_guarded personaStatus.wp_cleanupFailure_guarded;
      (assumption | erule persona_notReady))+

section \<open>Acquisition\<close>

text \<open>The search only reads, and finds the first persona of the key or shows that there is none.\<close>

definition scannedPersonas ::
  "KubeLib \<Rightarrow> OpenBaoPersona \<Rightarrow> string list \<Rightarrow> PersonaEvent list
     \<Rightarrow> (go_error + (string \<times> Persona) option) option \<Rightarrow> bool" where
  "scannedPersonas L ob ids es r \<longleftrightarrow> (\<forall>e \<in> set es. \<exists>i a. e = GotPersona i a) \<and>
     (case r of
        Some (Inr (Some (j, p))) \<Rightarrow> j \<noteq> '''' \<and> GotPersona j (Inr (Some p)) \<in> set es \<and> bearsPersonaKey ob p
      | Some (Inr None) \<Rightarrow> (\<forall>i. i \<in> set ids \<and> i \<noteq> '''' \<longrightarrow> list_ex (otherPersona L ob i) es)
      | _ \<Rightarrow> True)"

lemma scanned_Cons:
  assumes "scannedPersonas L ob ids es r" "otherPersona L ob i (GotPersona i a)"
  shows "scannedPersonas L ob (i # ids) (GotPersona i a # es) r"
  using assms unfolding scannedPersonas_def by (auto split: option.splits sum.splits)

lemma wp_scanPersonasI:
  assumes "\<And>r es s'. scannedPersonas L ob ids es r \<Longrightarrow> Q r (s', tr @ es)"
  shows "wp (scanPersonas L ob (logPersonaClient c) ids) Q (s, tr)"
  using assms
proof (induction ids arbitrary: s tr Q)
  case Nil
  then show ?case using Nil [of "[]" "Some (Inr None)"] by (simp add: wp_simps scannedPersonas_def)
next
  case (Cons i ids)
  show ?case
  proof (cases "i = ''''")
    case True
    have "scannedPersonas L ob (i # ids) es r" if "scannedPersonas L ob ids es r" for es r
      using that True by (auto simp: scannedPersonas_def split: option.splits sum.splits)
    then show ?thesis using True Cons by simp
  next
    case False
    have next_one: "wp (scanPersonas L ob (logPersonaClient c) ids) Q (s', tr @ [GotPersona i a])"
      if "otherPersona L ob i (GotPersona i a)" for a s'
    proof (rule Cons.IH)
      fix r es s'
      assume "scannedPersonas L ob ids es r"
      then show "Q r (s', (tr @ [GotPersona i a]) @ es)"
        using Cons.prems [OF scanned_Cons [OF _ that]] by simp
    qed
    have stop: "Q r (s', tr @ [GotPersona i a])" if "scannedPersonas L ob (i # ids) [GotPersona i a] r" for a r s'
      using Cons.prems [OF that] by simp
    show ?thesis
      unfolding scanPersonas.simps logPersonaClient_sel wp_simps if_not_P [OF False]
      by (rule wp_loggedI)
         (use False in \<open>auto split: sum.splits option.splits simp: wp_simps intro!: next_one stop
            simp: scannedPersonas_def\<close>)
  qed
qed

definition acquiredPersona ::
  "KubeLib \<Rightarrow> OpenBaoPersona \<Rightarrow> PersonaEvent list \<Rightarrow> (OpenBaoPersona \<times> (go_error + Persona option)) option \<Rightarrow> bool" where
  "acquiredPersona L ob tr r \<longleftrightarrow> persona_ok L tr \<and> livePersona L tr ob \<and> \<not> list_ex personaUpdate tr \<and>
     (case r of
        Some (st, Inr p) \<Rightarrow> (\<exists>i. st = work i ob \<and> ownsPersona L tr ob i \<and> GotPersona i (Inr p) \<in> set tr)
      | _ \<Rightarrow> True)"

lemma unrecorded_mono [simp]: "unrecorded L pre ob \<Longrightarrow> unrecorded L (pre @ es) ob"
  by (auto simp: unrecorded_def)

abbreviation onlyReads :: "PersonaEvent list \<Rightarrow> bool" where
  "onlyReads es \<equiv> \<forall>e \<in> set es. \<exists>i a. e = GotPersona i a"

lemma onlyReads_quiet:
  assumes "onlyReads es"
  shows "guarded_from (persona_justified L) pre es" "\<not> list_ex personaUpdate es" "\<not> list_ex personaCreate es"
  using assms by (induction es arbitrary: pre) auto

lemma acquiredPersona_error:
  assumes "persona_ok L tr" "livePersona L tr ob" "\<not> list_ex personaUpdate tr"
  shows "acquiredPersona L ob tr None" "acquiredPersona L ob tr (Some (st, Inl e))"
  using assms by (simp_all add: acquiredPersona_def)

lemma acquiredPersona_found:
  assumes "persona_ok L tr" "livePersona L tr ob" "\<not> list_ex personaUpdate tr"
    and "ownsPersona L tr ob i" "\<And>p. g = Inr p \<Longrightarrow> GotPersona i (Inr p) \<in> set tr"
  shows "acquiredPersona L ob tr (Some (work i ob, g))"
  using assms by (auto simp: acquiredPersona_def split: sum.splits)

text \<open>A search that found nothing may be followed by a creation.\<close>

lemma createMissingPersona_ok:
  assumes "persona_ok L tr" "livePersona L tr ob" "\<not> list_ex personaUpdate tr" "\<not> list_ex personaCreate tr"
    and "unrecorded L tr ob" "searchedPersona L tr ob"
  shows "wp (createMissingPersona (work i ob) (logPersonaClient c))
           (\<lambda>r (s', tr'). acquiredPersona L ob tr' (Some r)) (s, tr)"
proof -
  let ?q = "personaRequest ob" let ?tr = "\<lambda>r. tr @ [CreatedPersona ?q r]"
  have created: "persona_ok L (?tr r)" if "AllowsCreation (personaCreation ob)" for r
    using assms that by (auto simp: guarded_snoc)
  have failed: "acquiredPersona L ob (?tr r) (Some (st, Inl e))" if "AllowsCreation (personaCreation ob)" for r st e
    by (rule acquiredPersona_error [OF created [OF that]]) (use assms in simp_all)
  have read_back: "acquiredPersona L ob (?tr (Inr j) @ [GotPersona j g]) (Some (work j ob, g))"
    if "AllowsCreation (personaCreation ob)" "j \<noteq> ''''" for j g
    by (rule acquiredPersona_found)
       (use assms created [OF that(1)] that(2) in \<open>auto simp: guarded_snoc ownsPersona_def simp del: append_assoc\<close>)
  show ?thesis
    unfolding createMissingPersona_def wp_simps logPersonaClient_sel work_simps
    using failed read_back acquiredPersona_error(2) [OF assms(1-3)]
    by (auto simp: wp_simps split: sum.splits simp del: append_assoc intro!: wp_loggedI)
qed

lemma findOrCreatePersona_ok:
  assumes "persona_ok L tr" "livePersona L tr ob" "\<not> list_ex personaUpdate tr" "\<not> list_ex personaCreate tr"
    and "unrecorded L tr ob"
  shows "wp (findOrCreatePersona L (work i ob) (logPersonaClient c))
           (\<lambda>r (s', tr'). acquiredPersona L ob tr' r) (s, tr)"
proof -
  let ?tr = "\<lambda>l es. tr @ ListedPersonas l # es"
  have base: "persona_ok L (?tr l es)" "livePersona L (?tr l es) ob" "\<not> list_ex personaUpdate (?tr l es)"
    "\<not> list_ex personaCreate (?tr l es)" "unrecorded L (?tr l es) ob" if "onlyReads es" for l es
    using assms onlyReads_quiet [OF that] by (simp_all add: trace_simps)
  have adopt: "acquiredPersona L ob (?tr l es) (Some (work j ob, Inr (Some p)))"
    if "scannedPersonas L ob ids es (Some (Inr (Some (j, p))))" "AllowsAdoption (personaCreation ob)" for l ids es j p
    by (rule acquiredPersona_found [OF base(1-3)])
       (use that base(5) [of es l] in \<open>auto simp: ownsPersona_def scannedPersonas_def\<close>)
  have unlisted: "searchedPersona L (?tr (Inl e) []) ob" if "isNotFound L e" for e
    using that by (auto simp: searchedPersona_def)
  have searched: "searchedPersona L (?tr (Inr ids) es) ob" if "scannedPersonas L ob ids es (Some (Inr None))" for ids es
    using that by (auto simp: searchedPersona_def scannedPersonas_def)
  have quiet: "onlyReads es" if "scannedPersonas L ob ids es r" for ids es r
    using that by (simp add: scannedPersonas_def)
  note errors = acquiredPersona_error [OF base(1-3)]
  show ?thesis
    unfolding findOrCreatePersona_def wp_simps logPersonaClient_sel scanPersonas_work work_simps
  proof (rule wp_loggedI, goal_cases)
    case (1 l s')
    then show ?case
    proof (cases l)
      case (Inl e)
      then show ?thesis
        using errors [of "[]"] createMissingPersona_ok [OF base [of "[]"] unlisted] by (auto simp: wp_simps)
    next
      case (Inr ids)
      have absent: "wp (createMissingPersona (work i ob) (logPersonaClient c))
          (\<lambda>a (s', tr'). acquiredPersona L ob tr' (Some a)) (s', ?tr (Inr ids) es)"
        if "scannedPersonas L ob ids es (Some (Inr None))" for es s'
        using createMissingPersona_ok [OF base [OF quiet [OF that]] searched [OF that]] .
      show ?thesis unfolding Inr sum.case
        by (rule wp_scanPersonasI)
           (auto split: option.split sum.split simp: absent adopt dest: quiet intro: errors)
    qed
  qed
qed

lemma acquire_persona_ok:
  assumes "persona_ok L tr" "livePersona L tr ob" "\<not> list_ex personaUpdate tr" "\<not> list_ex personaCreate tr"
  shows "wp (acquire_persona L (stampPersona ob) (logPersonaClient c))
           (\<lambda>r (s', tr'). acquiredPersona L ob tr' r) (s, tr)"
proof (cases "recordedID ob = ''''")
  case True
  then show ?thesis
    unfolding acquire_persona_def stampPersona_work work_simps
    using findOrCreatePersona_ok [OF assms, of "''''"] by (simp add: unrecorded_def)
next
  case False
  let ?tr = "\<lambda>g. tr @ [GotPersona (recordedID ob) g]"
  have base: "persona_ok L (?tr g)" "livePersona L (?tr g) ob" "\<not> list_ex personaUpdate (?tr g)"
    "\<not> list_ex personaCreate (?tr g)" for g
    using assms by (simp_all add: guarded_snoc)
  have kept: "acquiredPersona L ob (?tr (Inr p)) (Some (work (recordedID ob) ob, Inr p))" for p
    by (rule acquiredPersona_found [OF base(1-3)]) (use False in \<open>simp_all add: ownsPersona_def\<close>)
  have lost: "wp (findOrCreatePersona L (work j ob) (logPersonaClient c))
      (\<lambda>r (s', tr'). acquiredPersona L ob tr' r) (s', ?tr (Inl e))" if "isNotFound L e" for e s' j
    by (rule findOrCreatePersona_ok [OF base]) (use that in \<open>auto simp: unrecorded_def\<close>)
  show ?thesis
    unfolding acquire_persona_def stampPersona_work work_simps logPersonaClient_sel
    using False kept lost acquiredPersona_error(2) [OF base(1-3)]
    by (auto simp: wp_simps split: sum.splits intro!: wp_loggedI)
qed

section \<open>The run\<close>

lemma finish_persona_ok:
  assumes "persona_ok L tr" "livePersona L tr ob" "ownsPersona L tr ob i" "settledPersona tr ob i p"
  shows "wp (finish_persona (logPersonaReconciler R) before (work i ob) p) (\<lambda>_ (s', tr'). persona_ok L tr') (s, tr)"
proof -
  have ready: "persona_justified L tr (PPersona (UpdatedStatus (readyPersonaStatus (work i ob) (withID i p) t1 t2) r))"
    if "pe_ID (withID i p) = i" for t1 t2 r
    using assms(2-4) that unfolding persona_justified.simps by blast
  have fold: "(if pe_ID p = '''' then p\<lparr>pe_ID := i\<rparr> else p) = withID i p" by (simp add: withID_def)
  show ?thesis
    unfolding finish_persona_def Let_def wp_simps logPersonaReconciler_sel work_simps fold
    using assms(1) ready
    by (auto simp: wp_simps guarded_snoc simp del: persona_justified.simps split: sum.splits
        intro!: persona_failures wp_silentI wp_updateStatusI)
qed

lemma sync_persona_ok:
  assumes "acquiredPersona L ob tr (Some (st, Inr p))"
  shows "wp (sync_persona (logPersonaReconciler R) (logPersonaClient c) before st p)
           (\<lambda>_ (s', tr'). persona_ok L tr') (s, tr)"
proof -
  from assms obtain i where st: "st = work i ob" and owns: "ownsPersona L tr ob i"
    and got: "GotPersona i (Inr p) \<in> set tr" and ok: "persona_ok L tr" "livePersona L tr ob" "\<not> list_ex personaUpdate tr"
    by (auto simp: acquiredPersona_def)
  let ?q = "personaRequest ob" let ?tr = "\<lambda>u. tr @ [UpdatedPersona i ?q u]"
  show ?thesis
  proof (cases "personaMatches ?q p")
    case True
    then have "settledPersona tr ob i (the p)"
      using got by (cases p) (simp_all add: settledPersona_def personaMatches_def)
    with True show ?thesis
      unfolding sync_persona_def Let_def st work_simps using finish_persona_ok [OF ok(1,2) owns] by simp
  next
    case False
    have J: "persona_ok L (?tr u)" for u
      using ok owns got False by (auto simp: guarded_snoc)
    have written: "wp (finish_persona (logPersonaReconciler R) before (work i ob) x) (\<lambda>_ (s', tr'). persona_ok L tr')
        (s', ?tr (Inr (Some x)))" for x s'
      by (rule finish_persona_ok [OF J]) (use ok owns in \<open>auto simp: settledPersona_def\<close>)
    from False show ?thesis
      unfolding sync_persona_def Let_def st work_simps logPersonaClient_sel
      using J written by (auto simp: wp_simps split: sum.splits option.splits intro!: wp_loggedI persona_failures)
  qed
qed

lemma acquiredPersona_ok: "acquiredPersona L ob tr r \<Longrightarrow> persona_ok L tr"
  by (simp add: acquiredPersona_def)

lemma reconcileActive_persona_ok:
  assumes "persona_ok (pn_Lib R) tr" "seen PPersona tr ob" "notDeleted ob"
    and "wantsPersonaDeletion ob \<longrightarrow> held (pn_Lib R) PPersona tr ob"
    and "\<not> list_ex personaUpdate tr" "\<not> list_ex personaCreate tr"
  shows "wp (reconcileActive_persona (logPersonaReconciler R) ob)
           (\<lambda>_ (s', tr'). persona_ok (pn_Lib R) tr') (s, tr)"
proof -
  let ?L = "pn_Lib R"
  let ?tr = "\<lambda>nn k m. tr @ [PConnection (GotObject nn (Inr k)), m]"
  have live: "livePersona ?L (?tr nn k m) ob"
    if "IsStatusConditionTrue ?L (cnst_Conditions (cn_Status k)) conditionReady" for nn k m
    using assms that by (auto simp: live_def intro: connReady_got [where conn = k and nn = nn])
  have J: "persona_ok ?L (tr @ [PConnection c])" "persona_ok ?L (tr @ [PConnection c, MadePersonaClient k e])" for c k e
    using assms(1) by (simp_all add: trace_simps)
  have tail: "wp (acquire_persona ?L (stampPersona ob) (logPersonaClient c)) (\<lambda>a. wp
       (case a of None \<Rightarrow> nilPanic
        | Some (persona, Inl err) \<Rightarrow> fail_persona (logPersonaReconciler R) persona ''PersonaAcquireFailed'' err
        | Some (persona, Inr observed) \<Rightarrow>
            sync_persona (logPersonaReconciler R) (logPersonaClient c) before persona observed)
       (\<lambda>_ (s', tr'). persona_ok ?L tr')) (s', ?tr nn k (MadePersonaClient k' e))"
    if "IsStatusConditionTrue ?L (cnst_Conditions (cn_Status k)) conditionReady" for c before s' nn k k' e
    by (rule wp_mono [OF acquire_persona_ok [OF J(2) live [OF that]]])
       (use assms acquiredPersona_ok in \<open>auto simp: wp_simps nilPanic_def split: option.split sum.split
          intro!: persona_failures sync_persona_ok\<close>)
  show ?thesis
    unfolding reconcileActive_persona_def Let_def resolveConnection_def logPersonaReconciler_sel logKube_sel
    using J tail
    by (auto split: sum.splits simp: wp_simps intro!: wp_loggedI wp_clientFor_personaI persona_failures)
qed

lemma reconcileDeletion_persona_ok:
  assumes "persona_ok (pn_Lib R) tr" "seen PPersona tr ob" "\<not> notDeleted ob"
  shows "wp (reconcileDeletion_persona (logPersonaReconciler R) ob) (\<lambda>_ (s', tr'). persona_ok (pn_Lib R) tr') (s, tr)"
proof -
  let ?L = "pn_Lib R"
  have drop: "persona_justified ?L tr' (PPersona (UpdatedObject
      (ob\<lparr>om_Finalizers := RemoveFinalizer ?L (om_Finalizers ob) finalizerName\<rparr>) r))"
    if "seen PPersona tr' ob" "clearedPersona ?L tr' ob" for tr' r
    unfolding persona_justified.simps
    by (rule finalizerWrite_remove [where orig = ob]) (use that assms(3) in auto)
  have delete: "persona_justified ?L tr' (DeletedPersona (recordedID ob) d)"
    if "seen PPersona tr' ob" "pns_DeletionPolicy (pno_Spec ob) = DeletionPolicyDelete" "recordedID ob \<noteq> ''''" for tr' d
    using that assms(3) by auto
  show ?thesis
    unfolding reconcileDeletion_persona_def Let_def resolveConnection_def logPersonaReconciler_sel logKube_sel
    using assms
    by (auto split: sum.splits option.splits simp: wp_simps trace_simps clearedPersona_def
        simp del: persona_justified.simps(3,4)
        intro!: wp_removeFinalizerI wp_loggedI wp_clientFor_personaI persona_failures drop delete)
qed

lemma Reconcile_persona_ok:
  "wp (Reconcile_persona (logPersonaReconciler R) req) (\<lambda>_ (s', tr'). persona_ok (pn_Lib R) tr') (s, [])"
proof -
  have add: "persona_justified (pn_Lib R) [PPersona (GotObject req (Inr ob))] (PPersona (UpdatedObject
      (ob\<lparr>om_Finalizers := AddFinalizer (pn_Lib R) (om_Finalizers ob) finalizerName\<rparr>) r))"
    if "notDeleted ob" "IsDelete (pns_DeletionPolicy (pno_Spec ob))" for ob r
    unfolding persona_justified.simps
    by (rule finalizerWrite_add) (use that in \<open>auto simp: wantsPersonaDeletion_def intro: seen_got\<close>)
  show ?thesis
    unfolding Reconcile_persona_def wp_simps logPersonaReconciler_sel logKube_sel
    by (rule wp_loggedI)
       (auto split: sum.splits option.splits simp: wp_simps guarded_def add wantsPersonaDeletion_def
          simp del: persona_justified.simps(4) intro!: wp_ensureFinalizerI reconcileDeletion_persona_ok
            reconcileActive_persona_ok
          intro: seen_got seen_updated held_contains held_added)
qed

text \<open>
  C34. Every write of a reconciliation of a persona is justified by what the run has read.  A
  persona is created at most once, of a live resource over a ready connection, when the policy
  allows it, none is recorded (or the recorded one is gone), and every persona listed was read and
  is another one.  At most one update is sent, of the specified configuration, to a persona that is
  recorded, was created or was found under its name, entity and mount accessor with leave to adopt,
  and that was read and differs.  Only the recorded persona of a deleted resource with deletion
  policy Delete is deleted, and the finalizer goes only after that.  Ready means that the persona
  was read and matches, or that the update was answered; the identifier is that of the persona.
\<close>

theorem persona_runs_justified: "guarded (persona_justified (pn_Lib R)) (persona_trace R req s)"
  using Reconcile_persona_ok [of R req s] by (simp add: persona_trace_def wp_run split_beta)

end
