(* ===== verification/Controllers.thy ===== *)
theory Controllers
  imports ConnectionController PolicyController RoleKinds OidcKinds EntityController AliasController
    GroupAliasController GroupController PersonaController ConfigurationKinds SystemKinds MfaController
begin

text \<open>
  The kinds of the API group, and what every controller registers with controller-runtime, from the \<^verbatim>\<open>SetupWithManager\<close>
  methods: the kind it reconciles, its name, the kinds it watches with the functions that map an event
  to the resources to reconcile, and its \<^verbatim>\<open>Reconcile\<close>.
\<close>

section \<open>The API group\<close>

text \<open>
  \<^verbatim>\<open>groupversion_info.go\<close> and the \<^verbatim>\<open>init\<close> functions of the types: a scheme of apimachinery
  knows kinds of a group and version; the builder collects functions that add kinds, in the order of the
  files, and \<^verbatim>\<open>AddToScheme\<close> applies them.
\<close>

type_synonym GroupVersion = "string \<times> string"

type_synonym Scheme = "(GroupVersion \<times> string) list"

definition AddKnownTypes :: "GroupVersion \<Rightarrow> string list \<Rightarrow> Scheme \<Rightarrow> Scheme" where
  "AddKnownTypes gv kinds s = s @ map (\<lambda>k. (gv, k)) kinds"

definition SchemeGroupVersion :: GroupVersion where
  "SchemeGroupVersion = (''openbao.openbao-operator.io'', ''v1alpha1'')"

definition register_openbaoadditional :: "Scheme \<Rightarrow> Scheme" where
  "register_openbaoadditional s = AddKnownTypes SchemeGroupVersion
     [''OpenBaoPersona'', ''OpenBaoPersonaList'',
      ''OpenBaoMFALoginEnforcement'', ''OpenBaoMFALoginEnforcementList'',
      ''OpenBaoMFAMethod'', ''OpenBaoMFAMethodList'',
      ''OpenBaoCORSConfiguration'', ''OpenBaoCORSConfigurationList'',
      ''OpenBaoAuditRequestHeader'', ''OpenBaoAuditRequestHeaderList'',
      ''OpenBaoUIHeader'', ''OpenBaoUIHeaderList'',
      ''OpenBaoRateLimitQuotaConfiguration'', ''OpenBaoRateLimitQuotaConfigurationList'',
      ''OpenBaoLogger'', ''OpenBaoLoggerList'',
      ''OpenBaoEncryptionKeyConfiguration'', ''OpenBaoEncryptionKeyConfigurationList'',
      ''OpenBaoKeyringRotationConfiguration'', ''OpenBaoKeyringRotationConfigurationList''] s"

definition register_openbaoapprole :: "Scheme \<Rightarrow> Scheme" where
  "register_openbaoapprole s = AddKnownTypes SchemeGroupVersion
     [''OpenBaoAppRole'', ''OpenBaoAppRoleList''] s"

definition register_openbaoconnection :: "Scheme \<Rightarrow> Scheme" where
  "register_openbaoconnection s = AddKnownTypes SchemeGroupVersion
     [''OpenBaoConnection'', ''OpenBaoConnectionList''] s"

definition register_openbaoentity :: "Scheme \<Rightarrow> Scheme" where
  "register_openbaoentity s = AddKnownTypes SchemeGroupVersion
     [''OpenBaoEntity'', ''OpenBaoEntityList''] s"

definition register_openbaoentityalias :: "Scheme \<Rightarrow> Scheme" where
  "register_openbaoentityalias s = AddKnownTypes SchemeGroupVersion
     [''OpenBaoEntityAlias'', ''OpenBaoEntityAliasList''] s"

definition register_openbaogroup :: "Scheme \<Rightarrow> Scheme" where
  "register_openbaogroup s = AddKnownTypes SchemeGroupVersion
     [''OpenBaoGroup'', ''OpenBaoGroupList''] s"

definition register_openbaogroupalias :: "Scheme \<Rightarrow> Scheme" where
  "register_openbaogroupalias s = AddKnownTypes SchemeGroupVersion
     [''OpenBaoGroupAlias'', ''OpenBaoGroupAliasList''] s"

definition register_openbaogroupmembership :: "Scheme \<Rightarrow> Scheme" where
  "register_openbaogroupmembership s = AddKnownTypes SchemeGroupVersion
     [''OpenBaoGroupMembership'', ''OpenBaoGroupMembershipList''] s"

definition register_openbaokubernetesauthrole :: "Scheme \<Rightarrow> Scheme" where
  "register_openbaokubernetesauthrole s = AddKnownTypes SchemeGroupVersion
     [''OpenBaoKubernetesAuthRole'', ''OpenBaoKubernetesAuthRoleList''] s"

definition register_openbaooidc :: "Scheme \<Rightarrow> Scheme" where
  "register_openbaooidc s = AddKnownTypes SchemeGroupVersion
     [''OpenBaoOIDCConfig'', ''OpenBaoOIDCConfigList'',
      ''OpenBaoOIDCProvider'', ''OpenBaoOIDCProviderList'',
      ''OpenBaoOIDCClient'', ''OpenBaoOIDCClientList'',
      ''OpenBaoOIDCKey'', ''OpenBaoOIDCKeyList'',
      ''OpenBaoOIDCRole'', ''OpenBaoOIDCRoleList'',
      ''OpenBaoOIDCScope'', ''OpenBaoOIDCScopeList'',
      ''OpenBaoOIDCAssignment'', ''OpenBaoOIDCAssignmentList''] s"

definition register_openbaopasswordpolicy :: "Scheme \<Rightarrow> Scheme" where
  "register_openbaopasswordpolicy s = AddKnownTypes SchemeGroupVersion
     [''OpenBaoPasswordPolicy'', ''OpenBaoPasswordPolicyList''] s"

definition register_openbaopolicy :: "Scheme \<Rightarrow> Scheme" where
  "register_openbaopolicy s = AddKnownTypes SchemeGroupVersion
     [''OpenBaoPolicy'', ''OpenBaoPolicyList''] s"

definition register_openbaosystem :: "Scheme \<Rightarrow> Scheme" where
  "register_openbaosystem s = AddKnownTypes SchemeGroupVersion
     [''OpenBaoAuthMethod'', ''OpenBaoAuthMethodList'',
      ''OpenBaoSecretEngine'', ''OpenBaoSecretEngineList'',
      ''OpenBaoNamespace'', ''OpenBaoNamespaceList'',
      ''OpenBaoAuditDevice'', ''OpenBaoAuditDeviceList'',
      ''OpenBaoRateLimitQuota'', ''OpenBaoRateLimitQuotaList'',
      ''OpenBaoWorkflow'', ''OpenBaoWorkflowList'',
      ''OpenBaoPlugin'', ''OpenBaoPluginList''] s"

definition register_openbaotokenrole :: "Scheme \<Rightarrow> Scheme" where
  "register_openbaotokenrole s = AddKnownTypes SchemeGroupVersion
     [''OpenBaoTokenRole'', ''OpenBaoTokenRoleList''] s"

definition schemeBuilder :: "(Scheme \<Rightarrow> Scheme) list" where
  "schemeBuilder =
     [register_openbaoadditional,
      register_openbaoapprole,
      register_openbaoconnection,
      register_openbaoentity,
      register_openbaoentityalias,
      register_openbaogroup,
      register_openbaogroupalias,
      register_openbaogroupmembership,
      register_openbaokubernetesauthrole,
      register_openbaooidc,
      register_openbaopasswordpolicy,
      register_openbaopolicy,
      register_openbaosystem,
      register_openbaotokenrole]"

definition AddToScheme :: "Scheme \<Rightarrow> Scheme" where
  "AddToScheme s = fold (\<lambda>f. f) schemeBuilder s"

section \<open>The registrations\<close>

datatype 's Handler =
    OnConnection "OpenBaoConnection \<Rightarrow> ('s, NamespacedName list) state"
  | OnSecret "Secret \<Rightarrow> ('s, NamespacedName list) state"
  | OnEntity "OpenBaoEntity \<Rightarrow> ('s, NamespacedName list) state"
  | OnGroup "OpenBaoGroup \<Rightarrow> ('s, NamespacedName list) state"
  | OnMembership "OpenBaoGroupMembership \<Rightarrow> ('s, NamespacedName list) state"

record 's ControllerSetup =
  cs_For :: string
  cs_Named :: string
  cs_Watches :: "'s Handler list"
  cs_Reconcile :: "NamespacedName \<Rightarrow> ('s, outcome) state"

text \<open>The kind a handler watches.\<close>

definition watchedKind :: "'s Handler \<Rightarrow> string" where
  "watchedKind h = (case h of OnConnection _ \<Rightarrow> ''OpenBaoConnection'' | OnSecret _ \<Rightarrow> ''Secret''
     | OnEntity _ \<Rightarrow> ''OpenBaoEntity'' | OnGroup _ \<Rightarrow> ''OpenBaoGroup''
     | OnMembership _ \<Rightarrow> ''OpenBaoGroupMembership'')"

definition SetupWithManager_connection ::
  "'s ConnectionReconciler \<Rightarrow> 's ControllerSetup" where
  "SetupWithManager_connection R = \<lparr>cs_For = ''OpenBaoConnection'', cs_Named = ''openbao-openbaoconnection'',
     cs_Watches = [OnSecret (mapSecretToConnections R)],
     cs_Reconcile = Reconcile_connection R\<rparr>"

definition SetupWithManager_policy ::
  "'s PolicyReconciler \<Rightarrow> 's ControllerSetup" where
  "SetupWithManager_policy R = \<lparr>cs_For = ''OpenBaoPolicy'', cs_Named = ''openbao-openbaopolicy'',
     cs_Watches = [OnConnection (mapConnectionToPolicies R)],
     cs_Reconcile = Reconcile_policy R\<rparr>"

definition SetupWithManager_kubernetesAuthRole ::
  "'s OpenBaoKubernetesAuthRoleReconciler \<Rightarrow> 's ControllerSetup" where
  "SetupWithManager_kubernetesAuthRole R = \<lparr>cs_For = ''OpenBaoKubernetesAuthRole'', cs_Named = ''openbao-openbaokubernetesauthrole'',
     cs_Watches = [OnConnection (mapConnectionToKubernetesAuthRoles R)],
     cs_Reconcile = Reconcile_kubernetesAuthRole R\<rparr>"

definition SetupWithManager_tokenRole ::
  "'s OpenBaoTokenRoleReconciler \<Rightarrow> 's ControllerSetup" where
  "SetupWithManager_tokenRole R = \<lparr>cs_For = ''OpenBaoTokenRole'', cs_Named = ''openbao-openbaotokenrole'',
     cs_Watches = [OnConnection (mapConnectionToTokenRoles R)],
     cs_Reconcile = Reconcile_tokenRole R\<rparr>"

definition SetupWithManager_passwordPolicy ::
  "'s OpenBaoPasswordPolicyReconciler \<Rightarrow> 's ControllerSetup" where
  "SetupWithManager_passwordPolicy R = \<lparr>cs_For = ''OpenBaoPasswordPolicy'', cs_Named = ''openbao-openbaopasswordpolicy'',
     cs_Watches = [OnConnection (mapConnectionToPasswordPolicies R)],
     cs_Reconcile = Reconcile_passwordPolicy R\<rparr>"

definition SetupWithManager_appRole ::
  "'s OpenBaoAppRoleReconciler \<Rightarrow> 's ControllerSetup" where
  "SetupWithManager_appRole R = \<lparr>cs_For = ''OpenBaoAppRole'', cs_Named = ''openbao-openbaoapprole'',
     cs_Watches = [OnConnection (mapConnectionToAppRoles R)],
     cs_Reconcile = Reconcile_appRole R\<rparr>"

definition SetupWithManager_oidcConfig ::
  "('s, OpenBaoOIDCConfig) OIDCReconciler \<Rightarrow> 's ControllerSetup" where
  "SetupWithManager_oidcConfig R = \<lparr>cs_For = ''OpenBaoOIDCConfig'', cs_Named = ''openbao-openbaooidcconfig'',
     cs_Watches = [OnConnection (mapConnection_oidcConfig R)],
     cs_Reconcile = Reconcile_oidcConfig R\<rparr>"

definition SetupWithManager_oidcProvider ::
  "('s, OpenBaoOIDCProvider) OIDCReconciler \<Rightarrow> 's ControllerSetup" where
  "SetupWithManager_oidcProvider R = \<lparr>cs_For = ''OpenBaoOIDCProvider'', cs_Named = ''openbao-openbaooidcprovider'',
     cs_Watches = [OnConnection (mapConnection_oidcProvider R)],
     cs_Reconcile = Reconcile_oidcProvider R\<rparr>"

definition SetupWithManager_oidcClient ::
  "('s, OpenBaoOIDCClient) OIDCReconciler \<Rightarrow> 's ControllerSetup" where
  "SetupWithManager_oidcClient R = \<lparr>cs_For = ''OpenBaoOIDCClient'', cs_Named = ''openbao-openbaooidcclient'',
     cs_Watches = [OnConnection (mapConnection_oidcClient R)],
     cs_Reconcile = Reconcile_oidcClient R\<rparr>"

definition SetupWithManager_oidcKey ::
  "('s, OpenBaoOIDCKey) OIDCReconciler \<Rightarrow> 's ControllerSetup" where
  "SetupWithManager_oidcKey R = \<lparr>cs_For = ''OpenBaoOIDCKey'', cs_Named = ''openbao-openbaooidckey'',
     cs_Watches = [OnConnection (mapConnection_oidcKey R)],
     cs_Reconcile = Reconcile_oidcKey R\<rparr>"

definition SetupWithManager_oidcRole ::
  "('s, OpenBaoOIDCRole) OIDCReconciler \<Rightarrow> 's ControllerSetup" where
  "SetupWithManager_oidcRole R = \<lparr>cs_For = ''OpenBaoOIDCRole'', cs_Named = ''openbao-openbaooidcrole'',
     cs_Watches = [OnConnection (mapConnection_oidcRole R)],
     cs_Reconcile = Reconcile_oidcRole R\<rparr>"

definition SetupWithManager_oidcScope ::
  "('s, OpenBaoOIDCScope) OIDCReconciler \<Rightarrow> 's ControllerSetup" where
  "SetupWithManager_oidcScope R = \<lparr>cs_For = ''OpenBaoOIDCScope'', cs_Named = ''openbao-openbaooidcscope'',
     cs_Watches = [OnConnection (mapConnection_oidcScope R)],
     cs_Reconcile = Reconcile_oidcScope R\<rparr>"

definition SetupWithManager_oidcAssignment ::
  "('s, OpenBaoOIDCAssignment) OIDCReconciler \<Rightarrow> 's ControllerSetup" where
  "SetupWithManager_oidcAssignment R = \<lparr>cs_For = ''OpenBaoOIDCAssignment'', cs_Named = ''openbao-openbaooidcassignment'',
     cs_Watches = [OnConnection (mapConnection_oidcAssignment R)],
     cs_Reconcile = Reconcile_oidcAssignment R\<rparr>"

definition SetupWithManager_entity ::
  "'s EntityReconciler \<Rightarrow> 's ControllerSetup" where
  "SetupWithManager_entity R = \<lparr>cs_For = ''OpenBaoEntity'', cs_Named = ''openbao-openbaoentity'',
     cs_Watches = [OnConnection (mapConnectionToEntities R)],
     cs_Reconcile = Reconcile_entity R\<rparr>"

definition SetupWithManager_alias ::
  "'s AliasReconciler \<Rightarrow> 's ControllerSetup" where
  "SetupWithManager_alias R = \<lparr>cs_For = ''OpenBaoEntityAlias'', cs_Named = ''openbao-openbaoentityalias'',
     cs_Watches = [OnConnection (mapConnectionToAliases R),
       OnEntity (mapEntityToAliases R)],
     cs_Reconcile = Reconcile_alias R\<rparr>"

definition SetupWithManager_groupAlias ::
  "'s GroupAliasReconciler \<Rightarrow> 's ControllerSetup" where
  "SetupWithManager_groupAlias R = \<lparr>cs_For = ''OpenBaoGroupAlias'', cs_Named = ''openbao-openbaogroupalias'',
     cs_Watches = [OnConnection (mapConnectionToAliases_group R),
       OnGroup (mapGroupToAliases R)],
     cs_Reconcile = Reconcile_groupAlias R\<rparr>"

definition SetupWithManager_group ::
  "'s GroupReconciler \<Rightarrow> 's ControllerSetup" where
  "SetupWithManager_group R = \<lparr>cs_For = ''OpenBaoGroup'', cs_Named = ''openbao-openbaogroup'',
     cs_Watches = [OnConnection (mapConnectionToGroups R),
       OnMembership (\<lambda>m. ret (mapMembershipToGroup m)),
       OnEntity (mapEntityToGroups R),
       OnGroup (mapGroupToParentGroups R)],
     cs_Reconcile = Reconcile_group R\<rparr>"

definition SetupWithManager_persona ::
  "'s PersonaReconciler \<Rightarrow> 's ControllerSetup" where
  "SetupWithManager_persona R = \<lparr>cs_For = ''OpenBaoPersona'', cs_Named = ''openbao-openbaopersona'',
     cs_Watches = [OnConnection (mapConnection_persona R)],
     cs_Reconcile = Reconcile_persona R\<rparr>"

definition SetupWithManager_mfaLoginEnforcement ::
  "((string \<times> string slice) list \<Rightarrow> (string \<times> string slice) list) \<Rightarrow>
     ('s, 's SystemClient, OpenBaoMFALoginEnforcement) SystemReconciler \<Rightarrow> 's ControllerSetup" where
  "SetupWithManager_mfaLoginEnforcement visit R = \<lparr>cs_For = ''OpenBaoMFALoginEnforcement'', cs_Named = ''openbao-openbaomfaloginenforcement'',
     cs_Watches = [OnConnection (mapConnection_mfaLoginEnforcement R)],
     cs_Reconcile = Reconcile_mfaLoginEnforcement visit R\<rparr>"

definition SetupWithManager_mfa ::
  "'s MFAMethodReconciler \<Rightarrow> 's ControllerSetup" where
  "SetupWithManager_mfa R = \<lparr>cs_For = ''OpenBaoMFAMethod'', cs_Named = ''openbao-openbaomfamethod'',
     cs_Watches = [OnConnection (mapConnection_mfa R),
       OnSecret (mapSecret_mfa R)],
     cs_Reconcile = Reconcile_mfa R\<rparr>"

definition SetupWithManager_authMethod ::
  "('s, 's SystemClient, OpenBaoAuthMethod) SystemReconciler \<Rightarrow> 's ControllerSetup" where
  "SetupWithManager_authMethod R = \<lparr>cs_For = ''OpenBaoAuthMethod'', cs_Named = ''openbao-openbaoauthmethod'',
     cs_Watches = [OnConnection (mapConnection_authMethod R)],
     cs_Reconcile = Reconcile_authMethod R\<rparr>"

definition SetupWithManager_secretEngine ::
  "('s, 's SystemClient, OpenBaoSecretEngine) SystemReconciler \<Rightarrow> 's ControllerSetup" where
  "SetupWithManager_secretEngine R = \<lparr>cs_For = ''OpenBaoSecretEngine'', cs_Named = ''openbao-openbaosecretengine'',
     cs_Watches = [OnConnection (mapConnection_secretEngine R)],
     cs_Reconcile = Reconcile_secretEngine R\<rparr>"

definition SetupWithManager_namespace ::
  "('s, 's SystemClient, OpenBaoNamespace) SystemReconciler \<Rightarrow> 's ControllerSetup" where
  "SetupWithManager_namespace R = \<lparr>cs_For = ''OpenBaoNamespace'', cs_Named = ''openbao-openbaonamespace'',
     cs_Watches = [OnConnection (mapConnection_namespace R)],
     cs_Reconcile = Reconcile_namespace R\<rparr>"

definition SetupWithManager_auditDevice ::
  "('s, 's SystemClient, OpenBaoAuditDevice) SystemReconciler \<Rightarrow> 's ControllerSetup" where
  "SetupWithManager_auditDevice R = \<lparr>cs_For = ''OpenBaoAuditDevice'', cs_Named = ''openbao-openbaoauditdevice'',
     cs_Watches = [OnConnection (mapConnection_auditDevice R)],
     cs_Reconcile = Reconcile_auditDevice R\<rparr>"

definition SetupWithManager_rateLimitQuota ::
  "('s, 's SystemClient, OpenBaoRateLimitQuota) SystemReconciler \<Rightarrow> 's ControllerSetup" where
  "SetupWithManager_rateLimitQuota R = \<lparr>cs_For = ''OpenBaoRateLimitQuota'', cs_Named = ''openbao-openbaoratelimitquota'',
     cs_Watches = [OnConnection (mapConnection_rateLimitQuota R)],
     cs_Reconcile = Reconcile_rateLimitQuota R\<rparr>"

definition SetupWithManager_workflow ::
  "('s, 's SystemClient, OpenBaoWorkflow) SystemReconciler \<Rightarrow> 's ControllerSetup" where
  "SetupWithManager_workflow R = \<lparr>cs_For = ''OpenBaoWorkflow'', cs_Named = ''openbao-openbaoworkflow'',
     cs_Watches = [OnConnection (mapConnection_workflow R)],
     cs_Reconcile = Reconcile_workflow R\<rparr>"

definition SetupWithManager_plugin ::
  "('s, 's SystemClient, OpenBaoPlugin) SystemReconciler \<Rightarrow> 's ControllerSetup" where
  "SetupWithManager_plugin R = \<lparr>cs_For = ''OpenBaoPlugin'', cs_Named = ''openbao-openbaoplugin'',
     cs_Watches = [OnConnection (mapConnection_plugin R)],
     cs_Reconcile = Reconcile_plugin R\<rparr>"

definition SetupWithManager_corsConfiguration ::
  "('s, 's SystemClient, OpenBaoCORSConfiguration) SystemReconciler \<Rightarrow> 's ControllerSetup" where
  "SetupWithManager_corsConfiguration R = \<lparr>cs_For = ''OpenBaoCORSConfiguration'', cs_Named = ''openbao-openbaocorsconfiguration'',
     cs_Watches = [OnConnection (mapConnection_corsConfiguration R)],
     cs_Reconcile = Reconcile_corsConfiguration R\<rparr>"

definition SetupWithManager_auditRequestHeader ::
  "('s, 's SystemClient, OpenBaoAuditRequestHeader) SystemReconciler \<Rightarrow> 's ControllerSetup" where
  "SetupWithManager_auditRequestHeader R = \<lparr>cs_For = ''OpenBaoAuditRequestHeader'', cs_Named = ''openbao-openbaoauditrequestheader'',
     cs_Watches = [OnConnection (mapConnection_auditRequestHeader R)],
     cs_Reconcile = Reconcile_auditRequestHeader R\<rparr>"

definition SetupWithManager_uiHeader ::
  "('s, 's SystemClient, OpenBaoUIHeader) SystemReconciler \<Rightarrow> 's ControllerSetup" where
  "SetupWithManager_uiHeader R = \<lparr>cs_For = ''OpenBaoUIHeader'', cs_Named = ''openbao-openbaouiheader'',
     cs_Watches = [OnConnection (mapConnection_uiHeader R)],
     cs_Reconcile = Reconcile_uiHeader R\<rparr>"

definition SetupWithManager_quotaConfiguration ::
  "('s, 's SystemClient, OpenBaoRateLimitQuotaConfiguration) SystemReconciler \<Rightarrow> 's ControllerSetup" where
  "SetupWithManager_quotaConfiguration R = \<lparr>cs_For = ''OpenBaoRateLimitQuotaConfiguration'', cs_Named = ''openbao-openbaoratelimitquotaconfiguration'',
     cs_Watches = [OnConnection (mapConnection_quotaConfiguration R)],
     cs_Reconcile = Reconcile_quotaConfiguration R\<rparr>"

definition SetupWithManager_logger ::
  "('s, 's SystemClient, OpenBaoLogger) SystemReconciler \<Rightarrow> 's ControllerSetup" where
  "SetupWithManager_logger R = \<lparr>cs_For = ''OpenBaoLogger'', cs_Named = ''openbao-openbaologger'',
     cs_Watches = [OnConnection (mapConnection_logger R)],
     cs_Reconcile = Reconcile_logger R\<rparr>"

definition SetupWithManager_encryptionKey ::
  "('s, 's SystemClient, OpenBaoEncryptionKeyConfiguration) SystemReconciler \<Rightarrow> 's ControllerSetup" where
  "SetupWithManager_encryptionKey R = \<lparr>cs_For = ''OpenBaoEncryptionKeyConfiguration'', cs_Named = ''openbao-openbaoencryptionkeyconfiguration'',
     cs_Watches = [OnConnection (mapConnection_encryptionKey R)],
     cs_Reconcile = Reconcile_encryptionKey R\<rparr>"

definition SetupWithManager_keyringRotation ::
  "('s, 's SystemClient, OpenBaoKeyringRotationConfiguration) SystemReconciler \<Rightarrow> 's ControllerSetup" where
  "SetupWithManager_keyringRotation R = \<lparr>cs_For = ''OpenBaoKeyringRotationConfiguration'', cs_Named = ''openbao-openbaokeyringrotationconfiguration'',
     cs_Watches = [OnConnection (mapConnection_keyringRotation R)],
     cs_Reconcile = Reconcile_keyringRotation R\<rparr>"

end
