(* ===== verification/Operator.thy ===== *)
theory Operator
  imports Controllers Scope
begin

text \<open>
  \<^verbatim>\<open>cmd/main.go\<close>: the flags, the options of the manager, the registration of the
  controllers in order, and the exit code.  The package \<^verbatim>\<open>flag\<close> of the standard library is
  modelled as the program uses it; the flags other packages register on the same set (the logger's and the
  Kubernetes client's) are a parameter, which says for each name whether it is boolean and which values it
  takes.  \<open>Manager\<close> stands for controller-runtime.  The reconcilers are given with the API server and the
  connection cache \<^verbatim>\<open>main\<close> hands to all of them (for entities, see \<open>EntityStack\<close>).
\<close>

section \<open>Flags\<close>

record OperatorFlags =
  of_metricsAddr :: string
  of_metricsCertPath :: string
  of_metricsCertName :: string
  of_metricsCertKey :: string
  of_enableLeaderElection :: bool
  of_probeAddr :: string
  of_secureMetrics :: bool
  of_enableHTTP2 :: bool
  of_watchNamespaces :: string

definition defaultFlags :: OperatorFlags where
  "defaultFlags = \<lparr>of_metricsAddr = ''0'', of_metricsCertPath = '''', of_metricsCertName = ''tls.crt'',
     of_metricsCertKey = ''tls.key'', of_enableLeaderElection = False, of_probeAddr = '':8081'',
     of_secureMetrics = True, of_enableHTTP2 = False, of_watchNamespaces = ''''\<rparr>"

text \<open>\<^verbatim>\<open>strconv.ParseBool\<close>\<close>

definition ParseBool :: "string \<Rightarrow> bool option" where
  "ParseBool s =
     (if s \<in> {''1'', ''t'', ''T'', ''TRUE'', ''true'', ''True''} then Some True
      else if s \<in> {''0'', ''f'', ''F'', ''FALSE'', ''false'', ''False''} then Some False
      else None)"

text \<open>A flag: whether it can stand without a value, and what a value does, if it is acceptable.\<close>

record Flag =
  fl_IsBool :: bool
  fl_Set :: "string \<Rightarrow> OperatorFlags \<Rightarrow> OperatorFlags option"

definition stringFlag :: "(string \<Rightarrow> OperatorFlags \<Rightarrow> OperatorFlags) \<Rightarrow> Flag" where
  "stringFlag put = \<lparr>fl_IsBool = False, fl_Set = (\<lambda>v f. Some (put v f))\<rparr>"

definition boolFlag :: "(bool \<Rightarrow> OperatorFlags \<Rightarrow> OperatorFlags) \<Rightarrow> Flag" where
  "boolFlag put = \<lparr>fl_IsBool = True, fl_Set = (\<lambda>v f. map_option (\<lambda>b. put b f) (ParseBool v))\<rparr>"

definition foreignFlag :: "bool \<times> (string \<Rightarrow> bool) \<Rightarrow> Flag" where
  "foreignFlag f = \<lparr>fl_IsBool = fst f, fl_Set = (\<lambda>v g. if snd f v then Some g else None)\<rparr>"

definition operatorFlags :: "(string \<times> Flag) list" where
  "operatorFlags =
     [(''metrics-bind-address'', stringFlag (\<lambda>v f. f\<lparr>of_metricsAddr := v\<rparr>)),
      (''health-probe-bind-address'', stringFlag (\<lambda>v f. f\<lparr>of_probeAddr := v\<rparr>)),
      (''leader-elect'', boolFlag (\<lambda>b f. f\<lparr>of_enableLeaderElection := b\<rparr>)),
      (''metrics-secure'', boolFlag (\<lambda>b f. f\<lparr>of_secureMetrics := b\<rparr>)),
      (''metrics-cert-path'', stringFlag (\<lambda>v f. f\<lparr>of_metricsCertPath := v\<rparr>)),
      (''metrics-cert-name'', stringFlag (\<lambda>v f. f\<lparr>of_metricsCertName := v\<rparr>)),
      (''metrics-cert-key'', stringFlag (\<lambda>v f. f\<lparr>of_metricsCertKey := v\<rparr>)),
      (''enable-http2'', boolFlag (\<lambda>b f. f\<lparr>of_enableHTTP2 := b\<rparr>)),
      (''watch-namespaces'', stringFlag (\<lambda>v f. f\<lparr>of_watchNamespaces := v\<rparr>))]"

type_synonym ForeignFlags = "(string \<times> bool \<times> (string \<Rightarrow> bool)) list"

definition formalFlag :: "ForeignFlags \<Rightarrow> string \<Rightarrow> Flag option" where
  "formalFlag foreign name = (case map_of operatorFlags name of
      Some f \<Rightarrow> Some f
    | None \<Rightarrow> map_option foreignFlag (map_of foreign name))"

text \<open>How parsing can end the process: usage was asked for (exit code 0), or an error (2).\<close>

datatype FlagExit = HelpRequested | BadFlags

text \<open>One argument: not a flag, the end of the flags, an error, or a name with perhaps a value.\<close>

datatype FlagSyntax = NotAFlag | EndOfFlags | BadSyntax | Named string "string option"

definition flagSyntax :: "string \<Rightarrow> FlagSyntax" where
  "flagSyntax s =
     (if length s < 2 \<or> hd s \<noteq> CHR ''-'' then NotAFlag
      else if s = ''--'' then EndOfFlags
      else (let name = (if s ! 1 = CHR ''-'' then drop 2 s else drop 1 s) in
        if name = '''' \<or> hd name = CHR ''-'' \<or> hd name = CHR ''='' then BadSyntax
        else if CHR ''='' \<in> set name then
          Named (takeWhile (\<lambda>c. c \<noteq> CHR ''='') name) (Some (tl (dropWhile (\<lambda>c. c \<noteq> CHR ''='') name)))
        else Named name None))"

text \<open>\<^verbatim>\<open>FlagSet.Parse\<close>, which stops at the first argument that is not a flag.\<close>

fun parseFlags :: "ForeignFlags \<Rightarrow> string list \<Rightarrow> OperatorFlags \<Rightarrow> FlagExit + OperatorFlags" where
  "parseFlags foreign [] f = Inr f"
| "parseFlags foreign (s # args) f = (case flagSyntax s of
      NotAFlag \<Rightarrow> Inr f
    | EndOfFlags \<Rightarrow> Inr f
    | BadSyntax \<Rightarrow> Inl BadFlags
    | Named name value \<Rightarrow> (case formalFlag foreign name of
        None \<Rightarrow> Inl (if name = ''help'' \<or> name = ''h'' then HelpRequested else BadFlags)
      | Some fl \<Rightarrow>
          if fl_IsBool fl then
            (case fl_Set fl (case value of None \<Rightarrow> ''true'' | Some v \<Rightarrow> v) f of
               None \<Rightarrow> Inl BadFlags | Some f' \<Rightarrow> parseFlags foreign args f')
          else (case value of
              Some v \<Rightarrow> (case fl_Set fl v f of None \<Rightarrow> Inl BadFlags | Some f' \<Rightarrow> parseFlags foreign args f')
            | None \<Rightarrow> (case args of
                [] \<Rightarrow> Inl BadFlags
              | v # rest \<Rightarrow> (case fl_Set fl v f of None \<Rightarrow> Inl BadFlags | Some f' \<Rightarrow> parseFlags foreign rest f')))))"

definition flagExitCode :: "FlagExit \<Rightarrow> int" where
  "flagExitCode e = (case e of HelpRequested \<Rightarrow> 0 | BadFlags \<Rightarrow> 2)"

section \<open>The manager\<close>

text \<open>Of \<^verbatim>\<open>tls.Config\<close>, what the program sets.\<close>

record tlsConfig =
  tc_NextProtos :: "string slice"

definition disableHTTP2 :: "tlsConfig \<Rightarrow> tlsConfig" where
  "disableHTTP2 c = c\<lparr>tc_NextProtos := Some [''http/1.1'']\<rparr>"

datatype FilterProvider = WithAuthenticationAndAuthorization

record MetricsOptions =
  me_BindAddress :: string
  me_SecureServing :: bool
  me_TLSOpts :: "(tlsConfig \<Rightarrow> tlsConfig) list"
  me_FilterProvider :: "FilterProvider option"
  me_CertDir :: string
  me_CertName :: string
  me_KeyName :: string

record ManagerOptions =
  mo_Cache :: "string fset option"
  mo_Metrics :: MetricsOptions
  mo_HealthProbeBindAddress :: string
  mo_LeaderElection :: bool
  mo_LeaderElectionID :: string

definition tlsOptions :: "OperatorFlags \<Rightarrow> (tlsConfig \<Rightarrow> tlsConfig) list" where
  "tlsOptions f = (if \<not> of_enableHTTP2 f then [disableHTTP2] else [])"

definition metricsServerOptions :: "OperatorFlags \<Rightarrow> MetricsOptions" where
  "metricsServerOptions f =
     (let plain = \<lparr>me_BindAddress = of_metricsAddr f, me_SecureServing = of_secureMetrics f, me_TLSOpts = tlsOptions f,
            me_FilterProvider = None, me_CertDir = '''', me_CertName = '''', me_KeyName = ''''\<rparr>;
          filtered = (if of_secureMetrics f then plain\<lparr>me_FilterProvider := Some WithAuthenticationAndAuthorization\<rparr> else plain)
      in if length (of_metricsCertPath f) > 0 then
           filtered\<lparr>me_CertDir := of_metricsCertPath f, me_CertName := of_metricsCertName f, me_KeyName := of_metricsCertKey f\<rparr>
         else filtered)"

definition managerOptions :: "OperatorFlags \<Rightarrow> string fset option \<Rightarrow> ManagerOptions" where
  "managerOptions f cacheOptions =
     \<lparr>mo_Cache = cacheOptions, mo_Metrics = metricsServerOptions f, mo_HealthProbeBindAddress = of_probeAddr f,
      mo_LeaderElection = of_enableLeaderElection f, mo_LeaderElectionID = ''9b9ccd24.openbao-operator.io''\<rparr>"

text \<open>
  controller-runtime: finding the cluster's configuration, making the manager, registering a controller
  (\<^verbatim>\<open>Complete\<close>) and the two checks, and running until stopped.  Each answers its error.
  Its state is separate from the one the controllers will run in.
\<close>

record ('t, 's) Manager =
  mg_GetConfig :: "('t, go_error option) state"
  mg_New :: "ManagerOptions \<Rightarrow> ('t, go_error option) state"
  mg_Complete :: "'s ControllerSetup \<Rightarrow> ('t, go_error option) state"
  mg_AddHealthzCheck :: "string \<Rightarrow> ('t, go_error option) state"
  mg_AddReadyzCheck :: "string \<Rightarrow> ('t, go_error option) state"
  mg_Start :: "('t, go_error option) state"

section \<open>The controllers\<close>

record 's Reconcilers =
  rc_connection :: "'s ConnectionReconciler"
  rc_policy :: "'s PolicyReconciler"
  rc_kubernetesAuthRole :: "'s OpenBaoKubernetesAuthRoleReconciler"
  rc_tokenRole :: "'s OpenBaoTokenRoleReconciler"
  rc_passwordPolicy :: "'s OpenBaoPasswordPolicyReconciler"
  rc_appRole :: "'s OpenBaoAppRoleReconciler"
  rc_oidcConfig :: "('s, OpenBaoOIDCConfig) OIDCReconciler"
  rc_oidcProvider :: "('s, OpenBaoOIDCProvider) OIDCReconciler"
  rc_oidcClient :: "('s, OpenBaoOIDCClient) OIDCReconciler"
  rc_oidcKey :: "('s, OpenBaoOIDCKey) OIDCReconciler"
  rc_oidcRole :: "('s, OpenBaoOIDCRole) OIDCReconciler"
  rc_oidcScope :: "('s, OpenBaoOIDCScope) OIDCReconciler"
  rc_oidcAssignment :: "('s, OpenBaoOIDCAssignment) OIDCReconciler"
  rc_entity :: "'s EntityReconciler"
  rc_alias :: "'s AliasReconciler"
  rc_groupAlias :: "'s GroupAliasReconciler"
  rc_group :: "'s GroupReconciler"
  rc_persona :: "'s PersonaReconciler"
  rc_mfaLoginEnforcement :: "('s, 's SystemClient, OpenBaoMFALoginEnforcement) SystemReconciler"
  rc_mfa :: "'s MFAMethodReconciler"
  rc_authMethod :: "('s, 's SystemClient, OpenBaoAuthMethod) SystemReconciler"
  rc_secretEngine :: "('s, 's SystemClient, OpenBaoSecretEngine) SystemReconciler"
  rc_namespace :: "('s, 's SystemClient, OpenBaoNamespace) SystemReconciler"
  rc_auditDevice :: "('s, 's SystemClient, OpenBaoAuditDevice) SystemReconciler"
  rc_rateLimitQuota :: "('s, 's SystemClient, OpenBaoRateLimitQuota) SystemReconciler"
  rc_workflow :: "('s, 's SystemClient, OpenBaoWorkflow) SystemReconciler"
  rc_plugin :: "('s, 's SystemClient, OpenBaoPlugin) SystemReconciler"
  rc_corsConfiguration :: "('s, 's SystemClient, OpenBaoCORSConfiguration) SystemReconciler"
  rc_auditRequestHeader :: "('s, 's SystemClient, OpenBaoAuditRequestHeader) SystemReconciler"
  rc_uiHeader :: "('s, 's SystemClient, OpenBaoUIHeader) SystemReconciler"
  rc_quotaConfiguration :: "('s, 's SystemClient, OpenBaoRateLimitQuotaConfiguration) SystemReconciler"
  rc_logger :: "('s, 's SystemClient, OpenBaoLogger) SystemReconciler"
  rc_encryptionKey :: "('s, 's SystemClient, OpenBaoEncryptionKeyConfiguration) SystemReconciler"
  rc_keyringRotation :: "('s, 's SystemClient, OpenBaoKeyringRotationConfiguration) SystemReconciler"
  rc_visitOrder :: "(string \<times> string slice) list \<Rightarrow> (string \<times> string slice) list"

text \<open>In the order of \<^verbatim>\<open>main\<close>.\<close>

definition accessControllers :: "'s Reconcilers \<Rightarrow> 's ControllerSetup list" where
  "accessControllers R =
     [SetupWithManager_connection (rc_connection R),
      SetupWithManager_policy (rc_policy R),
      SetupWithManager_kubernetesAuthRole (rc_kubernetesAuthRole R),
      SetupWithManager_tokenRole (rc_tokenRole R),
      SetupWithManager_passwordPolicy (rc_passwordPolicy R),
      SetupWithManager_appRole (rc_appRole R)]"

definition oidcControllers :: "'s Reconcilers \<Rightarrow> 's ControllerSetup list" where
  "oidcControllers R =
     [SetupWithManager_oidcConfig (rc_oidcConfig R),
      SetupWithManager_oidcProvider (rc_oidcProvider R),
      SetupWithManager_oidcClient (rc_oidcClient R),
      SetupWithManager_oidcKey (rc_oidcKey R),
      SetupWithManager_oidcRole (rc_oidcRole R),
      SetupWithManager_oidcScope (rc_oidcScope R),
      SetupWithManager_oidcAssignment (rc_oidcAssignment R)]"

definition identityControllers :: "'s Reconcilers \<Rightarrow> 's ControllerSetup list" where
  "identityControllers R =
     [SetupWithManager_entity (rc_entity R),
      SetupWithManager_alias (rc_alias R),
      SetupWithManager_groupAlias (rc_groupAlias R),
      SetupWithManager_group (rc_group R),
      SetupWithManager_persona (rc_persona R),
      SetupWithManager_mfaLoginEnforcement (rc_visitOrder R) (rc_mfaLoginEnforcement R),
      SetupWithManager_mfa (rc_mfa R)]"

definition systemControllers :: "'s Reconcilers \<Rightarrow> 's ControllerSetup list" where
  "systemControllers R =
     [SetupWithManager_authMethod (rc_authMethod R),
      SetupWithManager_secretEngine (rc_secretEngine R),
      SetupWithManager_namespace (rc_namespace R),
      SetupWithManager_auditDevice (rc_auditDevice R),
      SetupWithManager_rateLimitQuota (rc_rateLimitQuota R),
      SetupWithManager_workflow (rc_workflow R),
      SetupWithManager_plugin (rc_plugin R),
      SetupWithManager_corsConfiguration (rc_corsConfiguration R),
      SetupWithManager_auditRequestHeader (rc_auditRequestHeader R),
      SetupWithManager_uiHeader (rc_uiHeader R),
      SetupWithManager_quotaConfiguration (rc_quotaConfiguration R),
      SetupWithManager_logger (rc_logger R),
      SetupWithManager_encryptionKey (rc_encryptionKey R),
      SetupWithManager_keyringRotation (rc_keyringRotation R)]"

definition controllers :: "'s Reconcilers \<Rightarrow> 's ControllerSetup list" where
  "controllers R = accessControllers R @ oidcControllers R @ identityControllers R @ systemControllers R"

section \<open>The main function\<close>

fun registerControllers :: "('t, 's) Manager \<Rightarrow> 's ControllerSetup list \<Rightarrow> ('t, go_error option) state" where
  "registerControllers M [] = ret None"
| "registerControllers M (c # cs) = do {
     e \<leftarrow> mg_Complete M c;
     (case e of Some err \<Rightarrow> ret (Some err) | None \<Rightarrow> registerControllers M cs)
   }"

text \<open>A step whose error ends the process with exit code 1.\<close>

definition orExit :: "('t, go_error option) state \<Rightarrow> ('t, int) state \<Rightarrow> ('t, int) state" where
  "orExit m next = do { e \<leftarrow> m; (case e of Some err \<Rightarrow> ret 1 | None \<Rightarrow> next) }"

text \<open>The exit code of the process.\<close>

definition operatorMain ::
  "(string \<Rightarrow> string list) \<Rightarrow> ForeignFlags \<Rightarrow> ('t, 's) Manager \<Rightarrow> 's Reconcilers \<Rightarrow> string list \<Rightarrow> ('t, int) state" where
  "operatorMain isDNS1123Label foreign M R args = (case parseFlags foreign args defaultFlags of
      Inl e \<Rightarrow> ret (flagExitCode e)
    | Inr f \<Rightarrow> (case CacheOptionsForWatchNamespaces isDNS1123Label (of_watchNamespaces f) of
        Inl err \<Rightarrow> ret 1
      | Inr cacheOptions \<Rightarrow>
          orExit (mg_GetConfig M)
          (orExit (mg_New M (managerOptions f cacheOptions))
          (orExit (registerControllers M (controllers R))
          (orExit (mg_AddHealthzCheck M ''healthz'')
          (orExit (mg_AddReadyzCheck M ''readyz'')
          (orExit (mg_Start M) (ret 0))))))))"

section \<open>Starting as configured\<close>

datatype ManagerEvent =
    GotConfig "go_error option"
  | MadeManager ManagerOptions "go_error option"
  | Completed string "go_error option"
  | AddedHealthz string "go_error option"
  | AddedReadyz string "go_error option"
  | Started "go_error option"

definition logManager :: "('t, 's) Manager \<Rightarrow> ('t \<times> ManagerEvent list, 's) Manager" where
  "logManager M =
     \<lparr>mg_GetConfig = logged GotConfig (mg_GetConfig M),
      mg_New = (\<lambda>opts. logged (MadeManager opts) (mg_New M opts)),
      mg_Complete = (\<lambda>c. logged (Completed (cs_Named c)) (mg_Complete M c)),
      mg_AddHealthzCheck = (\<lambda>n. logged (AddedHealthz n) (mg_AddHealthzCheck M n)),
      mg_AddReadyzCheck = (\<lambda>n. logged (AddedReadyz n) (mg_AddReadyzCheck M n)),
      mg_Start = logged Started (mg_Start M)\<rparr>"

lemma logManager_sel [simp]:
  "mg_GetConfig (logManager M) = logged GotConfig (mg_GetConfig M)"
  "mg_New (logManager M) opts = logged (MadeManager opts) (mg_New M opts)"
  "mg_Complete (logManager M) c = logged (Completed (cs_Named c)) (mg_Complete M c)"
  "mg_AddHealthzCheck (logManager M) n = logged (AddedHealthz n) (mg_AddHealthzCheck M n)"
  "mg_AddReadyzCheck (logManager M) n = logged (AddedReadyz n) (mg_AddReadyzCheck M n)"
  "mg_Start (logManager M) = logged Started (mg_Start M)"
  by (simp_all add: logManager_def)

definition isStart :: "ManagerEvent \<Rightarrow> bool" where
  "isStart e \<longleftrightarrow> (case e of Started _ \<Rightarrow> True | _ \<Rightarrow> False)"

definition isCompletion :: "ManagerEvent \<Rightarrow> bool" where
  "isCompletion e \<longleftrightarrow> (case e of Completed _ _ \<Rightarrow> True | _ \<Rightarrow> False)"

lemma isCompletion_Completed [simp]: "isCompletion (Completed n e)"
  by (simp add: isCompletion_def)

lemma isStart_simps [simp]:
  "isStart (Started e)" "\<not> isStart (GotConfig e)" "\<not> isStart (MadeManager opts e)" "\<not> isStart (Completed n e)"
  "\<not> isStart (AddedHealthz n e)" "\<not> isStart (AddedReadyz n e)"
  by (simp_all add: isStart_def)

text \<open>The events of a start with these options, up to the answer of the manager when it stops.\<close>

definition fullStart :: "ManagerOptions \<Rightarrow> 's Reconcilers \<Rightarrow> go_error option \<Rightarrow> ManagerEvent list" where
  "fullStart opts R e =
     [GotConfig None, MadeManager opts None] @ map (\<lambda>c. Completed (cs_Named c) None) (controllers R) @
     [AddedHealthz ''healthz'' None, AddedReadyz ''readyz'' None, Started e]"

lemmas setups = accessControllers_def oidcControllers_def identityControllers_def systemControllers_def
  SetupWithManager_auditRequestHeader_def SetupWithManager_corsConfiguration_def
  SetupWithManager_encryptionKey_def SetupWithManager_keyringRotation_def
  SetupWithManager_logger_def SetupWithManager_quotaConfiguration_def SetupWithManager_uiHeader_def
  SetupWithManager_appRole_def SetupWithManager_connection_def SetupWithManager_entity_def
  SetupWithManager_alias_def SetupWithManager_group_def SetupWithManager_groupAlias_def
  SetupWithManager_kubernetesAuthRole_def SetupWithManager_mfa_def
  SetupWithManager_mfaLoginEnforcement_def SetupWithManager_oidcAssignment_def
  SetupWithManager_oidcClient_def SetupWithManager_oidcConfig_def SetupWithManager_oidcKey_def
  SetupWithManager_oidcProvider_def SetupWithManager_oidcRole_def SetupWithManager_oidcScope_def
  SetupWithManager_passwordPolicy_def SetupWithManager_persona_def SetupWithManager_policy_def
  SetupWithManager_auditDevice_def SetupWithManager_authMethod_def SetupWithManager_namespace_def
  SetupWithManager_plugin_def SetupWithManager_rateLimitQuota_def SetupWithManager_secretEngine_def
  SetupWithManager_workflow_def SetupWithManager_tokenRole_def

lemmas kindsRegistered =
  register_openbaoadditional_def register_openbaoapprole_def register_openbaoconnection_def
  register_openbaoentity_def register_openbaoentityalias_def register_openbaogroup_def
  register_openbaogroupalias_def register_openbaogroupmembership_def
  register_openbaokubernetesauthrole_def register_openbaooidc_def register_openbaopasswordpolicy_def
  register_openbaopolicy_def register_openbaosystem_def register_openbaotokenrole_def

lemma controllers_distinct: "distinct (map cs_Named (controllers R))" "distinct (map cs_For (controllers R))"
  by (simp_all add: controllers_def setups)

text \<open>The kinds of the API group that are not lists.\<close>

definition servedKinds :: "string set" where
  "servedKinds = set (filter (\<lambda>k. \<not> HasSuffix k ''List'') (map snd (AddToScheme [])))"

lemma controllers_For:
  "map cs_For (controllers R) =
     [''OpenBaoConnection'', ''OpenBaoPolicy'', ''OpenBaoKubernetesAuthRole'',
      ''OpenBaoTokenRole'', ''OpenBaoPasswordPolicy'', ''OpenBaoAppRole'',
      ''OpenBaoOIDCConfig'', ''OpenBaoOIDCProvider'', ''OpenBaoOIDCClient'', ''OpenBaoOIDCKey'',
      ''OpenBaoOIDCRole'', ''OpenBaoOIDCScope'', ''OpenBaoOIDCAssignment'', ''OpenBaoEntity'',
      ''OpenBaoEntityAlias'', ''OpenBaoGroupAlias'', ''OpenBaoGroup'', ''OpenBaoPersona'',
      ''OpenBaoMFALoginEnforcement'', ''OpenBaoMFAMethod'', ''OpenBaoAuthMethod'',
      ''OpenBaoSecretEngine'', ''OpenBaoNamespace'', ''OpenBaoAuditDevice'',
      ''OpenBaoRateLimitQuota'', ''OpenBaoWorkflow'', ''OpenBaoPlugin'',
      ''OpenBaoCORSConfiguration'', ''OpenBaoAuditRequestHeader'', ''OpenBaoUIHeader'',
      ''OpenBaoRateLimitQuotaConfiguration'', ''OpenBaoLogger'',
      ''OpenBaoEncryptionKeyConfiguration'', ''OpenBaoKeyringRotationConfiguration'']"
  by (simp add: controllers_def setups)

lemma controllers_serve:
  "insert ''OpenBaoGroupMembership'' (set (map cs_For (controllers R))) = servedKinds"
  unfolding controllers_For servedKinds_def by code_simp

lemma controllers_watch:
  "set (map watchedKind (concat (map cs_Watches (controllers R)))) \<subseteq> insert ''Secret'' servedKinds"
  unfolding controllers_serve [of R, symmetric]
  by (simp add: controllers_def setups watchedKind_def)

lemma wp_orExit:
  assumes "\<And>s' err. Q 1 (s', tr @ [ev (Some err)])" "\<And>s'. wp next Q (s', tr @ [ev None])"
  shows "wp (orExit (logged ev m) next) Q (s, tr)"
  unfolding orExit_def wp_bind
proof (rule wp_loggedI)
  fix r s'
  show "wp (case r of None \<Rightarrow> next | Some err \<Rightarrow> ret 1) Q (s', tr @ [ev r])"
    using assms by (cases r) (simp_all add: wp_simps)
qed

lemma wp_orExitI: "wp m (\<lambda>e. case e of Some err \<Rightarrow> Q 1 | None \<Rightarrow> wp next Q) s \<Longrightarrow> wp (orExit m next) Q s"
  unfolding orExit_def wp_bind
  by (erule wp_mono) (simp add: wp_simps split: option.splits)

lemma wp_registerControllers:
  assumes "\<And>s' err es. list_all isCompletion es \<Longrightarrow> Q (Some err) (s', tr @ es)"
    and "\<And>s'. Q None (s', tr @ map (\<lambda>c. Completed (cs_Named c) None) cs)"
  shows "wp (registerControllers (logManager M) cs) Q (s, tr)"
  using assms
proof (induction cs arbitrary: s tr)
  case (Cons c cs)
  show ?case
      unfolding registerControllers.simps logManager_sel wp_bind
  proof (rule wp_loggedI)
    fix r s'
    let ?ev = "Completed (cs_Named c) r"
    show "wp (case r of None \<Rightarrow> registerControllers (logManager M) cs | Some err \<Rightarrow> ret (Some err)) Q (s', tr @ [?ev])"
    proof (cases r)
      case None
      have "wp (registerControllers (logManager M) cs) Q (s', tr @ [?ev])"
        using Cons.prems(1) [of "?ev # _"] Cons.prems(2) None by (intro Cons.IH) simp_all
      then show ?thesis by (simp add: None)
    qed (use Cons.prems(1) [of "[?ev]"] in \<open>simp add: wp_simps\<close>)
  qed
qed (simp add: wp_simps)

text \<open>What \<^verbatim>\<open>main\<close> may have done when it returns a code.\<close>

definition configuredAs ::
  "(string \<Rightarrow> string list) \<Rightarrow> ForeignFlags \<Rightarrow> string list \<Rightarrow> ManagerOptions \<Rightarrow> bool" where
  "configuredAs isDNS1123Label foreign args opts \<longleftrightarrow>
     (\<exists>f cacheOptions. parseFlags foreign args defaultFlags = Inr f \<and>
        CacheOptionsForWatchNamespaces isDNS1123Label (of_watchNamespaces f) = Inr cacheOptions \<and>
        opts = managerOptions f cacheOptions)"

definition startedAs ::
  "(string \<Rightarrow> string list) \<Rightarrow> ForeignFlags \<Rightarrow> 's Reconcilers \<Rightarrow> string list \<Rightarrow> int \<Rightarrow> ManagerEvent list \<Rightarrow> bool" where
  "startedAs isDNS1123Label foreign R args code tr \<longleftrightarrow>
     (\<forall>opts e. MadeManager opts e \<in> set tr \<longrightarrow> configuredAs isDNS1123Label foreign args opts) \<and>
     (if list_ex isStart tr then (\<exists>opts e. tr = fullStart opts R e \<and> code = (if e = None then 0 else 1))
      else code = 0 \<longleftrightarrow> parseFlags foreign args defaultFlags = Inl HelpRequested)"

lemma operatorMain_startedAs:
  "wp (operatorMain d foreign (logManager M) R args) (\<lambda>code (s', tr). startedAs d foreign R args code tr) (s, [])"
proof (cases "parseFlags foreign args defaultFlags")
  case (Inl e)
  then show ?thesis by (cases e) (simp_all add: operatorMain_def wp_simps startedAs_def flagExitCode_def)
next
  case f: (Inr f)
  show ?thesis
  proof (cases "CacheOptionsForWatchNamespaces d (of_watchNamespaces f)")
    case (Inl err)
    then show ?thesis by (simp add: operatorMain_def wp_simps startedAs_def f)
  next
    case c: (Inr cacheOptions)
    let ?opts = "managerOptions f cacheOptions"
    let ?ok = "\<lambda>e. case e of MadeManager opts r \<Rightarrow> opts = ?opts | Started r \<Rightarrow> False | _ \<Rightarrow> True"
    have conf: "configuredAs d foreign args ?opts" using f c by (auto simp: configuredAs_def)
    have failed: "startedAs d foreign R args 1 es" if "list_all ?ok es" for es
    proof -
      have "opts = ?opts" if "MadeManager opts r \<in> set es" for opts r
        using \<open>list_all ?ok es\<close> that by (auto simp: list_all_iff)
      moreover have "\<not> list_ex isStart es"
        using that by (auto simp: list_all_iff list_ex_iff isStart_def split: ManagerEvent.splits)
      ultimately show ?thesis using conf f by (auto simp: startedAs_def)
    qed
    let ?regs = "map (\<lambda>c. Completed (cs_Named c) None) (controllers R)"
    have regs: "list_all ?ok ?regs" by (simp add: list_all_iff)
    have regs': "list_all ?ok es" if "list_all isCompletion es" for es
      using that by (auto simp: list_all_iff isCompletion_def split: ManagerEvent.splits)
    have started: "startedAs d foreign R args (if e = None then 0 else 1) (fullStart ?opts R e)" for e
      using conf by (auto simp: startedAs_def fullStart_def)
    show ?thesis
      unfolding operatorMain_def f c sum.case logManager_sel
    proof (rule wp_orExit, simp add: failed, rule wp_orExit, simp add: failed, rule wp_orExitI, rule wp_registerControllers, goal_cases)
      case (1 s1 s2 s3 err es)
      then show ?case by (simp add: failed regs')
    next
      case (2 s1 s2 s3)
      show ?case
        by (simp, rule wp_orExit, simp add: failed regs, rule wp_orExit, simp add: failed regs, rule wp_orExit)
           (use started [of None] started [of "Some _"] in \<open>simp_all add: fullStart_def wp_simps\<close>)
    qed
  qed
qed

text \<open>A manager whose calls all succeed, given two namespaces to watch.\<close>

definition quietManager :: "(unit, unit) Manager" where
  "quietManager = \<lparr>mg_GetConfig = ret None, mg_New = (\<lambda>_. ret None), mg_Complete = (\<lambda>_. ret None),
     mg_AddHealthzCheck = (\<lambda>_. ret None), mg_AddReadyzCheck = (\<lambda>_. ret None), mg_Start = ret None\<rparr>"

lemma quietManager_sel:
  "mg_GetConfig quietManager = ret None" "mg_New quietManager opts = ret None" "mg_Complete quietManager c = ret None"
  "mg_AddHealthzCheck quietManager n = ret None" "mg_AddReadyzCheck quietManager n = ret None" "mg_Start quietManager = ret None"
  by (simp_all add: quietManager_def)

definition exampleArgs :: "string list" where
  "exampleArgs = [''--leader-elect'', ''-watch-namespaces'', ''b, a'', ''--metrics-cert-path=/certs'', ''rest'', ''--bad'']"

lemma registerControllers_quiet:
  "run_state (registerControllers (logManager quietManager) cs) (s, tr) =
     (None, (s, tr @ map (\<lambda>c. Completed (cs_Named c) None) cs))"
  by (induction cs arbitrary: tr) (simp_all add: quietManager_sel)

lemma exampleArgs_flags:
  "parseFlags [] exampleArgs defaultFlags =
     Inr (defaultFlags\<lparr>of_enableLeaderElection := True, of_watchNamespaces := ''b, a'', of_metricsCertPath := ''/certs''\<rparr>)"
  by (simp add: exampleArgs_def flagSyntax_def Let_def formalFlag_def operatorFlags_def boolFlag_def stringFlag_def
      ParseBool_def)

lemma exampleArgs_cache:
  "CacheOptionsForWatchNamespaces (\<lambda>_. []) ''b, a'' = Inr (Some {|''a'', ''b''|})"
  by (simp add: CacheOptionsForWatchNamespaces_def ParseWatchNamespaces_def TrimSpace_def TrimLeftFunc_def
      TrimRightFunc_def IsSpace_def Let_def elems_def insert_commute)


end
